(* ===== verification/PK_Prelude.thy ===== *)
theory PK_Prelude
  imports Main "HOL-Library.Word"
begin

text \<open>
  Prelude of the PackageKit development: the reading of C strings and of the GLib string
  functions that the daemon calls, generic lemmas on lists and words, and the collections of
  facts that the component theories share.

  A \<open>string\<close> is the sequence of bytes of a C string before its terminating NUL, so
  \<open>text[i] == '\0'\<close> at the first \<open>i\<close> with \<open>i = length text\<close>. Where the code distinguishes a
  \<open>NULL\<close> pointer the model uses \<open>string option\<close>. GLib is the base library of the program;
  the functions of this theory whose names start with \<open>g_\<close> give the documented result of the
  GLib function of that name for the argument shapes that the program uses.
\<close>

section \<open>Collections shared by the components\<close>

named_theorems pk_bit_simps \<open>facts that evaluate the bits of a bitfield\<close>
named_theorems pk_str_simps \<open>facts that evaluate the string functions\<close>
named_theorems pk_frame \<open>fields that an operation leaves unchanged\<close>

section \<open>Machine integers\<close>

type_synonym guint = "32 word"
type_synonym guint64 = "64 word"

definition G_MAXUINT :: guint where
  "G_MAXUINT = 4294967295"

definition G_MAXINT :: int where
  "G_MAXINT = 2147483647"

definition G_MININT :: int where
  "G_MININT = - 2147483648"

section \<open>String comparison and delimiters\<close>

fun g_str_has_prefix :: "string \<Rightarrow> string \<Rightarrow> bool" where
  "g_str_has_prefix s [] = True"
| "g_str_has_prefix [] (p # ps) = False"
| "g_str_has_prefix (c # s) (p # ps) = (c = p \<and> g_str_has_prefix s ps)"

definition g_str_has_suffix :: "string \<Rightarrow> string \<Rightarrow> bool" where
  "g_str_has_suffix s t = g_str_has_prefix (rev s) (rev t)"

text \<open>\<open>strstr (s, t) != NULL\<close>.\<close>

fun strstr_found :: "string \<Rightarrow> string \<Rightarrow> bool" where
  "strstr_found [] t = (t = [])"
| "strstr_found (c # s) t = (g_str_has_prefix (c # s) t \<or> strstr_found s t)"

definition g_strdelimit :: "string \<Rightarrow> string \<Rightarrow> char \<Rightarrow> string" where
  "g_strdelimit s delims r = map (\<lambda>c. if c \<in> set delims then r else c) s"

lemma g_str_has_prefix_iff: "g_str_has_prefix s p \<longleftrightarrow> (\<exists>r. s = p @ r)"
  by (induction s p rule: g_str_has_prefix.induct) auto

lemma g_str_has_suffix_iff: "g_str_has_suffix s p \<longleftrightarrow> (\<exists>r. s = r @ p)"
proof -
  have "g_str_has_suffix s p \<longleftrightarrow> (\<exists>r. rev s = rev p @ r)"
    by (simp add: g_str_has_suffix_def g_str_has_prefix_iff)
  also have "\<dots> \<longleftrightarrow> (\<exists>r. s = r @ p)"
    by (metis rev_append rev_rev_ident)
  finally show ?thesis .
qed

lemma strstr_found_single: "strstr_found s [c] \<longleftrightarrow> c \<in> set s"
  by (induction s) auto

lemma g_strdelimit_set:
  "r \<notin> set delims \<Longrightarrow> set (g_strdelimit s delims r) \<inter> set delims = {}"
  by (auto simp: g_strdelimit_def)

lemma g_strdelimit_length [simp]: "length (g_strdelimit s delims r) = length s"
  by (simp add: g_strdelimit_def)

lemma g_strdelimit_unchanged: "set s \<inter> set delims = {} \<Longrightarrow> g_strdelimit s delims r = s"
  by (auto simp: g_strdelimit_def intro!: map_idI)

section \<open>Splitting and joining\<close>

text \<open>
  \<open>split_on d s\<close> cuts \<open>s\<close> at every \<open>d\<close>; \<open>g_strsplit\<close> with \<open>max_tokens < 1\<close> is the same
  except that the empty string has no part at all. \<open>split_at_most k d s\<close> cuts at the
  first \<open>k\<close> delimiters only.
\<close>

fun split_on :: "char \<Rightarrow> string \<Rightarrow> string list" where
  "split_on d [] = [[]]"
| "split_on d (c # cs) =
     (if c = d then [] # split_on d cs
      else (case split_on d cs of [] \<Rightarrow> [[c]] | w # ws \<Rightarrow> (c # w) # ws))"

definition g_strsplit :: "char \<Rightarrow> string \<Rightarrow> string list" where
  "g_strsplit d s = (if s = [] then [] else split_on d s)"

fun split_at_most :: "nat \<Rightarrow> char \<Rightarrow> string \<Rightarrow> string list" where
  "split_at_most 0 d s = [s]"
| "split_at_most (Suc k) d s =
     (case dropWhile (\<lambda>c. c \<noteq> d) s of
        [] \<Rightarrow> [s]
      | _ # r \<Rightarrow> takeWhile (\<lambda>c. c \<noteq> d) s # split_at_most k d r)"

definition g_strsplit_max :: "char \<Rightarrow> nat \<Rightarrow> string \<Rightarrow> string list" where
  "g_strsplit_max d n s = (if s = [] then [] else split_at_most (n - 1) d s)"

fun g_strjoinv :: "string \<Rightarrow> string list \<Rightarrow> string" where
  "g_strjoinv sep [] = []"
| "g_strjoinv sep [w] = w"
| "g_strjoinv sep (w # v # ws) = w @ sep @ g_strjoinv sep (v # ws)"

lemma split_on_not_Nil [simp]: "split_on d s \<noteq> []"
  by (induction s) (auto split: list.splits)

lemma g_strsplit_Nil_iff [simp]: "g_strsplit d s = [] \<longleftrightarrow> s = []"
  by (simp add: g_strsplit_def)

lemma split_on_no_delim: "w \<in> set (split_on d s) \<Longrightarrow> d \<notin> set w"
  by (induction s arbitrary: w) (auto split: if_splits list.splits)

lemma split_on_id: "d \<notin> set s \<Longrightarrow> split_on d s = [s]"
  by (induction s) auto

lemma length_split_on: "length (split_on d s) = Suc (count_list s d)"
  by (induction s) (auto split: list.splits)

lemma split_on_append:
  "d \<notin> set w \<Longrightarrow> split_on d (w @ d # s) = w # split_on d s"
  by (induction w) auto

lemma g_strjoinv_Cons:
  "ws \<noteq> [] \<Longrightarrow> g_strjoinv sep (w # ws) = w @ sep @ g_strjoinv sep ws"
  by (cases ws) auto

lemma joinv_split_on: "g_strjoinv [d] (split_on d s) = s"
proof (induction s)
  case Nil
  then show ?case by simp
next
  case (Cons c cs)
  obtain w ws where w: "split_on d cs = w # ws"
    by (cases "split_on d cs") auto
  show ?case
  proof (cases "c = d")
    case True
    with Cons w show ?thesis by simp
  next
    case False
    with Cons w show ?thesis by (cases ws) auto
  qed
qed

lemma split_on_joinv:
  assumes "ws \<noteq> []" and "\<forall>w \<in> set ws. d \<notin> set w"
  shows "split_on d (g_strjoinv [d] ws) = ws"
  using assms
proof (induction ws)
  case Nil
  then show ?case by simp
next
  case (Cons w ws)
  show ?case
  proof (cases "ws = []")
    case True
    with Cons.prems show ?thesis by (simp add: split_on_id)
  next
    case False
    with Cons show ?thesis by (simp add: g_strjoinv_Cons split_on_append)
  qed
qed

lemma g_strsplit_joinv:
  "ws \<noteq> [] \<Longrightarrow> \<forall>w \<in> set ws. d \<notin> set w \<Longrightarrow> ws \<noteq> [[]] \<Longrightarrow>
   g_strsplit d (g_strjoinv [d] ws) = ws"
  unfolding g_strsplit_def
  by (metis split_on.simps(1) split_on_joinv)

text \<open>The loop \<open>append "%s;"; drop the last byte\<close> that the code uses to join.\<close>

lemma butlast_concat_sep:
  "ws \<noteq> [] \<Longrightarrow> butlast (concat (map (\<lambda>w. w @ [d]) ws)) = g_strjoinv [d] ws"
proof (induction ws)
  case Nil
  then show ?case by simp
next
  case (Cons w ws)
  show ?case
  proof (cases "ws = []")
    case False
    then have "concat (map (\<lambda>w. w @ [d]) ws) \<noteq> []" by (cases ws) auto
    with False Cons.IH show ?thesis by (simp add: butlast_append g_strjoinv_Cons)
  qed simp
qed

section \<open>UTF-8\<close>

text \<open>\<open>g_utf8_validate (s, -1, NULL)\<close>: the byte sequences of RFC 3629.\<close>

definition utf8_cont :: "nat \<Rightarrow> bool" where
  "utf8_cont b = (128 \<le> b \<and> b \<le> 191)"

fun utf8_bytes_ok :: "nat list \<Rightarrow> bool" where
  "utf8_bytes_ok [] = True"
| "utf8_bytes_ok (a # bs) =
     (if a < 128 then utf8_bytes_ok bs
      else if 194 \<le> a \<and> a \<le> 223 then
        (case bs of b # r \<Rightarrow> utf8_cont b \<and> utf8_bytes_ok r | _ \<Rightarrow> False)
      else if 224 \<le> a \<and> a \<le> 239 then
        (case bs of b # c # r \<Rightarrow>
           utf8_cont b \<and> (a = 224 \<longrightarrow> 160 \<le> b) \<and> (a = 237 \<longrightarrow> b \<le> 159) \<and> utf8_cont c \<and>
           utf8_bytes_ok r
         | _ \<Rightarrow> False)
      else if 240 \<le> a \<and> a \<le> 244 then
        (case bs of b # c # e # r \<Rightarrow>
           utf8_cont b \<and> (a = 240 \<longrightarrow> 144 \<le> b) \<and> (a = 244 \<longrightarrow> b \<le> 143) \<and> utf8_cont c \<and>
           utf8_cont e \<and> utf8_bytes_ok r
         | _ \<Rightarrow> False)
      else False)"

definition g_utf8_validate :: "string \<Rightarrow> bool" where
  "g_utf8_validate s = utf8_bytes_ok (map of_char s)"

lemma utf8_bytes_ascii: "\<forall>b \<in> set bs. b < 128 \<Longrightarrow> utf8_bytes_ok bs"
  by (induction bs) auto

lemma g_utf8_validate_ascii:
  "\<forall>c \<in> set s. (of_char c :: nat) < 128 \<Longrightarrow> g_utf8_validate s"
  by (simp add: g_utf8_validate_def utf8_bytes_ascii)

section \<open>Numbers in text\<close>

text \<open>
  The common part of \<open>g_ascii_strtoll\<close> and \<open>g_ascii_strtoull\<close> in base 10: leading white
  space, an optional sign, digits. \<open>None\<close> is the case \<open>endptr == text\<close>; otherwise the sign
  and the magnitude of the longest digit prefix (trailing text is not looked at).
\<close>

definition g_ascii_isspace :: "char \<Rightarrow> bool" where
  "g_ascii_isspace c = ((of_char c :: nat) \<in> {9, 10, 11, 12, 13, 32})"

definition g_ascii_isdigit :: "char \<Rightarrow> bool" where
  "g_ascii_isdigit c = (48 \<le> (of_char c :: nat) \<and> (of_char c :: nat) \<le> 57)"

definition digits_value :: "string \<Rightarrow> nat" where
  "digits_value ds = foldl (\<lambda>n c. 10 * n + ((of_char c :: nat) - 48)) 0 ds"

definition g_parse_number :: "string \<Rightarrow> (bool \<times> nat) option" where
  "g_parse_number text =
     (let s = dropWhile g_ascii_isspace text;
          neg = (case s of c # _ \<Rightarrow> c = CHR ''-'' | [] \<Rightarrow> False);
          body = (case s of c # r \<Rightarrow> if c = CHR ''-'' \<or> c = CHR ''+'' then r else s | [] \<Rightarrow> []);
          ds = takeWhile g_ascii_isdigit body
      in if ds = [] then None else Some (neg, digits_value ds))"

definition g_ascii_strtoll :: "string \<Rightarrow> int option" where
  "g_ascii_strtoll text =
     (case g_parse_number text of
        None \<Rightarrow> None
      | Some (neg, n) \<Rightarrow>
          Some (if neg then max (- (2 ^ 63)) (- int n) else min (2 ^ 63 - 1) (int n)))"

definition g_ascii_strtoull :: "string \<Rightarrow> guint64 option" where
  "g_ascii_strtoull text =
     (case g_parse_number text of
        None \<Rightarrow> None
      | Some (neg, n) \<Rightarrow>
          Some (if 2 ^ 64 - 1 < n then - 1 else if neg then - of_nat n else of_nat n))"

text \<open>\<open>printf\<close> of a decimal number.\<close>

definition digit_char :: "nat \<Rightarrow> char" where
  "digit_char d = char_of (48 + d)"

fun string_of_nat :: "nat \<Rightarrow> string" where
  "string_of_nat n =
     (if n < 10 then [digit_char n] else string_of_nat (n div 10) @ [digit_char (n mod 10)])"

declare string_of_nat.simps [simp del]

definition string_of_int :: "int \<Rightarrow> string" where
  "string_of_int i = (if i < 0 then CHR ''-'' # string_of_nat (nat (- i)) else string_of_nat (nat i))"

text \<open>\<open>%i\<close> of a \<open>guint\<close> prints its bits as a signed number, \<open>%u\<close> as an unsigned one.\<close>

definition fmt_i :: "guint \<Rightarrow> string" where
  "fmt_i w = string_of_int (sint w)"

definition fmt_u :: "guint \<Rightarrow> string" where
  "fmt_u w = string_of_nat (unat w)"

section \<open>Lists\<close>

text \<open>The position of an element: how the enumerators of a C enum are numbered.\<close>

fun pos :: "'a list \<Rightarrow> 'a \<Rightarrow> nat" where
  "pos [] y = 0"
| "pos (x # xs) y = (if x = y then 0 else Suc (pos xs y))"

lemma pos_less: "y \<in> set xs \<Longrightarrow> pos xs y < length xs"
  by (induction xs) auto

lemma nth_pos: "y \<in> set xs \<Longrightarrow> xs ! pos xs y = y"
  by (induction xs) auto

lemma pos_nth: "distinct xs \<Longrightarrow> i < length xs \<Longrightarrow> pos xs (xs ! i) = i"
  by (induction xs arbitrary: i) (auto simp: nth_Cons split: nat.splits)

lemma pos_inj: "y \<in> set xs \<Longrightarrow> z \<in> set xs \<Longrightarrow> pos xs y = pos xs z \<Longrightarrow> y = z"
  by (metis nth_pos)

lemma map_pos_distinct: "distinct xs \<Longrightarrow> map (pos xs) xs = [0..<length xs]"
  by (rule nth_equalityI) (auto simp: pos_nth)

lemma takeWhile_neq_last:
  assumes "distinct xs" and "xs \<noteq> []"
  shows "takeWhile (\<lambda>x. x \<noteq> last xs) xs = butlast xs"
proof -
  have "takeWhile (\<lambda>x. x \<noteq> z) (ys @ [z]) = ys" if "z \<notin> set ys" for z :: 'a and ys
    using that by (induction ys) auto
  with assms show ?thesis
    by (metis append_butlast_last_id distinct.simps(2) distinct_rev rev.simps(2) rev_rev_ident set_rev)
qed

lemma pos_last: "distinct xs \<Longrightarrow> xs \<noteq> [] \<Longrightarrow> pos xs (last xs) = length xs - 1"
  by (metis One_nat_def diff_less last_conv_nth length_greater_0_conv pos_nth zero_less_one)

lemma find_Some_in: "List.find P xs = Some x \<Longrightarrow> x \<in> set xs \<and> P x"
  by (auto simp: find_Some_iff)

lemma find_None_all: "List.find P xs = None \<longleftrightarrow> (\<forall>x \<in> set xs. \<not> P x)"
  by (auto simp: find_None_iff)

end
