(* ===== verification/PK_Shared.thy ===== *)
theory PK_Shared
  imports PK_Prelude
begin

text \<open>
  The small helpers of \<open>src/src/pk-shared.c\<close>: the tri-state hint, the safe string to number
  conversions and the bounded string length. The directory and introspection helpers of the
  file are pure I/O and are not modelled.
\<close>

section \<open>Hints\<close>

datatype PkHintEnum =
    PK_HINT_ENUM_FALSE | PK_HINT_ENUM_TRUE | PK_HINT_ENUM_UNSET | PK_HINT_ENUM_INVALID
  | PK_HINT_ENUM_LAST

definition pk_hint_enum_to_string :: "PkHintEnum \<Rightarrow> string option" where
  "pk_hint_enum_to_string hint =
     (if hint = PK_HINT_ENUM_FALSE then Some ''false''
      else if hint = PK_HINT_ENUM_TRUE then Some ''true''
      else if hint = PK_HINT_ENUM_UNSET then Some ''unset''
      else None)"

definition pk_hint_enum_from_string :: "string option \<Rightarrow> PkHintEnum" where
  "pk_hint_enum_from_string hint =
     (if hint = Some ''false'' then PK_HINT_ENUM_FALSE
      else if hint = Some ''true'' then PK_HINT_ENUM_TRUE
      else if hint = Some ''unset'' then PK_HINT_ENUM_UNSET
      else PK_HINT_ENUM_UNSET)"

lemma pk_hint_never_invalid:
  "pk_hint_enum_from_string s \<in> {PK_HINT_ENUM_FALSE, PK_HINT_ENUM_TRUE, PK_HINT_ENUM_UNSET}"
  by (simp add: pk_hint_enum_from_string_def)

lemma pk_hint_round_trip:
  "pk_hint_enum_to_string h = Some s \<Longrightarrow> pk_hint_enum_from_string (Some s) = h"
  by (cases h) (auto simp: pk_hint_enum_to_string_def pk_hint_enum_from_string_def)

section \<open>Numbers\<close>

text \<open>
  Each conversion returns \<open>None\<close> for \<open>FALSE\<close>. \<open>pk_strtouint64\<close> writes its result before
  it looks at the end pointer, so its first component is the value that \<open>*value\<close> holds
  afterwards: \<open>None\<close> when it is not written.
\<close>

definition pk_strtoint :: "string option \<Rightarrow> int option" where
  "pk_strtoint text =
     (case text of
        None \<Rightarrow> None
      | Some t \<Rightarrow>
          (case g_ascii_strtoll t of
             None \<Rightarrow> None
           | Some value_raw \<Rightarrow>
               if G_MAXINT < value_raw \<or> value_raw < G_MININT then None else Some value_raw))"

definition pk_strtouint64 :: "string option \<Rightarrow> guint64 option \<times> bool" where
  "pk_strtouint64 text =
     (case text of
        None \<Rightarrow> (None, False)
      | Some t \<Rightarrow>
          (case g_ascii_strtoull t of
             None \<Rightarrow> (Some 0, False)
           | Some v \<Rightarrow> (Some v, True)))"

definition pk_strtouint :: "string option \<Rightarrow> guint option" where
  "pk_strtouint text =
     (case pk_strtouint64 text of
        (Some value_raw, True) \<Rightarrow>
          if ucast G_MAXUINT < value_raw then None else Some (ucast value_raw)
      | _ \<Rightarrow> None)"

lemma pk_strtoint_bounds:
  "pk_strtoint text = Some n \<Longrightarrow> G_MININT \<le> n \<and> n \<le> G_MAXINT"
  by (auto simp: pk_strtoint_def split: option.splits if_splits)

lemma pk_strtouint_exact:
  "pk_strtouint text = Some n \<longleftrightarrow>
   (\<exists>v. pk_strtouint64 text = (Some v, True) \<and> unat v < 2 ^ 32 \<and> unat n = unat v)"
proof -
  have le: "\<not> ucast G_MAXUINT < (v :: guint64) \<longleftrightarrow> unat v < 2 ^ 32" for v
    by (simp add: G_MAXUINT_def word_less_nat_alt not_less) linarith
  have "unat (ucast v :: guint) = unat v" if "unat v < 2 ^ 32" for v :: guint64
    using that by (simp add: unsigned_ucast_eq take_bit_nat_eq_self)
  then have "Some (ucast v :: guint) = Some n \<longleftrightarrow> unat n = unat v" if "unat v < 2 ^ 32" for v :: guint64
    using that by (metis option.inject word_unat_eq_iff)
  with le show ?thesis
    by (auto simp: pk_strtouint_def split: prod.splits option.splits bool.splits)
qed

section \<open>Lengths\<close>

definition pk_strzero :: "string option \<Rightarrow> bool" where
  "pk_strzero text =
     (case text of None \<Rightarrow> True | Some t \<Rightarrow> if t = [] then True else False)"

text \<open>The counter stays below \<open>len\<close>, a \<open>guint\<close>, so it never wraps.\<close>

function strlen_loop :: "string \<Rightarrow> nat \<Rightarrow> nat \<Rightarrow> nat" where
  "strlen_loop text len i =
     (if i < len then (if i = length text then i else strlen_loop text len (Suc i)) else i)"
  by pat_completeness auto
termination by (relation "measure (\<lambda>(text, len, i). len - i)") auto

declare strlen_loop.simps [simp del]

definition pk_strlen :: "string option \<Rightarrow> nat \<Rightarrow> nat" where
  "pk_strlen text len =
     (case text of
        None \<Rightarrow> 0
      | Some t \<Rightarrow> if t = [] then 0 else strlen_loop t len 1)"

lemma strlen_loop_min:
  "i \<le> length t \<Longrightarrow> strlen_loop t len i = max i (min len (length t))"
proof (induction t len i rule: strlen_loop.induct)
  case (1 t len i)
  show ?case
  proof (cases "i < len \<and> i \<noteq> length t")
    case True
    with 1(2) have "Suc i \<le> length t" by (metis Suc_leI le_neq_implies_less)
    from 1(1) [OF _ _ this] True
    have "strlen_loop t len (Suc i) = max (Suc i) (min len (length t))" by blast
    with True 1(2) show ?thesis by (simp add: strlen_loop.simps [of t len i])
  next
    case False
    with 1(2) show ?thesis by (auto simp: strlen_loop.simps [of t len i])
  qed
qed

lemma pk_strlen_eq:
  "pk_strlen text len =
     (case text of None \<Rightarrow> 0 | Some t \<Rightarrow> if t = [] then 0 else max 1 (min len (length t)))"
  by (auto simp: pk_strlen_def strlen_loop_min Suc_le_eq split: option.split)

lemma pk_strlen_le: "1 \<le> len \<Longrightarrow> pk_strlen text len \<le> len"
  by (auto simp: pk_strlen_eq split: option.splits)

lemma pk_strlen_short: "length t < len \<Longrightarrow> pk_strlen (Some t) len = length t"
  by (cases t) (simp_all add: pk_strlen_eq)

end
