(* ===== verification/PK_Enum.thy ===== *)
theory PK_Enum
  imports PK_Shared
begin

text \<open>
  The enumerations of \<open>src/lib/packagekit-glib2/pk-enum.h\<close> and their text forms
  (\<open>pk-enum.c\<close>). Each C enum is a datatype with the source's enumerators, its \<open>_LAST\<close>
  sentinel included; the class \<open>enum\<close> lists them in declared order, so \<open>enum_value\<close> is
  the integer that the compiler gives an enumerator. The locale \<open>enum_table\<close> is the contract of
  a table of pk-enum.c; it is interpreted on each of the seventeen tables, and the round
  trips of the conversions rest on it.
\<close>

section \<open>The enumerations of pk-enum.h\<close>

datatype PkRoleEnum =
    PK_ROLE_ENUM_UNKNOWN | PK_ROLE_ENUM_CANCEL | PK_ROLE_ENUM_GET_DEPENDS
  | PK_ROLE_ENUM_GET_DETAILS | PK_ROLE_ENUM_GET_FILES | PK_ROLE_ENUM_GET_PACKAGES
  | PK_ROLE_ENUM_GET_REPO_LIST | PK_ROLE_ENUM_GET_REQUIRES | PK_ROLE_ENUM_GET_UPDATE_DETAIL
  | PK_ROLE_ENUM_GET_UPDATES | PK_ROLE_ENUM_INSTALL_FILES | PK_ROLE_ENUM_INSTALL_PACKAGES
  | PK_ROLE_ENUM_INSTALL_SIGNATURE | PK_ROLE_ENUM_REFRESH_CACHE | PK_ROLE_ENUM_REMOVE_PACKAGES
  | PK_ROLE_ENUM_REPO_ENABLE | PK_ROLE_ENUM_REPO_SET_DATA | PK_ROLE_ENUM_RESOLVE
  | PK_ROLE_ENUM_ROLLBACK | PK_ROLE_ENUM_SEARCH_DETAILS | PK_ROLE_ENUM_SEARCH_FILE
  | PK_ROLE_ENUM_SEARCH_GROUP | PK_ROLE_ENUM_SEARCH_NAME | PK_ROLE_ENUM_UPDATE_PACKAGES
  | PK_ROLE_ENUM_UPDATE_SYSTEM | PK_ROLE_ENUM_WHAT_PROVIDES | PK_ROLE_ENUM_ACCEPT_EULA
  | PK_ROLE_ENUM_DOWNLOAD_PACKAGES | PK_ROLE_ENUM_GET_DISTRO_UPGRADES
  | PK_ROLE_ENUM_GET_CATEGORIES | PK_ROLE_ENUM_GET_OLD_TRANSACTIONS
  | PK_ROLE_ENUM_SIMULATE_INSTALL_FILES | PK_ROLE_ENUM_SIMULATE_INSTALL_PACKAGES
  | PK_ROLE_ENUM_SIMULATE_REMOVE_PACKAGES | PK_ROLE_ENUM_SIMULATE_UPDATE_PACKAGES
  | PK_ROLE_ENUM_UPGRADE_SYSTEM | PK_ROLE_ENUM_REPAIR_SYSTEM
  | PK_ROLE_ENUM_SIMULATE_REPAIR_SYSTEM | PK_ROLE_ENUM_LAST

datatype PkStatusEnum =
    PK_STATUS_ENUM_UNKNOWN | PK_STATUS_ENUM_WAIT | PK_STATUS_ENUM_SETUP | PK_STATUS_ENUM_RUNNING
  | PK_STATUS_ENUM_QUERY | PK_STATUS_ENUM_INFO | PK_STATUS_ENUM_REMOVE
  | PK_STATUS_ENUM_REFRESH_CACHE | PK_STATUS_ENUM_DOWNLOAD | PK_STATUS_ENUM_INSTALL
  | PK_STATUS_ENUM_UPDATE | PK_STATUS_ENUM_CLEANUP | PK_STATUS_ENUM_OBSOLETE
  | PK_STATUS_ENUM_DEP_RESOLVE | PK_STATUS_ENUM_SIG_CHECK | PK_STATUS_ENUM_ROLLBACK
  | PK_STATUS_ENUM_TEST_COMMIT | PK_STATUS_ENUM_COMMIT | PK_STATUS_ENUM_REQUEST
  | PK_STATUS_ENUM_FINISHED | PK_STATUS_ENUM_CANCEL | PK_STATUS_ENUM_DOWNLOAD_REPOSITORY
  | PK_STATUS_ENUM_DOWNLOAD_PACKAGELIST | PK_STATUS_ENUM_DOWNLOAD_FILELIST
  | PK_STATUS_ENUM_DOWNLOAD_CHANGELOG | PK_STATUS_ENUM_DOWNLOAD_GROUP
  | PK_STATUS_ENUM_DOWNLOAD_UPDATEINFO | PK_STATUS_ENUM_REPACKAGING
  | PK_STATUS_ENUM_LOADING_CACHE | PK_STATUS_ENUM_SCAN_APPLICATIONS
  | PK_STATUS_ENUM_GENERATE_PACKAGE_LIST | PK_STATUS_ENUM_WAITING_FOR_LOCK
  | PK_STATUS_ENUM_WAITING_FOR_AUTH | PK_STATUS_ENUM_SCAN_PROCESS_LIST
  | PK_STATUS_ENUM_CHECK_EXECUTABLE_FILES | PK_STATUS_ENUM_CHECK_LIBRARIES
  | PK_STATUS_ENUM_COPY_FILES | PK_STATUS_ENUM_LAST

datatype PkExitEnum =
    PK_EXIT_ENUM_UNKNOWN | PK_EXIT_ENUM_SUCCESS | PK_EXIT_ENUM_FAILED | PK_EXIT_ENUM_CANCELLED
  | PK_EXIT_ENUM_KEY_REQUIRED | PK_EXIT_ENUM_EULA_REQUIRED | PK_EXIT_ENUM_KILLED
  | PK_EXIT_ENUM_MEDIA_CHANGE_REQUIRED | PK_EXIT_ENUM_NEED_UNTRUSTED
  | PK_EXIT_ENUM_CANCELLED_PRIORITY | PK_EXIT_ENUM_SKIP_TRANSACTION
  | PK_EXIT_ENUM_REPAIR_REQUIRED | PK_EXIT_ENUM_LAST

datatype PkNetworkEnum =
    PK_NETWORK_ENUM_UNKNOWN | PK_NETWORK_ENUM_OFFLINE | PK_NETWORK_ENUM_ONLINE
  | PK_NETWORK_ENUM_WIRED | PK_NETWORK_ENUM_WIFI | PK_NETWORK_ENUM_MOBILE | PK_NETWORK_ENUM_LAST

datatype PkFilterEnum =
    PK_FILTER_ENUM_UNKNOWN | PK_FILTER_ENUM_NONE | PK_FILTER_ENUM_INSTALLED
  | PK_FILTER_ENUM_NOT_INSTALLED | PK_FILTER_ENUM_DEVELOPMENT | PK_FILTER_ENUM_NOT_DEVELOPMENT
  | PK_FILTER_ENUM_GUI | PK_FILTER_ENUM_NOT_GUI | PK_FILTER_ENUM_FREE | PK_FILTER_ENUM_NOT_FREE
  | PK_FILTER_ENUM_VISIBLE | PK_FILTER_ENUM_NOT_VISIBLE | PK_FILTER_ENUM_SUPPORTED
  | PK_FILTER_ENUM_NOT_SUPPORTED | PK_FILTER_ENUM_BASENAME | PK_FILTER_ENUM_NOT_BASENAME
  | PK_FILTER_ENUM_NEWEST | PK_FILTER_ENUM_NOT_NEWEST | PK_FILTER_ENUM_ARCH
  | PK_FILTER_ENUM_NOT_ARCH | PK_FILTER_ENUM_SOURCE | PK_FILTER_ENUM_NOT_SOURCE
  | PK_FILTER_ENUM_COLLECTIONS | PK_FILTER_ENUM_NOT_COLLECTIONS | PK_FILTER_ENUM_APPLICATION
  | PK_FILTER_ENUM_NOT_APPLICATION | PK_FILTER_ENUM_LAST

datatype PkRestartEnum =
    PK_RESTART_ENUM_UNKNOWN | PK_RESTART_ENUM_NONE | PK_RESTART_ENUM_APPLICATION
  | PK_RESTART_ENUM_SESSION | PK_RESTART_ENUM_SYSTEM | PK_RESTART_ENUM_SECURITY_SESSION
  | PK_RESTART_ENUM_SECURITY_SYSTEM | PK_RESTART_ENUM_LAST

datatype PkMessageEnum =
    PK_MESSAGE_ENUM_UNKNOWN | PK_MESSAGE_ENUM_BROKEN_MIRROR | PK_MESSAGE_ENUM_CONNECTION_REFUSED
  | PK_MESSAGE_ENUM_PARAMETER_INVALID | PK_MESSAGE_ENUM_PRIORITY_INVALID
  | PK_MESSAGE_ENUM_BACKEND_ERROR | PK_MESSAGE_ENUM_DAEMON_ERROR
  | PK_MESSAGE_ENUM_CACHE_BEING_REBUILT | PK_MESSAGE_ENUM_UNTRUSTED_PACKAGE
  | PK_MESSAGE_ENUM_NEWER_PACKAGE_EXISTS | PK_MESSAGE_ENUM_COULD_NOT_FIND_PACKAGE
  | PK_MESSAGE_ENUM_CONFIG_FILES_CHANGED | PK_MESSAGE_ENUM_PACKAGE_ALREADY_INSTALLED
  | PK_MESSAGE_ENUM_AUTOREMOVE_IGNORED | PK_MESSAGE_ENUM_REPO_METADATA_DOWNLOAD_FAILED
  | PK_MESSAGE_ENUM_REPO_FOR_DEVELOPERS_ONLY | PK_MESSAGE_ENUM_OTHER_UPDATES_HELD_BACK
  | PK_MESSAGE_ENUM_LAST

datatype PkErrorEnum =
    PK_ERROR_ENUM_UNKNOWN | PK_ERROR_ENUM_OOM | PK_ERROR_ENUM_NO_NETWORK
  | PK_ERROR_ENUM_NOT_SUPPORTED | PK_ERROR_ENUM_INTERNAL_ERROR | PK_ERROR_ENUM_GPG_FAILURE
  | PK_ERROR_ENUM_PACKAGE_ID_INVALID | PK_ERROR_ENUM_PACKAGE_NOT_INSTALLED
  | PK_ERROR_ENUM_PACKAGE_NOT_FOUND | PK_ERROR_ENUM_PACKAGE_ALREADY_INSTALLED
  | PK_ERROR_ENUM_PACKAGE_DOWNLOAD_FAILED | PK_ERROR_ENUM_GROUP_NOT_FOUND
  | PK_ERROR_ENUM_GROUP_LIST_INVALID | PK_ERROR_ENUM_DEP_RESOLUTION_FAILED
  | PK_ERROR_ENUM_FILTER_INVALID | PK_ERROR_ENUM_CREATE_THREAD_FAILED
  | PK_ERROR_ENUM_TRANSACTION_ERROR | PK_ERROR_ENUM_TRANSACTION_CANCELLED
  | PK_ERROR_ENUM_NO_CACHE | PK_ERROR_ENUM_REPO_NOT_FOUND
  | PK_ERROR_ENUM_CANNOT_REMOVE_SYSTEM_PACKAGE | PK_ERROR_ENUM_PROCESS_KILL
  | PK_ERROR_ENUM_FAILED_INITIALIZATION | PK_ERROR_ENUM_FAILED_FINALISE
  | PK_ERROR_ENUM_FAILED_CONFIG_PARSING | PK_ERROR_ENUM_CANNOT_CANCEL
  | PK_ERROR_ENUM_CANNOT_GET_LOCK | PK_ERROR_ENUM_NO_PACKAGES_TO_UPDATE
  | PK_ERROR_ENUM_CANNOT_WRITE_REPO_CONFIG | PK_ERROR_ENUM_LOCAL_INSTALL_FAILED
  | PK_ERROR_ENUM_BAD_GPG_SIGNATURE | PK_ERROR_ENUM_MISSING_GPG_SIGNATURE
  | PK_ERROR_ENUM_CANNOT_INSTALL_SOURCE_PACKAGE | PK_ERROR_ENUM_REPO_CONFIGURATION_ERROR
  | PK_ERROR_ENUM_NO_LICENSE_AGREEMENT | PK_ERROR_ENUM_FILE_CONFLICTS
  | PK_ERROR_ENUM_PACKAGE_CONFLICTS | PK_ERROR_ENUM_REPO_NOT_AVAILABLE
  | PK_ERROR_ENUM_INVALID_PACKAGE_FILE | PK_ERROR_ENUM_PACKAGE_INSTALL_BLOCKED
  | PK_ERROR_ENUM_PACKAGE_CORRUPT | PK_ERROR_ENUM_ALL_PACKAGES_ALREADY_INSTALLED
  | PK_ERROR_ENUM_FILE_NOT_FOUND | PK_ERROR_ENUM_NO_MORE_MIRRORS_TO_TRY
  | PK_ERROR_ENUM_NO_DISTRO_UPGRADE_DATA | PK_ERROR_ENUM_INCOMPATIBLE_ARCHITECTURE
  | PK_ERROR_ENUM_NO_SPACE_ON_DEVICE | PK_ERROR_ENUM_MEDIA_CHANGE_REQUIRED
  | PK_ERROR_ENUM_NOT_AUTHORIZED | PK_ERROR_ENUM_UPDATE_NOT_FOUND
  | PK_ERROR_ENUM_CANNOT_INSTALL_REPO_UNSIGNED | PK_ERROR_ENUM_CANNOT_UPDATE_REPO_UNSIGNED
  | PK_ERROR_ENUM_CANNOT_GET_FILELIST | PK_ERROR_ENUM_CANNOT_GET_REQUIRES
  | PK_ERROR_ENUM_CANNOT_DISABLE_REPOSITORY | PK_ERROR_ENUM_RESTRICTED_DOWNLOAD
  | PK_ERROR_ENUM_PACKAGE_FAILED_TO_CONFIGURE | PK_ERROR_ENUM_PACKAGE_FAILED_TO_BUILD
  | PK_ERROR_ENUM_PACKAGE_FAILED_TO_INSTALL | PK_ERROR_ENUM_PACKAGE_FAILED_TO_REMOVE
  | PK_ERROR_ENUM_UPDATE_FAILED_DUE_TO_RUNNING_PROCESS | PK_ERROR_ENUM_PACKAGE_DATABASE_CHANGED
  | PK_ERROR_ENUM_PROVIDE_TYPE_NOT_SUPPORTED | PK_ERROR_ENUM_INSTALL_ROOT_INVALID
  | PK_ERROR_ENUM_CANNOT_FETCH_SOURCES | PK_ERROR_ENUM_CANCELLED_PRIORITY
  | PK_ERROR_ENUM_UNFINISHED_TRANSACTION | PK_ERROR_ENUM_LAST

datatype PkGroupEnum =
    PK_GROUP_ENUM_UNKNOWN | PK_GROUP_ENUM_ACCESSIBILITY | PK_GROUP_ENUM_ACCESSORIES
  | PK_GROUP_ENUM_ADMIN_TOOLS | PK_GROUP_ENUM_COMMUNICATION | PK_GROUP_ENUM_DESKTOP_GNOME
  | PK_GROUP_ENUM_DESKTOP_KDE | PK_GROUP_ENUM_DESKTOP_OTHER | PK_GROUP_ENUM_DESKTOP_XFCE
  | PK_GROUP_ENUM_EDUCATION | PK_GROUP_ENUM_FONTS | PK_GROUP_ENUM_GAMES | PK_GROUP_ENUM_GRAPHICS
  | PK_GROUP_ENUM_INTERNET | PK_GROUP_ENUM_LEGACY | PK_GROUP_ENUM_LOCALIZATION
  | PK_GROUP_ENUM_MAPS | PK_GROUP_ENUM_MULTIMEDIA | PK_GROUP_ENUM_NETWORK | PK_GROUP_ENUM_OFFICE
  | PK_GROUP_ENUM_OTHER | PK_GROUP_ENUM_POWER_MANAGEMENT | PK_GROUP_ENUM_PROGRAMMING
  | PK_GROUP_ENUM_PUBLISHING | PK_GROUP_ENUM_REPOS | PK_GROUP_ENUM_SECURITY
  | PK_GROUP_ENUM_SERVERS | PK_GROUP_ENUM_SYSTEM | PK_GROUP_ENUM_VIRTUALIZATION
  | PK_GROUP_ENUM_SCIENCE | PK_GROUP_ENUM_DOCUMENTATION | PK_GROUP_ENUM_ELECTRONICS
  | PK_GROUP_ENUM_COLLECTIONS | PK_GROUP_ENUM_VENDOR | PK_GROUP_ENUM_NEWEST | PK_GROUP_ENUM_LAST

datatype PkUpdateStateEnum =
    PK_UPDATE_STATE_ENUM_UNKNOWN | PK_UPDATE_STATE_ENUM_STABLE | PK_UPDATE_STATE_ENUM_UNSTABLE
  | PK_UPDATE_STATE_ENUM_TESTING | PK_UPDATE_STATE_ENUM_LAST

datatype PkInfoEnum =
    PK_INFO_ENUM_UNKNOWN | PK_INFO_ENUM_INSTALLED | PK_INFO_ENUM_AVAILABLE | PK_INFO_ENUM_LOW
  | PK_INFO_ENUM_ENHANCEMENT | PK_INFO_ENUM_NORMAL | PK_INFO_ENUM_BUGFIX
  | PK_INFO_ENUM_IMPORTANT | PK_INFO_ENUM_SECURITY | PK_INFO_ENUM_BLOCKED
  | PK_INFO_ENUM_DOWNLOADING | PK_INFO_ENUM_UPDATING | PK_INFO_ENUM_INSTALLING
  | PK_INFO_ENUM_REMOVING | PK_INFO_ENUM_CLEANUP | PK_INFO_ENUM_OBSOLETING
  | PK_INFO_ENUM_COLLECTION_INSTALLED | PK_INFO_ENUM_COLLECTION_AVAILABLE
  | PK_INFO_ENUM_FINISHED | PK_INFO_ENUM_REINSTALLING | PK_INFO_ENUM_DOWNGRADING
  | PK_INFO_ENUM_PREPARING | PK_INFO_ENUM_DECOMPRESSING | PK_INFO_ENUM_UNTRUSTED
  | PK_INFO_ENUM_TRUSTED | PK_INFO_ENUM_LAST

datatype PkDistroUpgradeEnum =
    PK_DISTRO_UPGRADE_ENUM_UNKNOWN | PK_DISTRO_UPGRADE_ENUM_STABLE
  | PK_DISTRO_UPGRADE_ENUM_UNSTABLE | PK_DISTRO_UPGRADE_ENUM_LAST

datatype PkSigTypeEnum =
    PK_SIGTYPE_ENUM_UNKNOWN | PK_SIGTYPE_ENUM_GPG | PK_SIGTYPE_ENUM_LAST

datatype PkProvidesEnum =
    PK_PROVIDES_ENUM_UNKNOWN | PK_PROVIDES_ENUM_ANY | PK_PROVIDES_ENUM_MODALIAS
  | PK_PROVIDES_ENUM_CODEC | PK_PROVIDES_ENUM_MIMETYPE | PK_PROVIDES_ENUM_FONT
  | PK_PROVIDES_ENUM_HARDWARE_DRIVER | PK_PROVIDES_ENUM_POSTSCRIPT_DRIVER
  | PK_PROVIDES_ENUM_PLASMA_SERVICE | PK_PROVIDES_ENUM_SHARED_LIB | PK_PROVIDES_ENUM_PYTHON
  | PK_PROVIDES_ENUM_LANGUAGE_SUPPORT | PK_PROVIDES_ENUM_LAST

datatype PkMediaTypeEnum =
    PK_MEDIA_TYPE_ENUM_UNKNOWN | PK_MEDIA_TYPE_ENUM_CD | PK_MEDIA_TYPE_ENUM_DVD
  | PK_MEDIA_TYPE_ENUM_DISC | PK_MEDIA_TYPE_ENUM_LAST

datatype PkAuthorizeEnum =
    PK_AUTHORIZE_ENUM_UNKNOWN | PK_AUTHORIZE_ENUM_YES | PK_AUTHORIZE_ENUM_NO
  | PK_AUTHORIZE_ENUM_INTERACTIVE | PK_AUTHORIZE_ENUM_LAST

datatype PkUpgradeKindEnum =
    PK_UPGRADE_KIND_ENUM_UNKNOWN | PK_UPGRADE_KIND_ENUM_MINIMAL | PK_UPGRADE_KIND_ENUM_DEFAULT
  | PK_UPGRADE_KIND_ENUM_COMPLETE | PK_UPGRADE_KIND_ENUM_LAST

section \<open>The enumerators in declared order\<close>

definition PkRoleEnum_values :: "PkRoleEnum list" where
  "PkRoleEnum_values =
    [PK_ROLE_ENUM_UNKNOWN, PK_ROLE_ENUM_CANCEL, PK_ROLE_ENUM_GET_DEPENDS,
     PK_ROLE_ENUM_GET_DETAILS, PK_ROLE_ENUM_GET_FILES, PK_ROLE_ENUM_GET_PACKAGES,
     PK_ROLE_ENUM_GET_REPO_LIST, PK_ROLE_ENUM_GET_REQUIRES, PK_ROLE_ENUM_GET_UPDATE_DETAIL,
     PK_ROLE_ENUM_GET_UPDATES, PK_ROLE_ENUM_INSTALL_FILES, PK_ROLE_ENUM_INSTALL_PACKAGES,
     PK_ROLE_ENUM_INSTALL_SIGNATURE, PK_ROLE_ENUM_REFRESH_CACHE, PK_ROLE_ENUM_REMOVE_PACKAGES,
     PK_ROLE_ENUM_REPO_ENABLE, PK_ROLE_ENUM_REPO_SET_DATA, PK_ROLE_ENUM_RESOLVE,
     PK_ROLE_ENUM_ROLLBACK, PK_ROLE_ENUM_SEARCH_DETAILS, PK_ROLE_ENUM_SEARCH_FILE,
     PK_ROLE_ENUM_SEARCH_GROUP, PK_ROLE_ENUM_SEARCH_NAME, PK_ROLE_ENUM_UPDATE_PACKAGES,
     PK_ROLE_ENUM_UPDATE_SYSTEM, PK_ROLE_ENUM_WHAT_PROVIDES, PK_ROLE_ENUM_ACCEPT_EULA,
     PK_ROLE_ENUM_DOWNLOAD_PACKAGES, PK_ROLE_ENUM_GET_DISTRO_UPGRADES,
     PK_ROLE_ENUM_GET_CATEGORIES, PK_ROLE_ENUM_GET_OLD_TRANSACTIONS,
     PK_ROLE_ENUM_SIMULATE_INSTALL_FILES, PK_ROLE_ENUM_SIMULATE_INSTALL_PACKAGES,
     PK_ROLE_ENUM_SIMULATE_REMOVE_PACKAGES, PK_ROLE_ENUM_SIMULATE_UPDATE_PACKAGES,
     PK_ROLE_ENUM_UPGRADE_SYSTEM, PK_ROLE_ENUM_REPAIR_SYSTEM,
     PK_ROLE_ENUM_SIMULATE_REPAIR_SYSTEM, PK_ROLE_ENUM_LAST]"

definition PkStatusEnum_values :: "PkStatusEnum list" where
  "PkStatusEnum_values =
    [PK_STATUS_ENUM_UNKNOWN, PK_STATUS_ENUM_WAIT, PK_STATUS_ENUM_SETUP, PK_STATUS_ENUM_RUNNING,
     PK_STATUS_ENUM_QUERY, PK_STATUS_ENUM_INFO, PK_STATUS_ENUM_REMOVE,
     PK_STATUS_ENUM_REFRESH_CACHE, PK_STATUS_ENUM_DOWNLOAD, PK_STATUS_ENUM_INSTALL,
     PK_STATUS_ENUM_UPDATE, PK_STATUS_ENUM_CLEANUP, PK_STATUS_ENUM_OBSOLETE,
     PK_STATUS_ENUM_DEP_RESOLVE, PK_STATUS_ENUM_SIG_CHECK, PK_STATUS_ENUM_ROLLBACK,
     PK_STATUS_ENUM_TEST_COMMIT, PK_STATUS_ENUM_COMMIT, PK_STATUS_ENUM_REQUEST,
     PK_STATUS_ENUM_FINISHED, PK_STATUS_ENUM_CANCEL, PK_STATUS_ENUM_DOWNLOAD_REPOSITORY,
     PK_STATUS_ENUM_DOWNLOAD_PACKAGELIST, PK_STATUS_ENUM_DOWNLOAD_FILELIST,
     PK_STATUS_ENUM_DOWNLOAD_CHANGELOG, PK_STATUS_ENUM_DOWNLOAD_GROUP,
     PK_STATUS_ENUM_DOWNLOAD_UPDATEINFO, PK_STATUS_ENUM_REPACKAGING,
     PK_STATUS_ENUM_LOADING_CACHE, PK_STATUS_ENUM_SCAN_APPLICATIONS,
     PK_STATUS_ENUM_GENERATE_PACKAGE_LIST, PK_STATUS_ENUM_WAITING_FOR_LOCK,
     PK_STATUS_ENUM_WAITING_FOR_AUTH, PK_STATUS_ENUM_SCAN_PROCESS_LIST,
     PK_STATUS_ENUM_CHECK_EXECUTABLE_FILES, PK_STATUS_ENUM_CHECK_LIBRARIES,
     PK_STATUS_ENUM_COPY_FILES, PK_STATUS_ENUM_LAST]"

definition PkExitEnum_values :: "PkExitEnum list" where
  "PkExitEnum_values =
    [PK_EXIT_ENUM_UNKNOWN, PK_EXIT_ENUM_SUCCESS, PK_EXIT_ENUM_FAILED, PK_EXIT_ENUM_CANCELLED,
     PK_EXIT_ENUM_KEY_REQUIRED, PK_EXIT_ENUM_EULA_REQUIRED, PK_EXIT_ENUM_KILLED,
     PK_EXIT_ENUM_MEDIA_CHANGE_REQUIRED, PK_EXIT_ENUM_NEED_UNTRUSTED,
     PK_EXIT_ENUM_CANCELLED_PRIORITY, PK_EXIT_ENUM_SKIP_TRANSACTION,
     PK_EXIT_ENUM_REPAIR_REQUIRED, PK_EXIT_ENUM_LAST]"

definition PkNetworkEnum_values :: "PkNetworkEnum list" where
  "PkNetworkEnum_values =
    [PK_NETWORK_ENUM_UNKNOWN, PK_NETWORK_ENUM_OFFLINE, PK_NETWORK_ENUM_ONLINE,
     PK_NETWORK_ENUM_WIRED, PK_NETWORK_ENUM_WIFI, PK_NETWORK_ENUM_MOBILE, PK_NETWORK_ENUM_LAST]"

definition PkFilterEnum_values :: "PkFilterEnum list" where
  "PkFilterEnum_values =
    [PK_FILTER_ENUM_UNKNOWN, PK_FILTER_ENUM_NONE, PK_FILTER_ENUM_INSTALLED,
     PK_FILTER_ENUM_NOT_INSTALLED, PK_FILTER_ENUM_DEVELOPMENT, PK_FILTER_ENUM_NOT_DEVELOPMENT,
     PK_FILTER_ENUM_GUI, PK_FILTER_ENUM_NOT_GUI, PK_FILTER_ENUM_FREE, PK_FILTER_ENUM_NOT_FREE,
     PK_FILTER_ENUM_VISIBLE, PK_FILTER_ENUM_NOT_VISIBLE, PK_FILTER_ENUM_SUPPORTED,
     PK_FILTER_ENUM_NOT_SUPPORTED, PK_FILTER_ENUM_BASENAME, PK_FILTER_ENUM_NOT_BASENAME,
     PK_FILTER_ENUM_NEWEST, PK_FILTER_ENUM_NOT_NEWEST, PK_FILTER_ENUM_ARCH,
     PK_FILTER_ENUM_NOT_ARCH, PK_FILTER_ENUM_SOURCE, PK_FILTER_ENUM_NOT_SOURCE,
     PK_FILTER_ENUM_COLLECTIONS, PK_FILTER_ENUM_NOT_COLLECTIONS, PK_FILTER_ENUM_APPLICATION,
     PK_FILTER_ENUM_NOT_APPLICATION, PK_FILTER_ENUM_LAST]"

definition PkRestartEnum_values :: "PkRestartEnum list" where
  "PkRestartEnum_values =
    [PK_RESTART_ENUM_UNKNOWN, PK_RESTART_ENUM_NONE, PK_RESTART_ENUM_APPLICATION,
     PK_RESTART_ENUM_SESSION, PK_RESTART_ENUM_SYSTEM, PK_RESTART_ENUM_SECURITY_SESSION,
     PK_RESTART_ENUM_SECURITY_SYSTEM, PK_RESTART_ENUM_LAST]"

definition PkMessageEnum_values :: "PkMessageEnum list" where
  "PkMessageEnum_values =
    [PK_MESSAGE_ENUM_UNKNOWN, PK_MESSAGE_ENUM_BROKEN_MIRROR,
     PK_MESSAGE_ENUM_CONNECTION_REFUSED, PK_MESSAGE_ENUM_PARAMETER_INVALID,
     PK_MESSAGE_ENUM_PRIORITY_INVALID, PK_MESSAGE_ENUM_BACKEND_ERROR,
     PK_MESSAGE_ENUM_DAEMON_ERROR, PK_MESSAGE_ENUM_CACHE_BEING_REBUILT,
     PK_MESSAGE_ENUM_UNTRUSTED_PACKAGE, PK_MESSAGE_ENUM_NEWER_PACKAGE_EXISTS,
     PK_MESSAGE_ENUM_COULD_NOT_FIND_PACKAGE, PK_MESSAGE_ENUM_CONFIG_FILES_CHANGED,
     PK_MESSAGE_ENUM_PACKAGE_ALREADY_INSTALLED, PK_MESSAGE_ENUM_AUTOREMOVE_IGNORED,
     PK_MESSAGE_ENUM_REPO_METADATA_DOWNLOAD_FAILED, PK_MESSAGE_ENUM_REPO_FOR_DEVELOPERS_ONLY,
     PK_MESSAGE_ENUM_OTHER_UPDATES_HELD_BACK, PK_MESSAGE_ENUM_LAST]"

definition PkErrorEnum_values :: "PkErrorEnum list" where
  "PkErrorEnum_values =
    [PK_ERROR_ENUM_UNKNOWN, PK_ERROR_ENUM_OOM, PK_ERROR_ENUM_NO_NETWORK,
     PK_ERROR_ENUM_NOT_SUPPORTED, PK_ERROR_ENUM_INTERNAL_ERROR, PK_ERROR_ENUM_GPG_FAILURE,
     PK_ERROR_ENUM_PACKAGE_ID_INVALID, PK_ERROR_ENUM_PACKAGE_NOT_INSTALLED,
     PK_ERROR_ENUM_PACKAGE_NOT_FOUND, PK_ERROR_ENUM_PACKAGE_ALREADY_INSTALLED,
     PK_ERROR_ENUM_PACKAGE_DOWNLOAD_FAILED, PK_ERROR_ENUM_GROUP_NOT_FOUND,
     PK_ERROR_ENUM_GROUP_LIST_INVALID, PK_ERROR_ENUM_DEP_RESOLUTION_FAILED,
     PK_ERROR_ENUM_FILTER_INVALID, PK_ERROR_ENUM_CREATE_THREAD_FAILED,
     PK_ERROR_ENUM_TRANSACTION_ERROR, PK_ERROR_ENUM_TRANSACTION_CANCELLED,
     PK_ERROR_ENUM_NO_CACHE, PK_ERROR_ENUM_REPO_NOT_FOUND,
     PK_ERROR_ENUM_CANNOT_REMOVE_SYSTEM_PACKAGE, PK_ERROR_ENUM_PROCESS_KILL,
     PK_ERROR_ENUM_FAILED_INITIALIZATION, PK_ERROR_ENUM_FAILED_FINALISE,
     PK_ERROR_ENUM_FAILED_CONFIG_PARSING, PK_ERROR_ENUM_CANNOT_CANCEL,
     PK_ERROR_ENUM_CANNOT_GET_LOCK, PK_ERROR_ENUM_NO_PACKAGES_TO_UPDATE,
     PK_ERROR_ENUM_CANNOT_WRITE_REPO_CONFIG, PK_ERROR_ENUM_LOCAL_INSTALL_FAILED,
     PK_ERROR_ENUM_BAD_GPG_SIGNATURE, PK_ERROR_ENUM_MISSING_GPG_SIGNATURE,
     PK_ERROR_ENUM_CANNOT_INSTALL_SOURCE_PACKAGE, PK_ERROR_ENUM_REPO_CONFIGURATION_ERROR,
     PK_ERROR_ENUM_NO_LICENSE_AGREEMENT, PK_ERROR_ENUM_FILE_CONFLICTS,
     PK_ERROR_ENUM_PACKAGE_CONFLICTS, PK_ERROR_ENUM_REPO_NOT_AVAILABLE,
     PK_ERROR_ENUM_INVALID_PACKAGE_FILE, PK_ERROR_ENUM_PACKAGE_INSTALL_BLOCKED,
     PK_ERROR_ENUM_PACKAGE_CORRUPT, PK_ERROR_ENUM_ALL_PACKAGES_ALREADY_INSTALLED,
     PK_ERROR_ENUM_FILE_NOT_FOUND, PK_ERROR_ENUM_NO_MORE_MIRRORS_TO_TRY,
     PK_ERROR_ENUM_NO_DISTRO_UPGRADE_DATA, PK_ERROR_ENUM_INCOMPATIBLE_ARCHITECTURE,
     PK_ERROR_ENUM_NO_SPACE_ON_DEVICE, PK_ERROR_ENUM_MEDIA_CHANGE_REQUIRED,
     PK_ERROR_ENUM_NOT_AUTHORIZED, PK_ERROR_ENUM_UPDATE_NOT_FOUND,
     PK_ERROR_ENUM_CANNOT_INSTALL_REPO_UNSIGNED, PK_ERROR_ENUM_CANNOT_UPDATE_REPO_UNSIGNED,
     PK_ERROR_ENUM_CANNOT_GET_FILELIST, PK_ERROR_ENUM_CANNOT_GET_REQUIRES,
     PK_ERROR_ENUM_CANNOT_DISABLE_REPOSITORY, PK_ERROR_ENUM_RESTRICTED_DOWNLOAD,
     PK_ERROR_ENUM_PACKAGE_FAILED_TO_CONFIGURE, PK_ERROR_ENUM_PACKAGE_FAILED_TO_BUILD,
     PK_ERROR_ENUM_PACKAGE_FAILED_TO_INSTALL, PK_ERROR_ENUM_PACKAGE_FAILED_TO_REMOVE,
     PK_ERROR_ENUM_UPDATE_FAILED_DUE_TO_RUNNING_PROCESS,
     PK_ERROR_ENUM_PACKAGE_DATABASE_CHANGED, PK_ERROR_ENUM_PROVIDE_TYPE_NOT_SUPPORTED,
     PK_ERROR_ENUM_INSTALL_ROOT_INVALID, PK_ERROR_ENUM_CANNOT_FETCH_SOURCES,
     PK_ERROR_ENUM_CANCELLED_PRIORITY, PK_ERROR_ENUM_UNFINISHED_TRANSACTION, PK_ERROR_ENUM_LAST]"

definition PkGroupEnum_values :: "PkGroupEnum list" where
  "PkGroupEnum_values =
    [PK_GROUP_ENUM_UNKNOWN, PK_GROUP_ENUM_ACCESSIBILITY, PK_GROUP_ENUM_ACCESSORIES,
     PK_GROUP_ENUM_ADMIN_TOOLS, PK_GROUP_ENUM_COMMUNICATION, PK_GROUP_ENUM_DESKTOP_GNOME,
     PK_GROUP_ENUM_DESKTOP_KDE, PK_GROUP_ENUM_DESKTOP_OTHER, PK_GROUP_ENUM_DESKTOP_XFCE,
     PK_GROUP_ENUM_EDUCATION, PK_GROUP_ENUM_FONTS, PK_GROUP_ENUM_GAMES, PK_GROUP_ENUM_GRAPHICS,
     PK_GROUP_ENUM_INTERNET, PK_GROUP_ENUM_LEGACY, PK_GROUP_ENUM_LOCALIZATION,
     PK_GROUP_ENUM_MAPS, PK_GROUP_ENUM_MULTIMEDIA, PK_GROUP_ENUM_NETWORK, PK_GROUP_ENUM_OFFICE,
     PK_GROUP_ENUM_OTHER, PK_GROUP_ENUM_POWER_MANAGEMENT, PK_GROUP_ENUM_PROGRAMMING,
     PK_GROUP_ENUM_PUBLISHING, PK_GROUP_ENUM_REPOS, PK_GROUP_ENUM_SECURITY,
     PK_GROUP_ENUM_SERVERS, PK_GROUP_ENUM_SYSTEM, PK_GROUP_ENUM_VIRTUALIZATION,
     PK_GROUP_ENUM_SCIENCE, PK_GROUP_ENUM_DOCUMENTATION, PK_GROUP_ENUM_ELECTRONICS,
     PK_GROUP_ENUM_COLLECTIONS, PK_GROUP_ENUM_VENDOR, PK_GROUP_ENUM_NEWEST, PK_GROUP_ENUM_LAST]"

definition PkUpdateStateEnum_values :: "PkUpdateStateEnum list" where
  "PkUpdateStateEnum_values =
    [PK_UPDATE_STATE_ENUM_UNKNOWN, PK_UPDATE_STATE_ENUM_STABLE, PK_UPDATE_STATE_ENUM_UNSTABLE,
     PK_UPDATE_STATE_ENUM_TESTING, PK_UPDATE_STATE_ENUM_LAST]"

definition PkInfoEnum_values :: "PkInfoEnum list" where
  "PkInfoEnum_values =
    [PK_INFO_ENUM_UNKNOWN, PK_INFO_ENUM_INSTALLED, PK_INFO_ENUM_AVAILABLE, PK_INFO_ENUM_LOW,
     PK_INFO_ENUM_ENHANCEMENT, PK_INFO_ENUM_NORMAL, PK_INFO_ENUM_BUGFIX,
     PK_INFO_ENUM_IMPORTANT, PK_INFO_ENUM_SECURITY, PK_INFO_ENUM_BLOCKED,
     PK_INFO_ENUM_DOWNLOADING, PK_INFO_ENUM_UPDATING, PK_INFO_ENUM_INSTALLING,
     PK_INFO_ENUM_REMOVING, PK_INFO_ENUM_CLEANUP, PK_INFO_ENUM_OBSOLETING,
     PK_INFO_ENUM_COLLECTION_INSTALLED, PK_INFO_ENUM_COLLECTION_AVAILABLE,
     PK_INFO_ENUM_FINISHED, PK_INFO_ENUM_REINSTALLING, PK_INFO_ENUM_DOWNGRADING,
     PK_INFO_ENUM_PREPARING, PK_INFO_ENUM_DECOMPRESSING, PK_INFO_ENUM_UNTRUSTED,
     PK_INFO_ENUM_TRUSTED, PK_INFO_ENUM_LAST]"

definition PkDistroUpgradeEnum_values :: "PkDistroUpgradeEnum list" where
  "PkDistroUpgradeEnum_values =
    [PK_DISTRO_UPGRADE_ENUM_UNKNOWN, PK_DISTRO_UPGRADE_ENUM_STABLE,
     PK_DISTRO_UPGRADE_ENUM_UNSTABLE, PK_DISTRO_UPGRADE_ENUM_LAST]"

definition PkSigTypeEnum_values :: "PkSigTypeEnum list" where
  "PkSigTypeEnum_values =
    [PK_SIGTYPE_ENUM_UNKNOWN, PK_SIGTYPE_ENUM_GPG, PK_SIGTYPE_ENUM_LAST]"

definition PkProvidesEnum_values :: "PkProvidesEnum list" where
  "PkProvidesEnum_values =
    [PK_PROVIDES_ENUM_UNKNOWN, PK_PROVIDES_ENUM_ANY, PK_PROVIDES_ENUM_MODALIAS,
     PK_PROVIDES_ENUM_CODEC, PK_PROVIDES_ENUM_MIMETYPE, PK_PROVIDES_ENUM_FONT,
     PK_PROVIDES_ENUM_HARDWARE_DRIVER, PK_PROVIDES_ENUM_POSTSCRIPT_DRIVER,
     PK_PROVIDES_ENUM_PLASMA_SERVICE, PK_PROVIDES_ENUM_SHARED_LIB, PK_PROVIDES_ENUM_PYTHON,
     PK_PROVIDES_ENUM_LANGUAGE_SUPPORT, PK_PROVIDES_ENUM_LAST]"

definition PkMediaTypeEnum_values :: "PkMediaTypeEnum list" where
  "PkMediaTypeEnum_values =
    [PK_MEDIA_TYPE_ENUM_UNKNOWN, PK_MEDIA_TYPE_ENUM_CD, PK_MEDIA_TYPE_ENUM_DVD,
     PK_MEDIA_TYPE_ENUM_DISC, PK_MEDIA_TYPE_ENUM_LAST]"

definition PkAuthorizeEnum_values :: "PkAuthorizeEnum list" where
  "PkAuthorizeEnum_values =
    [PK_AUTHORIZE_ENUM_UNKNOWN, PK_AUTHORIZE_ENUM_YES, PK_AUTHORIZE_ENUM_NO,
     PK_AUTHORIZE_ENUM_INTERACTIVE, PK_AUTHORIZE_ENUM_LAST]"

definition PkUpgradeKindEnum_values :: "PkUpgradeKindEnum list" where
  "PkUpgradeKindEnum_values =
    [PK_UPGRADE_KIND_ENUM_UNKNOWN, PK_UPGRADE_KIND_ENUM_MINIMAL, PK_UPGRADE_KIND_ENUM_DEFAULT,
     PK_UPGRADE_KIND_ENUM_COMPLETE, PK_UPGRADE_KIND_ENUM_LAST]"

lemma set_PkRoleEnum_values: "set PkRoleEnum_values = UNIV"
  unfolding PkRoleEnum_values_def by (rule UNIV_eq_I [symmetric], rename_tac x, case_tac x) simp_all

lemma distinct_PkRoleEnum_values: "distinct PkRoleEnum_values"
  by (simp add: PkRoleEnum_values_def)

instantiation PkRoleEnum :: enum
begin

definition enum_PkRoleEnum where "enum_class.enum = PkRoleEnum_values"
definition enum_all_PkRoleEnum where "enum_class.enum_all P = list_all P PkRoleEnum_values"
definition enum_ex_PkRoleEnum where "enum_class.enum_ex P = list_ex P PkRoleEnum_values"

instance
  by standard
    (simp_all add: enum_PkRoleEnum_def enum_all_PkRoleEnum_def enum_ex_PkRoleEnum_def set_PkRoleEnum_values
      distinct_PkRoleEnum_values list_all_iff list_ex_iff)

end

lemma set_PkStatusEnum_values: "set PkStatusEnum_values = UNIV"
  unfolding PkStatusEnum_values_def by (rule UNIV_eq_I [symmetric], rename_tac x, case_tac x) simp_all

lemma distinct_PkStatusEnum_values: "distinct PkStatusEnum_values"
  by (simp add: PkStatusEnum_values_def)

instantiation PkStatusEnum :: enum
begin

definition enum_PkStatusEnum where "enum_class.enum = PkStatusEnum_values"
definition enum_all_PkStatusEnum where "enum_class.enum_all P = list_all P PkStatusEnum_values"
definition enum_ex_PkStatusEnum where "enum_class.enum_ex P = list_ex P PkStatusEnum_values"

instance
  by standard
    (simp_all add: enum_PkStatusEnum_def enum_all_PkStatusEnum_def enum_ex_PkStatusEnum_def set_PkStatusEnum_values
      distinct_PkStatusEnum_values list_all_iff list_ex_iff)

end

lemma set_PkExitEnum_values: "set PkExitEnum_values = UNIV"
  unfolding PkExitEnum_values_def by (rule UNIV_eq_I [symmetric], rename_tac x, case_tac x) simp_all

lemma distinct_PkExitEnum_values: "distinct PkExitEnum_values"
  by (simp add: PkExitEnum_values_def)

instantiation PkExitEnum :: enum
begin

definition enum_PkExitEnum where "enum_class.enum = PkExitEnum_values"
definition enum_all_PkExitEnum where "enum_class.enum_all P = list_all P PkExitEnum_values"
definition enum_ex_PkExitEnum where "enum_class.enum_ex P = list_ex P PkExitEnum_values"

instance
  by standard
    (simp_all add: enum_PkExitEnum_def enum_all_PkExitEnum_def enum_ex_PkExitEnum_def set_PkExitEnum_values
      distinct_PkExitEnum_values list_all_iff list_ex_iff)

end

lemma set_PkNetworkEnum_values: "set PkNetworkEnum_values = UNIV"
  unfolding PkNetworkEnum_values_def by (rule UNIV_eq_I [symmetric], rename_tac x, case_tac x) simp_all

lemma distinct_PkNetworkEnum_values: "distinct PkNetworkEnum_values"
  by (simp add: PkNetworkEnum_values_def)

instantiation PkNetworkEnum :: enum
begin

definition enum_PkNetworkEnum where "enum_class.enum = PkNetworkEnum_values"
definition enum_all_PkNetworkEnum where "enum_class.enum_all P = list_all P PkNetworkEnum_values"
definition enum_ex_PkNetworkEnum where "enum_class.enum_ex P = list_ex P PkNetworkEnum_values"

instance
  by standard
    (simp_all add: enum_PkNetworkEnum_def enum_all_PkNetworkEnum_def enum_ex_PkNetworkEnum_def set_PkNetworkEnum_values
      distinct_PkNetworkEnum_values list_all_iff list_ex_iff)

end

lemma set_PkFilterEnum_values: "set PkFilterEnum_values = UNIV"
  unfolding PkFilterEnum_values_def by (rule UNIV_eq_I [symmetric], rename_tac x, case_tac x) simp_all

lemma distinct_PkFilterEnum_values: "distinct PkFilterEnum_values"
  by (simp add: PkFilterEnum_values_def)

instantiation PkFilterEnum :: enum
begin

definition enum_PkFilterEnum where "enum_class.enum = PkFilterEnum_values"
definition enum_all_PkFilterEnum where "enum_class.enum_all P = list_all P PkFilterEnum_values"
definition enum_ex_PkFilterEnum where "enum_class.enum_ex P = list_ex P PkFilterEnum_values"

instance
  by standard
    (simp_all add: enum_PkFilterEnum_def enum_all_PkFilterEnum_def enum_ex_PkFilterEnum_def set_PkFilterEnum_values
      distinct_PkFilterEnum_values list_all_iff list_ex_iff)

end

lemma set_PkRestartEnum_values: "set PkRestartEnum_values = UNIV"
  unfolding PkRestartEnum_values_def by (rule UNIV_eq_I [symmetric], rename_tac x, case_tac x) simp_all

lemma distinct_PkRestartEnum_values: "distinct PkRestartEnum_values"
  by (simp add: PkRestartEnum_values_def)

instantiation PkRestartEnum :: enum
begin

definition enum_PkRestartEnum where "enum_class.enum = PkRestartEnum_values"
definition enum_all_PkRestartEnum where "enum_class.enum_all P = list_all P PkRestartEnum_values"
definition enum_ex_PkRestartEnum where "enum_class.enum_ex P = list_ex P PkRestartEnum_values"

instance
  by standard
    (simp_all add: enum_PkRestartEnum_def enum_all_PkRestartEnum_def enum_ex_PkRestartEnum_def set_PkRestartEnum_values
      distinct_PkRestartEnum_values list_all_iff list_ex_iff)

end

lemma set_PkMessageEnum_values: "set PkMessageEnum_values = UNIV"
  unfolding PkMessageEnum_values_def by (rule UNIV_eq_I [symmetric], rename_tac x, case_tac x) simp_all

lemma distinct_PkMessageEnum_values: "distinct PkMessageEnum_values"
  by (simp add: PkMessageEnum_values_def)

instantiation PkMessageEnum :: enum
begin

definition enum_PkMessageEnum where "enum_class.enum = PkMessageEnum_values"
definition enum_all_PkMessageEnum where "enum_class.enum_all P = list_all P PkMessageEnum_values"
definition enum_ex_PkMessageEnum where "enum_class.enum_ex P = list_ex P PkMessageEnum_values"

instance
  by standard
    (simp_all add: enum_PkMessageEnum_def enum_all_PkMessageEnum_def enum_ex_PkMessageEnum_def set_PkMessageEnum_values
      distinct_PkMessageEnum_values list_all_iff list_ex_iff)

end

lemma set_PkErrorEnum_values: "set PkErrorEnum_values = UNIV"
  unfolding PkErrorEnum_values_def by (rule UNIV_eq_I [symmetric], rename_tac x, case_tac x) simp_all

lemma distinct_PkErrorEnum_values: "distinct PkErrorEnum_values"
  by (simp add: PkErrorEnum_values_def)

instantiation PkErrorEnum :: enum
begin

definition enum_PkErrorEnum where "enum_class.enum = PkErrorEnum_values"
definition enum_all_PkErrorEnum where "enum_class.enum_all P = list_all P PkErrorEnum_values"
definition enum_ex_PkErrorEnum where "enum_class.enum_ex P = list_ex P PkErrorEnum_values"

instance
  by standard
    (simp_all add: enum_PkErrorEnum_def enum_all_PkErrorEnum_def enum_ex_PkErrorEnum_def set_PkErrorEnum_values
      distinct_PkErrorEnum_values list_all_iff list_ex_iff)

end

lemma set_PkGroupEnum_values: "set PkGroupEnum_values = UNIV"
  unfolding PkGroupEnum_values_def by (rule UNIV_eq_I [symmetric], rename_tac x, case_tac x) simp_all

lemma distinct_PkGroupEnum_values: "distinct PkGroupEnum_values"
  by (simp add: PkGroupEnum_values_def)

instantiation PkGroupEnum :: enum
begin

definition enum_PkGroupEnum where "enum_class.enum = PkGroupEnum_values"
definition enum_all_PkGroupEnum where "enum_class.enum_all P = list_all P PkGroupEnum_values"
definition enum_ex_PkGroupEnum where "enum_class.enum_ex P = list_ex P PkGroupEnum_values"

instance
  by standard
    (simp_all add: enum_PkGroupEnum_def enum_all_PkGroupEnum_def enum_ex_PkGroupEnum_def set_PkGroupEnum_values
      distinct_PkGroupEnum_values list_all_iff list_ex_iff)

end

lemma set_PkUpdateStateEnum_values: "set PkUpdateStateEnum_values = UNIV"
  unfolding PkUpdateStateEnum_values_def by (rule UNIV_eq_I [symmetric], rename_tac x, case_tac x) simp_all

lemma distinct_PkUpdateStateEnum_values: "distinct PkUpdateStateEnum_values"
  by (simp add: PkUpdateStateEnum_values_def)

instantiation PkUpdateStateEnum :: enum
begin

definition enum_PkUpdateStateEnum where "enum_class.enum = PkUpdateStateEnum_values"
definition enum_all_PkUpdateStateEnum where "enum_class.enum_all P = list_all P PkUpdateStateEnum_values"
definition enum_ex_PkUpdateStateEnum where "enum_class.enum_ex P = list_ex P PkUpdateStateEnum_values"

instance
  by standard
    (simp_all add: enum_PkUpdateStateEnum_def enum_all_PkUpdateStateEnum_def enum_ex_PkUpdateStateEnum_def set_PkUpdateStateEnum_values
      distinct_PkUpdateStateEnum_values list_all_iff list_ex_iff)

end

lemma set_PkInfoEnum_values: "set PkInfoEnum_values = UNIV"
  unfolding PkInfoEnum_values_def by (rule UNIV_eq_I [symmetric], rename_tac x, case_tac x) simp_all

lemma distinct_PkInfoEnum_values: "distinct PkInfoEnum_values"
  by (simp add: PkInfoEnum_values_def)

instantiation PkInfoEnum :: enum
begin

definition enum_PkInfoEnum where "enum_class.enum = PkInfoEnum_values"
definition enum_all_PkInfoEnum where "enum_class.enum_all P = list_all P PkInfoEnum_values"
definition enum_ex_PkInfoEnum where "enum_class.enum_ex P = list_ex P PkInfoEnum_values"

instance
  by standard
    (simp_all add: enum_PkInfoEnum_def enum_all_PkInfoEnum_def enum_ex_PkInfoEnum_def set_PkInfoEnum_values
      distinct_PkInfoEnum_values list_all_iff list_ex_iff)

end

lemma set_PkDistroUpgradeEnum_values: "set PkDistroUpgradeEnum_values = UNIV"
  unfolding PkDistroUpgradeEnum_values_def by (rule UNIV_eq_I [symmetric], rename_tac x, case_tac x) simp_all

lemma distinct_PkDistroUpgradeEnum_values: "distinct PkDistroUpgradeEnum_values"
  by (simp add: PkDistroUpgradeEnum_values_def)

instantiation PkDistroUpgradeEnum :: enum
begin

definition enum_PkDistroUpgradeEnum where "enum_class.enum = PkDistroUpgradeEnum_values"
definition enum_all_PkDistroUpgradeEnum where "enum_class.enum_all P = list_all P PkDistroUpgradeEnum_values"
definition enum_ex_PkDistroUpgradeEnum where "enum_class.enum_ex P = list_ex P PkDistroUpgradeEnum_values"

instance
  by standard
    (simp_all add: enum_PkDistroUpgradeEnum_def enum_all_PkDistroUpgradeEnum_def enum_ex_PkDistroUpgradeEnum_def set_PkDistroUpgradeEnum_values
      distinct_PkDistroUpgradeEnum_values list_all_iff list_ex_iff)

end

lemma set_PkSigTypeEnum_values: "set PkSigTypeEnum_values = UNIV"
  unfolding PkSigTypeEnum_values_def by (rule UNIV_eq_I [symmetric], rename_tac x, case_tac x) simp_all

lemma distinct_PkSigTypeEnum_values: "distinct PkSigTypeEnum_values"
  by (simp add: PkSigTypeEnum_values_def)

instantiation PkSigTypeEnum :: enum
begin

definition enum_PkSigTypeEnum where "enum_class.enum = PkSigTypeEnum_values"
definition enum_all_PkSigTypeEnum where "enum_class.enum_all P = list_all P PkSigTypeEnum_values"
definition enum_ex_PkSigTypeEnum where "enum_class.enum_ex P = list_ex P PkSigTypeEnum_values"

instance
  by standard
    (simp_all add: enum_PkSigTypeEnum_def enum_all_PkSigTypeEnum_def enum_ex_PkSigTypeEnum_def set_PkSigTypeEnum_values
      distinct_PkSigTypeEnum_values list_all_iff list_ex_iff)

end

lemma set_PkProvidesEnum_values: "set PkProvidesEnum_values = UNIV"
  unfolding PkProvidesEnum_values_def by (rule UNIV_eq_I [symmetric], rename_tac x, case_tac x) simp_all

lemma distinct_PkProvidesEnum_values: "distinct PkProvidesEnum_values"
  by (simp add: PkProvidesEnum_values_def)

instantiation PkProvidesEnum :: enum
begin

definition enum_PkProvidesEnum where "enum_class.enum = PkProvidesEnum_values"
definition enum_all_PkProvidesEnum where "enum_class.enum_all P = list_all P PkProvidesEnum_values"
definition enum_ex_PkProvidesEnum where "enum_class.enum_ex P = list_ex P PkProvidesEnum_values"

instance
  by standard
    (simp_all add: enum_PkProvidesEnum_def enum_all_PkProvidesEnum_def enum_ex_PkProvidesEnum_def set_PkProvidesEnum_values
      distinct_PkProvidesEnum_values list_all_iff list_ex_iff)

end

lemma set_PkMediaTypeEnum_values: "set PkMediaTypeEnum_values = UNIV"
  unfolding PkMediaTypeEnum_values_def by (rule UNIV_eq_I [symmetric], rename_tac x, case_tac x) simp_all

lemma distinct_PkMediaTypeEnum_values: "distinct PkMediaTypeEnum_values"
  by (simp add: PkMediaTypeEnum_values_def)

instantiation PkMediaTypeEnum :: enum
begin

definition enum_PkMediaTypeEnum where "enum_class.enum = PkMediaTypeEnum_values"
definition enum_all_PkMediaTypeEnum where "enum_class.enum_all P = list_all P PkMediaTypeEnum_values"
definition enum_ex_PkMediaTypeEnum where "enum_class.enum_ex P = list_ex P PkMediaTypeEnum_values"

instance
  by standard
    (simp_all add: enum_PkMediaTypeEnum_def enum_all_PkMediaTypeEnum_def enum_ex_PkMediaTypeEnum_def set_PkMediaTypeEnum_values
      distinct_PkMediaTypeEnum_values list_all_iff list_ex_iff)

end

lemma set_PkAuthorizeEnum_values: "set PkAuthorizeEnum_values = UNIV"
  unfolding PkAuthorizeEnum_values_def by (rule UNIV_eq_I [symmetric], rename_tac x, case_tac x) simp_all

lemma distinct_PkAuthorizeEnum_values: "distinct PkAuthorizeEnum_values"
  by (simp add: PkAuthorizeEnum_values_def)

instantiation PkAuthorizeEnum :: enum
begin

definition enum_PkAuthorizeEnum where "enum_class.enum = PkAuthorizeEnum_values"
definition enum_all_PkAuthorizeEnum where "enum_class.enum_all P = list_all P PkAuthorizeEnum_values"
definition enum_ex_PkAuthorizeEnum where "enum_class.enum_ex P = list_ex P PkAuthorizeEnum_values"

instance
  by standard
    (simp_all add: enum_PkAuthorizeEnum_def enum_all_PkAuthorizeEnum_def enum_ex_PkAuthorizeEnum_def set_PkAuthorizeEnum_values
      distinct_PkAuthorizeEnum_values list_all_iff list_ex_iff)

end

lemma set_PkUpgradeKindEnum_values: "set PkUpgradeKindEnum_values = UNIV"
  unfolding PkUpgradeKindEnum_values_def by (rule UNIV_eq_I [symmetric], rename_tac x, case_tac x) simp_all

lemma distinct_PkUpgradeKindEnum_values: "distinct PkUpgradeKindEnum_values"
  by (simp add: PkUpgradeKindEnum_values_def)

instantiation PkUpgradeKindEnum :: enum
begin

definition enum_PkUpgradeKindEnum where "enum_class.enum = PkUpgradeKindEnum_values"
definition enum_all_PkUpgradeKindEnum where "enum_class.enum_all P = list_all P PkUpgradeKindEnum_values"
definition enum_ex_PkUpgradeKindEnum where "enum_class.enum_ex P = list_ex P PkUpgradeKindEnum_values"

instance
  by standard
    (simp_all add: enum_PkUpgradeKindEnum_def enum_all_PkUpgradeKindEnum_def enum_ex_PkUpgradeKindEnum_def set_PkUpgradeKindEnum_values
      distinct_PkUpgradeKindEnum_values list_all_iff list_ex_iff)

end

section \<open>Numbers and tables\<close>

text \<open>The integer value of an enumerator: its position in the declaration.\<close>

definition enum_value :: "'e::enum \<Rightarrow> nat" where
  "enum_value e = pos enum_class.enum e"

lemma enum_value_inj: "enum_value e = enum_value e' \<Longrightarrow> e = e'"
  unfolding enum_value_def by (rule pos_inj) (simp_all add: enum_UNIV)

text \<open>
  A table is the C array without its \<open>{0, NULL}\<close> end mark. Both searches return the first
  entry when nothing matches; the string search also does for a \<open>NULL\<close> text.
\<close>

fun find_value_loop :: "('e \<times> string) list \<Rightarrow> string \<Rightarrow> 'e option" where
  "find_value_loop [] s = None"
| "find_value_loop ((v, t) # rest) s = (if s = t then Some v else find_value_loop rest s)"

definition pk_enum_find_value :: "('e \<times> string) list \<Rightarrow> string option \<Rightarrow> 'e" where
  "pk_enum_find_value table s =
     (case s of
        None \<Rightarrow> fst (hd table)
      | Some s' \<Rightarrow> (case find_value_loop table s' of Some v \<Rightarrow> v | None \<Rightarrow> fst (hd table)))"

fun find_string_loop :: "('e \<times> string) list \<Rightarrow> 'e \<Rightarrow> string option" where
  "find_string_loop [] e = None"
| "find_string_loop ((v, t) # rest) e = (if v = e then Some t else find_string_loop rest e)"

definition pk_enum_find_string :: "('e \<times> string) list \<Rightarrow> 'e \<Rightarrow> string" where
  "pk_enum_find_string table e =
     (case find_string_loop table e of Some t \<Rightarrow> t | None \<Rightarrow> snd (hd table))"

lemma find_value_loop_Some:
  "find_value_loop table s = Some v \<Longrightarrow> (v, s) \<in> set table"
  by (induction table s rule: find_value_loop.induct) (auto split: if_splits)

lemma find_value_loop_None:
  "find_value_loop table s = None \<longleftrightarrow> s \<notin> snd ` set table"
  by (induction table s rule: find_value_loop.induct) auto

lemma find_value_loop_distinct:
  "distinct (map snd table) \<Longrightarrow> (v, s) \<in> set table \<Longrightarrow> find_value_loop table s = Some v"
  by (induction table s rule: find_value_loop.induct) (auto simp: rev_image_eqI)

lemma find_string_loop_Some:
  "find_string_loop table e = Some t \<Longrightarrow> (e, t) \<in> set table"
  by (induction table e rule: find_string_loop.induct) (auto split: if_splits)

lemma find_string_loop_None:
  "find_string_loop table e = None \<longleftrightarrow> e \<notin> fst ` set table"
  by (induction table e rule: find_string_loop.induct) auto

lemma find_string_loop_distinct:
  "distinct (map fst table) \<Longrightarrow> (e, t) \<in> set table \<Longrightarrow> find_string_loop table e = Some t"
  by (induction table e rule: find_string_loop.induct) (auto simp: rev_image_eqI)

text \<open>
  What the daemon relies on in a table: it has an entry, no value and no text twice, an entry
  for every enumerator but the sentinel, and the sentinel is numbered after all of them.
\<close>

locale enum_table =
  fixes table :: "('e::enum \<times> string) list"
    and sentinel :: 'e
  assumes table_ne: "table \<noteq> []"
    and distinct_values: "distinct (map fst table)"
    and distinct_texts: "distinct (map snd table)"
    and complete: "set (map fst table) = UNIV - {sentinel}"
    and sentinel_last: "last enum_class.enum = sentinel"
begin

lemma length_enum: "length (enum_class.enum :: 'e list) = Suc (length table)"
proof -
  have "length (enum_class.enum :: 'e list) = card (UNIV :: 'e set)"
    using distinct_card [OF enum_distinct [where 'a = 'e]] by (simp add: enum_UNIV)
  also have "\<dots> = Suc (card (set (map fst table)))"
    unfolding complete by (rule card.remove) simp_all
  also have "\<dots> = Suc (length table)"
    using distinct_card [OF distinct_values] by simp
  finally show ?thesis .
qed

lemma enum_value_sentinel: "enum_value sentinel = length table"
  unfolding enum_value_def sentinel_last [symmetric] using length_enum
  by (subst pos_last) (auto simp: enum_distinct)

lemma value_less: "e \<noteq> sentinel \<Longrightarrow> enum_value e < length table"
proof -
  assume "e \<noteq> sentinel"
  then have "enum_value e \<noteq> length table" using enum_value_inj enum_value_sentinel by metis
  moreover have "enum_value e < Suc (length table)"
    unfolding enum_value_def length_enum [symmetric] by (rule pos_less) (simp add: enum_UNIV)
  ultimately show ?thesis by simp
qed

lemma enum_split: "(enum_class.enum :: 'e list) = butlast enum_class.enum @ [sentinel]"
proof -
  have "(enum_class.enum :: 'e list) \<noteq> []" using length_enum by auto
  then show ?thesis unfolding sentinel_last [symmetric] by (rule append_butlast_last_id [symmetric])
qed

lemma below_sentinel:
  "takeWhile (\<lambda>e. e \<noteq> sentinel) enum_class.enum = butlast enum_class.enum"
  unfolding sentinel_last [symmetric]
  by (rule takeWhile_neq_last) (use enum_split in \<open>auto simp: enum_distinct\<close>)

lemma set_below_sentinel: "set (butlast (enum_class.enum :: 'e list)) = UNIV - {sentinel}"
proof -
  have "distinct (butlast enum_class.enum @ [sentinel])"
    using enum_distinct [where 'a = 'e] by (simp only: enum_split [symmetric])
  moreover have "set (butlast enum_class.enum @ [sentinel]) = UNIV"
    using enum_UNIV [where 'a = 'e] by (simp only: enum_split [symmetric])
  ultimately show ?thesis by auto
qed

lemma hd_in: "hd table \<in> set table"
  using table_ne by simp

lemma find_string_entry:
  assumes "e \<noteq> sentinel"
  shows "(e, pk_enum_find_string table e) \<in> set table"
proof -
  from assms complete have "e \<in> set (map fst table)" by simp
  then obtain t where t: "(e, t) \<in> set table" by fastforce
  then show ?thesis
    by (simp add: pk_enum_find_string_def find_string_loop_distinct [OF distinct_values t])
qed

lemma find_string_sentinel: "pk_enum_find_string table sentinel = snd (hd table)"
proof -
  from complete have "sentinel \<notin> fst ` set table" by auto
  then have "find_string_loop table sentinel = None" by (simp only: find_string_loop_None) blast
  then show ?thesis by (simp add: pk_enum_find_string_def)
qed

lemma value_of_string:
  "e \<noteq> sentinel \<Longrightarrow> pk_enum_find_value table (Some (pk_enum_find_string table e)) = e"
  using find_value_loop_distinct [OF distinct_texts find_string_entry]
  by (simp add: pk_enum_find_value_def)

lemma find_value_entry:
  assumes "s \<in> snd ` set table"
  shows "(pk_enum_find_value table (Some s), s) \<in> set table"
proof -
  from assms obtain e where e: "(e, s) \<in> set table" by auto
  then show ?thesis
    by (simp add: pk_enum_find_value_def find_value_loop_distinct [OF distinct_texts e])
qed

lemma string_of_value:
  assumes "s \<in> snd ` set table"
  shows "pk_enum_find_string table (pk_enum_find_value table (Some s)) = s"
  using find_string_loop_distinct [OF distinct_values find_value_entry [OF assms]]
  by (simp add: pk_enum_find_string_def)

lemma value_unknown:
  "s \<notin> snd ` set table \<Longrightarrow> pk_enum_find_value table (Some s) = fst (hd table)"
  by (simp add: pk_enum_find_value_def find_value_loop_None [THEN iffD2])

lemma value_NULL: "pk_enum_find_value table None = fst (hd table)"
  by (simp add: pk_enum_find_value_def)

lemma value_not_sentinel: "pk_enum_find_value table s \<noteq> sentinel"
proof -
  have "pk_enum_find_value table s \<in> fst ` set table"
    using hd_in by (auto simp: pk_enum_find_value_def image_iff split: option.splits
        dest!: find_value_loop_Some) force+
  with complete show ?thesis by auto
qed

lemma string_in_table: "pk_enum_find_string table e \<in> snd ` set table"
  using hd_in find_string_entry [of e] find_string_sentinel by (cases "e = sentinel") force+

lemma string_inj:
  "e \<noteq> sentinel \<Longrightarrow> e' \<noteq> sentinel \<Longrightarrow>
   pk_enum_find_string table e = pk_enum_find_string table e' \<Longrightarrow> e = e'"
  by (metis value_of_string)

end

section \<open>The tables of pk-enum.c\<close>

definition enum_exit :: "(PkExitEnum \<times> string) list" where
  "enum_exit =
    [(PK_EXIT_ENUM_UNKNOWN, ''unknown''),
     (PK_EXIT_ENUM_SUCCESS, ''success''),
     (PK_EXIT_ENUM_FAILED, ''failed''),
     (PK_EXIT_ENUM_CANCELLED, ''cancelled''),
     (PK_EXIT_ENUM_KEY_REQUIRED, ''key-required''),
     (PK_EXIT_ENUM_EULA_REQUIRED, ''eula-required''),
     (PK_EXIT_ENUM_MEDIA_CHANGE_REQUIRED, ''media-change-required''),
     (PK_EXIT_ENUM_KILLED, ''killed''),
     (PK_EXIT_ENUM_NEED_UNTRUSTED, ''need-untrusted''),
     (PK_EXIT_ENUM_CANCELLED_PRIORITY, ''cancelled-priority''),
     (PK_EXIT_ENUM_SKIP_TRANSACTION, ''skip-transaction''),
     (PK_EXIT_ENUM_REPAIR_REQUIRED, ''repair-required'')]"

definition enum_status :: "(PkStatusEnum \<times> string) list" where
  "enum_status =
    [(PK_STATUS_ENUM_UNKNOWN, ''unknown''),
     (PK_STATUS_ENUM_WAIT, ''wait''),
     (PK_STATUS_ENUM_SETUP, ''setup''),
     (PK_STATUS_ENUM_RUNNING, ''running''),
     (PK_STATUS_ENUM_QUERY, ''query''),
     (PK_STATUS_ENUM_INFO, ''info''),
     (PK_STATUS_ENUM_REFRESH_CACHE, ''refresh-cache''),
     (PK_STATUS_ENUM_REMOVE, ''remove''),
     (PK_STATUS_ENUM_DOWNLOAD, ''download''),
     (PK_STATUS_ENUM_INSTALL, ''install''),
     (PK_STATUS_ENUM_UPDATE, ''update''),
     (PK_STATUS_ENUM_CLEANUP, ''cleanup''),
     (PK_STATUS_ENUM_OBSOLETE, ''obsolete''),
     (PK_STATUS_ENUM_DEP_RESOLVE, ''dep-resolve''),
     (PK_STATUS_ENUM_SIG_CHECK, ''sig-check''),
     (PK_STATUS_ENUM_ROLLBACK, ''rollback''),
     (PK_STATUS_ENUM_TEST_COMMIT, ''test-commit''),
     (PK_STATUS_ENUM_COMMIT, ''commit''),
     (PK_STATUS_ENUM_REQUEST, ''request''),
     (PK_STATUS_ENUM_FINISHED, ''finished''),
     (PK_STATUS_ENUM_CANCEL, ''cancel''),
     (PK_STATUS_ENUM_DOWNLOAD_REPOSITORY, ''download-repository''),
     (PK_STATUS_ENUM_DOWNLOAD_PACKAGELIST, ''download-packagelist''),
     (PK_STATUS_ENUM_DOWNLOAD_FILELIST, ''download-filelist''),
     (PK_STATUS_ENUM_DOWNLOAD_CHANGELOG, ''download-changelog''),
     (PK_STATUS_ENUM_DOWNLOAD_GROUP, ''download-group''),
     (PK_STATUS_ENUM_DOWNLOAD_UPDATEINFO, ''download-updateinfo''),
     (PK_STATUS_ENUM_REPACKAGING, ''repackaging''),
     (PK_STATUS_ENUM_LOADING_CACHE, ''loading-cache''),
     (PK_STATUS_ENUM_SCAN_APPLICATIONS, ''scan-applications''),
     (PK_STATUS_ENUM_GENERATE_PACKAGE_LIST, ''generate-package-list''),
     (PK_STATUS_ENUM_WAITING_FOR_LOCK, ''waiting-for-lock''),
     (PK_STATUS_ENUM_WAITING_FOR_AUTH, ''waiting-for-auth''),
     (PK_STATUS_ENUM_SCAN_PROCESS_LIST, ''scan-process-list''),
     (PK_STATUS_ENUM_CHECK_EXECUTABLE_FILES, ''check-executable-files''),
     (PK_STATUS_ENUM_CHECK_LIBRARIES, ''check-libraries''),
     (PK_STATUS_ENUM_COPY_FILES, ''copy-files'')]"

definition enum_role :: "(PkRoleEnum \<times> string) list" where
  "enum_role =
    [(PK_ROLE_ENUM_UNKNOWN, ''unknown''),
     (PK_ROLE_ENUM_CANCEL, ''cancel''),
     (PK_ROLE_ENUM_GET_DEPENDS, ''get-depends''),
     (PK_ROLE_ENUM_GET_DETAILS, ''get-details''),
     (PK_ROLE_ENUM_GET_FILES, ''get-files''),
     (PK_ROLE_ENUM_GET_PACKAGES, ''get-packages''),
     (PK_ROLE_ENUM_GET_REPO_LIST, ''get-repo-list''),
     (PK_ROLE_ENUM_GET_REQUIRES, ''get-requires''),
     (PK_ROLE_ENUM_GET_UPDATE_DETAIL, ''get-update-detail''),
     (PK_ROLE_ENUM_GET_UPDATES, ''get-updates''),
     (PK_ROLE_ENUM_INSTALL_FILES, ''install-files''),
     (PK_ROLE_ENUM_INSTALL_PACKAGES, ''install-packages''),
     (PK_ROLE_ENUM_INSTALL_SIGNATURE, ''install-signature''),
     (PK_ROLE_ENUM_REFRESH_CACHE, ''refresh-cache''),
     (PK_ROLE_ENUM_REMOVE_PACKAGES, ''remove-packages''),
     (PK_ROLE_ENUM_REPO_ENABLE, ''repo-enable''),
     (PK_ROLE_ENUM_REPO_SET_DATA, ''repo-set-data''),
     (PK_ROLE_ENUM_RESOLVE, ''resolve''),
     (PK_ROLE_ENUM_ROLLBACK, ''rollback''),
     (PK_ROLE_ENUM_SEARCH_DETAILS, ''search-details''),
     (PK_ROLE_ENUM_SEARCH_FILE, ''search-file''),
     (PK_ROLE_ENUM_SEARCH_GROUP, ''search-group''),
     (PK_ROLE_ENUM_SEARCH_NAME, ''search-name''),
     (PK_ROLE_ENUM_UPDATE_PACKAGES, ''update-packages''),
     (PK_ROLE_ENUM_UPDATE_SYSTEM, ''update-system''),
     (PK_ROLE_ENUM_WHAT_PROVIDES, ''what-provides''),
     (PK_ROLE_ENUM_ACCEPT_EULA, ''accept-eula''),
     (PK_ROLE_ENUM_DOWNLOAD_PACKAGES, ''download-packages''),
     (PK_ROLE_ENUM_GET_DISTRO_UPGRADES, ''get-distro-upgrades''),
     (PK_ROLE_ENUM_GET_CATEGORIES, ''get-categories''),
     (PK_ROLE_ENUM_GET_OLD_TRANSACTIONS, ''get-old-transactions''),
     (PK_ROLE_ENUM_SIMULATE_INSTALL_FILES, ''simulate-install-files''),
     (PK_ROLE_ENUM_SIMULATE_INSTALL_PACKAGES, ''simulate-install-packages''),
     (PK_ROLE_ENUM_SIMULATE_REMOVE_PACKAGES, ''simulate-remove-packages''),
     (PK_ROLE_ENUM_SIMULATE_UPDATE_PACKAGES, ''simulate-update-packages''),
     (PK_ROLE_ENUM_UPGRADE_SYSTEM, ''upgrade-system''),
     (PK_ROLE_ENUM_REPAIR_SYSTEM, ''repair-system''),
     (PK_ROLE_ENUM_SIMULATE_REPAIR_SYSTEM, ''simulate-repair-system'')]"

definition enum_error :: "(PkErrorEnum \<times> string) list" where
  "enum_error =
    [(PK_ERROR_ENUM_UNKNOWN, ''unknown''),
     (PK_ERROR_ENUM_OOM, ''out-of-memory''),
     (PK_ERROR_ENUM_NO_CACHE, ''no-cache''),
     (PK_ERROR_ENUM_NO_NETWORK, ''no-network''),
     (PK_ERROR_ENUM_NOT_SUPPORTED, ''not-supported''),
     (PK_ERROR_ENUM_INTERNAL_ERROR, ''internal-error''),
     (PK_ERROR_ENUM_GPG_FAILURE, ''gpg-failure''),
     (PK_ERROR_ENUM_FILTER_INVALID, ''filter-invalid''),
     (PK_ERROR_ENUM_PACKAGE_ID_INVALID, ''package-id-invalid''),
     (PK_ERROR_ENUM_TRANSACTION_ERROR, ''transaction-error''),
     (PK_ERROR_ENUM_TRANSACTION_CANCELLED, ''transaction-cancelled''),
     (PK_ERROR_ENUM_PACKAGE_NOT_INSTALLED, ''package-not-installed''),
     (PK_ERROR_ENUM_PACKAGE_NOT_FOUND, ''package-not-found''),
     (PK_ERROR_ENUM_PACKAGE_ALREADY_INSTALLED, ''package-already-installed''),
     (PK_ERROR_ENUM_PACKAGE_DOWNLOAD_FAILED, ''package-download-failed''),
     (PK_ERROR_ENUM_GROUP_NOT_FOUND, ''group-not-found''),
     (PK_ERROR_ENUM_GROUP_LIST_INVALID, ''group-list-invalid''),
     (PK_ERROR_ENUM_DEP_RESOLUTION_FAILED, ''dep-resolution-failed''),
     (PK_ERROR_ENUM_CREATE_THREAD_FAILED, ''create-thread-failed''),
     (PK_ERROR_ENUM_REPO_NOT_FOUND, ''repo-not-found''),
     (PK_ERROR_ENUM_CANNOT_REMOVE_SYSTEM_PACKAGE, ''cannot-remove-system-package''),
     (PK_ERROR_ENUM_PROCESS_KILL, ''process-kill''),
     (PK_ERROR_ENUM_FAILED_INITIALIZATION, ''failed-initialization''),
     (PK_ERROR_ENUM_FAILED_FINALISE, ''failed-finalise''),
     (PK_ERROR_ENUM_FAILED_CONFIG_PARSING, ''failed-config-parsing''),
     (PK_ERROR_ENUM_CANNOT_CANCEL, ''cannot-cancel''),
     (PK_ERROR_ENUM_CANNOT_GET_LOCK, ''cannot-get-lock''),
     (PK_ERROR_ENUM_NO_PACKAGES_TO_UPDATE, ''no-packages-to-update''),
     (PK_ERROR_ENUM_CANNOT_WRITE_REPO_CONFIG, ''cannot-write-repo-config''),
     (PK_ERROR_ENUM_LOCAL_INSTALL_FAILED, ''local-install-failed''),
     (PK_ERROR_ENUM_BAD_GPG_SIGNATURE, ''bad-gpg-signature''),
     (PK_ERROR_ENUM_MISSING_GPG_SIGNATURE, ''missing-gpg-signature''),
     (PK_ERROR_ENUM_CANNOT_INSTALL_SOURCE_PACKAGE, ''cannot-install-source-package''),
     (PK_ERROR_ENUM_REPO_CONFIGURATION_ERROR, ''repo-configuration-error''),
     (PK_ERROR_ENUM_NO_LICENSE_AGREEMENT, ''no-license-agreement''),
     (PK_ERROR_ENUM_FILE_CONFLICTS, ''file-conflicts''),
     (PK_ERROR_ENUM_PACKAGE_CONFLICTS, ''package-conflicts''),
     (PK_ERROR_ENUM_REPO_NOT_AVAILABLE, ''repo-not-available''),
     (PK_ERROR_ENUM_INVALID_PACKAGE_FILE, ''invalid-package-file''),
     (PK_ERROR_ENUM_PACKAGE_INSTALL_BLOCKED, ''package-install-blocked''),
     (PK_ERROR_ENUM_PACKAGE_CORRUPT, ''package-corrupt''),
     (PK_ERROR_ENUM_ALL_PACKAGES_ALREADY_INSTALLED, ''all-packages-already-installed''),
     (PK_ERROR_ENUM_FILE_NOT_FOUND, ''file-not-found''),
     (PK_ERROR_ENUM_NO_MORE_MIRRORS_TO_TRY, ''no-more-mirrors-to-try''),
     (PK_ERROR_ENUM_NO_DISTRO_UPGRADE_DATA, ''no-distro-upgrade-data''),
     (PK_ERROR_ENUM_INCOMPATIBLE_ARCHITECTURE, ''incompatible-architecture''),
     (PK_ERROR_ENUM_NO_SPACE_ON_DEVICE, ''no-space-on-device''),
     (PK_ERROR_ENUM_MEDIA_CHANGE_REQUIRED, ''media-change-required''),
     (PK_ERROR_ENUM_NOT_AUTHORIZED, ''not-authorized''),
     (PK_ERROR_ENUM_UPDATE_NOT_FOUND, ''update-not-found''),
     (PK_ERROR_ENUM_CANNOT_INSTALL_REPO_UNSIGNED, ''cannot-install-repo-unsigned''),
     (PK_ERROR_ENUM_CANNOT_UPDATE_REPO_UNSIGNED, ''cannot-update-repo-unsigned''),
     (PK_ERROR_ENUM_CANNOT_GET_FILELIST, ''cannot-get-filelist''),
     (PK_ERROR_ENUM_CANNOT_GET_REQUIRES, ''cannot-get-requires''),
     (PK_ERROR_ENUM_CANNOT_DISABLE_REPOSITORY, ''cannot-disable-repository''),
     (PK_ERROR_ENUM_RESTRICTED_DOWNLOAD, ''restricted-download''),
     (PK_ERROR_ENUM_PACKAGE_FAILED_TO_CONFIGURE, ''package-failed-to-configure''),
     (PK_ERROR_ENUM_PACKAGE_FAILED_TO_BUILD, ''package-failed-to-build''),
     (PK_ERROR_ENUM_PACKAGE_FAILED_TO_INSTALL, ''package-failed-to-install''),
     (PK_ERROR_ENUM_PACKAGE_FAILED_TO_REMOVE, ''package-failed-to-remove''),
     (PK_ERROR_ENUM_UPDATE_FAILED_DUE_TO_RUNNING_PROCESS, ''failed-due-to-running-process''),
     (PK_ERROR_ENUM_PACKAGE_DATABASE_CHANGED, ''package-database-changed''),
     (PK_ERROR_ENUM_PROVIDE_TYPE_NOT_SUPPORTED, ''provide-type-not-supported''),
     (PK_ERROR_ENUM_INSTALL_ROOT_INVALID, ''install-root-invalid''),
     (PK_ERROR_ENUM_CANNOT_FETCH_SOURCES, ''cannot-fetch-sources''),
     (PK_ERROR_ENUM_CANCELLED_PRIORITY, ''cancelled-priority''),
     (PK_ERROR_ENUM_UNFINISHED_TRANSACTION, ''unfinished-transaction'')]"

definition enum_restart :: "(PkRestartEnum \<times> string) list" where
  "enum_restart =
    [(PK_RESTART_ENUM_UNKNOWN, ''unknown''),
     (PK_RESTART_ENUM_NONE, ''none''),
     (PK_RESTART_ENUM_SYSTEM, ''system''),
     (PK_RESTART_ENUM_SESSION, ''session''),
     (PK_RESTART_ENUM_APPLICATION, ''application''),
     (PK_RESTART_ENUM_SECURITY_SYSTEM, ''security-system''),
     (PK_RESTART_ENUM_SECURITY_SESSION, ''security-session'')]"

definition enum_message :: "(PkMessageEnum \<times> string) list" where
  "enum_message =
    [(PK_MESSAGE_ENUM_UNKNOWN, ''unknown''),
     (PK_MESSAGE_ENUM_BROKEN_MIRROR, ''broken-mirror''),
     (PK_MESSAGE_ENUM_CONNECTION_REFUSED, ''connection-refused''),
     (PK_MESSAGE_ENUM_PARAMETER_INVALID, ''parameter-invalid''),
     (PK_MESSAGE_ENUM_PRIORITY_INVALID, ''priority-invalid''),
     (PK_MESSAGE_ENUM_BACKEND_ERROR, ''backend-error''),
     (PK_MESSAGE_ENUM_DAEMON_ERROR, ''daemon-error''),
     (PK_MESSAGE_ENUM_CACHE_BEING_REBUILT, ''cache-being-rebuilt''),
     (PK_MESSAGE_ENUM_UNTRUSTED_PACKAGE, ''untrusted-package''),
     (PK_MESSAGE_ENUM_NEWER_PACKAGE_EXISTS, ''newer-package-exists''),
     (PK_MESSAGE_ENUM_COULD_NOT_FIND_PACKAGE, ''could-not-find-package''),
     (PK_MESSAGE_ENUM_CONFIG_FILES_CHANGED, ''config-files-changed''),
     (PK_MESSAGE_ENUM_PACKAGE_ALREADY_INSTALLED, ''package-already-installed''),
     (PK_MESSAGE_ENUM_AUTOREMOVE_IGNORED, ''autoremove-ignored''),
     (PK_MESSAGE_ENUM_REPO_METADATA_DOWNLOAD_FAILED, ''repo-metadata-download-failed''),
     (PK_MESSAGE_ENUM_REPO_FOR_DEVELOPERS_ONLY, ''repo-for-developers-only''),
     (PK_MESSAGE_ENUM_OTHER_UPDATES_HELD_BACK, ''other-updates-held-back'')]"

definition enum_filter :: "(PkFilterEnum \<times> string) list" where
  "enum_filter =
    [(PK_FILTER_ENUM_UNKNOWN, ''unknown''),
     (PK_FILTER_ENUM_NONE, ''none''),
     (PK_FILTER_ENUM_INSTALLED, ''installed''),
     (PK_FILTER_ENUM_NOT_INSTALLED, ''~installed''),
     (PK_FILTER_ENUM_DEVELOPMENT, ''devel''),
     (PK_FILTER_ENUM_NOT_DEVELOPMENT, ''~devel''),
     (PK_FILTER_ENUM_GUI, ''gui''),
     (PK_FILTER_ENUM_NOT_GUI, ''~gui''),
     (PK_FILTER_ENUM_FREE, ''free''),
     (PK_FILTER_ENUM_NOT_FREE, ''~free''),
     (PK_FILTER_ENUM_VISIBLE, ''visible''),
     (PK_FILTER_ENUM_NOT_VISIBLE, ''~visible''),
     (PK_FILTER_ENUM_SUPPORTED, ''supported''),
     (PK_FILTER_ENUM_NOT_SUPPORTED, ''~supported''),
     (PK_FILTER_ENUM_BASENAME, ''basename''),
     (PK_FILTER_ENUM_NOT_BASENAME, ''~basename''),
     (PK_FILTER_ENUM_NEWEST, ''newest''),
     (PK_FILTER_ENUM_NOT_NEWEST, ''~newest''),
     (PK_FILTER_ENUM_ARCH, ''arch''),
     (PK_FILTER_ENUM_NOT_ARCH, ''~arch''),
     (PK_FILTER_ENUM_SOURCE, ''source''),
     (PK_FILTER_ENUM_NOT_SOURCE, ''~source''),
     (PK_FILTER_ENUM_COLLECTIONS, ''collections''),
     (PK_FILTER_ENUM_NOT_COLLECTIONS, ''~collections''),
     (PK_FILTER_ENUM_APPLICATION, ''application''),
     (PK_FILTER_ENUM_NOT_APPLICATION, ''~application'')]"

definition enum_group :: "(PkGroupEnum \<times> string) list" where
  "enum_group =
    [(PK_GROUP_ENUM_UNKNOWN, ''unknown''),
     (PK_GROUP_ENUM_ACCESSIBILITY, ''accessibility''),
     (PK_GROUP_ENUM_ACCESSORIES, ''accessories''),
     (PK_GROUP_ENUM_EDUCATION, ''education''),
     (PK_GROUP_ENUM_GAMES, ''games''),
     (PK_GROUP_ENUM_GRAPHICS, ''graphics''),
     (PK_GROUP_ENUM_INTERNET, ''internet''),
     (PK_GROUP_ENUM_OFFICE, ''office''),
     (PK_GROUP_ENUM_OTHER, ''other''),
     (PK_GROUP_ENUM_PROGRAMMING, ''programming''),
     (PK_GROUP_ENUM_MULTIMEDIA, ''multimedia''),
     (PK_GROUP_ENUM_SYSTEM, ''system''),
     (PK_GROUP_ENUM_DESKTOP_GNOME, ''desktop-gnome''),
     (PK_GROUP_ENUM_DESKTOP_KDE, ''desktop-kde''),
     (PK_GROUP_ENUM_DESKTOP_XFCE, ''desktop-xfce''),
     (PK_GROUP_ENUM_DESKTOP_OTHER, ''desktop-other''),
     (PK_GROUP_ENUM_PUBLISHING, ''publishing''),
     (PK_GROUP_ENUM_SERVERS, ''servers''),
     (PK_GROUP_ENUM_FONTS, ''fonts''),
     (PK_GROUP_ENUM_ADMIN_TOOLS, ''admin-tools''),
     (PK_GROUP_ENUM_LEGACY, ''legacy''),
     (PK_GROUP_ENUM_LOCALIZATION, ''localization''),
     (PK_GROUP_ENUM_VIRTUALIZATION, ''virtualization''),
     (PK_GROUP_ENUM_POWER_MANAGEMENT, ''power-management''),
     (PK_GROUP_ENUM_SECURITY, ''security''),
     (PK_GROUP_ENUM_COMMUNICATION, ''communication''),
     (PK_GROUP_ENUM_NETWORK, ''network''),
     (PK_GROUP_ENUM_MAPS, ''maps''),
     (PK_GROUP_ENUM_REPOS, ''repos''),
     (PK_GROUP_ENUM_SCIENCE, ''science''),
     (PK_GROUP_ENUM_DOCUMENTATION, ''documentation''),
     (PK_GROUP_ENUM_ELECTRONICS, ''electronics''),
     (PK_GROUP_ENUM_COLLECTIONS, ''collections''),
     (PK_GROUP_ENUM_VENDOR, ''vendor''),
     (PK_GROUP_ENUM_NEWEST, ''newest'')]"

definition enum_update_state :: "(PkUpdateStateEnum \<times> string) list" where
  "enum_update_state =
    [(PK_UPDATE_STATE_ENUM_UNKNOWN, ''unknown''),
     (PK_UPDATE_STATE_ENUM_TESTING, ''testing''),
     (PK_UPDATE_STATE_ENUM_UNSTABLE, ''unstable''),
     (PK_UPDATE_STATE_ENUM_STABLE, ''stable'')]"

definition enum_info :: "(PkInfoEnum \<times> string) list" where
  "enum_info =
    [(PK_INFO_ENUM_UNKNOWN, ''unknown''),
     (PK_INFO_ENUM_INSTALLED, ''installed''),
     (PK_INFO_ENUM_AVAILABLE, ''available''),
     (PK_INFO_ENUM_LOW, ''low''),
     (PK_INFO_ENUM_NORMAL, ''normal''),
     (PK_INFO_ENUM_IMPORTANT, ''important''),
     (PK_INFO_ENUM_SECURITY, ''security''),
     (PK_INFO_ENUM_BUGFIX, ''bugfix''),
     (PK_INFO_ENUM_ENHANCEMENT, ''enhancement''),
     (PK_INFO_ENUM_BLOCKED, ''blocked''),
     (PK_INFO_ENUM_DOWNLOADING, ''downloading''),
     (PK_INFO_ENUM_UPDATING, ''updating''),
     (PK_INFO_ENUM_INSTALLING, ''installing''),
     (PK_INFO_ENUM_REMOVING, ''removing''),
     (PK_INFO_ENUM_CLEANUP, ''cleanup''),
     (PK_INFO_ENUM_OBSOLETING, ''obsoleting''),
     (PK_INFO_ENUM_COLLECTION_INSTALLED, ''collection-installed''),
     (PK_INFO_ENUM_COLLECTION_AVAILABLE, ''collection-available''),
     (PK_INFO_ENUM_FINISHED, ''finished''),
     (PK_INFO_ENUM_REINSTALLING, ''reinstalling''),
     (PK_INFO_ENUM_DOWNGRADING, ''downgrading''),
     (PK_INFO_ENUM_PREPARING, ''preparing''),
     (PK_INFO_ENUM_DECOMPRESSING, ''decompressing''),
     (PK_INFO_ENUM_UNTRUSTED, ''untrusted''),
     (PK_INFO_ENUM_TRUSTED, ''trusted'')]"

definition enum_sig_type :: "(PkSigTypeEnum \<times> string) list" where
  "enum_sig_type =
    [(PK_SIGTYPE_ENUM_UNKNOWN, ''unknown''),
     (PK_SIGTYPE_ENUM_GPG, ''gpg'')]"

definition enum_upgrade :: "(PkDistroUpgradeEnum \<times> string) list" where
  "enum_upgrade =
    [(PK_DISTRO_UPGRADE_ENUM_UNKNOWN, ''unknown''),
     (PK_DISTRO_UPGRADE_ENUM_STABLE, ''stable''),
     (PK_DISTRO_UPGRADE_ENUM_UNSTABLE, ''unstable'')]"

definition enum_provides :: "(PkProvidesEnum \<times> string) list" where
  "enum_provides =
    [(PK_PROVIDES_ENUM_UNKNOWN, ''unknown''),
     (PK_PROVIDES_ENUM_ANY, ''any''),
     (PK_PROVIDES_ENUM_MODALIAS, ''modalias''),
     (PK_PROVIDES_ENUM_CODEC, ''codec''),
     (PK_PROVIDES_ENUM_MIMETYPE, ''mimetype''),
     (PK_PROVIDES_ENUM_HARDWARE_DRIVER, ''driver''),
     (PK_PROVIDES_ENUM_FONT, ''font''),
     (PK_PROVIDES_ENUM_POSTSCRIPT_DRIVER, ''postscript-driver''),
     (PK_PROVIDES_ENUM_PLASMA_SERVICE, ''plasma-service''),
     (PK_PROVIDES_ENUM_SHARED_LIB, ''shared-library''),
     (PK_PROVIDES_ENUM_PYTHON, ''python-module''),
     (PK_PROVIDES_ENUM_LANGUAGE_SUPPORT, ''language-support'')]"

definition enum_network :: "(PkNetworkEnum \<times> string) list" where
  "enum_network =
    [(PK_NETWORK_ENUM_UNKNOWN, ''unknown''),
     (PK_NETWORK_ENUM_OFFLINE, ''offline''),
     (PK_NETWORK_ENUM_ONLINE, ''online''),
     (PK_NETWORK_ENUM_WIRED, ''wired''),
     (PK_NETWORK_ENUM_WIFI, ''wifi''),
     (PK_NETWORK_ENUM_MOBILE, ''mobile'')]"

definition enum_media_type :: "(PkMediaTypeEnum \<times> string) list" where
  "enum_media_type =
    [(PK_MEDIA_TYPE_ENUM_UNKNOWN, ''unknown''),
     (PK_MEDIA_TYPE_ENUM_CD, ''cd''),
     (PK_MEDIA_TYPE_ENUM_DVD, ''dvd''),
     (PK_MEDIA_TYPE_ENUM_DISC, ''disc'')]"

definition enum_authorize_type :: "(PkAuthorizeEnum \<times> string) list" where
  "enum_authorize_type =
    [(PK_AUTHORIZE_ENUM_UNKNOWN, ''unknown''),
     (PK_AUTHORIZE_ENUM_YES, ''yes''),
     (PK_AUTHORIZE_ENUM_NO, ''no''),
     (PK_AUTHORIZE_ENUM_INTERACTIVE, ''interactive'')]"

definition enum_upgrade_kind :: "(PkUpgradeKindEnum \<times> string) list" where
  "enum_upgrade_kind =
    [(PK_UPGRADE_KIND_ENUM_UNKNOWN, ''unknown''),
     (PK_UPGRADE_KIND_ENUM_MINIMAL, ''minimal''),
     (PK_UPGRADE_KIND_ENUM_DEFAULT, ''default''),
     (PK_UPGRADE_KIND_ENUM_COMPLETE, ''complete'')]"

section \<open>The conversions of each enumeration\<close>

definition pk_sig_type_enum_from_string :: "string option \<Rightarrow> PkSigTypeEnum" where
  "pk_sig_type_enum_from_string s = pk_enum_find_value enum_sig_type s"

definition pk_sig_type_enum_to_string :: "PkSigTypeEnum \<Rightarrow> string" where
  "pk_sig_type_enum_to_string e = pk_enum_find_string enum_sig_type e"

definition pk_distro_upgrade_enum_from_string :: "string option \<Rightarrow> PkDistroUpgradeEnum" where
  "pk_distro_upgrade_enum_from_string s = pk_enum_find_value enum_upgrade s"

definition pk_distro_upgrade_enum_to_string :: "PkDistroUpgradeEnum \<Rightarrow> string" where
  "pk_distro_upgrade_enum_to_string e = pk_enum_find_string enum_upgrade e"

definition pk_provides_enum_from_string :: "string option \<Rightarrow> PkProvidesEnum" where
  "pk_provides_enum_from_string s = pk_enum_find_value enum_provides s"

definition pk_provides_enum_to_string :: "PkProvidesEnum \<Rightarrow> string" where
  "pk_provides_enum_to_string e = pk_enum_find_string enum_provides e"

definition pk_info_enum_from_string :: "string option \<Rightarrow> PkInfoEnum" where
  "pk_info_enum_from_string s = pk_enum_find_value enum_info s"

definition pk_info_enum_to_string :: "PkInfoEnum \<Rightarrow> string" where
  "pk_info_enum_to_string e = pk_enum_find_string enum_info e"

definition pk_exit_enum_from_string :: "string option \<Rightarrow> PkExitEnum" where
  "pk_exit_enum_from_string s = pk_enum_find_value enum_exit s"

definition pk_exit_enum_to_string :: "PkExitEnum \<Rightarrow> string" where
  "pk_exit_enum_to_string e = pk_enum_find_string enum_exit e"

definition pk_network_enum_from_string :: "string option \<Rightarrow> PkNetworkEnum" where
  "pk_network_enum_from_string s = pk_enum_find_value enum_network s"

definition pk_network_enum_to_string :: "PkNetworkEnum \<Rightarrow> string" where
  "pk_network_enum_to_string e = pk_enum_find_string enum_network e"

definition pk_status_enum_from_string :: "string option \<Rightarrow> PkStatusEnum" where
  "pk_status_enum_from_string s = pk_enum_find_value enum_status s"

definition pk_status_enum_to_string :: "PkStatusEnum \<Rightarrow> string" where
  "pk_status_enum_to_string e = pk_enum_find_string enum_status e"

definition pk_role_enum_from_string :: "string option \<Rightarrow> PkRoleEnum" where
  "pk_role_enum_from_string s = pk_enum_find_value enum_role s"

definition pk_role_enum_to_string :: "PkRoleEnum \<Rightarrow> string" where
  "pk_role_enum_to_string e = pk_enum_find_string enum_role e"

definition pk_error_enum_from_string :: "string option \<Rightarrow> PkErrorEnum" where
  "pk_error_enum_from_string s = pk_enum_find_value enum_error s"

definition pk_error_enum_to_string :: "PkErrorEnum \<Rightarrow> string" where
  "pk_error_enum_to_string e = pk_enum_find_string enum_error e"

definition pk_restart_enum_from_string :: "string option \<Rightarrow> PkRestartEnum" where
  "pk_restart_enum_from_string s = pk_enum_find_value enum_restart s"

definition pk_restart_enum_to_string :: "PkRestartEnum \<Rightarrow> string" where
  "pk_restart_enum_to_string e = pk_enum_find_string enum_restart e"

definition pk_message_enum_from_string :: "string option \<Rightarrow> PkMessageEnum" where
  "pk_message_enum_from_string s = pk_enum_find_value enum_message s"

definition pk_message_enum_to_string :: "PkMessageEnum \<Rightarrow> string" where
  "pk_message_enum_to_string e = pk_enum_find_string enum_message e"

definition pk_group_enum_from_string :: "string option \<Rightarrow> PkGroupEnum" where
  "pk_group_enum_from_string s = pk_enum_find_value enum_group s"

definition pk_group_enum_to_string :: "PkGroupEnum \<Rightarrow> string" where
  "pk_group_enum_to_string e = pk_enum_find_string enum_group e"

definition pk_update_state_enum_from_string :: "string option \<Rightarrow> PkUpdateStateEnum" where
  "pk_update_state_enum_from_string s = pk_enum_find_value enum_update_state s"

definition pk_update_state_enum_to_string :: "PkUpdateStateEnum \<Rightarrow> string" where
  "pk_update_state_enum_to_string e = pk_enum_find_string enum_update_state e"

definition pk_filter_enum_from_string :: "string option \<Rightarrow> PkFilterEnum" where
  "pk_filter_enum_from_string s = pk_enum_find_value enum_filter s"

definition pk_filter_enum_to_string :: "PkFilterEnum \<Rightarrow> string" where
  "pk_filter_enum_to_string e = pk_enum_find_string enum_filter e"

definition pk_media_type_enum_from_string :: "string option \<Rightarrow> PkMediaTypeEnum" where
  "pk_media_type_enum_from_string s = pk_enum_find_value enum_media_type s"

definition pk_media_type_enum_to_string :: "PkMediaTypeEnum \<Rightarrow> string" where
  "pk_media_type_enum_to_string e = pk_enum_find_string enum_media_type e"

definition pk_authorize_type_enum_from_string :: "string option \<Rightarrow> PkAuthorizeEnum" where
  "pk_authorize_type_enum_from_string s = pk_enum_find_value enum_authorize_type s"

definition pk_authorize_type_enum_to_string :: "PkAuthorizeEnum \<Rightarrow> string" where
  "pk_authorize_type_enum_to_string e = pk_enum_find_string enum_authorize_type e"

definition pk_upgrade_kind_enum_from_string :: "string option \<Rightarrow> PkUpgradeKindEnum" where
  "pk_upgrade_kind_enum_from_string s = pk_enum_find_value enum_upgrade_kind s"

definition pk_upgrade_kind_enum_to_string :: "PkUpgradeKindEnum \<Rightarrow> string" where
  "pk_upgrade_kind_enum_to_string e = pk_enum_find_string enum_upgrade_kind e"

section \<open>Every table obeys the interface\<close>

lemma hd_enum_tables:
  "hd enum_exit = (PK_EXIT_ENUM_UNKNOWN, ''unknown'')"
  "hd enum_status = (PK_STATUS_ENUM_UNKNOWN, ''unknown'')"
  "hd enum_role = (PK_ROLE_ENUM_UNKNOWN, ''unknown'')"
  "hd enum_error = (PK_ERROR_ENUM_UNKNOWN, ''unknown'')"
  "hd enum_restart = (PK_RESTART_ENUM_UNKNOWN, ''unknown'')"
  "hd enum_message = (PK_MESSAGE_ENUM_UNKNOWN, ''unknown'')"
  "hd enum_filter = (PK_FILTER_ENUM_UNKNOWN, ''unknown'')"
  "hd enum_group = (PK_GROUP_ENUM_UNKNOWN, ''unknown'')"
  "hd enum_update_state = (PK_UPDATE_STATE_ENUM_UNKNOWN, ''unknown'')"
  "hd enum_info = (PK_INFO_ENUM_UNKNOWN, ''unknown'')"
  "hd enum_sig_type = (PK_SIGTYPE_ENUM_UNKNOWN, ''unknown'')"
  "hd enum_upgrade = (PK_DISTRO_UPGRADE_ENUM_UNKNOWN, ''unknown'')"
  "hd enum_provides = (PK_PROVIDES_ENUM_UNKNOWN, ''unknown'')"
  "hd enum_network = (PK_NETWORK_ENUM_UNKNOWN, ''unknown'')"
  "hd enum_media_type = (PK_MEDIA_TYPE_ENUM_UNKNOWN, ''unknown'')"
  "hd enum_authorize_type = (PK_AUTHORIZE_ENUM_UNKNOWN, ''unknown'')"
  "hd enum_upgrade_kind = (PK_UPGRADE_KIND_ENUM_UNKNOWN, ''unknown'')"
  by (simp_all add: enum_exit_def
      enum_status_def
      enum_role_def
      enum_error_def
      enum_restart_def
      enum_message_def
      enum_filter_def
      enum_group_def
      enum_update_state_def
      enum_info_def
      enum_sig_type_def
      enum_upgrade_def
      enum_provides_def
      enum_network_def
      enum_media_type_def
      enum_authorize_type_def
      enum_upgrade_kind_def)

lemma length_enum_tables:
  "length enum_exit = 12"
  "length enum_status = 37"
  "length enum_role = 38"
  "length enum_error = 67"
  "length enum_restart = 7"
  "length enum_message = 17"
  "length enum_filter = 26"
  "length enum_group = 35"
  "length enum_update_state = 4"
  "length enum_info = 25"
  "length enum_sig_type = 2"
  "length enum_upgrade = 3"
  "length enum_provides = 12"
  "length enum_network = 6"
  "length enum_media_type = 4"
  "length enum_authorize_type = 4"
  "length enum_upgrade_kind = 4"
  by (simp_all add: enum_exit_def
      enum_status_def
      enum_role_def
      enum_error_def
      enum_restart_def
      enum_message_def
      enum_filter_def
      enum_group_def
      enum_update_state_def
      enum_info_def
      enum_sig_type_def
      enum_upgrade_def
      enum_provides_def
      enum_network_def
      enum_media_type_def
      enum_authorize_type_def
      enum_upgrade_kind_def)

interpretation t_exit: enum_table enum_exit PK_EXIT_ENUM_LAST
proof
  show "enum_exit \<noteq> []" by (simp add: enum_exit_def)
  show "distinct (map fst enum_exit)" by (simp add: enum_exit_def)
  show "distinct (map snd enum_exit)" by (simp add: enum_exit_def)
  show "set (map fst enum_exit) = UNIV - {PK_EXIT_ENUM_LAST}"
    by (auto simp: enum_exit_def set_PkExitEnum_values [symmetric] PkExitEnum_values_def)
  show "last enum_class.enum = PK_EXIT_ENUM_LAST"
    by (simp add: enum_PkExitEnum_def PkExitEnum_values_def)
qed

interpretation t_status: enum_table enum_status PK_STATUS_ENUM_LAST
proof
  show "enum_status \<noteq> []" by (simp add: enum_status_def)
  show "distinct (map fst enum_status)" by (simp add: enum_status_def)
  show "distinct (map snd enum_status)" by (simp add: enum_status_def)
  show "set (map fst enum_status) = UNIV - {PK_STATUS_ENUM_LAST}"
    by (auto simp: enum_status_def set_PkStatusEnum_values [symmetric] PkStatusEnum_values_def)
  show "last enum_class.enum = PK_STATUS_ENUM_LAST"
    by (simp add: enum_PkStatusEnum_def PkStatusEnum_values_def)
qed

interpretation t_role: enum_table enum_role PK_ROLE_ENUM_LAST
proof
  show "enum_role \<noteq> []" by (simp add: enum_role_def)
  show "distinct (map fst enum_role)" by (simp add: enum_role_def)
  show "distinct (map snd enum_role)" by (simp add: enum_role_def)
  show "set (map fst enum_role) = UNIV - {PK_ROLE_ENUM_LAST}"
    by (auto simp: enum_role_def set_PkRoleEnum_values [symmetric] PkRoleEnum_values_def)
  show "last enum_class.enum = PK_ROLE_ENUM_LAST"
    by (simp add: enum_PkRoleEnum_def PkRoleEnum_values_def)
qed

interpretation t_error: enum_table enum_error PK_ERROR_ENUM_LAST
proof
  show "enum_error \<noteq> []" by (simp add: enum_error_def)
  show "distinct (map fst enum_error)" by (simp add: enum_error_def)
  show "distinct (map snd enum_error)" by (simp add: enum_error_def)
  show "set (map fst enum_error) = UNIV - {PK_ERROR_ENUM_LAST}"
    by (auto simp: enum_error_def set_PkErrorEnum_values [symmetric] PkErrorEnum_values_def)
  show "last enum_class.enum = PK_ERROR_ENUM_LAST"
    by (simp add: enum_PkErrorEnum_def PkErrorEnum_values_def)
qed

interpretation t_restart: enum_table enum_restart PK_RESTART_ENUM_LAST
proof
  show "enum_restart \<noteq> []" by (simp add: enum_restart_def)
  show "distinct (map fst enum_restart)" by (simp add: enum_restart_def)
  show "distinct (map snd enum_restart)" by (simp add: enum_restart_def)
  show "set (map fst enum_restart) = UNIV - {PK_RESTART_ENUM_LAST}"
    by (auto simp: enum_restart_def set_PkRestartEnum_values [symmetric] PkRestartEnum_values_def)
  show "last enum_class.enum = PK_RESTART_ENUM_LAST"
    by (simp add: enum_PkRestartEnum_def PkRestartEnum_values_def)
qed

interpretation t_message: enum_table enum_message PK_MESSAGE_ENUM_LAST
proof
  show "enum_message \<noteq> []" by (simp add: enum_message_def)
  show "distinct (map fst enum_message)" by (simp add: enum_message_def)
  show "distinct (map snd enum_message)" by (simp add: enum_message_def)
  show "set (map fst enum_message) = UNIV - {PK_MESSAGE_ENUM_LAST}"
    by (auto simp: enum_message_def set_PkMessageEnum_values [symmetric] PkMessageEnum_values_def)
  show "last enum_class.enum = PK_MESSAGE_ENUM_LAST"
    by (simp add: enum_PkMessageEnum_def PkMessageEnum_values_def)
qed

interpretation t_filter: enum_table enum_filter PK_FILTER_ENUM_LAST
proof
  show "enum_filter \<noteq> []" by (simp add: enum_filter_def)
  show "distinct (map fst enum_filter)" by (simp add: enum_filter_def)
  show "distinct (map snd enum_filter)" by (simp add: enum_filter_def)
  show "set (map fst enum_filter) = UNIV - {PK_FILTER_ENUM_LAST}"
    by (auto simp: enum_filter_def set_PkFilterEnum_values [symmetric] PkFilterEnum_values_def)
  show "last enum_class.enum = PK_FILTER_ENUM_LAST"
    by (simp add: enum_PkFilterEnum_def PkFilterEnum_values_def)
qed

interpretation t_group: enum_table enum_group PK_GROUP_ENUM_LAST
proof
  show "enum_group \<noteq> []" by (simp add: enum_group_def)
  show "distinct (map fst enum_group)" by (simp add: enum_group_def)
  show "distinct (map snd enum_group)" by (simp add: enum_group_def)
  show "set (map fst enum_group) = UNIV - {PK_GROUP_ENUM_LAST}"
    by (auto simp: enum_group_def set_PkGroupEnum_values [symmetric] PkGroupEnum_values_def)
  show "last enum_class.enum = PK_GROUP_ENUM_LAST"
    by (simp add: enum_PkGroupEnum_def PkGroupEnum_values_def)
qed

interpretation t_update_state: enum_table enum_update_state PK_UPDATE_STATE_ENUM_LAST
proof
  show "enum_update_state \<noteq> []" by (simp add: enum_update_state_def)
  show "distinct (map fst enum_update_state)" by (simp add: enum_update_state_def)
  show "distinct (map snd enum_update_state)" by (simp add: enum_update_state_def)
  show "set (map fst enum_update_state) = UNIV - {PK_UPDATE_STATE_ENUM_LAST}"
    by (auto simp: enum_update_state_def set_PkUpdateStateEnum_values [symmetric] PkUpdateStateEnum_values_def)
  show "last enum_class.enum = PK_UPDATE_STATE_ENUM_LAST"
    by (simp add: enum_PkUpdateStateEnum_def PkUpdateStateEnum_values_def)
qed

interpretation t_info: enum_table enum_info PK_INFO_ENUM_LAST
proof
  show "enum_info \<noteq> []" by (simp add: enum_info_def)
  show "distinct (map fst enum_info)" by (simp add: enum_info_def)
  show "distinct (map snd enum_info)" by (simp add: enum_info_def)
  show "set (map fst enum_info) = UNIV - {PK_INFO_ENUM_LAST}"
    by (auto simp: enum_info_def set_PkInfoEnum_values [symmetric] PkInfoEnum_values_def)
  show "last enum_class.enum = PK_INFO_ENUM_LAST"
    by (simp add: enum_PkInfoEnum_def PkInfoEnum_values_def)
qed

interpretation t_sig_type: enum_table enum_sig_type PK_SIGTYPE_ENUM_LAST
proof
  show "enum_sig_type \<noteq> []" by (simp add: enum_sig_type_def)
  show "distinct (map fst enum_sig_type)" by (simp add: enum_sig_type_def)
  show "distinct (map snd enum_sig_type)" by (simp add: enum_sig_type_def)
  show "set (map fst enum_sig_type) = UNIV - {PK_SIGTYPE_ENUM_LAST}"
    by (auto simp: enum_sig_type_def set_PkSigTypeEnum_values [symmetric] PkSigTypeEnum_values_def)
  show "last enum_class.enum = PK_SIGTYPE_ENUM_LAST"
    by (simp add: enum_PkSigTypeEnum_def PkSigTypeEnum_values_def)
qed

interpretation t_upgrade: enum_table enum_upgrade PK_DISTRO_UPGRADE_ENUM_LAST
proof
  show "enum_upgrade \<noteq> []" by (simp add: enum_upgrade_def)
  show "distinct (map fst enum_upgrade)" by (simp add: enum_upgrade_def)
  show "distinct (map snd enum_upgrade)" by (simp add: enum_upgrade_def)
  show "set (map fst enum_upgrade) = UNIV - {PK_DISTRO_UPGRADE_ENUM_LAST}"
    by (auto simp: enum_upgrade_def set_PkDistroUpgradeEnum_values [symmetric] PkDistroUpgradeEnum_values_def)
  show "last enum_class.enum = PK_DISTRO_UPGRADE_ENUM_LAST"
    by (simp add: enum_PkDistroUpgradeEnum_def PkDistroUpgradeEnum_values_def)
qed

interpretation t_provides: enum_table enum_provides PK_PROVIDES_ENUM_LAST
proof
  show "enum_provides \<noteq> []" by (simp add: enum_provides_def)
  show "distinct (map fst enum_provides)" by (simp add: enum_provides_def)
  show "distinct (map snd enum_provides)" by (simp add: enum_provides_def)
  show "set (map fst enum_provides) = UNIV - {PK_PROVIDES_ENUM_LAST}"
    by (auto simp: enum_provides_def set_PkProvidesEnum_values [symmetric] PkProvidesEnum_values_def)
  show "last enum_class.enum = PK_PROVIDES_ENUM_LAST"
    by (simp add: enum_PkProvidesEnum_def PkProvidesEnum_values_def)
qed

interpretation t_network: enum_table enum_network PK_NETWORK_ENUM_LAST
proof
  show "enum_network \<noteq> []" by (simp add: enum_network_def)
  show "distinct (map fst enum_network)" by (simp add: enum_network_def)
  show "distinct (map snd enum_network)" by (simp add: enum_network_def)
  show "set (map fst enum_network) = UNIV - {PK_NETWORK_ENUM_LAST}"
    by (auto simp: enum_network_def set_PkNetworkEnum_values [symmetric] PkNetworkEnum_values_def)
  show "last enum_class.enum = PK_NETWORK_ENUM_LAST"
    by (simp add: enum_PkNetworkEnum_def PkNetworkEnum_values_def)
qed

interpretation t_media_type: enum_table enum_media_type PK_MEDIA_TYPE_ENUM_LAST
proof
  show "enum_media_type \<noteq> []" by (simp add: enum_media_type_def)
  show "distinct (map fst enum_media_type)" by (simp add: enum_media_type_def)
  show "distinct (map snd enum_media_type)" by (simp add: enum_media_type_def)
  show "set (map fst enum_media_type) = UNIV - {PK_MEDIA_TYPE_ENUM_LAST}"
    by (auto simp: enum_media_type_def set_PkMediaTypeEnum_values [symmetric] PkMediaTypeEnum_values_def)
  show "last enum_class.enum = PK_MEDIA_TYPE_ENUM_LAST"
    by (simp add: enum_PkMediaTypeEnum_def PkMediaTypeEnum_values_def)
qed

interpretation t_authorize_type: enum_table enum_authorize_type PK_AUTHORIZE_ENUM_LAST
proof
  show "enum_authorize_type \<noteq> []" by (simp add: enum_authorize_type_def)
  show "distinct (map fst enum_authorize_type)" by (simp add: enum_authorize_type_def)
  show "distinct (map snd enum_authorize_type)" by (simp add: enum_authorize_type_def)
  show "set (map fst enum_authorize_type) = UNIV - {PK_AUTHORIZE_ENUM_LAST}"
    by (auto simp: enum_authorize_type_def set_PkAuthorizeEnum_values [symmetric] PkAuthorizeEnum_values_def)
  show "last enum_class.enum = PK_AUTHORIZE_ENUM_LAST"
    by (simp add: enum_PkAuthorizeEnum_def PkAuthorizeEnum_values_def)
qed

interpretation t_upgrade_kind: enum_table enum_upgrade_kind PK_UPGRADE_KIND_ENUM_LAST
proof
  show "enum_upgrade_kind \<noteq> []" by (simp add: enum_upgrade_kind_def)
  show "distinct (map fst enum_upgrade_kind)" by (simp add: enum_upgrade_kind_def)
  show "distinct (map snd enum_upgrade_kind)" by (simp add: enum_upgrade_kind_def)
  show "set (map fst enum_upgrade_kind) = UNIV - {PK_UPGRADE_KIND_ENUM_LAST}"
    by (auto simp: enum_upgrade_kind_def set_PkUpgradeKindEnum_values [symmetric] PkUpgradeKindEnum_values_def)
  show "last enum_class.enum = PK_UPGRADE_KIND_ENUM_LAST"
    by (simp add: enum_PkUpgradeKindEnum_def PkUpgradeKindEnum_values_def)
qed

lemmas enum_string_defs =
  pk_sig_type_enum_from_string_def pk_sig_type_enum_to_string_def
  pk_distro_upgrade_enum_from_string_def pk_distro_upgrade_enum_to_string_def
  pk_provides_enum_from_string_def pk_provides_enum_to_string_def
  pk_info_enum_from_string_def pk_info_enum_to_string_def
  pk_exit_enum_from_string_def pk_exit_enum_to_string_def
  pk_network_enum_from_string_def pk_network_enum_to_string_def
  pk_status_enum_from_string_def pk_status_enum_to_string_def
  pk_role_enum_from_string_def pk_role_enum_to_string_def
  pk_error_enum_from_string_def pk_error_enum_to_string_def
  pk_restart_enum_from_string_def pk_restart_enum_to_string_def
  pk_message_enum_from_string_def pk_message_enum_to_string_def
  pk_group_enum_from_string_def pk_group_enum_to_string_def
  pk_update_state_enum_from_string_def pk_update_state_enum_to_string_def
  pk_filter_enum_from_string_def pk_filter_enum_to_string_def
  pk_media_type_enum_from_string_def pk_media_type_enum_to_string_def
  pk_authorize_type_enum_from_string_def pk_authorize_type_enum_to_string_def
  pk_upgrade_kind_enum_from_string_def pk_upgrade_kind_enum_to_string_def

section \<open>Translated texts\<close>

text \<open>
  \<open>tr d m\<close> stands for \<open>dgettext (d, m)\<close> and \<open>dflt\<close> for the text domain of a plain \<open>_()\<close>:
  the message catalogues are not part of the program. \<open>None\<close> is the \<open>NULL\<close> that the
  function returns after its warning.
\<close>

definition pk_info_enum_to_localised_text ::
  "(string \<Rightarrow> string \<Rightarrow> string) \<Rightarrow> string \<Rightarrow> PkInfoEnum \<Rightarrow> string option" where
  "pk_info_enum_to_localised_text tr dflt e = (case e of
       PK_INFO_ENUM_LOW \<Rightarrow> Some (tr dflt ''Trivial'')
     | PK_INFO_ENUM_NORMAL \<Rightarrow> Some (tr ''PackageKit'' ''Normal'')
     | PK_INFO_ENUM_IMPORTANT \<Rightarrow> Some (tr ''PackageKit'' ''Important'')
     | PK_INFO_ENUM_SECURITY \<Rightarrow> Some (tr ''PackageKit'' ''Security'')
     | PK_INFO_ENUM_BUGFIX \<Rightarrow> Some (tr ''PackageKit'' ''Bug fix '')
     | PK_INFO_ENUM_ENHANCEMENT \<Rightarrow> Some (tr ''PackageKit'' ''Enhancement'')
     | PK_INFO_ENUM_BLOCKED \<Rightarrow> Some (tr ''PackageKit'' ''Blocked'')
     | PK_INFO_ENUM_INSTALLED \<Rightarrow> Some (tr ''PackageKit'' ''Installed'')
     | PK_INFO_ENUM_COLLECTION_INSTALLED \<Rightarrow> Some (tr ''PackageKit'' ''Installed'')
     | PK_INFO_ENUM_AVAILABLE \<Rightarrow> Some (tr ''PackageKit'' ''Available'')
     | PK_INFO_ENUM_COLLECTION_AVAILABLE \<Rightarrow> Some (tr ''PackageKit'' ''Available'')
     | _ \<Rightarrow> None)"

definition pk_info_enum_to_localised_present ::
  "(string \<Rightarrow> string \<Rightarrow> string) \<Rightarrow> string \<Rightarrow> PkInfoEnum \<Rightarrow> string option" where
  "pk_info_enum_to_localised_present tr dflt e = (case e of
       PK_INFO_ENUM_DOWNLOADING \<Rightarrow> Some (tr ''PackageKit'' ''Downloading'')
     | PK_INFO_ENUM_UPDATING \<Rightarrow> Some (tr ''PackageKit'' ''Updating'')
     | PK_INFO_ENUM_INSTALLING \<Rightarrow> Some (tr ''PackageKit'' ''Installing'')
     | PK_INFO_ENUM_REMOVING \<Rightarrow> Some (tr ''PackageKit'' ''Removing'')
     | PK_INFO_ENUM_CLEANUP \<Rightarrow> Some (tr ''PackageKit'' ''Cleaning up'')
     | PK_INFO_ENUM_OBSOLETING \<Rightarrow> Some (tr ''PackageKit'' ''Obsoleting'')
     | PK_INFO_ENUM_REINSTALLING \<Rightarrow> Some (tr ''PackageKit'' ''Reinstalling'')
     | _ \<Rightarrow> pk_info_enum_to_localised_text tr dflt e)"

definition pk_info_enum_to_localised_past ::
  "(string \<Rightarrow> string \<Rightarrow> string) \<Rightarrow> string \<Rightarrow> PkInfoEnum \<Rightarrow> string option" where
  "pk_info_enum_to_localised_past tr dflt e = (case e of
       PK_INFO_ENUM_DOWNLOADING \<Rightarrow> Some (tr ''PackageKit'' ''Downloaded'')
     | PK_INFO_ENUM_UPDATING \<Rightarrow> Some (tr ''PackageKit'' ''Updated'')
     | PK_INFO_ENUM_INSTALLING \<Rightarrow> Some (tr ''PackageKit'' ''Installed'')
     | PK_INFO_ENUM_REMOVING \<Rightarrow> Some (tr ''PackageKit'' ''Removed'')
     | PK_INFO_ENUM_CLEANUP \<Rightarrow> Some (tr ''PackageKit'' ''Cleaned up'')
     | PK_INFO_ENUM_OBSOLETING \<Rightarrow> Some (tr ''PackageKit'' ''Obsoleted'')
     | PK_INFO_ENUM_REINSTALLING \<Rightarrow> Some (tr ''PackageKit'' ''Reinstalled'')
     | _ \<Rightarrow> pk_info_enum_to_localised_text tr dflt e)"

definition pk_role_enum_to_localised_present ::
  "(string \<Rightarrow> string \<Rightarrow> string) \<Rightarrow> string \<Rightarrow> PkRoleEnum \<Rightarrow> string option" where
  "pk_role_enum_to_localised_present tr dflt e = (case e of
       PK_ROLE_ENUM_UNKNOWN \<Rightarrow> Some (tr ''PackageKit'' ''Unknown role type'')
     | PK_ROLE_ENUM_GET_DEPENDS \<Rightarrow> Some (tr ''PackageKit'' ''Getting dependencies'')
     | PK_ROLE_ENUM_GET_UPDATE_DETAIL \<Rightarrow> Some (tr ''PackageKit'' ''Getting update details'')
     | PK_ROLE_ENUM_GET_DETAILS \<Rightarrow> Some (tr ''PackageKit'' ''Getting details'')
     | PK_ROLE_ENUM_GET_REQUIRES \<Rightarrow> Some (tr ''PackageKit'' ''Getting requires'')
     | PK_ROLE_ENUM_GET_UPDATES \<Rightarrow> Some (tr ''PackageKit'' ''Getting updates'')
     | PK_ROLE_ENUM_SEARCH_DETAILS \<Rightarrow> Some (tr ''PackageKit'' ''Searching by details'')
     | PK_ROLE_ENUM_SEARCH_FILE \<Rightarrow> Some (tr ''PackageKit'' ''Searching by file'')
     | PK_ROLE_ENUM_SEARCH_GROUP \<Rightarrow> Some (tr ''PackageKit'' ''Searching groups'')
     | PK_ROLE_ENUM_SEARCH_NAME \<Rightarrow> Some (tr ''PackageKit'' ''Searching by name'')
     | PK_ROLE_ENUM_REMOVE_PACKAGES \<Rightarrow> Some (tr ''PackageKit'' ''Removing'')
     | PK_ROLE_ENUM_INSTALL_PACKAGES \<Rightarrow> Some (tr ''PackageKit'' ''Installing'')
     | PK_ROLE_ENUM_INSTALL_FILES \<Rightarrow> Some (tr ''PackageKit'' ''Installing files'')
     | PK_ROLE_ENUM_REFRESH_CACHE \<Rightarrow> Some (tr ''PackageKit'' ''Refreshing cache'')
     | PK_ROLE_ENUM_UPDATE_PACKAGES \<Rightarrow> Some (tr ''PackageKit'' ''Updating packages'')
     | PK_ROLE_ENUM_UPDATE_SYSTEM \<Rightarrow> Some (tr ''PackageKit'' ''Updating system'')
     | PK_ROLE_ENUM_CANCEL \<Rightarrow> Some (tr ''PackageKit'' ''Canceling'')
     | PK_ROLE_ENUM_ROLLBACK \<Rightarrow> Some (tr ''PackageKit'' ''Rolling back'')
     | PK_ROLE_ENUM_GET_REPO_LIST \<Rightarrow> Some (tr ''PackageKit'' ''Getting repositories'')
     | PK_ROLE_ENUM_REPO_ENABLE \<Rightarrow> Some (tr ''PackageKit'' ''Enabling repository'')
     | PK_ROLE_ENUM_REPO_SET_DATA \<Rightarrow> Some (tr ''PackageKit'' ''Setting data'')
     | PK_ROLE_ENUM_RESOLVE \<Rightarrow> Some (tr ''PackageKit'' ''Resolving'')
     | PK_ROLE_ENUM_GET_FILES \<Rightarrow> Some (tr ''PackageKit'' ''Getting file list'')
     | PK_ROLE_ENUM_WHAT_PROVIDES \<Rightarrow> Some (tr ''PackageKit'' ''Getting provides'')
     | PK_ROLE_ENUM_INSTALL_SIGNATURE \<Rightarrow> Some (tr ''PackageKit'' ''Installing signature'')
     | PK_ROLE_ENUM_GET_PACKAGES \<Rightarrow> Some (tr ''PackageKit'' ''Getting packages'')
     | PK_ROLE_ENUM_ACCEPT_EULA \<Rightarrow> Some (tr ''PackageKit'' ''Accepting EULA'')
     | PK_ROLE_ENUM_DOWNLOAD_PACKAGES \<Rightarrow> Some (tr ''PackageKit'' ''Downloading packages'')
     | PK_ROLE_ENUM_GET_DISTRO_UPGRADES \<Rightarrow> Some (tr ''PackageKit'' ''Getting upgrades'')
     | PK_ROLE_ENUM_GET_CATEGORIES \<Rightarrow> Some (tr ''PackageKit'' ''Getting categories'')
     | PK_ROLE_ENUM_GET_OLD_TRANSACTIONS \<Rightarrow> Some (tr ''PackageKit'' ''Getting transactions'')
     | PK_ROLE_ENUM_SIMULATE_INSTALL_FILES \<Rightarrow> Some (tr ''PackageKit'' ''Simulating install'')
     | PK_ROLE_ENUM_SIMULATE_INSTALL_PACKAGES \<Rightarrow> Some (tr ''PackageKit'' ''Simulating install'')
     | PK_ROLE_ENUM_SIMULATE_REMOVE_PACKAGES \<Rightarrow> Some (tr ''PackageKit'' ''Simulating remove'')
     | PK_ROLE_ENUM_SIMULATE_UPDATE_PACKAGES \<Rightarrow> Some (tr ''PackageKit'' ''Simulating update'')
     | _ \<Rightarrow> None)"

section \<open>Properties\<close>

text \<open>C40: Every enumerator of the seventeen enumerations but the sentinel survives the trip
  through its text, so no two of them share a text.\<close>

theorem enum_round_trips:
  "(\<forall>e. e \<noteq> PK_EXIT_ENUM_LAST \<longrightarrow>
      pk_exit_enum_from_string (Some (pk_exit_enum_to_string e)) = e) \<and>
   (\<forall>e. e \<noteq> PK_STATUS_ENUM_LAST \<longrightarrow>
      pk_status_enum_from_string (Some (pk_status_enum_to_string e)) = e) \<and>
   (\<forall>e. e \<noteq> PK_ROLE_ENUM_LAST \<longrightarrow>
      pk_role_enum_from_string (Some (pk_role_enum_to_string e)) = e) \<and>
   (\<forall>e. e \<noteq> PK_ERROR_ENUM_LAST \<longrightarrow>
      pk_error_enum_from_string (Some (pk_error_enum_to_string e)) = e) \<and>
   (\<forall>e. e \<noteq> PK_RESTART_ENUM_LAST \<longrightarrow>
      pk_restart_enum_from_string (Some (pk_restart_enum_to_string e)) = e) \<and>
   (\<forall>e. e \<noteq> PK_MESSAGE_ENUM_LAST \<longrightarrow>
      pk_message_enum_from_string (Some (pk_message_enum_to_string e)) = e) \<and>
   (\<forall>e. e \<noteq> PK_FILTER_ENUM_LAST \<longrightarrow>
      pk_filter_enum_from_string (Some (pk_filter_enum_to_string e)) = e) \<and>
   (\<forall>e. e \<noteq> PK_GROUP_ENUM_LAST \<longrightarrow>
      pk_group_enum_from_string (Some (pk_group_enum_to_string e)) = e) \<and>
   (\<forall>e. e \<noteq> PK_UPDATE_STATE_ENUM_LAST \<longrightarrow>
      pk_update_state_enum_from_string (Some (pk_update_state_enum_to_string e)) = e) \<and>
   (\<forall>e. e \<noteq> PK_INFO_ENUM_LAST \<longrightarrow>
      pk_info_enum_from_string (Some (pk_info_enum_to_string e)) = e) \<and>
   (\<forall>e. e \<noteq> PK_SIGTYPE_ENUM_LAST \<longrightarrow>
      pk_sig_type_enum_from_string (Some (pk_sig_type_enum_to_string e)) = e) \<and>
   (\<forall>e. e \<noteq> PK_DISTRO_UPGRADE_ENUM_LAST \<longrightarrow>
      pk_distro_upgrade_enum_from_string (Some (pk_distro_upgrade_enum_to_string e)) = e) \<and>
   (\<forall>e. e \<noteq> PK_PROVIDES_ENUM_LAST \<longrightarrow>
      pk_provides_enum_from_string (Some (pk_provides_enum_to_string e)) = e) \<and>
   (\<forall>e. e \<noteq> PK_NETWORK_ENUM_LAST \<longrightarrow>
      pk_network_enum_from_string (Some (pk_network_enum_to_string e)) = e) \<and>
   (\<forall>e. e \<noteq> PK_MEDIA_TYPE_ENUM_LAST \<longrightarrow>
      pk_media_type_enum_from_string (Some (pk_media_type_enum_to_string e)) = e) \<and>
   (\<forall>e. e \<noteq> PK_AUTHORIZE_ENUM_LAST \<longrightarrow>
      pk_authorize_type_enum_from_string (Some (pk_authorize_type_enum_to_string e)) = e) \<and>
   (\<forall>e. e \<noteq> PK_UPGRADE_KIND_ENUM_LAST \<longrightarrow>
      pk_upgrade_kind_enum_from_string (Some (pk_upgrade_kind_enum_to_string e)) = e)"
  unfolding enum_string_defs
  by (intro conjI allI impI)
    (erule t_exit.value_of_string,
     erule t_status.value_of_string,
     erule t_role.value_of_string,
     erule t_error.value_of_string,
     erule t_restart.value_of_string,
     erule t_message.value_of_string,
     erule t_filter.value_of_string,
     erule t_group.value_of_string,
     erule t_update_state.value_of_string,
     erule t_info.value_of_string,
     erule t_sig_type.value_of_string,
     erule t_upgrade.value_of_string,
     erule t_provides.value_of_string,
     erule t_network.value_of_string,
     erule t_media_type.value_of_string,
     erule t_authorize_type.value_of_string,
     erule t_upgrade_kind.value_of_string)

lemma enum_round_trips_witness:
  "pk_role_enum_from_string (Some (pk_role_enum_to_string PK_ROLE_ENUM_RESOLVE)) = PK_ROLE_ENUM_RESOLVE"
  by (rule enum_round_trips [THEN conjunct2, THEN conjunct2, THEN conjunct1, rule_format]) simp

text \<open>A text that a conversion does not know, like a missing one, is the first value of the
  enumeration, its \<open>unknown\<close>; no text is ever read as the sentinel.\<close>

theorem enum_unknown_texts:
  "pk_exit_enum_from_string None = PK_EXIT_ENUM_UNKNOWN \<and>
   (s \<notin> snd ` set enum_exit \<longrightarrow> pk_exit_enum_from_string (Some s) = PK_EXIT_ENUM_UNKNOWN) \<and>
   pk_exit_enum_from_string t \<noteq> PK_EXIT_ENUM_LAST \<and>
   pk_status_enum_from_string None = PK_STATUS_ENUM_UNKNOWN \<and>
   (s \<notin> snd ` set enum_status \<longrightarrow> pk_status_enum_from_string (Some s) = PK_STATUS_ENUM_UNKNOWN) \<and>
   pk_status_enum_from_string t \<noteq> PK_STATUS_ENUM_LAST \<and>
   pk_role_enum_from_string None = PK_ROLE_ENUM_UNKNOWN \<and>
   (s \<notin> snd ` set enum_role \<longrightarrow> pk_role_enum_from_string (Some s) = PK_ROLE_ENUM_UNKNOWN) \<and>
   pk_role_enum_from_string t \<noteq> PK_ROLE_ENUM_LAST \<and>
   pk_error_enum_from_string None = PK_ERROR_ENUM_UNKNOWN \<and>
   (s \<notin> snd ` set enum_error \<longrightarrow> pk_error_enum_from_string (Some s) = PK_ERROR_ENUM_UNKNOWN) \<and>
   pk_error_enum_from_string t \<noteq> PK_ERROR_ENUM_LAST \<and>
   pk_restart_enum_from_string None = PK_RESTART_ENUM_UNKNOWN \<and>
   (s \<notin> snd ` set enum_restart \<longrightarrow> pk_restart_enum_from_string (Some s) = PK_RESTART_ENUM_UNKNOWN) \<and>
   pk_restart_enum_from_string t \<noteq> PK_RESTART_ENUM_LAST \<and>
   pk_message_enum_from_string None = PK_MESSAGE_ENUM_UNKNOWN \<and>
   (s \<notin> snd ` set enum_message \<longrightarrow> pk_message_enum_from_string (Some s) = PK_MESSAGE_ENUM_UNKNOWN) \<and>
   pk_message_enum_from_string t \<noteq> PK_MESSAGE_ENUM_LAST \<and>
   pk_filter_enum_from_string None = PK_FILTER_ENUM_UNKNOWN \<and>
   (s \<notin> snd ` set enum_filter \<longrightarrow> pk_filter_enum_from_string (Some s) = PK_FILTER_ENUM_UNKNOWN) \<and>
   pk_filter_enum_from_string t \<noteq> PK_FILTER_ENUM_LAST \<and>
   pk_group_enum_from_string None = PK_GROUP_ENUM_UNKNOWN \<and>
   (s \<notin> snd ` set enum_group \<longrightarrow> pk_group_enum_from_string (Some s) = PK_GROUP_ENUM_UNKNOWN) \<and>
   pk_group_enum_from_string t \<noteq> PK_GROUP_ENUM_LAST \<and>
   pk_update_state_enum_from_string None = PK_UPDATE_STATE_ENUM_UNKNOWN \<and>
   (s \<notin> snd ` set enum_update_state \<longrightarrow> pk_update_state_enum_from_string (Some s) = PK_UPDATE_STATE_ENUM_UNKNOWN) \<and>
   pk_update_state_enum_from_string t \<noteq> PK_UPDATE_STATE_ENUM_LAST \<and>
   pk_info_enum_from_string None = PK_INFO_ENUM_UNKNOWN \<and>
   (s \<notin> snd ` set enum_info \<longrightarrow> pk_info_enum_from_string (Some s) = PK_INFO_ENUM_UNKNOWN) \<and>
   pk_info_enum_from_string t \<noteq> PK_INFO_ENUM_LAST \<and>
   pk_sig_type_enum_from_string None = PK_SIGTYPE_ENUM_UNKNOWN \<and>
   (s \<notin> snd ` set enum_sig_type \<longrightarrow> pk_sig_type_enum_from_string (Some s) = PK_SIGTYPE_ENUM_UNKNOWN) \<and>
   pk_sig_type_enum_from_string t \<noteq> PK_SIGTYPE_ENUM_LAST \<and>
   pk_distro_upgrade_enum_from_string None = PK_DISTRO_UPGRADE_ENUM_UNKNOWN \<and>
   (s \<notin> snd ` set enum_upgrade \<longrightarrow> pk_distro_upgrade_enum_from_string (Some s) = PK_DISTRO_UPGRADE_ENUM_UNKNOWN) \<and>
   pk_distro_upgrade_enum_from_string t \<noteq> PK_DISTRO_UPGRADE_ENUM_LAST \<and>
   pk_provides_enum_from_string None = PK_PROVIDES_ENUM_UNKNOWN \<and>
   (s \<notin> snd ` set enum_provides \<longrightarrow> pk_provides_enum_from_string (Some s) = PK_PROVIDES_ENUM_UNKNOWN) \<and>
   pk_provides_enum_from_string t \<noteq> PK_PROVIDES_ENUM_LAST \<and>
   pk_network_enum_from_string None = PK_NETWORK_ENUM_UNKNOWN \<and>
   (s \<notin> snd ` set enum_network \<longrightarrow> pk_network_enum_from_string (Some s) = PK_NETWORK_ENUM_UNKNOWN) \<and>
   pk_network_enum_from_string t \<noteq> PK_NETWORK_ENUM_LAST \<and>
   pk_media_type_enum_from_string None = PK_MEDIA_TYPE_ENUM_UNKNOWN \<and>
   (s \<notin> snd ` set enum_media_type \<longrightarrow> pk_media_type_enum_from_string (Some s) = PK_MEDIA_TYPE_ENUM_UNKNOWN) \<and>
   pk_media_type_enum_from_string t \<noteq> PK_MEDIA_TYPE_ENUM_LAST \<and>
   pk_authorize_type_enum_from_string None = PK_AUTHORIZE_ENUM_UNKNOWN \<and>
   (s \<notin> snd ` set enum_authorize_type \<longrightarrow> pk_authorize_type_enum_from_string (Some s) = PK_AUTHORIZE_ENUM_UNKNOWN) \<and>
   pk_authorize_type_enum_from_string t \<noteq> PK_AUTHORIZE_ENUM_LAST \<and>
   pk_upgrade_kind_enum_from_string None = PK_UPGRADE_KIND_ENUM_UNKNOWN \<and>
   (s \<notin> snd ` set enum_upgrade_kind \<longrightarrow> pk_upgrade_kind_enum_from_string (Some s) = PK_UPGRADE_KIND_ENUM_UNKNOWN) \<and>
   pk_upgrade_kind_enum_from_string t \<noteq> PK_UPGRADE_KIND_ENUM_LAST"
  unfolding enum_string_defs
  by (intro conjI impI;
    simp only: t_exit.value_NULL t_exit.value_unknown t_exit.value_not_sentinel
      t_status.value_NULL t_status.value_unknown t_status.value_not_sentinel
      t_role.value_NULL t_role.value_unknown t_role.value_not_sentinel
      t_error.value_NULL t_error.value_unknown t_error.value_not_sentinel
      t_restart.value_NULL t_restart.value_unknown t_restart.value_not_sentinel
      t_message.value_NULL t_message.value_unknown t_message.value_not_sentinel
      t_filter.value_NULL t_filter.value_unknown t_filter.value_not_sentinel
      t_group.value_NULL t_group.value_unknown t_group.value_not_sentinel
      t_update_state.value_NULL t_update_state.value_unknown t_update_state.value_not_sentinel
      t_info.value_NULL t_info.value_unknown t_info.value_not_sentinel
      t_sig_type.value_NULL t_sig_type.value_unknown t_sig_type.value_not_sentinel
      t_upgrade.value_NULL t_upgrade.value_unknown t_upgrade.value_not_sentinel
      t_provides.value_NULL t_provides.value_unknown t_provides.value_not_sentinel
      t_network.value_NULL t_network.value_unknown t_network.value_not_sentinel
      t_media_type.value_NULL t_media_type.value_unknown t_media_type.value_not_sentinel
      t_authorize_type.value_NULL t_authorize_type.value_unknown t_authorize_type.value_not_sentinel
      t_upgrade_kind.value_NULL t_upgrade_kind.value_unknown t_upgrade_kind.value_not_sentinel
      hd_enum_tables fst_conv not_False_eq_True)

lemma enum_unknown_texts_witness:
  "pk_role_enum_from_string (Some ''reboot'') = PK_ROLE_ENUM_UNKNOWN"
proof -
  have "''reboot'' \<notin> snd ` set enum_role" by (simp add: enum_role_def)
  then show ?thesis
    by (rule enum_unknown_texts [of "''reboot''" None, THEN conjunct2, THEN conjunct2, THEN conjunct2, THEN conjunct2,
        THEN conjunct2, THEN conjunct2, THEN conjunct2,
        THEN conjunct1, rule_format])
qed

text \<open>The roles for which there is no text in the present tense: besides the sentinel these
  are the three roles that were added last, for which the function returns \<open>NULL\<close>.\<close>

theorem role_without_text:
  "pk_role_enum_to_localised_present tr dflt r = None \<longleftrightarrow>
   r \<in> {PK_ROLE_ENUM_UPGRADE_SYSTEM, PK_ROLE_ENUM_REPAIR_SYSTEM,
        PK_ROLE_ENUM_SIMULATE_REPAIR_SYSTEM, PK_ROLE_ENUM_LAST}"
  by (cases r) (simp_all add: pk_role_enum_to_localised_present_def)

end
