(* ===== verification/PK_Bitfield.thy ===== *)
theory PK_Bitfield
  imports PK_Enum
begin

text \<open>
  Sets of enumerators as 64 bit fields: \<open>src/lib/packagekit-glib2/pk-bitfield.h\<close> and
  \<open>pk-bitfield.c\<close>. The text form of a bitfield is the list of the texts of its enumerators,
  separated by semicolons; the reading adds the bits up with \<open>+=\<close>.
\<close>

unbundle bit_operations_syntax

type_synonym PkBitfield = "64 word"

section \<open>The macros of pk-bitfield.h\<close>

definition pk_bitfield_value :: "'e::enum \<Rightarrow> PkBitfield" where
  "pk_bitfield_value e = push_bit (enum_value e) 1"

definition pk_bitfield_add :: "PkBitfield \<Rightarrow> 'e::enum \<Rightarrow> PkBitfield" where
  "pk_bitfield_add b e = b OR pk_bitfield_value e"

definition pk_bitfield_remove :: "PkBitfield \<Rightarrow> 'e::enum \<Rightarrow> PkBitfield" where
  "pk_bitfield_remove b e = b AND NOT (pk_bitfield_value e)"

definition pk_bitfield_invert :: "PkBitfield \<Rightarrow> 'e::enum \<Rightarrow> PkBitfield" where
  "pk_bitfield_invert b e = b XOR pk_bitfield_value e"

definition pk_bitfield_contain :: "PkBitfield \<Rightarrow> 'e::enum \<Rightarrow> bool" where
  "pk_bitfield_contain b e = (b AND pk_bitfield_value e > 0)"

lemma bit_bitfield_value [pk_bit_simps]:
  "bit (pk_bitfield_value e) n \<longleftrightarrow> n = enum_value e \<and> n < 64"
  by (auto simp: pk_bitfield_value_def bit_simps)

lemma pk_bitfield_contain_bit [pk_bit_simps]:
  "pk_bitfield_contain b e \<longleftrightarrow> bit b (enum_value e)"
proof -
  have "b AND pk_bitfield_value e \<noteq> 0 \<longleftrightarrow> bit b (enum_value e)"
  proof
    assume "b AND pk_bitfield_value e \<noteq> 0"
    then obtain n where "bit (b AND pk_bitfield_value e) n" by (auto simp: bit_eq_iff)
    then show "bit b (enum_value e)" by (auto simp: bit_and_iff pk_bit_simps)
  next
    assume b: "bit b (enum_value e)"
    then have "bit (b AND pk_bitfield_value e) (enum_value e)"
      using bit_imp_le_length [OF b] by (simp add: bit_and_iff pk_bit_simps)
    then show "b AND pk_bitfield_value e \<noteq> 0" by auto
  qed
  then show ?thesis by (simp add: pk_bitfield_contain_def word_gt_0)
qed

lemma bit_bitfield_add [pk_bit_simps]:
  "bit (pk_bitfield_add b e) n \<longleftrightarrow> bit b n \<or> n = enum_value e \<and> n < 64"
  by (simp add: pk_bitfield_add_def bit_simps pk_bit_simps)

lemma bit_bitfield_remove [pk_bit_simps]:
  "bit (pk_bitfield_remove b e) n \<longleftrightarrow> bit b n \<and> n \<noteq> enum_value e"
  by (auto simp: pk_bitfield_remove_def bit_simps pk_bit_simps dest: bit_imp_le_length)

lemma bit_bitfield_invert [pk_bit_simps]:
  "bit (pk_bitfield_invert b e) n \<longleftrightarrow> (bit b n \<noteq> (n = enum_value e \<and> n < 64))"
  by (simp add: pk_bitfield_invert_def bit_simps pk_bit_simps)

lemma pk_bitfield_contain_add:
  "enum_value e < 64 \<Longrightarrow>
   pk_bitfield_contain (pk_bitfield_add b e) e' \<longleftrightarrow> e' = e \<or> pk_bitfield_contain b e'"
  by (auto simp: pk_bit_simps dest: enum_value_inj)

lemma pk_bitfield_contain_remove:
  "pk_bitfield_contain (pk_bitfield_remove b e) e' \<longleftrightarrow> e' \<noteq> e \<and> pk_bitfield_contain b e'"
  by (auto simp: pk_bit_simps dest: enum_value_inj)

section \<open>Variadic functions\<close>

text \<open>
  The argument list of the C functions ends with -1, which is not part of the list here.
  \<open>pk_bitfield_contain_priority\<close> looks up each argument before it compares it with -1, so it
  evaluates \<open>1 << -1\<close>, which C leaves undefined: its value is the parameter \<open>undef_shift\<close>.
  The result is an enumerator or \<open>None\<close> for -1.
\<close>

fun contain_priority_loop :: "PkBitfield \<Rightarrow> PkBitfield \<Rightarrow> 'e::enum list \<Rightarrow> 'e option" where
  "contain_priority_loop undef_shift b [] =
     (if b AND undef_shift > 0 then None else None)"
| "contain_priority_loop undef_shift b (e # es) =
     (if pk_bitfield_contain b e then Some e else contain_priority_loop undef_shift b es)"

definition pk_bitfield_contain_priority ::
  "PkBitfield \<Rightarrow> PkBitfield \<Rightarrow> 'e::enum \<Rightarrow> 'e list \<Rightarrow> 'e option" where
  "pk_bitfield_contain_priority undef_shift b e es =
     (if pk_bitfield_contain b e then Some e else contain_priority_loop undef_shift b es)"

definition pk_bitfield_from_enums :: "'e::enum \<Rightarrow> 'e list \<Rightarrow> PkBitfield" where
  "pk_bitfield_from_enums e es =
     foldl (\<lambda>values v. values + pk_bitfield_value v) (pk_bitfield_value e) es"

lemma contain_priority_first:
  "pk_bitfield_contain_priority u b e es = List.find (pk_bitfield_contain b) (e # es)"
proof -
  have "contain_priority_loop u b es = List.find (pk_bitfield_contain b) es"
    by (induction es) auto
  then show ?thesis by (simp add: pk_bitfield_contain_priority_def)
qed

text \<open>Adding the values of distinct enumerators up sets exactly their bits.\<close>

lemma bit_foldl_plus:
  assumes "distinct es" and "\<forall>e \<in> set es. \<not> bit (a :: PkBitfield) (enum_value e)"
  shows "bit (foldl (\<lambda>b e. b + pk_bitfield_value e) a es) n \<longleftrightarrow>
         bit a n \<or> n < 64 \<and> n \<in> enum_value ` set es"
  using assms
proof (induction es arbitrary: a)
  case Nil
  then show ?case by simp
next
  case (Cons e es)
  have "a AND pk_bitfield_value e = 0"
    using Cons.prems(2) by (intro bit_word_eqI) (auto simp: bit_and_iff pk_bit_simps)
  then have plus: "a + pk_bitfield_value e = a OR pk_bitfield_value e"
    by (rule disjunctive_add_eq_or)
  have "\<forall>e' \<in> set es. \<not> bit (a + pk_bitfield_value e) (enum_value e')"
    using Cons.prems by (auto simp: plus bit_simps pk_bit_simps dest: enum_value_inj)
  with Cons.IH [of "a + pk_bitfield_value e"] Cons.prems(1) show ?case
    by (auto simp: plus bit_simps pk_bit_simps)
qed

lemma bit_from_enums:
  "distinct (e # es) \<Longrightarrow>
   bit (pk_bitfield_from_enums e es) n \<longleftrightarrow> n < 64 \<and> n \<in> enum_value ` set (e # es)"
  unfolding pk_bitfield_from_enums_def
  by (subst bit_foldl_plus) (auto simp: pk_bit_simps dest: enum_value_inj)

section \<open>Text forms\<close>

text \<open>
  The loops that the role, group and filter functions share: \<open>bitfield_text\<close> appends
  \<open>"%s;"\<close> for each enumerator below the sentinel whose bit is set; \<open>bitfield_sum\<close> adds the
  bit of every part that is recognised.
\<close>

definition bitfield_text :: "('e::enum \<Rightarrow> string) \<Rightarrow> 'e \<Rightarrow> PkBitfield \<Rightarrow> string" where
  "bitfield_text to_string sentinel b =
     concat (map (\<lambda>e. if b AND pk_bitfield_value e = 0 then [] else to_string e @ '';'')
                 (takeWhile (\<lambda>e. e \<noteq> sentinel) enum_class.enum))"

definition bitfield_sum :: "(string option \<Rightarrow> 'e::enum) \<Rightarrow> 'e \<Rightarrow> string list \<Rightarrow> PkBitfield" where
  "bitfield_sum from_string unknown split =
     foldl (\<lambda>b w. let e = from_string (Some w) in
                  if e \<noteq> unknown then b + pk_bitfield_value e else b) 0 split"

definition pk_role_bitfield_to_string :: "PkBitfield \<Rightarrow> string" where
  "pk_role_bitfield_to_string roles =
     (let s = bitfield_text pk_role_enum_to_string PK_ROLE_ENUM_LAST roles in
      if s = [] then pk_role_enum_to_string PK_ROLE_ENUM_UNKNOWN else butlast s)"

definition pk_role_bitfield_from_string :: "string option \<Rightarrow> PkBitfield" where
  "pk_role_bitfield_from_string roles =
     (case roles of
        None \<Rightarrow> 0
      | Some s \<Rightarrow> bitfield_sum pk_role_enum_from_string PK_ROLE_ENUM_UNKNOWN (g_strsplit CHR '';'' s))"

definition pk_group_bitfield_to_string :: "PkBitfield \<Rightarrow> string" where
  "pk_group_bitfield_to_string groups =
     (let s = bitfield_text pk_group_enum_to_string PK_GROUP_ENUM_LAST groups in
      if s = [] then pk_group_enum_to_string PK_GROUP_ENUM_UNKNOWN else butlast s)"

definition pk_group_bitfield_from_string :: "string option \<Rightarrow> PkBitfield" where
  "pk_group_bitfield_from_string groups =
     (case groups of
        None \<Rightarrow> 0
      | Some s \<Rightarrow>
          bitfield_sum pk_group_enum_from_string PK_GROUP_ENUM_UNKNOWN (g_strsplit CHR '';'' s))"

definition pk_filter_bitfield_to_string :: "PkBitfield \<Rightarrow> string" where
  "pk_filter_bitfield_to_string filters =
     (if filters = 0 then pk_filter_enum_to_string PK_FILTER_ENUM_NONE
      else
        (let s = bitfield_text pk_filter_enum_to_string PK_FILTER_ENUM_LAST filters in
         if s = [] then pk_filter_enum_to_string PK_FILTER_ENUM_NONE else butlast s))"

definition pk_filter_bitfield_from_string :: "string option \<Rightarrow> PkBitfield" where
  "pk_filter_bitfield_from_string filters =
     (case filters of
        None \<Rightarrow> 0
      | Some s \<Rightarrow>
          bitfield_sum pk_filter_enum_from_string PK_FILTER_ENUM_UNKNOWN (g_strsplit CHR '';'' s))"

section \<open>Round trips\<close>

text \<open>
  The contract of a table whose bitfields have a text form: at most 64 enumerators, texts
  that are not empty and hold no separator, and a first entry numbered 0.
\<close>

locale bitfield_table = enum_table table sentinel
  for table :: "('e::enum \<times> string) list" and sentinel :: 'e +
  assumes fits: "length table \<le> 64"
    and first_value: "enum_value (fst (hd table)) = 0"
    and texts: "\<forall>t \<in> set (map snd table). t \<noteq> [] \<and> CHR '';'' \<notin> set t"
begin

abbreviation to_string where "to_string \<equiv> pk_enum_find_string table"
abbreviation from_string where "from_string \<equiv> pk_enum_find_value table"
abbreviation unknown where "unknown \<equiv> fst (hd table)"

definition members :: "PkBitfield \<Rightarrow> 'e list" where
  "members b = filter (pk_bitfield_contain b) (butlast enum_class.enum)"

lemma set_members: "set (members b) = {e. e \<noteq> sentinel \<and> pk_bitfield_contain b e}"
  by (auto simp: members_def set_below_sentinel)

lemma distinct_members: "distinct (members b)"
  by (simp add: members_def distinct_butlast enum_distinct)

lemma text_ok: "to_string e \<noteq> [] \<and> CHR '';'' \<notin> set (to_string e)"
  using texts string_in_table [of e] by auto

lemma bitfield_text_members:
  "bitfield_text to_string sentinel b = concat (map (\<lambda>t. t @ '';'') (map to_string (members b)))"
proof -
  have "concat (map (\<lambda>e. if b AND pk_bitfield_value e = 0 then [] else to_string e @ '';'') es) =
        concat (map (\<lambda>t. t @ '';'') (map to_string (filter (pk_bitfield_contain b) es)))" for es
    by (induction es) (auto simp: pk_bitfield_contain_def word_gt_0)
  then show ?thesis by (simp add: bitfield_text_def members_def below_sentinel)
qed

lemma bitfield_text_Nil: "bitfield_text to_string sentinel b = [] \<longleftrightarrow> members b = []"
  by (cases "members b") (simp_all add: bitfield_text_members)

lemma split_text:
  assumes "members b \<noteq> []"
  shows "g_strsplit CHR '';'' (butlast (bitfield_text to_string sentinel b)) =
         map to_string (members b)"
proof -
  have "map to_string (members b) \<noteq> [[]]" using text_ok by (auto simp: map_eq_Cons_conv)
  with assms show ?thesis
    unfolding bitfield_text_members
    by (subst butlast_concat_sep) (simp_all add: g_strsplit_joinv text_ok)
qed

lemma split_single: "g_strsplit CHR '';'' (to_string e) = [to_string e]"
  using text_ok [of e] by (simp add: g_strsplit_def split_on_id)

lemma bitfield_sum_members:
  assumes "\<forall>e \<in> set es. e \<noteq> sentinel"
  shows "bitfield_sum from_string unknown (map to_string es) =
         foldl (\<lambda>b e. b + pk_bitfield_value e) 0 (filter (\<lambda>e. e \<noteq> unknown) es)"
proof -
  have "foldl (\<lambda>b w. let e = from_string (Some w) in
                    if e \<noteq> unknown then b + pk_bitfield_value e else b) a (map to_string es) =
        foldl (\<lambda>b e. b + pk_bitfield_value e) a (filter (\<lambda>e. e \<noteq> unknown) es)" for a
    using assms by (induction es arbitrary: a) (simp_all add: value_of_string)
  then show ?thesis by (simp add: bitfield_sum_def)
qed

lemma unknown_not_sentinel: "unknown \<noteq> sentinel"
  using value_not_sentinel [of None] by (simp add: value_NULL)

text \<open>Reading a text back gives the bits of the known enumerators.\<close>

lemma sum_of_members:
  "bitfield_sum from_string unknown (map to_string (members b)) =
   b AND (mask (length table) AND NOT 1)"
proof (rule bit_word_eqI)
  fix n :: nat
  assume n: "n < LENGTH(64)"
  have "bit (bitfield_sum from_string unknown (map to_string (members b))) n \<longleftrightarrow>
        n \<in> enum_value ` {e. e \<noteq> sentinel \<and> e \<noteq> unknown \<and> pk_bitfield_contain b e}"
    using n set_members
    by (subst bitfield_sum_members) (auto simp: bit_foldl_plus distinct_members)
  also have "\<dots> \<longleftrightarrow> bit b n \<and> n < length table \<and> 0 < n"
  proof
    assume "n \<in> enum_value ` {e. e \<noteq> sentinel \<and> e \<noteq> unknown \<and> pk_bitfield_contain b e}"
    then obtain e where e: "n = enum_value e" "e \<noteq> sentinel" "e \<noteq> unknown" "bit b n"
      by (auto simp: pk_bitfield_contain_bit)
    then have "n \<noteq> 0" using first_value enum_value_inj [of e unknown] by auto
    with e value_less show "bit b n \<and> n < length table \<and> 0 < n" by auto
  next
    assume *: "bit b n \<and> n < length table \<and> 0 < n"
    define e where "e = (enum_class.enum ! n :: 'e)"
    have v: "enum_value e = n"
      using * length_enum by (simp add: e_def enum_value_def pos_nth enum_distinct)
    have "e \<noteq> sentinel" using v * enum_value_sentinel by auto
    moreover have "e \<noteq> unknown" using v * first_value by auto
    ultimately show "n \<in> enum_value ` {e. e \<noteq> sentinel \<and> e \<noteq> unknown \<and> pk_bitfield_contain b e}"
      using v * by (force simp: pk_bitfield_contain_bit)
  qed
  also have "\<dots> \<longleftrightarrow> bit (b AND (mask (length table) AND NOT 1)) n"
    using n by (auto simp: bit_simps)
  finally show "bit (bitfield_sum from_string unknown (map to_string (members b))) n =
                bit (b AND (mask (length table) AND NOT 1)) n" .
qed

lemma read_back:
  "bitfield_sum from_string unknown
     (g_strsplit CHR '';'' (let s = bitfield_text to_string sentinel b in
                           if s = [] then to_string unknown else butlast s)) =
   b AND (mask (length table) AND NOT 1)"
proof (cases "members b = []")
  case True
  have "bitfield_sum from_string unknown (map to_string [unknown]) = 0"
    using unknown_not_sentinel by (subst bitfield_sum_members) auto
  moreover have "b AND (mask (length table) AND NOT 1) = 0"
    using sum_of_members [of b] True by (simp add: bitfield_sum_def)
  ultimately show ?thesis using True by (simp add: bitfield_text_Nil split_single)
next
  case False
  then show ?thesis by (simp add: bitfield_text_Nil split_text sum_of_members)
qed

end

interpretation b_role: bitfield_table enum_role PK_ROLE_ENUM_LAST
  by unfold_locales
    (simp_all add: enum_role_def enum_value_def enum_PkRoleEnum_def PkRoleEnum_values_def)

interpretation b_group: bitfield_table enum_group PK_GROUP_ENUM_LAST
  by unfold_locales
    (simp_all add: enum_group_def enum_value_def enum_PkGroupEnum_def PkGroupEnum_values_def)

interpretation b_filter: bitfield_table enum_filter PK_FILTER_ENUM_LAST
  by unfold_locales
    (simp_all add: enum_filter_def enum_value_def enum_PkFilterEnum_def PkFilterEnum_values_def)

lemma filter_members_Nil:
  "b_filter.members b = [] \<longleftrightarrow> b AND mask 26 = 0"
proof -
  have "b_filter.members b = [] \<longleftrightarrow> (\<forall>e. e \<noteq> PK_FILTER_ENUM_LAST \<longrightarrow> \<not> pk_bitfield_contain b e)"
    using b_filter.set_members [of b] by (auto simp flip: set_empty)
  also have "\<dots> \<longleftrightarrow> (\<forall>n < 26. \<not> bit b n)"
  proof
    assume *: "\<forall>e. e \<noteq> PK_FILTER_ENUM_LAST \<longrightarrow> \<not> pk_bitfield_contain b e"
    show "\<forall>n < 26. \<not> bit b n"
    proof safe
      fix n :: nat assume n: "n < 26" and b: "bit b n"
      have len: "length enum_filter = 26" by (simp add: enum_filter_def)
      define e where "e = (enum_class.enum ! n :: PkFilterEnum)"
      have v: "enum_value e = n"
        using n t_filter.length_enum len by (simp add: e_def enum_value_def pos_nth enum_distinct)
      with n len t_filter.enum_value_sentinel have "e \<noteq> PK_FILTER_ENUM_LAST" by auto
      with * v b show False by (auto simp: pk_bit_simps)
    qed
  next
    assume "\<forall>n < 26. \<not> bit b n"
    then show "\<forall>e. e \<noteq> PK_FILTER_ENUM_LAST \<longrightarrow> \<not> pk_bitfield_contain b e"
      using t_filter.value_less by (auto simp: pk_bit_simps length_enum_tables)
  qed
  also have "\<dots> \<longleftrightarrow> b AND mask 26 = 0"
  proof -
    have "n < 64" if "n < 26" for n :: nat using that by simp
    then have "(\<forall>n < 64. n < 26 \<longrightarrow> \<not> bit b n) \<longleftrightarrow> (\<forall>n < 26. \<not> bit b n)" by blast
    then show ?thesis by (auto simp: bit_eq_iff bit_simps)
  qed
  finally show ?thesis .
qed

section \<open>Properties\<close>

lemmas bitfield_string_fold =
  pk_role_enum_to_string_def [abs_def] pk_role_enum_from_string_def [abs_def]
  pk_group_enum_to_string_def [abs_def] pk_group_enum_from_string_def [abs_def]
  pk_filter_enum_to_string_def [abs_def] pk_filter_enum_from_string_def [abs_def]

text \<open>C38: Role and group bitfields survive the trip through their text form for every field
  whatever: reading \<open>pk_role_bitfield_to_string\<close> back gives exactly the bits of the known,
  non-zero enumerators (the empty set is written \<open>unknown\<close> and read as 0).\<close>

theorem role_group_bitfield_round_trip:
  "pk_role_bitfield_from_string (Some (pk_role_bitfield_to_string roles)) =
     roles AND (mask 38 AND NOT 1) \<and>
   pk_group_bitfield_from_string (Some (pk_group_bitfield_to_string groups)) =
     groups AND (mask 35 AND NOT 1)"
  unfolding pk_role_bitfield_from_string_def pk_role_bitfield_to_string_def
    pk_group_bitfield_from_string_def pk_group_bitfield_to_string_def bitfield_string_fold
  using b_role.read_back [of roles, unfolded hd_enum_tables length_enum_tables fst_conv]
    b_group.read_back [of groups, unfolded hd_enum_tables length_enum_tables fst_conv]
  by simp

text \<open>Filter bitfields survive the trip through their text form, except that a field
  with no filter in it is written \<open>none\<close> and read back as the bit of
  \<open>PK_FILTER_ENUM_NONE\<close>, not as 0.\<close>

theorem filter_bitfield_round_trip:
  "pk_filter_bitfield_from_string (Some (pk_filter_bitfield_to_string filters)) =
     (if filters AND mask 26 = 0 then pk_bitfield_value PK_FILTER_ENUM_NONE
      else filters AND (mask 26 AND NOT 1))"
proof (cases "filters AND mask 26 = 0")
  case True
  then have "bitfield_text (pk_enum_find_string enum_filter) PK_FILTER_ENUM_LAST filters = []"
    by (simp only: b_filter.bitfield_text_Nil filter_members_Nil)
  moreover have "pk_filter_enum_to_string PK_FILTER_ENUM_NONE = ''none''" by code_simp
  ultimately have "pk_filter_bitfield_to_string filters = ''none''"
    by (simp add: pk_filter_bitfield_to_string_def pk_filter_enum_to_string_def [abs_def])
  moreover have "pk_filter_bitfield_from_string (Some ''none'') = 2" by code_simp
  moreover have "pk_bitfield_value PK_FILTER_ENUM_NONE = 2" by code_simp
  ultimately show ?thesis using True by simp
next
  case False
  then have ne: "bitfield_text (pk_enum_find_string enum_filter) PK_FILTER_ENUM_LAST filters \<noteq> []"
    by (simp only: b_filter.bitfield_text_Nil filter_members_Nil) simp
  from False have "filters \<noteq> 0" by auto
  with ne have "pk_filter_bitfield_to_string filters =
      butlast (bitfield_text (pk_enum_find_string enum_filter) PK_FILTER_ENUM_LAST filters)"
    by (simp add: pk_filter_bitfield_to_string_def bitfield_string_fold)
  with False ne show ?thesis
    using b_filter.read_back [of filters, unfolded hd_enum_tables length_enum_tables fst_conv]
    by (simp add: pk_filter_bitfield_from_string_def bitfield_string_fold)
qed

text \<open>The reading adds bits up instead of joining them, so a text that names one filter
  twice does not mean that filter: \<open>installed;installed\<close> is read as \<open>~installed\<close> alone.\<close>

theorem filter_duplicate_carries:
  "pk_filter_bitfield_from_string (Some ''installed;installed'') =
     pk_filter_bitfield_from_string (Some ''~installed'') \<and>
   \<not> pk_bitfield_contain (pk_filter_bitfield_from_string (Some ''installed;installed''))
       PK_FILTER_ENUM_INSTALLED"
  by code_simp

end
