(* ===== verification/PK_Store.thy ===== *)
theory PK_Store
  imports PK_Shared
begin

text \<open>
  The key/value store in which a backend keeps the arguments of the running call
  (\<open>src/src/pk-store.c\<close>). Four hash tables: strings, string vectors, arrays and pointers,
  where the pointer table also carries integers and booleans, stored as value plus one because
  \<open>NULL\<close> means missing. A pointer is its 64 bit address; an array is the address of its
  \<open>GPtrArray\<close>. The \<open>int\<close> arithmetic on stored values wraps at 32 bits.
\<close>

type_synonym gpointer = "64 word"

record PkStore =
  hash_string :: "string \<rightharpoonup> string"
  hash_strv :: "string \<rightharpoonup> string list"
  hash_pointer :: "string \<rightharpoonup> gpointer"
  hash_array :: "string \<rightharpoonup> gpointer"

section \<open>Conversions between integers and pointers\<close>

definition GINT_TO_POINTER :: "32 word \<Rightarrow> gpointer" where
  "GINT_TO_POINTER i = scast i"

definition GUINT_AS_POINTER :: "guint \<Rightarrow> gpointer" where
  "GUINT_AS_POINTER i = ucast i"

definition GPOINTER_TO_INT :: "gpointer \<Rightarrow> 32 word" where
  "GPOINTER_TO_INT p = ucast p"

lemma pointer_to_int_uint [simp]: "GPOINTER_TO_INT (GUINT_AS_POINTER i) = i"
  unfolding GPOINTER_TO_INT_def GUINT_AS_POINTER_def
  by (rule bit_word_eqI) (simp add: bit_simps)

lemma pointer_to_int_int [simp]: "GPOINTER_TO_INT (GINT_TO_POINTER i) = i"
  unfolding GPOINTER_TO_INT_def GINT_TO_POINTER_def
  by (rule bit_word_eqI) (simp add: bit_simps)

lemma uint_pointer_NULL: "GUINT_AS_POINTER i = 0 \<longleftrightarrow> i = 0"
  by (metis GUINT_AS_POINTER_def pointer_to_int_uint unsigned_0)

lemma int_pointer_NULL: "GINT_TO_POINTER i = 0 \<longleftrightarrow> i = 0"
  by (metis GINT_TO_POINTER_def pointer_to_int_int signed_0)

section \<open>Operations\<close>

text \<open>
  \<open>GINT_TO_POINTER (data + 1)\<close> casts a \<open>guint\<close> for an unsigned argument and a \<open>gint\<close> for a
  boolean, so the first is extended with zeros and the second with its sign.
\<close>

definition pk_store_set_string :: "PkStore \<Rightarrow> string \<Rightarrow> string option \<Rightarrow> PkStore \<times> bool" where
  "pk_store_set_string st key data =
     (case data of
        None \<Rightarrow> (st, False)
      | Some d \<Rightarrow>
          let st = st\<lparr>hash_string := (hash_string st)(key := None)\<rparr> in
          (st\<lparr>hash_string := (hash_string st)(key \<mapsto> d)\<rparr>, True))"

definition pk_store_set_strv :: "PkStore \<Rightarrow> string \<Rightarrow> string list option \<Rightarrow> PkStore \<times> bool" where
  "pk_store_set_strv st key data =
     (case data of
        None \<Rightarrow> (st, False)
      | Some d \<Rightarrow>
          let st = st\<lparr>hash_strv := (hash_strv st)(key := None)\<rparr> in
          (st\<lparr>hash_strv := (hash_strv st)(key \<mapsto> d)\<rparr>, True))"

definition pk_store_set_array :: "PkStore \<Rightarrow> string \<Rightarrow> gpointer \<Rightarrow> PkStore \<times> bool" where
  "pk_store_set_array st key data =
     (if data = 0 then (st, False)
      else
        let st = st\<lparr>hash_array := (hash_array st)(key := None)\<rparr> in
        (st\<lparr>hash_array := (hash_array st)(key \<mapsto> data)\<rparr>, True))"

definition pk_store_set_uint :: "PkStore \<Rightarrow> string \<Rightarrow> guint \<Rightarrow> PkStore \<times> bool" where
  "pk_store_set_uint st key data =
     (let st = st\<lparr>hash_pointer := (hash_pointer st)(key := None)\<rparr> in
      (st\<lparr>hash_pointer := (hash_pointer st)(key \<mapsto> GUINT_AS_POINTER (data + 1))\<rparr>, True))"

definition pk_store_set_bool :: "PkStore \<Rightarrow> string \<Rightarrow> 32 word \<Rightarrow> PkStore \<times> bool" where
  "pk_store_set_bool st key data =
     (let st = st\<lparr>hash_pointer := (hash_pointer st)(key := None)\<rparr> in
      (st\<lparr>hash_pointer := (hash_pointer st)(key \<mapsto> GINT_TO_POINTER (data + 1))\<rparr>, True))"

definition pk_store_set_pointer :: "PkStore \<Rightarrow> string \<Rightarrow> gpointer \<Rightarrow> PkStore \<times> bool" where
  "pk_store_set_pointer st key data =
     (if data = 0 then (st, False)
      else
        let st = st\<lparr>hash_pointer := (hash_pointer st)(key := None)\<rparr> in
        (st\<lparr>hash_pointer := (hash_pointer st)(key \<mapsto> GINT_TO_POINTER (GPOINTER_TO_INT data + 1))\<rparr>,
         True))"

definition pk_store_get_string :: "PkStore \<Rightarrow> string \<Rightarrow> string option" where
  "pk_store_get_string st key = hash_string st key"

definition pk_store_get_strv :: "PkStore \<Rightarrow> string \<Rightarrow> string list option" where
  "pk_store_get_strv st key = hash_strv st key"

definition pk_store_get_array :: "PkStore \<Rightarrow> string \<Rightarrow> gpointer" where
  "pk_store_get_array st key = (case hash_array st key of None \<Rightarrow> 0 | Some p \<Rightarrow> p)"

text \<open>\<open>g_hash_table_lookup\<close> gives \<open>NULL\<close> for a missing key and for a stored \<open>NULL\<close>.\<close>

definition lookup_pointer :: "PkStore \<Rightarrow> string \<Rightarrow> gpointer" where
  "lookup_pointer st key = (case hash_pointer st key of None \<Rightarrow> 0 | Some p \<Rightarrow> p)"

definition pk_store_get_uint :: "PkStore \<Rightarrow> string \<Rightarrow> guint" where
  "pk_store_get_uint st key =
     (let v = lookup_pointer st key in if v = 0 then 0 else GPOINTER_TO_INT v - 1)"

definition pk_store_get_bool :: "PkStore \<Rightarrow> string \<Rightarrow> 32 word" where
  "pk_store_get_bool st key =
     (let v = lookup_pointer st key in if v = 0 then 0 else GPOINTER_TO_INT v - 1)"

definition pk_store_get_pointer :: "PkStore \<Rightarrow> string \<Rightarrow> gpointer" where
  "pk_store_get_pointer st key =
     (let v = lookup_pointer st key in
      if v = 0 then 0 else GINT_TO_POINTER (GPOINTER_TO_INT v - 1))"

definition pk_store_reset :: "PkStore \<Rightarrow> PkStore" where
  "pk_store_reset st =
     st\<lparr>hash_pointer := (\<lambda>_. None), hash_string := (\<lambda>_. None), hash_strv := (\<lambda>_. None),
        hash_array := (\<lambda>_. None)\<rparr>"

definition pk_store_new :: PkStore where
  "pk_store_new =
     \<lparr>hash_string = (\<lambda>_. None), hash_strv = (\<lambda>_. None), hash_pointer = (\<lambda>_. None),
      hash_array = (\<lambda>_. None)\<rparr>"

lemma pk_store_reset_new: "pk_store_reset st = pk_store_new"
  by (simp add: pk_store_reset_def pk_store_new_def)

section \<open>The contract of a store\<close>

text \<open>
  What a backend relies on for each kind of value: \<open>put\<close> of an acceptable value is found again
  under its key and nowhere else, and a reset forgets everything. \<open>absent\<close> is what \<open>look\<close>
  gives for a key without value.
\<close>

locale kv_store =
  fixes put :: "'s \<Rightarrow> 'k \<Rightarrow> 'v \<Rightarrow> 's"
    and look :: "'s \<Rightarrow> 'k \<Rightarrow> 'r"
    and wrap :: "'v \<Rightarrow> 'r"
    and absent :: 'r
    and clear :: "'s \<Rightarrow> 's"
    and good :: "'v \<Rightarrow> bool"
  assumes look_put: "good v \<Longrightarrow> look (put s k v) k = wrap v"
    and look_put_other: "k \<noteq> l \<Longrightarrow> look (put s k v) l = look s l"
    and look_clear: "look (clear s) k = absent"
begin

text \<open>After any number of writes a key holds the last value written to it.\<close>

lemma look_writes:
  assumes "\<forall>(k, v) \<in> set kvs. good v"
  shows "look (foldl (\<lambda>s (k, v). put s k v) s kvs) l =
         (case map_of (rev kvs) l of Some v \<Rightarrow> wrap v | None \<Rightarrow> look s l)"
  using assms
proof (induction kvs arbitrary: s)
  case Nil
  then show ?case by simp
next
  case (Cons kv kvs)
  obtain k v where kv: "kv = (k, v)" by force
  with Cons.prems have good: "good v" and rest: "\<forall>(k, v) \<in> set kvs. good v" by auto
  show ?case
    using Cons.IH [OF rest, of "put s k v"] look_put [OF good] look_put_other
    by (auto simp: kv map_add_def split: option.split)
qed

lemma look_writes_after_clear:
  "\<forall>(k, v) \<in> set kvs. good v \<Longrightarrow>
   look (foldl (\<lambda>s (k, v). put s k v) (clear s) kvs) l =
   (case map_of (rev kvs) l of Some v \<Rightarrow> wrap v | None \<Rightarrow> absent)"
  by (simp add: look_writes look_clear cong: option.case_cong)

end

lemmas store_set_defs =
  pk_store_set_string_def pk_store_set_strv_def pk_store_set_array_def pk_store_set_uint_def
  pk_store_set_bool_def pk_store_set_pointer_def pk_store_reset_def

lemmas store_get_defs =
  pk_store_get_string_def pk_store_get_strv_def pk_store_get_array_def pk_store_get_uint_def
  pk_store_get_bool_def pk_store_get_pointer_def lookup_pointer_def

interpretation store_string: kv_store
  "\<lambda>s k v. fst (pk_store_set_string s k (Some v))" pk_store_get_string Some None pk_store_reset
  "\<lambda>v. True"
  by unfold_locales (simp_all add: store_set_defs store_get_defs Let_def)

interpretation store_strv: kv_store
  "\<lambda>s k v. fst (pk_store_set_strv s k (Some v))" pk_store_get_strv Some None pk_store_reset
  "\<lambda>v. True"
  by unfold_locales (simp_all add: store_set_defs store_get_defs Let_def)

interpretation store_array: kv_store
  "\<lambda>s k v. fst (pk_store_set_array s k v)" pk_store_get_array "\<lambda>p. p" 0 pk_store_reset
  "\<lambda>p. p \<noteq> 0"
  by unfold_locales (simp_all add: store_set_defs store_get_defs Let_def)

lemma plus_one_zero: "(w :: 32 word) + 1 = 0 \<longleftrightarrow> w = - 1"
  by (metis add_eq_0_iff add.commute)

interpretation store_uint: kv_store
  "\<lambda>s k v. fst (pk_store_set_uint s k v)" pk_store_get_uint "\<lambda>v. v" 0 pk_store_reset
  "\<lambda>v. v \<noteq> - 1"
proof unfold_locales
  show "pk_store_get_uint (fst (pk_store_set_uint s k v)) k = v" if "v \<noteq> - 1" for s k v
    using that
    by (simp add: store_set_defs store_get_defs Let_def uint_pointer_NULL plus_one_zero)
qed (simp_all add: store_set_defs store_get_defs Let_def)

interpretation store_bool: kv_store
  "\<lambda>s k v. fst (pk_store_set_bool s k v)" pk_store_get_bool "\<lambda>v. v" 0 pk_store_reset
  "\<lambda>v. v \<noteq> - 1"
proof unfold_locales
  show "pk_store_get_bool (fst (pk_store_set_bool s k v)) k = v" if "v \<noteq> - 1" for s k v
    using that
    by (simp add: store_set_defs store_get_defs Let_def int_pointer_NULL plus_one_zero)
qed (simp_all add: store_set_defs store_get_defs Let_def)

text \<open>The pointers that fit into an \<open>int\<close>.\<close>

definition int_sized :: "gpointer \<Rightarrow> bool" where
  "int_sized p = (p \<noteq> 0 \<and> p \<noteq> - 1 \<and> GINT_TO_POINTER (GPOINTER_TO_INT p) = p)"

interpretation store_pointer: kv_store
  "\<lambda>s k v. fst (pk_store_set_pointer s k v)" pk_store_get_pointer "\<lambda>p. p" 0 pk_store_reset
  int_sized
proof unfold_locales
  show "pk_store_get_pointer (fst (pk_store_set_pointer s k p)) k = p" if "int_sized p" for s k p
  proof -
    from that have p: "p \<noteq> 0" "GINT_TO_POINTER (GPOINTER_TO_INT p) = p" "p \<noteq> - 1"
      by (simp_all add: int_sized_def)
    have "GPOINTER_TO_INT p \<noteq> - 1"
    proof
      assume "GPOINTER_TO_INT p = - 1"
      then have "GINT_TO_POINTER (- 1) = p" using p(2) by simp
      with p(3) show False by (simp add: GINT_TO_POINTER_def)
    qed
    with p show ?thesis
      by (simp add: store_set_defs store_get_defs Let_def int_pointer_NULL plus_one_zero)
  qed
qed (auto simp: store_set_defs store_get_defs Let_def)

section \<open>Properties\<close>

text \<open>C1: The integers of a store: after a reset and any sequence of \<open>pk_store_set_uint\<close>
  calls a key gives the last value written to it and 0 if there is none, as long as nobody
  writes 0xffffffff; that value wraps to \<open>NULL\<close> and is read back as missing.\<close>

theorem store_uint_last_write:
  assumes "\<forall>(k, v) \<in> set writes. v \<noteq> - 1"
  shows "pk_store_get_uint
           (foldl (\<lambda>s (k, v). fst (pk_store_set_uint s k v)) (pk_store_reset s) writes) key =
         (case map_of (rev writes) key of Some v \<Rightarrow> v | None \<Rightarrow> 0) \<and>
         pk_store_get_uint (fst (pk_store_set_uint s key (- 1))) key = 0"
  using store_uint.look_writes_after_clear [OF assms, of s key]
  by (simp add: store_set_defs store_get_defs Let_def uint_pointer_NULL)

lemma store_uint_last_write_witness:
  "pk_store_get_uint
     (foldl (\<lambda>s (k, v). fst (pk_store_set_uint s k v)) (pk_store_reset pk_store_new)
        [(''a'', 1), (''b'', 2), (''a'', 3)]) ''a'' = 3"
  using store_uint_last_write [of "[(''a'', 1), (''b'', 2), (''a'', 3)]" pk_store_new "''a''"]
  by simp

text \<open>A pointer put into a store comes back unchanged only if it fits a signed 32 bit
  integer: the code sends it through \<open>GPOINTER_TO_INT\<close>, so the upper half of every other
  address is lost.\<close>

theorem store_pointer_truncates:
  assumes "p \<noteq> 0"
  shows "pk_store_get_pointer (fst (pk_store_set_pointer s key p)) key = p \<longleftrightarrow> int_sized p"
proof
  assume eq: "pk_store_get_pointer (fst (pk_store_set_pointer s key p)) key = p"
  show "int_sized p"
  proof (cases "GPOINTER_TO_INT p = - 1")
    case True
    with eq assms show ?thesis
      by (simp add: store_set_defs store_get_defs Let_def GINT_TO_POINTER_def)
  next
    case False
    have "GINT_TO_POINTER (- 1) = - 1" by (simp add: GINT_TO_POINTER_def)
    with False have "p \<noteq> - 1" by (metis pointer_to_int_int)
    with False eq assms show ?thesis
      by (simp add: store_set_defs store_get_defs Let_def int_sized_def int_pointer_NULL
          plus_one_zero)
  qed
next
  assume "int_sized p"
  then show "pk_store_get_pointer (fst (pk_store_set_pointer s key p)) key = p"
    by (rule store_pointer.look_put)
qed

lemma store_pointer_truncates_witness:
  "pk_store_get_pointer (fst (pk_store_set_pointer pk_store_new ''p'' 0x7f0012345678)) ''p''
     \<noteq> 0x7f0012345678"
proof -
  have "GPOINTER_TO_INT 0x7f0012345678 = 0x12345678" by (simp add: GPOINTER_TO_INT_def)
  then have "\<not> int_sized 0x7f0012345678" by (simp add: int_sized_def GINT_TO_POINTER_def)
  with store_pointer_truncates [of "0x7f0012345678" pk_store_new "''p''"] show ?thesis by simp
qed

end
