(* ===== verification/PK_Main_Loop.thy ===== *)
theory PK_Main_Loop
  imports PK_Shared
begin

text \<open>
  The GLib main loop as the daemon uses it: a list of pending sources, each with the id that
  \<open>g_timeout_add\<close> or \<open>g_idle_add\<close> returned. An id is positive and never reused here, so
  0 stands for no source, as in the code. Each component brings the type of its callbacks and
  keeps its own sources; the time at which a timeout fires is not modelled: any pending source
  may be the next to run.
\<close>

record 'f main_loop =
  sources :: "(nat \<times> 'f) list"
  next_source :: nat

definition main_loop_new :: "'f main_loop" where
  "main_loop_new = \<lparr>sources = [], next_source = 1\<rparr>"

definition g_source_add :: "'f \<Rightarrow> 'f main_loop \<Rightarrow> nat \<times> 'f main_loop" where
  "g_source_add f m =
     (next_source m, m\<lparr>sources := sources m @ [(next_source m, f)], next_source := Suc (next_source m)\<rparr>)"

definition g_source_remove :: "nat \<Rightarrow> 'f main_loop \<Rightarrow> 'f main_loop" where
  "g_source_remove i m = m\<lparr>sources := filter (\<lambda>(j, f). j \<noteq> i) (sources m)\<rparr>"

definition pending :: "'f main_loop \<Rightarrow> nat \<Rightarrow> 'f \<Rightarrow> bool" where
  "pending m i f = ((i, f) \<in> set (sources m))"

definition loop_ok :: "'f main_loop \<Rightarrow> bool" where
  "loop_ok m = (distinct (map fst (sources m)) \<and> 0 < next_source m \<and>
     (\<forall>(i, f) \<in> set (sources m). 0 < i \<and> i < next_source m))"

lemma loop_ok_new: "loop_ok main_loop_new"
  by (simp add: loop_ok_def main_loop_new_def)

lemma loop_ok_add: "loop_ok m \<Longrightarrow> loop_ok (snd (g_source_add f m))"
  by (force simp: loop_ok_def g_source_add_def)

lemma loop_ok_remove: "loop_ok m \<Longrightarrow> loop_ok (g_source_remove i m)"
proof -
  have "distinct (map fst xs) \<Longrightarrow> distinct (map fst (filter P xs))" for P and xs :: "(nat \<times> 'f) list"
    by (induction xs) auto
  then show "loop_ok m \<Longrightarrow> loop_ok (g_source_remove i m)"
    by (auto simp: loop_ok_def g_source_remove_def)
qed

lemma g_source_add_id: "loop_ok m \<Longrightarrow> fst (g_source_add f m) \<noteq> 0"
  by (simp add: loop_ok_def g_source_add_def)

lemma pending_add:
  "pending (snd (g_source_add f m)) i g \<longleftrightarrow> pending m i g \<or> i = fst (g_source_add f m) \<and> g = f"
  by (auto simp: pending_def g_source_add_def)

lemma pending_remove:
  "pending (g_source_remove i m) j f \<longleftrightarrow> pending m j f \<and> j \<noteq> i"
  by (auto simp: pending_def g_source_remove_def)

lemma pending_unique: "loop_ok m \<Longrightarrow> pending m i f \<Longrightarrow> pending m i g \<Longrightarrow> f = g"
  by (auto simp: loop_ok_def pending_def dest: eq_key_imp_eq_value)

end
