(* ===== verification/PK_Package_Id.thy ===== *)
theory PK_Package_Id
  imports PK_Shared
begin

text \<open>
  Package identifiers, \<open>name;version;arch;data\<close>, and lists of them:
  \<open>src/lib/packagekit-glib2/pk-package-id.c\<close> and \<open>pk-package-ids.c\<close>. A \<open>NULL\<close> result or
  argument is \<open>None\<close>. The functions that take both a list and an identifier return at once
  on a \<open>NULL\<close> argument (\<open>g_return_val_if_fail\<close>); their models take the arguments that
  pass that guard as plain values.
\<close>

section \<open>One package identifier\<close>

definition pk_package_id_split :: "string option \<Rightarrow> string list option" where
  "pk_package_id_split package_id =
     (case package_id of
        None \<Rightarrow> None
      | Some s \<Rightarrow>
          (let sections = g_strsplit CHR '';'' s in
           if length sections \<noteq> 4 then None
           else if sections ! 0 \<noteq> [] then Some sections
           else None))"

definition pk_package_id_check :: "string option \<Rightarrow> bool" where
  "pk_package_id_check package_id =
     (case package_id of
        None \<Rightarrow> False
      | Some s \<Rightarrow>
          if \<not> g_utf8_validate s then False
          else if pk_package_id_split package_id = None then False
          else True)"

definition or_empty :: "string option \<Rightarrow> string" where
  "or_empty s = (case s of Some t \<Rightarrow> t | None \<Rightarrow> [])"

definition pk_package_id_build ::
  "string option \<Rightarrow> string option \<Rightarrow> string option \<Rightarrow> string option \<Rightarrow> string option" where
  "pk_package_id_build name version arch data =
     (case name of
        None \<Rightarrow> None
      | Some n \<Rightarrow>
          Some (n @ '';'' @ or_empty version @ '';'' @ or_empty arch @ '';'' @ or_empty data))"

definition pk_arch_base_ix86 :: "string \<Rightarrow> bool" where
  "pk_arch_base_ix86 arch =
     (if arch = ''i386'' \<or> arch = ''i486'' \<or> arch = ''i586'' \<or> arch = ''i686'' then True else False)"

definition pk_package_id_equal_fuzzy_arch_section :: "string \<Rightarrow> string \<Rightarrow> bool" where
  "pk_package_id_equal_fuzzy_arch_section arch1 arch2 =
     (if arch1 = arch2 then True
      else if pk_arch_base_ix86 arch1 \<and> pk_arch_base_ix86 arch2 then True
      else False)"

text \<open>
  The comparison indexes both splits without a test: with an identifier that does not split it
  reads through \<open>NULL\<close>, which is the outcome \<open>None\<close>.
\<close>

definition pk_package_id_equal_fuzzy_arch :: "string option \<Rightarrow> string option \<Rightarrow> bool option" where
  "pk_package_id_equal_fuzzy_arch id1 id2 =
     (case (pk_package_id_split id1, pk_package_id_split id2) of
        (Some s1, Some s2) \<Rightarrow>
          Some (if s1 ! 0 = s2 ! 0 \<and> s1 ! 1 = s2 ! 1 \<and>
                   pk_package_id_equal_fuzzy_arch_section (s1 ! 2) (s2 ! 2)
                then True else False)
      | _ \<Rightarrow> None)"

definition pk_package_id_to_printable :: "string option \<Rightarrow> string option" where
  "pk_package_id_to_printable package_id =
     (case pk_package_id_split package_id of
        None \<Rightarrow> None
      | Some parts \<Rightarrow>
          Some (parts ! 0 @ (if parts ! 1 \<noteq> [] then ''-'' @ parts ! 1 else [])
                @ (if parts ! 2 \<noteq> [] then ''.'' @ parts ! 2 else [])))"

lemma g_strsplit_4_iff:
  "g_strsplit d s = [n, v, a, t] \<longleftrightarrow>
   d \<notin> set n \<union> set v \<union> set a \<union> set t \<and> s = n @ d # v @ d # a @ d # t"
proof
  assume split: "g_strsplit d s = [n, v, a, t]"
  then have s: "split_on d s = [n, v, a, t]" by (auto simp: g_strsplit_def split: if_splits)
  with split_on_no_delim [of _ d s] joinv_split_on [of d s]
  show "d \<notin> set n \<union> set v \<union> set a \<union> set t \<and> s = n @ d # v @ d # a @ d # t" by auto
next
  assume *: "d \<notin> set n \<union> set v \<union> set a \<union> set t \<and> s = n @ d # v @ d # a @ d # t"
  have "g_strsplit d (g_strjoinv [d] [n, v, a, t]) = [n, v, a, t]"
    using * by (intro g_strsplit_joinv) auto
  with * show "g_strsplit d s = [n, v, a, t]" by simp
qed

lemma length_4: "length ws = 4 \<longleftrightarrow> (\<exists>n v a t. ws = [n, v, a, t])"
  by (auto simp: numeral_eq_Suc length_Suc_conv)

lemma pk_package_id_split_Some:
  "pk_package_id_split (Some s) = Some ws \<longleftrightarrow>
   (\<exists>n v a t. ws = [n, v, a, t] \<and> n \<noteq> [] \<and> CHR '';'' \<notin> set n \<union> set v \<union> set a \<union> set t \<and>
      pk_package_id_build (Some n) (Some v) (Some a) (Some t) = Some s)"
proof -
  have "pk_package_id_split (Some s) = Some ws \<longleftrightarrow>
        g_strsplit CHR '';'' s = ws \<and> length ws = 4 \<and> ws ! 0 \<noteq> []"
    by (auto simp: pk_package_id_split_def Let_def)
  also have "\<dots> \<longleftrightarrow> (\<exists>n v a t. ws = [n, v, a, t] \<and> n \<noteq> [] \<and>
      g_strsplit CHR '';'' s = [n, v, a, t])"
    by (auto simp: length_4)
  finally show ?thesis
    by (auto simp: g_strsplit_4_iff pk_package_id_build_def or_empty_def)
qed

lemma pk_package_id_check_iff:
  "pk_package_id_check (Some s) \<longleftrightarrow>
   g_utf8_validate s \<and> (\<exists>ws. pk_package_id_split (Some s) = Some ws)"
  by (auto simp: pk_package_id_check_def)

lemma pk_package_id_check_not_empty: "pk_package_id_check (Some s) \<Longrightarrow> s \<noteq> []"
  by (auto simp: pk_package_id_check_iff pk_package_id_split_def g_strsplit_def)

lemma fuzzy_arch_section_equiv:
  "pk_package_id_equal_fuzzy_arch_section a a"
  "pk_package_id_equal_fuzzy_arch_section a b \<Longrightarrow> pk_package_id_equal_fuzzy_arch_section b a"
  "pk_package_id_equal_fuzzy_arch_section a b \<Longrightarrow> pk_package_id_equal_fuzzy_arch_section b c \<Longrightarrow>
   pk_package_id_equal_fuzzy_arch_section a c"
  by (auto simp: pk_package_id_equal_fuzzy_arch_section_def split: if_splits)

lemma equal_fuzzy_arch_sym:
  "pk_package_id_equal_fuzzy_arch i j = pk_package_id_equal_fuzzy_arch j i"
proof -
  have "pk_package_id_equal_fuzzy_arch_section a b \<longleftrightarrow> pk_package_id_equal_fuzzy_arch_section b a"
    for a b using fuzzy_arch_section_equiv(2) by blast
  then show ?thesis
    by (cases "pk_package_id_split i"; cases "pk_package_id_split j")
      (auto simp: pk_package_id_equal_fuzzy_arch_def)
qed

lemma equal_fuzzy_arch_trans:
  "pk_package_id_equal_fuzzy_arch i j = Some True \<Longrightarrow>
   pk_package_id_equal_fuzzy_arch j k = Some True \<Longrightarrow>
   pk_package_id_equal_fuzzy_arch i k = Some True"
  by (auto simp: pk_package_id_equal_fuzzy_arch_def split: option.splits if_splits
      intro: fuzzy_arch_section_equiv(3))

section \<open>Lists of package identifiers\<close>

definition PK_PACKAGE_IDS_DELIM :: char where
  "PK_PACKAGE_IDS_DELIM = CHR ''&''"

definition pk_package_ids_from_id :: "string option \<Rightarrow> string list option" where
  "pk_package_ids_from_id package_id =
     (case package_id of
        None \<Rightarrow> None
      | Some s \<Rightarrow> Some (g_strsplit_max PK_PACKAGE_IDS_DELIM 1 s))"

definition pk_package_ids_from_string :: "string option \<Rightarrow> string list option" where
  "pk_package_ids_from_string package_id =
     (case package_id of
        None \<Rightarrow> None
      | Some s \<Rightarrow> Some (g_strsplit PK_PACKAGE_IDS_DELIM s))"

text \<open>The loop returns the last verdict, so \<open>FALSE\<close> for an empty array.\<close>

fun package_ids_check_loop :: "string list \<Rightarrow> bool \<Rightarrow> bool" where
  "package_ids_check_loop [] ret = ret"
| "package_ids_check_loop (package_id # ids) ret =
     (let ret = pk_package_id_check (Some package_id) in
      if \<not> ret then ret else package_ids_check_loop ids ret)"

definition pk_package_ids_check :: "string list option \<Rightarrow> bool" where
  "pk_package_ids_check package_ids =
     (case package_ids of None \<Rightarrow> False | Some ids \<Rightarrow> package_ids_check_loop ids False)"

definition pk_package_ids_to_string :: "string list option \<Rightarrow> string option" where
  "pk_package_ids_to_string package_ids =
     (case package_ids of
        None \<Rightarrow> None
      | Some ids \<Rightarrow> Some (g_strjoinv [PK_PACKAGE_IDS_DELIM] ids))"

fun pk_package_ids_present_id :: "string list \<Rightarrow> string \<Rightarrow> bool" where
  "pk_package_ids_present_id [] package_id = False"
| "pk_package_ids_present_id (i # ids) package_id =
     (if package_id = i then True else pk_package_ids_present_id ids package_id)"

definition pk_package_ids_add_id :: "string list \<Rightarrow> string \<Rightarrow> string list" where
  "pk_package_ids_add_id package_ids package_id = package_ids @ [package_id]"

definition pk_package_ids_add_ids :: "string list \<Rightarrow> string list \<Rightarrow> string list" where
  "pk_package_ids_add_ids package_ids package_ids_new = package_ids @ package_ids_new"

fun pk_package_ids_remove_id :: "string list \<Rightarrow> string \<Rightarrow> string list" where
  "pk_package_ids_remove_id [] package_id = []"
| "pk_package_ids_remove_id (i # ids) package_id =
     (if package_id \<noteq> i then i # pk_package_ids_remove_id ids package_id
      else pk_package_ids_remove_id ids package_id)"

lemma package_ids_check_iff:
  "pk_package_ids_check (Some ids) \<longleftrightarrow> ids \<noteq> [] \<and> (\<forall>i \<in> set ids. pk_package_id_check (Some i))"
proof -
  have "package_ids_check_loop ids ret \<longleftrightarrow>
        (if ids = [] then ret else \<forall>i \<in> set ids. pk_package_id_check (Some i))" for ret
    by (induction ids ret rule: package_ids_check_loop.induct) (auto simp: Let_def)
  then show ?thesis by (simp add: pk_package_ids_check_def)
qed

lemma present_id_set: "pk_package_ids_present_id ids i \<longleftrightarrow> i \<in> set ids"
  by (induction ids) auto

lemma remove_id_filter: "pk_package_ids_remove_id ids i = filter (\<lambda>j. i \<noteq> j) ids"
  by (induction ids) auto

section \<open>Properties\<close>

text \<open>C39: Building and splitting a PackageID are inverse: a text splits into some sections
  exactly when they are four sections without a semicolon, the first of them not empty,
  from which \<open>pk_package_id_build\<close> makes the text.\<close>

theorem package_id_split_build:
  "pk_package_id_split (Some s) = Some ws \<longleftrightarrow>
   (\<exists>name version arch data.
      ws = [name, version, arch, data] \<and> name \<noteq> [] \<and>
      (\<forall>w \<in> set ws. CHR '';'' \<notin> set w) \<and>
      pk_package_id_build (Some name) (Some version) (Some arch) (Some data) = Some s)"
  by (auto simp: pk_package_id_split_Some)

lemma package_id_split_build_witness:
  "pk_package_id_split (Some ''glib2;2.14.0;i386;fedora'') =
     Some [''glib2'', ''2.14.0'', ''i386'', ''fedora'']"
  by (subst package_id_split_build) (simp add: pk_package_id_build_def or_empty_def)

text \<open>A list of valid PackageIDs without an ampersand survives the trip through the
  single string that carries it over the bus; adding an identifier keeps the list valid exactly
  when it is valid itself and makes it present, and removing it undoes the addition.\<close>

theorem package_ids_round_trip:
  assumes "pk_package_ids_check (Some ids)"
    and "\<forall>i \<in> set ids. PK_PACKAGE_IDS_DELIM \<notin> set i"
  shows "pk_package_ids_from_string (pk_package_ids_to_string (Some ids)) = Some ids \<and>
         pk_package_ids_check (Some (pk_package_ids_add_id ids i)) = pk_package_id_check (Some i) \<and>
         pk_package_ids_present_id (pk_package_ids_add_id ids i) i \<and>
         pk_package_ids_remove_id (pk_package_ids_add_id ids i) i = pk_package_ids_remove_id ids i \<and>
         \<not> pk_package_ids_present_id (pk_package_ids_remove_id ids i) i"
proof -
  have ids: "ids \<noteq> []" "\<forall>i \<in> set ids. pk_package_id_check (Some i)"
    using assms(1) by (simp_all add: package_ids_check_iff)
  then have "ids \<noteq> [[]]" using pk_package_id_check_not_empty [of "[]"] by auto
  with ids assms(2) show ?thesis
    by (auto simp: pk_package_ids_from_string_def pk_package_ids_to_string_def g_strsplit_joinv
        package_ids_check_iff pk_package_ids_add_id_def present_id_set remove_id_filter)
qed

lemma package_ids_round_trip_witness:
  "pk_package_ids_from_string (Some ''a;1;i386;x&b;2;i386;x'') = Some [''a;1;i386;x'', ''b;2;i386;x'']"
proof -
  have "pk_package_ids_check (Some [''a;1;i386;x'', ''b;2;i386;x''])" by code_simp
  from package_ids_round_trip [OF this] show ?thesis
    by (simp add: pk_package_ids_to_string_def PK_PACKAGE_IDS_DELIM_def)
qed

end
