(* ===== verification/PK_Results.thy ===== *)
theory PK_Results
  imports PK_Enum PK_Package_Id
begin

text \<open>
  The objects that a backend emits (\<open>src/lib/packagekit-glib2/pk-package.c\<close>,
  \<open>pk-details.c\<close> and their siblings), as records of the private structures, and the collection
  of them that a transaction keeps (\<open>pk-results.c\<close>). A \<open>GPtrArray\<close> of objects is the list of
  the objects in the order in which they were added. Of a package the record has the three
  fields that the daemon uses; the sack that duplicates the package array is left out.
\<close>

section \<open>The emitted objects\<close>

record PkPackage =
  pkg_info :: PkInfoEnum
  pkg_id :: string
  pkg_summary :: "string option"

record PkDetails =
  dt_package_id :: string
  dt_license :: "string option"
  dt_group :: PkGroupEnum
  dt_description :: "string option"
  dt_url :: "string option"
  dt_size :: guint64

record PkUpdateDetail =
  ud_package_id :: string
  ud_updates :: "string option"
  ud_obsoletes :: "string option"
  ud_vendor_url :: "string option"
  ud_bugzilla_url :: "string option"
  ud_cve_url :: "string option"
  ud_restart :: PkRestartEnum
  ud_update_text :: "string option"
  ud_changelog :: "string option"
  ud_state :: PkUpdateStateEnum
  ud_issued :: "string option"
  ud_updated :: "string option"

record PkCategory =
  ct_parent_id :: "string option"
  ct_cat_id :: string
  ct_name :: "string option"
  ct_summary :: "string option"
  ct_icon :: "string option"

record PkDistroUpgrade =
  du_state :: PkDistroUpgradeEnum
  du_name :: "string option"
  du_summary :: "string option"

record PkRequireRestart =
  rr_restart :: PkRestartEnum
  rr_package_id :: string

record PkFiles =
  fl_package_id :: string
  fl_files :: "string list"

record PkRepoSignatureRequired =
  sg_package_id :: "string option"
  sg_repository_name :: string
  sg_key_url :: "string option"
  sg_key_userid :: "string option"
  sg_key_id :: "string option"
  sg_key_fingerprint :: "string option"
  sg_key_timestamp :: "string option"
  sg_type :: PkSigTypeEnum

record PkEulaRequired =
  eu_eula_id :: string
  eu_package_id :: string
  eu_vendor_name :: string
  eu_license_agreement :: string

record PkMediaChangeRequired =
  mc_media_type :: PkMediaTypeEnum
  mc_media_id :: string
  mc_media_text :: string

record PkRepoDetail =
  rd_repo_id :: string
  rd_description :: "string option"
  rd_enabled :: bool

record PkMessage =
  ms_type :: PkMessageEnum
  ms_details :: string

record PkTransactionPast =
  tp_tid :: string
  tp_timespec :: string
  tp_succeeded :: bool
  tp_role :: PkRoleEnum
  tp_duration :: guint
  tp_data :: string
  tp_uid :: guint
  tp_cmdline :: string

record PkError =
  er_code :: PkErrorEnum
  er_details :: string

section \<open>Packages\<close>

text \<open>\<open>g_strcmp0\<close> compares \<open>NULL\<close> equal to \<open>NULL\<close> only, as equality of options does.\<close>

definition pk_package_equal :: "PkPackage \<Rightarrow> PkPackage \<Rightarrow> bool" where
  "pk_package_equal p1 p2 =
     (pkg_summary p1 = pkg_summary p2 \<and> pkg_id p1 = pkg_id p2 \<and> pkg_info p1 = pkg_info p2)"

definition pk_package_equal_id :: "PkPackage \<Rightarrow> PkPackage \<Rightarrow> bool" where
  "pk_package_equal_id p1 p2 = (pkg_id p1 = pkg_id p2)"

text \<open>The result of \<open>pk_package_set_id\<close>; the identifier is stored exactly when it is true.\<close>

definition pk_package_set_id :: "string \<Rightarrow> bool" where
  "pk_package_set_id package_id =
     (if \<not> g_utf8_validate package_id then False
      else
        let sections = g_strsplit CHR '';'' package_id in
        if length sections \<noteq> 4 then False
        else if sections ! 0 = [] then False
        else True)"

lemma pk_package_set_id_check: "pk_package_set_id s = pk_package_id_check (Some s)"
  by (simp add: pk_package_set_id_def pk_package_id_check_def pk_package_id_split_def Let_def)

section \<open>Results\<close>

record PkResults =
  res_exit_enum :: PkExitEnum
  res_error_code :: "PkError option"
  package_array :: "PkPackage list"
  details_array :: "PkDetails list"
  update_detail_array :: "PkUpdateDetail list"
  category_array :: "PkCategory list"
  distro_upgrade_array :: "PkDistroUpgrade list"
  require_restart_array :: "PkRequireRestart list"
  transaction_array :: "PkTransactionPast list"
  files_array :: "PkFiles list"
  repo_signature_required_array :: "PkRepoSignatureRequired list"
  eula_required_array :: "PkEulaRequired list"
  media_change_required_array :: "PkMediaChangeRequired list"
  repo_detail_array :: "PkRepoDetail list"
  message_array :: "PkMessage list"

definition pk_results_new :: PkResults where
  "pk_results_new =
     \<lparr>res_exit_enum = PK_EXIT_ENUM_UNKNOWN, res_error_code = None,
      package_array = [],
      details_array = [],
      update_detail_array = [],
      category_array = [],
      distro_upgrade_array = [],
      require_restart_array = [],
      transaction_array = [],
      files_array = [],
      repo_signature_required_array = [],
      eula_required_array = [],
      media_change_required_array = [],
      repo_detail_array = [],
      message_array = []\<rparr>"

definition pk_results_set_exit_code :: "PkExitEnum \<Rightarrow> PkResults \<Rightarrow> PkResults" where
  "pk_results_set_exit_code exit_enum r =
     (if exit_enum = PK_EXIT_ENUM_UNKNOWN then r else r\<lparr>res_exit_enum := exit_enum\<rparr>)"

definition pk_results_set_error_code :: "PkError \<Rightarrow> PkResults \<Rightarrow> PkResults" where
  "pk_results_set_error_code item r = r\<lparr>res_error_code := Some item\<rparr>"

definition pk_results_add_package :: "PkPackage \<Rightarrow> PkResults \<Rightarrow> PkResults" where
  "pk_results_add_package item r =
     (if pkg_info item = PK_INFO_ENUM_FINISHED then r
      else r\<lparr>package_array := package_array r @ [item]\<rparr>)"

definition pk_results_add_details :: "PkDetails \<Rightarrow> PkResults \<Rightarrow> PkResults" where
  "pk_results_add_details item r = r\<lparr>details_array := details_array r @ [item]\<rparr>"

definition pk_results_add_update_detail :: "PkUpdateDetail \<Rightarrow> PkResults \<Rightarrow> PkResults" where
  "pk_results_add_update_detail item r = r\<lparr>update_detail_array := update_detail_array r @ [item]\<rparr>"

definition pk_results_add_category :: "PkCategory \<Rightarrow> PkResults \<Rightarrow> PkResults" where
  "pk_results_add_category item r = r\<lparr>category_array := category_array r @ [item]\<rparr>"

definition pk_results_add_distro_upgrade :: "PkDistroUpgrade \<Rightarrow> PkResults \<Rightarrow> PkResults" where
  "pk_results_add_distro_upgrade item r = r\<lparr>distro_upgrade_array := distro_upgrade_array r @ [item]\<rparr>"

definition pk_results_add_require_restart :: "PkRequireRestart \<Rightarrow> PkResults \<Rightarrow> PkResults" where
  "pk_results_add_require_restart item r = r\<lparr>require_restart_array := require_restart_array r @ [item]\<rparr>"

definition pk_results_add_transaction :: "PkTransactionPast \<Rightarrow> PkResults \<Rightarrow> PkResults" where
  "pk_results_add_transaction item r = r\<lparr>transaction_array := transaction_array r @ [item]\<rparr>"

definition pk_results_add_files :: "PkFiles \<Rightarrow> PkResults \<Rightarrow> PkResults" where
  "pk_results_add_files item r = r\<lparr>files_array := files_array r @ [item]\<rparr>"

definition pk_results_add_repo_signature_required :: "PkRepoSignatureRequired \<Rightarrow> PkResults \<Rightarrow> PkResults" where
  "pk_results_add_repo_signature_required item r = r\<lparr>repo_signature_required_array := repo_signature_required_array r @ [item]\<rparr>"

definition pk_results_add_eula_required :: "PkEulaRequired \<Rightarrow> PkResults \<Rightarrow> PkResults" where
  "pk_results_add_eula_required item r = r\<lparr>eula_required_array := eula_required_array r @ [item]\<rparr>"

definition pk_results_add_media_change_required :: "PkMediaChangeRequired \<Rightarrow> PkResults \<Rightarrow> PkResults" where
  "pk_results_add_media_change_required item r = r\<lparr>media_change_required_array := media_change_required_array r @ [item]\<rparr>"

definition pk_results_add_repo_detail :: "PkRepoDetail \<Rightarrow> PkResults \<Rightarrow> PkResults" where
  "pk_results_add_repo_detail item r = r\<lparr>repo_detail_array := repo_detail_array r @ [item]\<rparr>"

definition pk_results_add_message :: "PkMessage \<Rightarrow> PkResults \<Rightarrow> PkResults" where
  "pk_results_add_message item r = r\<lparr>message_array := message_array r @ [item]\<rparr>"

text \<open>
  \<open>pk_results_get_require_restart_worst\<close> keeps the largest value seen; an item is larger when
  its enumerator comes later in \<open>PkRestartEnum\<close>.
\<close>

definition pk_results_get_require_restart_worst :: "PkResults \<Rightarrow> PkRestartEnum" where
  "pk_results_get_require_restart_worst r =
     foldl (\<lambda>worst item. if enum_value worst < enum_value (rr_restart item) then rr_restart item
                          else worst)
       PK_RESTART_ENUM_UNKNOWN (require_restart_array r)"

lemma restart_worst_bound:
  assumes "item \<in> set (require_restart_array r)"
  shows "enum_value (rr_restart item) \<le> enum_value (pk_results_get_require_restart_worst r)"
proof -
  define f where "f worst item = (if enum_value worst < enum_value (rr_restart item)
      then rr_restart item else worst)" for worst and item :: PkRequireRestart
  have step: "enum_value w \<le> enum_value (f w i) \<and> enum_value (rr_restart i) \<le> enum_value (f w i)" for w i
    by (simp add: f_def)
  have "enum_value w \<le> enum_value (foldl f w items) \<and>
        (\<forall>i \<in> set items. enum_value (rr_restart i) \<le> enum_value (foldl f w items))" for w items
  proof (induction items arbitrary: w)
    case (Cons i items)
    from Cons.IH [of "f w i"] step [of w i] show ?case by auto
  qed simp
  then have "enum_value (rr_restart item) \<le>
      enum_value (foldl f PK_RESTART_ENUM_UNKNOWN (require_restart_array r))"
    using assms by blast
  then show ?thesis
    by (simp add: pk_results_get_require_restart_worst_def f_def [abs_def])
qed

lemmas results_defs =
  pk_results_set_error_code_def pk_results_set_exit_code_def pk_results_add_package_def
  pk_results_add_details_def pk_results_add_update_detail_def pk_results_add_category_def
  pk_results_add_distro_upgrade_def pk_results_add_require_restart_def pk_results_add_transaction_def
  pk_results_add_files_def
  pk_results_add_repo_signature_required_def pk_results_add_eula_required_def
  pk_results_add_media_change_required_def pk_results_add_repo_detail_def
  pk_results_add_message_def

end
