(* ===== verification/PK_Backend.thy ===== *)
theory PK_Backend
  imports PK_Bitfield PK_Store PK_Main_Loop PK_Results
begin

text \<open>
  The backend object of the daemon (\<open>src/src/pk-backend.c\<close>): what a loaded plugin may report
  while it works (packages, details, status, errors, the end of the work), the guards that
  keep those reports in order, and the delayed \<open>Finished\<close>. Every signal of the object is
  appended to \<open>emitted\<close> at the point where the code emits it. A function that returns a
  \<open>gboolean\<close> is a function to \<open>bool \<times> PkBackend\<close>; a \<open>g_return_val_if_fail\<close> on the object's state
  is a branch, one on a pointer type is not modelled.

  The estimate of the remaining time uses floats (\<open>pk-time.c\<close>): \<open>pk_time_get_remaining\<close>
  enters as the argument \<open>estimate\<close>. The plugin is code loaded at run time: the table of its
  methods is a record that says which ones it has, and each call into it is a signal
  \<open>VFUNC\<close>, after which the reports of the plugin are further operations of the object.
\<close>

section \<open>State\<close>

datatype backend_property =
    PROP_SPEED | PROP_PERCENTAGE | PROP_SUBPERCENTAGE | PROP_REMAINING

datatype backend_call =
    VF_initialize | VF_destroy | VF_transaction_start | VF_transaction_stop
  | VF_transaction_reset | VF_cancel
  | VF_download_packages "string list" "string option"
  | VF_get_categories
  | VF_get_depends PkBitfield "string list" bool
  | VF_get_details "string list"
  | VF_get_distro_upgrades
  | VF_get_files "string list"
  | VF_get_requires PkBitfield "string list" bool
  | VF_get_update_detail "string list"
  | VF_get_updates PkBitfield
  | VF_install_packages bool "string list"
  | VF_install_signature PkSigTypeEnum "string option" "string option"
  | VF_install_files bool "string list"
  | VF_refresh_cache bool
  | VF_remove_packages "string list" bool bool
  | VF_resolve PkBitfield "string list"
  | VF_rollback "string option"
  | VF_search_details PkBitfield "string list"
  | VF_search_files PkBitfield "string list"
  | VF_search_groups PkBitfield "string list"
  | VF_search_names PkBitfield "string list"
  | VF_update_packages bool "string list"
  | VF_update_system bool
  | VF_get_repo_list PkBitfield
  | VF_repo_enable "string option" bool
  | VF_repo_set_data "string option" "string option" "string option"
  | VF_what_provides PkBitfield PkProvidesEnum "string list"
  | VF_get_packages PkBitfield
  | VF_simulate_install_files "string list"
  | VF_simulate_install_packages "string list"
  | VF_simulate_remove_packages "string list" bool
  | VF_simulate_update_packages "string list"
  | VF_upgrade_system "string option" PkUpgradeKindEnum
  | VF_repair_system bool
  | VF_simulate_repair_system

datatype backend_signal =
    SIGNAL_STATUS_CHANGED PkStatusEnum
  | SIGNAL_DETAILS PkDetails
  | SIGNAL_FILES PkFiles
  | SIGNAL_DISTRO_UPGRADE PkDistroUpgrade
  | SIGNAL_PACKAGE PkPackage
  | SIGNAL_UPDATE_DETAIL PkUpdateDetail
  | SIGNAL_ERROR_CODE PkError
  | SIGNAL_REPO_SIGNATURE_REQUIRED PkRepoSignatureRequired
  | SIGNAL_EULA_REQUIRED PkEulaRequired
  | SIGNAL_REQUIRE_RESTART PkRequireRestart
  | SIGNAL_MESSAGE PkMessage
  | SIGNAL_CHANGE_TRANSACTION_DATA string
  | SIGNAL_FINISHED PkExitEnum
  | SIGNAL_ALLOW_CANCEL bool
  | SIGNAL_REPO_DETAIL PkRepoDetail
  | SIGNAL_CATEGORY PkCategory
  | SIGNAL_MEDIA_CHANGE_REQUIRED PkMediaChangeRequired
  | SIGNAL_ITEM_PROGRESS string guint
  | NOTIFY backend_property
  | REPO_LIST_CHANGED
  | VFUNC backend_call

text \<open>
  The plugin's table: \<open>desc_methods\<close> are the roles whose method is not \<open>NULL\<close>; the optional
  getters are given by the value that they return.
\<close>

record PkBackendDesc =
  desc_methods :: "PkRoleEnum list"
  desc_get_roles :: "PkBitfield option"
  desc_get_groups :: "PkBitfield option"
  desc_get_filters :: "PkBitfield option"
  desc_get_mime_types :: "string option"
  desc_initialize :: bool
  desc_destroy :: bool
  desc_transaction_start :: bool
  desc_transaction_stop :: bool
  desc_transaction_reset :: bool

datatype backend_source =
    SRC_error_timeout_delay | SRC_finished_delay | SRC_thread_finished

record PkBackend =
  be_during_initialize :: bool
  be_finished :: bool
  be_has_sent_package :: bool
  be_locked :: bool
  be_set_error :: bool
  be_set_eula :: bool
  be_set_signature :: bool
  be_simultaneous :: bool
  be_use_time :: bool
  be_use_threads :: bool
  be_keep_environment :: bool
  be_transaction_id :: "string option"
  be_locale :: "string option"
  be_frontend_socket :: "string option"
  be_cache_age :: guint
  be_name :: "string option"
  be_proxy_http :: "string option"
  be_proxy_https :: "string option"
  be_proxy_ftp :: "string option"
  be_proxy_socks :: "string option"
  be_no_proxy :: "string option"
  be_pac :: "string option"
  be_root :: "string option"
  be_download_files :: guint
  be_percentage :: guint
  be_remaining :: guint
  be_subpercentage :: guint
  be_signal_error_timeout :: nat
  be_signal_finished :: nat
  be_speed :: guint
  be_eulas :: "string list"
  be_thread :: bool
  be_desc :: "PkBackendDesc option"
  be_background :: PkHintEnum
  be_interactive :: PkHintEnum
  be_allow_cancel :: PkHintEnum
  be_roles :: PkBitfield
  be_exit :: PkExitEnum
  be_last_package :: "PkPackage option"
  be_results :: PkResults
  be_role :: PkRoleEnum
  be_transaction_role :: PkRoleEnum
  be_status :: PkStatusEnum
  be_store :: PkStore
  be_uid :: guint
  be_cmdline :: "string option"
  be_loop :: "backend_source main_loop"
  emitted :: "backend_signal list"

definition PK_BACKEND_PERCENTAGE_DEFAULT :: guint where
  "PK_BACKEND_PERCENTAGE_DEFAULT = 102"

definition PK_BACKEND_PERCENTAGE_INVALID :: guint where
  "PK_BACKEND_PERCENTAGE_INVALID = 101"

definition emit :: "backend_signal \<Rightarrow> PkBackend \<Rightarrow> PkBackend" where
  "emit s b = b\<lparr>emitted := emitted b @ [s]\<rparr>"

definition add_result :: "(PkResults \<Rightarrow> PkResults) \<Rightarrow> PkBackend \<Rightarrow> PkBackend" where
  "add_result f b = b\<lparr>be_results := f (be_results b)\<rparr>"

definition hint_of_bool :: "bool \<Rightarrow> PkHintEnum" where
  "hint_of_bool x = (if x then PK_HINT_ENUM_TRUE else PK_HINT_ENUM_FALSE)"

section \<open>Messages, progress and status\<close>

definition pk_backend_message :: "PkMessageEnum \<Rightarrow> string \<Rightarrow> PkBackend \<Rightarrow> bool \<times> PkBackend" where
  "pk_backend_message message buffer b =
     (if \<not> be_locked b then (False, b)
      else if be_set_error b \<and> message \<noteq> PK_MESSAGE_ENUM_BACKEND_ERROR then (False, b)
      else if message = PK_MESSAGE_ENUM_UNTRUSTED_PACKAGE then (False, b)
      else
        let item = \<lparr>ms_type = message, ms_details = buffer\<rparr>;
            b = emit (SIGNAL_MESSAGE item) b;
            b = add_result (pk_results_add_message item) b
        in (True, b))"

definition pk_backend_set_percentage :: "guint \<Rightarrow> guint \<Rightarrow> PkBackend \<Rightarrow> bool \<times> PkBackend" where
  "pk_backend_set_percentage estimate percentage b =
     (if \<not> be_locked b then (False, b)
      else if be_set_error b then (False, b)
      else if be_percentage b = percentage then (False, b)
      else if PK_BACKEND_PERCENTAGE_INVALID < percentage then
        (False, snd (pk_backend_message PK_MESSAGE_ENUM_BACKEND_ERROR
                       (''percentage value is invalid: '' @ fmt_i percentage) b))
      else if percentage < 100 \<and> be_percentage b < 100 \<and> percentage < be_percentage b then
        (False, snd (pk_backend_message PK_MESSAGE_ENUM_BACKEND_ERROR
                       (''percentage value is going down to '' @ fmt_i percentage @ '' from '' @
                        fmt_i (be_percentage b)) b))
      else
        let b = b\<lparr>be_percentage := percentage\<rparr>;
            b = emit (NOTIFY PROP_PERCENTAGE) b;
            b = (if percentage \<noteq> PK_BACKEND_PERCENTAGE_INVALID then
                   let b = (if be_use_time b then b\<lparr>be_remaining := estimate\<rparr> else b)
                   in emit (NOTIFY PROP_REMAINING) b
                 else b)
        in (True, b))"

definition pk_backend_set_speed :: "guint \<Rightarrow> PkBackend \<Rightarrow> bool \<times> PkBackend" where
  "pk_backend_set_speed speed b =
     (if \<not> be_locked b then (False, b)
      else if be_set_error b then (False, b)
      else if be_speed b = speed then (False, b)
      else (True, emit (NOTIFY PROP_SPEED) (b\<lparr>be_speed := speed\<rparr>)))"

definition pk_backend_set_item_progress ::
  "string \<Rightarrow> guint \<Rightarrow> PkBackend \<Rightarrow> bool \<times> PkBackend" where
  "pk_backend_set_item_progress package_id percentage b =
     (if \<not> be_locked b then (False, b)
      else if be_set_error b then (False, b)
      else if 100 < percentage \<and> percentage \<noteq> PK_BACKEND_PERCENTAGE_INVALID then (False, b)
      else (True, emit (SIGNAL_ITEM_PROGRESS package_id percentage) b))"

definition pk_backend_set_sub_percentage :: "guint \<Rightarrow> PkBackend \<Rightarrow> bool \<times> PkBackend" where
  "pk_backend_set_sub_percentage percentage b =
     (if \<not> be_locked b then (False, b)
      else if be_set_error b then (False, b)
      else if be_subpercentage b = percentage then (False, b)
      else if 100 < percentage \<and> percentage \<noteq> PK_BACKEND_PERCENTAGE_INVALID then (False, b)
      else (True, emit (NOTIFY PROP_SUBPERCENTAGE) (b\<lparr>be_subpercentage := percentage\<rparr>)))"

definition pk_backend_set_status :: "PkStatusEnum \<Rightarrow> PkBackend \<Rightarrow> bool \<times> PkBackend" where
  "pk_backend_set_status status b =
     (if \<not> be_locked b then (False, b)
      else if be_status b = status then (True, b)
      else if be_set_error b \<and> status \<noteq> PK_STATUS_ENUM_FINISHED then (False, b)
      else if status = PK_STATUS_ENUM_WAIT then
        (False, snd (pk_backend_message PK_MESSAGE_ENUM_BACKEND_ERROR
                       (pk_role_enum_to_string (be_role b) @ '' shouldn't use STATUS_WAIT'') b))
      else
        let b = (if status \<noteq> PK_STATUS_ENUM_RUNNING \<and> status \<noteq> PK_STATUS_ENUM_SETUP \<and>
                    be_status b = PK_STATUS_ENUM_SETUP
                 then emit (SIGNAL_STATUS_CHANGED PK_STATUS_ENUM_RUNNING) b else b);
            b = b\<lparr>be_status := status\<rparr>
        in (True, emit (SIGNAL_STATUS_CHANGED status) b))"

definition pk_backend_set_allow_cancel :: "bool \<Rightarrow> PkBackend \<Rightarrow> bool \<times> PkBackend" where
  "pk_backend_set_allow_cancel allow_cancel b =
     (if be_desc b = None then (False, b)
      else if \<not> be_locked b then (False, b)
      else if be_set_error b \<and> allow_cancel then (False, b)
      else if be_allow_cancel b = hint_of_bool allow_cancel then (False, b)
      else
        let b = emit (SIGNAL_ALLOW_CANCEL allow_cancel) b
        in (True, b\<lparr>be_allow_cancel := hint_of_bool allow_cancel\<rparr>))"

definition pk_backend_get_allow_cancel :: "PkBackend \<Rightarrow> bool" where
  "pk_backend_get_allow_cancel b =
     (if \<not> be_locked b then False
      else if be_allow_cancel b \<noteq> PK_HINT_ENUM_UNSET then be_allow_cancel b \<noteq> PK_HINT_ENUM_FALSE
      else False)"

section \<open>Packages\<close>

definition pk_backend_strsafe :: "string option \<Rightarrow> string option" where
  "pk_backend_strsafe text =
     (case text of
        None \<Rightarrow> None
      | Some t \<Rightarrow>
          if \<not> g_utf8_validate t then None
          else Some (g_strdelimit t [CHR 0x5C, CHR 0x0C, CHR 0x0D, CHR 0x09] CHR '' ''))"

text \<open>The four simulate roles turn \<open>available\<close> and \<open>installed\<close> into what would be done.\<close>

definition simulate_info :: "PkRoleEnum \<Rightarrow> PkInfoEnum \<Rightarrow> PkInfoEnum" where
  "simulate_info transaction_role info =
     (if transaction_role = PK_ROLE_ENUM_SIMULATE_INSTALL_FILES \<or>
         transaction_role = PK_ROLE_ENUM_SIMULATE_INSTALL_PACKAGES \<or>
         transaction_role = PK_ROLE_ENUM_SIMULATE_REMOVE_PACKAGES \<or>
         transaction_role = PK_ROLE_ENUM_SIMULATE_UPDATE_PACKAGES then
        if info = PK_INFO_ENUM_AVAILABLE then PK_INFO_ENUM_INSTALLING
        else if info = PK_INFO_ENUM_INSTALLED then PK_INFO_ENUM_REMOVING
        else info
      else info)"

definition info_status :: "PkInfoEnum \<Rightarrow> PkStatusEnum option" where
  "info_status info =
     (if info = PK_INFO_ENUM_DOWNLOADING then Some PK_STATUS_ENUM_DOWNLOAD
      else if info = PK_INFO_ENUM_UPDATING then Some PK_STATUS_ENUM_UPDATE
      else if info = PK_INFO_ENUM_INSTALLING then Some PK_STATUS_ENUM_INSTALL
      else if info = PK_INFO_ENUM_REMOVING then Some PK_STATUS_ENUM_REMOVE
      else if info = PK_INFO_ENUM_CLEANUP then Some PK_STATUS_ENUM_CLEANUP
      else if info = PK_INFO_ENUM_OBSOLETING then Some PK_STATUS_ENUM_OBSOLETE
      else None)"

text \<open>
  \<open>pk_backend_package\<close> calls itself, through the emulation of a finished package, with
  \<open>PK_INFO_ENUM_FINISHED\<close>, and does not emulate again then. \<open>package_body\<close> is its text with
  the emulation step as an argument.
\<close>

definition package_body ::
  "(PkPackage \<Rightarrow> PkBackend \<Rightarrow> PkBackend) \<Rightarrow> PkInfoEnum \<Rightarrow> string \<Rightarrow> string option \<Rightarrow>
   PkBackend \<Rightarrow> bool \<times> PkBackend" where
  "package_body emulate info package_id summary b =
     (if \<not> be_locked b then (False, b)
      else if \<not> pk_package_set_id package_id then (False, b)
      else
        let info = simulate_info (be_transaction_role b) info;
            item = \<lparr>pkg_info = info, pkg_id = package_id, pkg_summary = pk_backend_strsafe summary\<rparr>
        in
        if (case be_last_package b of Some p \<Rightarrow> pk_package_equal p item | None \<Rightarrow> False)
        then (False, b)
        else
          let b = (if info \<noteq> PK_INFO_ENUM_FINISHED then emulate item b else b);
              b = b\<lparr>be_last_package := Some item\<rparr>
          in
          if be_set_error b then (False, b)
          else
            let b = (if \<not> be_simultaneous b then
                       (case info_status info of
                          Some st \<Rightarrow> snd (pk_backend_set_status st b)
                        | None \<Rightarrow> b)
                     else b);
                b = b\<lparr>be_has_sent_package := True\<rparr>;
                b = emit (SIGNAL_PACKAGE item) b;
                b = (if info \<noteq> PK_INFO_ENUM_FINISHED
                     then add_result (pk_results_add_package item) b else b)
            in (True, b))"

definition pk_backend_package_emulate_finished :: "PkBackend \<Rightarrow> bool \<times> PkBackend" where
  "pk_backend_package_emulate_finished b =
     (if be_simultaneous b then (False, b)
      else
        (case be_last_package b of
           None \<Rightarrow> (False, b)
         | Some item \<Rightarrow>
             let info = pkg_info item in
             if info = PK_INFO_ENUM_FINISHED then (False, b)
             else if info = PK_INFO_ENUM_DOWNLOADING \<or> info = PK_INFO_ENUM_UPDATING \<or>
                     info = PK_INFO_ENUM_INSTALLING \<or> info = PK_INFO_ENUM_REMOVING \<or>
                     info = PK_INFO_ENUM_CLEANUP \<or> info = PK_INFO_ENUM_OBSOLETING \<or>
                     info = PK_INFO_ENUM_REINSTALLING \<or> info = PK_INFO_ENUM_DOWNGRADING
             then (True, snd (package_body (\<lambda>_ b. b) PK_INFO_ENUM_FINISHED (pkg_id item)
                                (pkg_summary item) b))
             else (False, b)))"

definition pk_backend_package_emulate_finished_for_package ::
  "PkPackage \<Rightarrow> PkBackend \<Rightarrow> bool \<times> PkBackend" where
  "pk_backend_package_emulate_finished_for_package item b =
     (if be_simultaneous b then (False, b)
      else
        (case be_last_package b of
           None \<Rightarrow> (False, b)
         | Some item0 \<Rightarrow>
             if pk_package_equal_id item0 item then (False, b)
             else pk_backend_package_emulate_finished b))"

definition pk_backend_package ::
  "PkInfoEnum \<Rightarrow> string \<Rightarrow> string option \<Rightarrow> PkBackend \<Rightarrow> bool \<times> PkBackend" where
  "pk_backend_package =
     package_body (\<lambda>item b. snd (pk_backend_package_emulate_finished_for_package item b))"

text \<open>The call inside the emulation is a call of the function itself.\<close>

lemma simulate_info_finished [simp]: "simulate_info r PK_INFO_ENUM_FINISHED = PK_INFO_ENUM_FINISHED"
  by (simp add: simulate_info_def)

lemma pk_backend_package_finished_call:
  "pk_backend_package PK_INFO_ENUM_FINISHED package_id s b =
   package_body (\<lambda>_ b. b) PK_INFO_ENUM_FINISHED package_id s b"
  by (simp add: pk_backend_package_def package_body_def Let_def)

section \<open>The other reports\<close>

text \<open>
  The dates are only looked at to warn; \<open>gulong\<close> is 64 bit wide. A \<open>char *\<close> argument that
  the function tests for \<open>NULL\<close> with \<open>g_return_val_if_fail\<close> is a plain string here.
\<close>

definition no_empty :: "string option \<Rightarrow> string option" where
  "no_empty s = (if s = Some [] then None else s)"

definition pk_backend_update_detail :: "PkUpdateDetail \<Rightarrow> PkBackend \<Rightarrow> bool \<times> PkBackend" where
  "pk_backend_update_detail args b =
     (if \<not> be_locked b then (False, b)
      else if be_set_error b then (False, b)
      else
        let item = args\<lparr>ud_issued := no_empty (ud_issued args),
                        ud_updated := no_empty (ud_updated args),
                        ud_update_text := pk_backend_strsafe (ud_update_text args)\<rparr>;
            b = emit (SIGNAL_UPDATE_DETAIL item) b;
            b = add_result (pk_results_add_update_detail item) b
        in (True, b))"

definition pk_backend_require_restart ::
  "PkRestartEnum \<Rightarrow> string option \<Rightarrow> PkBackend \<Rightarrow> bool \<times> PkBackend" where
  "pk_backend_require_restart restart package_id b =
     (if \<not> be_locked b then (False, b)
      else if be_set_error b then (False, b)
      else if \<not> pk_package_id_check package_id then (False, b)
      else
        let item = \<lparr>rr_restart = restart, rr_package_id = or_empty package_id\<rparr>;
            b = emit (SIGNAL_REQUIRE_RESTART item) b;
            b = add_result (pk_results_add_require_restart item) b
        in (True, b))"

definition pk_backend_set_transaction_data :: "string \<Rightarrow> PkBackend \<Rightarrow> bool \<times> PkBackend" where
  "pk_backend_set_transaction_data data b =
     (if \<not> be_locked b then (False, b)
      else if be_set_error b then (False, b)
      else (True, emit (SIGNAL_CHANGE_TRANSACTION_DATA data) b))"

definition pk_backend_set_simultaneous_mode :: "bool \<Rightarrow> PkBackend \<Rightarrow> bool \<times> PkBackend" where
  "pk_backend_set_simultaneous_mode simultaneous b =
     (if \<not> be_locked b then (False, b) else (True, b\<lparr>be_simultaneous := simultaneous\<rparr>))"

definition pk_backend_details ::
  "string \<Rightarrow> string option \<Rightarrow> PkGroupEnum \<Rightarrow> string option \<Rightarrow> string option \<Rightarrow> guint64 \<Rightarrow>
   PkBackend \<Rightarrow> bool \<times> PkBackend" where
  "pk_backend_details package_id license grp description url size' b =
     (if \<not> be_locked b then (False, b)
      else if be_set_error b then (False, b)
      else
        let item = \<lparr>dt_package_id = package_id, dt_license = license, dt_group = grp,
                    dt_description = pk_backend_strsafe description, dt_url = url, dt_size = size'\<rparr>;
            b = emit (SIGNAL_DETAILS item) b;
            b = add_result (pk_results_add_details item) b
        in (True, b))"

definition pk_backend_files :: "string option \<Rightarrow> string \<Rightarrow> PkBackend \<Rightarrow> bool \<times> PkBackend" where
  "pk_backend_files package_id filelist b =
     (if \<not> be_locked b then (False, b)
      else if be_set_error b then (False, b)
      else if \<not> pk_package_id_check package_id then (False, b)
      else
        let item = \<lparr>fl_package_id = or_empty package_id, fl_files = g_strsplit CHR '';'' filelist\<rparr>;
            b = emit (SIGNAL_FILES item) b;
            b = add_result (pk_results_add_files item) b
        in (True, b\<lparr>be_download_files := be_download_files b + 1\<rparr>))"

definition pk_backend_distro_upgrade ::
  "PkDistroUpgradeEnum \<Rightarrow> string \<Rightarrow> string \<Rightarrow> PkBackend \<Rightarrow> bool \<times> PkBackend" where
  "pk_backend_distro_upgrade state name summary b =
     (if state = PK_DISTRO_UPGRADE_ENUM_UNKNOWN then (False, b)
      else if \<not> be_locked b then (False, b)
      else if be_set_error b then (False, b)
      else
        let item = \<lparr>du_state = state, du_name = pk_backend_strsafe (Some name),
                    du_summary = pk_backend_strsafe (Some summary)\<rparr>;
            b = emit (SIGNAL_DISTRO_UPGRADE item) b;
            b = add_result (pk_results_add_distro_upgrade item) b
        in (True, b))"

definition pk_backend_repo_signature_required ::
  "PkRepoSignatureRequired \<Rightarrow> PkBackend \<Rightarrow> bool \<times> PkBackend" where
  "pk_backend_repo_signature_required item b =
     (if \<not> be_locked b then (False, b)
      else if be_set_error b then (False, b)
      else if be_set_signature b then (False, b)
      else
        let b = emit (SIGNAL_REPO_SIGNATURE_REQUIRED item) b;
            b = add_result (pk_results_add_repo_signature_required item) b
        in (True, b\<lparr>be_set_signature := True\<rparr>))"

definition pk_backend_eula_required :: "PkEulaRequired \<Rightarrow> PkBackend \<Rightarrow> bool \<times> PkBackend" where
  "pk_backend_eula_required item b =
     (if \<not> be_locked b then (False, b)
      else if be_set_error b then (False, b)
      else if be_set_eula b then (False, b)
      else
        let b = emit (SIGNAL_EULA_REQUIRED item) b;
            b = add_result (pk_results_add_eula_required item) b
        in (True, b\<lparr>be_set_eula := True\<rparr>))"

definition pk_backend_media_change_required ::
  "PkMediaTypeEnum \<Rightarrow> string \<Rightarrow> string \<Rightarrow> PkBackend \<Rightarrow> bool \<times> PkBackend" where
  "pk_backend_media_change_required media_type media_id media_text b =
     (if \<not> be_locked b then (False, b)
      else if be_set_error b then (False, b)
      else
        let item = \<lparr>mc_media_type = media_type, mc_media_id = media_id, mc_media_text = media_text\<rparr>;
            b = emit (SIGNAL_MEDIA_CHANGE_REQUIRED item) b;
            b = add_result (pk_results_add_media_change_required item) b
        in (True, b))"

text \<open>The next two functions compute a safe copy of a text and then store the text itself.\<close>

definition pk_backend_repo_detail ::
  "string \<Rightarrow> string option \<Rightarrow> bool \<Rightarrow> PkBackend \<Rightarrow> bool \<times> PkBackend" where
  "pk_backend_repo_detail repo_id description enabled b =
     (if \<not> be_locked b then (False, b)
      else if be_set_error b then (False, b)
      else
        let description_safe = pk_backend_strsafe description;
            item = \<lparr>rd_repo_id = repo_id, rd_description = description, rd_enabled = enabled\<rparr>;
            b = emit (SIGNAL_REPO_DETAIL item) b;
            b = add_result (pk_results_add_repo_detail item) b
        in (True, b))"

definition pk_backend_category ::
  "string option \<Rightarrow> string \<Rightarrow> string option \<Rightarrow> string option \<Rightarrow> string option \<Rightarrow>
   PkBackend \<Rightarrow> bool \<times> PkBackend" where
  "pk_backend_category parent_id cat_id name summary icon b =
     (if \<not> be_locked b then (False, b)
      else if be_set_error b then (False, b)
      else
        let summary_safe = pk_backend_strsafe summary;
            item = \<lparr>ct_parent_id = parent_id, ct_cat_id = cat_id, ct_name = name,
                    ct_summary = summary, ct_icon = icon\<rparr>;
            b = emit (SIGNAL_CATEGORY item) b;
            b = add_result (pk_results_add_category item) b
        in (True, b))"

definition pk_backend_repo_list_changed :: "PkBackend \<Rightarrow> bool \<times> PkBackend" where
  "pk_backend_repo_list_changed b =
     (if \<not> be_locked b then (False, b) else (True, emit REPO_LIST_CHANGED b))"

section \<open>Settings\<close>

definition pk_backend_set_proxy ::
  "string option \<Rightarrow> string option \<Rightarrow> string option \<Rightarrow> string option \<Rightarrow> string option \<Rightarrow>
   string option \<Rightarrow> PkBackend \<Rightarrow> PkBackend" where
  "pk_backend_set_proxy http https ftp socks no_proxy pac b =
     b\<lparr>be_proxy_http := http, be_proxy_https := https, be_proxy_ftp := ftp,
       be_proxy_socks := socks, be_no_proxy := no_proxy, be_pac := pac\<rparr>"

definition pk_backend_set_root :: "string option \<Rightarrow> PkBackend \<Rightarrow> PkBackend" where
  "pk_backend_set_root root b =
     b\<lparr>be_root := (case root of None \<Rightarrow> Some ''/'' | Some r \<Rightarrow> Some r)\<rparr>"

definition pk_backend_set_cmdline :: "string option \<Rightarrow> PkBackend \<Rightarrow> PkBackend" where
  "pk_backend_set_cmdline cmdline b = b\<lparr>be_cmdline := cmdline\<rparr>"

definition pk_backend_set_uid :: "guint \<Rightarrow> PkBackend \<Rightarrow> PkBackend" where
  "pk_backend_set_uid uid b = b\<lparr>be_uid := uid\<rparr>"

definition pk_backend_set_locale :: "string \<Rightarrow> PkBackend \<Rightarrow> bool \<times> PkBackend" where
  "pk_backend_set_locale code b =
     (if \<not> be_locked b then (False, b) else (True, b\<lparr>be_locale := Some code\<rparr>))"

definition pk_backend_set_frontend_socket :: "string option \<Rightarrow> PkBackend \<Rightarrow> bool \<times> PkBackend" where
  "pk_backend_set_frontend_socket socket b =
     (if \<not> be_locked b then (False, b) else (True, b\<lparr>be_frontend_socket := socket\<rparr>))"

definition pk_backend_set_cache_age :: "guint \<Rightarrow> PkBackend \<Rightarrow> PkBackend" where
  "pk_backend_set_cache_age cache_age b =
     (let cache_age_offset = 60 * 30 in
      if \<not> be_locked b then b
      else
        let cache_age = (if cache_age_offset < cache_age then cache_age - cache_age_offset
                         else cache_age)
        in b\<lparr>be_cache_age := cache_age\<rparr>)"

definition pk_backend_set_keep_environment :: "bool \<Rightarrow> PkBackend \<Rightarrow> PkBackend" where
  "pk_backend_set_keep_environment keep b = b\<lparr>be_keep_environment := keep\<rparr>"

section \<open>Role, exit code and errors\<close>

definition pk_backend_set_role_internal :: "PkRoleEnum \<Rightarrow> PkBackend \<Rightarrow> bool \<times> PkBackend" where
  "pk_backend_set_role_internal role b =
     (if be_role b \<noteq> PK_ROLE_ENUM_UNKNOWN \<and> be_role b \<noteq> role then (False, b)
      else
        let b = b\<lparr>be_role := role\<rparr>;
            b = b\<lparr>be_status := PK_STATUS_ENUM_WAIT\<rparr>
        in (True, emit (SIGNAL_STATUS_CHANGED (be_status b)) b))"

definition pk_backend_set_role :: "PkRoleEnum \<Rightarrow> PkBackend \<Rightarrow> bool \<times> PkBackend" where
  "pk_backend_set_role role b =
     (if \<not> be_locked b then (False, b)
      else pk_backend_set_role_internal role (b\<lparr>be_transaction_role := role\<rparr>))"

definition pk_backend_set_exit_code :: "PkExitEnum \<Rightarrow> PkBackend \<Rightarrow> bool \<times> PkBackend" where
  "pk_backend_set_exit_code exit_enum b =
     (if \<not> be_locked b then (False, b)
      else if be_exit b \<noteq> PK_EXIT_ENUM_UNKNOWN then (False, b)
      else (True, b\<lparr>be_exit := exit_enum\<rparr>))"

definition pk_backend_error_code_is_need_untrusted :: "PkErrorEnum \<Rightarrow> bool" where
  "pk_backend_error_code_is_need_untrusted error_code =
     (case error_code of
        PK_ERROR_ENUM_GPG_FAILURE \<Rightarrow> True
      | PK_ERROR_ENUM_BAD_GPG_SIGNATURE \<Rightarrow> True
      | PK_ERROR_ENUM_MISSING_GPG_SIGNATURE \<Rightarrow> True
      | PK_ERROR_ENUM_CANNOT_INSTALL_REPO_UNSIGNED \<Rightarrow> True
      | PK_ERROR_ENUM_CANNOT_UPDATE_REPO_UNSIGNED \<Rightarrow> True
      | _ \<Rightarrow> False)"

definition add_source :: "backend_source \<Rightarrow> PkBackend \<Rightarrow> nat \<times> PkBackend" where
  "add_source f b =
     (let (i, m) = g_source_add f (be_loop b) in (i, b\<lparr>be_loop := m\<rparr>))"

definition remove_source :: "nat \<Rightarrow> PkBackend \<Rightarrow> PkBackend" where
  "remove_source i b = b\<lparr>be_loop := g_source_remove i (be_loop b)\<rparr>"

text \<open>Some error codes have a different exit code.\<close>

definition error_exit :: "PkErrorEnum \<Rightarrow> PkBackend \<Rightarrow> PkBackend" where
  "error_exit error_code b =
     (let b = (if pk_backend_error_code_is_need_untrusted error_code then
                 snd (pk_backend_set_exit_code PK_EXIT_ENUM_NEED_UNTRUSTED b)
               else if error_code = PK_ERROR_ENUM_CANCELLED_PRIORITY then
                 snd (pk_backend_set_exit_code PK_EXIT_ENUM_CANCELLED_PRIORITY b)
               else snd (pk_backend_set_exit_code PK_EXIT_ENUM_FAILED b))
      in if error_code = PK_ERROR_ENUM_UNFINISHED_TRANSACTION then
           snd (pk_backend_set_exit_code PK_EXIT_ENUM_REPAIR_REQUIRED b)
         else b)"

definition pk_backend_error_code :: "PkErrorEnum \<Rightarrow> string \<Rightarrow> PkBackend \<Rightarrow> bool \<times> PkBackend" where
  "pk_backend_error_code error_code buffer b =
     (if be_during_initialize b then (False, b)
      else if be_set_error b then (False, b)
      else
        let b = b\<lparr>be_set_error := True\<rparr>;
            (i, b) = add_source SRC_error_timeout_delay b;
            b = b\<lparr>be_signal_error_timeout := i\<rparr>;
            b = error_exit error_code b;
            item = \<lparr>er_code = error_code, er_details = buffer\<rparr>;
            b = emit (SIGNAL_ERROR_CODE item) b;
            b = add_result (pk_results_set_error_code item) b
        in (True, b))"

section \<open>Calls into the plugin and the end of the work\<close>

text \<open>A missing table would be a crash in the code; here no method is called then.\<close>

definition has_vfunc :: "(PkBackendDesc \<Rightarrow> bool) \<Rightarrow> PkBackend \<Rightarrow> bool" where
  "has_vfunc sel b = (case be_desc b of None \<Rightarrow> False | Some d \<Rightarrow> sel d)"

definition pk_backend_transaction_reset :: "PkBackend \<Rightarrow> PkBackend" where
  "pk_backend_transaction_reset b =
     (if \<not> has_vfunc desc_transaction_reset b then b else emit (VFUNC VF_transaction_reset) b)"

definition pk_backend_transaction_start :: "PkBackend \<Rightarrow> PkBackend" where
  "pk_backend_transaction_start b =
     (if \<not> has_vfunc desc_transaction_start b then b
      else emit (VFUNC VF_transaction_start) (pk_backend_transaction_reset b))"

definition pk_backend_transaction_stop :: "PkBackend \<Rightarrow> PkBackend" where
  "pk_backend_transaction_stop b =
     (if \<not> has_vfunc desc_transaction_stop b then b
      else emit (VFUNC VF_transaction_stop) (pk_backend_transaction_reset b))"

definition pk_backend_finished_delay :: "PkBackend \<Rightarrow> PkBackend" where
  "pk_backend_finished_delay b =
     (let b = (if be_exit b = PK_EXIT_ENUM_UNKNOWN
               then snd (pk_backend_set_exit_code PK_EXIT_ENUM_SUCCESS b) else b);
          b = emit (SIGNAL_FINISHED (be_exit b)) b
      in b\<lparr>be_signal_finished := 0\<rparr>)"

text \<open>The complaints of \<open>pk_backend_finished\<close> about what the plugin has not sent.\<close>

definition finished_no_package :: "PkBackend \<Rightarrow> PkBackend" where
  "finished_no_package b =
     (if \<not> be_set_error b \<and> \<not> be_has_sent_package b \<and>
         (be_role b = PK_ROLE_ENUM_INSTALL_PACKAGES \<or> be_role b = PK_ROLE_ENUM_REMOVE_PACKAGES \<or>
          be_role b = PK_ROLE_ENUM_UPDATE_PACKAGES)
      then snd (pk_backend_message PK_MESSAGE_ENUM_BACKEND_ERROR
                  (''Backends should send a Package() for '' @ pk_role_enum_to_string (be_role b) @
                   ''!'') b)
      else b)"

definition finished_no_files :: "PkBackend \<Rightarrow> PkBackend" where
  "finished_no_files b =
     (if \<not> be_set_error b \<and> be_role b = PK_ROLE_ENUM_DOWNLOAD_PACKAGES \<and> be_download_files b = 0
      then snd (pk_backend_message PK_MESSAGE_ENUM_BACKEND_ERROR
                  ''Backends should send multiple Files() for each package_id!'' b)
      else b)"

definition finished_no_status :: "PkBackend \<Rightarrow> PkBackend" where
  "finished_no_status b =
     (if \<not> be_set_error b \<and> be_status b = PK_STATUS_ENUM_SETUP
      then snd (pk_backend_message PK_MESSAGE_ENUM_BACKEND_ERROR
                  (''Backends should send status <value> signals for '' @
                   pk_role_enum_to_string (be_role b) @ ''!'') b)
      else b)"

definition pk_backend_finished :: "PkBackend \<Rightarrow> bool \<times> PkBackend" where
  "pk_backend_finished b =
     (if be_during_initialize b then (False, b)
      else if \<not> be_locked b then (False, b)
      else if be_finished b then (False, b)
      else
        let b = (if be_thread b then pk_backend_transaction_stop b else b);
            b = finished_no_package b;
            b = finished_no_files b;
            b = (if be_signal_error_timeout b \<noteq> 0
                 then (remove_source (be_signal_error_timeout b) b)\<lparr>be_signal_error_timeout := 0\<rparr>
                 else b);
            b = finished_no_status b;
            b = snd (pk_backend_package_emulate_finished b);
            b = snd (pk_backend_set_allow_cancel False b);
            b = snd (pk_backend_set_status PK_STATUS_ENUM_FINISHED b);
            b = b\<lparr>be_finished := True\<rparr>;
            (i, b) = add_source SRC_finished_delay b
        in (True, b\<lparr>be_signal_finished := i\<rparr>))"

definition pk_backend_error_timeout_delay_cb :: "PkBackend \<Rightarrow> PkBackend" where
  "pk_backend_error_timeout_delay_cb b =
     (let b = (if be_finished b then b
               else
                 let item = \<lparr>ms_type = PK_MESSAGE_ENUM_BACKEND_ERROR, ms_details =
                       ''ErrorCode() has to be followed immediately with Finished()!'' @ [CHR 0x0A] @
                       ''Failure to do so, results in PK assuming the thread has hung, and desparately '' @
                       '' starting another backend thread to process future requests: be warned, '' @
                       '' your code is about to break in exotic ways.''\<rparr>;
                     b = emit (SIGNAL_MESSAGE item) b
                 in snd (pk_backend_finished b))
      in b\<lparr>be_signal_error_timeout := 0\<rparr>)"

definition pk_backend_thread_finished :: "PkBackend \<Rightarrow> PkBackend" where
  "pk_backend_thread_finished b = snd (add_source SRC_thread_finished b)"

definition pk_backend_thread_finished_cb :: "PkBackend \<Rightarrow> PkBackend" where
  "pk_backend_thread_finished_cb b = snd (pk_backend_finished b)"

text \<open>
  The main loop runs a pending source; all three callbacks return \<open>FALSE\<close>, so the source is
  removed afterwards.
\<close>

definition pk_backend_dispatch :: "nat \<Rightarrow> backend_source \<Rightarrow> PkBackend \<Rightarrow> PkBackend" where
  "pk_backend_dispatch i f b =
     (if pending (be_loop b) i f then
        remove_source i
          (case f of
             SRC_error_timeout_delay \<Rightarrow> pk_backend_error_timeout_delay_cb b
           | SRC_finished_delay \<Rightarrow> pk_backend_finished_delay b
           | SRC_thread_finished \<Rightarrow> pk_backend_thread_finished_cb b)
      else b)"

definition pk_backend_not_implemented_yet :: "string \<Rightarrow> PkBackend \<Rightarrow> bool \<times> PkBackend" where
  "pk_backend_not_implemented_yet method b =
     (if \<not> be_locked b then (False, b)
      else
        let b = snd (pk_backend_error_code PK_ERROR_ENUM_NOT_SUPPORTED
                       (''the method '' @ [CHR 0x27] @ method @ [CHR 0x27] @ '' is not implemented yet'') b)
        in (True, pk_backend_finished_delay b))"

definition pk_backend_is_online :: "PkNetworkEnum \<Rightarrow> bool" where
  "pk_backend_is_online state =
     (if state = PK_NETWORK_ENUM_ONLINE \<or> state = PK_NETWORK_ENUM_MOBILE \<or>
         state = PK_NETWORK_ENUM_WIFI \<or> state = PK_NETWORK_ENUM_WIRED
      then True else False)"

text \<open>\<open>idle\<close> is the value of \<open>UseIdleBandwidth\<close> in the configuration.\<close>

definition pk_backend_use_background :: "bool \<Rightarrow> PkBackend \<Rightarrow> bool" where
  "pk_backend_use_background idle b =
     (if \<not> idle then False
      else if be_background b = PK_HINT_ENUM_TRUE then True
      else if be_background b = PK_HINT_ENUM_FALSE then False
      else if be_role b = PK_ROLE_ENUM_GET_UPDATES \<or> be_role b = PK_ROLE_ENUM_REFRESH_CACHE then True
      else False)"

section \<open>Licence agreements\<close>

definition pk_backend_accept_eula :: "string \<Rightarrow> PkBackend \<Rightarrow> bool \<times> PkBackend" where
  "pk_backend_accept_eula eula_id b =
     (let b = snd (pk_backend_set_role_internal PK_ROLE_ENUM_ACCEPT_EULA b) in
      if eula_id \<in> set (be_eulas b) then (False, b)
      else (True, b\<lparr>be_eulas := be_eulas b @ [eula_id]\<rparr>))"

definition pk_backend_is_eula_valid :: "string \<Rightarrow> PkBackend \<Rightarrow> bool" where
  "pk_backend_is_eula_valid eula_id b = (eula_id \<in> set (be_eulas b))"

text \<open>The keys of the hash table come in the order \<open>order (be_eulas b)\<close>, which GLib leaves open.\<close>

definition pk_backend_get_accepted_eula_string ::
  "(string list \<Rightarrow> string list) \<Rightarrow> PkBackend \<Rightarrow> string option" where
  "pk_backend_get_accepted_eula_string order b =
     (if be_eulas b = [] then None
      else Some (butlast (concat (map (\<lambda>k. k @ '';'') (order (be_eulas b))))))"

section \<open>Locking and reset\<close>

text \<open>\<open>init\<close> and \<open>destroy\<close> are what the plugin does in its methods of that name.\<close>

definition pk_backend_lock :: "(PkBackend \<Rightarrow> PkBackend) \<Rightarrow> PkBackend \<Rightarrow> bool \<times> PkBackend" where
  "pk_backend_lock init b =
     (if be_desc b = None then (False, b)
      else if be_locked b then (True, b)
      else
        let b = (if has_vfunc desc_initialize b then
                   let b = b\<lparr>be_during_initialize := True\<rparr>;
                       b = init (emit (VFUNC VF_initialize) b)
                   in b\<lparr>be_during_initialize := False\<rparr>
                 else b)
        in (True, b\<lparr>be_locked := True\<rparr>))"

definition pk_backend_unlock :: "(PkBackend \<Rightarrow> PkBackend) \<Rightarrow> PkBackend \<Rightarrow> bool \<times> PkBackend" where
  "pk_backend_unlock destroy b =
     (if \<not> be_locked b then (True, b)
      else if be_desc b = None then (False, b)
      else
        let b = (if has_vfunc desc_destroy b then destroy (emit (VFUNC VF_destroy) b) else b)
        in (True, b\<lparr>be_locked := False\<rparr>))"

definition reset_fields :: "PkBackend \<Rightarrow> PkBackend" where
  "reset_fields b =
     b\<lparr>be_set_error := False, be_set_signature := False, be_set_eula := False,
       be_finished := False, be_has_sent_package := False, be_download_files := 0,
       be_thread := False, be_last_package := None, be_allow_cancel := PK_HINT_ENUM_UNSET,
       be_status := PK_STATUS_ENUM_UNKNOWN, be_exit := PK_EXIT_ENUM_UNKNOWN,
       be_role := PK_ROLE_ENUM_UNKNOWN, be_transaction_role := PK_ROLE_ENUM_UNKNOWN,
       be_remaining := 0, be_percentage := PK_BACKEND_PERCENTAGE_DEFAULT,
       be_subpercentage := PK_BACKEND_PERCENTAGE_DEFAULT, be_speed := 0,
       be_store := pk_store_reset (be_store b), be_results := pk_results_new\<rparr>"

definition pk_backend_reset :: "PkBackend \<Rightarrow> bool \<times> PkBackend" where
  "pk_backend_reset b =
     (if be_status b = PK_STATUS_ENUM_RUNNING then (False, b)
      else
        let b = (if be_signal_finished b \<noteq> 0
                 then pk_backend_finished_delay (remove_source (be_signal_finished b) b) else b);
            b = (if be_signal_error_timeout b \<noteq> 0
                 then (remove_source (be_signal_error_timeout b) b)\<lparr>be_signal_error_timeout := 0\<rparr>
                 else b)
        in (True, reset_fields b))"

text \<open>
  \<open>pk_backend_init\<close>: a zeroed private structure, the settings of the configuration, and a
  reset. The two arguments are \<open>UseRemainingTimeEstimation\<close> and \<open>UseThreadsInBackend\<close>.
\<close>

definition pk_backend_new :: "bool \<Rightarrow> bool \<Rightarrow> PkBackend" where
  "pk_backend_new use_time use_threads =
     snd (pk_backend_reset
       \<lparr>be_during_initialize = False, be_finished = False, be_has_sent_package = False,
        be_locked = False, be_set_error = False, be_set_eula = False, be_set_signature = False,
        be_simultaneous = False, be_use_time = use_time, be_use_threads = use_threads,
        be_keep_environment = False, be_transaction_id = None, be_locale = None,
        be_frontend_socket = None, be_cache_age = 0, be_name = None, be_proxy_http = None,
        be_proxy_https = None, be_proxy_ftp = None, be_proxy_socks = None, be_no_proxy = None,
        be_pac = None, be_root = None, be_download_files = 0, be_percentage = 0, be_remaining = 0,
        be_subpercentage = 0, be_signal_error_timeout = 0, be_signal_finished = 0, be_speed = 0,
        be_eulas = [], be_thread = False, be_desc = None, be_background = PK_HINT_ENUM_FALSE,
        be_interactive = PK_HINT_ENUM_FALSE, be_allow_cancel = PK_HINT_ENUM_FALSE, be_roles = 0,
        be_exit = PK_EXIT_ENUM_UNKNOWN, be_last_package = None, be_results = pk_results_new,
        be_role = PK_ROLE_ENUM_UNKNOWN, be_transaction_role = PK_ROLE_ENUM_UNKNOWN,
        be_status = PK_STATUS_ENUM_UNKNOWN, be_store = pk_store_new, be_uid = 0,
        be_cmdline = None, be_loop = main_loop_new, emitted = []\<rparr>)"

end
