(* ===== verification/PK_Backend_Laws.thy ===== *)
theory PK_Backend_Laws
  imports PK_Backend
begin

text \<open>
  What the guards of \<open>pk-backend.c\<close> achieve over whole histories. \<open>backend_event\<close> lists
  everything that a plugin, the daemon or the main loop can do to the object between two
  resets; \<open>backend_run\<close> performs a list of events. The laws: an error silences every further
  report, there is one \<open>ErrorCode\<close> at most, the exit code is set once and is the one in
  \<open>Finished\<close>, and \<open>Finished\<close> comes at most once unless the plugin reports an unimplemented
  method.
\<close>

section \<open>Histories\<close>

datatype backend_event =
    EV_message PkMessageEnum string
  | EV_set_percentage guint guint
  | EV_set_speed guint
  | EV_set_item_progress string guint
  | EV_set_sub_percentage guint
  | EV_set_status PkStatusEnum
  | EV_set_allow_cancel bool
  | EV_package PkInfoEnum string "string option"
  | EV_update_detail PkUpdateDetail
  | EV_require_restart PkRestartEnum "string option"
  | EV_set_transaction_data string
  | EV_set_simultaneous_mode bool
  | EV_details string "string option" PkGroupEnum "string option" "string option" guint64
  | EV_files "string option" string
  | EV_distro_upgrade PkDistroUpgradeEnum string string
  | EV_repo_signature_required PkRepoSignatureRequired
  | EV_eula_required PkEulaRequired
  | EV_media_change_required PkMediaTypeEnum string string
  | EV_repo_detail string "string option" bool
  | EV_category "string option" string "string option" "string option" "string option"
  | EV_repo_list_changed
  | EV_set_role PkRoleEnum
  | EV_set_exit_code PkExitEnum
  | EV_accept_eula string
  | EV_error_code PkErrorEnum string
  | EV_not_implemented_yet string
  | EV_transaction_start
  | EV_transaction_stop
  | EV_finished
  | EV_thread_finished
  | EV_dispatch nat backend_source

fun backend_step :: "backend_event \<Rightarrow> PkBackend \<Rightarrow> PkBackend" where
  "backend_step (EV_message m t) b = snd (pk_backend_message m t b)"
| "backend_step (EV_set_percentage e p) b = snd (pk_backend_set_percentage e p b)"
| "backend_step (EV_set_speed s) b = snd (pk_backend_set_speed s b)"
| "backend_step (EV_set_item_progress i p) b = snd (pk_backend_set_item_progress i p b)"
| "backend_step (EV_set_sub_percentage p) b = snd (pk_backend_set_sub_percentage p b)"
| "backend_step (EV_set_status s) b = snd (pk_backend_set_status s b)"
| "backend_step (EV_set_allow_cancel a) b = snd (pk_backend_set_allow_cancel a b)"
| "backend_step (EV_package i p s) b = snd (pk_backend_package i p s b)"
| "backend_step (EV_update_detail d) b = snd (pk_backend_update_detail d b)"
| "backend_step (EV_require_restart r p) b = snd (pk_backend_require_restart r p b)"
| "backend_step (EV_set_transaction_data d) b = snd (pk_backend_set_transaction_data d b)"
| "backend_step (EV_set_simultaneous_mode m) b = snd (pk_backend_set_simultaneous_mode m b)"
| "backend_step (EV_details p l g d u z) b = snd (pk_backend_details p l g d u z b)"
| "backend_step (EV_files p f) b = snd (pk_backend_files p f b)"
| "backend_step (EV_distro_upgrade t n s) b = snd (pk_backend_distro_upgrade t n s b)"
| "backend_step (EV_repo_signature_required i) b = snd (pk_backend_repo_signature_required i b)"
| "backend_step (EV_eula_required i) b = snd (pk_backend_eula_required i b)"
| "backend_step (EV_media_change_required m i t) b = snd (pk_backend_media_change_required m i t b)"
| "backend_step (EV_repo_detail r d e) b = snd (pk_backend_repo_detail r d e b)"
| "backend_step (EV_category p c n s i) b = snd (pk_backend_category p c n s i b)"
| "backend_step EV_repo_list_changed b = snd (pk_backend_repo_list_changed b)"
| "backend_step (EV_set_role r) b = snd (pk_backend_set_role r b)"
| "backend_step (EV_set_exit_code e) b = snd (pk_backend_set_exit_code e b)"
| "backend_step (EV_accept_eula e) b = snd (pk_backend_accept_eula e b)"
| "backend_step (EV_error_code e t) b = snd (pk_backend_error_code e t b)"
| "backend_step (EV_not_implemented_yet m) b = snd (pk_backend_not_implemented_yet m b)"
| "backend_step EV_transaction_start b = pk_backend_transaction_start b"
| "backend_step EV_transaction_stop b = pk_backend_transaction_stop b"
| "backend_step EV_finished b = snd (pk_backend_finished b)"
| "backend_step EV_thread_finished b = pk_backend_thread_finished b"
| "backend_step (EV_dispatch i f) b = pk_backend_dispatch i f b"

definition backend_run :: "backend_event list \<Rightarrow> PkBackend \<Rightarrow> PkBackend" where
  "backend_run evs b = foldl (\<lambda>b e. backend_step e b) b evs"

section \<open>Signals\<close>

text \<open>The signals that carry results of the transaction, and the two that end it.\<close>

fun is_report :: "backend_signal \<Rightarrow> bool" where
  "is_report (SIGNAL_DETAILS x) = True"
| "is_report (SIGNAL_FILES x) = True"
| "is_report (SIGNAL_DISTRO_UPGRADE x) = True"
| "is_report (SIGNAL_PACKAGE x) = True"
| "is_report (SIGNAL_UPDATE_DETAIL x) = True"
| "is_report (SIGNAL_REPO_SIGNATURE_REQUIRED x) = True"
| "is_report (SIGNAL_EULA_REQUIRED x) = True"
| "is_report (SIGNAL_REQUIRE_RESTART x) = True"
| "is_report (SIGNAL_CHANGE_TRANSACTION_DATA x) = True"
| "is_report (SIGNAL_REPO_DETAIL x) = True"
| "is_report (SIGNAL_CATEGORY x) = True"
| "is_report (SIGNAL_MEDIA_CHANGE_REQUIRED x) = True"
| "is_report (SIGNAL_ITEM_PROGRESS x y) = True"
| "is_report (NOTIFY p) = True"
| "is_report s = False"

fun is_error :: "backend_signal \<Rightarrow> bool" where
  "is_error (SIGNAL_ERROR_CODE x) = True"
| "is_error s = False"

fun finished_exit :: "backend_signal \<Rightarrow> PkExitEnum option" where
  "finished_exit (SIGNAL_FINISHED e) = Some e"
| "finished_exit s = None"

text \<open>A call of one of the methods of the plugin that do the work of a role.\<close>

fun is_method_call :: "backend_signal \<Rightarrow> bool" where
  "is_method_call (VFUNC v) =
     (v \<notin> {VF_initialize, VF_destroy, VF_transaction_start, VF_transaction_stop,
             VF_transaction_reset, VF_cancel})"
| "is_method_call s = False"

definition ordinary :: "backend_signal \<Rightarrow> bool" where
  "ordinary s = (\<not> is_error s \<and> finished_exit s = None \<and> \<not> is_method_call s)"

lemma report_ordinary: "is_report s \<Longrightarrow> ordinary s"
  by (cases s) (auto simp: ordinary_def)

lemma ordinary_simps [simp]:
  "ordinary (SIGNAL_STATUS_CHANGED st)" "ordinary (SIGNAL_MESSAGE m)" "ordinary (SIGNAL_PACKAGE p)"
  "ordinary (SIGNAL_ALLOW_CANCEL a)" "ordinary (NOTIFY n)" "ordinary REPO_LIST_CHANGED"
  "ordinary (VFUNC VF_transaction_start)" "ordinary (VFUNC VF_transaction_stop)"
  "ordinary (VFUNC VF_transaction_reset)"
  by (simp_all add: ordinary_def)

text \<open>The part of the state that the laws are about.\<close>

definition control :: "PkBackend \<Rightarrow> bool \<times> bool \<times> PkExitEnum \<times> bool \<times> backend_source main_loop" where
  "control b = (be_locked b, be_set_error b, be_exit b, be_finished b, be_loop b)"

lemma control_eqD:
  "control b' = control b \<Longrightarrow> be_locked b' = be_locked b \<and> be_set_error b' = be_set_error b \<and>
     be_exit b' = be_exit b \<and> be_finished b' = be_finished b \<and> be_loop b' = be_loop b"
  by (simp add: control_def)

lemmas emit_defs = emit_def add_result_def control_def Let_def

section \<open>Reports that an error silences\<close>

text \<open>
  The contract that the reporting functions share: such a function either refuses and changes
  nothing, or the backend is locked and without error, and exactly one report goes out.
\<close>

locale guarded_report =
  fixes report :: "PkBackend \<Rightarrow> bool \<times> PkBackend"
  assumes outcome:
    "report b = (False, b) \<or>
     be_locked b \<and> \<not> be_set_error b \<and> fst (report b) \<and> control (snd (report b)) = control b \<and>
     (\<exists>s. is_report s \<and> emitted (snd (report b)) = emitted b @ [s])"
begin

lemma silent_after_error: "be_set_error b \<Longrightarrow> report b = (False, b)"
  using outcome [of b] by auto

lemma silent_unlocked: "\<not> be_locked b \<Longrightarrow> report b = (False, b)"
  using outcome [of b] by auto

lemma one_report: "fst (report b) \<Longrightarrow> length (emitted (snd (report b))) = Suc (length (emitted b))"
  using outcome [of b] by auto

end

interpretation r_speed: guarded_report "pk_backend_set_speed s" for s
  by unfold_locales (auto simp: pk_backend_set_speed_def emit_defs)

interpretation r_item_progress: guarded_report "pk_backend_set_item_progress i p" for i p
  by unfold_locales (auto simp: pk_backend_set_item_progress_def emit_defs)

interpretation r_sub_percentage: guarded_report "pk_backend_set_sub_percentage p" for p
  by unfold_locales (auto simp: pk_backend_set_sub_percentage_def emit_defs)

interpretation r_update_detail: guarded_report "pk_backend_update_detail d" for d
  by unfold_locales (auto simp: pk_backend_update_detail_def emit_defs)

interpretation r_require_restart: guarded_report "pk_backend_require_restart r p" for r p
  by unfold_locales (auto simp: pk_backend_require_restart_def emit_defs)

interpretation r_transaction_data: guarded_report "pk_backend_set_transaction_data d" for d
  by unfold_locales (auto simp: pk_backend_set_transaction_data_def emit_defs)

interpretation r_details: guarded_report "pk_backend_details p l g d u z" for p l g d u z
  by unfold_locales (auto simp: pk_backend_details_def emit_defs)

interpretation r_files: guarded_report "pk_backend_files p f" for p f
  by unfold_locales (auto simp: pk_backend_files_def emit_defs)

interpretation r_distro_upgrade: guarded_report "pk_backend_distro_upgrade t n s" for t n s
  by unfold_locales (auto simp: pk_backend_distro_upgrade_def emit_defs)

interpretation r_signature: guarded_report "pk_backend_repo_signature_required i" for i
  by unfold_locales (auto simp: pk_backend_repo_signature_required_def emit_defs)

interpretation r_eula: guarded_report "pk_backend_eula_required i" for i
  by unfold_locales (auto simp: pk_backend_eula_required_def emit_defs)

interpretation r_media: guarded_report "pk_backend_media_change_required m i t" for m i t
  by unfold_locales (auto simp: pk_backend_media_change_required_def emit_defs)

interpretation r_repo_detail: guarded_report "pk_backend_repo_detail r d e" for r d e
  by unfold_locales (auto simp: pk_backend_repo_detail_def emit_defs)

interpretation r_category: guarded_report "pk_backend_category p c n s i" for p c n s i
  by unfold_locales (auto simp: pk_backend_category_def emit_defs)

section \<open>Relations that every operation respects\<close>

lemma set_exit_frame [pk_frame]:
  "emitted (snd (pk_backend_set_exit_code e b)) = emitted b"
  "be_locked (snd (pk_backend_set_exit_code e b)) = be_locked b"
  "be_set_error (snd (pk_backend_set_exit_code e b)) = be_set_error b"
  "be_exit b \<noteq> PK_EXIT_ENUM_UNKNOWN \<Longrightarrow> be_exit (snd (pk_backend_set_exit_code e b)) = be_exit b"
  "be_loop (snd (pk_backend_set_exit_code e b)) = be_loop b"
  "be_finished (snd (pk_backend_set_exit_code e b)) = be_finished b"
  "be_signal_error_timeout (snd (pk_backend_set_exit_code e b)) = be_signal_error_timeout b"
  by (simp_all add: pk_backend_set_exit_code_def)

lemma add_source_frame [pk_frame]:
  "emitted (snd (add_source f b)) = emitted b"
  "be_locked (snd (add_source f b)) = be_locked b"
  "be_set_error (snd (add_source f b)) = be_set_error b"
  "be_exit (snd (add_source f b)) = be_exit b"
  "be_finished (snd (add_source f b)) = be_finished b"
  "be_loop (snd (add_source f b)) = snd (g_source_add f (be_loop b))"
  by (simp_all add: add_source_def split: prod.split)

lemma error_exit_frame [pk_frame]:
  "emitted (error_exit e b) = emitted b"
  "be_locked (error_exit e b) = be_locked b"
  "be_set_error (error_exit e b) = be_set_error b"
  "be_exit b \<noteq> PK_EXIT_ENUM_UNKNOWN \<Longrightarrow> be_exit (error_exit e b) = be_exit b"
  "be_loop (error_exit e b) = be_loop b"
  "be_finished (error_exit e b) = be_finished b"
  "be_signal_error_timeout (error_exit e b) = be_signal_error_timeout b"
  by (simp_all add: error_exit_def Let_def pk_frame)

lemma error_code_steps:
  "snd (pk_backend_error_code e t b) =
     (if be_during_initialize b \<or> be_set_error b then b
      else let c = b\<lparr>be_set_error := True\<rparr>;
               d = error_exit e ((snd (add_source SRC_error_timeout_delay c))
                     \<lparr>be_signal_error_timeout := fst (add_source SRC_error_timeout_delay c)\<rparr>);
               item = \<lparr>er_code = e, er_details = t\<rparr>
           in add_result (pk_results_set_error_code item) (emit (SIGNAL_ERROR_CODE item) d))"
  by (simp add: pk_backend_error_code_def Let_def split: prod.split)

text \<open>The steps of \<open>pk_backend_finished\<close> after its guards.\<close>

definition finish_prepare :: "PkBackend \<Rightarrow> PkBackend" where
  "finish_prepare b =
     finished_no_files (finished_no_package (if be_thread b then pk_backend_transaction_stop b else b))"

definition finish_untimed :: "PkBackend \<Rightarrow> PkBackend" where
  "finish_untimed b =
     (if be_signal_error_timeout b \<noteq> 0
      then (remove_source (be_signal_error_timeout b) b)\<lparr>be_signal_error_timeout := 0\<rparr> else b)"

definition finish_close :: "PkBackend \<Rightarrow> PkBackend" where
  "finish_close b =
     snd (pk_backend_set_status PK_STATUS_ENUM_FINISHED
       (snd (pk_backend_set_allow_cancel False
         (snd (pk_backend_package_emulate_finished (finished_no_status b))))))"

lemma pk_backend_finished_steps:
  "snd (pk_backend_finished b) =
     (if be_during_initialize b \<or> \<not> be_locked b \<or> be_finished b then b
      else let c = finish_close (finish_untimed (finish_prepare b));
               d = snd (add_source SRC_finished_delay (c\<lparr>be_finished := True\<rparr>))
           in d\<lparr>be_signal_finished := fst (add_source SRC_finished_delay (c\<lparr>be_finished := True\<rparr>))\<rparr>)"
  by (simp add: pk_backend_finished_def finish_close_def finish_untimed_def finish_prepare_def
      Let_def split: prod.split)

text \<open>What the steps before the mark leave alone.\<close>

definition core :: "PkBackend \<Rightarrow> bool \<times> bool \<times> bool \<times> PkExitEnum \<times> bool \<times> nat" where
  "core b = (be_finished b, be_locked b, be_set_error b, be_exit b, be_during_initialize b,
             next_source (be_loop b))"

lemma core_emit [pk_frame]:
  "core (emit s b) = core b" "core (add_result f b) = core b" "core (remove_source i b) = core b"
  by (simp_all add: core_def emit_def add_result_def remove_source_def g_source_remove_def)

lemma core_ops [pk_frame]:
  "core (snd (pk_backend_message m t b)) = core b"
  "core (snd (pk_backend_set_status st b)) = core b"
  "core (snd (pk_backend_set_allow_cancel a b)) = core b"
  "core (pk_backend_transaction_stop b) = core b"
  by (simp_all add: pk_backend_message_def pk_backend_set_status_def pk_backend_set_allow_cancel_def
      pk_backend_transaction_stop_def pk_backend_transaction_reset_def Let_def emit_def add_result_def
      core_def)

lemma core_fields [pk_frame]:
  "core (b\<lparr>be_last_package := x\<rparr>) = core b" "core (b\<lparr>be_has_sent_package := y\<rparr>) = core b"
  "core (b\<lparr>be_signal_error_timeout := i\<rparr>) = core b"
  by (simp_all add: core_def)

lemma core_emulate [pk_frame]: "core (snd (pk_backend_package_emulate_finished b)) = core b"
  by (auto simp: pk_backend_package_emulate_finished_def package_body_def Let_def pk_frame
      split: option.split)

lemma core_steps [pk_frame]:
  "core (finish_prepare b) = core b" "core (finish_untimed b) = core b" "core (finish_close b) = core b"
  by (simp_all add: finish_prepare_def finish_untimed_def finish_close_def finished_no_package_def
      finished_no_files_def finished_no_status_def pk_frame)

lemma core_eqD:
  "core b' = core b \<Longrightarrow> be_finished b' = be_finished b \<and> be_locked b' = be_locked b \<and>
     be_set_error b' = be_set_error b \<and> be_exit b' = be_exit b \<and>
     be_during_initialize b' = be_during_initialize b \<and>
     next_source (be_loop b') = next_source (be_loop b)"
  by (simp add: core_def)

text \<open>
  A relation between a state and a later one that is a preorder and holds for the primitive
  changes that the file makes - a signal that is neither an error nor the end, an error, the
  exit code, the timers, the mark of the end and the delivery of \<open>Finished\<close> - holds for every
  operation.
\<close>

locale backend_relation =
  fixes R :: "PkBackend \<Rightarrow> PkBackend \<Rightarrow> bool"
  assumes R_refl: "R b b"
    and R_trans: "R a b \<Longrightarrow> R b c \<Longrightarrow> R a c"
    and R_quiet: "control b' = control b \<Longrightarrow> emitted b' = emitted b \<Longrightarrow> R b b'"
    and R_signal: "control b' = control b \<Longrightarrow> emitted b' = emitted b @ [s] \<Longrightarrow> ordinary s \<Longrightarrow>
        (be_set_error b \<longrightarrow> \<not> is_report s) \<Longrightarrow> R b b'"
    and R_exit: "R b (snd (pk_backend_set_exit_code e b))"
    and R_error: "R b (snd (pk_backend_error_code ec t b))"
    and R_thread: "R b (snd (add_source SRC_thread_finished b))"
    and R_remove: "R b (remove_source i b)"
    and R_mark: "\<not> be_finished b \<Longrightarrow> R b (snd (add_source SRC_finished_delay (b\<lparr>be_finished := True\<rparr>)))"
    and R_deliver: "pending (be_loop b) i SRC_finished_delay \<Longrightarrow>
        R b (remove_source i (pk_backend_finished_delay b))"
begin

lemma R_report: "guarded_report op \<Longrightarrow> R b (snd (op b))"
  unfolding guarded_report_def
  by (drule spec [of _ b]) (auto simp: R_refl intro: R_signal report_ordinary)

lemma R_emit: "ordinary s \<Longrightarrow> \<not> is_report s \<Longrightarrow> R b (emit s b)"
  by (rule R_signal [of _ _ s]) (simp_all add: emit_defs)

lemma R_message: "R b (snd (pk_backend_message m t b))"
proof -
  define s where "s = SIGNAL_MESSAGE \<lparr>ms_type = m, ms_details = t\<rparr>"
  have "R b (add_result f (emit s b))" for f
    by (rule R_signal [of _ _ s]) (simp_all add: emit_defs s_def)
  then show ?thesis by (simp add: pk_backend_message_def Let_def R_refl s_def)
qed

lemma R_percentage: "R b (snd (pk_backend_set_percentage e p b))"
proof (cases "be_set_error b \<or> \<not> be_locked b")
  case True
  then show ?thesis by (auto simp: pk_backend_set_percentage_def R_refl)
next
  case False
  then have ok: "\<not> be_set_error b" by auto
  define c where "c = emit (NOTIFY PROP_PERCENTAGE) (b\<lparr>be_percentage := p\<rparr>)"
  have c: "\<not> be_set_error c" using ok by (simp add: c_def emit_def)
  have bc: "R b c"
    unfolding c_def using ok by (intro R_signal [of _ _ "NOTIFY PROP_PERCENTAGE"]) (simp_all add: emit_defs)
  have "R c (emit (NOTIFY PROP_REMAINING) (c\<lparr>be_remaining := e\<rparr>))"
    and "R c (emit (NOTIFY PROP_REMAINING) c)"
    using c by (intro R_signal [of _ _ "NOTIFY PROP_REMAINING"]; simp add: emit_defs)+
  with bc have "R b (emit (NOTIFY PROP_REMAINING) (c\<lparr>be_remaining := e\<rparr>))"
    and "R b (emit (NOTIFY PROP_REMAINING) c)"
    by (blast intro: R_trans)+
  with bc show ?thesis
    unfolding pk_backend_set_percentage_def Let_def c_def [symmetric]
    by (simp add: R_message R_refl)
qed

lemma R_status: "R b (snd (pk_backend_set_status s b))"
proof -
  have 1: "R c (emit (SIGNAL_STATUS_CHANGED s) (c\<lparr>be_status := s\<rparr>))" for c
    by (rule R_signal [of _ _ "SIGNAL_STATUS_CHANGED s"]) (simp_all add: emit_defs)
  have 2: "R b (emit (SIGNAL_STATUS_CHANGED r) b)" for r
    by (rule R_emit) simp_all
  show ?thesis
    by (simp add: pk_backend_set_status_def Let_def R_message R_refl 1 R_trans [OF 2 1])
qed

lemma R_allow_cancel: "R b (snd (pk_backend_set_allow_cancel a b))"
proof -
  have "R b ((emit (SIGNAL_ALLOW_CANCEL a) b)\<lparr>be_allow_cancel := h\<rparr>)" for h
    by (rule R_signal [of _ _ "SIGNAL_ALLOW_CANCEL a"]) (simp_all add: emit_defs)
  then show ?thesis by (simp add: pk_backend_set_allow_cancel_def R_refl Let_def)
qed

lemma R_field:
  "R b (b\<lparr>be_last_package := p\<rparr>)" "R b (b\<lparr>be_signal_error_timeout := i\<rparr>)"
  "R b (b\<lparr>be_signal_finished := i\<rparr>)" "R b (b\<lparr>be_simultaneous := x\<rparr>)" "R b (b\<lparr>be_eulas := es\<rparr>)"
  "R b (b\<lparr>be_transaction_role := r\<rparr>)"
  by (rule R_quiet; simp add: control_def)+

lemma R_package_body:
  assumes emulate: "\<And>item c. R c (snd (emulate item c))"
  shows "R b (snd (package_body (\<lambda>item c. snd (emulate item c)) info i s b))"
proof -
  define info' where "info' = simulate_info (be_transaction_role b) info"
  define item where "item = \<lparr>pkg_info = info', pkg_id = i, pkg_summary = pk_backend_strsafe s\<rparr>"
  define c where "c = (if info' \<noteq> PK_INFO_ENUM_FINISHED then snd (emulate item b) else b)
                        \<lparr>be_last_package := Some item\<rparr>"
  define d where "d = (if \<not> be_simultaneous c then
      (case info_status info' of Some st \<Rightarrow> snd (pk_backend_set_status st c) | None \<Rightarrow> c) else c)"
  define e where "e = (if info' \<noteq> PK_INFO_ENUM_FINISHED
       then add_result (pk_results_add_package item) (emit (SIGNAL_PACKAGE item) (d\<lparr>be_has_sent_package := True\<rparr>))
       else emit (SIGNAL_PACKAGE item) (d\<lparr>be_has_sent_package := True\<rparr>))"
  have bc: "R b c"
    unfolding c_def using R_trans [OF emulate R_field(1)] R_field(1) by simp
  have cd: "R c d"
    by (auto simp: d_def R_status R_refl split: option.split)
  have "be_set_error (snd (pk_backend_set_status st f)) = be_set_error f" for st f
    by (simp add: pk_backend_set_status_def pk_backend_message_def Let_def emit_def add_result_def)
  then have de: "be_set_error d = be_set_error c"
    by (auto simp: d_def split: option.split)
  have "R d e" if "\<not> be_set_error c"
    unfolding e_def using that de by (intro R_signal [of _ _ "SIGNAL_PACKAGE item"]) (simp_all add: emit_defs)
  then have be: "R b e" if "\<not> be_set_error c"
    using that bc cd by (blast intro: R_trans)
  have "snd (package_body (\<lambda>item c. snd (emulate item c)) info i s b) \<in>
     {b, c} \<union> (if be_set_error c then {} else {e})"
    unfolding package_body_def Let_def info'_def [symmetric] item_def [symmetric]
    unfolding c_def [symmetric] d_def [symmetric] e_def [symmetric] by auto
  then show ?thesis using bc be R_refl by (cases "be_set_error c") auto
qed

lemma R_emulate: "R b (snd (pk_backend_package_emulate_finished b))"
  using R_package_body [of "\<lambda>_ c. (True, c)"] R_refl
  by (auto simp: pk_backend_package_emulate_finished_def Let_def split: option.split)

lemma R_emulate_for: "R b (snd (pk_backend_package_emulate_finished_for_package item b))"
  by (auto simp: pk_backend_package_emulate_finished_for_package_def R_emulate R_refl split: option.split)

lemma R_package: "R b (snd (pk_backend_package i p s b))"
  unfolding pk_backend_package_def by (rule R_package_body) (rule R_emulate_for)

lemma R_role: "R b (snd (pk_backend_set_role_internal r b))"
proof -
  have "R b (emit (SIGNAL_STATUS_CHANGED PK_STATUS_ENUM_WAIT)
               (b\<lparr>be_role := r, be_status := PK_STATUS_ENUM_WAIT\<rparr>))"
    by (rule R_signal [of _ _ "SIGNAL_STATUS_CHANGED PK_STATUS_ENUM_WAIT"]) (simp_all add: emit_defs)
  then show ?thesis by (simp add: pk_backend_set_role_internal_def R_refl Let_def)
qed

lemma R_set_role: "R b (snd (pk_backend_set_role r b))"
  by (simp add: pk_backend_set_role_def R_refl R_trans [OF R_field(6) R_role])

lemma R_reset_vfunc: "R b (pk_backend_transaction_reset b)"
  by (simp add: pk_backend_transaction_reset_def R_refl R_emit)

lemma R_start: "R b (pk_backend_transaction_start b)"
  by (simp add: pk_backend_transaction_start_def R_refl R_trans [OF R_reset_vfunc R_emit])

lemma R_stop: "R b (pk_backend_transaction_stop b)"
  by (simp add: pk_backend_transaction_stop_def R_refl R_trans [OF R_reset_vfunc R_emit])

lemma R_complaints:
  "R b (finished_no_package b)" "R b (finished_no_files b)" "R b (finished_no_status b)"
  by (simp_all add: finished_no_package_def finished_no_files_def finished_no_status_def R_message R_refl)

lemma R_prepare: "R b (finish_prepare b)"
proof -
  have "R b (if be_thread b then pk_backend_transaction_stop b else b)" by (simp add: R_stop R_refl)
  then show ?thesis unfolding finish_prepare_def
    by (rule R_trans [OF R_trans [OF _ R_complaints(1)] R_complaints(2)])
qed

lemma R_untimed: "R b (finish_untimed b)"
  unfolding finish_untimed_def by (simp add: R_refl R_trans [OF R_remove R_field(2)])

lemma R_close: "R b (finish_close b)"
  unfolding finish_close_def
  by (rule R_trans [OF R_trans [OF R_trans [OF R_complaints(3) R_emulate] R_allow_cancel] R_status])

lemma R_finished: "R b (snd (pk_backend_finished b))"
proof (cases "be_during_initialize b \<or> \<not> be_locked b \<or> be_finished b")
  case True
  then show ?thesis by (simp add: pk_backend_finished_steps R_refl)
next
  case False
  define c where "c = finish_close (finish_untimed (finish_prepare b))"
  have bc: "R b c"
    unfolding c_def by (rule R_trans [OF R_trans [OF R_prepare R_untimed] R_close])
  have "core c = core b" by (simp add: c_def pk_frame)
  with False have "\<not> be_finished c" by (simp add: core_def)
  from R_trans [OF bc R_mark [OF this]] False show ?thesis
    unfolding pk_backend_finished_steps c_def [symmetric] using R_trans [OF _ R_field(3)]
    by (simp add: Let_def)
qed

lemma R_timeout: "R b (pk_backend_error_timeout_delay_cb b)"
proof -
  have "R b (snd (pk_backend_finished (emit (SIGNAL_MESSAGE m) b)))" for m
    by (rule R_trans [OF R_emit R_finished]) simp_all
  then show ?thesis
    using R_trans [OF _ R_field(2)] by (simp add: pk_backend_error_timeout_delay_cb_def Let_def R_refl R_field)
qed

lemma R_dispatch: "R b (pk_backend_dispatch i f b)"
proof (cases f)
  case SRC_error_timeout_delay
  then show ?thesis by (simp add: pk_backend_dispatch_def R_refl R_trans [OF R_timeout R_remove])
next
  case SRC_finished_delay
  then show ?thesis by (simp add: pk_backend_dispatch_def R_refl R_deliver)
next
  case SRC_thread_finished
  then show ?thesis
    by (simp add: pk_backend_dispatch_def pk_backend_thread_finished_cb_def R_refl
        R_trans [OF R_finished R_remove])
qed

lemma R_accept_eula: "R b (snd (pk_backend_accept_eula e b))"
  by (simp add: pk_backend_accept_eula_def Let_def R_role R_trans [OF R_role R_field(5)])

lemma R_simultaneous: "R b (snd (pk_backend_set_simultaneous_mode m b))"
  by (simp add: pk_backend_set_simultaneous_mode_def R_field R_refl)

lemma R_repo_list: "R b (snd (pk_backend_repo_list_changed b))"
  by (simp add: pk_backend_repo_list_changed_def R_refl R_emit)

text \<open>Only the report of an unimplemented method delivers \<open>Finished\<close> past the timers.\<close>

lemma R_step:
  assumes "\<And>m. e \<noteq> EV_not_implemented_yet m"
  shows "R b (backend_step e b)"
proof (cases e)
  case (EV_not_implemented_yet m)
  with assms show ?thesis by blast
qed (simp_all add: R_message R_percentage R_status R_allow_cancel R_package R_set_role R_exit
      R_accept_eula R_error R_start R_stop R_finished pk_backend_thread_finished_def R_thread
      R_dispatch R_simultaneous R_repo_list
      R_report [OF r_speed.guarded_report_axioms] R_report [OF r_item_progress.guarded_report_axioms]
      R_report [OF r_sub_percentage.guarded_report_axioms]
      R_report [OF r_update_detail.guarded_report_axioms]
      R_report [OF r_require_restart.guarded_report_axioms]
      R_report [OF r_transaction_data.guarded_report_axioms]
      R_report [OF r_details.guarded_report_axioms] R_report [OF r_files.guarded_report_axioms]
      R_report [OF r_distro_upgrade.guarded_report_axioms]
      R_report [OF r_signature.guarded_report_axioms] R_report [OF r_eula.guarded_report_axioms]
      R_report [OF r_media.guarded_report_axioms] R_report [OF r_repo_detail.guarded_report_axioms]
      R_report [OF r_category.guarded_report_axioms])

lemma R_run:
  "\<forall>e \<in> set evs. \<forall>m. e \<noteq> EV_not_implemented_yet m \<Longrightarrow> R b (backend_run evs b)"
proof (induction evs arbitrary: b)
  case (Cons e evs)
  from Cons.prems have "R b (backend_step e b)" by (intro R_step) auto
  with Cons.IH [of "backend_step e b"] Cons.prems show ?case
    by (auto simp: backend_run_def intro: R_trans)
qed (simp add: backend_run_def R_refl)

end

section \<open>Error, exit code and silence\<close>

definition errors :: "backend_signal list \<Rightarrow> nat" where
  "errors ss = length (filter is_error ss)"

definition new_signals :: "PkBackend \<Rightarrow> PkBackend \<Rightarrow> backend_signal list" where
  "new_signals b b' = drop (length (emitted b)) (emitted b')"

text \<open>
  \<open>obeys b b'\<close>: only signals were appended, the lock, the error mark and a set exit code were
  kept, nothing was reported if there was an error before, an error was sent only when it was
  marked, and every \<open>Finished\<close> has the exit code, which is then set.
\<close>

definition obeys :: "PkBackend \<Rightarrow> PkBackend \<Rightarrow> bool" where
  "obeys b b' \<longleftrightarrow>
     (\<exists>ss. emitted b' = emitted b @ ss \<and>
        be_locked b' = be_locked b \<and>
        (be_set_error b \<longrightarrow> be_set_error b') \<and>
        (be_exit b \<noteq> PK_EXIT_ENUM_UNKNOWN \<longrightarrow> be_exit b' = be_exit b) \<and>
        (be_set_error b \<longrightarrow> \<not> list_ex is_report ss) \<and>
        errors ss + (if be_set_error b then 1 else 0) \<le> (if be_set_error b' then 1 else 0) \<and>
        (be_locked b \<longrightarrow>
          list_all (\<lambda>s. \<forall>e. finished_exit s = Some e \<longrightarrow>
                     e = be_exit b' \<and> e \<noteq> PK_EXIT_ENUM_UNKNOWN) ss))"

lemma obeys_trans:
  assumes "obeys a b" and "obeys b c"
  shows "obeys a c"
proof -
  from assms(1) obtain s where s: "emitted b = emitted a @ s" "be_locked b = be_locked a"
      "be_set_error a \<longrightarrow> be_set_error b" "be_exit a \<noteq> PK_EXIT_ENUM_UNKNOWN \<longrightarrow> be_exit b = be_exit a"
      "be_set_error a \<longrightarrow> \<not> list_ex is_report s"
      "errors s + (if be_set_error a then 1 else 0) \<le> (if be_set_error b then 1 else 0)"
      "be_locked a \<longrightarrow> list_all (\<lambda>s. \<forall>e. finished_exit s = Some e \<longrightarrow>
                     e = be_exit b \<and> e \<noteq> PK_EXIT_ENUM_UNKNOWN) s"
    unfolding obeys_def by blast
  from assms(2) obtain t where t: "emitted c = emitted b @ t" "be_locked c = be_locked b"
      "be_set_error b \<longrightarrow> be_set_error c" "be_exit b \<noteq> PK_EXIT_ENUM_UNKNOWN \<longrightarrow> be_exit c = be_exit b"
      "be_set_error b \<longrightarrow> \<not> list_ex is_report t"
      "errors t + (if be_set_error b then 1 else 0) \<le> (if be_set_error c then 1 else 0)"
      "be_locked b \<longrightarrow> list_all (\<lambda>s. \<forall>e. finished_exit s = Some e \<longrightarrow>
                     e = be_exit c \<and> e \<noteq> PK_EXIT_ENUM_UNKNOWN) t"
    unfolding obeys_def by blast
  have "be_locked a \<longrightarrow> list_all (\<lambda>s. \<forall>e. finished_exit s = Some e \<longrightarrow>
                     e = be_exit c \<and> e \<noteq> PK_EXIT_ENUM_UNKNOWN) (s @ t)"
    using s(2,7) t(4,7) by (auto simp: list_all_iff)
  moreover have "errors (s @ t) + (if be_set_error a then 1 else 0) \<le> (if be_set_error c then 1 else 0)"
    using s(6) t(6) by (simp add: errors_def)
  ultimately show ?thesis
    unfolding obeys_def using s t by (intro exI [of _ "s @ t"]) auto
qed

lemma obeys_finished_delay: "obeys b (pk_backend_finished_delay b)"
  by (auto simp: pk_backend_finished_delay_def pk_backend_set_exit_code_def obeys_def emit_def
      errors_def Let_def)

lemma obeys_error_code: "obeys b (snd (pk_backend_error_code e t b))"
  by (auto simp: error_code_steps obeys_def errors_def emit_def add_result_def pk_frame Let_def)

lemma obeys_quiet: "control b' = control b \<Longrightarrow> emitted b' = emitted b \<Longrightarrow> obeys b b'"
  by (auto simp: obeys_def control_def errors_def)

interpretation obeys: backend_relation obeys
proof
  show "obeys b b" for b by (rule obeys_quiet) simp_all
  show "obeys a c" if "obeys a b" "obeys b c" for a b c using that by (rule obeys_trans)
  show "obeys b b'" if "control b' = control b" "emitted b' = emitted b" for b b'
    using that by (rule obeys_quiet)
  show "obeys b b'" if "control b' = control b" "emitted b' = emitted b @ [s]" "ordinary s"
    "be_set_error b \<longrightarrow> \<not> is_report s" for b b' s
    using that by (auto simp: obeys_def control_def errors_def ordinary_def)
  show "obeys b (snd (pk_backend_set_exit_code e b))" for b e
    by (auto simp: obeys_def errors_def pk_frame)
  show "obeys b (snd (pk_backend_error_code ec t b))" for b ec t by (rule obeys_error_code)
  show "obeys b (snd (add_source SRC_thread_finished b))" for b
    by (auto simp: obeys_def errors_def pk_frame)
  show "obeys b (remove_source i b)" for b i
    by (auto simp: obeys_def errors_def remove_source_def)
  show "obeys b (snd (add_source SRC_finished_delay (b\<lparr>be_finished := True\<rparr>)))" for b
    by (auto simp: obeys_def errors_def pk_frame)
  show "obeys b (remove_source i (pk_backend_finished_delay b))" for b i
    by (rule obeys_trans [OF obeys_finished_delay])
      (auto simp: obeys_def errors_def remove_source_def)
qed

lemma obeys_not_implemented: "obeys b (snd (pk_backend_not_implemented_yet m b))"
  by (auto simp: pk_backend_not_implemented_yet_def Let_def obeys.R_refl
      intro: obeys_trans [OF obeys_error_code obeys_finished_delay])

lemma obeys_run: "obeys b (backend_run evs b)"
proof (induction evs arbitrary: b)
  case (Cons e evs)
  have "obeys b (backend_step e b)"
    using obeys.R_step [of e b] obeys_not_implemented by (cases e) auto
  with Cons.IH [of "backend_step e b"] show ?case
    by (auto simp: backend_run_def intro: obeys_trans)
qed (simp add: backend_run_def obeys.R_refl)

section \<open>One end\<close>

definition finishes :: "backend_signal list \<Rightarrow> nat" where
  "finishes ss = length (filter (\<lambda>s. finished_exit s \<noteq> None) ss)"

definition deliveries :: "PkBackend \<Rightarrow> nat" where
  "deliveries b = length (filter (\<lambda>(i, f). f = SRC_finished_delay) (sources (be_loop b)))"

text \<open>
  \<open>once b b'\<close>: every \<open>Finished\<close> that went out and every delivery that is still pending is paid
  for by a delivery that was pending before or by the mark \<open>finished\<close>, which is set once.
\<close>

definition once :: "PkBackend \<Rightarrow> PkBackend \<Rightarrow> bool" where
  "once b b' \<longleftrightarrow>
     (\<exists>ss. emitted b' = emitted b @ ss \<and> (be_finished b \<longrightarrow> be_finished b') \<and>
        finishes ss + deliveries b' + (if be_finished b then 1 else 0)
          \<le> deliveries b + (if be_finished b' then 1 else 0))"

lemma once_trans: "once a b \<Longrightarrow> once b c \<Longrightarrow> once a c"
  unfolding once_def
  by (elim exE, rule_tac x = "ss @ ssa" in exI) (auto simp: finishes_def split: if_splits)

lemma deliveries_add: "deliveries (b\<lparr>be_loop := snd (g_source_add f m)\<rparr>) =
    deliveries (b\<lparr>be_loop := m\<rparr>) + (if f = SRC_finished_delay then 1 else 0)"
  by (simp add: deliveries_def g_source_add_def)

lemma filter_filter_le: "length (filter P (filter Q xs)) \<le> length (filter P xs)"
  by (induction xs) auto

lemma filter_remove_less:
  "x \<in> set xs \<Longrightarrow> P x \<Longrightarrow> \<not> Q x \<Longrightarrow> Suc (length (filter P (filter Q xs))) \<le> length (filter P xs)"
proof (induction xs)
  case (Cons y xs)
  then show ?case using filter_filter_le [of P Q xs] by (auto simp: not_less_eq_eq)
qed simp

lemma deliveries_remove: "deliveries (remove_source i b) \<le> deliveries b"
  unfolding deliveries_def remove_source_def g_source_remove_def
  by (simp add: filter_filter_le del: filter_filter)

lemma deliveries_remove_pending:
  "pending (be_loop b) i SRC_finished_delay \<Longrightarrow> Suc (deliveries (remove_source i b)) \<le> deliveries b"
  unfolding deliveries_def remove_source_def g_source_remove_def pending_def
  by (simp del: filter_filter) (rule filter_remove_less [of "(i, SRC_finished_delay)"], auto)

lemma once_error_code: "once b (snd (pk_backend_error_code e t b))"
  by (auto simp: error_code_steps once_def finishes_def emit_def add_result_def pk_frame Let_def
      deliveries_def g_source_add_def)

lemma once_quiet: "control b' = control b \<Longrightarrow> emitted b' = emitted b \<Longrightarrow> once b b'"
  by (auto simp: once_def control_def finishes_def deliveries_def)

interpretation once: backend_relation once
proof
  show "once b b" for b by (rule once_quiet) simp_all
  show "once a c" if "once a b" "once b c" for a b c using that by (rule once_trans)
  show "once b b'" if "control b' = control b" "emitted b' = emitted b" for b b'
    using that by (rule once_quiet)
  show "once b b'" if "control b' = control b" "emitted b' = emitted b @ [s]" "ordinary s"
    "be_set_error b \<longrightarrow> \<not> is_report s" for b b' s
    using that by (auto simp: once_def control_def finishes_def ordinary_def deliveries_def)
  show "once b (snd (pk_backend_set_exit_code e b))" for b e
    by (simp add: once_def finishes_def deliveries_def pk_frame)
  show "once b (snd (pk_backend_error_code ec t b))" for b ec t by (rule once_error_code)
  show "once b (snd (add_source SRC_thread_finished b))" for b
    by (simp add: once_def finishes_def deliveries_def pk_frame g_source_add_def)
  show "once b (remove_source i b)" for b i
    using deliveries_remove [of i b] by (simp add: once_def finishes_def remove_source_def)
  show "once b (snd (add_source SRC_finished_delay (b\<lparr>be_finished := True\<rparr>)))"
    if "\<not> be_finished b" for b
    using that by (simp add: once_def finishes_def deliveries_def pk_frame g_source_add_def)
  show "once b (remove_source i (pk_backend_finished_delay b))"
    if "pending (be_loop b) i SRC_finished_delay" for b i
  proof -
    define c where "c = pk_backend_finished_delay b"
    have c: "be_loop c = be_loop b" "be_finished c = be_finished b"
      "\<exists>e. emitted c = emitted b @ [SIGNAL_FINISHED e]"
      by (simp_all add: c_def pk_backend_finished_delay_def Let_def emit_def pk_frame)
    then have "deliveries c = deliveries b" by (simp add: deliveries_def)
    with c deliveries_remove_pending [of c i] that
    have "Suc (deliveries (remove_source i c)) \<le> deliveries b" by simp
    with c show ?thesis
      unfolding c_def [symmetric] by (auto simp: once_def finishes_def remove_source_def)
  qed
qed

section \<open>No calls\<close>

text \<open>\<open>no_calls b b'\<close>: only signals were appended, and none of them calls a method of the plugin.\<close>

definition no_calls :: "PkBackend \<Rightarrow> PkBackend \<Rightarrow> bool" where
  "no_calls b b' \<longleftrightarrow> (\<exists>ss. emitted b' = emitted b @ ss \<and> \<not> list_ex is_method_call ss)"

lemma no_calls_refl: "no_calls b b"
  by (simp add: no_calls_def)

lemma no_calls_trans: "no_calls a b \<Longrightarrow> no_calls b c \<Longrightarrow> no_calls a c"
  by (fastforce simp: no_calls_def)

lemma no_calls_same: "emitted b' = emitted b \<Longrightarrow> no_calls b b'"
  by (simp add: no_calls_def)

lemma no_calls_one: "emitted b' = emitted b @ [s] \<Longrightarrow> \<not> is_method_call s \<Longrightarrow> no_calls b b'"
  by (auto simp: no_calls_def)

lemma no_calls_finished_delay: "no_calls b (pk_backend_finished_delay b)"
  by (auto simp: no_calls_def pk_backend_finished_delay_def Let_def emit_def pk_frame)

lemma no_calls_error_code: "no_calls b (snd (pk_backend_error_code e t b))"
  by (auto simp: error_code_steps no_calls_def emit_def add_result_def pk_frame Let_def)

interpretation no_calls: backend_relation no_calls
proof
  show "no_calls b b" for b by (rule no_calls_refl)
  show "no_calls a c" if "no_calls a b" "no_calls b c" for a b c using that by (rule no_calls_trans)
  show "no_calls b b'" if "emitted b' = emitted b" for b b' using that by (rule no_calls_same)
  show "no_calls b b'" if "emitted b' = emitted b @ [s]" "ordinary s" for b b' s
    using that by (auto simp: ordinary_def intro: no_calls_one)
  show "no_calls b (snd (pk_backend_set_exit_code e b))" for b e
    by (simp add: no_calls_same pk_frame)
  show "no_calls b (snd (pk_backend_error_code ec t b))" for b ec t by (rule no_calls_error_code)
  show "no_calls b (snd (add_source SRC_thread_finished b))" for b
    by (simp add: no_calls_same pk_frame)
  show "no_calls b (remove_source i b)" for b i by (simp add: no_calls_same remove_source_def)
  show "no_calls b (snd (add_source SRC_finished_delay (b\<lparr>be_finished := True\<rparr>)))" for b
    by (simp add: no_calls_same pk_frame)
  show "no_calls b (remove_source i (pk_backend_finished_delay b))" for b i
    by (rule no_calls_trans [OF no_calls_finished_delay]) (simp add: no_calls_same remove_source_def)
qed

lemma no_calls_not_implemented: "no_calls b (snd (pk_backend_not_implemented_yet m b))"
  by (simp add: pk_backend_not_implemented_yet_def Let_def no_calls_refl
      no_calls_trans [OF no_calls_error_code no_calls_finished_delay])

lemma no_calls_step: "no_calls b (backend_step e b)"
  using no_calls.R_step [of e b] no_calls_not_implemented by (cases e) auto

lemma no_calls_reset: "no_calls b (snd (pk_backend_reset b))"
proof -
  have 1: "no_calls c (reset_fields c)" for c by (simp add: no_calls_same reset_fields_def)
  have 2: "no_calls c (if P then (remove_source i c)\<lparr>be_signal_error_timeout := 0\<rparr> else c)" for P i c
    by (simp add: no_calls_same remove_source_def)
  have 3: "no_calls b (if P then pk_backend_finished_delay (remove_source i b) else b)" for P i
    using no_calls_trans [OF no_calls_same no_calls_finished_delay, of "remove_source i b" b]
    by (simp add: no_calls_refl remove_source_def)
  show ?thesis
    unfolding pk_backend_reset_def Let_def
    using no_calls_trans [OF 3 no_calls_trans [OF 2 1]] by (simp add: no_calls_refl)
qed

section \<open>Properties\<close>

text \<open>A locked backend with a small plugin, for concrete runs.\<close>

definition example_desc :: PkBackendDesc where
  "example_desc =
     \<lparr>desc_methods = [PK_ROLE_ENUM_GET_DETAILS, PK_ROLE_ENUM_INSTALL_PACKAGES],
      desc_get_roles = None, desc_get_groups = None, desc_get_filters = None,
      desc_get_mime_types = None, desc_initialize = False, desc_destroy = False,
      desc_transaction_start = False, desc_transaction_stop = False,
      desc_transaction_reset = False\<rparr>"

definition example_backend :: PkBackend where
  "example_backend = snd (pk_backend_lock (\<lambda>b. b) ((pk_backend_new False False)\<lparr>be_desc := Some example_desc\<rparr>))"

lemma example_locked: "be_locked example_backend"
  by code_simp

lemma new_signals_append: "emitted b' = emitted b @ ss \<Longrightarrow> new_signals b b' = ss"
  by (simp add: new_signals_def)

lemma exit_code_once_raw:
  assumes "be_locked b"
  shows "(be_exit b \<noteq> PK_EXIT_ENUM_UNKNOWN \<longrightarrow> be_exit (backend_run evs b) = be_exit b) \<and>
         (\<forall>e. SIGNAL_FINISHED e \<in> set (new_signals b (backend_run evs b)) \<longrightarrow>
            e = be_exit (backend_run evs b) \<and> e \<noteq> PK_EXIT_ENUM_UNKNOWN)"
proof -
  from obeys_run [of b evs] obtain ss where ss: "emitted (backend_run evs b) = emitted b @ ss"
    "be_exit b \<noteq> PK_EXIT_ENUM_UNKNOWN \<longrightarrow> be_exit (backend_run evs b) = be_exit b"
    "list_all (\<lambda>s. \<forall>e. finished_exit s = Some e \<longrightarrow>
        e = be_exit (backend_run evs b) \<and> e \<noteq> PK_EXIT_ENUM_UNKNOWN) ss"
    using assms unfolding obeys_def by blast
  then show ?thesis by (auto simp: new_signals_append list_all_iff)
qed

text \<open>C10: After \<open>ErrorCode\<close> a backend is silent: whatever the plugin, the daemon and the main
  loop do until the next reset, no package, details, file list or other result, no progress
  and no second \<open>ErrorCode\<close> goes out.\<close>

theorem error_silences_backend:
  assumes "be_set_error b"
  shows "\<not> list_ex is_report (new_signals b (backend_run evs b)) \<and>
         errors (new_signals b (backend_run evs b)) = 0 \<and> be_set_error (backend_run evs b)"
proof -
  from obeys_run [of b evs] obtain ss where "emitted (backend_run evs b) = emitted b @ ss"
    "\<not> list_ex is_report ss" "be_set_error (backend_run evs b)"
    "errors ss + (if be_set_error b then 1 else 0) \<le> (if be_set_error (backend_run evs b) then 1 else 0)"
    using assms unfolding obeys_def by blast
  then show ?thesis using assms by (simp add: new_signals_append)
qed

lemma error_silences_backend_witness:
  "errors (new_signals (example_backend\<lparr>be_set_error := True\<rparr>)
     (backend_run [EV_error_code PK_ERROR_ENUM_OOM ''x'', EV_package PK_INFO_ENUM_NORMAL ''a;1;b;c'' None]
        (example_backend\<lparr>be_set_error := True\<rparr>))) = 0"
  using error_silences_backend [of "example_backend\<lparr>be_set_error := True\<rparr>"] by simp

text \<open>Between two resets a backend sends \<open>ErrorCode\<close> at most once, and exactly when it
  ends up marked, in every interleaving of its operations and timers.\<close>

theorem one_error_code:
  "errors (new_signals b (backend_run evs b)) \<le>
     (if be_set_error (backend_run evs b) \<and> \<not> be_set_error b then 1 else 0)"
proof -
  from obeys_run [of b evs] obtain ss where "emitted (backend_run evs b) = emitted b @ ss"
    "errors ss + (if be_set_error b then 1 else 0) \<le> (if be_set_error (backend_run evs b) then 1 else 0)"
    unfolding obeys_def by blast
  then show ?thesis by (auto simp: new_signals_append split: if_splits)
qed

text \<open>C24: The exit code of a locked backend is set once: it never changes before the next
  reset, and every \<open>Finished\<close> signal carries it and never \<open>unknown\<close>.\<close>

theorem exit_code_once:
  assumes "be_locked b"
  shows "(be_exit b \<noteq> PK_EXIT_ENUM_UNKNOWN \<longrightarrow> be_exit (backend_run evs b) = be_exit b) \<and>
         (\<forall>e. SIGNAL_FINISHED e \<in> set (new_signals b (backend_run evs b)) \<longrightarrow>
            e = be_exit (backend_run evs b) \<and> e \<noteq> PK_EXIT_ENUM_UNKNOWN)"
  using assms by (rule exit_code_once_raw)

lemma exit_code_once_witness:
  "be_exit (backend_run [EV_error_code PK_ERROR_ENUM_OOM ''x'', EV_finished]
     (snd (pk_backend_set_exit_code PK_EXIT_ENUM_CANCELLED example_backend))) = PK_EXIT_ENUM_CANCELLED"
proof -
  let ?b = "snd (pk_backend_set_exit_code PK_EXIT_ENUM_CANCELLED example_backend)"
  have "be_locked ?b" "be_exit ?b = PK_EXIT_ENUM_CANCELLED" by code_simp+
  then show ?thesis using exit_code_once [of ?b] by simp
qed

text \<open>C26: Starting from a reset backend, \<open>Finished\<close> goes out at most once whatever happens
  until the next reset, provided that no method is reported as unimplemented.\<close>

theorem finished_once:
  assumes "deliveries b = 0" and "\<forall>e \<in> set evs. \<forall>m. e \<noteq> EV_not_implemented_yet m"
  shows "finishes (new_signals b (backend_run evs b)) \<le> 1"
proof -
  from once.R_run [OF assms(2), of b] obtain ss where
    "emitted (backend_run evs b) = emitted b @ ss"
    "finishes ss + deliveries (backend_run evs b) + (if be_finished b then 1 else 0)
       \<le> deliveries b + (if be_finished (backend_run evs b) then 1 else 0)"
    unfolding once_def by blast
  with assms(1) show ?thesis by (auto simp: new_signals_append split: if_splits)
qed

lemma finished_once_witness:
  "finishes (new_signals example_backend
     (backend_run [EV_finished, EV_finished, EV_dispatch 1 SRC_finished_delay,
                   EV_dispatch 1 SRC_finished_delay] example_backend)) \<le> 1"
proof -
  have "deliveries example_backend = 0" by code_simp
  from finished_once [OF this] show ?thesis by simp
qed

text \<open>Reporting an unimplemented method delivers \<open>Finished\<close> at once and leaves the
  timer of the error running, so that \<open>Finished\<close> goes out a second time when it fires.\<close>

theorem not_implemented_finishes_twice:
  "finishes (new_signals example_backend
     (backend_run [EV_not_implemented_yet ''get-files'', EV_dispatch 1 SRC_error_timeout_delay,
                   EV_dispatch 2 SRC_finished_delay] example_backend)) = 2"
  by code_simp

text \<open>The exit code that an error selects on a locked backend without one: the five
  signature errors need an untrusted run, a cancelled priority keeps its own code, and every
  other error, also an unfinished transaction, is a failure: the attempt of the code to say
  \<open>repair-required\<close> comes after the exit code is set and is refused.\<close>

theorem error_code_exit:
  assumes "be_locked b" and "\<not> be_during_initialize b" and "\<not> be_set_error b"
    and "be_exit b = PK_EXIT_ENUM_UNKNOWN"
  shows "be_exit (snd (pk_backend_error_code e t b)) =
           (if e \<in> {PK_ERROR_ENUM_GPG_FAILURE, PK_ERROR_ENUM_BAD_GPG_SIGNATURE,
                    PK_ERROR_ENUM_MISSING_GPG_SIGNATURE, PK_ERROR_ENUM_CANNOT_INSTALL_REPO_UNSIGNED,
                    PK_ERROR_ENUM_CANNOT_UPDATE_REPO_UNSIGNED} then PK_EXIT_ENUM_NEED_UNTRUSTED
            else if e = PK_ERROR_ENUM_CANCELLED_PRIORITY then PK_EXIT_ENUM_CANCELLED_PRIORITY
            else PK_EXIT_ENUM_FAILED) \<and>
         be_exit (snd (pk_backend_error_code PK_ERROR_ENUM_UNFINISHED_TRANSACTION t b))
           \<noteq> PK_EXIT_ENUM_REPAIR_REQUIRED"
proof -
  have untrusted: "pk_backend_error_code_is_need_untrusted e \<longleftrightarrow>
      e \<in> {PK_ERROR_ENUM_GPG_FAILURE, PK_ERROR_ENUM_BAD_GPG_SIGNATURE,
           PK_ERROR_ENUM_MISSING_GPG_SIGNATURE, PK_ERROR_ENUM_CANNOT_INSTALL_REPO_UNSIGNED,
           PK_ERROR_ENUM_CANNOT_UPDATE_REPO_UNSIGNED}" for e
    by (cases e) (simp_all add: pk_backend_error_code_is_need_untrusted_def)
  have code: "be_exit (snd (pk_backend_error_code e t b)) = be_exit (error_exit e c)"
    if "c = (snd (add_source SRC_error_timeout_delay (b\<lparr>be_set_error := True\<rparr>)))
         \<lparr>be_signal_error_timeout := fst (add_source SRC_error_timeout_delay (b\<lparr>be_set_error := True\<rparr>))\<rparr>"
    for e c
    using assms that by (simp add: error_code_steps Let_def emit_def add_result_def)
  have exit: "be_exit (error_exit e c) =
      (if pk_backend_error_code_is_need_untrusted e then PK_EXIT_ENUM_NEED_UNTRUSTED
       else if e = PK_ERROR_ENUM_CANCELLED_PRIORITY then PK_EXIT_ENUM_CANCELLED_PRIORITY
       else PK_EXIT_ENUM_FAILED)" if "be_locked c" "be_exit c = PK_EXIT_ENUM_UNKNOWN" for e c
    using that by (simp add: error_exit_def pk_backend_set_exit_code_def Let_def)
  show ?thesis
    using assms by (simp add: code [OF refl] exit pk_frame untrusted)
qed

lemma error_code_exit_witness:
  "be_exit (snd (pk_backend_error_code PK_ERROR_ENUM_UNFINISHED_TRANSACTION ''x'' example_backend))
     \<noteq> PK_EXIT_ENUM_REPAIR_REQUIRED"
proof -
  have "be_locked example_backend \<and> \<not> be_during_initialize example_backend \<and>
        \<not> be_set_error example_backend \<and> be_exit example_backend = PK_EXIT_ENUM_UNKNOWN"
    by code_simp
  then show ?thesis using error_code_exit [of example_backend] by blast
qed

text \<open>C28: A plugin that reports an error and then hangs does not hang the transaction: the
  timer that \<open>pk_backend_error_code\<close> starts finishes the backend in its place, and the timer
  started there delivers \<open>Finished\<close> with a proper exit code.\<close>

theorem error_always_finishes:
  assumes "be_locked b" and "\<not> be_during_initialize b" and "\<not> be_set_error b" and "\<not> be_finished b"
    and b1: "b1 = snd (pk_backend_error_code e t b)"
    and b2: "b2 = pk_backend_dispatch (be_signal_error_timeout b1) SRC_error_timeout_delay b1"
    and b3: "b3 = pk_backend_dispatch (be_signal_finished b2) SRC_finished_delay b2"
  shows "be_finished b2 \<and> be_exit b3 \<noteq> PK_EXIT_ENUM_UNKNOWN \<and>
         SIGNAL_FINISHED (be_exit b3) \<in> set (new_signals b b3)"
proof -
  define i where "i = be_signal_error_timeout b1"
  have i: "i = next_source (be_loop b)" "pending (be_loop b1) i SRC_error_timeout_delay"
    "next_source (be_loop b1) = Suc i"
    using assms(1-4) by (simp_all add: i_def b1 error_code_steps Let_def emit_def add_result_def pk_frame
        add_source_def g_source_add_def pending_def)
  have b1_state: "be_locked b1" "\<not> be_during_initialize b1" "\<not> be_finished b1"
    using assms(1-4) by (simp_all add: b1 error_code_steps Let_def emit_def add_result_def pk_frame
        add_source_def g_source_add_def error_exit_def pk_backend_set_exit_code_def)
  obtain m where m: "b2 = remove_source i
      ((snd (pk_backend_finished (emit (SIGNAL_MESSAGE m) b1)))\<lparr>be_signal_error_timeout := 0\<rparr>)"
    using i(2) b1_state by (auto simp: b2 pk_backend_dispatch_def i_def [symmetric]
        pk_backend_error_timeout_delay_cb_def Let_def)
  define c where "c = finish_close (finish_untimed (finish_prepare (emit (SIGNAL_MESSAGE m) b1)))"
  have c: "core c = core b1" by (simp add: c_def pk_frame)
  define j where "j = next_source (be_loop c)"
  have "j = Suc i" using core_eqD [OF c] i(3) by (simp add: j_def)
  then have b2_eq: "be_finished b2" "be_locked b2" "be_exit b2 = be_exit b1" "be_signal_finished b2 = j"
    "pending (be_loop b2) j SRC_finished_delay"
    unfolding m pk_backend_finished_steps c_def [symmetric] using core_eqD [OF c] b1_state
    by (simp_all add: Let_def emit_def remove_source_def add_source_def g_source_add_def pending_def
        g_source_remove_def j_def)
  have run: "b3 = backend_run [EV_error_code e t, EV_dispatch (be_signal_error_timeout b1)
        SRC_error_timeout_delay, EV_dispatch (be_signal_finished b2) SRC_finished_delay] b"
    by (simp add: backend_run_def b1 b2 b3)
  define d where "d = pk_backend_finished_delay b2"
  have d: "emitted d = emitted b2 @ [SIGNAL_FINISHED (be_exit d)]"
    by (simp add: d_def pk_backend_finished_delay_def Let_def emit_def pk_frame)
  have b3_eq: "b3 = remove_source j d"
    using b2_eq by (simp add: b3 pk_backend_dispatch_def d_def)
  have "obeys b b2"
    using obeys_run [of b "[EV_error_code e t, EV_dispatch (be_signal_error_timeout b1)
        SRC_error_timeout_delay]"] by (simp add: backend_run_def b1 b2)
  then obtain ss where "emitted b2 = emitted b @ ss" by (auto simp: obeys_def)
  with d b3_eq have mem: "SIGNAL_FINISHED (be_exit b3) \<in> set (new_signals b b3)"
    by (simp add: new_signals_def remove_source_def)
  with exit_code_once_raw [OF assms(1)] run have "be_exit b3 \<noteq> PK_EXIT_ENUM_UNKNOWN" by metis
  with mem b2_eq(1) show ?thesis by simp
qed

lemma error_always_finishes_witness:
  "be_exit (backend_run [EV_error_code PK_ERROR_ENUM_OOM ''x'', EV_dispatch 1 SRC_error_timeout_delay,
       EV_dispatch 2 SRC_finished_delay] example_backend) \<noteq> PK_EXIT_ENUM_UNKNOWN"
proof -
  have ok: "be_locked example_backend \<and> \<not> be_during_initialize example_backend \<and>
        \<not> be_set_error example_backend \<and> \<not> be_finished example_backend"
    by code_simp
  have "be_signal_error_timeout (snd (pk_backend_error_code PK_ERROR_ENUM_OOM ''x'' example_backend)) = 1"
    by code_simp
  moreover have "be_signal_finished (pk_backend_dispatch 1 SRC_error_timeout_delay
      (snd (pk_backend_error_code PK_ERROR_ENUM_OOM ''x'' example_backend))) = 2"
    by code_simp
  ultimately show ?thesis
    using error_always_finishes [of example_backend _ PK_ERROR_ENUM_OOM "''x''", OF _ _ _ _ refl refl refl] ok
    by (simp add: backend_run_def)
qed

lemma strsafe_clean:
  "pk_backend_strsafe s = Some t \<Longrightarrow>
   set t \<inter> {CHR 0x5C, CHR 0x0C, CHR 0x0D, CHR 0x09} = {} \<and> g_utf8_validate (or_empty s)"
  using g_strdelimit_set [of "CHR '' ''" "[CHR 0x5C, CHR 0x0C, CHR 0x0D, CHR 0x09]" "or_empty s"]
  by (auto simp: pk_backend_strsafe_def or_empty_def split: option.splits if_splits)

lemma emulate_results [pk_frame]:
  "be_results (snd (pk_backend_package_emulate_finished b)) = be_results b"
  by (auto simp: pk_backend_package_emulate_finished_def package_body_def Let_def emit_def
      info_status_def split: option.split)

lemma emulate_for_frame [pk_frame]:
  "be_results (snd (pk_backend_package_emulate_finished_for_package item b)) = be_results b"
  "core (snd (pk_backend_package_emulate_finished_for_package item b)) = core b"
  by (auto simp: pk_backend_package_emulate_finished_for_package_def pk_frame split: option.split)

lemma info_status_frame [pk_frame]:
  assumes "info_status info = Some st"
  shows "be_results (snd (pk_backend_set_status st b)) = be_results b"
    and "be_last_package (snd (pk_backend_set_status st b)) = be_last_package b"
  using assms
  by (auto simp: info_status_def pk_backend_set_status_def Let_def emit_def split: if_splits)

text \<open>What goes out for a package: a report is accepted only from a locked backend without
  error, for a well-formed PackageID and for something else than the last one; then the last
  signal is the package with the info the role asks for and a summary without control
  characters, and it joins the results unless it only says \<open>finished\<close>.\<close>

theorem package_report:
  assumes "fst (pk_backend_package info package_id summary b)"
    and item: "item = \<lparr>pkg_info = simulate_info (be_transaction_role b) info, pkg_id = package_id,
                       pkg_summary = pk_backend_strsafe summary\<rparr>"
    and b': "b' = snd (pk_backend_package info package_id summary b)"
  shows "be_locked b \<and> \<not> be_set_error b \<and> pk_package_id_check (Some package_id) \<and>
         be_last_package b \<noteq> Some item \<and> be_last_package b' = Some item \<and>
         last (emitted b') = SIGNAL_PACKAGE item \<and>
         package_array (be_results b') = package_array (be_results b) @
           (if pkg_info item = PK_INFO_ENUM_FINISHED then [] else [item]) \<and>
         (\<forall>t. pkg_summary item = Some t \<longrightarrow>
            set t \<inter> {CHR 0x5C, CHR 0x0C, CHR 0x0D, CHR 0x09} = {})"
proof -
  define c where "c = (if pkg_info item \<noteq> PK_INFO_ENUM_FINISHED
      then snd (pk_backend_package_emulate_finished_for_package item b) else b)\<lparr>be_last_package := Some item\<rparr>"
  have c: "core c = core b" "be_results c = be_results b" "be_last_package c = Some item"
    by (simp_all add: c_def pk_frame)
  define d where "d = (if \<not> be_simultaneous c then
      (case info_status (pkg_info item) of Some st \<Rightarrow> snd (pk_backend_set_status st c) | None \<Rightarrow> c) else c)"
  have d: "be_results d = be_results b" "be_last_package d = Some item"
    using c by (auto simp: d_def pk_frame split: option.split)
  define e where "e = (if pkg_info item \<noteq> PK_INFO_ENUM_FINISHED
       then add_result (pk_results_add_package item) (emit (SIGNAL_PACKAGE item) (d\<lparr>be_has_sent_package := True\<rparr>))
       else emit (SIGNAL_PACKAGE item) (d\<lparr>be_has_sent_package := True\<rparr>))"
  have info: "simulate_info (be_transaction_role b) info = pkg_info item" by (simp add: item)
  have body: "pk_backend_package info package_id summary b =
    (if \<not> be_locked b \<or> \<not> pk_package_set_id package_id \<or>
        (case be_last_package b of Some p \<Rightarrow> pk_package_equal p item | None \<Rightarrow> False) then (False, b)
     else if be_set_error c then (False, c) else (True, e))"
    unfolding pk_backend_package_def package_body_def Let_def
    unfolding item [symmetric]
    unfolding info
    unfolding c_def [symmetric] d_def [symmetric] e_def [symmetric] by simp
  from assms(1) have ok: "be_locked b" "pk_package_set_id package_id" "\<not> be_set_error c" "b' = e"
    "\<not> (case be_last_package b of Some p \<Rightarrow> pk_package_equal p item | None \<Rightarrow> False)"
    unfolding b' body by (auto split: if_splits)
  moreover from ok(5) have "be_last_package b \<noteq> Some item" by (auto simp: pk_package_equal_def)
  moreover have "be_last_package e = Some item \<and> last (emitted e) = SIGNAL_PACKAGE item \<and>
      package_array (be_results e) = package_array (be_results b) @
           (if pkg_info item = PK_INFO_ENUM_FINISHED then [] else [item])"
    using d by (simp add: e_def emit_def add_result_def pk_results_add_package_def)
  moreover have "\<forall>t. pkg_summary item = Some t \<longrightarrow>
      set t \<inter> {CHR 0x5C, CHR 0x0C, CHR 0x0D, CHR 0x09} = {}"
    using strsafe_clean by (simp add: item)
  ultimately show ?thesis
    using core_eqD [OF c(1)] by (simp add: pk_package_set_id_check)
qed

lemma package_report_witness:
  "last (emitted (snd (pk_backend_package PK_INFO_ENUM_INSTALLING ''a;1;i386;x'' (Some ''b'') example_backend))) =
     SIGNAL_PACKAGE \<lparr>pkg_info = PK_INFO_ENUM_INSTALLING, pkg_id = ''a;1;i386;x'', pkg_summary = Some ''b''\<rparr>"
proof -
  have ok: "fst (pk_backend_package PK_INFO_ENUM_INSTALLING ''a;1;i386;x'' (Some ''b'') example_backend)"
    by code_simp
  have "simulate_info (be_transaction_role example_backend) PK_INFO_ENUM_INSTALLING = PK_INFO_ENUM_INSTALLING \<and>
        pk_backend_strsafe (Some ''b'') = Some ''b''"
    by code_simp
  with package_report [OF ok refl refl] show ?thesis by simp
qed

text \<open>Progress never lies: a call of \<open>pk_backend_set_percentage\<close> either stores the value,
  which then is at most 101 and not below an earlier value while both are under 100, and
  announces it, or it leaves the stored percentage alone.\<close>

theorem percentage_steps:
  "(case pk_backend_set_percentage estimate p b of
      (True, b') \<Rightarrow> be_percentage b' = p \<and> p \<le> PK_BACKEND_PERCENTAGE_INVALID \<and>
        NOTIFY PROP_PERCENTAGE \<in> set (new_signals b b') \<and> \<not> be_set_error b \<and>
        \<not> (p < 100 \<and> be_percentage b < 100 \<and> p < be_percentage b) \<and>
        be_remaining b' = (if be_use_time b \<and> p \<noteq> PK_BACKEND_PERCENTAGE_INVALID then estimate
                           else be_remaining b)
    | (False, b') \<Rightarrow> be_percentage b' = be_percentage b \<and> be_remaining b' = be_remaining b)"
  by (auto simp: pk_backend_set_percentage_def pk_backend_message_def Let_def emit_def
      add_result_def new_signals_def not_less)

end
