(* ===== verification/PK_Backend_Calls.thy ===== *)
theory PK_Backend_Calls
  imports PK_Backend_Laws
begin

text \<open>
  What a plugin can do and how the daemon starts it (\<open>src/src/pk-backend.c\<close>): the roles that
  the table of methods implements, and the functions that begin one call each. Such a function
  returns at once if the method is missing; otherwise it sets the role, saves the arguments in
  the store, resets the transaction of the plugin and calls the method.
\<close>

section \<open>Roles\<close>

definition has_method :: "PkRoleEnum \<Rightarrow> PkBackend \<Rightarrow> bool" where
  "has_method r b = has_vfunc (\<lambda>d. r \<in> set (desc_methods d)) b"

text \<open>The methods in the order in which \<open>pk_backend_get_roles\<close> looks at them.\<close>

definition method_roles :: "PkRoleEnum list" where
  "method_roles =
     [PK_ROLE_ENUM_CANCEL, PK_ROLE_ENUM_GET_DEPENDS, PK_ROLE_ENUM_GET_DETAILS,
      PK_ROLE_ENUM_GET_FILES, PK_ROLE_ENUM_GET_REQUIRES, PK_ROLE_ENUM_GET_PACKAGES,
      PK_ROLE_ENUM_WHAT_PROVIDES, PK_ROLE_ENUM_GET_UPDATES, PK_ROLE_ENUM_GET_UPDATE_DETAIL,
      PK_ROLE_ENUM_INSTALL_PACKAGES, PK_ROLE_ENUM_INSTALL_SIGNATURE, PK_ROLE_ENUM_INSTALL_FILES,
      PK_ROLE_ENUM_REFRESH_CACHE, PK_ROLE_ENUM_REMOVE_PACKAGES, PK_ROLE_ENUM_DOWNLOAD_PACKAGES,
      PK_ROLE_ENUM_RESOLVE, PK_ROLE_ENUM_ROLLBACK, PK_ROLE_ENUM_SEARCH_DETAILS,
      PK_ROLE_ENUM_SEARCH_FILE, PK_ROLE_ENUM_SEARCH_GROUP, PK_ROLE_ENUM_SEARCH_NAME,
      PK_ROLE_ENUM_UPDATE_PACKAGES, PK_ROLE_ENUM_UPDATE_SYSTEM, PK_ROLE_ENUM_GET_REPO_LIST,
      PK_ROLE_ENUM_REPO_ENABLE, PK_ROLE_ENUM_REPO_SET_DATA, PK_ROLE_ENUM_GET_DISTRO_UPGRADES,
      PK_ROLE_ENUM_GET_CATEGORIES, PK_ROLE_ENUM_SIMULATE_INSTALL_FILES,
      PK_ROLE_ENUM_SIMULATE_INSTALL_PACKAGES, PK_ROLE_ENUM_SIMULATE_REMOVE_PACKAGES,
      PK_ROLE_ENUM_SIMULATE_UPDATE_PACKAGES, PK_ROLE_ENUM_UPGRADE_SYSTEM,
      PK_ROLE_ENUM_REPAIR_SYSTEM, PK_ROLE_ENUM_SIMULATE_REPAIR_SYSTEM]"

definition pk_backend_get_roles :: "PkBackend \<Rightarrow> PkBitfield \<times> PkBackend" where
  "pk_backend_get_roles b =
     (if \<not> be_locked b then (of_nat (enum_value PK_ROLE_ENUM_UNKNOWN), b)
      else if be_roles b \<noteq> 0 then (be_roles b, b)
      else
        (case (case be_desc b of Some d \<Rightarrow> desc_get_roles d | None \<Rightarrow> None) of
           Some roles \<Rightarrow> (roles, b\<lparr>be_roles := roles\<rparr>)
         | None \<Rightarrow>
             let roles = foldl (\<lambda>roles r. if has_method r b then pk_bitfield_add roles r else roles)
                           0 method_roles
             in (roles, b\<lparr>be_roles := roles\<rparr>)))"

definition pk_backend_is_implemented :: "PkRoleEnum \<Rightarrow> PkBackend \<Rightarrow> bool \<times> PkBackend" where
  "pk_backend_is_implemented role b =
     (let (roles, b) = pk_backend_get_roles b in (pk_bitfield_contain roles role, b))"

definition pk_backend_implement :: "PkRoleEnum \<Rightarrow> PkBackend \<Rightarrow> PkBackend" where
  "pk_backend_implement role b =
     (if role = PK_ROLE_ENUM_UNKNOWN then b
      else b\<lparr>be_roles := pk_bitfield_add (be_roles b) role\<rparr>)"

text \<open>A missing getter, like an unlocked backend, gives the number of the unknown value: 0.\<close>

definition pk_backend_get_groups :: "PkBackend \<Rightarrow> PkBitfield" where
  "pk_backend_get_groups b =
     (if \<not> be_locked b then of_nat (enum_value PK_GROUP_ENUM_UNKNOWN)
      else (case (case be_desc b of Some d \<Rightarrow> desc_get_groups d | None \<Rightarrow> None) of
              None \<Rightarrow> of_nat (enum_value PK_GROUP_ENUM_UNKNOWN)
            | Some g \<Rightarrow> g))"

definition pk_backend_get_filters :: "PkBackend \<Rightarrow> PkBitfield" where
  "pk_backend_get_filters b =
     (if \<not> be_locked b then of_nat (enum_value PK_FILTER_ENUM_UNKNOWN)
      else (case (case be_desc b of Some d \<Rightarrow> desc_get_filters d | None \<Rightarrow> None) of
              None \<Rightarrow> of_nat (enum_value PK_FILTER_ENUM_UNKNOWN)
            | Some f \<Rightarrow> f))"

definition pk_backend_get_mime_types :: "PkBackend \<Rightarrow> string option" where
  "pk_backend_get_mime_types b =
     (if \<not> be_locked b then None
      else (case (case be_desc b of Some d \<Rightarrow> desc_get_mime_types d | None \<Rightarrow> None) of
              None \<Rightarrow> Some []
            | Some m \<Rightarrow> Some m))"

section \<open>Beginning a call\<close>

definition put_string :: "string \<Rightarrow> string option \<Rightarrow> PkStore \<Rightarrow> PkStore" where
  "put_string key data st = fst (pk_store_set_string st key data)"

definition put_strv :: "string \<Rightarrow> string list \<Rightarrow> PkStore \<Rightarrow> PkStore" where
  "put_strv key data st = fst (pk_store_set_strv st key (Some data))"

definition put_uint :: "string \<Rightarrow> guint \<Rightarrow> PkStore \<Rightarrow> PkStore" where
  "put_uint key data st = fst (pk_store_set_uint st key data)"

definition put_bool :: "string \<Rightarrow> bool \<Rightarrow> PkStore \<Rightarrow> PkStore" where
  "put_bool key data st = fst (pk_store_set_bool st key (of_bool data))"

text \<open>
  \<open>required\<close> is the method that is tested for \<open>NULL\<close>, \<open>role\<close> the role that is set. The
  wrappers set the role even when the backend already has another one: the return value of
  \<open>pk_backend_set_role_internal\<close> is ignored.
\<close>

definition backend_begin ::
  "PkRoleEnum \<Rightarrow> PkRoleEnum \<Rightarrow> (PkStore \<Rightarrow> PkStore) list \<Rightarrow> backend_call \<Rightarrow> PkBackend \<Rightarrow> PkBackend"
where
  "backend_begin required role puts call b =
     (if \<not> has_method required b then b
      else
        let b = snd (pk_backend_set_role_internal role b);
            b = b\<lparr>be_store := foldl (\<lambda>st put. put st) (be_store b) puts\<rparr>;
            b = pk_backend_transaction_reset b
        in emit (VFUNC call) b)"

definition pk_backend_download_packages :: "string list \<Rightarrow> string option \<Rightarrow> PkBackend \<Rightarrow> PkBackend" where
  "pk_backend_download_packages package_ids directory b =
     backend_begin PK_ROLE_ENUM_DOWNLOAD_PACKAGES PK_ROLE_ENUM_DOWNLOAD_PACKAGES
       [put_strv ''package_ids'' package_ids, put_string ''directory'' directory]
       (VF_download_packages package_ids directory) b"

definition pk_backend_get_categories :: "PkBackend \<Rightarrow> PkBackend" where
  "pk_backend_get_categories b =
     backend_begin PK_ROLE_ENUM_GET_CATEGORIES PK_ROLE_ENUM_GET_CATEGORIES
       []
       VF_get_categories b"

definition pk_backend_get_depends :: "PkBitfield \<Rightarrow> string list \<Rightarrow> bool \<Rightarrow> PkBackend \<Rightarrow> PkBackend" where
  "pk_backend_get_depends filters package_ids recursive b =
     backend_begin PK_ROLE_ENUM_GET_DEPENDS PK_ROLE_ENUM_GET_DEPENDS
       [put_uint ''filters'' (ucast filters),
         put_strv ''package_ids'' package_ids,
         put_bool ''recursive'' recursive]
       (VF_get_depends filters package_ids recursive) b"

definition pk_backend_get_details :: "string list \<Rightarrow> PkBackend \<Rightarrow> PkBackend" where
  "pk_backend_get_details package_ids b =
     backend_begin PK_ROLE_ENUM_GET_DETAILS PK_ROLE_ENUM_GET_DETAILS
       [put_strv ''package_ids'' package_ids]
       (VF_get_details package_ids) b"

definition pk_backend_get_distro_upgrades :: "PkBackend \<Rightarrow> PkBackend" where
  "pk_backend_get_distro_upgrades b =
     backend_begin PK_ROLE_ENUM_GET_DISTRO_UPGRADES PK_ROLE_ENUM_GET_DISTRO_UPGRADES
       []
       VF_get_distro_upgrades b"

definition pk_backend_get_files :: "string list \<Rightarrow> PkBackend \<Rightarrow> PkBackend" where
  "pk_backend_get_files package_ids b =
     backend_begin PK_ROLE_ENUM_GET_FILES PK_ROLE_ENUM_GET_FILES
       [put_strv ''package_ids'' package_ids]
       (VF_get_files package_ids) b"

definition pk_backend_get_requires :: "PkBitfield \<Rightarrow> string list \<Rightarrow> bool \<Rightarrow> PkBackend \<Rightarrow> PkBackend" where
  "pk_backend_get_requires filters package_ids recursive b =
     backend_begin PK_ROLE_ENUM_GET_REQUIRES PK_ROLE_ENUM_GET_REQUIRES
       [put_uint ''filters'' (ucast filters),
         put_strv ''package_ids'' package_ids,
         put_bool ''recursive'' recursive]
       (VF_get_requires filters package_ids recursive) b"

definition pk_backend_get_update_detail :: "string list \<Rightarrow> PkBackend \<Rightarrow> PkBackend" where
  "pk_backend_get_update_detail package_ids b =
     backend_begin PK_ROLE_ENUM_GET_UPDATE_DETAIL PK_ROLE_ENUM_GET_UPDATE_DETAIL
       [put_strv ''package_ids'' package_ids]
       (VF_get_update_detail package_ids) b"

definition pk_backend_get_updates :: "PkBitfield \<Rightarrow> PkBackend \<Rightarrow> PkBackend" where
  "pk_backend_get_updates filters b =
     backend_begin PK_ROLE_ENUM_GET_UPDATES PK_ROLE_ENUM_GET_UPDATES
       [put_uint ''filters'' (ucast filters)]
       (VF_get_updates filters) b"

definition pk_backend_install_packages :: "bool \<Rightarrow> string list \<Rightarrow> PkBackend \<Rightarrow> PkBackend" where
  "pk_backend_install_packages only_trusted package_ids b =
     backend_begin PK_ROLE_ENUM_INSTALL_PACKAGES PK_ROLE_ENUM_INSTALL_PACKAGES
       [put_bool ''only_trusted'' only_trusted,
         put_strv ''package_ids'' package_ids,
         put_bool ''hint:simulate'' False]
       (VF_install_packages only_trusted package_ids) b"

definition pk_backend_install_signature :: "PkSigTypeEnum \<Rightarrow> string option \<Rightarrow> string option \<Rightarrow> PkBackend \<Rightarrow> PkBackend" where
  "pk_backend_install_signature sigtype key_id package_id b =
     backend_begin PK_ROLE_ENUM_INSTALL_SIGNATURE PK_ROLE_ENUM_INSTALL_SIGNATURE
       [put_string ''key_id'' key_id, put_string ''package_id'' package_id]
       (VF_install_signature sigtype key_id package_id) b"

definition pk_backend_install_files :: "bool \<Rightarrow> string list \<Rightarrow> PkBackend \<Rightarrow> PkBackend" where
  "pk_backend_install_files only_trusted full_paths b =
     backend_begin PK_ROLE_ENUM_INSTALL_FILES PK_ROLE_ENUM_INSTALL_FILES
       [put_bool ''only_trusted'' only_trusted,
         put_strv ''full_paths'' full_paths,
         put_bool ''hint:simulate'' False]
       (VF_install_files only_trusted full_paths) b"

definition pk_backend_refresh_cache :: "bool \<Rightarrow> PkBackend \<Rightarrow> PkBackend" where
  "pk_backend_refresh_cache force b =
     backend_begin PK_ROLE_ENUM_REFRESH_CACHE PK_ROLE_ENUM_REFRESH_CACHE
       [put_bool ''force'' force]
       (VF_refresh_cache force) b"

definition pk_backend_remove_packages :: "string list \<Rightarrow> bool \<Rightarrow> bool \<Rightarrow> PkBackend \<Rightarrow> PkBackend" where
  "pk_backend_remove_packages package_ids allow_deps autoremove b =
     backend_begin PK_ROLE_ENUM_REMOVE_PACKAGES PK_ROLE_ENUM_REMOVE_PACKAGES
       [put_strv ''package_ids'' package_ids,
         put_bool ''allow_deps'' allow_deps,
         put_bool ''autoremove'' autoremove,
         put_bool ''hint:simulate'' False]
       (VF_remove_packages package_ids allow_deps autoremove) b"

definition pk_backend_resolve :: "PkBitfield \<Rightarrow> string list \<Rightarrow> PkBackend \<Rightarrow> PkBackend" where
  "pk_backend_resolve filters package_ids b =
     backend_begin PK_ROLE_ENUM_RESOLVE PK_ROLE_ENUM_RESOLVE
       [put_uint ''filters'' (ucast filters), put_strv ''package_ids'' package_ids]
       (VF_resolve filters package_ids) b"

definition pk_backend_rollback :: "string option \<Rightarrow> PkBackend \<Rightarrow> PkBackend" where
  "pk_backend_rollback transaction_id b =
     backend_begin PK_ROLE_ENUM_ROLLBACK PK_ROLE_ENUM_ROLLBACK
       [put_string ''transaction_id'' transaction_id]
       (VF_rollback transaction_id) b"

definition pk_backend_search_details :: "PkBitfield \<Rightarrow> string list \<Rightarrow> PkBackend \<Rightarrow> PkBackend" where
  "pk_backend_search_details filters values b =
     backend_begin PK_ROLE_ENUM_SEARCH_DETAILS PK_ROLE_ENUM_SEARCH_DETAILS
       [put_uint ''filters'' (ucast filters), put_strv ''search'' values]
       (VF_search_details filters values) b"

definition pk_backend_search_files :: "PkBitfield \<Rightarrow> string list \<Rightarrow> PkBackend \<Rightarrow> PkBackend" where
  "pk_backend_search_files filters values b =
     backend_begin PK_ROLE_ENUM_SEARCH_FILE PK_ROLE_ENUM_SEARCH_FILE
       [put_uint ''filters'' (ucast filters), put_strv ''search'' values]
       (VF_search_files filters values) b"

definition pk_backend_search_groups :: "PkBitfield \<Rightarrow> string list \<Rightarrow> PkBackend \<Rightarrow> PkBackend" where
  "pk_backend_search_groups filters values b =
     backend_begin PK_ROLE_ENUM_SEARCH_GROUP PK_ROLE_ENUM_SEARCH_GROUP
       [put_uint ''filters'' (ucast filters), put_strv ''search'' values]
       (VF_search_groups filters values) b"

definition pk_backend_search_names :: "PkBitfield \<Rightarrow> string list \<Rightarrow> PkBackend \<Rightarrow> PkBackend" where
  "pk_backend_search_names filters values b =
     backend_begin PK_ROLE_ENUM_SEARCH_NAME PK_ROLE_ENUM_SEARCH_NAME
       [put_uint ''filters'' (ucast filters), put_strv ''search'' values]
       (VF_search_names filters values) b"

definition pk_backend_update_packages :: "bool \<Rightarrow> string list \<Rightarrow> PkBackend \<Rightarrow> PkBackend" where
  "pk_backend_update_packages only_trusted package_ids b =
     backend_begin PK_ROLE_ENUM_UPDATE_PACKAGES PK_ROLE_ENUM_UPDATE_PACKAGES
       [put_bool ''only_trusted'' only_trusted,
         put_strv ''package_ids'' package_ids,
         put_bool ''hint:simulate'' False]
       (VF_update_packages only_trusted package_ids) b"

definition pk_backend_update_system :: "bool \<Rightarrow> PkBackend \<Rightarrow> PkBackend" where
  "pk_backend_update_system only_trusted b =
     backend_begin PK_ROLE_ENUM_UPDATE_SYSTEM PK_ROLE_ENUM_UPDATE_SYSTEM
       [put_bool ''only_trusted'' only_trusted, put_bool ''hint:simulate'' False]
       (VF_update_system only_trusted) b"

definition pk_backend_get_repo_list :: "PkBitfield \<Rightarrow> PkBackend \<Rightarrow> PkBackend" where
  "pk_backend_get_repo_list filters b =
     backend_begin PK_ROLE_ENUM_GET_REPO_LIST PK_ROLE_ENUM_GET_REPO_LIST
       [put_uint ''filters'' (ucast filters)]
       (VF_get_repo_list filters) b"

definition pk_backend_repo_enable :: "string option \<Rightarrow> bool \<Rightarrow> PkBackend \<Rightarrow> PkBackend" where
  "pk_backend_repo_enable repo_id enabled b =
     backend_begin PK_ROLE_ENUM_REPO_ENABLE PK_ROLE_ENUM_REPO_ENABLE
       [put_string ''repo_id'' repo_id, put_bool ''enabled'' enabled]
       (VF_repo_enable repo_id enabled) b"

definition pk_backend_repo_set_data :: "string option \<Rightarrow> string option \<Rightarrow> string option \<Rightarrow> PkBackend \<Rightarrow> PkBackend" where
  "pk_backend_repo_set_data repo_id parameter value b =
     backend_begin PK_ROLE_ENUM_REPO_SET_DATA PK_ROLE_ENUM_REPO_SET_DATA
       [put_string ''repo_id'' repo_id,
         put_string ''parameter'' parameter,
         put_string ''value'' value]
       (VF_repo_set_data repo_id parameter value) b"

definition pk_backend_what_provides :: "PkBitfield \<Rightarrow> PkProvidesEnum \<Rightarrow> string list \<Rightarrow> PkBackend \<Rightarrow> PkBackend" where
  "pk_backend_what_provides filters provides values b =
     backend_begin PK_ROLE_ENUM_WHAT_PROVIDES PK_ROLE_ENUM_WHAT_PROVIDES
       [put_uint ''filters'' (ucast filters),
         put_uint ''provides'' (of_nat (enum_value provides)),
         put_strv ''search'' values]
       (VF_what_provides filters provides values) b"

definition pk_backend_get_packages :: "PkBitfield \<Rightarrow> PkBackend \<Rightarrow> PkBackend" where
  "pk_backend_get_packages filters b =
     backend_begin PK_ROLE_ENUM_GET_PACKAGES PK_ROLE_ENUM_GET_PACKAGES
       [put_uint ''filters'' (ucast filters)]
       (VF_get_packages filters) b"

definition pk_backend_simulate_install_files :: "string list \<Rightarrow> PkBackend \<Rightarrow> PkBackend" where
  "pk_backend_simulate_install_files full_paths b =
     backend_begin PK_ROLE_ENUM_SIMULATE_INSTALL_FILES PK_ROLE_ENUM_SIMULATE_INSTALL_FILES
       [put_strv ''full_paths'' full_paths, put_bool ''hint:simulate'' True]
       (VF_simulate_install_files full_paths) b"

definition pk_backend_simulate_install_packages :: "string list \<Rightarrow> PkBackend \<Rightarrow> PkBackend" where
  "pk_backend_simulate_install_packages package_ids b =
     backend_begin PK_ROLE_ENUM_SIMULATE_INSTALL_PACKAGES PK_ROLE_ENUM_SIMULATE_INSTALL_PACKAGES
       [put_strv ''package_ids'' package_ids, put_bool ''hint:simulate'' True]
       (VF_simulate_install_packages package_ids) b"

definition pk_backend_simulate_remove_packages :: "string list \<Rightarrow> bool \<Rightarrow> PkBackend \<Rightarrow> PkBackend" where
  "pk_backend_simulate_remove_packages package_ids autoremove b =
     backend_begin PK_ROLE_ENUM_SIMULATE_REMOVE_PACKAGES PK_ROLE_ENUM_SIMULATE_REMOVE_PACKAGES
       [put_strv ''package_ids'' package_ids,
         put_bool ''autoremove'' autoremove,
         put_bool ''hint:simulate'' True]
       (VF_simulate_remove_packages package_ids autoremove) b"

definition pk_backend_simulate_update_packages :: "string list \<Rightarrow> PkBackend \<Rightarrow> PkBackend" where
  "pk_backend_simulate_update_packages package_ids b =
     backend_begin PK_ROLE_ENUM_SIMULATE_UPDATE_PACKAGES PK_ROLE_ENUM_SIMULATE_UPDATE_PACKAGES
       [put_strv ''package_ids'' package_ids, put_bool ''hint:simulate'' True]
       (VF_simulate_update_packages package_ids) b"

definition pk_backend_upgrade_system :: "string option \<Rightarrow> PkUpgradeKindEnum \<Rightarrow> PkBackend \<Rightarrow> PkBackend" where
  "pk_backend_upgrade_system distro_id upgrade_kind b =
     backend_begin PK_ROLE_ENUM_UPGRADE_SYSTEM PK_ROLE_ENUM_UPGRADE_SYSTEM
       [put_string ''distro_id'' distro_id,
         put_uint ''upgrade_kind'' (of_nat (enum_value upgrade_kind))]
       (VF_upgrade_system distro_id upgrade_kind) b"

definition pk_backend_repair_system :: "bool \<Rightarrow> PkBackend \<Rightarrow> PkBackend" where
  "pk_backend_repair_system only_trusted b =
     backend_begin PK_ROLE_ENUM_REPAIR_SYSTEM PK_ROLE_ENUM_REPAIR_SYSTEM
       [put_bool ''only_trusted'' only_trusted]
       (VF_repair_system only_trusted) b"

text \<open>
  \<open>pk_backend_cancel\<close> calls its method without a test, and \<open>pk_backend_simulate_repair_system\<close>
  tests the method of \<open>repair_system\<close>: \<open>None\<close> is the jump through a \<open>NULL\<close> pointer.
\<close>

definition pk_backend_cancel :: "PkBackend \<Rightarrow> PkBackend option" where
  "pk_backend_cancel b =
     (if has_method PK_ROLE_ENUM_CANCEL b then Some (emit (VFUNC VF_cancel) b) else None)"

definition pk_backend_simulate_repair_system :: "PkBackend \<Rightarrow> PkBackend option" where
  "pk_backend_simulate_repair_system b =
     (if \<not> has_method PK_ROLE_ENUM_REPAIR_SYSTEM b then Some b
      else if \<not> has_method PK_ROLE_ENUM_SIMULATE_REPAIR_SYSTEM b then None
      else Some (backend_begin PK_ROLE_ENUM_REPAIR_SYSTEM PK_ROLE_ENUM_SIMULATE_REPAIR_SYSTEM
                   [put_bool ''hint:simulate'' True] VF_simulate_repair_system b))"

section \<open>Lemmas\<close>

lemma bit_foldl_add:
  "bit (foldl (\<lambda>roles r. if P r then pk_bitfield_add roles r else roles) a rs) n \<longleftrightarrow>
   bit a n \<or> n < 64 \<and> (\<exists>r \<in> set rs. P r \<and> n = enum_value r)"
  by (induction rs arbitrary: a) (auto simp: pk_bit_simps)

lemma role_value_less: "enum_value (r :: PkRoleEnum) < 64"
proof (cases "r = PK_ROLE_ENUM_LAST")
  case True
  then show ?thesis using t_role.enum_value_sentinel by (simp add: length_enum_tables)
next
  case False
  from t_role.value_less [OF this] show ?thesis by (simp add: length_enum_tables)
qed

lemma begin_call:
  assumes "has_method required b"
  shows "be_store (backend_begin required role puts call b) = foldl (\<lambda>st put. put st) (be_store b) puts \<and>
         last (emitted (backend_begin required role puts call b)) = VFUNC call \<and>
         (be_role b \<in> {PK_ROLE_ENUM_UNKNOWN, role} \<longrightarrow>
            be_role (backend_begin required role puts call b) = role \<and>
            be_status (backend_begin required role puts call b) = PK_STATUS_ENUM_WAIT)"
  using assms
  by (auto simp: backend_begin_def pk_backend_set_role_internal_def pk_backend_transaction_reset_def
      Let_def emit_def)

lemma simulate_repair_guard:
  "has_method PK_ROLE_ENUM_REPAIR_SYSTEM b \<Longrightarrow>
   pk_backend_simulate_repair_system b = None \<longleftrightarrow> \<not> has_method PK_ROLE_ENUM_SIMULATE_REPAIR_SYSTEM b"
  by (simp add: pk_backend_simulate_repair_system_def)

section \<open>Properties\<close>

lemma roles_computed:
  assumes "be_locked b" and "be_roles b = 0" and "be_desc b = Some d" and "desc_get_roles d = None"
  shows "pk_bitfield_contain (fst (pk_backend_get_roles b)) r \<longleftrightarrow>
           r \<in> set (desc_methods d) \<and> r \<in> set method_roles"
    and "snd (pk_backend_get_roles b) = b\<lparr>be_roles := fst (pk_backend_get_roles b)\<rparr>"
proof -
  have roles: "fst (pk_backend_get_roles b) =
      foldl (\<lambda>roles r. if has_method r b then pk_bitfield_add roles r else roles) 0 method_roles"
    using assms by (simp add: pk_backend_get_roles_def Let_def)
  have "has_method s b \<longleftrightarrow> s \<in> set (desc_methods d)" for s
    using assms(3) by (simp add: has_method_def has_vfunc_def)
  then show "pk_bitfield_contain (fst (pk_backend_get_roles b)) r \<longleftrightarrow>
      r \<in> set (desc_methods d) \<and> r \<in> set method_roles"
    unfolding roles
    by (auto simp: pk_bitfield_contain_bit bit_foldl_add role_value_less dest: enum_value_inj)
  show "snd (pk_backend_get_roles b) = b\<lparr>be_roles := fst (pk_backend_get_roles b)\<rparr>"
    using assms by (simp add: pk_backend_get_roles_def Let_def)
qed

text \<open>A locked backend whose plugin does not list its roles itself implements exactly the
  roles whose method the plugin has, and asking again gives the same answers from the cache.\<close>

theorem roles_are_methods:
  assumes "be_locked b" and "be_roles b = 0"
    and "be_desc b = Some d" and "desc_get_roles d = None"
  shows "(fst (pk_backend_is_implemented r b) \<longleftrightarrow> r \<in> set (desc_methods d) \<and> r \<in> set method_roles) \<and>
         (fst (pk_backend_is_implemented r (snd (pk_backend_is_implemented s b))) \<longleftrightarrow>
          fst (pk_backend_is_implemented r b))"
proof -
  have first: "fst (pk_backend_is_implemented r b) \<longleftrightarrow> r \<in> set (desc_methods d) \<and> r \<in> set method_roles"
    using roles_computed(1) [OF assms] by (simp add: pk_backend_is_implemented_def case_prod_unfold Let_def)
  define c where "c = b\<lparr>be_roles := fst (pk_backend_get_roles b)\<rparr>"
  have c: "snd (pk_backend_is_implemented s b) = c"
    using roles_computed(2) [OF assms] by (simp add: pk_backend_is_implemented_def c_def case_prod_unfold Let_def)
  have "fst (pk_backend_is_implemented r c) = fst (pk_backend_is_implemented r b)"
  proof (cases "be_roles c = 0")
    case True
    then have "c = b" using assms(2) by (simp add: c_def)
    then show ?thesis by simp
  next
    case False
    then have "pk_backend_get_roles c = (be_roles c, c)"
      using assms(1) by (simp add: pk_backend_get_roles_def c_def)
    then show ?thesis by (simp add: pk_backend_is_implemented_def c_def case_prod_unfold Let_def)
  qed
  with first c show ?thesis by simp
qed

lemma roles_are_methods_witness:
  "fst (pk_backend_is_implemented PK_ROLE_ENUM_GET_DETAILS example_backend) \<and>
   \<not> fst (pk_backend_is_implemented PK_ROLE_ENUM_CANCEL example_backend)"
proof -
  have ok: "be_locked example_backend" "be_roles example_backend = 0" "desc_get_roles example_desc = None"
    by code_simp+
  have "be_desc example_backend = Some example_desc"
    by (simp add: example_backend_def pk_backend_lock_def pk_backend_new_def pk_backend_reset_def
        reset_fields_def Let_def has_vfunc_def example_desc_def)
  with roles_are_methods [OF ok(1,2) _ ok(3)] show ?thesis
    by (simp add: example_desc_def method_roles_def)
qed

text \<open>A call reaches the plugin with its arguments saved: when the plugin resolves
  dependencies and the backend has no other role, \<open>pk_backend_get_depends\<close> sets the role,
  waits, ends with the call of the method, and the store then gives back the package list, the
  recursion flag and the low 32 bits of the filters (0 for the pattern 0xffffffff).\<close>

theorem get_depends_arguments:
  assumes "has_method PK_ROLE_ENUM_GET_DEPENDS b"
    and "be_role b = PK_ROLE_ENUM_UNKNOWN"
    and "b' = pk_backend_get_depends filters ids rec b"
  shows "be_role b' = PK_ROLE_ENUM_GET_DEPENDS \<and> be_status b' = PK_STATUS_ENUM_WAIT \<and>
         last (emitted b') = VFUNC (VF_get_depends filters ids rec) \<and>
         pk_store_get_strv (be_store b') ''package_ids'' = Some ids \<and>
         pk_store_get_bool (be_store b') ''recursive'' = of_bool rec \<and>
         pk_store_get_uint (be_store b') ''filters'' =
           (if (ucast filters :: guint) = - 1 then 0 else ucast filters)"
proof -
  have b': "be_store b' = put_bool ''recursive'' rec (put_strv ''package_ids'' ids
      (put_uint ''filters'' (ucast filters) (be_store b)))"
    "be_role b' = PK_ROLE_ENUM_GET_DEPENDS \<and> be_status b' = PK_STATUS_ENUM_WAIT \<and>
     last (emitted b') = VFUNC (VF_get_depends filters ids rec)"
    using begin_call [OF assms(1), of PK_ROLE_ENUM_GET_DEPENDS "[put_uint ''filters'' (ucast filters),
        put_strv ''package_ids'' ids, put_bool ''recursive'' rec]" "VF_get_depends filters ids rec"] assms(2,3)
    by (simp_all add: pk_backend_get_depends_def)
  have "(of_bool rec :: 32 word) \<noteq> - 1" by (cases rec) simp_all
  then have "pk_store_get_bool (be_store b') ''recursive'' = of_bool rec"
    unfolding b'(1) put_bool_def by (rule store_bool.look_put)
  moreover have "pk_store_get_strv (be_store b') ''package_ids'' = Some ids"
    by (simp add: b'(1) put_bool_def put_strv_def store_set_defs store_get_defs Let_def)
  moreover have "pk_store_get_uint (be_store b') ''filters'' =
      (if (ucast filters :: guint) = - 1 then 0 else ucast filters)"
    by (simp add: b'(1) put_bool_def put_strv_def put_uint_def store_set_defs store_get_defs Let_def
        uint_pointer_NULL plus_one_zero)
  ultimately show ?thesis using b'(2) by simp
qed

lemma get_depends_arguments_witness:
  "pk_store_get_uint (be_store (pk_backend_get_depends 4 [''a;1;i386;x''] True
     (example_backend\<lparr>be_desc := Some (example_desc\<lparr>desc_methods := [PK_ROLE_ENUM_GET_DEPENDS]\<rparr>)\<rparr>)))
     ''filters'' = 4"
proof -
  let ?b = "example_backend\<lparr>be_desc := Some (example_desc\<lparr>desc_methods := [PK_ROLE_ENUM_GET_DEPENDS]\<rparr>)\<rparr>"
  have "has_method PK_ROLE_ENUM_GET_DEPENDS ?b" "be_role ?b = PK_ROLE_ENUM_UNKNOWN"
    by code_simp+
  from get_depends_arguments [OF this refl, of 4 "[''a;1;i386;x'']" True] show ?thesis by simp
qed

end
