(* ===== verification/PK_Transaction.thy ===== *)
theory PK_Transaction
  imports PK_Backend_Calls
begin

text \<open>
  One transaction of the daemon (\<open>src/src/pk-transaction.c\<close>) as an object of its own: its state,
  what it announces on the bus, how it passes the reports of the backend on to the client, and
  the checks on the texts that a client may send. Every D-Bus signal of the object path of the
  transaction is appended to \<open>tr_emitted\<close>. What a transaction does together with the list of
  transactions and the backend is in the theories that import this one.
\<close>

section \<open>States and errors\<close>

datatype PkTransactionState =
    PK_TRANSACTION_STATE_NEW | PK_TRANSACTION_STATE_WAITING_FOR_AUTH
  | PK_TRANSACTION_STATE_COMMITTED | PK_TRANSACTION_STATE_READY | PK_TRANSACTION_STATE_RUNNING
  | PK_TRANSACTION_STATE_FINISHED | PK_TRANSACTION_STATE_UNKNOWN

text \<open>The enumerators in declared order: the code compares states with \<open>>\<close>.\<close>

definition PkTransactionState_values :: "PkTransactionState list" where
  "PkTransactionState_values =
     [PK_TRANSACTION_STATE_NEW,
      PK_TRANSACTION_STATE_WAITING_FOR_AUTH,
      PK_TRANSACTION_STATE_COMMITTED,
      PK_TRANSACTION_STATE_READY,
      PK_TRANSACTION_STATE_RUNNING,
      PK_TRANSACTION_STATE_FINISHED,
      PK_TRANSACTION_STATE_UNKNOWN]"

lemma set_PkTransactionState_values: "set PkTransactionState_values = UNIV"
  unfolding PkTransactionState_values_def by (rule UNIV_eq_I [symmetric], rename_tac x, case_tac x) simp_all

lemma distinct_PkTransactionState_values: "distinct PkTransactionState_values"
  by (simp add: PkTransactionState_values_def)

instantiation PkTransactionState :: enum
begin

definition enum_PkTransactionState where "enum_class.enum = PkTransactionState_values"
definition enum_all_PkTransactionState where "enum_class.enum_all P = list_all P PkTransactionState_values"
definition enum_ex_PkTransactionState where "enum_class.enum_ex P = list_ex P PkTransactionState_values"

instance
  by standard
    (simp_all add: enum_PkTransactionState_def enum_all_PkTransactionState_def enum_ex_PkTransactionState_def set_PkTransactionState_values
      distinct_PkTransactionState_values list_all_iff list_ex_iff)

end

instantiation PkTransactionState :: linorder
begin

definition less_eq_PkTransactionState :: "PkTransactionState \<Rightarrow> PkTransactionState \<Rightarrow> bool" where
  "less_eq_PkTransactionState s t = (enum_value s \<le> enum_value t)"

definition less_PkTransactionState :: "PkTransactionState \<Rightarrow> PkTransactionState \<Rightarrow> bool" where
  "less_PkTransactionState s t = (enum_value s < enum_value t)"

instance
  by standard
    (auto simp: less_eq_PkTransactionState_def less_PkTransactionState_def intro: enum_value_inj)

end

lemmas state_order =
  less_eq_PkTransactionState_def less_PkTransactionState_def enum_value_def
  enum_PkTransactionState_def PkTransactionState_values_def

datatype PkTransactionError =
    PK_TRANSACTION_ERROR_DENIED | PK_TRANSACTION_ERROR_NOT_RUNNING | PK_TRANSACTION_ERROR_NO_ROLE
  | PK_TRANSACTION_ERROR_CANNOT_CANCEL | PK_TRANSACTION_ERROR_NOT_SUPPORTED
  | PK_TRANSACTION_ERROR_NO_SUCH_TRANSACTION | PK_TRANSACTION_ERROR_NO_SUCH_FILE
  | PK_TRANSACTION_ERROR_NO_SUCH_DIRECTORY | PK_TRANSACTION_ERROR_TRANSACTION_EXISTS_WITH_ROLE
  | PK_TRANSACTION_ERROR_REFUSED_BY_POLICY | PK_TRANSACTION_ERROR_PACKAGE_ID_INVALID
  | PK_TRANSACTION_ERROR_SEARCH_INVALID | PK_TRANSACTION_ERROR_SEARCH_PATH_INVALID
  | PK_TRANSACTION_ERROR_FILTER_INVALID | PK_TRANSACTION_ERROR_INPUT_INVALID
  | PK_TRANSACTION_ERROR_INVALID_STATE | PK_TRANSACTION_ERROR_INITIALIZE_FAILED
  | PK_TRANSACTION_ERROR_COMMIT_FAILED | PK_TRANSACTION_ERROR_INVALID_PROVIDE
  | PK_TRANSACTION_ERROR_PACK_INVALID | PK_TRANSACTION_ERROR_MIME_TYPE_NOT_SUPPORTED
  | PK_TRANSACTION_ERROR_NUMBER_OF_PACKAGES_INVALID | PK_TRANSACTION_ERROR_LAST

text \<open>The names that the errors have on the bus.\<close>

fun pk_transaction_error_name :: "PkTransactionError \<Rightarrow> string option" where
  "pk_transaction_error_name PK_TRANSACTION_ERROR_DENIED = Some ''PermissionDenied''"
| "pk_transaction_error_name PK_TRANSACTION_ERROR_NOT_RUNNING = Some ''NotRunning''"
| "pk_transaction_error_name PK_TRANSACTION_ERROR_NO_ROLE = Some ''NoRole''"
| "pk_transaction_error_name PK_TRANSACTION_ERROR_CANNOT_CANCEL = Some ''CannotCancel''"
| "pk_transaction_error_name PK_TRANSACTION_ERROR_NOT_SUPPORTED = Some ''NotSupported''"
| "pk_transaction_error_name PK_TRANSACTION_ERROR_NO_SUCH_TRANSACTION = Some ''NoSuchTransaction''"
| "pk_transaction_error_name PK_TRANSACTION_ERROR_NO_SUCH_FILE = Some ''NoSuchFile''"
| "pk_transaction_error_name PK_TRANSACTION_ERROR_NO_SUCH_DIRECTORY = Some ''NoSuchDirectory''"
| "pk_transaction_error_name PK_TRANSACTION_ERROR_TRANSACTION_EXISTS_WITH_ROLE =
     Some ''TransactionExistsWithRole''"
| "pk_transaction_error_name PK_TRANSACTION_ERROR_REFUSED_BY_POLICY = Some ''RefusedByPolicy''"
| "pk_transaction_error_name PK_TRANSACTION_ERROR_PACKAGE_ID_INVALID = Some ''PackageIdInvalid''"
| "pk_transaction_error_name PK_TRANSACTION_ERROR_SEARCH_INVALID = Some ''SearchInvalid''"
| "pk_transaction_error_name PK_TRANSACTION_ERROR_SEARCH_PATH_INVALID = Some ''SearchPathInvalid''"
| "pk_transaction_error_name PK_TRANSACTION_ERROR_FILTER_INVALID = Some ''FilterInvalid''"
| "pk_transaction_error_name PK_TRANSACTION_ERROR_INPUT_INVALID = Some ''InputInvalid''"
| "pk_transaction_error_name PK_TRANSACTION_ERROR_INVALID_STATE = Some ''InvalidState''"
| "pk_transaction_error_name PK_TRANSACTION_ERROR_INITIALIZE_FAILED = Some ''InitializeFailed''"
| "pk_transaction_error_name PK_TRANSACTION_ERROR_COMMIT_FAILED = Some ''CommitFailed''"
| "pk_transaction_error_name PK_TRANSACTION_ERROR_PACK_INVALID = Some ''PackInvalid''"
| "pk_transaction_error_name PK_TRANSACTION_ERROR_MIME_TYPE_NOT_SUPPORTED =
     Some ''MimeTypeNotSupported''"
| "pk_transaction_error_name PK_TRANSACTION_ERROR_INVALID_PROVIDE = Some ''InvalidProvide''"
| "pk_transaction_error_name PK_TRANSACTION_ERROR_NUMBER_OF_PACKAGES_INVALID =
     Some ''NumberOfPackagesInvalid''"
| "pk_transaction_error_name PK_TRANSACTION_ERROR_LAST = None"

type_synonym gerror = "PkTransactionError \<times> string"

datatype PkBackendSignal =
    PK_BACKEND_SIGNAL_ALLOW_CANCEL | PK_BACKEND_SIGNAL_DETAILS | PK_BACKEND_SIGNAL_ERROR_CODE
  | PK_BACKEND_SIGNAL_DISTRO_UPGRADE | PK_BACKEND_SIGNAL_FINISHED | PK_BACKEND_SIGNAL_MESSAGE
  | PK_BACKEND_SIGNAL_PACKAGE | PK_BACKEND_SIGNAL_ITEM_PROGRESS | PK_BACKEND_SIGNAL_FILES
  | PK_BACKEND_SIGNAL_NOTIFY_PERCENTAGE | PK_BACKEND_SIGNAL_NOTIFY_SUBPERCENTAGE
  | PK_BACKEND_SIGNAL_NOTIFY_REMAINING | PK_BACKEND_SIGNAL_NOTIFY_SPEED
  | PK_BACKEND_SIGNAL_REPO_DETAIL | PK_BACKEND_SIGNAL_REPO_SIGNATURE_REQUIRED
  | PK_BACKEND_SIGNAL_EULA_REQUIRED | PK_BACKEND_SIGNAL_MEDIA_CHANGE_REQUIRED
  | PK_BACKEND_SIGNAL_REQUIRE_RESTART | PK_BACKEND_SIGNAL_STATUS_CHANGED
  | PK_BACKEND_SIGNAL_UPDATE_DETAIL | PK_BACKEND_SIGNAL_CATEGORY

definition PkBackendSignal_values :: "PkBackendSignal list" where
  "PkBackendSignal_values =
     [PK_BACKEND_SIGNAL_ALLOW_CANCEL,
      PK_BACKEND_SIGNAL_DETAILS,
      PK_BACKEND_SIGNAL_ERROR_CODE,
      PK_BACKEND_SIGNAL_DISTRO_UPGRADE,
      PK_BACKEND_SIGNAL_FINISHED,
      PK_BACKEND_SIGNAL_MESSAGE,
      PK_BACKEND_SIGNAL_PACKAGE,
      PK_BACKEND_SIGNAL_ITEM_PROGRESS,
      PK_BACKEND_SIGNAL_FILES,
      PK_BACKEND_SIGNAL_NOTIFY_PERCENTAGE,
      PK_BACKEND_SIGNAL_NOTIFY_SUBPERCENTAGE,
      PK_BACKEND_SIGNAL_NOTIFY_REMAINING,
      PK_BACKEND_SIGNAL_NOTIFY_SPEED,
      PK_BACKEND_SIGNAL_REPO_DETAIL,
      PK_BACKEND_SIGNAL_REPO_SIGNATURE_REQUIRED,
      PK_BACKEND_SIGNAL_EULA_REQUIRED,
      PK_BACKEND_SIGNAL_MEDIA_CHANGE_REQUIRED,
      PK_BACKEND_SIGNAL_REQUIRE_RESTART,
      PK_BACKEND_SIGNAL_STATUS_CHANGED,
      PK_BACKEND_SIGNAL_UPDATE_DETAIL,
      PK_BACKEND_SIGNAL_CATEGORY]"

lemma set_PkBackendSignal_values: "set PkBackendSignal_values = UNIV"
  unfolding PkBackendSignal_values_def by (rule UNIV_eq_I [symmetric], rename_tac x, case_tac x) simp_all

lemma distinct_PkBackendSignal_values: "distinct PkBackendSignal_values"
  by (simp add: PkBackendSignal_values_def)

instantiation PkBackendSignal :: enum
begin

definition enum_PkBackendSignal where "enum_class.enum = PkBackendSignal_values"
definition enum_all_PkBackendSignal where "enum_class.enum_all P = list_all P PkBackendSignal_values"
definition enum_ex_PkBackendSignal where "enum_class.enum_ex P = list_ex P PkBackendSignal_values"

instance
  by standard
    (simp_all add: enum_PkBackendSignal_def enum_all_PkBackendSignal_def enum_ex_PkBackendSignal_def set_PkBackendSignal_values
      distinct_PkBackendSignal_values list_all_iff list_ex_iff)

end

section \<open>The bus\<close>

text \<open>
  The signals of the interface \<open>org.freedesktop.PackageKit.Transaction\<close>, with their arguments
  in the order of the code. \<open>DBUS_UpdateDetail\<close> and \<open>DBUS_RepoSignatureRequired\<close> carry twelve
  and eight texts. An argument that the code does not guard against \<open>NULL\<close> is an option.
\<close>

datatype dbus_value = V_uint guint | V_string string | V_bool bool

datatype dbus_signal =
    DBUS_PropertiesChanged string dbus_value
  | DBUS_Changed
  | DBUS_Finished string guint
  | DBUS_ErrorCode string string
  | DBUS_Details string string string string string guint64
  | DBUS_Files string string
  | DBUS_Category "string option" string "string option" "string option" string
  | DBUS_ItemProgress string guint
  | DBUS_DistroUpgrade string "string option" string
  | DBUS_Package string string "string option"
  | DBUS_RepoDetail string string bool
  | DBUS_RepoSignatureRequired "string option list"
  | DBUS_EulaRequired string string string string
  | DBUS_MediaChangeRequired string string string
  | DBUS_RequireRestart string string
  | DBUS_Message string string
  | DBUS_UpdateDetail "string list"
  | DBUS_Destroy

section \<open>The object\<close>

record PkTransaction =
  tr_role :: PkRoleEnum
  tr_status :: PkStatusEnum
  tr_state :: PkTransactionState
  tr_percentage :: guint
  tr_subpercentage :: guint
  tr_elapsed_time :: guint
  tr_remaining_time :: guint
  tr_speed :: guint
  tr_finished :: bool
  tr_allow_cancel :: bool
  tr_waiting_for_auth :: bool
  tr_emit_eula_required :: bool
  tr_emit_signature_required :: bool
  tr_emit_media_change_required :: bool
  tr_caller_active :: bool
  tr_background :: PkHintEnum
  tr_interactive :: PkHintEnum
  tr_locale :: "string option"
  tr_frontend_socket :: "string option"
  tr_cache_age :: guint
  tr_uid :: guint
  tr_subject :: bool
  tr_last_package_id :: "string option"
  tr_tid :: "string option"
  tr_sender :: "string option"
  tr_cmdline :: "string option"
  tr_results :: PkResults
  cached_force :: bool
  cached_allow_deps :: bool
  cached_autoremove :: bool
  cached_enabled :: bool
  cached_only_trusted :: bool
  cached_package_id :: "string option"
  cached_package_ids :: "string list"
  cached_transaction_id :: "string option"
  cached_full_paths :: "string list"
  cached_filters :: PkBitfield
  cached_values :: "string list"
  cached_repo_id :: "string option"
  cached_key_id :: "string option"
  cached_parameter :: "string option"
  cached_value :: "string option"
  cached_directory :: "string option"
  cached_provides :: PkProvidesEnum
  cached_upgrade_kind :: PkUpgradeKindEnum
  tr_signals :: "PkBackendSignal list"
  supported_content_types :: "string list"
  tr_emitted :: "dbus_signal list"

text \<open>
  \<open>cached_upgrade_kind\<close> is no field of the code: \<open>UpgradeSystem\<close> writes its kind into
  \<open>cached_provides\<close>, an integer field of another enumeration, and reads it back from there. A
  \<open>gchar **\<close> that is still \<open>NULL\<close> is the empty list. \<open>tr_subject\<close> says that the PolicyKit
  subject exists.
\<close>

definition PK_TRANSACTION_UID_INVALID :: guint where
  "PK_TRANSACTION_UID_INVALID = G_MAXUINT"

definition pk_transaction_setup_mime_types :: "string option \<Rightarrow> PkTransaction \<Rightarrow> PkTransaction" where
  "pk_transaction_setup_mime_types mime_types_str t =
     t\<lparr>supported_content_types := supported_content_types t @
         (case mime_types_str of None \<Rightarrow> [] | Some s \<Rightarrow> g_strsplit CHR '';'' s)\<rparr>"

text \<open>\<open>pk_transaction_init\<close>; the argument is what \<open>pk_backend_get_mime_types\<close> answers.\<close>

definition pk_transaction_new :: "string option \<Rightarrow> PkTransaction" where
  "pk_transaction_new mime_types =
     pk_transaction_setup_mime_types mime_types
       \<lparr>tr_role = PK_ROLE_ENUM_UNKNOWN, tr_status = PK_STATUS_ENUM_WAIT,
        tr_state = PK_TRANSACTION_STATE_UNKNOWN, tr_percentage = PK_BACKEND_PERCENTAGE_INVALID,
        tr_subpercentage = PK_BACKEND_PERCENTAGE_INVALID, tr_elapsed_time = 0,
        tr_remaining_time = 0, tr_speed = 0, tr_finished = False, tr_allow_cancel = True,
        tr_waiting_for_auth = False, tr_emit_eula_required = False,
        tr_emit_signature_required = False, tr_emit_media_change_required = False,
        tr_caller_active = True, tr_background = PK_HINT_ENUM_UNSET,
        tr_interactive = PK_HINT_ENUM_FALSE, tr_locale = None, tr_frontend_socket = None,
        tr_cache_age = 0, tr_uid = PK_TRANSACTION_UID_INVALID, tr_subject = False,
        tr_last_package_id = None, tr_tid = None, tr_sender = None, tr_cmdline = None,
        tr_results = pk_results_new, cached_force = False, cached_allow_deps = False,
        cached_autoremove = False, cached_enabled = False, cached_only_trusted = True,
        cached_package_id = None, cached_package_ids = [], cached_transaction_id = None,
        cached_full_paths = [], cached_filters = of_nat (enum_value PK_FILTER_ENUM_NONE),
        cached_values = [], cached_repo_id = None, cached_key_id = None, cached_parameter = None,
        cached_value = None, cached_directory = None, cached_provides = PK_PROVIDES_ENUM_UNKNOWN,
        cached_upgrade_kind = PK_UPGRADE_KIND_ENUM_UNKNOWN, tr_signals = [],
        supported_content_types = [], tr_emitted = []\<rparr>"

definition tr_emit :: "dbus_signal \<Rightarrow> PkTransaction \<Rightarrow> PkTransaction" where
  "tr_emit s t = t\<lparr>tr_emitted := tr_emitted t @ [s]\<rparr>"

definition tr_result :: "(PkResults \<Rightarrow> PkResults) \<Rightarrow> PkTransaction \<Rightarrow> PkTransaction" where
  "tr_result f t = t\<lparr>tr_results := f (tr_results t)\<rparr>"

definition pk_transaction_set_role :: "PkRoleEnum \<Rightarrow> PkTransaction \<Rightarrow> PkTransaction" where
  "pk_transaction_set_role role t = t\<lparr>tr_role := role\<rparr>"

section \<open>Announcements\<close>

definition pk_transaction_emit_property_changed ::
  "string \<Rightarrow> dbus_value \<Rightarrow> PkTransaction \<Rightarrow> PkTransaction" where
  "pk_transaction_emit_property_changed property_name property_value t =
     tr_emit (DBUS_PropertiesChanged property_name property_value) t"

definition pk_transaction_emit_changed :: "PkTransaction \<Rightarrow> PkTransaction" where
  "pk_transaction_emit_changed t = tr_emit DBUS_Changed t"

definition pk_transaction_progress_changed_emit ::
  "guint \<Rightarrow> guint \<Rightarrow> guint \<Rightarrow> guint \<Rightarrow> PkTransaction \<Rightarrow> PkTransaction" where
  "pk_transaction_progress_changed_emit percentage subpercentage elapsed remaining t =
     (let t = t\<lparr>tr_percentage := percentage, tr_subpercentage := subpercentage,
                tr_elapsed_time := elapsed, tr_remaining_time := remaining\<rparr>;
          t = pk_transaction_emit_property_changed ''Percentage'' (V_uint percentage) t;
          t = pk_transaction_emit_property_changed ''Subpercentage'' (V_uint subpercentage) t;
          t = pk_transaction_emit_property_changed ''ElapsedTime'' (V_uint elapsed) t;
          t = pk_transaction_emit_property_changed ''RemainingTime'' (V_uint remaining) t
      in pk_transaction_emit_changed t)"

definition pk_transaction_allow_cancel_emit :: "bool \<Rightarrow> PkTransaction \<Rightarrow> PkTransaction" where
  "pk_transaction_allow_cancel_emit allow_cancel t =
     (if tr_allow_cancel t = allow_cancel then t
      else
        let t = t\<lparr>tr_allow_cancel := allow_cancel\<rparr>;
            t = pk_transaction_emit_property_changed ''AllowCancel'' (V_bool allow_cancel) t
        in pk_transaction_emit_changed t)"

definition pk_transaction_status_changed_emit :: "PkStatusEnum \<Rightarrow> PkTransaction \<Rightarrow> PkTransaction" where
  "pk_transaction_status_changed_emit status t =
     (if tr_status t = status then t
      else
        let t = t\<lparr>tr_status := status\<rparr>;
            t = pk_transaction_emit_property_changed ''Status''
                  (V_string (pk_status_enum_to_string status)) t
        in pk_transaction_emit_changed t)"

text \<open>The bus part of \<open>pk_transaction_finished_emit\<close>; the list of transactions comes next.\<close>

definition finished_signal :: "PkExitEnum \<Rightarrow> guint \<Rightarrow> PkTransaction \<Rightarrow> PkTransaction" where
  "finished_signal exit_enum time_ms t =
     tr_emit (DBUS_Finished (pk_exit_enum_to_string exit_enum) time_ms) t"

definition pk_transaction_error_code_emit ::
  "PkErrorEnum \<Rightarrow> string \<Rightarrow> PkTransaction \<Rightarrow> PkTransaction" where
  "pk_transaction_error_code_emit error_enum details t =
     tr_emit (DBUS_ErrorCode (pk_error_enum_to_string error_enum) details) t"

section \<open>The state of a transaction\<close>

definition pk_transaction_state_to_string :: "PkTransactionState \<Rightarrow> string option" where
  "pk_transaction_state_to_string state =
     (if state = PK_TRANSACTION_STATE_NEW then Some ''new''
      else if state = PK_TRANSACTION_STATE_WAITING_FOR_AUTH then Some ''waiting-for-auth''
      else if state = PK_TRANSACTION_STATE_COMMITTED then Some ''committed''
      else if state = PK_TRANSACTION_STATE_READY then Some ''ready''
      else if state = PK_TRANSACTION_STATE_RUNNING then Some ''running''
      else if state = PK_TRANSACTION_STATE_FINISHED then Some ''finished''
      else None)"

function pk_transaction_set_state ::
  "PkTransactionState \<Rightarrow> PkTransaction \<Rightarrow> bool \<times> PkTransaction" where
  "pk_transaction_set_state state t =
     (if tr_state t \<noteq> PK_TRANSACTION_STATE_UNKNOWN \<and> state < tr_state t then (False, t)
      else
        let t = t\<lparr>tr_state := state\<rparr>;
            t = (if state = PK_TRANSACTION_STATE_WAITING_FOR_AUTH then
                   pk_transaction_progress_changed_emit PK_BACKEND_PERCENTAGE_INVALID
                     PK_BACKEND_PERCENTAGE_INVALID 0 0
                     (pk_transaction_status_changed_emit PK_STATUS_ENUM_WAITING_FOR_AUTH t)
                 else if state = PK_TRANSACTION_STATE_READY then
                   pk_transaction_progress_changed_emit PK_BACKEND_PERCENTAGE_INVALID
                     PK_BACKEND_PERCENTAGE_INVALID 0 0
                     (pk_transaction_status_changed_emit PK_STATUS_ENUM_WAIT t)
                 else t)
        in if state = PK_TRANSACTION_STATE_COMMITTED
           then pk_transaction_set_state PK_TRANSACTION_STATE_READY t
           else (True, t))"
  by pat_completeness auto
termination
  by (relation "measure (\<lambda>(state, t). if state = PK_TRANSACTION_STATE_COMMITTED then 1 else 0)") auto

declare pk_transaction_set_state.simps [simp del]

definition pk_transaction_set_tid :: "string \<Rightarrow> PkTransaction \<Rightarrow> bool \<times> PkTransaction" where
  "pk_transaction_set_tid tid t =
     (if tr_tid t \<noteq> None then (False, t) else (True, t\<lparr>tr_tid := Some tid\<rparr>))"

text \<open>\<open>cmdline\<close> and \<open>uid\<close> are what \<open>pk-dbus.c\<close> finds out about the sender.\<close>

definition pk_transaction_set_sender ::
  "string option \<Rightarrow> guint \<Rightarrow> string option \<Rightarrow> PkTransaction \<Rightarrow> bool \<times> PkTransaction" where
  "pk_transaction_set_sender cmdline uid sender t =
     (if sender = None then (False, t)
      else if tr_sender t \<noteq> None then (False, t)
      else (True, t\<lparr>tr_sender := sender, tr_subject := True, tr_cmdline := cmdline, tr_uid := uid\<rparr>))"

definition pk_transaction_vanished_cb :: "PkTransaction \<Rightarrow> PkTransaction" where
  "pk_transaction_vanished_cb t =
     (let t = t\<lparr>tr_caller_active := False\<rparr>;
          t = pk_transaction_emit_property_changed ''CallerActive'' (V_bool (tr_caller_active t)) t
      in pk_transaction_emit_changed t)"

text \<open>The bus part of \<open>pk_transaction_dispose\<close>: the list is no longer connected then.\<close>

definition pk_transaction_dispose :: "PkTransaction \<Rightarrow> PkTransaction" where
  "pk_transaction_dispose t =
     (let t = (if tr_waiting_for_auth t then
                 finished_signal PK_EXIT_ENUM_FAILED 0
                   (pk_transaction_error_code_emit PK_ERROR_ENUM_NOT_AUTHORIZED
                      ''client did not authorize action'' t)
               else t)
      in if tr_tid t \<noteq> None then tr_emit DBUS_Destroy t else t)"

end
