(* ===== verification/PK_Transaction_Reports.thy ===== *)
theory PK_Transaction_Reports
  imports PK_Transaction
begin

text \<open>
  How a transaction passes the reports of the backend on to its client: the signal callbacks of
  \<open>src/src/pk-transaction.c\<close>, and which of them are connected. Three callbacks can complain to
  the backend before they do anything else; the texts of those complaints are functions of
  their own here, because a complaint goes out as a message of the backend.
\<close>

section \<open>Connections\<close>

definition PK_TRANSACTION_ALL_BACKEND_SIGNALS :: PkBitfield where
  "PK_TRANSACTION_ALL_BACKEND_SIGNALS = 0xffffffff"

definition PK_TRANSACTION_NO_BACKEND_SIGNALS :: PkBitfield where
  "PK_TRANSACTION_NO_BACKEND_SIGNALS = 0"

text \<open>
  A callback is connected exactly when the bit of its signal is set, whether it was before or
  not; it is never connected twice.
\<close>

definition pk_transaction_set_signals :: "PkBitfield \<Rightarrow> PkTransaction \<Rightarrow> PkTransaction" where
  "pk_transaction_set_signals backend_signals t =
     t\<lparr>tr_signals := filter (pk_bitfield_contain backend_signals) PkBackendSignal_values\<rparr>"

text \<open>The signals that stay connected while the second phase of the plugins runs.\<close>

definition finished_phase_signals :: PkBitfield where
  "finished_phase_signals =
     pk_bitfield_from_enums PK_BACKEND_SIGNAL_ALLOW_CANCEL
       [PK_BACKEND_SIGNAL_MESSAGE, PK_BACKEND_SIGNAL_NOTIFY_PERCENTAGE,
        PK_BACKEND_SIGNAL_NOTIFY_SUBPERCENTAGE, PK_BACKEND_SIGNAL_NOTIFY_REMAINING,
        PK_BACKEND_SIGNAL_REQUIRE_RESTART, PK_BACKEND_SIGNAL_STATUS_CHANGED,
        PK_BACKEND_SIGNAL_ITEM_PROGRESS]"

section \<open>Callbacks\<close>

definition pk_transaction_allow_cancel_cb :: "bool \<Rightarrow> PkTransaction \<Rightarrow> PkTransaction" where
  "pk_transaction_allow_cancel_cb allow_cancel t = pk_transaction_allow_cancel_emit allow_cancel t"

definition pk_transaction_details_cb :: "PkDetails \<Rightarrow> PkTransaction \<Rightarrow> PkTransaction" where
  "pk_transaction_details_cb item t =
     (let t = tr_result (pk_results_add_details item) t
      in tr_emit (DBUS_Details (dt_package_id item) (or_empty (dt_license item))
                    (pk_group_enum_to_string (dt_group item)) (or_empty (dt_description item))
                    (or_empty (dt_url item)) (dt_size item)) t)"

definition error_code_complaint :: "PkError \<Rightarrow> PkTransaction \<Rightarrow> string option" where
  "error_code_complaint item t =
     (if er_code item = PK_ERROR_ENUM_UNKNOWN then
        Some (pk_role_enum_to_string (tr_role t) @
              '' emitted 'unknown error' rather than a specific error '' @
              ''- this is a backend problem and should be fixed!'')
      else None)"

definition pk_transaction_error_code_cb :: "PkError \<Rightarrow> PkTransaction \<Rightarrow> PkTransaction" where
  "pk_transaction_error_code_cb item t =
     (let t = tr_result (pk_results_set_error_code item) t
      in pk_transaction_error_code_emit (er_code item) (er_details item) t)"

definition files_complaints :: "PkFiles \<Rightarrow> PkTransaction \<Rightarrow> string list" where
  "files_complaints item t =
     (if tr_role t = PK_ROLE_ENUM_DOWNLOAD_PACKAGES then
        (case cached_directory t of
           None \<Rightarrow> []
         | Some dir \<Rightarrow>
             map (\<lambda>f. f @ '' does not have the correct prefix ('' @ dir @ '')'')
               (filter (\<lambda>f. \<not> g_str_has_prefix f dir) (fl_files item)))
      else [])"

definition pk_transaction_files_cb :: "PkFiles \<Rightarrow> PkTransaction \<Rightarrow> PkTransaction" where
  "pk_transaction_files_cb item t =
     (let t = tr_result (pk_results_add_files item) t;
          filelist = g_strjoinv '';'' (fl_files item)
      in tr_emit (DBUS_Files (fl_package_id item) filelist) t)"

definition pk_transaction_category_cb :: "PkCategory \<Rightarrow> PkTransaction \<Rightarrow> PkTransaction" where
  "pk_transaction_category_cb item t =
     (let t = tr_result (pk_results_add_category item) t
      in tr_emit (DBUS_Category (ct_parent_id item) (ct_cat_id item) (ct_name item)
                    (ct_summary item) (or_empty (ct_icon item))) t)"

definition pk_transaction_item_progress_cb ::
  "string \<Rightarrow> guint \<Rightarrow> PkTransaction \<Rightarrow> PkTransaction" where
  "pk_transaction_item_progress_cb package_id percentage t =
     tr_emit (DBUS_ItemProgress package_id percentage) t"

definition pk_transaction_distro_upgrade_cb :: "PkDistroUpgrade \<Rightarrow> PkTransaction \<Rightarrow> PkTransaction" where
  "pk_transaction_distro_upgrade_cb item t =
     (let t = tr_result (pk_results_add_distro_upgrade item) t
      in tr_emit (DBUS_DistroUpgrade (pk_distro_upgrade_enum_to_string (du_state item))
                    (du_name item) (or_empty (du_summary item))) t)"

text \<open>\<open>printf\<close> writes a missing summary as \<open>(null)\<close>.\<close>

definition pk_transaction_package_list_to_string :: "PkPackage list \<Rightarrow> string" where
  "pk_transaction_package_list_to_string array =
     (let string = concat (map (\<lambda>item. pk_info_enum_to_string (pkg_info item) @ [CHR 0x09] @
                     pkg_id item @ [CHR 0x09] @
                     (case pkg_summary item of Some s \<Rightarrow> s | None \<Rightarrow> ''(null)'') @ [CHR 0x0A]) array)
      in if length string \<noteq> 0 then take (length string - 1) string else string)"

text \<open>\<open>developer_mode\<close> is the value of \<open>DeveloperMode\<close> in the configuration.\<close>

definition pk_transaction_message_cb :: "bool \<Rightarrow> PkMessage \<Rightarrow> PkTransaction \<Rightarrow> PkTransaction" where
  "pk_transaction_message_cb developer_mode item t =
     (if \<not> developer_mode \<and>
         (ms_type item = PK_MESSAGE_ENUM_BACKEND_ERROR \<or> ms_type item = PK_MESSAGE_ENUM_DAEMON_ERROR)
      then t
      else
        let t = tr_result (pk_results_add_message item) t
        in tr_emit (DBUS_Message (pk_message_enum_to_string (ms_type item)) (ms_details item)) t)"

text \<open>A package that the transaction should not have got is not passed on, only complained about.\<close>

definition package_complaint :: "PkPackage \<Rightarrow> PkTransaction \<Rightarrow> string option" where
  "package_complaint item t =
     (let info = pkg_info item; role_text = pk_role_enum_to_string (tr_role t) in
      if (tr_role t = PK_ROLE_ENUM_UPDATE_SYSTEM \<or> tr_role t = PK_ROLE_ENUM_INSTALL_PACKAGES \<or>
          tr_role t = PK_ROLE_ENUM_UPDATE_PACKAGES) \<and> info = PK_INFO_ENUM_INSTALLED
      then Some (role_text @ '' emitted 'installed' rather than 'installing' '' @
                 ''- you need to do the package *before* you do the action'')
      else if pk_bitfield_contain (cached_filters t) PK_FILTER_ENUM_NOT_INSTALLED \<and>
              info = PK_INFO_ENUM_INSTALLED
      then Some (role_text @ '' emitted package that was installed when '' @
                 ''the ~installed filter is in place'')
      else if pk_bitfield_contain (cached_filters t) PK_FILTER_ENUM_INSTALLED \<and>
              info = PK_INFO_ENUM_AVAILABLE
      then Some (role_text @ '' emitted package that was ~installed when '' @
                 ''the installed filter is in place'')
      else None)"

definition package_accept :: "PkPackage \<Rightarrow> PkTransaction \<Rightarrow> PkTransaction" where
  "package_accept item t =
     (let t = (if pkg_info item \<noteq> PK_INFO_ENUM_FINISHED
               then tr_result (pk_results_add_package item) t else t);
          t = t\<lparr>tr_last_package_id := Some (pkg_id item)\<rparr>
      in tr_emit (DBUS_Package (pk_info_enum_to_string (pkg_info item)) (pkg_id item)
                    (Some (or_empty (pkg_summary item)))) t)"

definition pk_transaction_repo_detail_cb :: "PkRepoDetail \<Rightarrow> PkTransaction \<Rightarrow> PkTransaction" where
  "pk_transaction_repo_detail_cb item t =
     (let t = tr_result (pk_results_add_repo_detail item) t
      in tr_emit (DBUS_RepoDetail (rd_repo_id item) (or_empty (rd_description item))
                    (rd_enabled item)) t)"

definition pk_transaction_repo_signature_required_cb ::
  "PkRepoSignatureRequired \<Rightarrow> PkTransaction \<Rightarrow> PkTransaction" where
  "pk_transaction_repo_signature_required_cb item t =
     (let t = tr_result (pk_results_add_repo_signature_required item) t;
          t = tr_emit (DBUS_RepoSignatureRequired
                [sg_package_id item, Some (sg_repository_name item),
                 Some (or_empty (sg_key_url item)), Some (or_empty (sg_key_userid item)),
                 Some (or_empty (sg_key_id item)), Some (or_empty (sg_key_fingerprint item)),
                 Some (or_empty (sg_key_timestamp item)),
                 Some (pk_sig_type_enum_to_string (sg_type item))]) t
      in t\<lparr>tr_emit_signature_required := True\<rparr>)"

definition pk_transaction_eula_required_cb :: "PkEulaRequired \<Rightarrow> PkTransaction \<Rightarrow> PkTransaction" where
  "pk_transaction_eula_required_cb item t =
     (let t = tr_result (pk_results_add_eula_required item) t;
          t = tr_emit (DBUS_EulaRequired (eu_eula_id item) (eu_package_id item)
                (eu_vendor_name item) (eu_license_agreement item)) t
      in t\<lparr>tr_emit_eula_required := True\<rparr>)"

definition pk_transaction_media_change_required_cb ::
  "PkMediaChangeRequired \<Rightarrow> PkTransaction \<Rightarrow> PkTransaction" where
  "pk_transaction_media_change_required_cb item t =
     (let t = tr_result (pk_results_add_media_change_required item) t;
          t = tr_emit (DBUS_MediaChangeRequired (pk_media_type_enum_to_string (mc_media_type item))
                (mc_media_id item) (mc_media_text item)) t
      in t\<lparr>tr_emit_media_change_required := True\<rparr>)"

definition pk_transaction_require_restart_cb :: "PkRequireRestart \<Rightarrow> PkTransaction \<Rightarrow> PkTransaction" where
  "pk_transaction_require_restart_cb item t =
     (let found = (\<exists>item_tmp \<in> set (require_restart_array (tr_results t)).
                     rr_package_id item = rr_package_id item_tmp)
      in if found then t
         else
           let t = tr_result (pk_results_add_require_restart item) t
           in tr_emit (DBUS_RequireRestart (pk_restart_enum_to_string (rr_restart item))
                         (rr_package_id item)) t)"

definition pk_transaction_status_changed_cb :: "PkStatusEnum \<Rightarrow> PkTransaction \<Rightarrow> PkTransaction" where
  "pk_transaction_status_changed_cb status t =
     (if status = PK_STATUS_ENUM_WAIT then t
      else if tr_finished t then t
      else pk_transaction_status_changed_emit status t)"

definition pk_transaction_update_detail_cb :: "PkUpdateDetail \<Rightarrow> PkTransaction \<Rightarrow> PkTransaction" where
  "pk_transaction_update_detail_cb item t =
     (let t = tr_result (pk_results_add_update_detail item) t
      in tr_emit (DBUS_UpdateDetail
            [ud_package_id item, or_empty (ud_updates item), or_empty (ud_obsoletes item),
             or_empty (ud_vendor_url item), or_empty (ud_bugzilla_url item),
             or_empty (ud_cve_url item), pk_restart_enum_to_string (ud_restart item),
             or_empty (ud_update_text item), or_empty (ud_changelog item),
             pk_update_state_enum_to_string (ud_state item), or_empty (ud_issued item),
             or_empty (ud_updated item)]) t)"

text \<open>The four properties of the backend that are announced; the argument is their value.\<close>

definition property_changed :: "string \<Rightarrow> guint \<Rightarrow> PkTransaction \<Rightarrow> PkTransaction" where
  "property_changed name value t =
     pk_transaction_emit_changed (pk_transaction_emit_property_changed name (V_uint value) t)"

definition pk_transaction_speed_cb :: "guint \<Rightarrow> PkTransaction \<Rightarrow> PkTransaction" where
  "pk_transaction_speed_cb speed t = property_changed ''Speed'' speed (t\<lparr>tr_speed := speed\<rparr>)"

definition pk_transaction_percentage_cb :: "guint \<Rightarrow> PkTransaction \<Rightarrow> PkTransaction" where
  "pk_transaction_percentage_cb percentage t =
     property_changed ''Percentage'' percentage (t\<lparr>tr_percentage := percentage\<rparr>)"

definition pk_transaction_subpercentage_cb :: "guint \<Rightarrow> PkTransaction \<Rightarrow> PkTransaction" where
  "pk_transaction_subpercentage_cb subpercentage t =
     property_changed ''Subpercentage'' subpercentage (t\<lparr>tr_subpercentage := subpercentage\<rparr>)"

definition pk_transaction_remaining_cb :: "guint \<Rightarrow> PkTransaction \<Rightarrow> PkTransaction" where
  "pk_transaction_remaining_cb remaining t =
     property_changed ''RemainingTime'' remaining (t\<lparr>tr_remaining_time := remaining\<rparr>)"

section \<open>Properties\<close>

definition pk_transaction_get_property :: "string \<Rightarrow> PkTransaction \<Rightarrow> dbus_value option" where
  "pk_transaction_get_property property_name t =
     (if property_name = ''Role'' then Some (V_string (pk_role_enum_to_string (tr_role t)))
      else if property_name = ''Status'' then Some (V_string (pk_status_enum_to_string (tr_status t)))
      else if property_name = ''LastPackage'' then Some (V_string (or_empty (tr_last_package_id t)))
      else if property_name = ''Uid'' then Some (V_uint (tr_uid t))
      else if property_name = ''Percentage'' then Some (V_uint (tr_percentage t))
      else if property_name = ''Subpercentage'' then Some (V_uint (tr_subpercentage t))
      else if property_name = ''AllowCancel'' then Some (V_bool (tr_allow_cancel t))
      else if property_name = ''CallerActive'' then Some (V_bool (tr_caller_active t))
      else if property_name = ''ElapsedTime'' then Some (V_uint (tr_elapsed_time t))
      else if property_name = ''RemainingTime'' then Some (V_uint (tr_remaining_time t))
      else if property_name = ''Speed'' then Some (V_uint (tr_speed t))
      else None)"

section \<open>What callbacks leave alone\<close>

text \<open>
  A report changes what the client sees, never the place of a transaction in its life: its
  state, its role, the arguments of the client and who the client is.
\<close>

definition same_life :: "PkTransaction \<Rightarrow> PkTransaction \<Rightarrow> bool" where
  "same_life t t' =
     (tr_state t' = tr_state t \<and> tr_role t' = tr_role t \<and> tr_tid t' = tr_tid t \<and>
      tr_sender t' = tr_sender t \<and> tr_uid t' = tr_uid t \<and> tr_subject t' = tr_subject t \<and>
      cached_package_ids t' = cached_package_ids t \<and> cached_full_paths t' = cached_full_paths t \<and>
      cached_filters t' = cached_filters t \<and> cached_values t' = cached_values t \<and>
      cached_only_trusted t' = cached_only_trusted t)"

lemma same_life_refl [simp]: "same_life t t"
  by (simp add: same_life_def)

lemma same_life_trans: "same_life t u \<Longrightarrow> same_life u v \<Longrightarrow> same_life t v"
  by (simp add: same_life_def)

lemmas tr_emit_defs =
  tr_emit_def tr_result_def pk_transaction_emit_property_changed_def pk_transaction_emit_changed_def
  pk_transaction_progress_changed_emit_def pk_transaction_allow_cancel_emit_def
  pk_transaction_status_changed_emit_def finished_signal_def pk_transaction_error_code_emit_def
  property_changed_def Let_def

lemma emit_same_life [simp]:
  "same_life t (tr_emit s t)" "same_life t (tr_result f t)"
  "same_life t (pk_transaction_progress_changed_emit p sp e r t)"
  "same_life t (pk_transaction_allow_cancel_emit c t)"
  "same_life t (pk_transaction_status_changed_emit st t)"
  "same_life t (finished_signal x n t)" "same_life t (pk_transaction_error_code_emit c' x' t)"
  "same_life t (pk_transaction_set_signals bs t)" "same_life t (t\<lparr>tr_finished := fi\<rparr>)"
  "same_life t (t\<lparr>tr_allow_cancel := ac\<rparr>)" "same_life t (t\<lparr>tr_waiting_for_auth := wa\<rparr>)"
  by (simp_all add: same_life_def tr_emit_defs pk_transaction_set_signals_def)

lemmas report_defs =
  pk_transaction_allow_cancel_cb_def pk_transaction_details_cb_def pk_transaction_error_code_cb_def
  pk_transaction_files_cb_def pk_transaction_category_cb_def pk_transaction_item_progress_cb_def
  pk_transaction_distro_upgrade_cb_def pk_transaction_message_cb_def package_accept_def
  pk_transaction_repo_detail_cb_def pk_transaction_repo_signature_required_cb_def
  pk_transaction_eula_required_cb_def pk_transaction_media_change_required_cb_def
  pk_transaction_require_restart_cb_def pk_transaction_status_changed_cb_def
  pk_transaction_update_detail_cb_def pk_transaction_speed_cb_def pk_transaction_percentage_cb_def
  pk_transaction_subpercentage_cb_def pk_transaction_remaining_cb_def

lemma report_same_life [simp]:
  "same_life t (pk_transaction_allow_cancel_cb c t)"
  "same_life t (pk_transaction_details_cb dt t)" "same_life t (pk_transaction_error_code_cb er t)"
  "same_life t (pk_transaction_files_cb fl t)" "same_life t (pk_transaction_category_cb ct t)"
  "same_life t (pk_transaction_item_progress_cb s n t)"
  "same_life t (pk_transaction_distro_upgrade_cb du t)"
  "same_life t (pk_transaction_message_cb dm ms t)" "same_life t (package_accept pkg t)"
  "same_life t (pk_transaction_repo_detail_cb rd t)"
  "same_life t (pk_transaction_repo_signature_required_cb sg t)"
  "same_life t (pk_transaction_eula_required_cb eu t)"
  "same_life t (pk_transaction_media_change_required_cb mc t)"
  "same_life t (pk_transaction_require_restart_cb rr t)"
  "same_life t (pk_transaction_status_changed_cb st t)"
  "same_life t (pk_transaction_update_detail_cb ud t)"
  "same_life t (pk_transaction_speed_cb n t)" "same_life t (pk_transaction_percentage_cb n t)"
  "same_life t (pk_transaction_subpercentage_cb n t)"
  "same_life t (pk_transaction_remaining_cb n t)"
  by (simp_all add: same_life_def report_defs tr_emit_defs)

end
