(* ===== verification/PK_Transaction_Checks.thy ===== *)
theory PK_Transaction_Checks
  imports PK_Transaction_Reports
begin

text \<open>
  What a transaction checks before it believes its client (\<open>src/src/pk-transaction.c\<close>): texts,
  search terms, filters, hints, and which PolicyKit action stands for which role. A check that
  returns \<open>TRUE\<close> in the code is \<open>None\<close>; \<open>FALSE\<close> is the error that it sets.
\<close>

section \<open>Texts\<close>

definition pk_transaction_strvalidate_char :: "char \<Rightarrow> bool" where
  "pk_transaction_strvalidate_char item =
     (if item \<in> set [CHR ''$'', CHR 0x60, CHR 0x27, CHR 0x22, CHR ''^'', CHR ''['', CHR '']'',
                     CHR ''{'', CHR ''}'', CHR 0x5C, CHR ''<'', CHR ''>'']
      then False else True)"

fun strvalidate_loop :: "string \<Rightarrow> gerror option" where
  "strvalidate_loop [] = None"
| "strvalidate_loop (c # cs) =
     (if \<not> pk_transaction_strvalidate_char c then
        Some (PK_TRANSACTION_ERROR_INPUT_INVALID,
              ''Invalid input passed to daemon: char '' @ [CHR 0x27, c, CHR 0x27] @ '' in text!'')
      else strvalidate_loop cs)"

definition pk_transaction_strvalidate :: "string option \<Rightarrow> gerror option" where
  "pk_transaction_strvalidate text =
     (let length = pk_strlen text 1024 in
      if 1024 < length then
        Some (PK_TRANSACTION_ERROR_INPUT_INVALID,
              ''Invalid input passed to daemon: input too long: '' @ string_of_nat length)
      else strvalidate_loop (take length (or_empty text)))"

section \<open>Search terms and filters\<close>

definition pk_transaction_search_check_item :: "string option \<Rightarrow> gerror option" where
  "pk_transaction_search_check_item values =
     (let size = pk_strlen values 1024 in
      case values of
        None \<Rightarrow> Some (PK_TRANSACTION_ERROR_SEARCH_INVALID,
                       ''Search is null. This isn't supposed to happen...'')
      | Some v \<Rightarrow>
          if size = 0 then Some (PK_TRANSACTION_ERROR_SEARCH_INVALID, ''Search string zero length'')
          else if strstr_found v ''*'' then
            Some (PK_TRANSACTION_ERROR_SEARCH_INVALID, ''Invalid search containing '' @ [CHR 0x27, CHR ''*'', CHR 0x27])
          else if strstr_found v ''?'' then
            Some (PK_TRANSACTION_ERROR_SEARCH_INVALID, ''Invalid search containing '' @ [CHR 0x27, CHR ''?'', CHR 0x27])
          else if size = 1024 then
            Some (PK_TRANSACTION_ERROR_SEARCH_INVALID, ''The search string length is too large'')
          else pk_transaction_strvalidate values)"

fun pk_transaction_search_check :: "string list \<Rightarrow> gerror option" where
  "pk_transaction_search_check [] = None"
| "pk_transaction_search_check (v # vs) =
     (case pk_transaction_search_check_item (Some v) of
        Some e \<Rightarrow> Some e
      | None \<Rightarrow> pk_transaction_search_check vs)"

fun filter_sections_check :: "string \<Rightarrow> string list \<Rightarrow> gerror option" where
  "filter_sections_check f [] = None"
| "filter_sections_check f (s # ss) =
     (if pk_strzero (Some s) then
        Some (PK_TRANSACTION_ERROR_INPUT_INVALID, ''Single empty section of filter: '' @ f)
      else if pk_filter_enum_from_string (Some s) = PK_FILTER_ENUM_UNKNOWN then
        Some (PK_TRANSACTION_ERROR_INPUT_INVALID, ''Unknown filter part: '' @ s)
      else filter_sections_check f ss)"

definition pk_transaction_filter_check :: "string option \<Rightarrow> gerror option" where
  "pk_transaction_filter_check filters =
     (if pk_strzero filters then Some (PK_TRANSACTION_ERROR_INPUT_INVALID, ''filter zero length'')
      else
        (case pk_transaction_strvalidate filters of
           Some e \<Rightarrow> Some e
         | None \<Rightarrow>
             filter_sections_check (or_empty filters) (g_strsplit CHR '';'' (or_empty filters))))"

section \<open>Hints\<close>

text \<open>\<open>file_exists\<close> stands for \<open>g_file_test (_, G_FILE_TEST_EXISTS)\<close>.\<close>

definition pk_transaction_set_hint ::
  "(string \<Rightarrow> bool) \<Rightarrow> string \<Rightarrow> string \<Rightarrow> PkTransaction \<Rightarrow> gerror option \<times> PkTransaction" where
  "pk_transaction_set_hint file_exists key value t =
     (if key = ''locale'' then
        (case tr_locale t of
           Some l \<Rightarrow> (Some (PK_TRANSACTION_ERROR_NOT_SUPPORTED, ''Already set locale to '' @ l), t)
         | None \<Rightarrow> (None, t\<lparr>tr_locale := Some value\<rparr>))
      else if key = ''frontend-socket'' then
        (case tr_frontend_socket t of
           Some s \<Rightarrow> (Some (PK_TRANSACTION_ERROR_NOT_SUPPORTED,
                             ''Already set frontend-socket to '' @ s), t)
         | None \<Rightarrow>
             if value = [] then
               (Some (PK_TRANSACTION_ERROR_NOT_SUPPORTED,
                      ''Could not set frontend-socket to nothing''), t)
             else if hd value \<noteq> CHR ''/'' then
               (Some (PK_TRANSACTION_ERROR_NOT_SUPPORTED,
                      ''frontend-socket has to be an absolute path''), t)
             else if \<not> file_exists value then
               (Some (PK_TRANSACTION_ERROR_NOT_SUPPORTED, ''frontend-socket does not exist''), t)
             else (None, t\<lparr>tr_frontend_socket := Some value\<rparr>))
      else if key = ''background'' then
        let t = t\<lparr>tr_background := pk_hint_enum_from_string (Some value)\<rparr> in
        if tr_background t = PK_HINT_ENUM_INVALID then
          (Some (PK_TRANSACTION_ERROR_NOT_SUPPORTED,
                 ''background hint expects true or false, not '' @ value),
           t\<lparr>tr_background := PK_HINT_ENUM_UNSET\<rparr>)
        else (None, t)
      else if key = ''interactive'' then
        let t = t\<lparr>tr_interactive := pk_hint_enum_from_string (Some value)\<rparr> in
        if tr_interactive t = PK_HINT_ENUM_INVALID then
          (Some (PK_TRANSACTION_ERROR_NOT_SUPPORTED,
                 ''interactive hint expects true or false, not '' @ value),
           t\<lparr>tr_interactive := PK_HINT_ENUM_UNSET\<rparr>)
        else (None, t)
      else if key = ''cache-age'' then
        (case pk_strtouint (Some value) of
           None \<Rightarrow> (Some (PK_TRANSACTION_ERROR_NOT_SUPPORTED,
                           ''cannot parse cache age value '' @ value),
                     t\<lparr>tr_cache_age := G_MAXUINT\<rparr>)
         | Some age \<Rightarrow>
             if age = 0 then
               (Some (PK_TRANSACTION_ERROR_NOT_SUPPORTED, ''cannot set a cache age of zero''),
                t\<lparr>tr_cache_age := G_MAXUINT\<rparr>)
             else (None, t\<lparr>tr_cache_age := age\<rparr>))
      else (None, t))"

text \<open>The loop of \<open>pk_transaction_set_hints\<close>: it stops at the first hint that fails.\<close>

fun set_hints_loop ::
  "(string \<Rightarrow> bool) \<Rightarrow> string list \<Rightarrow> PkTransaction \<Rightarrow> gerror option \<times> PkTransaction" where
  "set_hints_loop file_exists [] t = (None, t)"
| "set_hints_loop file_exists (h # hs) t =
     (let sections = g_strsplit_max CHR ''='' 2 h;
          (err, t) = (if length sections = 2
                      then pk_transaction_set_hint file_exists (sections ! 0) (sections ! 1) t
                      else (Some (PK_TRANSACTION_ERROR_NOT_SUPPORTED,
                                  ''Could not parse hint '' @ [CHR 0x27] @ h @ [CHR 0x27]), t))
      in case err of
           Some e \<Rightarrow> (Some e, t)
         | None \<Rightarrow> set_hints_loop file_exists hs t)"

section \<open>Policies\<close>

fun pk_transaction_role_to_action_only_trusted :: "PkRoleEnum \<Rightarrow> string option" where
  "pk_transaction_role_to_action_only_trusted role =
     (case role of
        PK_ROLE_ENUM_UPDATE_PACKAGES \<Rightarrow> Some ''org.freedesktop.packagekit.system-update''
      | PK_ROLE_ENUM_UPDATE_SYSTEM \<Rightarrow> Some ''org.freedesktop.packagekit.system-update''
      | PK_ROLE_ENUM_INSTALL_SIGNATURE \<Rightarrow>
          Some ''org.freedesktop.packagekit.system-trust-signing-key''
      | PK_ROLE_ENUM_ROLLBACK \<Rightarrow> Some ''org.freedesktop.packagekit.system-rollback''
      | PK_ROLE_ENUM_REPO_ENABLE \<Rightarrow> Some ''org.freedesktop.packagekit.system-sources-configure''
      | PK_ROLE_ENUM_REPO_SET_DATA \<Rightarrow> Some ''org.freedesktop.packagekit.system-sources-configure''
      | PK_ROLE_ENUM_REFRESH_CACHE \<Rightarrow> Some ''org.freedesktop.packagekit.system-sources-refresh''
      | PK_ROLE_ENUM_REMOVE_PACKAGES \<Rightarrow> Some ''org.freedesktop.packagekit.package-remove''
      | PK_ROLE_ENUM_INSTALL_PACKAGES \<Rightarrow> Some ''org.freedesktop.packagekit.package-install''
      | PK_ROLE_ENUM_INSTALL_FILES \<Rightarrow> Some ''org.freedesktop.packagekit.package-install''
      | PK_ROLE_ENUM_ACCEPT_EULA \<Rightarrow> Some ''org.freedesktop.packagekit.package-eula-accept''
      | PK_ROLE_ENUM_CANCEL \<Rightarrow> Some ''org.freedesktop.packagekit.cancel-foreign''
      | PK_ROLE_ENUM_UPGRADE_SYSTEM \<Rightarrow> Some ''org.freedesktop.packagekit.upgrade-system''
      | PK_ROLE_ENUM_REPAIR_SYSTEM \<Rightarrow> Some ''org.freedesktop.packagekit.repair-system''
      | _ \<Rightarrow> None)"

fun pk_transaction_role_to_action_allow_untrusted :: "PkRoleEnum \<Rightarrow> string option" where
  "pk_transaction_role_to_action_allow_untrusted role =
     (case role of
        PK_ROLE_ENUM_INSTALL_PACKAGES \<Rightarrow>
          Some ''org.freedesktop.packagekit.package-install-untrusted''
      | PK_ROLE_ENUM_INSTALL_FILES \<Rightarrow>
          Some ''org.freedesktop.packagekit.package-install-untrusted''
      | PK_ROLE_ENUM_UPDATE_PACKAGES \<Rightarrow>
          Some ''org.freedesktop.packagekit.package-install-untrusted''
      | PK_ROLE_ENUM_UPDATE_SYSTEM \<Rightarrow>
          Some ''org.freedesktop.packagekit.package-install-untrusted''
      | _ \<Rightarrow> pk_transaction_role_to_action_only_trusted role)"

section \<open>What the checks accept\<close>

lemma strvalidate_loop_None:
  "strvalidate_loop s = None \<longleftrightarrow> list_all pk_transaction_strvalidate_char s"
  by (induction s) auto

lemma strvalidate_None:
  "pk_transaction_strvalidate s = None \<longleftrightarrow>
     list_all pk_transaction_strvalidate_char (take 1024 (or_empty s))"
proof -
  have "pk_strlen s 1024 \<le> 1024" by (rule pk_strlen_le) simp
  moreover have "take (pk_strlen s 1024) (or_empty s) = take 1024 (or_empty s)"
    by (cases s) (auto simp: pk_strlen_eq or_empty_def max_def Suc_le_eq min_def)
  ultimately show ?thesis
    by (simp add: pk_transaction_strvalidate_def Let_def strvalidate_loop_None)
qed

lemma search_check_item_None:
  "pk_transaction_search_check_item (Some v) = None \<longleftrightarrow>
     v \<noteq> [] \<and> length v < 1024 \<and> list_all pk_transaction_strvalidate_char v \<and>
     CHR ''*'' \<notin> set v \<and> CHR ''?'' \<notin> set v"
proof -
  have "pk_strlen (Some v) 1024 = min 1024 (length v)"
    by (cases v) (auto simp: pk_strlen_eq)
  then show ?thesis
    by (auto simp: pk_transaction_search_check_item_def strstr_found_single strvalidate_None
        or_empty_def Let_def)
qed

lemma search_check_None:
  "pk_transaction_search_check vs = None \<longleftrightarrow>
     (\<forall>v \<in> set vs. pk_transaction_search_check_item (Some v) = None)"
  by (induction vs) (auto split: option.splits)

lemma empty_filter_unknown: "pk_filter_enum_from_string (Some []) = PK_FILTER_ENUM_UNKNOWN"
  by code_simp

lemma filter_sections_None:
  "filter_sections_check f ss = None \<longleftrightarrow>
     (\<forall>s \<in> set ss. pk_filter_enum_from_string (Some s) \<noteq> PK_FILTER_ENUM_UNKNOWN)"
  using empty_filter_unknown by (induction ss) (auto simp: pk_strzero_def)

lemma filter_check_None:
  "pk_transaction_filter_check filters = None \<longleftrightarrow>
     or_empty filters \<noteq> [] \<and>
     list_all pk_transaction_strvalidate_char (take 1024 (or_empty filters)) \<and>
     (\<forall>s \<in> set (g_strsplit CHR '';'' (or_empty filters)).
        pk_filter_enum_from_string (Some s) \<noteq> PK_FILTER_ENUM_UNKNOWN)"
  unfolding strvalidate_None [symmetric]
  by (cases filters; cases "pk_transaction_strvalidate filters")
    (auto simp: pk_transaction_filter_check_def pk_strzero_def or_empty_def filter_sections_None)

text \<open>The texts of filters have no dangerous character.\<close>

lemma filter_texts_valid:
  "list_all pk_transaction_strvalidate_char (pk_filter_enum_to_string e)"
proof -
  have "list_all (list_all pk_transaction_strvalidate_char) (map snd enum_filter)" by code_simp
  then show ?thesis
    using t_filter.string_in_table [of e]
    by (auto simp: pk_filter_enum_to_string_def list_all_iff)
qed

lemma filter_sections_to_string:
  "g_strsplit CHR '';'' (pk_filter_bitfield_to_string filters) =
     (if b_filter.members filters = [] then [pk_filter_enum_to_string PK_FILTER_ENUM_NONE]
      else map pk_filter_enum_to_string (b_filter.members filters))"
proof (cases "b_filter.members filters = []")
  case True
  then have "pk_filter_bitfield_to_string filters = pk_filter_enum_to_string PK_FILTER_ENUM_NONE"
    using b_filter.bitfield_text_Nil [of filters]
    by (simp add: pk_filter_bitfield_to_string_def pk_filter_enum_to_string_def [abs_def])
  with True show ?thesis
    using b_filter.split_single by (simp add: pk_filter_enum_to_string_def)
next
  case False
  moreover have "b_filter.members 0 = []"
    by (simp add: b_filter.members_def pk_bitfield_contain_def)
  ultimately have "filters \<noteq> 0" by metis
  moreover have "bitfield_text pk_filter_enum_to_string PK_FILTER_ENUM_LAST filters \<noteq> []"
    using False b_filter.bitfield_text_Nil [of filters]
    by (simp add: pk_filter_enum_to_string_def [abs_def])
  ultimately show ?thesis
    using False b_filter.split_text [OF False]
    by (simp add: pk_filter_bitfield_to_string_def pk_filter_enum_to_string_def [abs_def] Let_def)
qed

lemma split_chars: "set s \<subseteq> insert d (\<Union>(set ` set (split_on d s)))"
proof (induction s)
  case (Cons c cs)
  then show ?case by (cases "split_on d cs") (auto split: if_splits)
qed simp

section \<open>Properties\<close>

text \<open>What a client may send as free text: only the first 1024 bytes are looked at, and they
  must not hold a character that a shell would read; the length itself is never refused. A
  list of search terms passes exactly when every term is not empty, shorter than 1024 bytes and
  free of those characters and of wildcards.\<close>

theorem client_texts:
  "(pk_transaction_strvalidate s = None \<longleftrightarrow>
      list_all pk_transaction_strvalidate_char (take 1024 (or_empty s))) \<and>
   (pk_transaction_search_check vs = None \<longleftrightarrow>
      list_all (\<lambda>v. v \<noteq> [] \<and> length v < 1024 \<and>
        list_all (\<lambda>c. pk_transaction_strvalidate_char c \<and> c \<noteq> CHR ''*'' \<and> c \<noteq> CHR ''?'') v) vs)"
  by (auto simp: strvalidate_None search_check_None search_check_item_None list_all_iff)

text \<open>The filters that a client builds with the library are the filters that the daemon
  accepts: the text of a bitfield passes the check exactly when the bit of the unknown filter is
  not set in it.\<close>

theorem filter_text_accepted:
  "pk_transaction_filter_check (Some (pk_filter_bitfield_to_string filters)) = None \<longleftrightarrow>
     \<not> pk_bitfield_contain filters PK_FILTER_ENUM_UNKNOWN"
proof -
  let ?s = "pk_filter_bitfield_to_string filters"
  let ?parts = "if b_filter.members filters = [] then [PK_FILTER_ENUM_NONE]
                else b_filter.members filters"
  have parts: "g_strsplit CHR '';'' ?s = map pk_filter_enum_to_string ?parts"
    by (simp add: filter_sections_to_string)
  then have ne: "?s \<noteq> []" by (auto simp flip: g_strsplit_Nil_iff [of "CHR '';''"] split: if_splits)
  have "set ?s \<subseteq> insert CHR '';'' (\<Union>(set ` set (split_on CHR '';'' ?s)))" by (rule split_chars)
  also have "split_on CHR '';'' ?s = map pk_filter_enum_to_string ?parts"
    using parts ne by (simp add: g_strsplit_def)
  finally have chars: "set ?s \<subseteq> insert CHR '';'' (\<Union>(set ` set (map pk_filter_enum_to_string ?parts)))" .
  have "pk_transaction_strvalidate_char c" if "c \<in> set ?s" for c
  proof -
    from chars that have "c = CHR '';'' \<or> (\<exists>e. c \<in> set (pk_filter_enum_to_string e))"
      unfolding set_map by (auto simp only: subset_iff UN_iff image_iff insert_iff)
    moreover have "pk_transaction_strvalidate_char CHR '';''" by code_simp
    ultimately show ?thesis using filter_texts_valid by (metis list_all_iff)
  qed
  then have valid: "list_all pk_transaction_strvalidate_char (take 1024 ?s)"
    unfolding list_all_iff using set_take_subset [of 1024 ?s] by blast
  have known: "pk_filter_enum_from_string (Some (pk_filter_enum_to_string e)) = e"
    if "e \<noteq> PK_FILTER_ENUM_LAST" for e
    using t_filter.value_of_string [OF that]
    by (simp add: pk_filter_enum_from_string_def pk_filter_enum_to_string_def)
  have below: "e \<noteq> PK_FILTER_ENUM_LAST" if "e \<in> set ?parts" for e
    using that b_filter.set_members [of filters] by (auto split: if_splits)
  have "(\<forall>t \<in> set (g_strsplit CHR '';'' ?s). pk_filter_enum_from_string (Some t) \<noteq> PK_FILTER_ENUM_UNKNOWN)
      \<longleftrightarrow> (\<forall>e \<in> set ?parts. pk_filter_enum_from_string (Some (pk_filter_enum_to_string e))
             \<noteq> PK_FILTER_ENUM_UNKNOWN)"
    unfolding parts by simp
  also have "\<dots> \<longleftrightarrow> (\<forall>e \<in> set ?parts. e \<noteq> PK_FILTER_ENUM_UNKNOWN)"
    using known [OF below] by metis
  also have "\<dots> \<longleftrightarrow> PK_FILTER_ENUM_UNKNOWN \<notin> set (b_filter.members filters)"
    by (cases "b_filter.members filters = []") auto
  finally have "(\<forall>t \<in> set (g_strsplit CHR '';'' ?s).
        pk_filter_enum_from_string (Some t) \<noteq> PK_FILTER_ENUM_UNKNOWN)
      \<longleftrightarrow> PK_FILTER_ENUM_UNKNOWN \<notin> set (b_filter.members filters)" .
  then show ?thesis
    using ne valid by (simp add: filter_check_None or_empty_def b_filter.set_members)
qed

end
