(* ===== verification/PK_Conf.thy ===== *)
theory PK_Conf
  imports PK_Shared
begin

text \<open>
  The configuration of the daemon (\<open>src/src/pk-conf.c\<close>): the keys of the group \<open>Daemon\<close> of the key
  file, and what a reader gets for a key that is missing or has another type. Finding and
  loading the file is not modelled.
\<close>

text \<open>What \<open>GKeyFile\<close> answers for a key of the group \<open>Daemon\<close>; \<open>None\<close> is an error.\<close>

record PkConf =
  keyfile_string :: "string \<Rightarrow> string option"
  keyfile_string_list :: "string \<Rightarrow> string list option"
  keyfile_integer :: "string \<Rightarrow> int option"
  keyfile_boolean :: "string \<Rightarrow> bool option"

definition pk_conf_get_string :: "PkConf \<Rightarrow> string \<Rightarrow> string option" where
  "pk_conf_get_string conf key = (case keyfile_string conf key of None \<Rightarrow> None | Some v \<Rightarrow> Some v)"

definition pk_conf_get_strv :: "PkConf \<Rightarrow> string \<Rightarrow> string list option" where
  "pk_conf_get_strv conf key =
     (case keyfile_string_list conf key of None \<Rightarrow> None | Some v \<Rightarrow> Some v)"

text \<open>\<open>PK_CONF_VALUE_INT_MISSING\<close> is -1.\<close>

definition pk_conf_get_int :: "PkConf \<Rightarrow> string \<Rightarrow> int" where
  "pk_conf_get_int conf key = (case keyfile_integer conf key of None \<Rightarrow> - 1 | Some v \<Rightarrow> v)"

definition pk_conf_get_bool :: "PkConf \<Rightarrow> string \<Rightarrow> bool" where
  "pk_conf_get_bool conf key = (case keyfile_boolean conf key of None \<Rightarrow> False | Some v \<Rightarrow> v)"

text \<open>An integer of the configuration that is stored in a \<open>guint\<close>: a missing one is the largest.\<close>

definition conf_guint :: "PkConf \<Rightarrow> string \<Rightarrow> guint" where
  "conf_guint conf key = word_of_int (pk_conf_get_int conf key)"

end
