(* ===== verification/PK_Daemon.thy ===== *)
theory PK_Daemon
  imports PK_Transaction_Checks PK_Conf
begin

text \<open>
  The state of the daemon as its transactions see it: the cache of update lists (\<open>src/src/pk-cache.c\<close>), the delayed notification of
  changed updates (\<open>pk-notify.c\<close>), and the list of transactions (\<open>pk-transaction-list.c\<close>) with
  the one backend object that all of them share. What lies outside - the key file, the bus, the
  file system, PolicyKit, the plugins of the daemon - is a record of functions, the environment.
\<close>

section \<open>The cache of update lists\<close>

type_synonym PkCache = "PkResults option"

definition pk_cache_get_results :: "PkRoleEnum \<Rightarrow> PkCache \<Rightarrow> PkResults option" where
  "pk_cache_get_results role cache =
     (if role \<noteq> PK_ROLE_ENUM_GET_UPDATES then None else cache)"

definition pk_cache_invalidate :: "PkCache \<Rightarrow> PkCache" where
  "pk_cache_invalidate cache = (if cache \<noteq> None then None else cache)"

definition pk_cache_set_results :: "PkRoleEnum \<Rightarrow> PkResults \<Rightarrow> PkCache \<Rightarrow> bool \<times> PkCache" where
  "pk_cache_set_results role results cache =
     (if role \<noteq> PK_ROLE_ENUM_GET_UPDATES then (False, cache)
      else let cache = pk_cache_invalidate cache in (True, Some results))"

section \<open>State\<close>

datatype daemon_source =
    SRC_list_run_idle string
  | SRC_list_no_commit string
  | SRC_list_remove_item string
  | SRC_transaction_finished_idle string
  | SRC_notify_updates_changed
  | SRC_wedge_check1
  | SRC_wedge_check2

text \<open>
  What the daemon does to the world besides the signals of its transactions. A method call is
  answered by \<open>REPLY\<close>, with the error if there is one. \<open>DB_*\<close> are the writes to the database of
  transactions and \<open>SYSLOG_*\<close> the lines of the system log.
\<close>

datatype daemon_effect =
    REPLY string "gerror option"
  | LIST_CHANGED
  | NOTIFY_repo_list_changed
  | NOTIFY_updates_changed
  | SYSLOG_INFO string
  | SYSLOG_AUTH string
  | DB_add string
  | DB_set_role string PkRoleEnum
  | DB_set_uid string guint
  | DB_set_cmdline string string
  | DB_set_data string string
  | DB_set_finished string bool guint
  | DB_action_time_reset PkRoleEnum
  | DB_get_list guint

text \<open>A check of PolicyKit that has not been answered yet.\<close>

record auth_request =
  ar_tid :: string
  ar_action_id :: string
  ar_details :: "(string \<times> string) list"

record PkTransactionItem =
  it_transaction :: PkTransaction
  it_tid :: string
  it_remove_id :: nat
  it_idle_id :: nat
  it_commit_id :: nat
  it_uid :: guint
  it_background :: bool

text \<open>
  \<open>d_gone\<close> keeps the transactions that were disposed of, with everything they had emitted.
  \<open>d_aborted\<close> is set when the code calls \<open>g_error\<close> or jumps through a \<open>NULL\<close> pointer.
\<close>

record daemon =
  d_items :: "PkTransactionItem list"
  d_backend :: PkBackend
  d_cache :: PkCache
  d_notify_timeout :: nat
  d_unwedge1_id :: nat
  d_unwedge2_id :: nat
  d_loop :: "daemon_source main_loop"
  d_auth :: "auth_request list"
  d_effects :: "daemon_effect list"
  d_gone :: "PkTransaction list"
  d_aborted :: bool

datatype PkPluginPhase =
    PK_PLUGIN_PHASE_INIT | PK_PLUGIN_PHASE_TRANSACTION_CONTENT_TYPES
  | PK_PLUGIN_PHASE_TRANSACTION_RUN | PK_PLUGIN_PHASE_TRANSACTION_STARTED
  | PK_PLUGIN_PHASE_TRANSACTION_FINISHED_START | PK_PLUGIN_PHASE_TRANSACTION_FINISHED_RESULTS
  | PK_PLUGIN_PHASE_TRANSACTION_FINISHED_END | PK_PLUGIN_PHASE_DESTROY | PK_PLUGIN_PHASE_UNKNOWN

text \<open>
  The environment. A plugin of the daemon is a module that has a function for some of the
  phases; the function gets the transaction and may change the whole daemon in one step.
\<close>

record environment =
  conf :: PkConf
  uid_of_sender :: "string \<Rightarrow> guint"
  cmdline_of_sender :: "string \<Rightarrow> string option"
  session_of_sender :: "string \<Rightarrow> string option"
  db_get_proxy :: "guint \<Rightarrow> string \<Rightarrow>
     (string option \<times> string option \<times> string option \<times> string option \<times> string option \<times>
      string option) option"
  db_get_root :: "guint \<Rightarrow> string \<Rightarrow> string option option"
  file_exists :: "string \<Rightarrow> bool"
  content_type_of :: "string \<Rightarrow> string option"
  service_pack_error :: "string \<Rightarrow> string option"
  mkdir_ok :: "string \<Rightarrow> bool"
  runtime_ms :: guint
  estimate_s :: guint
  plugins :: "(PkPluginPhase \<Rightarrow> (string \<Rightarrow> daemon \<Rightarrow> daemon) option) list"

section \<open>Access\<close>

definition get_item :: "string \<Rightarrow> daemon \<Rightarrow> PkTransactionItem option" where
  "get_item tid d = List.find (\<lambda>i. it_tid i = tid) (d_items d)"

definition get_tr :: "string \<Rightarrow> daemon \<Rightarrow> PkTransaction option" where
  "get_tr tid d = map_option it_transaction (get_item tid d)"

definition upd_item :: "string \<Rightarrow> (PkTransactionItem \<Rightarrow> PkTransactionItem) \<Rightarrow> daemon \<Rightarrow> daemon" where
  "upd_item tid f d =
     d\<lparr>d_items := map (\<lambda>i. if it_tid i = tid then f i else i) (d_items d)\<rparr>"

definition upd_tr :: "string \<Rightarrow> (PkTransaction \<Rightarrow> PkTransaction) \<Rightarrow> daemon \<Rightarrow> daemon" where
  "upd_tr tid f = upd_item tid (\<lambda>i. i\<lparr>it_transaction := f (it_transaction i)\<rparr>)"

definition effect :: "daemon_effect \<Rightarrow> daemon \<Rightarrow> daemon" where
  "effect e d = d\<lparr>d_effects := d_effects d @ [e]\<rparr>"

definition loop_add :: "daemon_source \<Rightarrow> daemon \<Rightarrow> nat \<times> daemon" where
  "loop_add f d = (let (i, m) = g_source_add f (d_loop d) in (i, d\<lparr>d_loop := m\<rparr>))"

definition loop_remove :: "nat \<Rightarrow> daemon \<Rightarrow> daemon" where
  "loop_remove i d = d\<lparr>d_loop := g_source_remove i (d_loop d)\<rparr>"

definition abort :: "daemon \<Rightarrow> daemon" where
  "abort d = d\<lparr>d_aborted := True\<rparr>"

section \<open>Notification of changed updates\<close>

definition pk_notify_wait_updates_changed :: "daemon \<Rightarrow> bool \<times> daemon" where
  "pk_notify_wait_updates_changed d =
     (if d_notify_timeout d \<noteq> 0 then (False, d)
      else
        let (i, d) = loop_add SRC_notify_updates_changed d
        in (True, d\<lparr>d_notify_timeout := i\<rparr>))"

definition pk_notify_finished_updates_changed_cb :: "daemon \<Rightarrow> daemon" where
  "pk_notify_finished_updates_changed_cb d =
     (effect NOTIFY_updates_changed d)\<lparr>d_notify_timeout := 0\<rparr>"

end
