(* ===== verification/PK_Transaction_List.thy ===== *)
theory PK_Transaction_List
  imports PK_Daemon
begin

text \<open>
  The list of transactions (\<open>src/src/pk-transaction-list.c\<close>): it owns the transactions, keeps a
  timer for each one that its client has not used yet and one for each that has finished, and
  decides which transaction runs next. An item is a pointer in the code; here the tid of the
  item stands for it, which is the same as long as no two items have the same tid.
\<close>

section \<open>Looking at the list\<close>

definition pk_transaction_list_get_from_tid :: "string \<Rightarrow> daemon \<Rightarrow> PkTransactionItem option" where
  "pk_transaction_list_get_from_tid tid d =
     List.find (\<lambda>item. tr_tid (it_transaction item) = Some tid) (d_items d)"

definition pk_transaction_list_get_transaction :: "string \<Rightarrow> daemon \<Rightarrow> PkTransaction option" where
  "pk_transaction_list_get_transaction tid d =
     (case pk_transaction_list_get_from_tid tid d of
        None \<Rightarrow> None
      | Some item \<Rightarrow> Some (it_transaction item))"

abbreviation item_state :: "PkTransactionItem \<Rightarrow> PkTransactionState" where
  "item_state item \<equiv> tr_state (it_transaction item)"

definition pk_transaction_list_role_present :: "PkRoleEnum \<Rightarrow> daemon \<Rightarrow> bool" where
  "pk_transaction_list_role_present role d =
     (\<exists>item \<in> set (d_items d). item_state item \<noteq> PK_TRANSACTION_STATE_FINISHED \<and>
        tr_role (it_transaction item) = role)"

definition pk_transaction_list_get_next_item :: "daemon \<Rightarrow> PkTransactionItem option" where
  "pk_transaction_list_get_next_item d =
     (case List.find (\<lambda>item. item_state item = PK_TRANSACTION_STATE_READY \<and> \<not> it_background item)
             (d_items d) of
        Some item \<Rightarrow> Some item
      | None \<Rightarrow> List.find (\<lambda>item. item_state item = PK_TRANSACTION_STATE_READY) (d_items d))"

definition pk_transaction_list_get_active_transaction :: "daemon \<Rightarrow> PkTransactionItem option" where
  "pk_transaction_list_get_active_transaction d =
     List.find (\<lambda>item. item_state item = PK_TRANSACTION_STATE_RUNNING) (d_items d)"

definition pk_transaction_list_get_number_transactions_for_uid :: "guint \<Rightarrow> daemon \<Rightarrow> guint" where
  "pk_transaction_list_get_number_transactions_for_uid uid d =
     foldl (\<lambda>count item. if it_uid item = uid then count + 1 else count) 0 (d_items d)"

definition pk_transaction_list_get_array :: "daemon \<Rightarrow> string list" where
  "pk_transaction_list_get_array d =
     map it_tid (filter (\<lambda>item. item_state item = PK_TRANSACTION_STATE_COMMITTED \<or>
                                item_state item = PK_TRANSACTION_STATE_READY \<or>
                                item_state item = PK_TRANSACTION_STATE_RUNNING) (d_items d))"

definition pk_transaction_list_get_size :: "daemon \<Rightarrow> nat" where
  "pk_transaction_list_get_size d = length (d_items d)"

definition number_in_state :: "PkTransactionState list \<Rightarrow> daemon \<Rightarrow> nat" where
  "number_in_state ss d = length (filter (\<lambda>item. item_state item \<in> set ss) (d_items d))"

text \<open>\<open>%0i\<close> prints a decimal number.\<close>

definition pk_transaction_list_get_state :: "daemon \<Rightarrow> string" where
  "pk_transaction_list_get_state d =
     (let length = length (d_items d);
          running = number_in_state [PK_TRANSACTION_STATE_RUNNING] d;
          waiting = number_in_state [PK_TRANSACTION_STATE_COMMITTED, PK_TRANSACTION_STATE_READY] d;
          tab = [CHR 0x09]; nl = [CHR 0x0A];
          line = (\<lambda>(i, item). string_of_nat i @ tab @
                    pk_role_enum_to_string (tr_role (it_transaction item)) @ tab @ it_tid item @ tab @
                    ''state['' @
                    (case pk_transaction_state_to_string (item_state item) of
                       Some s \<Rightarrow> s | None \<Rightarrow> ''(null)'') @
                    ''] background['' @ (if it_background item then ''1'' else ''0'') @ '']'' @ nl)
      in if length = 0 then ''State:'' @ nl
         else ''State:'' @ nl @ concat (map line (enumerate 0 (d_items d))) @
              (if 1 < running then ''ERROR: '' @ string_of_nat running @ '' are running'' @ nl else []) @
              (if waiting = length then ''WARNING: everything is waiting!'' @ nl else []))"

definition pk_transaction_list_is_consistent :: "daemon \<Rightarrow> bool" where
  "pk_transaction_list_is_consistent d =
     (let length = length (d_items d);
          running = number_in_state [PK_TRANSACTION_STATE_RUNNING] d;
          waiting = number_in_state [PK_TRANSACTION_STATE_COMMITTED, PK_TRANSACTION_STATE_READY] d
      in if length = 0 then True
         else
           let ret = True;
               ret = (if 1 < running then False else ret);
               ret = (if waiting = length then False else ret)
           in ret)"

section \<open>Removing items\<close>

definition remove_source_id :: "nat \<Rightarrow> daemon \<Rightarrow> daemon" where
  "remove_source_id i d = (if i \<noteq> 0 then loop_remove i d else d)"

text \<open>
  The last reference to the transaction goes away here, so it is disposed of; it is no longer
  connected to the list then.
\<close>

definition pk_transaction_list_item_free :: "PkTransactionItem \<Rightarrow> daemon \<Rightarrow> daemon" where
  "pk_transaction_list_item_free item d =
     (let d = d\<lparr>d_gone := d_gone d @ [pk_transaction_dispose (it_transaction item)]\<rparr>;
          d = remove_source_id (it_commit_id item) d;
          d = remove_source_id (it_idle_id item) d
      in remove_source_id (it_remove_id item) d)"

definition pk_transaction_list_remove_internal :: "string \<Rightarrow> daemon \<Rightarrow> bool \<times> daemon" where
  "pk_transaction_list_remove_internal tid d =
     (case get_item tid d of
        None \<Rightarrow> (False, d)
      | Some item \<Rightarrow>
          let d = d\<lparr>d_items := filter (\<lambda>i. it_tid i \<noteq> tid) (d_items d)\<rparr>
          in (True, pk_transaction_list_item_free item d))"

definition pk_transaction_list_remove :: "string \<Rightarrow> daemon \<Rightarrow> bool \<times> daemon" where
  "pk_transaction_list_remove tid d =
     (case pk_transaction_list_get_from_tid tid d of
        None \<Rightarrow> (False, d)
      | Some item \<Rightarrow>
          if item_state item = PK_TRANSACTION_STATE_FINISHED then (False, d)
          else
            let d = (if it_remove_id item \<noteq> 0
                     then upd_item tid (\<lambda>i. i\<lparr>it_remove_id := 0\<rparr>) (loop_remove (it_remove_id item) d)
                     else d)
            in if item_state item = PK_TRANSACTION_STATE_RUNNING then
                 if it_idle_id item = 0 then (False, d)
                 else
                   let d = upd_item tid (\<lambda>i. i\<lparr>it_idle_id := 0\<rparr>) (loop_remove (it_idle_id item) d)
                   in pk_transaction_list_remove_internal tid d
               else pk_transaction_list_remove_internal tid d)"

definition pk_transaction_list_set_background :: "string \<Rightarrow> bool \<Rightarrow> daemon \<Rightarrow> bool \<times> daemon" where
  "pk_transaction_list_set_background tid background d =
     (case pk_transaction_list_get_from_tid tid d of
        None \<Rightarrow> (False, d)
      | Some item \<Rightarrow>
          if item_state item = PK_TRANSACTION_STATE_FINISHED then (False, d)
          else (True, upd_item tid (\<lambda>i. i\<lparr>it_background := background\<rparr>) d))"

text \<open>
  The two callbacks return \<open>FALSE\<close>, so the main loop drops the source that has run, which
  \<open>item_free\<close> has removed already.
\<close>

definition pk_transaction_list_remove_item_cb :: "string \<Rightarrow> daemon \<Rightarrow> daemon" where
  "pk_transaction_list_remove_item_cb tid d = snd (pk_transaction_list_remove_internal tid d)"

definition pk_transaction_list_no_commit_cb :: "string \<Rightarrow> daemon \<Rightarrow> daemon" where
  "pk_transaction_list_no_commit_cb tid d = snd (pk_transaction_list_remove_internal tid d)"

section \<open>Running\<close>

definition set_state :: "string \<Rightarrow> PkTransactionState \<Rightarrow> daemon \<Rightarrow> bool \<times> daemon" where
  "set_state tid state d =
     (case get_tr tid d of
        None \<Rightarrow> (False, d)
      | Some t \<Rightarrow>
          let (ret, t) = pk_transaction_set_state state t in (ret, upd_tr tid (\<lambda>_. t) d))"

definition pk_transaction_list_run_item :: "string \<Rightarrow> daemon \<Rightarrow> daemon" where
  "pk_transaction_list_run_item tid d =
     (let d = snd (set_state tid PK_TRANSACTION_STATE_RUNNING d);
          (i, d) = loop_add (SRC_list_run_idle tid) d
      in upd_item tid (\<lambda>item. item\<lparr>it_idle_id := i\<rparr>) d)"

definition pk_transaction_list_transaction_finished_cb :: "string \<Rightarrow> daemon \<Rightarrow> daemon" where
  "pk_transaction_list_transaction_finished_cb tid d =
     (case pk_transaction_list_get_from_tid tid d of
        None \<Rightarrow> abort d
      | Some item \<Rightarrow>
          if item_state item = PK_TRANSACTION_STATE_FINISHED then d
          else
            let d = (if it_commit_id item \<noteq> 0
                     then upd_item tid (\<lambda>i. i\<lparr>it_commit_id := 0\<rparr>) (loop_remove (it_commit_id item) d)
                     else d);
                (ret, d) = set_state tid PK_TRANSACTION_STATE_FINISHED d
            in if \<not> ret then d
               else
                 let d = effect LIST_CHANGED d;
                     (i, d) = loop_add (SRC_list_remove_item tid) d;
                     d = upd_item tid (\<lambda>item. item\<lparr>it_remove_id := i\<rparr>) d
                 in (case pk_transaction_list_get_next_item d of
                       None \<Rightarrow> d
                     | Some next \<Rightarrow> pk_transaction_list_run_item (it_tid next) d))"

section \<open>Creating\<close>

text \<open>
  \<open>pk_transaction_new\<close> with the settings of \<open>pk_transaction_list_create\<close>. The item is made
  before the checks, and an item whose tid or sender is refused is neither added nor freed.
\<close>

definition pk_transaction_list_create ::
  "environment \<Rightarrow> string \<Rightarrow> string option \<Rightarrow> daemon \<Rightarrow> bool \<times> daemon" where
  "pk_transaction_list_create env tid sender d =
     (case pk_transaction_list_get_from_tid tid d of
        Some _ \<Rightarrow> (False, d)
      | None \<Rightarrow>
          let t = pk_transaction_new (pk_backend_get_mime_types (d_backend d));
              (ret, t) = pk_transaction_set_state PK_TRANSACTION_STATE_NEW t
          in if \<not> ret then (False, d)
             else
               let (ret, t) = pk_transaction_set_tid tid t
               in if \<not> ret then (False, d)
                  else
                    let (ret, t) = pk_transaction_set_sender
                          (cmdline_of_sender env (or_empty sender))
                          (uid_of_sender env (or_empty sender)) sender t
                    in if \<not> ret then (False, d)
                       else
                         let item = \<lparr>it_transaction = t, it_tid = tid, it_remove_id = 0,
                                     it_idle_id = 0, it_commit_id = 0, it_uid = tr_uid t,
                                     it_background = False\<rparr>;
                             count = pk_transaction_list_get_number_transactions_for_uid (it_uid item) d;
                             max_count = conf_guint (conf env) ''SimultaneousTransactionsForUid''
                         in if max_count < count
                            then (False, pk_transaction_list_item_free item d)
                            else
                              let (i, d) = loop_add (SRC_list_no_commit tid) d;
                                  item = item\<lparr>it_commit_id := i\<rparr>
                              in (True, d\<lparr>d_items := d_items d @ [item]\<rparr>))"

section \<open>The wedge check\<close>

definition pk_transaction_list_wedge_check2 :: "daemon \<Rightarrow> daemon" where
  "pk_transaction_list_wedge_check2 d = (if pk_transaction_list_is_consistent d then d else d)"

text \<open>The periodic source stays; a second check is scheduled when the first one fails.\<close>

definition pk_transaction_list_wedge_check1 :: "daemon \<Rightarrow> daemon" where
  "pk_transaction_list_wedge_check1 d =
     (if \<not> pk_transaction_list_is_consistent d then
        let (i, d) = loop_add SRC_wedge_check2 d in d\<lparr>d_unwedge2_id := i\<rparr>
      else d)"

end
