(* ===== verification/PK_Transaction_Run.thy ===== *)
theory PK_Transaction_Run
  imports PK_Transaction_List
begin

text \<open>
  A transaction at work (\<open>src/src/pk-transaction.c\<close>): how the signals of the backend reach the
  transactions that are connected to it, the end of a transaction, its start
  (\<open>pk_transaction_run\<close>), committing it to the list, authorization, and cancelling.

  An operation of the backend object may emit several signals. They are delivered in the order
  of emission when the operation is over; the callbacks read nothing of the backend that the
  rest of the operation changes. Handlers of one signal run in the order of the list.
\<close>

section \<open>Delivery of messages\<close>

definition connected :: "PkBackendSignal \<Rightarrow> daemon \<Rightarrow> string list" where
  "connected s d = map it_tid (filter (\<lambda>i. s \<in> set (tr_signals (it_transaction i))) (d_items d))"

definition is_connected :: "PkBackendSignal \<Rightarrow> string \<Rightarrow> daemon \<Rightarrow> bool" where
  "is_connected s tid d =
     (case get_tr tid d of None \<Rightarrow> False | Some t \<Rightarrow> s \<in> set (tr_signals t))"

definition deliver_message :: "environment \<Rightarrow> PkMessage \<Rightarrow> daemon \<Rightarrow> daemon" where
  "deliver_message env item d =
     foldl (\<lambda>d tid. if is_connected PK_BACKEND_SIGNAL_MESSAGE tid d
                    then upd_tr tid (pk_transaction_message_cb
                           (pk_conf_get_bool (conf env) ''DeveloperMode'') item) d
                    else d)
       d (connected PK_BACKEND_SIGNAL_MESSAGE d)"

text \<open>
  A callback complains to the backend with \<open>pk_backend_message\<close>, which sends the message back
  before it returns.
\<close>

definition complain :: "environment \<Rightarrow> string \<Rightarrow> daemon \<Rightarrow> daemon" where
  "complain env details d =
     (let (ret, b) = pk_backend_message PK_MESSAGE_ENUM_BACKEND_ERROR details (d_backend d);
          d = d\<lparr>d_backend := b\<rparr>
      in if ret
         then deliver_message env \<lparr>ms_type = PK_MESSAGE_ENUM_BACKEND_ERROR, ms_details = details\<rparr> d
         else d)"

section \<open>The end of a transaction\<close>

definition pk_transaction_finished_emit :: "string \<Rightarrow> PkExitEnum \<Rightarrow> guint \<Rightarrow> daemon \<Rightarrow> daemon" where
  "pk_transaction_finished_emit tid exit_enum time_ms d =
     pk_transaction_list_transaction_finished_cb tid (upd_tr tid (finished_signal exit_enum time_ms) d)"

definition pk_transaction_plugin_phase ::
  "environment \<Rightarrow> PkPluginPhase \<Rightarrow> string \<Rightarrow> daemon \<Rightarrow> daemon" where
  "pk_transaction_plugin_phase env phase tid d =
     foldl (\<lambda>d plugin. case plugin phase of None \<Rightarrow> d | Some plugin_func \<Rightarrow> plugin_func tid d)
       d (plugins env)"

definition pk_transaction_finish_invalidate_caches :: "PkTransaction \<Rightarrow> daemon \<Rightarrow> bool \<times> daemon" where
  "pk_transaction_finish_invalidate_caches t d =
     (if be_transaction_id (d_backend d) = None then (False, d)
      else
        let d = d\<lparr>d_cache := snd (pk_cache_set_results (tr_role t) (tr_results t) (d_cache d))\<rparr>
        in if tr_role t = PK_ROLE_ENUM_UPDATE_SYSTEM \<or> tr_role t = PK_ROLE_ENUM_UPDATE_PACKAGES \<or>
              tr_role t = PK_ROLE_ENUM_REMOVE_PACKAGES \<or> tr_role t = PK_ROLE_ENUM_REPO_ENABLE \<or>
              tr_role t = PK_ROLE_ENUM_REPO_SET_DATA \<or> tr_role t = PK_ROLE_ENUM_REFRESH_CACHE
           then
             let d = d\<lparr>d_cache := pk_cache_invalidate (d_cache d)\<rparr>
             in (True, snd (pk_notify_wait_updates_changed d))
           else (True, d))"

definition finished_exit_enum :: "PkTransaction \<Rightarrow> PkExitEnum \<Rightarrow> PkExitEnum" where
  "finished_exit_enum t exit_enum =
     (if tr_emit_signature_required t then PK_EXIT_ENUM_KEY_REQUIRED
      else if tr_emit_eula_required t then PK_EXIT_ENUM_EULA_REQUIRED
      else if tr_emit_media_change_required t then PK_EXIT_ENUM_MEDIA_CHANGE_REQUIRED
      else exit_enum)"

text \<open>\<open>%i\<close> of the \<open>guint\<close> uid.\<close>

definition finished_log_packages :: "string \<Rightarrow> PkTransaction \<Rightarrow> daemon \<Rightarrow> daemon" where
  "finished_log_packages tid t d =
     (if tr_role t = PK_ROLE_ENUM_UPDATE_SYSTEM \<or> tr_role t = PK_ROLE_ENUM_UPDATE_PACKAGES \<or>
         tr_role t = PK_ROLE_ENUM_INSTALL_PACKAGES \<or> tr_role t = PK_ROLE_ENUM_REMOVE_PACKAGES
      then
        let array = package_array (tr_results t);
            packages = pk_transaction_package_list_to_string array;
            d = (if \<not> pk_strzero (Some packages) then effect (DB_set_data tid packages) d else d)
        in foldl (\<lambda>d item.
             if pkg_info item = PK_INFO_ENUM_REMOVING \<or> pkg_info item = PK_INFO_ENUM_INSTALLING \<or>
                pkg_info item = PK_INFO_ENUM_UPDATING
             then effect (SYSLOG_INFO (''in '' @ tid @ '' for '' @ pk_role_enum_to_string (tr_role t) @
                    '' package '' @ pkg_id item @ '' was '' @ pk_info_enum_to_string (pkg_info item) @
                    '' for uid '' @ fmt_i (tr_uid t))) d
             else d) d array
      else d)"

definition finished_log :: "string \<Rightarrow> PkTransaction \<Rightarrow> PkExitEnum \<Rightarrow> guint \<Rightarrow> daemon \<Rightarrow> daemon" where
  "finished_log tid t exit_enum time_ms d =
     (let d = finished_log_packages tid t d;
          d = (if tr_role t = PK_ROLE_ENUM_REPO_ENABLE \<or> tr_role t = PK_ROLE_ENUM_REPO_SET_DATA
               then effect NOTIFY_repo_list_changed d else d);
          d = (if exit_enum = PK_EXIT_ENUM_SUCCESS then effect (DB_action_time_reset (tr_role t)) d
               else d);
          d = (if exit_enum = PK_EXIT_ENUM_SUCCESS then effect (DB_set_finished tid True time_ms) d
               else effect (DB_set_finished tid False time_ms) d)
      in if tr_uid t \<noteq> PK_TRANSACTION_UID_INVALID
         then effect (SYSLOG_INFO (pk_role_enum_to_string (tr_role t) @ '' transaction '' @ tid @
                '' from uid '' @ fmt_i (tr_uid t) @ '' finished with '' @
                pk_exit_enum_to_string exit_enum @ '' after '' @ fmt_i time_ms @ ''ms'')) d
         else effect (SYSLOG_INFO (pk_role_enum_to_string (tr_role t) @ '' transaction '' @ tid @
                '' finished with '' @ pk_exit_enum_to_string exit_enum @ '' after '' @
                fmt_i time_ms @ ''ms'')) d)"

text \<open>
  A plugin may remove the transaction; nothing is left to do then. The runtime is that of the
  backend.
\<close>

definition pk_transaction_finished_cb ::
  "environment \<Rightarrow> PkExitEnum \<Rightarrow> string \<Rightarrow> daemon \<Rightarrow> daemon" where
  "pk_transaction_finished_cb env exit_enum tid d =
     (case get_tr tid d of
        None \<Rightarrow> d
      | Some t \<Rightarrow>
          if tr_finished t then d
          else
            let d = pk_transaction_plugin_phase env PK_PLUGIN_PHASE_TRANSACTION_FINISHED_START tid d;
                d = upd_tr tid (pk_transaction_set_signals finished_phase_signals) d;
                d = pk_transaction_plugin_phase env PK_PLUGIN_PHASE_TRANSACTION_FINISHED_RESULTS tid d;
                d = upd_tr tid (pk_transaction_set_signals PK_TRANSACTION_NO_BACKEND_SIGNALS) d;
                d = pk_transaction_plugin_phase env PK_PLUGIN_PHASE_TRANSACTION_FINISHED_END tid d;
                d = upd_tr tid (tr_result (pk_results_set_exit_code exit_enum)) d;
                d = upd_tr tid (pk_transaction_set_signals PK_TRANSACTION_NO_BACKEND_SIGNALS) d;
                d = upd_tr tid (\<lambda>t. if tr_allow_cancel t then pk_transaction_allow_cancel_emit False t
                                    else t) d;
                d = upd_tr tid (\<lambda>t. t\<lparr>tr_finished := True\<rparr>) d
            in (case get_tr tid d of
                  None \<Rightarrow> d
                | Some t \<Rightarrow>
                    let exit_enum = finished_exit_enum t exit_enum;
                        d = (if exit_enum = PK_EXIT_ENUM_SUCCESS
                             then snd (pk_transaction_finish_invalidate_caches t d) else d);
                        d = finished_log tid t exit_enum (runtime_ms env) d
                    in pk_transaction_finished_emit tid exit_enum (runtime_ms env) d))"

section \<open>Delivery of every signal\<close>

fun signal_kind :: "backend_signal \<Rightarrow> PkBackendSignal option" where
  "signal_kind (SIGNAL_STATUS_CHANGED _) = Some PK_BACKEND_SIGNAL_STATUS_CHANGED"
| "signal_kind (SIGNAL_DETAILS _) = Some PK_BACKEND_SIGNAL_DETAILS"
| "signal_kind (SIGNAL_FILES _) = Some PK_BACKEND_SIGNAL_FILES"
| "signal_kind (SIGNAL_DISTRO_UPGRADE _) = Some PK_BACKEND_SIGNAL_DISTRO_UPGRADE"
| "signal_kind (SIGNAL_PACKAGE _) = Some PK_BACKEND_SIGNAL_PACKAGE"
| "signal_kind (SIGNAL_UPDATE_DETAIL _) = Some PK_BACKEND_SIGNAL_UPDATE_DETAIL"
| "signal_kind (SIGNAL_ERROR_CODE _) = Some PK_BACKEND_SIGNAL_ERROR_CODE"
| "signal_kind (SIGNAL_REPO_SIGNATURE_REQUIRED _) = Some PK_BACKEND_SIGNAL_REPO_SIGNATURE_REQUIRED"
| "signal_kind (SIGNAL_EULA_REQUIRED _) = Some PK_BACKEND_SIGNAL_EULA_REQUIRED"
| "signal_kind (SIGNAL_REQUIRE_RESTART _) = Some PK_BACKEND_SIGNAL_REQUIRE_RESTART"
| "signal_kind (SIGNAL_MESSAGE _) = Some PK_BACKEND_SIGNAL_MESSAGE"
| "signal_kind (SIGNAL_CHANGE_TRANSACTION_DATA _) = None"
| "signal_kind (SIGNAL_FINISHED _) = Some PK_BACKEND_SIGNAL_FINISHED"
| "signal_kind (SIGNAL_ALLOW_CANCEL _) = Some PK_BACKEND_SIGNAL_ALLOW_CANCEL"
| "signal_kind (SIGNAL_REPO_DETAIL _) = Some PK_BACKEND_SIGNAL_REPO_DETAIL"
| "signal_kind (SIGNAL_CATEGORY _) = Some PK_BACKEND_SIGNAL_CATEGORY"
| "signal_kind (SIGNAL_MEDIA_CHANGE_REQUIRED _) = Some PK_BACKEND_SIGNAL_MEDIA_CHANGE_REQUIRED"
| "signal_kind (SIGNAL_ITEM_PROGRESS _ _) = Some PK_BACKEND_SIGNAL_ITEM_PROGRESS"
| "signal_kind (NOTIFY PROP_SPEED) = Some PK_BACKEND_SIGNAL_NOTIFY_SPEED"
| "signal_kind (NOTIFY PROP_PERCENTAGE) = Some PK_BACKEND_SIGNAL_NOTIFY_PERCENTAGE"
| "signal_kind (NOTIFY PROP_SUBPERCENTAGE) = Some PK_BACKEND_SIGNAL_NOTIFY_SUBPERCENTAGE"
| "signal_kind (NOTIFY PROP_REMAINING) = Some PK_BACKEND_SIGNAL_NOTIFY_REMAINING"
| "signal_kind REPO_LIST_CHANGED = None"
| "signal_kind (VFUNC _) = None"

text \<open>The callbacks with a complaint; a package that is complained about is dropped.\<close>

definition pk_transaction_package_cb ::
  "environment \<Rightarrow> PkPackage \<Rightarrow> string \<Rightarrow> daemon \<Rightarrow> daemon" where
  "pk_transaction_package_cb env item tid d =
     (case get_tr tid d of
        None \<Rightarrow> d
      | Some t \<Rightarrow>
          if tr_finished t then d
          else
            (case package_complaint item t of
               Some details \<Rightarrow> complain env details d
             | None \<Rightarrow> upd_tr tid (package_accept item) d))"

definition deliver_to :: "environment \<Rightarrow> backend_signal \<Rightarrow> string \<Rightarrow> daemon \<Rightarrow> daemon" where
  "deliver_to env s tid d =
     (case s of
        SIGNAL_STATUS_CHANGED st \<Rightarrow> upd_tr tid (pk_transaction_status_changed_cb st) d
      | SIGNAL_DETAILS item \<Rightarrow> upd_tr tid (pk_transaction_details_cb item) d
      | SIGNAL_FILES item \<Rightarrow>
          let d = (case get_tr tid d of
                     None \<Rightarrow> d
                   | Some t \<Rightarrow> foldl (\<lambda>d details. complain env details d) d (files_complaints item t))
          in upd_tr tid (pk_transaction_files_cb item) d
      | SIGNAL_DISTRO_UPGRADE item \<Rightarrow> upd_tr tid (pk_transaction_distro_upgrade_cb item) d
      | SIGNAL_PACKAGE item \<Rightarrow> pk_transaction_package_cb env item tid d
      | SIGNAL_UPDATE_DETAIL item \<Rightarrow> upd_tr tid (pk_transaction_update_detail_cb item) d
      | SIGNAL_ERROR_CODE item \<Rightarrow>
          let d = (case get_tr tid d of
                     None \<Rightarrow> d
                   | Some t \<Rightarrow>
                       (case error_code_complaint item t of
                          None \<Rightarrow> d
                        | Some details \<Rightarrow> complain env details d))
          in upd_tr tid (pk_transaction_error_code_cb item) d
      | SIGNAL_REPO_SIGNATURE_REQUIRED item \<Rightarrow>
          upd_tr tid (pk_transaction_repo_signature_required_cb item) d
      | SIGNAL_EULA_REQUIRED item \<Rightarrow> upd_tr tid (pk_transaction_eula_required_cb item) d
      | SIGNAL_REQUIRE_RESTART item \<Rightarrow> upd_tr tid (pk_transaction_require_restart_cb item) d
      | SIGNAL_MESSAGE item \<Rightarrow>
          upd_tr tid (pk_transaction_message_cb (pk_conf_get_bool (conf env) ''DeveloperMode'') item) d
      | SIGNAL_FINISHED exit_enum \<Rightarrow> pk_transaction_finished_cb env exit_enum tid d
      | SIGNAL_ALLOW_CANCEL a \<Rightarrow> upd_tr tid (pk_transaction_allow_cancel_cb a) d
      | SIGNAL_REPO_DETAIL item \<Rightarrow> upd_tr tid (pk_transaction_repo_detail_cb item) d
      | SIGNAL_CATEGORY item \<Rightarrow> upd_tr tid (pk_transaction_category_cb item) d
      | SIGNAL_MEDIA_CHANGE_REQUIRED item \<Rightarrow>
          upd_tr tid (pk_transaction_media_change_required_cb item) d
      | SIGNAL_ITEM_PROGRESS package_id p \<Rightarrow>
          upd_tr tid (pk_transaction_item_progress_cb package_id p) d
      | NOTIFY PROP_SPEED \<Rightarrow> upd_tr tid (pk_transaction_speed_cb (be_speed (d_backend d))) d
      | NOTIFY PROP_PERCENTAGE \<Rightarrow>
          upd_tr tid (pk_transaction_percentage_cb (be_percentage (d_backend d))) d
      | NOTIFY PROP_SUBPERCENTAGE \<Rightarrow>
          upd_tr tid (pk_transaction_subpercentage_cb (be_subpercentage (d_backend d))) d
      | NOTIFY PROP_REMAINING \<Rightarrow>
          upd_tr tid (pk_transaction_remaining_cb (be_remaining (d_backend d))) d
      | _ \<Rightarrow> d)"

definition deliver :: "environment \<Rightarrow> backend_signal \<Rightarrow> daemon \<Rightarrow> daemon" where
  "deliver env s d =
     (case signal_kind s of
        None \<Rightarrow> d
      | Some k \<Rightarrow>
          foldl (\<lambda>d tid. if is_connected k tid d then deliver_to env s tid d else d) d (connected k d))"

text \<open>An operation of the backend object, with the delivery of what it emits.\<close>

definition backend_do :: "environment \<Rightarrow> (PkBackend \<Rightarrow> PkBackend) \<Rightarrow> daemon \<Rightarrow> daemon" where
  "backend_do env f d =
     (let b = f (d_backend d)
      in foldl (\<lambda>d s. deliver env s d) (d\<lparr>d_backend := b\<rparr>) (new_signals (d_backend d) b))"

end
