(* ===== verification/PK_Transaction_Control.thy ===== *)
theory PK_Transaction_Control
  imports PK_Transaction_Run
begin

text \<open>
  Starting, committing, authorizing and cancelling transactions
  (\<open>src/src/pk-transaction.c\<close>), and the two operations of the list that need them
  (\<open>src/src/pk-transaction-list.c\<close>).
\<close>

section \<open>Running a transaction\<close>

text \<open>The return value is dropped by the caller, apart from a debug line.\<close>

definition pk_transaction_set_session_state ::
  "environment \<Rightarrow> PkTransaction \<Rightarrow> daemon \<Rightarrow> bool \<times> daemon" where
  "pk_transaction_set_session_state env t d =
     (case session_of_sender env (or_empty (tr_sender t)) of
        None \<Rightarrow> (False, d)
      | Some session \<Rightarrow>
          (case db_get_proxy env (tr_uid t) session of
             None \<Rightarrow> (False, d)
           | Some (http, https, ftp, socks, no_proxy, pac) \<Rightarrow>
               let d = backend_do env (pk_backend_set_proxy http https ftp socks no_proxy pac) d
               in (case db_get_root env (tr_uid t) session of
                     None \<Rightarrow> (False, d)
                   | Some root \<Rightarrow>
                       let d = backend_do env (pk_backend_set_root root) d;
                           cmdline = ''PackageKit: '' @ pk_role_enum_to_string (tr_role t);
                           d = backend_do env (pk_backend_set_uid (tr_uid t)) d;
                           d = backend_do env (pk_backend_set_cmdline (Some cmdline)) d
                       in (True, d))))"

definition run_prepare :: "environment \<Rightarrow> string \<Rightarrow> PkTransaction \<Rightarrow> daemon \<Rightarrow> daemon" where
  "run_prepare env tid t d =
     (let d = backend_do env (\<lambda>b. snd (pk_backend_reset b)) d;
          d = backend_do env (\<lambda>b. b\<lparr>be_background := tr_background t,
                be_interactive := tr_interactive t, be_transaction_id := tr_tid t\<rparr>) d;
          d = (case tr_locale t of
                 None \<Rightarrow> backend_do env (\<lambda>b. snd (pk_backend_set_locale ''C'' b)) d
               | Some l \<Rightarrow> backend_do env (\<lambda>b. snd (pk_backend_set_locale l b)) d);
          d = backend_do env (\<lambda>b. snd (pk_backend_set_frontend_socket (tr_frontend_socket t) b)) d;
          d = (if 0 < tr_cache_age t
               then backend_do env (pk_backend_set_cache_age (tr_cache_age t)) d else d);
          d = snd (pk_transaction_set_session_state env t d);
          d = backend_do env (\<lambda>b. snd (pk_backend_set_status PK_STATUS_ENUM_SETUP b)) d;
          d = upd_tr tid (pk_transaction_status_changed_emit PK_STATUS_ENUM_SETUP) d;
          d = upd_tr tid (pk_transaction_set_signals PK_TRANSACTION_NO_BACKEND_SIGNALS) d
      in pk_transaction_plugin_phase env PK_PLUGIN_PHASE_TRANSACTION_RUN tid d)"

text \<open>
  The call that a role stands for, with the cached arguments. \<open>None\<close> is a role without a call,
  \<open>Some None\<close> a jump through a \<open>NULL\<close> pointer of the plugin's table.
\<close>

definition run_role :: "PkTransaction \<Rightarrow> PkBackend \<Rightarrow> PkBackend option option" where
  "run_role t b =
     (case tr_role t of
        PK_ROLE_ENUM_GET_DEPENDS \<Rightarrow>
          Some (Some (pk_backend_get_depends (cached_filters t) (cached_package_ids t) (cached_force t) b))
      | PK_ROLE_ENUM_GET_UPDATE_DETAIL \<Rightarrow>
          Some (Some (pk_backend_get_update_detail (cached_package_ids t) b))
      | PK_ROLE_ENUM_RESOLVE \<Rightarrow>
          Some (Some (pk_backend_resolve (cached_filters t) (cached_package_ids t) b))
      | PK_ROLE_ENUM_ROLLBACK \<Rightarrow> Some (Some (pk_backend_rollback (cached_transaction_id t) b))
      | PK_ROLE_ENUM_DOWNLOAD_PACKAGES \<Rightarrow>
          Some (Some (pk_backend_download_packages (cached_package_ids t) (cached_directory t) b))
      | PK_ROLE_ENUM_GET_DETAILS \<Rightarrow> Some (Some (pk_backend_get_details (cached_package_ids t) b))
      | PK_ROLE_ENUM_GET_DISTRO_UPGRADES \<Rightarrow> Some (Some (pk_backend_get_distro_upgrades b))
      | PK_ROLE_ENUM_GET_FILES \<Rightarrow> Some (Some (pk_backend_get_files (cached_package_ids t) b))
      | PK_ROLE_ENUM_GET_REQUIRES \<Rightarrow>
          Some (Some (pk_backend_get_requires (cached_filters t) (cached_package_ids t) (cached_force t) b))
      | PK_ROLE_ENUM_WHAT_PROVIDES \<Rightarrow>
          Some (Some (pk_backend_what_provides (cached_filters t) (cached_provides t) (cached_values t) b))
      | PK_ROLE_ENUM_GET_UPDATES \<Rightarrow> Some (Some (pk_backend_get_updates (cached_filters t) b))
      | PK_ROLE_ENUM_GET_PACKAGES \<Rightarrow> Some (Some (pk_backend_get_packages (cached_filters t) b))
      | PK_ROLE_ENUM_SEARCH_DETAILS \<Rightarrow>
          Some (Some (pk_backend_search_details (cached_filters t) (cached_values t) b))
      | PK_ROLE_ENUM_SEARCH_FILE \<Rightarrow>
          Some (Some (pk_backend_search_files (cached_filters t) (cached_values t) b))
      | PK_ROLE_ENUM_SEARCH_GROUP \<Rightarrow>
          Some (Some (pk_backend_search_groups (cached_filters t) (cached_values t) b))
      | PK_ROLE_ENUM_SEARCH_NAME \<Rightarrow>
          Some (Some (pk_backend_search_names (cached_filters t) (cached_values t) b))
      | PK_ROLE_ENUM_INSTALL_PACKAGES \<Rightarrow>
          Some (Some (pk_backend_install_packages (cached_only_trusted t) (cached_package_ids t) b))
      | PK_ROLE_ENUM_INSTALL_FILES \<Rightarrow>
          Some (Some (pk_backend_install_files (cached_only_trusted t) (cached_full_paths t) b))
      | PK_ROLE_ENUM_INSTALL_SIGNATURE \<Rightarrow>
          Some (Some (pk_backend_install_signature PK_SIGTYPE_ENUM_GPG (cached_key_id t)
                        (cached_package_id t) b))
      | PK_ROLE_ENUM_REFRESH_CACHE \<Rightarrow> Some (Some (pk_backend_refresh_cache (cached_force t) b))
      | PK_ROLE_ENUM_REMOVE_PACKAGES \<Rightarrow>
          Some (Some (pk_backend_remove_packages (cached_package_ids t) (cached_allow_deps t)
                        (cached_autoremove t) b))
      | PK_ROLE_ENUM_UPDATE_PACKAGES \<Rightarrow>
          Some (Some (pk_backend_update_packages (cached_only_trusted t) (cached_package_ids t) b))
      | PK_ROLE_ENUM_UPDATE_SYSTEM \<Rightarrow> Some (Some (pk_backend_update_system (cached_only_trusted t) b))
      | PK_ROLE_ENUM_GET_CATEGORIES \<Rightarrow> Some (Some (pk_backend_get_categories b))
      | PK_ROLE_ENUM_GET_REPO_LIST \<Rightarrow> Some (Some (pk_backend_get_repo_list (cached_filters t) b))
      | PK_ROLE_ENUM_REPO_ENABLE \<Rightarrow>
          Some (Some (pk_backend_repo_enable (cached_repo_id t) (cached_enabled t) b))
      | PK_ROLE_ENUM_REPO_SET_DATA \<Rightarrow>
          Some (Some (pk_backend_repo_set_data (cached_repo_id t) (cached_parameter t) (cached_value t) b))
      | PK_ROLE_ENUM_SIMULATE_INSTALL_FILES \<Rightarrow>
          Some (Some (pk_backend_simulate_install_files (cached_full_paths t) b))
      | PK_ROLE_ENUM_SIMULATE_INSTALL_PACKAGES \<Rightarrow>
          Some (Some (pk_backend_simulate_install_packages (cached_package_ids t) b))
      | PK_ROLE_ENUM_SIMULATE_REMOVE_PACKAGES \<Rightarrow>
          Some (Some (pk_backend_simulate_remove_packages (cached_package_ids t) (cached_autoremove t) b))
      | PK_ROLE_ENUM_SIMULATE_UPDATE_PACKAGES \<Rightarrow>
          Some (Some (pk_backend_simulate_update_packages (cached_package_ids t) b))
      | PK_ROLE_ENUM_UPGRADE_SYSTEM \<Rightarrow>
          Some (Some (pk_backend_upgrade_system (cached_value t) (cached_upgrade_kind t) b))
      | PK_ROLE_ENUM_REPAIR_SYSTEM \<Rightarrow> Some (Some (pk_backend_repair_system (cached_only_trusted t) b))
      | PK_ROLE_ENUM_SIMULATE_REPAIR_SYSTEM \<Rightarrow> Some (pk_backend_simulate_repair_system b)
      | _ \<Rightarrow> None)"

definition run_call :: "environment \<Rightarrow> string \<Rightarrow> daemon \<Rightarrow> bool \<times> daemon" where
  "run_call env tid d =
     (let d = upd_tr tid (\<lambda>t. t\<lparr>tr_allow_cancel := False\<rparr>) d;
          d = backend_do env (\<lambda>b. snd (pk_backend_set_percentage (estimate_s env)
                PK_BACKEND_PERCENTAGE_INVALID b)) d
      in (case get_tr tid d of
            None \<Rightarrow> (True, d)
          | Some t \<Rightarrow>
              (case run_role t (d_backend d) of
                 None \<Rightarrow> (False, abort d)
               | Some None \<Rightarrow> (False, abort d)
               | Some (Some b) \<Rightarrow> (True, backend_do env (\<lambda>_. b) d))))"

definition run_connect :: "environment \<Rightarrow> string \<Rightarrow> daemon \<Rightarrow> daemon" where
  "run_connect env tid d =
     (let d = upd_tr tid (pk_transaction_set_signals PK_TRANSACTION_NO_BACKEND_SIGNALS) d;
          d = backend_do env (\<lambda>b. snd (pk_backend_reset b)) d;
          role = (case get_tr tid d of None \<Rightarrow> PK_ROLE_ENUM_UNKNOWN | Some t \<Rightarrow> tr_role t);
          d = backend_do env (\<lambda>b. snd (pk_backend_set_role role b)) d;
          d = upd_tr tid (pk_transaction_set_signals PK_TRANSACTION_ALL_BACKEND_SIGNALS) d;
          d = pk_transaction_plugin_phase env PK_PLUGIN_PHASE_TRANSACTION_STARTED tid d
      in upd_tr tid (pk_transaction_set_signals PK_TRANSACTION_ALL_BACKEND_SIGNALS) d)"

definition pk_transaction_run :: "environment \<Rightarrow> string \<Rightarrow> daemon \<Rightarrow> bool \<times> daemon" where
  "pk_transaction_run env tid d =
     (case get_tr tid d of
        None \<Rightarrow> (False, d)
      | Some t \<Rightarrow>
          let d = run_prepare env tid t d in
          if be_set_error (d_backend d) then
            (True, pk_transaction_finished_emit tid (be_exit (d_backend d)) 0 d)
          else if be_exit (d_backend d) = PK_EXIT_ENUM_SKIP_TRANSACTION then
            (True, pk_transaction_finished_emit tid PK_EXIT_ENUM_SUCCESS 0 d)
          else
            let d = run_connect env tid d;
                exit_status = be_exit (d_backend d)
            in if exit_status = PK_EXIT_ENUM_SKIP_TRANSACTION then
                 (True, pk_transaction_finished_emit tid PK_EXIT_ENUM_SUCCESS 0 d)
               else if exit_status \<noteq> PK_EXIT_ENUM_UNKNOWN then
                 (True, pk_transaction_finished_emit tid exit_status 0 d)
               else run_call env tid d)"

definition pk_transaction_list_run_idle_cb :: "environment \<Rightarrow> string \<Rightarrow> daemon \<Rightarrow> daemon" where
  "pk_transaction_list_run_idle_cb env tid d =
     (let (ret, d) = pk_transaction_run env tid d;
          d = (if \<not> ret then abort d else d)
      in upd_item tid (\<lambda>item. item\<lparr>it_idle_id := 0\<rparr>) d)"

section \<open>Cancelling\<close>

definition pk_transaction_release_tid :: "string \<Rightarrow> daemon \<Rightarrow> bool \<times> daemon" where
  "pk_transaction_release_tid tid d = pk_transaction_list_remove tid d"

definition is_implemented :: "PkRoleEnum \<Rightarrow> daemon \<Rightarrow> bool \<times> daemon" where
  "is_implemented role d =
     (let (ret, b) = pk_backend_is_implemented role (d_backend d) in (ret, d\<lparr>d_backend := b\<rparr>))"

text \<open>The two ways in which a transaction is cancelled, shared by the daemon and the client.\<close>

definition cancel_queued :: "string \<Rightarrow> daemon \<Rightarrow> daemon" where
  "cancel_queued tid d =
     (let d = upd_tr tid (pk_transaction_progress_changed_emit 100 100 0 0) d;
          d = upd_tr tid (pk_transaction_allow_cancel_emit False) d;
          d = upd_tr tid (pk_transaction_status_changed_emit PK_STATUS_ENUM_FINISHED) d;
          d = pk_transaction_finished_emit tid PK_EXIT_ENUM_CANCELLED 0 d
      in snd (pk_transaction_release_tid tid d))"

definition cancel_running :: "environment \<Rightarrow> PkExitEnum \<Rightarrow> daemon \<Rightarrow> daemon" where
  "cancel_running env exit_enum d =
     (let d = backend_do env (\<lambda>b. snd (pk_backend_set_status PK_STATUS_ENUM_CANCEL b)) d;
          d = backend_do env (\<lambda>b. snd (pk_backend_set_allow_cancel False b)) d;
          d = backend_do env (\<lambda>b. snd (pk_backend_set_exit_code exit_enum b)) d
      in (case pk_backend_cancel (d_backend d) of
            None \<Rightarrow> abort d
          | Some b \<Rightarrow> backend_do env (\<lambda>_. b) d))"

definition pk_transaction_cancel_bg :: "environment \<Rightarrow> string \<Rightarrow> daemon \<Rightarrow> daemon" where
  "pk_transaction_cancel_bg env tid d =
     (case get_tr tid d of
        None \<Rightarrow> d
      | Some t \<Rightarrow>
          let (ret, d) = is_implemented PK_ROLE_ENUM_CANCEL d in
          if \<not> ret then d
          else if tr_state t \<le> PK_TRANSACTION_STATE_READY then cancel_queued tid d
          else cancel_running env PK_EXIT_ENUM_CANCELLED_PRIORITY d)"

text \<open>
  Both loops look at the items by index while cancelling changes the list only in place: the
  state of an item is read when its turn comes.
\<close>

definition pk_transaction_list_cancel_background :: "environment \<Rightarrow> daemon \<Rightarrow> daemon" where
  "pk_transaction_list_cancel_background env d =
     (let tids = map it_tid (d_items d);
          d = foldl (\<lambda>d tid.
                (case get_item tid d of
                   None \<Rightarrow> d
                 | Some item \<Rightarrow>
                     if PK_TRANSACTION_STATE_RUNNING \<le> item_state item then d
                     else pk_transaction_cancel_bg env tid d)) d tids
      in foldl (\<lambda>d tid.
           (case get_item tid d of
              None \<Rightarrow> d
            | Some item \<Rightarrow>
                if item_state item \<noteq> PK_TRANSACTION_STATE_RUNNING then d
                else if \<not> it_background item then d
                else pk_transaction_cancel_bg env tid d)) d tids)"

section \<open>Committing\<close>

definition pk_transaction_list_commit :: "environment \<Rightarrow> string \<Rightarrow> daemon \<Rightarrow> bool \<times> daemon" where
  "pk_transaction_list_commit env tid d =
     (case pk_transaction_list_get_from_tid tid d of
        None \<Rightarrow> (False, d)
      | Some item \<Rightarrow>
          if item_state item = PK_TRANSACTION_STATE_COMMITTED then (False, d)
          else
            let (ret, d) = set_state tid PK_TRANSACTION_STATE_COMMITTED d
            in if \<not> ret then (False, d)
               else
                 let d = (if it_commit_id item \<noteq> 0
                          then upd_item tid (\<lambda>i. i\<lparr>it_commit_id := 0\<rparr>)
                                 (loop_remove (it_commit_id item) d)
                          else d);
                     d = effect LIST_CHANGED d
                 in (case pk_transaction_list_get_active_transaction d of
                       None \<Rightarrow> (True, pk_transaction_list_run_item tid d)
                     | Some item_active \<Rightarrow>
                         if \<not> pk_conf_get_bool (conf env) ''TransactionCreateCommitTimeout'' then (True, d)
                         else if \<not> it_background item \<and> it_background item_active
                         then (True, pk_transaction_cancel_bg env (it_tid item_active) d)
                         else (True, d)))"

definition commit_log :: "string \<Rightarrow> PkTransaction \<Rightarrow> daemon \<Rightarrow> daemon" where
  "commit_log tid t d =
     (if tr_role t = PK_ROLE_ENUM_UPDATE_SYSTEM \<or> tr_role t = PK_ROLE_ENUM_REMOVE_PACKAGES \<or>
         tr_role t = PK_ROLE_ENUM_INSTALL_PACKAGES \<or> tr_role t = PK_ROLE_ENUM_UPDATE_PACKAGES
      then
        let d = effect (DB_add tid) d;
            d = effect (DB_set_role tid (tr_role t)) d;
            d = effect (DB_set_uid tid (tr_uid t)) d;
            d = (case tr_cmdline t of None \<Rightarrow> d | Some c \<Rightarrow> effect (DB_set_cmdline tid c) d)
        in effect (SYSLOG_INFO (''new '' @ pk_role_enum_to_string (tr_role t) @ '' transaction '' @
                     tid @ '' scheduled from uid '' @ fmt_i (tr_uid t))) d
      else d)"

definition pk_transaction_commit :: "environment \<Rightarrow> string \<Rightarrow> daemon \<Rightarrow> bool \<times> daemon" where
  "pk_transaction_commit env tid d =
     (case get_tr tid d of
        None \<Rightarrow> (False, d)
      | Some t \<Rightarrow>
          let d = (if tr_background t = PK_HINT_ENUM_TRUE \<or> tr_background t = PK_HINT_ENUM_FALSE
                   then snd (pk_transaction_list_set_background tid
                          (tr_background t = PK_HINT_ENUM_TRUE) d)
                   else d);
              (ret, d) = pk_transaction_list_commit env tid d
          in if \<not> ret then (False, snd (pk_transaction_release_tid tid d))
             else (True, commit_log tid t d))"

section \<open>Authorization\<close>

definition polkit_message :: "PkTransaction \<Rightarrow> string" where
  "polkit_message t =
     (let n = length (cached_package_ids t)
      in ''The software is not from a trusted source.'' @ [CHR 0x0A] @
         (if tr_role t = PK_ROLE_ENUM_UPDATE_PACKAGES then
            if n = 1 then ''Do not update this package unless you are sure it is safe to do so.''
            else ''Do not update these packages unless you are sure it is safe to do so.''
          else []) @
         (if tr_role t = PK_ROLE_ENUM_INSTALL_PACKAGES then
            if n = 1 then ''Do not install this package unless you are sure it is safe to do so.''
            else ''Do not install these packages unless you are sure it is safe to do so.''
          else []))"

text \<open>The details for the dialog, before translation; a missing list of packages is an empty one.\<close>

definition polkit_details :: "PkTransaction \<Rightarrow> (string \<times> string) list" where
  "polkit_details t =
     (case cached_package_id t of
        Some p \<Rightarrow> [(''package_ids'', p)]
      | None \<Rightarrow>
          if cached_package_ids t \<noteq> []
          then [(''package_ids'', or_empty (pk_package_ids_to_string (Some (cached_package_ids t))))] else []) @
     (case tr_cmdline t of Some c \<Rightarrow> [(''cmdline'', c)] | None \<Rightarrow> []) @
     (if \<not> cached_only_trusted t
      then [(''polkit.icon_name'', ''emblem-important''),
            (''polkit.gettext_domain'', ''PackageKit''),
            (''polkit.message'', polkit_message t)]
      else [])"

definition pk_transaction_obtain_authorization ::
  "string \<Rightarrow> bool \<Rightarrow> PkRoleEnum \<Rightarrow> daemon \<Rightarrow> gerror option \<times> daemon" where
  "pk_transaction_obtain_authorization tid only_trusted role d =
     (case get_tr tid d of
        None \<Rightarrow> (None, d)
      | Some t \<Rightarrow>
          if \<not> tr_subject t then
            (Some (PK_TRANSACTION_ERROR_REFUSED_BY_POLICY,
                   ''subject '' @ or_empty (tr_sender t) @ '' not found''), d)
          else
            (case (if only_trusted then pk_transaction_role_to_action_only_trusted role
                   else pk_transaction_role_to_action_allow_untrusted role) of
               None \<Rightarrow>
                 (Some (PK_TRANSACTION_ERROR_REFUSED_BY_POLICY,
                        ''policykit type required for '' @ [CHR 0x27] @ pk_role_enum_to_string role @
                        [CHR 0x27]), d)
             | Some action_id \<Rightarrow>
                 let d = effect (SYSLOG_AUTH (''uid '' @ fmt_i (tr_uid t) @ '' is trying to obtain '' @
                           action_id @ '' auth (only_trusted:'' @
                           (if only_trusted then ''1'' else ''0'') @ '')'')) d;
                     d = snd (set_state tid PK_TRANSACTION_STATE_WAITING_FOR_AUTH d);
                     d = upd_tr tid (\<lambda>t. t\<lparr>tr_waiting_for_auth := True\<rparr>) d;
                     request = \<lparr>ar_tid = tid, ar_action_id = action_id, ar_details = polkit_details t\<rparr>
                 in (None, d\<lparr>d_auth := d_auth d @ [request]\<rparr>)))"

datatype auth_answer =
    AUTH_CANCELLED | AUTH_FAILED string | AUTH_NOT_AUTHORIZED | AUTH_AUTHORIZED

definition auth_refused :: "string \<Rightarrow> string \<Rightarrow> daemon \<Rightarrow> daemon" where
  "auth_refused tid message d =
     (let d = upd_tr tid (pk_transaction_status_changed_emit PK_STATUS_ENUM_FINISHED) d;
          d = upd_tr tid (pk_transaction_error_code_emit PK_ERROR_ENUM_NOT_AUTHORIZED message) d
      in pk_transaction_finished_emit tid PK_EXIT_ENUM_FAILED 0 d)"

definition pk_transaction_action_obtain_authorization_finished_cb ::
  "environment \<Rightarrow> auth_answer \<Rightarrow> string \<Rightarrow> daemon \<Rightarrow> daemon" where
  "pk_transaction_action_obtain_authorization_finished_cb env answer tid d =
     (case get_tr tid d of
        None \<Rightarrow> d
      | Some t \<Rightarrow>
          let d = upd_tr tid (\<lambda>t. t\<lparr>tr_waiting_for_auth := False\<rparr>) d in
          (case answer of
             AUTH_CANCELLED \<Rightarrow>
               auth_refused tid ''The authentication was cancelled due to a timeout.'' d
           | AUTH_FAILED message \<Rightarrow>
               auth_refused tid (''Failed to check for authentication: '' @ message) d
           | AUTH_NOT_AUTHORIZED \<Rightarrow>
               effect (SYSLOG_AUTH (''uid '' @ fmt_i (tr_uid t) @ '' failed to obtain auth''))
                 (auth_refused tid ''Failed to obtain authentication.'' d)
           | AUTH_AUTHORIZED \<Rightarrow>
               let (ret, d) = pk_transaction_commit env tid d
               in if \<not> ret then snd (pk_transaction_release_tid tid d)
                  else effect (SYSLOG_AUTH (''uid '' @ fmt_i (tr_uid t) @ '' obtained auth'')) d))"

definition pk_transaction_finished_idle_cb :: "string \<Rightarrow> daemon \<Rightarrow> daemon" where
  "pk_transaction_finished_idle_cb tid d =
     (case get_tr tid d of
        None \<Rightarrow> d
      | Some _ \<Rightarrow> pk_transaction_finished_emit tid PK_EXIT_ENUM_SUCCESS 0 d)"

end
