(* ===== verification/PK_Transaction_Methods.thy ===== *)
theory PK_Transaction_Methods
  imports PK_Transaction_Control
begin

text \<open>
  The methods of the D-Bus interface of a transaction (\<open>src/src/pk-transaction.c\<close>): one function
  per method, after its arguments have been taken out of the \<open>GVariant\<close>, and
  \<open>pk_transaction_method_call\<close>, which refuses every client but the one that the transaction
  belongs to. A method that ends with \<open>goto out\<close> answers the call (\<open>REPLY\<close>); the few paths that
  leave with \<open>return\<close> do not answer at all.
\<close>

section \<open>The parts that the methods share\<close>

definition reply :: "string \<Rightarrow> gerror option \<Rightarrow> daemon \<Rightarrow> daemon" where
  "reply tid err d = effect (REPLY tid err) d"

text \<open>An error that releases the tid before the call is answered.\<close>

definition refuse :: "string \<Rightarrow> gerror \<Rightarrow> daemon \<Rightarrow> daemon" where
  "refuse tid err d = reply tid (Some err) (snd (pk_transaction_release_tid tid d))"

text \<open>
  A check passes, or it refuses with an error, or it releases the tid and leaves the call
  unanswered, or it answers with an error without releasing the tid.
\<close>

datatype check = Pass | Refuse gerror | Refuse_unanswered | Refuse_unreleased gerror

fun checked :: "check list \<Rightarrow> string \<Rightarrow> (daemon \<Rightarrow> daemon) \<Rightarrow> daemon \<Rightarrow> daemon" where
  "checked [] tid go_on d = go_on d"
| "checked (c # cs) tid go_on d =
     (case c of
        Pass \<Rightarrow> checked cs tid go_on d
      | Refuse err \<Rightarrow> refuse tid err d
      | Refuse_unanswered \<Rightarrow> snd (pk_transaction_release_tid tid d)
      | Refuse_unreleased err \<Rightarrow> reply tid (Some err) d)"

definition check_of :: "gerror option \<Rightarrow> check" where
  "check_of err = (case err of None \<Rightarrow> Pass | Some e \<Rightarrow> Refuse e)"

definition implemented ::
  "PkRoleEnum \<Rightarrow> string \<Rightarrow> string \<Rightarrow> (daemon \<Rightarrow> daemon) \<Rightarrow> daemon \<Rightarrow> daemon" where
  "implemented role name tid go_on d =
     (let (ret, d) = is_implemented role d
      in if \<not> ret then refuse tid (PK_TRANSACTION_ERROR_NOT_SUPPORTED,
                                    name @ '' not supported by backend'') d
         else go_on d)"

definition check_number :: "environment \<Rightarrow> string list \<Rightarrow> check" where
  "check_number env package_ids =
     (let length = of_nat (length package_ids) :: guint;
          max_length = conf_guint (conf env) ''MaximumPackagesToProcess''
      in if max_length < length
         then Refuse (PK_TRANSACTION_ERROR_NUMBER_OF_PACKAGES_INVALID,
                ''Too many packages to process ('' @ fmt_i length @ ''/'' @ fmt_i max_length @ '')'')
         else Pass)"

definition package_ids_error :: "string list \<Rightarrow> gerror" where
  "package_ids_error package_ids =
     (PK_TRANSACTION_ERROR_PACKAGE_ID_INVALID,
      ''The package id's '' @ [CHR 0x27] @ or_empty (pk_package_ids_to_string (Some package_ids)) @
      [CHR 0x27] @ '' are not valid'')"

definition check_package_ids :: "string list \<Rightarrow> check" where
  "check_package_ids package_ids =
     (if pk_package_ids_check (Some package_ids) then Pass
      else Refuse (package_ids_error package_ids))"

definition check_filter :: "string \<Rightarrow> check" where
  "check_filter filters = check_of (pk_transaction_filter_check (Some filters))"

definition check_search :: "string list \<Rightarrow> check" where
  "check_search values = check_of (pk_transaction_search_check values)"

definition check_text :: "string \<Rightarrow> check" where
  "check_text t = check_of (pk_transaction_strvalidate (Some t))"

text \<open>The last step of a method that needs no authorization.\<close>

definition commit_method :: "environment \<Rightarrow> string \<Rightarrow> daemon \<Rightarrow> daemon" where
  "commit_method env tid d =
     (let (ret, d) = pk_transaction_commit env tid d
      in if \<not> ret then refuse tid (PK_TRANSACTION_ERROR_COMMIT_FAILED,
                                    ''Could not commit to a transaction object'') d
         else reply tid None d)"

text \<open>The last step of a method that needs one; \<open>go_on\<close> runs when the question has been asked.\<close>

definition authorize_then ::
  "bool \<Rightarrow> PkRoleEnum \<Rightarrow> string \<Rightarrow> (daemon \<Rightarrow> daemon) \<Rightarrow> daemon \<Rightarrow> daemon" where
  "authorize_then only_trusted role tid go_on d =
     (let (err, d) = pk_transaction_obtain_authorization tid only_trusted role d
      in case err of
           Some e \<Rightarrow> refuse tid e d
         | None \<Rightarrow> go_on d)"

definition authorize_method :: "bool \<Rightarrow> PkRoleEnum \<Rightarrow> string \<Rightarrow> daemon \<Rightarrow> daemon" where
  "authorize_method only_trusted role tid d =
     authorize_then only_trusted role tid (reply tid None) d"

text \<open>Saving the arguments and the role.\<close>

definition prepare ::
  "PkRoleEnum \<Rightarrow> (PkTransaction \<Rightarrow> PkTransaction) \<Rightarrow> string \<Rightarrow> daemon \<Rightarrow> daemon" where
  "prepare role save tid d = upd_tr tid (\<lambda>t. pk_transaction_set_role role (save t)) d"

definition add_finished_idle :: "string \<Rightarrow> daemon \<Rightarrow> daemon" where
  "add_finished_idle tid d = snd (loop_add (SRC_transaction_finished_idle tid) d)"

section \<open>Methods that only look\<close>

definition pk_transaction_get_categories :: "environment \<Rightarrow> string \<Rightarrow> daemon \<Rightarrow> daemon" where
  "pk_transaction_get_categories env tid =
     implemented PK_ROLE_ENUM_GET_CATEGORIES ''GetCategories'' tid (\<lambda>d.
       commit_method env tid (prepare PK_ROLE_ENUM_GET_CATEGORIES id tid d))"

definition pk_transaction_get_depends ::
  "environment \<Rightarrow> string \<Rightarrow> string list \<Rightarrow> bool \<Rightarrow> string \<Rightarrow> daemon \<Rightarrow> daemon" where
  "pk_transaction_get_depends env filters package_ids recursive tid =
     implemented PK_ROLE_ENUM_GET_DEPENDS ''GetDepends'' tid (\<lambda>d.
       checked [check_filter filters, check_number env package_ids, check_package_ids package_ids] tid
         (\<lambda>d. commit_method env tid (prepare PK_ROLE_ENUM_GET_DEPENDS
            (\<lambda>t. t\<lparr>cached_filters := pk_filter_bitfield_from_string (Some filters),
                   cached_package_ids := package_ids, cached_force := recursive\<rparr>) tid d)) d)"

definition pk_transaction_get_details ::
  "environment \<Rightarrow> string list \<Rightarrow> string \<Rightarrow> daemon \<Rightarrow> daemon" where
  "pk_transaction_get_details env package_ids tid =
     implemented PK_ROLE_ENUM_GET_DETAILS ''GetDetails'' tid (\<lambda>d.
       checked [check_number env package_ids, check_package_ids package_ids] tid
         (\<lambda>d. commit_method env tid (prepare PK_ROLE_ENUM_GET_DETAILS
            (\<lambda>t. t\<lparr>cached_package_ids := package_ids\<rparr>) tid d)) d)"

definition pk_transaction_get_distro_upgrades :: "environment \<Rightarrow> string \<Rightarrow> daemon \<Rightarrow> daemon" where
  "pk_transaction_get_distro_upgrades env tid =
     implemented PK_ROLE_ENUM_GET_DISTRO_UPGRADES ''GetDistroUpgrades'' tid (\<lambda>d.
       commit_method env tid (prepare PK_ROLE_ENUM_GET_DISTRO_UPGRADES id tid d))"

definition pk_transaction_get_files ::
  "environment \<Rightarrow> string list \<Rightarrow> string \<Rightarrow> daemon \<Rightarrow> daemon" where
  "pk_transaction_get_files env package_ids tid =
     implemented PK_ROLE_ENUM_GET_FILES ''GetFiles'' tid (\<lambda>d.
       checked [check_number env package_ids, check_package_ids package_ids] tid
         (\<lambda>d. commit_method env tid (prepare PK_ROLE_ENUM_GET_FILES
            (\<lambda>t. t\<lparr>cached_package_ids := package_ids\<rparr>) tid d)) d)"

definition pk_transaction_get_packages ::
  "environment \<Rightarrow> string \<Rightarrow> string \<Rightarrow> daemon \<Rightarrow> daemon" where
  "pk_transaction_get_packages env filters tid =
     implemented PK_ROLE_ENUM_GET_PACKAGES ''GetPackages'' tid (\<lambda>d.
       checked [check_filter filters] tid
         (\<lambda>d. commit_method env tid (prepare PK_ROLE_ENUM_GET_PACKAGES
            (\<lambda>t. t\<lparr>cached_filters := pk_filter_bitfield_from_string (Some filters)\<rparr>) tid d)) d)"

definition pk_transaction_get_repo_list ::
  "environment \<Rightarrow> string \<Rightarrow> string \<Rightarrow> daemon \<Rightarrow> daemon" where
  "pk_transaction_get_repo_list env filters tid =
     implemented PK_ROLE_ENUM_GET_REPO_LIST ''GetRepoList'' tid (\<lambda>d.
       checked [check_filter filters] tid
         (\<lambda>d. commit_method env tid (prepare PK_ROLE_ENUM_GET_REPO_LIST
            (\<lambda>t. t\<lparr>cached_filters := pk_filter_bitfield_from_string (Some filters)\<rparr>) tid d)) d)"

definition pk_transaction_get_requires ::
  "environment \<Rightarrow> string \<Rightarrow> string list \<Rightarrow> bool \<Rightarrow> string \<Rightarrow> daemon \<Rightarrow> daemon" where
  "pk_transaction_get_requires env filters package_ids recursive tid =
     implemented PK_ROLE_ENUM_GET_REQUIRES ''GetRequires'' tid (\<lambda>d.
       checked [check_filter filters, check_number env package_ids, check_package_ids package_ids] tid
         (\<lambda>d. commit_method env tid (prepare PK_ROLE_ENUM_GET_REQUIRES
            (\<lambda>t. t\<lparr>cached_filters := pk_filter_bitfield_from_string (Some filters),
                   cached_package_ids := package_ids, cached_force := recursive\<rparr>) tid d)) d)"

definition pk_transaction_get_update_detail ::
  "environment \<Rightarrow> string list \<Rightarrow> string \<Rightarrow> daemon \<Rightarrow> daemon" where
  "pk_transaction_get_update_detail env package_ids tid =
     implemented PK_ROLE_ENUM_GET_UPDATE_DETAIL ''GetUpdateDetail'' tid (\<lambda>d.
       checked [check_number env package_ids, check_package_ids package_ids] tid
         (\<lambda>d. commit_method env tid (prepare PK_ROLE_ENUM_GET_UPDATE_DETAIL
            (\<lambda>t. t\<lparr>cached_package_ids := package_ids\<rparr>) tid d)) d)"

text \<open>The answers from the database are separate signals that are not modelled.\<close>

definition pk_transaction_get_old_transactions ::
  "environment \<Rightarrow> guint \<Rightarrow> string \<Rightarrow> daemon \<Rightarrow> daemon" where
  "pk_transaction_get_old_transactions env number tid d =
     (let d = prepare PK_ROLE_ENUM_GET_OLD_TRANSACTIONS id tid d;
          d = effect (DB_get_list number) d;
          d = add_finished_idle tid d
      in reply tid None d)"

definition pk_transaction_try_emit_cache :: "environment \<Rightarrow> string \<Rightarrow> daemon \<Rightarrow> bool \<times> daemon" where
  "pk_transaction_try_emit_cache env tid d =
     (if \<not> pk_conf_get_bool (conf env) ''UseUpdateCache'' then (False, d)
      else
        (case get_tr tid d of
           None \<Rightarrow> (False, d)
         | Some t \<Rightarrow>
             (case pk_cache_get_results (tr_role t) (d_cache d) of
                None \<Rightarrow> (True, d)
              | Some results \<Rightarrow>
                  if res_exit_enum results \<noteq> PK_EXIT_ENUM_SUCCESS then (True, d)
                  else
                    let d = upd_tr tid (\<lambda>t. foldl (\<lambda>t package. tr_emit (DBUS_Package
                                (pk_info_enum_to_string (pkg_info package)) (pkg_id package)
                                (pkg_summary package)) t) t (package_array results)) d;
                        d = upd_tr tid (\<lambda>t. foldl (\<lambda>t message. tr_emit (DBUS_Message
                                (pk_message_enum_to_string (ms_type message)) (ms_details message)) t)
                              t (message_array results)) d;
                        d = upd_tr tid (pk_transaction_status_changed_emit PK_STATUS_ENUM_FINISHED) d;
                        d = add_finished_idle tid d
                    in (True, d))))"

text \<open>An empty cache counts as a used one: the call is then answered and nothing else happens.\<close>

definition pk_transaction_get_updates :: "environment \<Rightarrow> string \<Rightarrow> string \<Rightarrow> daemon \<Rightarrow> daemon" where
  "pk_transaction_get_updates env filters tid =
     implemented PK_ROLE_ENUM_GET_UPDATES ''GetUpdates'' tid (\<lambda>d.
       checked [check_filter filters] tid
         (\<lambda>d. let d = prepare PK_ROLE_ENUM_GET_UPDATES
                    (\<lambda>t. t\<lparr>cached_filters := pk_filter_bitfield_from_string (Some filters)\<rparr>) tid d;
                  (ret, d) = pk_transaction_try_emit_cache env tid d
              in if ret then reply tid None d else commit_method env tid d) d)"

definition pk_transaction_resolve ::
  "environment \<Rightarrow> string \<Rightarrow> string list \<Rightarrow> string \<Rightarrow> daemon \<Rightarrow> daemon" where
  "pk_transaction_resolve env filters packages tid =
     implemented PK_ROLE_ENUM_RESOLVE ''Resolve'' tid (\<lambda>d.
       let length = of_nat (length packages) :: guint;
           max_length = conf_guint (conf env) ''MaximumItemsToResolve''
       in checked
            [check_filter filters,
             (if length = 0
              then Refuse (PK_TRANSACTION_ERROR_INPUT_INVALID, ''Too few items to process'')
              else Pass),
             (if max_length < length
              then Refuse (PK_TRANSACTION_ERROR_INPUT_INVALID, ''Too many items to process ('' @
                     fmt_i length @ ''/'' @ fmt_i max_length @ '')'')
              else Pass),
             (if list_all (\<lambda>p. pk_transaction_strvalidate (Some p) = None) packages then Pass
              else Refuse_unanswered)] tid
            (\<lambda>d. commit_method env tid (prepare PK_ROLE_ENUM_RESOLVE
               (\<lambda>t. t\<lparr>cached_package_ids := packages,
                      cached_filters := pk_filter_bitfield_from_string (Some filters)\<rparr>) tid d)) d)"

definition search_method ::
  "PkRoleEnum \<Rightarrow> string \<Rightarrow> check list \<Rightarrow> environment \<Rightarrow> string \<Rightarrow> string list \<Rightarrow> string \<Rightarrow>
   daemon \<Rightarrow> daemon" where
  "search_method role name extra env filters values tid =
     implemented role name tid (\<lambda>d.
       checked (check_search values # extra @ [check_filter filters]) tid
         (\<lambda>d. commit_method env tid (prepare role
            (\<lambda>t. t\<lparr>cached_filters := pk_filter_bitfield_from_string (Some filters),
                   cached_values := values\<rparr>) tid d)) d)"

definition pk_transaction_search_details ::
  "environment \<Rightarrow> string \<Rightarrow> string list \<Rightarrow> string \<Rightarrow> daemon \<Rightarrow> daemon" where
  "pk_transaction_search_details env filters values =
     search_method PK_ROLE_ENUM_SEARCH_DETAILS ''SearchDetails'' [] env filters values"

definition pk_transaction_search_files ::
  "environment \<Rightarrow> string \<Rightarrow> string list \<Rightarrow> string \<Rightarrow> daemon \<Rightarrow> daemon" where
  "pk_transaction_search_files env filters values =
     search_method PK_ROLE_ENUM_SEARCH_FILE ''SearchFiles''
       [if list_ex (\<lambda>v. (case v of [] \<Rightarrow> True | c # _ \<Rightarrow> c \<noteq> CHR ''/'') \<and> strstr_found v ''/'') values
        then Refuse_unanswered else Pass] env filters values"

definition pk_transaction_search_groups ::
  "environment \<Rightarrow> string \<Rightarrow> string list \<Rightarrow> string \<Rightarrow> daemon \<Rightarrow> daemon" where
  "pk_transaction_search_groups env filters values =
     search_method PK_ROLE_ENUM_SEARCH_GROUP ''SearchGroups''
       [if list_ex (\<lambda>v. strstr_found v '' '') values then Refuse_unanswered else Pass]
       env filters values"

definition pk_transaction_search_names ::
  "environment \<Rightarrow> string \<Rightarrow> string list \<Rightarrow> string \<Rightarrow> daemon \<Rightarrow> daemon" where
  "pk_transaction_search_names env filters values =
     search_method PK_ROLE_ENUM_SEARCH_NAME ''SearchNames'' [] env filters values"

definition pk_transaction_what_provides ::
  "environment \<Rightarrow> string \<Rightarrow> string \<Rightarrow> string list \<Rightarrow> string \<Rightarrow> daemon \<Rightarrow> daemon" where
  "pk_transaction_what_provides env filters type values tid =
     implemented PK_ROLE_ENUM_WHAT_PROVIDES ''WhatProvides'' tid (\<lambda>d.
       let provides = pk_provides_enum_from_string (Some type)
       in checked [check_search values, check_filter filters,
            (if provides = PK_PROVIDES_ENUM_UNKNOWN
             then Refuse (PK_TRANSACTION_ERROR_INVALID_PROVIDE,
                    ''provide type '' @ [CHR 0x27] @ type @ [CHR 0x27] @ '' not found'')
             else Pass)] tid
            (\<lambda>d. commit_method env tid (prepare PK_ROLE_ENUM_WHAT_PROVIDES
               (\<lambda>t. t\<lparr>cached_filters := pk_filter_bitfield_from_string (Some filters),
                      cached_values := values, cached_provides := provides\<rparr>) tid d)) d)"

text \<open>The directory of a download is below the local state directory, which is a build setting.\<close>

definition download_directory :: "string \<Rightarrow> string" where
  "download_directory tid = ''/var/cache/PackageKit/downloads'' @ tid"

definition pk_transaction_download_packages ::
  "environment \<Rightarrow> bool \<Rightarrow> string list \<Rightarrow> string \<Rightarrow> daemon \<Rightarrow> daemon" where
  "pk_transaction_download_packages env store_in_cache package_ids tid =
     implemented PK_ROLE_ENUM_DOWNLOAD_PACKAGES ''DownloadPackages'' tid (\<lambda>d.
       let directory = (if \<not> store_in_cache then Some (download_directory tid) else None)
       in checked
            [check_number env package_ids,
             (if pk_package_ids_check (Some package_ids) then Pass
              else Refuse_unreleased (package_ids_error package_ids)),
             (case directory of
                None \<Rightarrow> Pass
              | Some dir \<Rightarrow>
                  if mkdir_ok env dir then Pass
                  else Refuse_unreleased (PK_TRANSACTION_ERROR_DENIED, ''cannot create '' @ dir))] tid
            (\<lambda>d. commit_method env tid (prepare PK_ROLE_ENUM_DOWNLOAD_PACKAGES
               (\<lambda>t. t\<lparr>cached_package_ids := package_ids, cached_directory := directory\<rparr>) tid d)) d)"

section \<open>Simulations\<close>

definition pk_transaction_is_supported_content_type :: "PkTransaction \<Rightarrow> string \<Rightarrow> bool" where
  "pk_transaction_is_supported_content_type t content_type =
     list_ex (\<lambda>mime_type_tmp. mime_type_tmp = content_type) (supported_content_types t)"

text \<open>The checks of one local file; the caller words the complaint about its content type.\<close>

definition check_file ::
  "(string \<Rightarrow> string) \<Rightarrow> environment \<Rightarrow> PkTransaction option \<Rightarrow> string \<Rightarrow> check" where
  "check_file mime_text env t f =
     (if \<not> file_exists env f then
        Refuse (PK_TRANSACTION_ERROR_NO_SUCH_FILE, ''No such file '' @ f)
      else
        (case content_type_of env f of
           None \<Rightarrow> Refuse (PK_TRANSACTION_ERROR_NOT_SUPPORTED,
                            ''Failed to get content type for file '' @ f)
         | Some content_type \<Rightarrow>
             if \<not> (case t of None \<Rightarrow> False
                   | Some t \<Rightarrow> pk_transaction_is_supported_content_type t content_type)
             then Refuse (PK_TRANSACTION_ERROR_MIME_TYPE_NOT_SUPPORTED, mime_text content_type @ f)
             else if g_str_has_suffix f ''.servicepack'' then
               (case service_pack_error env f of
                  Some e \<Rightarrow> Refuse (PK_TRANSACTION_ERROR_PACK_INVALID, e)
                | None \<Rightarrow> Pass)
             else Pass))"

definition pk_transaction_simulate_install_files ::
  "environment \<Rightarrow> string list \<Rightarrow> string \<Rightarrow> daemon \<Rightarrow> daemon" where
  "pk_transaction_simulate_install_files env full_paths tid =
     implemented PK_ROLE_ENUM_SIMULATE_INSTALL_FILES ''SimulateInstallFiles'' tid (\<lambda>d.
       let d = pk_transaction_plugin_phase env PK_PLUGIN_PHASE_TRANSACTION_CONTENT_TYPES tid d
       in checked (map (check_file (\<lambda>_. ''MIME type not supported '') env (get_tr tid d)) full_paths) tid
            (\<lambda>d. commit_method env tid (prepare PK_ROLE_ENUM_SIMULATE_INSTALL_FILES
               (\<lambda>t. t\<lparr>cached_full_paths := full_paths\<rparr>) tid d)) d)"

definition pk_transaction_simulate_install_packages ::
  "environment \<Rightarrow> string list \<Rightarrow> string \<Rightarrow> daemon \<Rightarrow> daemon" where
  "pk_transaction_simulate_install_packages env package_ids tid =
     implemented PK_ROLE_ENUM_SIMULATE_INSTALL_PACKAGES ''SimulateInstallPackages'' tid (\<lambda>d.
       checked [check_number env package_ids, check_package_ids package_ids] tid
         (\<lambda>d. commit_method env tid (prepare PK_ROLE_ENUM_SIMULATE_INSTALL_PACKAGES
            (\<lambda>t. t\<lparr>cached_package_ids := package_ids\<rparr>) tid d)) d)"

definition pk_transaction_simulate_remove_packages ::
  "environment \<Rightarrow> string list \<Rightarrow> bool \<Rightarrow> string \<Rightarrow> daemon \<Rightarrow> daemon" where
  "pk_transaction_simulate_remove_packages env package_ids autoremove tid =
     implemented PK_ROLE_ENUM_SIMULATE_REMOVE_PACKAGES ''SimulateRemovePackages'' tid (\<lambda>d.
       checked [check_number env package_ids, check_package_ids package_ids] tid
         (\<lambda>d. commit_method env tid (prepare PK_ROLE_ENUM_SIMULATE_REMOVE_PACKAGES
            (\<lambda>t. t\<lparr>cached_package_ids := package_ids, cached_autoremove := autoremove\<rparr>) tid d)) d)"

definition pk_transaction_simulate_update_packages ::
  "environment \<Rightarrow> string list \<Rightarrow> string \<Rightarrow> daemon \<Rightarrow> daemon" where
  "pk_transaction_simulate_update_packages env package_ids tid =
     implemented PK_ROLE_ENUM_SIMULATE_UPDATE_PACKAGES ''SimulateUpdatePackages'' tid (\<lambda>d.
       checked [check_number env package_ids, check_package_ids package_ids] tid
         (\<lambda>d. commit_method env tid (prepare PK_ROLE_ENUM_SIMULATE_UPDATE_PACKAGES
            (\<lambda>t. t\<lparr>cached_package_ids := package_ids\<rparr>) tid d)) d)"

definition pk_transaction_simulate_repair_system :: "environment \<Rightarrow> string \<Rightarrow> daemon \<Rightarrow> daemon" where
  "pk_transaction_simulate_repair_system env tid =
     implemented PK_ROLE_ENUM_SIMULATE_REPAIR_SYSTEM ''SimulateRepairSystem'' tid (\<lambda>d.
       commit_method env tid (prepare PK_ROLE_ENUM_SIMULATE_REPAIR_SYSTEM id tid d))"

section \<open>Methods that need an authorization\<close>

text \<open>The question is asked first; the arguments and the role are saved afterwards.\<close>

definition pk_transaction_install_files ::
  "environment \<Rightarrow> bool \<Rightarrow> string list \<Rightarrow> string \<Rightarrow> daemon \<Rightarrow> daemon" where
  "pk_transaction_install_files env only_trusted full_paths tid =
     implemented PK_ROLE_ENUM_INSTALL_FILES ''InstallFiles'' tid (\<lambda>d.
       let d = pk_transaction_plugin_phase env PK_PLUGIN_PHASE_TRANSACTION_CONTENT_TYPES tid d;
           mime_text = (\<lambda>c. ''MIME type '' @ [CHR 0x27] @ c @ [CHR 0x27] @ '' not supported '')
       in checked (map (check_file mime_text env (get_tr tid d)) full_paths) tid
            (authorize_then only_trusted PK_ROLE_ENUM_INSTALL_FILES tid
               (\<lambda>d. reply tid None (prepare PK_ROLE_ENUM_INSTALL_FILES
                  (\<lambda>t. t\<lparr>cached_only_trusted := only_trusted, cached_full_paths := full_paths\<rparr>)
                  tid d))) d)"

definition pk_transaction_install_packages ::
  "environment \<Rightarrow> bool \<Rightarrow> string list \<Rightarrow> string \<Rightarrow> daemon \<Rightarrow> daemon" where
  "pk_transaction_install_packages env only_trusted package_ids tid =
     implemented PK_ROLE_ENUM_INSTALL_PACKAGES ''InstallPackages'' tid (\<lambda>d.
       checked [check_number env package_ids, check_package_ids package_ids] tid
         (\<lambda>d. authorize_method only_trusted PK_ROLE_ENUM_INSTALL_PACKAGES tid
            (prepare PK_ROLE_ENUM_INSTALL_PACKAGES
               (\<lambda>t. t\<lparr>cached_only_trusted := only_trusted, cached_package_ids := package_ids\<rparr>) tid d)) d)"

definition pk_transaction_install_signature ::
  "environment \<Rightarrow> string \<Rightarrow> string \<Rightarrow> string \<Rightarrow> daemon \<Rightarrow> daemon" where
  "pk_transaction_install_signature env key_id package_id tid =
     implemented PK_ROLE_ENUM_INSTALL_SIGNATURE ''InstallSignature'' tid (\<lambda>d.
       checked [check_text key_id,
         (if \<not> pk_package_id_check (Some package_id) \<and> \<not> g_str_has_prefix package_id '';;;''
          then Refuse (PK_TRANSACTION_ERROR_PACKAGE_ID_INVALID,
                 ''The package id '' @ [CHR 0x27] @ package_id @ [CHR 0x27] @ '' is not valid'')
          else Pass)] tid
         (\<lambda>d. authorize_method False PK_ROLE_ENUM_INSTALL_SIGNATURE tid
            (prepare PK_ROLE_ENUM_INSTALL_SIGNATURE
               (\<lambda>t. t\<lparr>cached_package_id := Some package_id, cached_key_id := Some key_id\<rparr>) tid d)) d)"

definition pk_transaction_refresh_cache :: "environment \<Rightarrow> bool \<Rightarrow> string \<Rightarrow> daemon \<Rightarrow> daemon" where
  "pk_transaction_refresh_cache env force tid =
     implemented PK_ROLE_ENUM_REFRESH_CACHE ''RefreshCache'' tid (\<lambda>d.
       let d = d\<lparr>d_cache := pk_cache_invalidate (d_cache d)\<rparr>
       in authorize_method False PK_ROLE_ENUM_REFRESH_CACHE tid
            (prepare PK_ROLE_ENUM_REFRESH_CACHE (\<lambda>t. t\<lparr>cached_force := force\<rparr>) tid d))"

definition pk_transaction_remove_packages ::
  "environment \<Rightarrow> string list \<Rightarrow> bool \<Rightarrow> bool \<Rightarrow> string \<Rightarrow> daemon \<Rightarrow> daemon" where
  "pk_transaction_remove_packages env package_ids allow_deps autoremove tid =
     implemented PK_ROLE_ENUM_REMOVE_PACKAGES ''RemovePackages'' tid (\<lambda>d.
       checked [check_number env package_ids, check_package_ids package_ids] tid
         (\<lambda>d. authorize_method False PK_ROLE_ENUM_REMOVE_PACKAGES tid
            (prepare PK_ROLE_ENUM_REMOVE_PACKAGES
               (\<lambda>t. t\<lparr>cached_allow_deps := allow_deps, cached_autoremove := autoremove,
                      cached_package_ids := package_ids\<rparr>) tid d)) d)"

definition pk_transaction_repo_enable ::
  "environment \<Rightarrow> string \<Rightarrow> bool \<Rightarrow> string \<Rightarrow> daemon \<Rightarrow> daemon" where
  "pk_transaction_repo_enable env repo_id enabled tid =
     implemented PK_ROLE_ENUM_REPO_ENABLE ''RepoEnable'' tid (\<lambda>d.
       checked [check_text repo_id] tid
         (\<lambda>d. authorize_method False PK_ROLE_ENUM_REPO_ENABLE tid
            (prepare PK_ROLE_ENUM_REPO_ENABLE
               (\<lambda>t. t\<lparr>cached_repo_id := Some repo_id, cached_enabled := enabled\<rparr>) tid d)) d)"

definition pk_transaction_repo_set_data ::
  "environment \<Rightarrow> string \<Rightarrow> string \<Rightarrow> string \<Rightarrow> string \<Rightarrow> daemon \<Rightarrow> daemon" where
  "pk_transaction_repo_set_data env repo_id parameter value tid =
     implemented PK_ROLE_ENUM_REPO_SET_DATA ''RepoSetData'' tid (\<lambda>d.
       checked [check_text repo_id] tid
         (\<lambda>d. authorize_method False PK_ROLE_ENUM_REPO_SET_DATA tid
            (prepare PK_ROLE_ENUM_REPO_SET_DATA
               (\<lambda>t. t\<lparr>cached_repo_id := Some repo_id, cached_parameter := Some parameter,
                      cached_value := Some value\<rparr>) tid d)) d)"

definition pk_transaction_rollback :: "environment \<Rightarrow> string \<Rightarrow> string \<Rightarrow> daemon \<Rightarrow> daemon" where
  "pk_transaction_rollback env transaction_id tid =
     implemented PK_ROLE_ENUM_ROLLBACK ''Rollback'' tid (\<lambda>d.
       checked [check_text transaction_id] tid
         (\<lambda>d. authorize_method False PK_ROLE_ENUM_ROLLBACK tid
            (prepare PK_ROLE_ENUM_ROLLBACK
               (\<lambda>t. t\<lparr>cached_transaction_id := Some transaction_id\<rparr>) tid d)) d)"

definition pk_transaction_update_packages ::
  "environment \<Rightarrow> bool \<Rightarrow> string list \<Rightarrow> string \<Rightarrow> daemon \<Rightarrow> daemon" where
  "pk_transaction_update_packages env only_trusted package_ids tid =
     implemented PK_ROLE_ENUM_UPDATE_PACKAGES ''UpdatePackages'' tid (\<lambda>d.
       checked [check_number env package_ids, check_package_ids package_ids] tid
         (\<lambda>d. authorize_method only_trusted PK_ROLE_ENUM_UPDATE_PACKAGES tid
            (prepare PK_ROLE_ENUM_UPDATE_PACKAGES
               (\<lambda>t. t\<lparr>cached_only_trusted := only_trusted, cached_package_ids := package_ids\<rparr>) tid d)) d)"

definition pk_transaction_update_system :: "environment \<Rightarrow> bool \<Rightarrow> string \<Rightarrow> daemon \<Rightarrow> daemon" where
  "pk_transaction_update_system env only_trusted tid =
     implemented PK_ROLE_ENUM_UPDATE_SYSTEM ''UpdateSystem'' tid (\<lambda>d.
       checked [if pk_transaction_list_role_present PK_ROLE_ENUM_UPDATE_SYSTEM d
                then Refuse (PK_TRANSACTION_ERROR_TRANSACTION_EXISTS_WITH_ROLE,
                       ''Already performing system update'')
                else Pass] tid
         (\<lambda>d. authorize_method only_trusted PK_ROLE_ENUM_UPDATE_SYSTEM tid
            (prepare PK_ROLE_ENUM_UPDATE_SYSTEM (\<lambda>t. t\<lparr>cached_only_trusted := only_trusted\<rparr>) tid d)) d)"

text \<open>
  The format string by which \<open>UpgradeSystem\<close> takes its arguments out of the \<open>GVariant\<close> does not
  fit their type; the two texts here are whatever the variables then hold.
\<close>

definition pk_transaction_upgrade_system ::
  "environment \<Rightarrow> string \<Rightarrow> string \<Rightarrow> string \<Rightarrow> daemon \<Rightarrow> daemon" where
  "pk_transaction_upgrade_system env distro_id upgrade_kind_str tid =
     implemented PK_ROLE_ENUM_UPGRADE_SYSTEM ''UpgradeSystem'' tid (\<lambda>d.
       let upgrade_kind = pk_upgrade_kind_enum_from_string (Some upgrade_kind_str)
       in checked [if upgrade_kind = PK_UPGRADE_KIND_ENUM_UNKNOWN
                   then Refuse (PK_TRANSACTION_ERROR_INVALID_PROVIDE,
                          ''upgrade kind '' @ [CHR 0x27] @ upgrade_kind_str @ [CHR 0x27] @ '' not found'')
                   else Pass] tid
            (\<lambda>d. authorize_method False PK_ROLE_ENUM_UPGRADE_SYSTEM tid
               (prepare PK_ROLE_ENUM_UPGRADE_SYSTEM
                  (\<lambda>t. t\<lparr>cached_value := Some distro_id, cached_upgrade_kind := upgrade_kind\<rparr>) tid d)) d)"

definition pk_transaction_repair_system :: "environment \<Rightarrow> bool \<Rightarrow> string \<Rightarrow> daemon \<Rightarrow> daemon" where
  "pk_transaction_repair_system env only_trusted tid =
     implemented PK_ROLE_ENUM_REPAIR_SYSTEM ''RepairSystem'' tid (\<lambda>d.
       authorize_method only_trusted PK_ROLE_ENUM_REPAIR_SYSTEM tid
         (prepare PK_ROLE_ENUM_REPAIR_SYSTEM (\<lambda>t. t\<lparr>cached_only_trusted := only_trusted\<rparr>) tid d))"

text \<open>The agreement is accepted when the question has been asked, before it is answered.\<close>

definition pk_transaction_accept_eula ::
  "environment \<Rightarrow> string \<Rightarrow> string \<Rightarrow> daemon \<Rightarrow> daemon" where
  "pk_transaction_accept_eula env eula_id tid d =
     checked [check_text eula_id] tid
       (authorize_then False PK_ROLE_ENUM_ACCEPT_EULA tid (\<lambda>d.
          let ret = fst (pk_backend_accept_eula eula_id (d_backend d));
              d = backend_do env (\<lambda>b. snd (pk_backend_accept_eula eula_id b)) d
          in if \<not> ret then refuse tid (PK_TRANSACTION_ERROR_INPUT_INVALID, ''EULA failed to be added'') d
             else reply tid None (add_finished_idle tid d)))
       (prepare PK_ROLE_ENUM_ACCEPT_EULA id tid d)"

section \<open>Cancelling and hints\<close>

text \<open>
  Two paths answer the call twice. \<open>sender\<close> is the client that calls; a foreign one is asked
  about, and cancels without waiting for the answer.
\<close>

definition pk_transaction_cancel :: "environment \<Rightarrow> string \<Rightarrow> string \<Rightarrow> daemon \<Rightarrow> daemon" where
  "pk_transaction_cancel env sender tid d =
     (case get_tr tid d of
        None \<Rightarrow> d
      | Some t \<Rightarrow>
          let (ret, d) = is_implemented PK_ROLE_ENUM_CANCEL d;
              skip_uid = (\<lambda>d.
                if tr_state t \<le> PK_TRANSACTION_STATE_READY
                then reply tid None (reply tid None (cancel_queued tid d))
                else reply tid None (cancel_running env PK_EXIT_ENUM_CANCELLED d))
          in if \<not> ret then
               reply tid (Some (PK_TRANSACTION_ERROR_NOT_SUPPORTED, ''Cancel not supported by backend'')) d
             else if tr_finished t then reply tid None (reply tid None d)
             else if tr_role t = PK_ROLE_ENUM_UNKNOWN then
               reply tid (Some (PK_TRANSACTION_ERROR_NO_ROLE, ''No role'')) d
             else if tr_sender t = Some sender then skip_uid d
             else if tr_uid t = PK_TRANSACTION_UID_INVALID then
               reply tid (Some (PK_TRANSACTION_ERROR_CANNOT_CANCEL,
                                ''No context from caller to get UID from'')) d
             else
               let uid = uid_of_sender env sender in
               if uid = PK_TRANSACTION_UID_INVALID then
                 reply tid (Some (PK_TRANSACTION_ERROR_INVALID_STATE, ''unable to get uid of caller'')) d
               else if tr_uid t \<noteq> uid then
                 let (err, d) = pk_transaction_obtain_authorization tid False PK_ROLE_ENUM_CANCEL d
                 in (case err of
                       Some e \<Rightarrow> reply tid (Some e) d
                     | None \<Rightarrow> skip_uid d)
               else skip_uid d)"

definition pk_transaction_set_hints ::
  "environment \<Rightarrow> string list \<Rightarrow> string \<Rightarrow> daemon \<Rightarrow> daemon" where
  "pk_transaction_set_hints env hints tid d =
     (case get_tr tid d of
        None \<Rightarrow> d
      | Some t \<Rightarrow>
          let (err, t) = set_hints_loop (file_exists env) hints t
          in reply tid err (upd_tr tid (\<lambda>_. t) d))"

section \<open>Calling a method\<close>

datatype transaction_method =
    M_SetHints "string list"
  | M_AcceptEula string
  | M_Cancel
  | M_DownloadPackages bool "string list"
  | M_GetCategories
  | M_GetDepends string "string list" bool
  | M_GetDetails "string list"
  | M_GetFiles "string list"
  | M_GetOldTransactions guint
  | M_GetPackages string
  | M_GetRepoList string
  | M_GetRequires string "string list" bool
  | M_GetUpdateDetail "string list"
  | M_GetUpdates string
  | M_GetDistroUpgrades
  | M_InstallFiles bool "string list"
  | M_InstallPackages bool "string list"
  | M_InstallSignature string string
  | M_RefreshCache bool
  | M_RemovePackages "string list" bool bool
  | M_RepoEnable string bool
  | M_RepoSetData string string string
  | M_Resolve string "string list"
  | M_Rollback string
  | M_SearchDetails string "string list"
  | M_SearchFiles string "string list"
  | M_SearchGroups string "string list"
  | M_SearchNames string "string list"
  | M_SimulateInstallFiles "string list"
  | M_SimulateInstallPackages "string list"
  | M_SimulateRemovePackages "string list" bool
  | M_SimulateUpdatePackages "string list"
  | M_UpdatePackages bool "string list"
  | M_UpdateSystem bool
  | M_WhatProvides string string "string list"
  | M_UpgradeSystem string string
  | M_RepairSystem bool
  | M_SimulateRepairSystem

definition method_body ::
  "environment \<Rightarrow> string \<Rightarrow> transaction_method \<Rightarrow> string \<Rightarrow> daemon \<Rightarrow> daemon" where
  "method_body env sender m =
     (case m of
        M_SetHints hints \<Rightarrow> pk_transaction_set_hints env hints
      | M_AcceptEula e \<Rightarrow> pk_transaction_accept_eula env e
      | M_Cancel \<Rightarrow> pk_transaction_cancel env sender
      | M_DownloadPackages s p \<Rightarrow> pk_transaction_download_packages env s p
      | M_GetCategories \<Rightarrow> pk_transaction_get_categories env
      | M_GetDepends f p r \<Rightarrow> pk_transaction_get_depends env f p r
      | M_GetDetails p \<Rightarrow> pk_transaction_get_details env p
      | M_GetFiles p \<Rightarrow> pk_transaction_get_files env p
      | M_GetOldTransactions n \<Rightarrow> pk_transaction_get_old_transactions env n
      | M_GetPackages f \<Rightarrow> pk_transaction_get_packages env f
      | M_GetRepoList f \<Rightarrow> pk_transaction_get_repo_list env f
      | M_GetRequires f p r \<Rightarrow> pk_transaction_get_requires env f p r
      | M_GetUpdateDetail p \<Rightarrow> pk_transaction_get_update_detail env p
      | M_GetUpdates f \<Rightarrow> pk_transaction_get_updates env f
      | M_GetDistroUpgrades \<Rightarrow> pk_transaction_get_distro_upgrades env
      | M_InstallFiles only p \<Rightarrow> pk_transaction_install_files env only p
      | M_InstallPackages only p \<Rightarrow> pk_transaction_install_packages env only p
      | M_InstallSignature k p \<Rightarrow> pk_transaction_install_signature env k p
      | M_RefreshCache f \<Rightarrow> pk_transaction_refresh_cache env f
      | M_RemovePackages p a r \<Rightarrow> pk_transaction_remove_packages env p a r
      | M_RepoEnable r e \<Rightarrow> pk_transaction_repo_enable env r e
      | M_RepoSetData r p v \<Rightarrow> pk_transaction_repo_set_data env r p v
      | M_Resolve f p \<Rightarrow> pk_transaction_resolve env f p
      | M_Rollback i \<Rightarrow> pk_transaction_rollback env i
      | M_SearchDetails f v \<Rightarrow> pk_transaction_search_details env f v
      | M_SearchFiles f v \<Rightarrow> pk_transaction_search_files env f v
      | M_SearchGroups f v \<Rightarrow> pk_transaction_search_groups env f v
      | M_SearchNames f v \<Rightarrow> pk_transaction_search_names env f v
      | M_SimulateInstallFiles p \<Rightarrow> pk_transaction_simulate_install_files env p
      | M_SimulateInstallPackages p \<Rightarrow> pk_transaction_simulate_install_packages env p
      | M_SimulateRemovePackages p a \<Rightarrow> pk_transaction_simulate_remove_packages env p a
      | M_SimulateUpdatePackages p \<Rightarrow> pk_transaction_simulate_update_packages env p
      | M_UpdatePackages only p \<Rightarrow> pk_transaction_update_packages env only p
      | M_UpdateSystem only \<Rightarrow> pk_transaction_update_system env only
      | M_WhatProvides f t v \<Rightarrow> pk_transaction_what_provides env f t v
      | M_UpgradeSystem i k \<Rightarrow> pk_transaction_upgrade_system env i k
      | M_RepairSystem only \<Rightarrow> pk_transaction_repair_system env only
      | M_SimulateRepairSystem \<Rightarrow> pk_transaction_simulate_repair_system env)"

definition pk_transaction_method_call ::
  "environment \<Rightarrow> string \<Rightarrow> transaction_method \<Rightarrow> string \<Rightarrow> daemon \<Rightarrow> daemon" where
  "pk_transaction_method_call env sender m tid d =
     (case get_tr tid d of
        None \<Rightarrow> d
      | Some t \<Rightarrow>
          (case tr_sender t of
             None \<Rightarrow> d
           | Some s \<Rightarrow>
               if s \<noteq> sender then
                 reply tid (Some (PK_TRANSACTION_ERROR_REFUSED_BY_POLICY,
                   ''sender does not match ('' @ sender @ '' vs '' @ s @ '')'')) d
               else method_body env sender m tid d))"

end
