(* ===== verification/PK_List_Laws.thy ===== *)
theory PK_List_Laws
  imports PK_Transaction_Methods
begin

text \<open>
  The invariant of the list of transactions: no two items have the same tid, a timer of the list
  always belongs to an item that is still there and knows the timer, and the ids that an item
  keeps fit its state. \<open>keeps d d'\<close> says that a change preserves the invariant and that no
  transaction went back in its life. Every primitive change of the list keeps it.
\<close>

section \<open>The invariant\<close>

definition item_ok :: "PkTransactionItem \<Rightarrow> bool" where
  "item_ok item =
     (tr_tid (it_transaction item) = Some (it_tid item) \<and>
      item_state item \<noteq> PK_TRANSACTION_STATE_UNKNOWN \<and>
      (it_idle_id item \<noteq> 0 \<longrightarrow> PK_TRANSACTION_STATE_RUNNING \<le> item_state item) \<and>
      (it_remove_id item \<noteq> 0 \<longrightarrow> item_state item = PK_TRANSACTION_STATE_FINISHED))"

fun source_ok :: "PkTransactionItem list \<Rightarrow> nat \<times> daemon_source \<Rightarrow> bool" where
  "source_ok items (i, SRC_list_run_idle tid) =
     list_ex (\<lambda>item. it_tid item = tid \<and> it_idle_id item = i) items"
| "source_ok items (i, SRC_list_no_commit tid) =
     list_ex (\<lambda>item. it_tid item = tid \<and> it_commit_id item = i) items"
| "source_ok items (i, SRC_list_remove_item tid) =
     list_ex (\<lambda>item. it_tid item = tid \<and> it_remove_id item = i) items"
| "source_ok items (i, f) = True"

definition list_ok :: "daemon \<Rightarrow> bool" where
  "list_ok d =
     (loop_ok (d_loop d) \<and> distinct (map it_tid (d_items d)) \<and> list_all item_ok (d_items d) \<and>
      list_all (source_ok (d_items d)) (sources (d_loop d)))"

text \<open>
  \<open>later a b\<close>: \<open>b\<close> is the same item as \<open>a\<close>, at the same point of its life or a later one. The
  idle source that starts a transaction is added once.
\<close>

definition later :: "PkTransactionItem \<Rightarrow> PkTransactionItem \<Rightarrow> bool" where
  "later a b =
     (it_tid b = it_tid a \<and> it_uid b = it_uid a \<and> item_state a \<le> item_state b \<and>
      tr_tid (it_transaction b) = tr_tid (it_transaction a) \<and>
      tr_sender (it_transaction b) = tr_sender (it_transaction a) \<and>
      item_state b \<noteq> PK_TRANSACTION_STATE_UNKNOWN \<and>
      (PK_TRANSACTION_STATE_RUNNING \<le> item_state a \<longrightarrow>
         it_idle_id b = it_idle_id a \<or> it_idle_id b = 0))"

definition keeps :: "daemon \<Rightarrow> daemon \<Rightarrow> bool" where
  "keeps d d' =
     (list_ok d \<longrightarrow> list_ok d' \<and> (\<forall>b \<in> set (d_items d'). \<exists>a \<in> set (d_items d). later a b))"

lemma later_refl: "item_state a \<noteq> PK_TRANSACTION_STATE_UNKNOWN \<Longrightarrow> later a a"
  by (simp add: later_def)

lemma later_trans: "later a b \<Longrightarrow> later b c \<Longrightarrow> later a c"
  by (auto simp: later_def)

lemma list_ok_state: "list_ok d \<Longrightarrow> a \<in> set (d_items d) \<Longrightarrow> item_state a \<noteq> PK_TRANSACTION_STATE_UNKNOWN"
  by (auto simp: list_ok_def list_all_iff item_ok_def)

lemma keeps_refl: "keeps d d"
  unfolding keeps_def using later_refl list_ok_state by blast

lemma keeps_trans: "keeps a b \<Longrightarrow> keeps b c \<Longrightarrow> keeps a c"
  unfolding keeps_def by (meson later_trans)

lemma keeps_frame: "d_items d' = d_items d \<Longrightarrow> d_loop d' = d_loop d \<Longrightarrow> keeps d d'"
  using keeps_refl [of d] by (simp add: keeps_def list_ok_def)

lemma list_ok_later:
  "list_ok d \<Longrightarrow> list_ok d' \<Longrightarrow> keeps d d' \<Longrightarrow> b \<in> set (d_items d') \<Longrightarrow>
   \<exists>a \<in> set (d_items d). later a b"
  by (simp add: keeps_def)

section \<open>Finding items\<close>

lemma from_tid_item: "list_ok d \<Longrightarrow> pk_transaction_list_get_from_tid tid d = get_item tid d"
proof -
  assume "list_ok d"
  then have "list_all item_ok (d_items d)" by (simp add: list_ok_def)
  then have "List.find (\<lambda>item. tr_tid (it_transaction item) = Some tid) (d_items d) =
        List.find (\<lambda>i. it_tid i = tid) (d_items d)"
    by (induction "d_items d" arbitrary: d) (auto simp: item_ok_def find.simps list_all_iff intro!: find_cong)
  then show ?thesis by (simp add: pk_transaction_list_get_from_tid_def get_item_def)
qed

lemma get_item_Some: "get_item tid d = Some item \<Longrightarrow> item \<in> set (d_items d) \<and> it_tid item = tid"
  unfolding get_item_def by (rule find_Some_in)

lemma get_item_None: "get_item tid d = None \<longleftrightarrow> tid \<notin> it_tid ` set (d_items d)"
  unfolding get_item_def find_None_all by auto

lemma get_item_unique:
  "list_ok d \<Longrightarrow> item \<in> set (d_items d) \<Longrightarrow> get_item (it_tid item) d = Some item"
proof -
  assume ok: "list_ok d" and i: "item \<in> set (d_items d)"
  obtain b where b: "get_item (it_tid item) d = Some b"
    using i get_item_None [of "it_tid item" d] by (cases "get_item (it_tid item) d") auto
  have "distinct (map it_tid (d_items d))" using ok by (simp add: list_ok_def)
  with i get_item_Some [OF b] have "b = item"
    by (auto simp: distinct_map dest: inj_onD)
  with b show ?thesis by simp
qed

lemma get_tr_item: "get_item tid d = Some item \<Longrightarrow> get_tr tid d = Some (it_transaction item)"
  by (simp add: get_tr_def)

lemma upd_item_items [simp]:
  "d_items (upd_item tid f d) = map (\<lambda>i. if it_tid i = tid then f i else i) (d_items d)"
  "d_loop (upd_item tid f d) = d_loop d" "d_auth (upd_item tid f d) = d_auth d"
  "d_backend (upd_item tid f d) = d_backend d" "d_effects (upd_item tid f d) = d_effects d"
  "d_cache (upd_item tid f d) = d_cache d" "d_aborted (upd_item tid f d) = d_aborted d"
  by (simp_all add: upd_item_def)

lemma loop_remove_fields [simp]:
  "d_items (loop_remove i d) = d_items d" "d_auth (loop_remove i d) = d_auth d"
  "d_backend (loop_remove i d) = d_backend d" "d_effects (loop_remove i d) = d_effects d"
  "d_loop (loop_remove i d) = g_source_remove i (d_loop d)" "d_cache (loop_remove i d) = d_cache d"
  "d_aborted (loop_remove i d) = d_aborted d"
  by (simp_all add: loop_remove_def)

lemma loop_add_fields [simp]:
  "d_items (snd (loop_add f d)) = d_items d" "d_auth (snd (loop_add f d)) = d_auth d"
  "d_backend (snd (loop_add f d)) = d_backend d" "d_effects (snd (loop_add f d)) = d_effects d"
  "d_loop (snd (loop_add f d)) = snd (g_source_add f (d_loop d))"
  "fst (loop_add f d) = fst (g_source_add f (d_loop d))" "d_cache (snd (loop_add f d)) = d_cache d"
  "d_aborted (snd (loop_add f d)) = d_aborted d"
  by (simp_all add: loop_add_def split: prod.split)

lemma effect_fields [simp]:
  "d_items (effect e d) = d_items d" "d_auth (effect e d) = d_auth d"
  "d_backend (effect e d) = d_backend d" "d_loop (effect e d) = d_loop d"
  "d_effects (effect e d) = d_effects d @ [e]" "d_cache (effect e d) = d_cache d"
  "d_aborted (effect e d) = d_aborted d"
  by (simp_all add: effect_def)

section \<open>Changes that keep the invariant\<close>

lemma source_ok_map:
  assumes "\<And>a. a \<in> set items \<Longrightarrow> it_tid (g a) = it_tid a \<and> it_idle_id (g a) = it_idle_id a \<and>
     it_commit_id (g a) = it_commit_id a \<and> it_remove_id (g a) = it_remove_id a"
  shows "source_ok (map g items) s = source_ok items s"
proof -
  obtain i f where s: "s = (i, f)" by fastforce
  show ?thesis using assms unfolding s by (cases f) (auto simp: list_ex_iff)
qed

text \<open>An item changed in place, with its ids.\<close>

lemma keeps_upd:
  assumes "\<And>a. a \<in> set (d_items d) \<Longrightarrow> it_tid a = tid \<Longrightarrow> later a (f a) \<and>
     it_idle_id (f a) = it_idle_id a \<and> it_commit_id (f a) = it_commit_id a \<and>
     it_remove_id (f a) = it_remove_id a"
  shows "keeps d (upd_item tid f d)"
  unfolding keeps_def
proof (intro impI conjI)
  assume ok: "list_ok d"
  let ?g = "\<lambda>a. if it_tid a = tid then f a else a"
  have g: "later a (?g a) \<and> it_idle_id (?g a) = it_idle_id a \<and> it_commit_id (?g a) = it_commit_id a \<and>
     it_remove_id (?g a) = it_remove_id a" if "a \<in> set (d_items d)" for a
    using assms [OF that] later_refl list_ok_state [OF ok that] by auto
  then have tids: "map it_tid (map ?g (d_items d)) = map it_tid (d_items d)"
    by (auto simp: later_def)
  have items: "item_ok (?g a)" if "a \<in> set (d_items d)" for a
  proof -
    have "item_ok a" using ok that by (simp add: list_ok_def list_all_iff)
    with g [OF that] show ?thesis
      by (auto simp: item_ok_def later_def state_order split: if_splits)
        (cases "tr_state (it_transaction (f a))"; simp)+
  qed
  have "source_ok (map ?g (d_items d)) s = source_ok (d_items d) s" for s
    by (rule source_ok_map) (use g in \<open>auto simp: later_def\<close>)
  then have "source_ok (map ?g (d_items d)) = source_ok (d_items d)" by (rule ext)
  then have "list_all (source_ok (map ?g (d_items d))) (sources (d_loop d))"
    using ok by (simp only: list_ok_def)
  moreover have "list_all item_ok (map ?g (d_items d))"
    using items unfolding list_all_iff set_map by blast
  ultimately show "list_ok (upd_item tid f d)"
    using ok unfolding list_ok_def upd_item_items tids by blast
  show "\<forall>b \<in> set (d_items (upd_item tid f d)). \<exists>a \<in> set (d_items d). later a b"
    unfolding upd_item_items set_map using g by blast
qed

lemma keeps_upd_tr:
  assumes "\<And>t. tr_state (f t) = tr_state t \<and> tr_tid (f t) = tr_tid t \<and> tr_sender (f t) = tr_sender t"
  shows "keeps d (upd_tr tid f d)"
proof (cases "list_ok d")
  case True
  show ?thesis
    unfolding upd_tr_def
    by (rule keeps_upd) (use assms list_ok_state [OF True] in \<open>auto simp: later_def\<close>)
qed (simp add: keeps_def)

lemma keeps_life: "(\<And>t. same_life t (f t)) \<Longrightarrow> keeps d (upd_tr tid f d)"
  by (rule keeps_upd_tr) (simp add: same_life_def)

text \<open>A timer that goes away, and a timer that is added, without an item that knows it.\<close>

lemma source_ok_mono:
  "source_ok items s \<Longrightarrow> (\<And>a. a \<in> set items \<Longrightarrow> a \<in> set items') \<Longrightarrow> source_ok items' s"
  by (cases "(items, s)" rule: source_ok.cases) (auto simp: list_ex_iff)

lemma keeps_remove_source: "keeps d (loop_remove i d)"
  unfolding keeps_def
proof (intro impI conjI)
  assume ok: "list_ok d"
  then have "loop_ok (g_source_remove i (d_loop d))" by (simp add: list_ok_def loop_ok_remove)
  moreover have "set (sources (g_source_remove i (d_loop d))) \<subseteq> set (sources (d_loop d))"
    by (auto simp: g_source_remove_def)
  ultimately show "list_ok (loop_remove i d)"
    using ok unfolding list_ok_def list_all_iff loop_remove_fields by blast
  show "\<forall>b \<in> set (d_items (loop_remove i d)). \<exists>a \<in> set (d_items d). later a b"
    using later_refl list_ok_state [OF ok] by auto
qed

definition list_source :: "daemon_source \<Rightarrow> bool" where
  "list_source f =
     (case f of SRC_list_run_idle _ \<Rightarrow> True | SRC_list_no_commit _ \<Rightarrow> True
      | SRC_list_remove_item _ \<Rightarrow> True | _ \<Rightarrow> False)"

lemma keeps_add_source: "\<not> list_source f \<Longrightarrow> keeps d (snd (loop_add f d))"
  unfolding keeps_def
proof (intro impI conjI)
  assume f: "\<not> list_source f" and ok: "list_ok d"
  have "source_ok (d_items d) (i, f)" for i using f by (cases f) (simp_all add: list_source_def)
  with ok show "list_ok (snd (loop_add f d))"
    by (simp add: list_ok_def loop_ok_add) (simp add: g_source_add_def)
  show "\<forall>b \<in> set (d_items (snd (loop_add f d))). \<exists>a \<in> set (d_items d). later a b"
    using later_refl list_ok_state [OF ok] by auto
qed

text \<open>An id that is forgotten together with its timer.\<close>

lemma source_ok_forget:
  assumes "source_ok items (i, f)" and "i \<noteq> n"
    and "\<And>a. a \<in> set items \<Longrightarrow> it_tid (g a) = it_tid a \<and>
       (it_idle_id (g a) = it_idle_id a \<or> it_idle_id a = n) \<and>
       (it_commit_id (g a) = it_commit_id a \<or> it_commit_id a = n) \<and>
       (it_remove_id (g a) = it_remove_id a \<or> it_remove_id a = n)"
  shows "source_ok (map g items) (i, f)"
  using assms by (cases f) (fastforce simp: list_ex_iff)+

lemma keeps_forget:
  assumes "\<And>a. a \<in> set (d_items d) \<Longrightarrow> it_tid a = tid \<Longrightarrow>
      it_transaction (f a) = it_transaction a \<and> it_tid (f a) = it_tid a \<and> it_uid (f a) = it_uid a \<and>
      (it_idle_id (f a) = it_idle_id a \<or> it_idle_id a = n \<and> it_idle_id (f a) = 0) \<and>
      (it_commit_id (f a) = it_commit_id a \<or> it_commit_id a = n \<and> it_commit_id (f a) = 0) \<and>
      (it_remove_id (f a) = it_remove_id a \<or> it_remove_id a = n \<and> it_remove_id (f a) = 0)"
  shows "keeps d (upd_item tid f (loop_remove n d))"
  unfolding keeps_def
proof (intro impI conjI)
  assume ok: "list_ok d"
  let ?g = "\<lambda>a. if it_tid a = tid then f a else a"
  have g: "it_transaction (?g a) = it_transaction a \<and> it_tid (?g a) = it_tid a \<and> it_uid (?g a) = it_uid a \<and>
      (it_idle_id (?g a) = it_idle_id a \<or> it_idle_id a = n \<and> it_idle_id (?g a) = 0) \<and>
      (it_commit_id (?g a) = it_commit_id a \<or> it_commit_id a = n \<and> it_commit_id (?g a) = 0) \<and>
      (it_remove_id (?g a) = it_remove_id a \<or> it_remove_id a = n \<and> it_remove_id (?g a) = 0)"
    if "a \<in> set (d_items d)" for a
    using assms [OF that] by auto
  have lat: "later a (?g a)" if "a \<in> set (d_items d)" for a
    using g [OF that] list_ok_state [OF ok that] by (auto simp: later_def)
  have tids: "map it_tid (map ?g (d_items d)) = map it_tid (d_items d)"
    using g by auto
  have "item_ok (?g a)" if "a \<in> set (d_items d)" for a
  proof -
    have "item_ok a" using ok that by (simp add: list_ok_def list_all_iff)
    with g [OF that] show ?thesis by (auto simp: item_ok_def)
  qed
  then have items: "list_all item_ok (map ?g (d_items d))"
    unfolding list_all_iff set_map by blast
  have srcs: "list_all (source_ok (map ?g (d_items d))) (sources (g_source_remove n (d_loop d)))"
    unfolding list_all_iff
  proof
    fix s assume s: "s \<in> set (sources (g_source_remove n (d_loop d)))"
    obtain i h where h: "s = (i, h)" by fastforce
    have "source_ok (d_items d) (i, h)" "i \<noteq> n"
      using s ok by (auto simp: h g_source_remove_def list_ok_def list_all_iff)
    then show "source_ok (map ?g (d_items d)) s"
      unfolding h by (rule source_ok_forget) (use g in blast)
  qed
  show "list_ok (upd_item tid f (loop_remove n d))"
    using ok tids items srcs unfolding list_ok_def upd_item_items loop_remove_fields
    by (simp only: loop_ok_remove simp_thms)
  show "\<forall>b \<in> set (d_items (upd_item tid f (loop_remove n d))). \<exists>a \<in> set (d_items d). later a b"
    unfolding upd_item_items loop_remove_fields set_map using lat by blast
qed

section \<open>The state of a transaction in the list\<close>

text \<open>What \<open>pk_transaction_set_state\<close> does to a transaction whose state is known.\<close>

definition reached :: "PkTransactionState \<Rightarrow> PkTransactionState" where
  "reached s = (if s = PK_TRANSACTION_STATE_COMMITTED then PK_TRANSACTION_STATE_READY else s)"

lemma set_state_once:
  assumes "tr_state t \<noteq> PK_TRANSACTION_STATE_UNKNOWN" and "s \<noteq> PK_TRANSACTION_STATE_COMMITTED"
  shows "fst (pk_transaction_set_state s t) = (\<not> s < tr_state t)"
    and "same_life (t\<lparr>tr_state := tr_state (snd (pk_transaction_set_state s t))\<rparr>)
           (snd (pk_transaction_set_state s t))"
    and "tr_state (snd (pk_transaction_set_state s t)) = (if s < tr_state t then tr_state t else s)"
  using assms
  by (simp_all add: pk_transaction_set_state.simps [of s t] Let_def same_life_def tr_emit_defs)

lemma set_state_result:
  assumes "tr_state t \<noteq> PK_TRANSACTION_STATE_UNKNOWN"
  shows "fst (pk_transaction_set_state s t) = (\<not> s < tr_state t)"
    and "same_life (t\<lparr>tr_state := tr_state (snd (pk_transaction_set_state s t))\<rparr>)
           (snd (pk_transaction_set_state s t))"
    and "tr_state (snd (pk_transaction_set_state s t)) = (if s < tr_state t then tr_state t else reached s)"
proof -
  let ?t = "t\<lparr>tr_state := PK_TRANSACTION_STATE_COMMITTED\<rparr>"
  have c: "pk_transaction_set_state PK_TRANSACTION_STATE_COMMITTED t =
      (if PK_TRANSACTION_STATE_COMMITTED < tr_state t then (False, t)
       else pk_transaction_set_state PK_TRANSACTION_STATE_READY ?t)"
    using assms by (simp add: pk_transaction_set_state.simps [of PK_TRANSACTION_STATE_COMMITTED t])
  have r: "fst (pk_transaction_set_state PK_TRANSACTION_STATE_READY ?t)"
    "same_life (?t\<lparr>tr_state := tr_state (snd (pk_transaction_set_state PK_TRANSACTION_STATE_READY ?t))\<rparr>)
       (snd (pk_transaction_set_state PK_TRANSACTION_STATE_READY ?t))"
    "tr_state (snd (pk_transaction_set_state PK_TRANSACTION_STATE_READY ?t)) = PK_TRANSACTION_STATE_READY"
    using set_state_once [of ?t PK_TRANSACTION_STATE_READY] by (simp_all add: state_order)
  show "fst (pk_transaction_set_state s t) = (\<not> s < tr_state t)"
    using c r set_state_once(1) [of t s] assms by (cases "s = PK_TRANSACTION_STATE_COMMITTED") simp_all
  show "same_life (t\<lparr>tr_state := tr_state (snd (pk_transaction_set_state s t))\<rparr>)
      (snd (pk_transaction_set_state s t))"
    using c r set_state_once(2) [of t s] assms by (cases "s = PK_TRANSACTION_STATE_COMMITTED") simp_all
  show "tr_state (snd (pk_transaction_set_state s t)) = (if s < tr_state t then tr_state t else reached s)"
    using c r set_state_once(3) [of t s] assms
    by (cases "s = PK_TRANSACTION_STATE_COMMITTED") (simp_all add: reached_def)
qed

lemma state_le_reached: "s \<le> reached s"
  by (simp add: reached_def state_order)

lemma set_state_later:
  assumes "item_state item \<noteq> PK_TRANSACTION_STATE_UNKNOWN" and "s \<noteq> PK_TRANSACTION_STATE_UNKNOWN"
  shows "later item (item\<lparr>it_transaction := snd (pk_transaction_set_state s (it_transaction item))\<rparr>)"
  using assms set_state_result [OF assms(1), of s] state_le_reached [of s]
  by (auto simp: later_def same_life_def reached_def split: if_splits)

lemma set_state_upd:
  "get_item tid d = Some item \<Longrightarrow>
   set_state tid s d =
     (fst (pk_transaction_set_state s (it_transaction item)),
      upd_item tid (\<lambda>i. i\<lparr>it_transaction := snd (pk_transaction_set_state s (it_transaction item))\<rparr>) d)"
  by (simp add: set_state_def get_tr_item upd_tr_def split: prod.split)

lemma set_state_missing: "get_item tid d = None \<Longrightarrow> set_state tid s d = (False, d)"
  by (simp add: set_state_def get_tr_def)

lemma keeps_set_state:
  assumes "s \<noteq> PK_TRANSACTION_STATE_UNKNOWN"
  shows "keeps d (snd (set_state tid s d))"
proof (cases "list_ok d")
  case ok: True
  show ?thesis
  proof (cases "get_item tid d")
    case None
    then show ?thesis by (simp add: set_state_missing keeps_refl)
  next
    case (Some item)
    have "later a (a\<lparr>it_transaction := snd (pk_transaction_set_state s (it_transaction item))\<rparr>)"
      if "a \<in> set (d_items d)" "it_tid a = tid" for a
      using get_item_unique [OF ok that(1)] that Some set_state_later [OF list_ok_state [OF ok that(1)] assms]
      by simp
    then show ?thesis by (simp add: set_state_upd [OF Some] keeps_upd)
  qed
qed (simp add: keeps_def)

lemma get_item_upd:
  "(\<And>a. it_tid a = tid \<Longrightarrow> it_tid (f a) = tid) \<Longrightarrow>
   get_item tid' (upd_item tid f d) =
     (if tid' = tid then map_option f (get_item tid d) else get_item tid' d)"
proof -
  assume f: "\<And>a. it_tid a = tid \<Longrightarrow> it_tid (f a) = tid"
  have "List.find (\<lambda>i. it_tid i = tid') (map (\<lambda>i. if it_tid i = tid then f i else i) xs) =
    (if tid' = tid then map_option f (List.find (\<lambda>i. it_tid i = tid) xs)
     else List.find (\<lambda>i. it_tid i = tid') xs)" for xs
    using f by (induction xs) auto
  then show ?thesis by (simp add: get_item_def)
qed

lemma get_item_frame [simp]:
  "get_item tid (loop_remove i d) = get_item tid d"
  "get_item tid (snd (loop_add f d)) = get_item tid d"
  "get_item tid (effect e d) = get_item tid d"
  by (simp_all add: get_item_def)

text \<open>A new timer that its item gets to know.\<close>

lemma list_ok_add_id:
  assumes ok: "list_ok d"
    and item: "get_item tid d = Some item"
    and kind: "h = SRC_list_run_idle tid \<and> f = (\<lambda>a. a\<lparr>it_idle_id := fst (loop_add h d)\<rparr>) \<and>
          it_idle_id item = 0 \<and> PK_TRANSACTION_STATE_RUNNING \<le> item_state item \<or>
        h = SRC_list_remove_item tid \<and> f = (\<lambda>a. a\<lparr>it_remove_id := fst (loop_add h d)\<rparr>) \<and>
          it_remove_id item = 0 \<and> item_state item = PK_TRANSACTION_STATE_FINISHED"
  shows "list_ok (upd_item tid f (snd (loop_add h d)))"
proof -
  let ?g = "\<lambda>a. if it_tid a = tid then f a else a"
  have the_item: "a = item" if "a \<in> set (d_items d)" "it_tid a = tid" for a
    using get_item_unique [OF ok that(1)] that(2) item by simp
  have item_in: "item \<in> set (d_items d)" "it_tid item = tid" using get_item_Some [OF item] by auto
  have same: "it_tid (f a) = it_tid a \<and> it_transaction (f a) = it_transaction a \<and> it_uid (f a) = it_uid a \<and>
      it_commit_id (f a) = it_commit_id a" for a
    using kind by auto
  have tids: "map it_tid (map ?g (d_items d)) = map it_tid (d_items d)"
    using same by auto
  have "item_ok (?g a)" if "a \<in> set (d_items d)" for a
  proof -
    have "item_ok a" using ok that by (simp add: list_ok_def list_all_iff)
    with the_item [OF that] kind show ?thesis by (auto simp: item_ok_def)
  qed
  then have items: "list_all item_ok (map ?g (d_items d))"
    unfolding list_all_iff set_map by blast
  have old: "source_ok (map ?g (d_items d)) (i, k)"
    if "(i, k) \<in> set (sources (d_loop d))" for i k
  proof (rule source_ok_forget [of _ _ _ 0])
    show "source_ok (d_items d) (i, k)" using that ok by (auto simp: list_ok_def list_all_iff)
    show "i \<noteq> 0" using that ok by (auto simp: list_ok_def loop_ok_def)
    show "it_tid (?g a) = it_tid a \<and> (it_idle_id (?g a) = it_idle_id a \<or> it_idle_id a = 0) \<and>
        (it_commit_id (?g a) = it_commit_id a \<or> it_commit_id a = 0) \<and>
        (it_remove_id (?g a) = it_remove_id a \<or> it_remove_id a = 0)" if "a \<in> set (d_items d)" for a
      using the_item [OF that] kind by auto
  qed
  have fi: "f item \<in> set (map ?g (d_items d))" using item_in by force
  have new: "source_ok (map ?g (d_items d)) (fst (loop_add h d), h)"
  proof (cases "h = SRC_list_run_idle tid")
    case True
    with kind item_in have "it_tid (f item) = tid \<and> it_idle_id (f item) = fst (loop_add h d)" by auto
    with fi show ?thesis unfolding True source_ok.simps list_ex_iff by blast
  next
    case False
    with kind have h: "h = SRC_list_remove_item tid" by auto
    with kind item_in have "it_tid (f item) = tid \<and> it_remove_id (f item) = fst (loop_add h d)" by auto
    with fi show ?thesis unfolding h source_ok.simps list_ex_iff by blast
  qed
  have srcs: "list_all (source_ok (map ?g (d_items d))) (sources (snd (g_source_add h (d_loop d))))"
    using old new by (auto simp: list_all_iff g_source_add_def)
  show "list_ok (upd_item tid f (snd (loop_add h d)))"
    using ok tids items srcs unfolding list_ok_def upd_item_items loop_add_fields
    by (simp only: loop_ok_add simp_thms)
qed

lemma keeps_add_remove_id:
  assumes "get_item tid d = Some item" and "it_remove_id item = 0"
    and "item_state item = PK_TRANSACTION_STATE_FINISHED"
  shows "keeps d (upd_item tid (\<lambda>a. a\<lparr>it_remove_id := fst (loop_add (SRC_list_remove_item tid) d)\<rparr>)
           (snd (loop_add (SRC_list_remove_item tid) d)))"
  unfolding keeps_def
proof (intro impI conjI)
  let ?f = "\<lambda>a. a\<lparr>it_remove_id := fst (loop_add (SRC_list_remove_item tid) d)\<rparr>"
  let ?d = "snd (loop_add (SRC_list_remove_item tid) d)"
  assume ok: "list_ok d"
  show "list_ok (upd_item tid ?f ?d)"
    by (rule list_ok_add_id [OF ok assms(1)]) (use assms in simp)
  have "later a (if it_tid a = tid then ?f a else a)" if "a \<in> set (d_items d)" for a
    using list_ok_state [OF ok that] by (simp add: later_def)
  then show "\<forall>b \<in> set (d_items (upd_item tid ?f ?d)). \<exists>a \<in> set (d_items d). later a b"
    unfolding upd_item_items loop_add_fields set_map by blast
qed

section \<open>The operations of the list\<close>

lemma get_item_set_state:
  assumes "get_item tid d = Some item"
  shows "get_item tid' (snd (set_state tid s d)) =
     (if tid' = tid
      then Some (item\<lparr>it_transaction := snd (pk_transaction_set_state s (it_transaction item))\<rparr>)
      else get_item tid' d)"
  by (simp add: set_state_upd [OF assms] get_item_upd assms)

lemma fst_set_state:
  "list_ok d \<Longrightarrow> get_item tid d = Some item \<Longrightarrow> fst (set_state tid s d) = (\<not> s < item_state item)"
  using set_state_result(1) list_ok_state [of d item] get_item_Some [of tid d item]
  by (simp add: set_state_upd)

lemma item_okD: "list_ok d \<Longrightarrow> get_item tid d = Some item \<Longrightarrow> item_ok item"
  using get_item_Some by (fastforce simp: list_ok_def list_all_iff)

lemma run_item_eq:
  "pk_transaction_list_run_item tid d =
     (let c = snd (set_state tid PK_TRANSACTION_STATE_RUNNING d)
      in upd_item tid (\<lambda>a. a\<lparr>it_idle_id := fst (loop_add (SRC_list_run_idle tid) c)\<rparr>)
           (snd (loop_add (SRC_list_run_idle tid) c)))"
  by (simp only: pk_transaction_list_run_item_def Let_def split_beta)

lemma run_item_ready:
  assumes ok: "list_ok d" and item: "get_item tid d = Some item"
    and ready: "item_state item < PK_TRANSACTION_STATE_RUNNING"
  shows "list_ok (pk_transaction_list_run_item tid d)"
    and "d_items (pk_transaction_list_run_item tid d) =
      map (\<lambda>a. if it_tid a = tid
        then a\<lparr>it_transaction :=
                 snd (pk_transaction_set_state PK_TRANSACTION_STATE_RUNNING (it_transaction item)),
               it_idle_id := next_source (d_loop d)\<rparr>
        else a) (d_items d)"
proof -
  define c where "c = snd (set_state tid PK_TRANSACTION_STATE_RUNNING d)"
  define item' where "item' = item\<lparr>it_transaction :=
      snd (pk_transaction_set_state PK_TRANSACTION_STATE_RUNNING (it_transaction item))\<rparr>"
  have i: "item_ok item" by (rule item_okD [OF ok item])
  with ready have idle: "it_idle_id item = 0" by (auto simp: item_ok_def not_less)
  have "item_state item' = PK_TRANSACTION_STATE_RUNNING"
    using i ready set_state_result(3) [of "it_transaction item" PK_TRANSACTION_STATE_RUNNING]
    by (auto simp: item'_def item_ok_def reached_def)
  moreover have "get_item tid c = Some item'"
    unfolding c_def item'_def using get_item_set_state [OF item] by simp
  moreover have "list_ok c"
    unfolding c_def using keeps_set_state [of PK_TRANSACTION_STATE_RUNNING d tid] ok
    by (simp add: keeps_def)
  ultimately show "list_ok (pk_transaction_list_run_item tid d)"
    unfolding run_item_eq c_def [symmetric] Let_def
    by (intro list_ok_add_id) (auto simp: item'_def idle)
  show "d_items (pk_transaction_list_run_item tid d) =
      map (\<lambda>a. if it_tid a = tid
        then a\<lparr>it_transaction :=
                 snd (pk_transaction_set_state PK_TRANSACTION_STATE_RUNNING (it_transaction item)),
               it_idle_id := next_source (d_loop d)\<rparr>
        else a) (d_items d)"
    unfolding run_item_eq c_def [symmetric] Let_def
    by (simp add: c_def set_state_upd [OF item] g_source_add_def)
qed

lemma keeps_run_item:
  assumes item: "get_item tid d = Some item"
    and ready: "item_state item < PK_TRANSACTION_STATE_RUNNING"
  shows "keeps d (pk_transaction_list_run_item tid d)"
  unfolding keeps_def
proof (intro impI conjI)
  assume ok: "list_ok d"
  show "list_ok (pk_transaction_list_run_item tid d)"
    by (rule run_item_ready(1) [OF ok item ready])
  let ?t = "snd (pk_transaction_set_state PK_TRANSACTION_STATE_RUNNING (it_transaction item))"
  let ?g = "\<lambda>a. if it_tid a = tid
      then a\<lparr>it_transaction := ?t, it_idle_id := next_source (d_loop d)\<rparr> else a"
  have "later a (?g a)" if "a \<in> set (d_items d)" for a
  proof (cases "it_tid a = tid")
    case True
    then have "a = item" using get_item_unique [OF ok that] item by simp
    with set_state_later [of item PK_TRANSACTION_STATE_RUNNING] list_ok_state [OF ok that] ready True
    show ?thesis by (simp add: later_def not_le [symmetric])
  next
    case False
    with list_ok_state [OF ok that] show ?thesis by (simp add: later_refl)
  qed
  then show "\<forall>b \<in> set (d_items (pk_transaction_list_run_item tid d)). \<exists>a \<in> set (d_items d). later a b"
    unfolding run_item_ready(2) [OF ok item ready] set_map by blast
qed

lemma next_item_ready:
  assumes "pk_transaction_list_get_next_item d = Some item"
  shows "item \<in> set (d_items d) \<and> item_state item = PK_TRANSACTION_STATE_READY"
  using assms
  by (auto simp: pk_transaction_list_get_next_item_def split: option.splits dest: find_Some_in)

lemma active_running:
  assumes "pk_transaction_list_get_active_transaction d = Some item"
  shows "item \<in> set (d_items d) \<and> item_state item = PK_TRANSACTION_STATE_RUNNING"
  using assms by (auto simp: pk_transaction_list_get_active_transaction_def dest: find_Some_in)

text \<open>Starting the next transaction, if one is ready.\<close>

definition run_next :: "daemon \<Rightarrow> daemon" where
  "run_next d =
     (case pk_transaction_list_get_next_item d of
        None \<Rightarrow> d
      | Some next \<Rightarrow> pk_transaction_list_run_item (it_tid next) d)"

lemma keeps_run_next: "keeps d (run_next d)"
proof (cases "list_ok d")
  case ok: True
  show ?thesis
  proof (cases "pk_transaction_list_get_next_item d")
    case None
    then show ?thesis by (simp add: run_next_def keeps_refl)
  next
    case (Some item)
    with next_item_ready [OF Some] get_item_unique [OF ok, of item]
    show ?thesis
      using keeps_run_item [of "it_tid item" d item] by (simp add: run_next_def state_order)
  qed
qed (simp add: keeps_def)

text \<open>Forgetting the timer of a client that has not used its transaction.\<close>

definition forget_commit :: "string \<Rightarrow> PkTransactionItem \<Rightarrow> daemon \<Rightarrow> daemon" where
  "forget_commit tid item d =
     (if it_commit_id item \<noteq> 0
      then upd_item tid (\<lambda>i. i\<lparr>it_commit_id := 0\<rparr>) (loop_remove (it_commit_id item) d) else d)"

lemma keeps_forget_commit:
  assumes "get_item tid d = Some item"
  shows "keeps d (forget_commit tid item d)"
proof (cases "list_ok d")
  case ok: True
  have "a = item" if "a \<in> set (d_items d)" "it_tid a = tid" for a
    using get_item_unique [OF ok that(1)] that(2) assms by simp
  then show ?thesis
    unfolding forget_commit_def by (auto intro!: keeps_forget simp: keeps_refl)
qed (simp add: keeps_def)

lemma get_item_forget_commit:
  "get_item tid d = Some item \<Longrightarrow>
   get_item tid' (forget_commit tid item d) =
     (if tid' = tid then Some (item\<lparr>it_commit_id := 0\<rparr>) else get_item tid' d)"
  by (auto simp: forget_commit_def get_item_upd)

text \<open>The steps of the callback for a finished transaction.\<close>

definition mark_finished :: "string \<Rightarrow> PkTransactionItem \<Rightarrow> daemon \<Rightarrow> daemon" where
  "mark_finished tid item d =
     (let c = effect LIST_CHANGED
                (snd (set_state tid PK_TRANSACTION_STATE_FINISHED (forget_commit tid item d)))
      in upd_item tid (\<lambda>a. a\<lparr>it_remove_id := fst (loop_add (SRC_list_remove_item tid) c)\<rparr>)
           (snd (loop_add (SRC_list_remove_item tid) c)))"

lemma finished_state_max:
  "s \<noteq> PK_TRANSACTION_STATE_UNKNOWN \<Longrightarrow> s \<le> PK_TRANSACTION_STATE_FINISHED"
  by (cases s) (simp_all add: state_order)

lemma finished_cb_eq:
  assumes ok: "list_ok d" and item: "get_item tid d = Some item"
    and running: "item_state item \<noteq> PK_TRANSACTION_STATE_FINISHED"
  shows "pk_transaction_list_transaction_finished_cb tid d = run_next (mark_finished tid item d)"
proof -
  have "get_item tid (forget_commit tid item d) = Some (item\<lparr>it_commit_id := 0\<rparr>)"
    by (simp add: get_item_forget_commit [OF item])
  moreover have "list_ok (forget_commit tid item d)"
    using keeps_forget_commit [OF item] ok by (simp add: keeps_def)
  ultimately have "fst (set_state tid PK_TRANSACTION_STATE_FINISHED (forget_commit tid item d))"
    using fst_set_state finished_state_max list_ok_state [OF ok] get_item_Some [OF item]
    by (fastforce simp: not_less)
  with running show ?thesis
    unfolding pk_transaction_list_transaction_finished_cb_def from_tid_item [OF ok] item
      option.case mark_finished_def run_next_def forget_commit_def [symmetric]
    by (simp only: Let_def split_beta simp_thms if_False if_True)
qed

lemma keeps_mark_finished:
  assumes item: "get_item tid d = Some item"
    and running: "item_state item \<noteq> PK_TRANSACTION_STATE_FINISHED"
  shows "keeps d (mark_finished tid item d)"
proof (cases "list_ok d")
  case ok: True
  define b where "b = forget_commit tid item d"
  define c where "c = effect LIST_CHANGED (snd (set_state tid PK_TRANSACTION_STATE_FINISHED b))"
  define item' where "item' = item\<lparr>it_commit_id := 0, it_transaction :=
      snd (pk_transaction_set_state PK_TRANSACTION_STATE_FINISHED (it_transaction item))\<rparr>"
  have i: "item_ok item" by (rule item_okD [OF ok item])
  then have removed: "it_remove_id item = 0" using running by (auto simp: item_ok_def)
  have unk: "item_state item \<noteq> PK_TRANSACTION_STATE_UNKNOWN" using i by (simp add: item_ok_def)
  have "item_state item' = PK_TRANSACTION_STATE_FINISHED"
    using set_state_result(3) [OF unk, of PK_TRANSACTION_STATE_FINISHED] finished_state_max [OF unk]
    by (auto simp: item'_def reached_def not_less)
  moreover have "get_item tid c = Some item'"
    using get_item_forget_commit [OF item, of tid]
    by (simp add: c_def item'_def get_item_set_state b_def)
  ultimately have "keeps c (mark_finished tid item d)"
    unfolding mark_finished_def b_def [symmetric] c_def [symmetric] Let_def
    by (intro keeps_add_remove_id) (auto simp: item'_def removed)
  moreover have "keeps d b" unfolding b_def by (rule keeps_forget_commit [OF item])
  moreover have "keeps b (snd (set_state tid PK_TRANSACTION_STATE_FINISHED b))"
    by (rule keeps_set_state) simp
  moreover have "keeps (snd (set_state tid PK_TRANSACTION_STATE_FINISHED b)) c"
    unfolding c_def by (rule keeps_frame) simp_all
  ultimately show ?thesis by (meson keeps_trans)
qed (simp add: keeps_def)

lemma keeps_finished_cb: "keeps d (pk_transaction_list_transaction_finished_cb tid d)"
proof (cases "list_ok d")
  case ok: True
  show ?thesis
  proof (cases "get_item tid d")
    case None
    then show ?thesis
      unfolding pk_transaction_list_transaction_finished_cb_def from_tid_item [OF ok] None option.case
      by (simp add: abort_def keeps_frame)
  next
    case (Some item)
    show ?thesis
    proof (cases "item_state item = PK_TRANSACTION_STATE_FINISHED")
      case True
      then show ?thesis
        unfolding pk_transaction_list_transaction_finished_cb_def from_tid_item [OF ok] Some option.case
        by (simp add: keeps_refl)
    next
      case False
      show ?thesis
        unfolding finished_cb_eq [OF ok Some False]
        by (rule keeps_trans [OF keeps_mark_finished [OF Some False] keeps_run_next])
    qed
  qed
qed (simp add: keeps_def)

section \<open>Removing\<close>

lemma remove_source_id_fields [simp]:
  "d_items (remove_source_id i d) = d_items d" "d_auth (remove_source_id i d) = d_auth d"
  "d_backend (remove_source_id i d) = d_backend d" "d_effects (remove_source_id i d) = d_effects d"
  by (simp_all add: remove_source_id_def)

lemma item_free_fields [simp]:
  "d_items (pk_transaction_list_item_free item d) = d_items d"
  "d_auth (pk_transaction_list_item_free item d) = d_auth d"
  "d_backend (pk_transaction_list_item_free item d) = d_backend d"
  "d_effects (pk_transaction_list_item_free item d) = d_effects d"
  by (simp_all add: pk_transaction_list_item_free_def Let_def)

lemma remove_source_id_loop:
  assumes "loop_ok (d_loop d)"
  shows "loop_ok (d_loop (remove_source_id i d))"
    and "set (sources (d_loop (remove_source_id i d))) = {s \<in> set (sources (d_loop d)). fst s \<noteq> i}"
proof -
  show "loop_ok (d_loop (remove_source_id i d))"
    using assms by (simp add: remove_source_id_def loop_ok_remove)
  show "set (sources (d_loop (remove_source_id i d))) = {s \<in> set (sources (d_loop d)). fst s \<noteq> i}"
    using assms by (auto simp: remove_source_id_def g_source_remove_def loop_ok_def)
qed

lemma item_free_loop:
  assumes "loop_ok (d_loop d)"
  shows "loop_ok (d_loop (pk_transaction_list_item_free item d)) \<and>
    set (sources (d_loop (pk_transaction_list_item_free item d))) =
      {s \<in> set (sources (d_loop d)).
         fst s \<noteq> it_commit_id item \<and> fst s \<noteq> it_idle_id item \<and> fst s \<noteq> it_remove_id item}"
proof -
  let ?a = "d\<lparr>d_gone := d_gone d @ [pk_transaction_dispose (it_transaction item)]\<rparr>"
  let ?b = "remove_source_id (it_commit_id item) ?a"
  let ?c = "remove_source_id (it_idle_id item) ?b"
  have a: "loop_ok (d_loop ?a)" using assms by simp
  note b = remove_source_id_loop [OF a, of "it_commit_id item"]
  note c = remove_source_id_loop [OF b(1), of "it_idle_id item"]
  note e = remove_source_id_loop [OF c(1), of "it_remove_id item"]
  have "pk_transaction_list_item_free item d = remove_source_id (it_remove_id item) ?c"
    by (simp add: pk_transaction_list_item_free_def)
  with e c b show ?thesis by auto
qed

lemma keeps_remove_internal: "keeps d (snd (pk_transaction_list_remove_internal tid d))"
proof (cases "get_item tid d")
  case None
  then show ?thesis by (simp add: pk_transaction_list_remove_internal_def keeps_refl)
next
  case (Some item)
  define c where "c = d\<lparr>d_items := filter (\<lambda>i. it_tid i \<noteq> tid) (d_items d)\<rparr>"
  define e where "e = pk_transaction_list_item_free item c"
  have e: "snd (pk_transaction_list_remove_internal tid d) = e"
    by (simp add: pk_transaction_list_remove_internal_def Some e_def c_def)
  have items: "d_items e = filter (\<lambda>i. it_tid i \<noteq> tid) (d_items d)"
    by (simp add: e_def c_def)
  show ?thesis
    unfolding e keeps_def
  proof (intro impI conjI)
    assume ok: "list_ok d"
    have "loop_ok (d_loop c)" using ok by (simp add: c_def list_ok_def)
    from item_free_loop [OF this, of item]
    have loop: "loop_ok (d_loop e)"
      and srcs: "set (sources (d_loop e)) = {s \<in> set (sources (d_loop d)).
         fst s \<noteq> it_commit_id item \<and> fst s \<noteq> it_idle_id item \<and> fst s \<noteq> it_remove_id item}"
      by (simp_all add: e_def c_def)
    have the_item: "a = item" if "a \<in> set (d_items d)" "it_tid a = tid" for a
      using get_item_unique [OF ok that(1)] that(2) Some by simp
    have "source_ok (d_items e) s" if s: "s \<in> set (sources (d_loop e))" for s
    proof -
      obtain i f where f: "s = (i, f)" by fastforce
      have "source_ok (d_items d) (i, f)"
        using s ok unfolding f srcs list_ok_def list_all_iff by blast
      moreover have "i \<noteq> it_commit_id item" "i \<noteq> it_idle_id item" "i \<noteq> it_remove_id item"
        using s unfolding f srcs by auto
      ultimately show ?thesis
        using the_item unfolding f items by (cases f) (auto simp: list_ex_iff)
    qed
    moreover have "distinct (map it_tid (d_items e))"
      using ok unfolding items by (simp add: list_ok_def distinct_map_filter)
    moreover have "list_all item_ok (d_items e)"
      using ok unfolding items by (auto simp: list_ok_def list_all_iff)
    ultimately show "list_ok e"
      using loop unfolding list_ok_def list_all_iff by blast
    show "\<forall>b \<in> set (d_items e). \<exists>a \<in> set (d_items d). later a b"
      unfolding items using later_refl list_ok_state [OF ok] by auto
  qed
qed

lemma keeps_forget_id:
  assumes item: "get_item tid d = Some item"
    and kind: "n = it_remove_id item \<and> upd = it_remove_id_update \<or>
               n = it_idle_id item \<and> upd = it_idle_id_update"
  shows "keeps d (upd_item tid (upd (\<lambda>_. 0)) (loop_remove n d))"
proof (cases "list_ok d")
  case ok: True
  have "a = item" if "a \<in> set (d_items d)" "it_tid a = tid" for a
    using get_item_unique [OF ok that(1)] that(2) item by simp
  then show ?thesis using kind by (auto intro!: keeps_forget)
qed (simp add: keeps_def)

lemma keeps_remove: "keeps d (snd (pk_transaction_list_remove tid d))"
proof (cases "list_ok d")
  case ok: True
  show ?thesis
  proof (cases "get_item tid d")
    case None
    then show ?thesis
      by (simp add: pk_transaction_list_remove_def from_tid_item [OF ok] keeps_refl)
  next
    case (Some item)
    define c where "c = (if it_remove_id item \<noteq> 0
         then upd_item tid (\<lambda>i. i\<lparr>it_remove_id := 0\<rparr>) (loop_remove (it_remove_id item) d) else d)"
    have c: "keeps d c"
      using keeps_forget_id [OF Some, of "it_remove_id item" it_remove_id_update]
      by (simp add: c_def keeps_refl)
    have "\<exists>item'. get_item tid c = Some item' \<and> it_idle_id item' = it_idle_id item"
      using Some by (simp add: c_def get_item_upd)
    then obtain item' where i: "get_item tid c = Some item'" "it_idle_id item' = it_idle_id item"
      by blast
    have "keeps c (upd_item tid (\<lambda>i. i\<lparr>it_idle_id := 0\<rparr>) (loop_remove (it_idle_id item) c))"
      by (rule keeps_forget_id [OF i(1), of _ it_idle_id_update]) (simp add: i(2))
    with c keeps_remove_internal show ?thesis
      unfolding pk_transaction_list_remove_def from_tid_item [OF ok] Some option.case Let_def
        c_def [symmetric]
      by (auto intro: keeps_refl keeps_trans)
  qed
qed (simp add: keeps_def)

lemma keeps_set_background: "keeps d (snd (pk_transaction_list_set_background tid bg d))"
proof (cases "list_ok d")
  case ok: True
  have "keeps d (upd_item tid (\<lambda>i. i\<lparr>it_background := bg\<rparr>) d)"
    by (rule keeps_upd) (use list_ok_state [OF ok] in \<open>simp add: later_def\<close>)
  then show ?thesis
    by (simp add: pk_transaction_list_set_background_def keeps_refl split: option.split)
qed (simp add: keeps_def)

end
