(* ===== verification/PK_Daemon_Laws.thy ===== *)
theory PK_Daemon_Laws
  imports PK_List_Laws
begin

text \<open>
  What the code that only passes signals on, ends, refuses and cancels transactions keeps. The
  locale \<open>daemon_relation\<close> asks for laws about the primitive changes of the daemon; its lemmas
  lift them to delivery, to the end of a transaction, to cancelling, and to the preparation of a
  run. It is interpreted with the invariant of the list (\<open>keeps\<close>) and with the relation that
  says that no transaction got new work to do (\<open>quiet\<close>).
\<close>

section \<open>The contract\<close>

text \<open>The plugins of the daemon run arbitrary code; this is what they have to respect.\<close>

definition plugins_keep :: "(daemon \<Rightarrow> daemon \<Rightarrow> bool) \<Rightarrow> environment \<Rightarrow> bool" where
  "plugins_keep D env =
     (\<forall>plugin \<in> set (plugins env). \<forall>phase tid d.
        case plugin phase of None \<Rightarrow> True | Some f \<Rightarrow> D d (f tid d))"

lemma plugins_keep_none: "plugins env = [] \<Longrightarrow> plugins_keep D env"
  by (simp add: plugins_keep_def)

lemma hint_fields_same_life [simp]:
  "same_life t (t\<lparr>tr_locale := a\<rparr>)" "same_life t (t\<lparr>tr_frontend_socket := a\<rparr>)"
  "same_life t (t\<lparr>tr_background := h\<rparr>)" "same_life t (t\<lparr>tr_interactive := h\<rparr>)"
  "same_life t (t\<lparr>tr_cache_age := n\<rparr>)"
  by (simp_all add: same_life_def)

lemma set_hint_same_life [simp]: "same_life t (snd (pk_transaction_set_hint fe key v t))"
  by (simp add: pk_transaction_set_hint_def Let_def split: option.split)

lemma set_hints_same_life [simp]: "same_life t (snd (set_hints_loop fe hints t))"
proof (induction hints arbitrary: t)
  case (Cons h hs)
  let ?x = "if length (g_strsplit_max CHR ''='' 2 h) = 2
      then pk_transaction_set_hint fe (g_strsplit_max CHR ''='' 2 h ! 0) (g_strsplit_max CHR ''='' 2 h ! 1) t
      else (Some (PK_TRANSACTION_ERROR_NOT_SUPPORTED,
              ''Could not parse hint '' @ [CHR 0x27] @ h @ [CHR 0x27]), t)"
  have x: "same_life t (snd ?x)" by simp
  have "snd (set_hints_loop fe (h # hs) t) =
      (case fst ?x of Some e \<Rightarrow> snd ?x | None \<Rightarrow> snd (set_hints_loop fe hs (snd ?x)))"
    unfolding set_hints_loop.simps Let_def split_beta by (simp split: option.split)
  with x Cons.IH [of "snd ?x"] show ?case by (auto split: option.split intro: same_life_trans)
qed simp

lemma vanished_same_life [simp]: "same_life t (pk_transaction_vanished_cb t)"
  by (simp add: pk_transaction_vanished_cb_def same_life_def tr_emit_defs)

locale daemon_relation =
  fixes D :: "daemon \<Rightarrow> daemon \<Rightarrow> bool"
  assumes D_refl: "D d d"
    and D_trans: "D a b \<Longrightarrow> D b c \<Longrightarrow> D a c"
    and D_frame: "d_items d' = d_items d \<Longrightarrow> d_loop d' = d_loop d \<Longrightarrow> d_auth d' = d_auth d \<Longrightarrow>
        no_calls (d_backend d) (d_backend d') \<Longrightarrow> D d d'"
    and D_life: "(\<And>t. same_life t (f t)) \<Longrightarrow> D d (upd_tr tid f d)"
    and D_put: "get_tr tid d = Some t \<Longrightarrow> same_life t t' \<Longrightarrow> D d (upd_tr tid (\<lambda>_. t') d)"
    and D_source: "\<not> list_source h \<Longrightarrow> D d (snd (loop_add h d))"
    and D_finished: "D d (pk_transaction_list_transaction_finished_cb tid d)"
    and D_remove: "D d (snd (pk_transaction_list_remove tid d))"
begin

lemma D_same: "d_items d' = d_items d \<Longrightarrow> d_loop d' = d_loop d \<Longrightarrow> d_auth d' = d_auth d \<Longrightarrow>
    d_backend d' = d_backend d \<Longrightarrow> D d d'"
  by (rule D_frame) (simp_all add: no_calls_refl)

lemma D_effect: "D d (effect e d)"
  by (rule D_same) simp_all

lemma D_abort: "D d (abort d)"
  by (rule D_same) (simp_all add: abort_def)

lemma D_reply: "D d (reply tid err d)"
  by (simp add: reply_def D_effect)

lemma D_fold: "(\<And>x d. D d (f d x)) \<Longrightarrow> D d (foldl f d xs)"
  by (induction xs arbitrary: d) (auto intro: D_refl D_trans)

lemma D_release: "D d (snd (pk_transaction_release_tid tid d))"
  by (simp add: pk_transaction_release_tid_def D_remove)

lemma D_refuse: "D d (refuse tid err d)"
  unfolding refuse_def by (rule D_trans [OF D_release D_reply])

lemma D_deliver_message: "D d (deliver_message env item d)"
  unfolding deliver_message_def by (rule D_fold) (simp add: D_refl D_life)

lemma D_complain: "D d (complain env details d)"
proof -
  let ?r = "pk_backend_message PK_MESSAGE_ENUM_BACKEND_ERROR details (d_backend d)"
  have "D d (d\<lparr>d_backend := snd ?r\<rparr>)"
    by (rule D_frame) (simp_all add: no_calls.R_message)
  then show ?thesis
    unfolding complain_def Let_def split_beta
    by (auto intro: D_trans D_deliver_message)
qed

lemma D_emit_finished: "D d (pk_transaction_finished_emit tid e n d)"
  unfolding pk_transaction_finished_emit_def
  by (rule D_trans [OF D_life D_finished]) simp

lemma D_plugin:
  assumes "plugins_keep D env"
  shows "D d (pk_transaction_plugin_phase env phase tid d)"
proof -
  have "set ps \<subseteq> set (plugins env) \<Longrightarrow> D d (foldl (\<lambda>d plugin. case plugin phase of None \<Rightarrow> d
      | Some plugin_func \<Rightarrow> plugin_func tid d) d ps)" for ps d
  proof (induction ps arbitrary: d)
    case (Cons p ps)
    have "D d (case p phase of None \<Rightarrow> d | Some plugin_func \<Rightarrow> plugin_func tid d)"
      using assms Cons.prems unfolding plugins_keep_def
      by (auto simp: D_refl split: option.splits)
    with Cons show ?case by (auto intro: D_trans)
  qed (simp add: D_refl)
  then show ?thesis by (simp add: pk_transaction_plugin_phase_def)
qed

lemma D_notify: "D d (snd (pk_notify_wait_updates_changed d))"
proof -
  have "D d (snd (loop_add SRC_notify_updates_changed d))"
    by (rule D_source) (simp add: list_source_def)
  moreover have "D (snd (loop_add SRC_notify_updates_changed d))
      (snd (loop_add SRC_notify_updates_changed d)\<lparr>d_notify_timeout := i\<rparr>)" for i
    by (rule D_same) simp_all
  ultimately have "D d (snd (loop_add SRC_notify_updates_changed d)\<lparr>d_notify_timeout := i\<rparr>)" for i
    by (rule D_trans)
  then show ?thesis
    unfolding pk_notify_wait_updates_changed_def Let_def split_beta by (simp add: D_refl)
qed

lemma D_cache: "D d (d\<lparr>d_cache := c\<rparr>)"
  by (rule D_same) simp_all

lemma D_invalidate: "D d (snd (pk_transaction_finish_invalidate_caches t d))"
proof -
  have "D d (snd (pk_notify_wait_updates_changed (d\<lparr>d_cache := c\<rparr>)))" for c
    by (rule D_trans [OF D_cache D_notify])
  then show ?thesis
    by (simp add: pk_transaction_finish_invalidate_caches_def Let_def D_refl D_cache)
qed

lemma D_finished_log: "D d (finished_log tid t e n d)"
proof -
  have then_effect: "D d (effect x e)" if "D d e" for e x
    using that D_effect by (rule D_trans)
  have fold: "D d (foldl f e xs)" if "D d e" "\<And>x d. D d (f d x)" for e f and xs :: "PkPackage list"
    using that(1) D_fold [of f, OF that(2)] by (rule D_trans)
  have "D d (finished_log_packages tid t d)"
    unfolding finished_log_packages_def Let_def
    by (auto simp: D_refl D_effect intro!: fold)
  then show ?thesis
    unfolding finished_log_def Let_def by (auto intro!: then_effect)
qed

text \<open>A step of a chain that may be skipped.\<close>

lemma D_chain: "D d a \<Longrightarrow> D a b \<Longrightarrow> D d (if P then b else a)"
  by (auto intro: D_trans)

lemma D_life_then: "D d e \<Longrightarrow> (\<And>t. same_life t (f t)) \<Longrightarrow> D d (upd_tr tid f e)"
  by (blast intro: D_trans D_life)

lemma D_plugin_then:
  "plugins_keep D env \<Longrightarrow> D d e \<Longrightarrow> D d (pk_transaction_plugin_phase env phase tid e)"
  by (blast intro: D_trans D_plugin)

lemma D_finished_callback:
  assumes "plugins_keep D env"
  shows "D d (pk_transaction_finished_cb env e tid d)"
proof (cases "get_tr tid d")
  case None
  then show ?thesis by (simp add: pk_transaction_finished_cb_def D_refl)
next
  case (Some t)
  have last: "D d (case get_tr tid c of None \<Rightarrow> c | Some t \<Rightarrow>
      pk_transaction_finished_emit tid (x t) n (finished_log tid t (y t) n
        (if P t then snd (pk_transaction_finish_invalidate_caches t c) else c)))" if "D d c" for c x y n P
    using that
    by (auto split: option.split intro: D_trans [OF _ D_emit_finished] D_trans [OF _ D_finished_log]
        D_trans [OF _ D_invalidate])
  show ?thesis
    unfolding pk_transaction_finished_cb_def Some Let_def option.case
    by (auto simp: D_refl assms intro!: last D_life_then D_plugin_then)
qed

lemma D_package_cb: "D d (pk_transaction_package_cb env item tid d)"
  by (simp add: pk_transaction_package_cb_def D_refl D_complain D_life split: option.split)

lemma D_deliver_to:
  assumes "plugins_keep D env"
  shows "D d (deliver_to env s tid d)"
proof (cases s)
  case (SIGNAL_FILES item)
  have "D d (case get_tr tid d of None \<Rightarrow> d
      | Some t \<Rightarrow> foldl (\<lambda>d details. complain env details d) d (files_complaints item t))"
    by (auto simp: D_refl split: option.split intro: D_fold D_complain)
  then show ?thesis by (simp add: SIGNAL_FILES deliver_to_def D_life_then)
next
  case (SIGNAL_ERROR_CODE item)
  have "D d (case get_tr tid d of None \<Rightarrow> d | Some t \<Rightarrow>
      (case error_code_complaint item t of None \<Rightarrow> d | Some details \<Rightarrow> complain env details d))"
    by (auto simp: D_refl split: option.split intro: D_complain)
  then show ?thesis by (simp add: SIGNAL_ERROR_CODE deliver_to_def D_life_then)
next
  case (NOTIFY p)
  then show ?thesis by (cases p) (simp_all add: deliver_to_def D_life D_refl)
qed (simp_all add: deliver_to_def D_life D_refl D_package_cb D_finished_callback assms)

lemma D_deliver: "plugins_keep D env \<Longrightarrow> D d (deliver env s d)"
  by (auto simp: deliver_def D_refl split: option.split intro!: D_fold D_deliver_to)

lemma D_backend:
  assumes "plugins_keep D env" and "D d (d\<lparr>d_backend := f (d_backend d)\<rparr>)"
  shows "D d (backend_do env f d)"
proof -
  have "D e (foldl (\<lambda>d s. deliver env s d) e ss)" for e ss
    using assms(1) by (intro D_fold D_deliver)
  with assms(2) show ?thesis unfolding backend_do_def Let_def by (blast intro: D_trans)
qed

lemma D_backend_quiet:
  "plugins_keep D env \<Longrightarrow> no_calls (d_backend d) (f (d_backend d)) \<Longrightarrow> D d (backend_do env f d)"
  by (rule D_backend) (simp_all add: D_frame)

section \<open>Refusing, cancelling, and the preparation of a run\<close>

lemma D_auth_refused: "D d (auth_refused tid message d)"
  unfolding auth_refused_def Let_def
  by (intro D_trans [OF _ D_emit_finished] D_life_then D_refl) simp_all

lemma D_is_implemented: "D d (snd (is_implemented role d))"
  unfolding is_implemented_def Let_def split_beta
  by (rule D_frame)
    (simp_all add: pk_backend_is_implemented_def pk_backend_get_roles_def split_beta Let_def
      no_calls_same split: option.split)

lemma D_cancel_queued: "D d (cancel_queued tid d)"
  unfolding cancel_queued_def Let_def
  by (intro D_trans [OF _ D_release] D_trans [OF _ D_emit_finished] D_life_then D_refl) simp_all

lemma D_quiet_then:
  "plugins_keep D env \<Longrightarrow> D d e \<Longrightarrow> (\<And>b. no_calls b (f b)) \<Longrightarrow> D d (backend_do env f e)"
  by (blast intro: D_trans D_backend_quiet)

lemma no_calls_cancel: "pk_backend_cancel b = Some c \<Longrightarrow> no_calls b c"
  by (auto simp: pk_backend_cancel_def emit_def split: if_splits intro: no_calls_one)

lemma D_cancel_running:
  assumes "plugins_keep D env"
  shows "D d (cancel_running env e d)"
proof -
  have last: "D d (case pk_backend_cancel (d_backend c) of None \<Rightarrow> abort c
      | Some b \<Rightarrow> backend_do env (\<lambda>_. b) c)" if "D d c" for c
    using that assms no_calls_cancel
    by (auto split: option.split intro: D_trans [OF _ D_abort] D_trans [OF _ D_backend_quiet])
  show ?thesis
    unfolding cancel_running_def Let_def
    by (intro last D_quiet_then assms D_refl no_calls.R_status no_calls.R_allow_cancel no_calls.R_exit)
qed

lemma D_cancel_bg: "plugins_keep D env \<Longrightarrow> D d (pk_transaction_cancel_bg env tid d)"
  unfolding pk_transaction_cancel_bg_def Let_def split_beta
  by (auto simp: D_refl split: option.split
      intro: D_is_implemented D_trans [OF D_is_implemented D_cancel_queued]
        D_trans [OF D_is_implemented D_cancel_running])

lemma D_cancel_background:
  assumes "plugins_keep D env"
  shows "D d (pk_transaction_list_cancel_background env d)"
  unfolding pk_transaction_list_cancel_background_def Let_def
  by (rule D_trans [OF D_fold D_fold])
    (auto simp: D_refl D_cancel_bg assms split: option.split)

lemma no_calls_settings:
  "no_calls b (b\<lparr>be_background := x, be_interactive := y, be_transaction_id := z\<rparr>)"
  "no_calls b (snd (pk_backend_set_locale l b))" "no_calls b (snd (pk_backend_set_frontend_socket so b))"
  "no_calls b (pk_backend_set_cache_age a b)" "no_calls b (pk_backend_set_proxy p1 p2 p3 p4 p5 p6 b)"
  "no_calls b (pk_backend_set_root r b)" "no_calls b (pk_backend_set_uid u b)"
  "no_calls b (pk_backend_set_cmdline cl b)"
  by (simp_all add: no_calls_same pk_backend_set_locale_def pk_backend_set_frontend_socket_def
      pk_backend_set_cache_age_def Let_def pk_backend_set_proxy_def pk_backend_set_root_def
      pk_backend_set_uid_def pk_backend_set_cmdline_def)

lemma D_session:
  assumes "plugins_keep D env"
  shows "D d (snd (pk_transaction_set_session_state env t d))"
  unfolding pk_transaction_set_session_state_def Let_def
  by (auto simp: D_refl split: option.split intro!: D_quiet_then assms no_calls_settings)

lemma D_run_prepare:
  assumes "plugins_keep D env"
  shows "D d (run_prepare env tid t d)"
proof -
  have loc: "D d (case l of None \<Rightarrow> backend_do env (\<lambda>b. snd (pk_backend_set_locale ''C'' b)) c
      | Some l \<Rightarrow> backend_do env (\<lambda>b. snd (pk_backend_set_locale l b)) c)" if "D d c" for c l
    using that assms by (auto split: option.split intro: D_quiet_then no_calls_settings)
  have age: "D d (if P then backend_do env (pk_backend_set_cache_age a) c else c)" if "D d c" for P a c
    using that assms by (auto intro: D_quiet_then no_calls_settings)
  show ?thesis
    unfolding run_prepare_def Let_def
    by (intro D_plugin_then D_life_then D_trans [OF _ D_session] loc age D_quiet_then assms D_refl
        no_calls_settings no_calls_reset no_calls.R_status emit_same_life)
qed

lemma D_run_connect:
  assumes "plugins_keep D env"
  shows "D d (run_connect env tid d)"
  unfolding run_connect_def Let_def
  by (intro D_life_then D_plugin_then D_quiet_then D_refl assms no_calls_reset no_calls.R_set_role
      emit_same_life)

lemma D_finished_idle: "D d (pk_transaction_finished_idle_cb tid d)"
  by (simp add: pk_transaction_finished_idle_cb_def D_refl D_emit_finished split: option.split)

lemma D_set_hints: "D d (pk_transaction_set_hints env hints tid d)"
  by (auto simp: pk_transaction_set_hints_def Let_def split_beta D_refl split: option.split
      intro: D_trans [OF D_put D_reply])

lemma D_commit_log: "D d (commit_log tid t d)"
proof -
  have "D d (effect x e)" if "D d e" for e x
    using that D_effect by (rule D_trans)
  then show ?thesis
    unfolding commit_log_def Let_def
    by (auto simp: D_refl D_effect split: option.split)
qed

end

section \<open>The invariant of the list\<close>

lemma get_tr_Some: "get_tr tid d = Some t \<longleftrightarrow> (\<exists>item. get_item tid d = Some item \<and> it_transaction item = t)"
  by (auto simp: get_tr_def)

lemma upd_tr_put:
  assumes "list_ok d" and "get_tr tid d = Some t"
  shows "upd_tr tid (\<lambda>_. f t) d = upd_tr tid f d"
proof -
  obtain item where item: "get_item tid d = Some item" "it_transaction item = t"
    using assms(2) by (auto simp: get_tr_Some)
  have "it_transaction a = t" if "a \<in> set (d_items d)" "it_tid a = tid" for a
    using get_item_unique [OF assms(1) that(1)] that(2) item by simp
  then show ?thesis by (simp add: upd_tr_def upd_item_def)
qed

lemma keeps_put:
  assumes "get_tr tid d = Some t" and "tr_state t' = tr_state t" and "tr_tid t' = tr_tid t"
    and "tr_sender t' = tr_sender t"
  shows "keeps d (upd_tr tid (\<lambda>_. t') d)"
proof (cases "list_ok d")
  case ok: True
  obtain item where item: "get_item tid d = Some item" "it_transaction item = t"
    using assms(1) by (auto simp: get_tr_Some)
  have "a = item" if "a \<in> set (d_items d)" "it_tid a = tid" for a
    using get_item_unique [OF ok that(1)] that(2) item by simp
  then show ?thesis
    unfolding upd_tr_def
    by (intro keeps_upd) (use assms item list_ok_state [OF ok] in \<open>auto simp: later_def\<close>)
qed (simp add: keeps_def)

interpretation keeps: daemon_relation keeps
proof
  show "keeps d d" for d by (rule keeps_refl)
  show "keeps a c" if "keeps a b" "keeps b c" for a b c using that by (rule keeps_trans)
  show "keeps d d'" if "d_items d' = d_items d" "d_loop d' = d_loop d" for d d'
    using that by (rule keeps_frame)
  show "keeps d (upd_tr tid f d)" if "\<And>t. same_life t (f t)" for d tid f
    using that by (rule keeps_life)
  show "keeps d (upd_tr tid (\<lambda>_. t') d)" if "get_tr tid d = Some t" "same_life t t'" for tid d t t'
    by (rule keeps_put [OF that(1)]) (use that(2) in \<open>simp_all add: same_life_def\<close>)
  show "keeps d (snd (loop_add h d))" if "\<not> list_source h" for h d
    using that by (rule keeps_add_source)
  show "keeps d (pk_transaction_list_transaction_finished_cb tid d)" for d tid
    by (rule keeps_finished_cb)
  show "keeps d (snd (pk_transaction_list_remove tid d))" for d tid by (rule keeps_remove)
qed

section \<open>No new work\<close>

text \<open>
  \<open>active\<close> transactions have been committed and are not finished; an item is \<open>working\<close> if its
  transaction is active or about to be run. \<open>quiet d d'\<close> says that no method of the plugin was
  called that needs an authorization, that nobody was asked for one, and that no item started to
  work or changed its role or its trust.
\<close>

definition active :: "PkTransaction \<Rightarrow> bool" where
  "active t = (PK_TRANSACTION_STATE_COMMITTED \<le> tr_state t \<and> tr_state t \<noteq> PK_TRANSACTION_STATE_FINISHED)"

definition working :: "PkTransactionItem \<Rightarrow> bool" where
  "working item = (active (it_transaction item) \<or> it_idle_id item \<noteq> 0)"

definition same_job :: "PkTransactionItem \<Rightarrow> PkTransactionItem \<Rightarrow> bool" where
  "same_job a b =
     (it_tid b = it_tid a \<and> tr_role (it_transaction b) = tr_role (it_transaction a) \<and>
      cached_only_trusted (it_transaction b) = cached_only_trusted (it_transaction a) \<and>
      (working b \<longrightarrow> working a))"

definition jobs :: "daemon \<Rightarrow> daemon \<Rightarrow> bool" where
  "jobs d d' \<longleftrightarrow> (\<forall>b \<in> set (d_items d'). \<exists>a \<in> set (d_items d). same_job a b)"

text \<open>The role whose work a call of the plugin is.\<close>

fun role_of_call :: "backend_call \<Rightarrow> PkRoleEnum" where
  "role_of_call (VF_download_packages p d) = PK_ROLE_ENUM_DOWNLOAD_PACKAGES"
| "role_of_call VF_get_categories = PK_ROLE_ENUM_GET_CATEGORIES"
| "role_of_call (VF_get_depends f p r) = PK_ROLE_ENUM_GET_DEPENDS"
| "role_of_call (VF_get_details p) = PK_ROLE_ENUM_GET_DETAILS"
| "role_of_call VF_get_distro_upgrades = PK_ROLE_ENUM_GET_DISTRO_UPGRADES"
| "role_of_call (VF_get_files p) = PK_ROLE_ENUM_GET_FILES"
| "role_of_call (VF_get_requires f p r) = PK_ROLE_ENUM_GET_REQUIRES"
| "role_of_call (VF_get_update_detail p) = PK_ROLE_ENUM_GET_UPDATE_DETAIL"
| "role_of_call (VF_get_updates f) = PK_ROLE_ENUM_GET_UPDATES"
| "role_of_call (VF_install_packages t p) = PK_ROLE_ENUM_INSTALL_PACKAGES"
| "role_of_call (VF_install_signature s k p) = PK_ROLE_ENUM_INSTALL_SIGNATURE"
| "role_of_call (VF_install_files t f) = PK_ROLE_ENUM_INSTALL_FILES"
| "role_of_call (VF_refresh_cache f) = PK_ROLE_ENUM_REFRESH_CACHE"
| "role_of_call (VF_remove_packages p a r) = PK_ROLE_ENUM_REMOVE_PACKAGES"
| "role_of_call (VF_resolve f p) = PK_ROLE_ENUM_RESOLVE"
| "role_of_call (VF_rollback t) = PK_ROLE_ENUM_ROLLBACK"
| "role_of_call (VF_search_details f v) = PK_ROLE_ENUM_SEARCH_DETAILS"
| "role_of_call (VF_search_files f v) = PK_ROLE_ENUM_SEARCH_FILE"
| "role_of_call (VF_search_groups f v) = PK_ROLE_ENUM_SEARCH_GROUP"
| "role_of_call (VF_search_names f v) = PK_ROLE_ENUM_SEARCH_NAME"
| "role_of_call (VF_update_packages t p) = PK_ROLE_ENUM_UPDATE_PACKAGES"
| "role_of_call (VF_update_system t) = PK_ROLE_ENUM_UPDATE_SYSTEM"
| "role_of_call (VF_get_repo_list f) = PK_ROLE_ENUM_GET_REPO_LIST"
| "role_of_call (VF_repo_enable r e) = PK_ROLE_ENUM_REPO_ENABLE"
| "role_of_call (VF_repo_set_data r p v) = PK_ROLE_ENUM_REPO_SET_DATA"
| "role_of_call (VF_what_provides f p v) = PK_ROLE_ENUM_WHAT_PROVIDES"
| "role_of_call (VF_get_packages f) = PK_ROLE_ENUM_GET_PACKAGES"
| "role_of_call (VF_simulate_install_files f) = PK_ROLE_ENUM_SIMULATE_INSTALL_FILES"
| "role_of_call (VF_simulate_install_packages p) = PK_ROLE_ENUM_SIMULATE_INSTALL_PACKAGES"
| "role_of_call (VF_simulate_remove_packages p a) = PK_ROLE_ENUM_SIMULATE_REMOVE_PACKAGES"
| "role_of_call (VF_simulate_update_packages p) = PK_ROLE_ENUM_SIMULATE_UPDATE_PACKAGES"
| "role_of_call (VF_upgrade_system d k) = PK_ROLE_ENUM_UPGRADE_SYSTEM"
| "role_of_call (VF_repair_system t) = PK_ROLE_ENUM_REPAIR_SYSTEM"
| "role_of_call VF_simulate_repair_system = PK_ROLE_ENUM_SIMULATE_REPAIR_SYSTEM"
| "role_of_call v = PK_ROLE_ENUM_UNKNOWN"

text \<open>The action of PolicyKit that a role needs.\<close>

definition action_for :: "bool \<Rightarrow> PkRoleEnum \<Rightarrow> string option" where
  "action_for only_trusted role =
     (if only_trusted then pk_transaction_role_to_action_only_trusted role
      else pk_transaction_role_to_action_allow_untrusted role)"

text \<open>
  The calls that need an authorization. Every other one, a query, may also be made by the plugins of the daemon,
  as those that come with it do: they look up files and packages before and after a transaction.
\<close>

definition guarded_call :: "backend_call \<Rightarrow> bool" where
  "guarded_call v \<longleftrightarrow>
     action_for True (role_of_call v) \<noteq> None \<or> action_for False (role_of_call v) \<noteq> None"

definition unguarded :: "PkBackend \<Rightarrow> PkBackend \<Rightarrow> bool" where
  "unguarded b b' \<longleftrightarrow>
     (\<exists>ss. emitted b' = emitted b @ ss \<and> (\<forall>v. VFUNC v \<in> set ss \<longrightarrow> \<not> guarded_call v))"

lemma unguarded_refl [simp]: "unguarded b b"
  by (simp add: unguarded_def)

lemma unguarded_trans: "unguarded a b \<Longrightarrow> unguarded b c \<Longrightarrow> unguarded a c"
  unfolding unguarded_def by (metis Un_iff append_assoc set_append)

lemma guarded_is_method: "guarded_call v \<Longrightarrow> is_method_call (VFUNC v)"
  by (cases v) (simp_all add: guarded_call_def action_for_def)

lemma no_calls_unguarded: "no_calls b b' \<Longrightarrow> unguarded b b'"
  unfolding no_calls_def unguarded_def list_ex_iff using guarded_is_method by blast

definition quiet :: "daemon \<Rightarrow> daemon \<Rightarrow> bool" where
  "quiet d d' \<longleftrightarrow> keeps d d' \<and>
     (list_ok d \<longrightarrow> unguarded (d_backend d) (d_backend d') \<and> d_auth d' = d_auth d \<and> jobs d d')"

lemma same_job_trans: "same_job a b \<Longrightarrow> same_job b c \<Longrightarrow> same_job a c"
  by (simp add: same_job_def)

lemma same_job_refl [simp]: "same_job a a"
  by (simp add: same_job_def)

lemma jobs_refl: "d_items d' = d_items d \<Longrightarrow> jobs d d'"
  unfolding jobs_def using same_job_refl by metis

lemma jobs_subset: "set (d_items d') \<subseteq> set (d_items d) \<Longrightarrow> jobs d d'"
  unfolding jobs_def using same_job_refl by (meson subsetD)

lemma jobs_trans: "jobs a b \<Longrightarrow> jobs b c \<Longrightarrow> jobs a c"
  unfolding jobs_def by (meson same_job_trans)

lemma quiet_trans:
  assumes ab: "quiet a b" and bc: "quiet b c"
  shows "quiet a c"
  unfolding quiet_def
proof (intro conjI impI)
  show "keeps a c" using ab bc keeps_trans unfolding quiet_def by blast
  assume "list_ok a"
  moreover from this have "list_ok b" using ab by (simp add: quiet_def keeps_def)
  ultimately have 1: "unguarded (d_backend a) (d_backend b)" "d_auth b = d_auth a" "jobs a b"
    and 2: "unguarded (d_backend b) (d_backend c)" "d_auth c = d_auth b" "jobs b c"
    using ab bc by (simp_all add: quiet_def)
  show "unguarded (d_backend a) (d_backend c)" by (rule unguarded_trans [OF 1(1) 2(1)])
  show "d_auth c = d_auth a" using 1 2 by simp
  show "jobs a c" by (rule jobs_trans [OF 1(3) 2(3)])
qed

lemma jobs_upd:
  "(\<And>a. a \<in> set (d_items d) \<Longrightarrow> it_tid a = tid \<Longrightarrow> same_job a (f a)) \<Longrightarrow> jobs d (upd_item tid f d)"
  unfolding jobs_def upd_item_items set_map by fastforce

lemma jobs_upd_from:
  "jobs d e \<Longrightarrow> (\<And>a. same_job a (f a)) \<Longrightarrow> jobs d (upd_item tid f e)"
  using jobs_upd jobs_trans by blast

lemma jobs_life: "(\<And>t. same_life t (f t)) \<Longrightarrow> jobs d (upd_tr tid f d)"
  unfolding upd_tr_def by (rule jobs_upd) (simp add: same_job_def same_life_def working_def active_def)

lemma jobs_put:
  assumes "list_ok d" and "get_tr tid d = Some t" and "same_life t t'"
  shows "jobs d (upd_tr tid (\<lambda>_. t') d)"
proof -
  obtain item where item: "get_item tid d = Some item" "it_transaction item = t"
    using assms(2) by (auto simp: get_tr_Some)
  have "a = item" if "a \<in> set (d_items d)" "it_tid a = tid" for a
    using get_item_unique [OF assms(1) that(1)] that(2) item by simp
  then show ?thesis
    unfolding upd_tr_def using item assms(3)
    by (intro jobs_upd) (auto simp: same_job_def same_life_def working_def active_def)
qed

lemma jobs_set_state:
  assumes "list_ok d" and "get_item tid d = Some item" and "s \<noteq> PK_TRANSACTION_STATE_COMMITTED"
    and "PK_TRANSACTION_STATE_COMMITTED \<le> s \<Longrightarrow> s = PK_TRANSACTION_STATE_FINISHED \<or> active (it_transaction item)"
  shows "jobs d (snd (set_state tid s d))"
proof -
  let ?t = "it_transaction item"
  have unk: "tr_state ?t \<noteq> PK_TRANSACTION_STATE_UNKNOWN"
    using list_ok_state [OF assms(1)] get_item_Some [OF assms(2)] by blast
  have "a = item" if "a \<in> set (d_items d)" "it_tid a = tid" for a
    using get_item_unique [OF assms(1) that(1)] that(2) assms(2) by simp
  moreover have "same_job item (item\<lparr>it_transaction := snd (pk_transaction_set_state s ?t)\<rparr>)"
    using set_state_result(2,3) [OF unk, of s] assms(3,4)
    by (auto simp: same_job_def same_life_def working_def active_def reached_def split: if_splits)
  ultimately show ?thesis
    unfolding set_state_upd [OF assms(2)] snd_conv by (intro jobs_upd) simp
qed


lemma set_state_fields [simp]:
  "d_auth (snd (set_state tid s d)) = d_auth d" "d_backend (snd (set_state tid s d)) = d_backend d"
  by (simp_all add: set_state_def upd_tr_def split_beta split: option.split)

lemma run_item_fields [simp]:
  "d_auth (pk_transaction_list_run_item tid d) = d_auth d"
  "d_backend (pk_transaction_list_run_item tid d) = d_backend d"
  by (simp_all add: run_item_eq Let_def)

lemma run_next_fields [simp]:
  "d_auth (run_next d) = d_auth d" "d_backend (run_next d) = d_backend d"
  by (simp_all add: run_next_def split: option.split)

lemma forget_commit_fields [simp]:
  "d_auth (forget_commit tid item d) = d_auth d" "d_backend (forget_commit tid item d) = d_backend d"
  by (simp_all add: forget_commit_def)

lemma mark_finished_fields [simp]:
  "d_auth (mark_finished tid item d) = d_auth d" "d_backend (mark_finished tid item d) = d_backend d"
  by (simp_all add: mark_finished_def Let_def)

lemma jobs_run_item:
  assumes ok: "list_ok d" and item: "get_item tid d = Some item"
    and ready: "item_state item = PK_TRANSACTION_STATE_READY"
  shows "jobs d (pk_transaction_list_run_item tid d)"
proof -
  let ?t = "it_transaction item"
  let ?g = "\<lambda>a. if it_tid a = tid
      then a\<lparr>it_transaction := snd (pk_transaction_set_state PK_TRANSACTION_STATE_RUNNING ?t),
             it_idle_id := next_source (d_loop d)\<rparr> else a"
  have early: "item_state item < PK_TRANSACTION_STATE_RUNNING" by (simp add: ready state_order)
  have "same_job a (?g a)" if "a \<in> set (d_items d)" for a
  proof (cases "it_tid a = tid")
    case True
    then have "a = item" using get_item_unique [OF ok that] item by simp
    moreover have "working item" by (simp add: working_def active_def ready state_order)
    ultimately show ?thesis
      using True set_state_result(2) [of ?t PK_TRANSACTION_STATE_RUNNING] ready
      by (simp add: same_job_def same_life_def)
  qed simp
  then show ?thesis
    unfolding jobs_def run_item_ready(2) [OF ok item early] set_map by blast
qed

lemma jobs_run_next: "list_ok d \<Longrightarrow> jobs d (run_next d)"
  using next_item_ready [of d]
  by (auto simp: run_next_def jobs_refl get_item_unique intro!: jobs_run_item split: option.split)

lemma jobs_forget_commit: "jobs d (forget_commit tid item d)"
proof -
  have "jobs d (loop_remove i d)" for i by (simp add: jobs_refl)
  then show ?thesis
    unfolding forget_commit_def by (auto simp: jobs_refl same_job_def working_def intro: jobs_upd_from)
qed

lemma jobs_mark_finished:
  assumes ok: "list_ok d" and item: "get_item tid d = Some item"
  shows "jobs d (mark_finished tid item d)"
proof -
  let ?b = "forget_commit tid item d"
  let ?c = "effect LIST_CHANGED (snd (set_state tid PK_TRANSACTION_STATE_FINISHED ?b))"
  have b: "list_ok ?b" using keeps_forget_commit [OF item] ok by (simp add: keeps_def)
  have "jobs ?b (snd (set_state tid PK_TRANSACTION_STATE_FINISHED ?b))"
    using get_item_forget_commit [OF item, of tid] by (intro jobs_set_state [OF b]) auto
  with jobs_forget_commit have "jobs d (snd (set_state tid PK_TRANSACTION_STATE_FINISHED ?b))"
    by (rule jobs_trans)
  then have "jobs d (snd (loop_add h ?c))" for h
    by (rule jobs_trans) (simp add: jobs_refl)
  then show ?thesis
    unfolding mark_finished_def Let_def by (rule jobs_upd_from) (simp add: same_job_def working_def active_def)
qed

lemma quiet_finished_cb: "quiet d (pk_transaction_list_transaction_finished_cb tid d)"
proof (cases "list_ok d")
  case ok: True
  have "unguarded (d_backend d) (d_backend (pk_transaction_list_transaction_finished_cb tid d)) \<and>
    d_auth (pk_transaction_list_transaction_finished_cb tid d) = d_auth d \<and>
    jobs d (pk_transaction_list_transaction_finished_cb tid d)"
  proof (cases "get_item tid d")
    case None
    then show ?thesis
      unfolding pk_transaction_list_transaction_finished_cb_def from_tid_item [OF ok] None option.case
      by (simp add: abort_def jobs_refl unguarded_refl)
  next
    case (Some item)
    show ?thesis
    proof (cases "item_state item = PK_TRANSACTION_STATE_FINISHED")
      case True
      then show ?thesis
        unfolding pk_transaction_list_transaction_finished_cb_def from_tid_item [OF ok] Some option.case
        by (simp add: jobs_refl unguarded_refl)
    next
      case False
      have m: "list_ok (mark_finished tid item d)"
        using keeps_mark_finished [OF Some False] ok by (simp add: keeps_def)
      show ?thesis
        unfolding finished_cb_eq [OF ok Some False]
        using jobs_trans [OF jobs_mark_finished [OF ok Some] jobs_run_next [OF m]]
        by (simp add: unguarded_refl)
    qed
  qed
  then show ?thesis by (simp add: quiet_def keeps_finished_cb)
qed (simp add: quiet_def keeps_def)

lemma remove_internal_parts:
  "d_backend (snd (pk_transaction_list_remove_internal tid d)) = d_backend d \<and>
   d_auth (snd (pk_transaction_list_remove_internal tid d)) = d_auth d \<and>
   jobs d (snd (pk_transaction_list_remove_internal tid d))"
  by (auto simp: pk_transaction_list_remove_internal_def Let_def jobs_refl split: option.split
      intro: jobs_subset)

lemma remove_parts:
  "d_backend (snd (pk_transaction_list_remove tid d)) = d_backend d \<and>
   d_auth (snd (pk_transaction_list_remove tid d)) = d_auth d \<and>
   jobs d (snd (pk_transaction_list_remove tid d))"
proof -
  define P where "P e \<longleftrightarrow> d_backend e = d_backend d \<and> d_auth e = d_auth d \<and> jobs d e" for e
  have refl: "P d" by (simp add: P_def jobs_refl)
  have forget: "P (upd_item tid (\<lambda>i. i\<lparr>it_remove_id := 0\<rparr>) (loop_remove n e))"
    "P (upd_item tid (\<lambda>i. i\<lparr>it_idle_id := 0\<rparr>) (loop_remove n e))" if "P e" for n e
  proof -
    have "jobs d (loop_remove n e)"
      using that jobs_trans [OF _ jobs_refl, of d e "loop_remove n e"] by (simp add: P_def)
    with that show "P (upd_item tid (\<lambda>i. i\<lparr>it_remove_id := 0\<rparr>) (loop_remove n e))"
      "P (upd_item tid (\<lambda>i. i\<lparr>it_idle_id := 0\<rparr>) (loop_remove n e))"
      by (auto simp: P_def same_job_def working_def intro: jobs_upd_from)
  qed
  have gone: "P (snd (pk_transaction_list_remove_internal tid e))" if "P e" for e
    using that remove_internal_parts [of tid e] jobs_trans [of d e] by (simp add: P_def)
  have "P (snd (pk_transaction_list_remove tid d))"
    unfolding pk_transaction_list_remove_def Let_def
    by (auto simp: refl forget gone split: option.split)
  then show ?thesis by (simp add: P_def)
qed

lemma quiet_remove: "quiet d (snd (pk_transaction_list_remove tid d))"
  by (simp add: quiet_def keeps_remove remove_parts unguarded_refl)

lemma quiet_remove_internal: "quiet d (snd (pk_transaction_list_remove_internal tid d))"
  by (simp add: quiet_def keeps_remove_internal remove_internal_parts unguarded_refl)

interpretation quiet: daemon_relation quiet
proof
  show "quiet d d" for d by (simp add: quiet_def keeps_refl unguarded_refl jobs_refl)
  show "quiet a c" if "quiet a b" "quiet b c" for a b c using that by (rule quiet_trans)
  show "quiet d d'" if "d_items d' = d_items d" "d_loop d' = d_loop d" "d_auth d' = d_auth d"
    "no_calls (d_backend d) (d_backend d')" for d d'
    using that by (simp add: quiet_def keeps_frame jobs_refl no_calls_unguarded)
  show "quiet d (upd_tr tid f d)" if "\<And>t. same_life t (f t)" for d tid f
    using that by (simp add: quiet_def keeps_life jobs_life) (simp add: upd_tr_def unguarded_refl)
  show "quiet d (upd_tr tid (\<lambda>_. t') d)" if "get_tr tid d = Some t" "same_life t t'" for tid d t t'
    using that by (simp add: quiet_def keeps.D_put jobs_put) (simp add: upd_tr_def unguarded_refl)
  show "quiet d (snd (loop_add h d))" if "\<not> list_source h" for h d
    using that by (simp add: quiet_def keeps_add_source jobs_refl unguarded_refl)
  show "quiet d (pk_transaction_list_transaction_finished_cb tid d)" for d tid
    by (rule quiet_finished_cb)
  show "quiet d (snd (pk_transaction_list_remove tid d))" for d tid by (rule quiet_remove)
qed

end
