(* ===== verification/PK_Control_Laws.thy ===== *)
theory PK_Control_Laws
  imports PK_Daemon_Laws
begin

text \<open>
  Committing, authorizing and running, taken apart into the one step that makes the difference
  and the steps around it that every relation of the daemon allows: a commit makes one
  transaction ready, an authorization asks one question, a run calls the plugin once.
\<close>

section \<open>The state of one transaction\<close>

lemma set_state_refused:
  assumes ok: "list_ok d" and refused: "\<not> fst (set_state tid s d)"
  shows "snd (set_state tid s d) = d"
proof (cases "get_item tid d")
  case None
  then show ?thesis by (simp add: set_state_missing)
next
  case (Some item)
  let ?t = "it_transaction item"
  have unk: "tr_state ?t \<noteq> PK_TRANSACTION_STATE_UNKNOWN"
    using list_ok_state [OF ok] get_item_Some [OF Some] by blast
  have "s < tr_state ?t" using refused fst_set_state [OF ok Some] by simp
  then have "snd (pk_transaction_set_state s ?t) = ?t"
    using unk by (simp add: pk_transaction_set_state.simps [of s ?t])
  moreover have "a = item" if "a \<in> set (d_items d)" "it_tid a = tid" for a
    using get_item_unique [OF ok that(1)] that(2) Some by simp
  ultimately have "map (\<lambda>i. if it_tid i = tid
        then i\<lparr>it_transaction := snd (pk_transaction_set_state s ?t)\<rparr> else i) (d_items d) = d_items d"
    by (intro map_idI) auto
  then show ?thesis by (simp add: set_state_upd [OF Some] upd_item_def)
qed

lemma forget_commit_cong:
  "it_commit_id a = it_commit_id b \<Longrightarrow> forget_commit tid a d = forget_commit tid b d"
  by (simp add: forget_commit_def)

section \<open>The contract of the operations that change a transaction's work\<close>

locale control_relation = daemon_relation +
  assumes D_keeps: "D d d' \<Longrightarrow> keeps d d'"
    and D_background: "D d (snd (pk_transaction_list_set_background tid bg d))"
    and D_forget_commit: "get_item tid d = Some item \<Longrightarrow> D d (forget_commit tid item d)"
    and D_run_ready: "get_item tid d = Some item \<Longrightarrow>
        item_state item = PK_TRANSACTION_STATE_READY \<Longrightarrow> D d (pk_transaction_list_run_item tid d)"
begin

lemma D_ok: "D d d' \<Longrightarrow> list_ok d \<Longrightarrow> list_ok d'"
  using D_keeps by (auto simp: keeps_def)

text \<open>A commit by the list makes one transaction ready, or changes nothing.\<close>

lemma D_list_commit:
  assumes ok: "list_ok d" and plug: "plugins_keep D env"
  shows "pk_transaction_list_commit env tid d = (False, d) \<or>
    fst (pk_transaction_list_commit env tid d) \<and>
    (\<exists>item. get_item tid d = Some item \<and> item_state item < PK_TRANSACTION_STATE_COMMITTED \<and>
      D (snd (set_state tid PK_TRANSACTION_STATE_COMMITTED d)) (snd (pk_transaction_list_commit env tid d)))"
proof (cases "get_item tid d")
  case None
  then show ?thesis by (simp add: pk_transaction_list_commit_def from_tid_item [OF ok])
next
  case (Some item)
  let ?r = "set_state tid PK_TRANSACTION_STATE_COMMITTED d"
  show ?thesis
  proof (cases "item_state item = PK_TRANSACTION_STATE_COMMITTED \<or> \<not> fst ?r")
    case True
    then show ?thesis
      using set_state_refused [OF ok, of tid PK_TRANSACTION_STATE_COMMITTED]
      by (auto simp: pk_transaction_list_commit_def from_tid_item [OF ok] Some split_beta)
  next
    case False
    then have early: "item_state item < PK_TRANSACTION_STATE_COMMITTED"
      using fst_set_state [OF ok Some, of PK_TRANSACTION_STATE_COMMITTED] by auto
    define c where "c = effect LIST_CHANGED (forget_commit tid item (snd ?r))"
    let ?t = "it_transaction item"
    let ?item = "item\<lparr>it_transaction := snd (pk_transaction_set_state PK_TRANSACTION_STATE_COMMITTED ?t)\<rparr>"
    have r: "get_item tid (snd ?r) = Some ?item"
      using get_item_set_state [OF Some] by simp
    have "D (snd ?r) (forget_commit tid ?item (snd ?r))" by (rule D_forget_commit [OF r])
    then have rc: "D (snd ?r) c"
      unfolding c_def using forget_commit_cong [of item ?item tid] D_trans [OF _ D_effect] by simp
    have unk: "tr_state ?t \<noteq> PK_TRANSACTION_STATE_UNKNOWN"
      using list_ok_state [OF ok] get_item_Some [OF Some] by blast
    have ready: "get_item tid c = Some (?item\<lparr>it_commit_id := 0\<rparr>)"
      "item_state (?item\<lparr>it_commit_id := 0\<rparr>) = PK_TRANSACTION_STATE_READY"
      using early set_state_result(3) [OF unk, of PK_TRANSACTION_STATE_COMMITTED]
        get_item_forget_commit [OF r, of tid] forget_commit_cong [of item ?item tid]
      by (auto simp: c_def reached_def)
    have eq: "pk_transaction_list_commit env tid d =
      (case pk_transaction_list_get_active_transaction c of
         None \<Rightarrow> (True, pk_transaction_list_run_item tid c)
       | Some item_active \<Rightarrow>
           if \<not> pk_conf_get_bool (conf env) ''TransactionCreateCommitTimeout'' then (True, c)
           else if \<not> it_background item \<and> it_background item_active
           then (True, pk_transaction_cancel_bg env (it_tid item_active) c)
           else (True, c))"
      using False
      unfolding pk_transaction_list_commit_def from_tid_item [OF ok] Some option.case c_def
        forget_commit_def Let_def split_beta
      by (simp only: de_Morgan_disj not_not simp_thms if_False if_True)
    have "fst (pk_transaction_list_commit env tid d) \<and> D c (snd (pk_transaction_list_commit env tid d))"
      unfolding eq using D_run_ready [OF ready] D_cancel_bg [OF plug] D_refl
      by (auto split: option.split)
    with rc early Some show ?thesis by (blast intro: D_trans)
  qed
qed

lemma D_commit:
  assumes ok: "list_ok d" and plug: "plugins_keep D env"
  shows "D d (snd (pk_transaction_commit env tid d)) \<or>
    (\<exists>c item. D d c \<and> list_ok c \<and> get_item tid c = Some item \<and>
      item_state item < PK_TRANSACTION_STATE_COMMITTED \<and>
      D (snd (set_state tid PK_TRANSACTION_STATE_COMMITTED c)) (snd (pk_transaction_commit env tid d)))"
proof (cases "get_tr tid d")
  case None
  then show ?thesis by (simp add: pk_transaction_commit_def D_refl)
next
  case (Some t)
  define c where "c = (if tr_background t = PK_HINT_ENUM_TRUE \<or> tr_background t = PK_HINT_ENUM_FALSE
      then snd (pk_transaction_list_set_background tid (tr_background t = PK_HINT_ENUM_TRUE) d) else d)"
  have c: "D d c" by (simp add: c_def D_background D_refl)
  then have ok_c: "list_ok c" using ok by (rule D_ok)
  have eq: "snd (pk_transaction_commit env tid d) =
      (let r = pk_transaction_list_commit env tid c
       in if \<not> fst r then snd (pk_transaction_release_tid tid (snd r)) else commit_log tid t (snd r))"
    by (simp add: pk_transaction_commit_def Some c_def Let_def split_beta)
  from D_list_commit [OF ok_c plug, of tid] show ?thesis
  proof (elim disjE conjE exE)
    assume "pk_transaction_list_commit env tid c = (False, c)"
    then have "D d (snd (pk_transaction_commit env tid d))"
      unfolding eq Let_def using D_trans [OF c D_release] by simp
    then show ?thesis ..
  next
    fix item
    assume r: "fst (pk_transaction_list_commit env tid c)"
      and item: "get_item tid c = Some item" "item_state item < PK_TRANSACTION_STATE_COMMITTED"
      and D: "D (snd (set_state tid PK_TRANSACTION_STATE_COMMITTED c))
          (snd (pk_transaction_list_commit env tid c))"
    have "D (snd (set_state tid PK_TRANSACTION_STATE_COMMITTED c)) (snd (pk_transaction_commit env tid d))"
      unfolding eq Let_def using r D_trans [OF D D_commit_log] by simp
    with c ok_c item show ?thesis by blast
  qed
qed

text \<open>A run prepares the backend, and then it ends early, or it calls the plugin once.\<close>

lemma D_run_call:
  assumes plug: "plugins_keep D env"
  shows "D d (snd (run_call env tid d)) \<or>
    (\<exists>c t b. D d c \<and> get_tr tid c = Some t \<and> run_role t (d_backend c) = Some (Some b) \<and>
      snd (run_call env tid d) = backend_do env (\<lambda>_. b) c)"
proof -
  define c where "c = backend_do env
      (\<lambda>b. snd (pk_backend_set_percentage (estimate_s env) PK_BACKEND_PERCENTAGE_INVALID b))
      (upd_tr tid (\<lambda>t. t\<lparr>tr_allow_cancel := False\<rparr>) d)"
  have c: "D d c"
    unfolding c_def by (intro D_quiet_then D_life plug no_calls.R_percentage) simp
  have "run_call env tid d = (case get_tr tid c of None \<Rightarrow> (True, c)
      | Some t \<Rightarrow> (case run_role t (d_backend c) of
           None \<Rightarrow> (False, abort c) | Some None \<Rightarrow> (False, abort c)
         | Some (Some b) \<Rightarrow> (True, backend_do env (\<lambda>_. b) c)))"
    unfolding run_call_def c_def Let_def ..
  with c D_trans [OF c D_abort] show ?thesis by (auto split: option.split)
qed

lemma D_run:
  assumes plug: "plugins_keep D env"
  shows "D d (snd (pk_transaction_run env tid d)) \<or>
    (\<exists>c t b. D d c \<and> get_tr tid c = Some t \<and> run_role t (d_backend c) = Some (Some b) \<and>
      snd (pk_transaction_run env tid d) = backend_do env (\<lambda>_. b) c)"
proof (cases "get_tr tid d")
  case None
  then show ?thesis by (simp add: pk_transaction_run_def D_refl)
next
  case (Some t)
  have p: "D d (run_prepare env tid t d)" by (rule D_run_prepare [OF plug])
  have c: "D d (run_connect env tid (run_prepare env tid t d))"
    by (rule D_trans [OF p D_run_connect [OF plug]])
  have ends: "D d (pk_transaction_finished_emit tid e n (run_prepare env tid t d))"
    "D d (pk_transaction_finished_emit tid e n (run_connect env tid (run_prepare env tid t d)))" for e n
    by (rule D_trans [OF p D_emit_finished], rule D_trans [OF c D_emit_finished])
  from D_run_call [OF plug, of "run_connect env tid (run_prepare env tid t d)" tid] c ends
  show ?thesis
    unfolding pk_transaction_run_def Some option.case Let_def by (auto intro: D_trans)
qed

end

text \<open>An authorization asks one question, or changes nothing.\<close>

definition question :: "string \<Rightarrow> string \<Rightarrow> daemon \<Rightarrow> daemon" where
  "question tid action_id d =
     (let c = upd_tr tid (\<lambda>t. t\<lparr>tr_waiting_for_auth := True\<rparr>)
                (snd (set_state tid PK_TRANSACTION_STATE_WAITING_FOR_AUTH d))
      in c\<lparr>d_auth := d_auth c @
             [\<lparr>ar_tid = tid, ar_action_id = action_id,
               ar_details = (case get_tr tid d of None \<Rightarrow> [] | Some t \<Rightarrow> polkit_details t)\<rparr>]\<rparr>)"

text \<open>The question is asked on a state that differs by a line of the log.\<close>

lemma authorization_cases:
  "(\<exists>e. pk_transaction_obtain_authorization tid only_trusted role d = (Some e, d)) \<or>
   pk_transaction_obtain_authorization tid only_trusted role d = (None, d) \<and> get_tr tid d = None \<or>
   (\<exists>a line. get_tr tid d \<noteq> None \<and> action_for only_trusted role = Some a \<and>
      pk_transaction_obtain_authorization tid only_trusted role d = (None, question tid a (effect (SYSLOG_AUTH line) d)))"
proof (cases "get_tr tid d")
  case None
  then show ?thesis by (simp add: pk_transaction_obtain_authorization_def)
next
  case (Some t)
  have e: "get_tr tid (effect x d) = Some t" for x using Some by (simp add: get_tr_def)
  show ?thesis
    by (auto simp: pk_transaction_obtain_authorization_def Some e question_def action_for_def Let_def
        split: option.split)
qed

lemma keeps_question: "keeps d (question tid a d)"
proof -
  let ?c = "snd (set_state tid PK_TRANSACTION_STATE_WAITING_FOR_AUTH d)"
  have "keeps d ?c" by (rule keeps_set_state) simp
  moreover have "keeps ?c (upd_tr tid (\<lambda>t. t\<lparr>tr_waiting_for_auth := True\<rparr>) ?c)"
    by (rule keeps.D_life) simp
  moreover have "keeps e (e\<lparr>d_auth := x\<rparr>)" for e x by (rule keeps_frame) simp_all
  ultimately show ?thesis unfolding question_def Let_def by (blast intro: keeps_trans)
qed

section \<open>The two relations\<close>

interpretation keeps_control: control_relation keeps
proof
  show "keeps d d'" if "keeps d d'" for d d' using that .
  show "keeps d (snd (pk_transaction_list_set_background tid bg d))" for d tid bg
    by (rule keeps_set_background)
  show "keeps d (forget_commit tid item d)" if "get_item tid d = Some item" for d tid item
    using that by (rule keeps_forget_commit)
  show "keeps d (pk_transaction_list_run_item tid d)"
    if "get_item tid d = Some item" "item_state item = PK_TRANSACTION_STATE_READY" for d tid item
    by (rule keeps_run_item [OF that(1)]) (simp add: that(2) state_order)
qed

lemma jobs_background: "jobs d (snd (pk_transaction_list_set_background tid bg d))"
  by (auto simp: pk_transaction_list_set_background_def jobs_refl same_job_def working_def split: option.split
      intro: jobs_upd)

interpretation quiet_control: control_relation quiet
proof
  show "keeps d d'" if "quiet d d'" for d d' using that by (simp add: quiet_def)
  show "quiet d (snd (pk_transaction_list_set_background tid bg d))" for d tid bg
    by (simp add: quiet_def keeps_set_background jobs_background)
      (simp add: pk_transaction_list_set_background_def unguarded_refl split: option.split)
  show "quiet d (forget_commit tid item d)" if "get_item tid d = Some item" for d tid item
    using that by (simp add: quiet_def keeps_forget_commit jobs_forget_commit unguarded_refl)
  show "quiet d (pk_transaction_list_run_item tid d)"
    if "get_item tid d = Some item" "item_state item = PK_TRANSACTION_STATE_READY" for d tid item
    using keeps_control.D_run_ready [OF that] jobs_run_item [OF _ that]
    by (simp add: quiet_def unguarded_refl)
qed

end
