(* ===== verification/PK_Method_Laws.thy ===== *)
theory PK_Method_Laws
  imports PK_Control_Laws
begin

text \<open>
  What every D-Bus method of a transaction keeps. The locale \<open>method_contract\<close> asks what
  happens when a method saves its arguments, commits, or asks for authorization; its lemma
  \<open>E_method\<close> follows the code of all 38 methods.
\<close>

section \<open>The contract\<close>

text \<open>A role that no client has to be authorized for.\<close>

definition free_role :: "PkRoleEnum \<Rightarrow> bool" where
  "free_role role = (role \<noteq> PK_ROLE_ENUM_UNKNOWN \<and> action_for True role = None \<and> action_for False role = None)"

text \<open>What a method may save besides its role.\<close>

definition save_ok :: "(PkTransaction \<Rightarrow> PkTransaction) \<Rightarrow> bool" where
  "save_ok save \<longleftrightarrow> (\<forall>t. tr_state (save t) = tr_state t \<and> tr_tid (save t) = tr_tid t \<and>
     tr_sender (save t) = tr_sender t)"

text \<open>
  The trust that a method asks about is the one that it saves, or its role has only one action; and no
  method asks about cancelling but \<open>Cancel\<close> itself, for a sender that does not own the transaction.
\<close>

definition same_trust :: "bool \<Rightarrow> PkRoleEnum \<Rightarrow> (PkTransaction \<Rightarrow> PkTransaction) \<Rightarrow> bool" where
  "same_trust only_trusted role save \<longleftrightarrow> role \<noteq> PK_ROLE_ENUM_CANCEL \<and>
     (\<forall>t. action_for (cached_only_trusted (save t)) role = action_for only_trusted role)"

lemma get_tr_None: "get_tr tid d = None \<Longrightarrow> upd_tr tid f d = d"
proof -
  assume "get_tr tid d = None"
  then have "it_tid a \<noteq> tid" if "a \<in> set (d_items d)" for a
    using that get_item_None [of tid d] by (auto simp: get_tr_def)
  then have "map (\<lambda>i. if it_tid i = tid then h i else i) (d_items d) = d_items d" for h
    by (intro map_idI) simp
  then show ?thesis by (simp add: upd_tr_def upd_item_def)
qed

lemma fold_emit_same_life [simp]: "same_life t (foldl (\<lambda>t x. tr_emit (s x) t) t xs)"
  by (induction xs arbitrary: t) (auto intro: same_life_trans [OF emit_same_life(1)])

locale method_contract = control_relation +
  fixes E :: "string \<Rightarrow> daemon \<Rightarrow> daemon \<Rightarrow> bool"
  assumes E_after: "D d e \<Longrightarrow> E tid e f \<Longrightarrow> E tid d f"
    and E_then: "E tid d e \<Longrightarrow> D e f \<Longrightarrow> E tid d f"
    and E_quiet: "D d e \<Longrightarrow> E tid d e"
    and E_prepare: "save_ok save \<Longrightarrow> E tid d (prepare role save tid d)"
    and E_commit: "free_role role \<Longrightarrow> save_ok save \<Longrightarrow> plugins_keep D env \<Longrightarrow>
        D (prepare role save tid d) e \<Longrightarrow> E tid d (snd (pk_transaction_commit env tid e))"
    and E_question: "action_for only_trusted role = Some a \<Longrightarrow> save_ok save \<Longrightarrow>
        same_trust only_trusted role save \<Longrightarrow>
        D (prepare role save tid d) e \<Longrightarrow> E tid d (question tid a e)"
    and E_question_late: "action_for only_trusted role = Some a \<Longrightarrow> save_ok save \<Longrightarrow>
        same_trust only_trusted role save \<Longrightarrow> D d e \<Longrightarrow>
        E tid d (prepare role save tid (question tid a e))"
begin

lemma E_implemented:
  assumes "D d e" and "\<And>f. D d f \<Longrightarrow> E tid d (go f)"
  shows "E tid d (implemented role name tid go e)"
proof -
  have f: "D d (snd (is_implemented role e))" by (rule D_trans [OF assms(1) D_is_implemented])
  then show ?thesis
    unfolding implemented_def Let_def split_beta
    using assms(2) E_quiet [OF D_trans [OF f D_refuse]] by simp
qed

lemma E_checked:
  assumes "D d e" and "E tid d (go e)"
  shows "E tid d (checked cs tid go e)"
  using assms
proof (induction cs)
  case (Cons c cs)
  then show ?case
    by (auto split: check.split intro: E_quiet D_trans D_refuse D_release D_reply)
qed simp

lemma E_commit_method_from:
  assumes "free_role role" and "save_ok save" and "plugins_keep D env"
    and "D d e" and "D (prepare role save tid e) f"
  shows "E tid d (commit_method env tid f)"
proof -
  have "E tid d (snd (pk_transaction_commit env tid f))"
    by (rule E_after [OF assms(4) E_commit [OF assms(1-3,5)]])
  then show ?thesis
    unfolding commit_method_def Let_def split_beta by (auto intro: E_then D_refuse D_reply)
qed

lemmas E_commit_method = E_commit_method_from [OF _ _ _ _ D_refl]

lemma D_authorization:
  "fst (pk_transaction_obtain_authorization tid only role d) \<noteq> None \<Longrightarrow>
   snd (pk_transaction_obtain_authorization tid only role d) = d"
  using authorization_cases [of tid only role d] by auto

lemma E_authorize:
  assumes save: "save_ok save" and trust: "same_trust only role save" and de: "D d e"
    and go: "\<And>f. D f (go f)"
  shows "E tid d (authorize_then only role tid go (prepare role save tid e))"
proof -
  let ?p = "prepare role save tid e"
  note c = authorization_cases [of tid only role ?p]
  show ?thesis
    using c
  proof (elim disjE exE conjE)
    fix x assume "pk_transaction_obtain_authorization tid only role ?p = (Some x, ?p)"
    then have "authorize_then only role tid go ?p = refuse tid x ?p"
      by (simp add: authorize_then_def)
    with E_after [OF de E_then [OF E_prepare [OF save] D_refuse]] show ?thesis by simp
  next
    assume a: "pk_transaction_obtain_authorization tid only role ?p = (None, ?p)"
    then have "authorize_then only role tid go ?p = go ?p" by (simp add: authorize_then_def)
    with E_after [OF de E_then [OF E_prepare [OF save] go]] show ?thesis by simp
  next
    fix a line assume a: "action_for only role = Some a"
      and "pk_transaction_obtain_authorization tid only role ?p =
        (None, question tid a (effect (SYSLOG_AUTH line) ?p))"
    then have "authorize_then only role tid go ?p = go (question tid a (effect (SYSLOG_AUTH line) ?p))"
      by (simp add: authorize_then_def)
    with E_after [OF de E_then [OF E_question [OF a save trust D_effect] go]] show ?thesis by simp
  qed
qed

lemma E_authorize_method:
  "save_ok save \<Longrightarrow> same_trust only role save \<Longrightarrow> D d e \<Longrightarrow>
   E tid d (authorize_method only role tid (prepare role save tid e))"
  unfolding authorize_method_def by (rule E_authorize) (auto intro: D_reply)

lemma E_authorize_late:
  assumes save: "save_ok save" and trust: "same_trust only role save" and de: "D d e"
  shows "E tid d (authorize_then only role tid (\<lambda>f. reply tid None (prepare role save tid f)) e)"
  using authorization_cases [of tid only role e]
proof (elim disjE exE conjE)
  fix x assume "pk_transaction_obtain_authorization tid only role e = (Some x, e)"
  then show ?thesis
    using E_quiet [OF D_trans [OF de D_refuse]] by (simp add: authorize_then_def)
next
  assume "pk_transaction_obtain_authorization tid only role e = (None, e)"
  then show ?thesis
    using E_after [OF de E_then [OF E_prepare [OF save] D_reply]] by (simp add: authorize_then_def)
next
  fix a line assume a: "action_for only role = Some a"
    and "pk_transaction_obtain_authorization tid only role e =
      (None, question tid a (effect (SYSLOG_AUTH line) e))"
  then show ?thesis
    using E_then [OF E_question_late [OF a save trust D_trans [OF de D_effect]] D_reply]
    by (simp add: authorize_then_def)
qed

section \<open>All methods\<close>

lemma save_ok_fields [simp]:
  "save_ok id"
  "save_ok (\<lambda>t. t\<lparr>cached_filters := f, cached_package_ids := p, cached_force := b\<rparr>)"
  "save_ok (\<lambda>t. t\<lparr>cached_package_ids := p\<rparr>)" "save_ok (\<lambda>t. t\<lparr>cached_filters := f\<rparr>)"
  "save_ok (\<lambda>t. t\<lparr>cached_package_ids := p, cached_filters := f\<rparr>)"
  "save_ok (\<lambda>t. t\<lparr>cached_filters := f, cached_values := v\<rparr>)"
  "save_ok (\<lambda>t. t\<lparr>cached_filters := f, cached_values := v, cached_provides := pr\<rparr>)"
  "save_ok (\<lambda>t. t\<lparr>cached_package_ids := p, cached_directory := dir\<rparr>)"
  "save_ok (\<lambda>t. t\<lparr>cached_full_paths := v\<rparr>)"
  "save_ok (\<lambda>t. t\<lparr>cached_package_ids := p, cached_autoremove := b\<rparr>)"
  "save_ok (\<lambda>t. t\<lparr>cached_only_trusted := b, cached_full_paths := v\<rparr>)"
  "save_ok (\<lambda>t. t\<lparr>cached_only_trusted := b, cached_package_ids := p\<rparr>)"
  "save_ok (\<lambda>t. t\<lparr>cached_only_trusted := b\<rparr>)"
  "save_ok (\<lambda>t. t\<lparr>cached_package_id := q, cached_key_id := q'\<rparr>)"
  "save_ok (\<lambda>t. t\<lparr>cached_force := b\<rparr>)"
  "save_ok (\<lambda>t. t\<lparr>cached_allow_deps := b, cached_autoremove := b', cached_package_ids := p\<rparr>)"
  "save_ok (\<lambda>t. t\<lparr>cached_repo_id := q, cached_enabled := b\<rparr>)"
  "save_ok (\<lambda>t. t\<lparr>cached_repo_id := q, cached_parameter := q', cached_value := q''\<rparr>)"
  "save_ok (\<lambda>t. t\<lparr>cached_transaction_id := q\<rparr>)"
  "save_ok (\<lambda>t. t\<lparr>cached_value := q, cached_upgrade_kind := k\<rparr>)"
  by (simp_all add: save_ok_def)

lemma E_search:
  "plugins_keep D env \<Longrightarrow> free_role role \<Longrightarrow>
   E tid d (search_method role name extra env filters values tid d)"
  unfolding search_method_def by (intro E_implemented E_checked E_commit_method) (auto simp: D_refl)

lemma E_get_updates:
  assumes plug: "plugins_keep D env"
  shows "E tid d (pk_transaction_get_updates env filters tid d)"
proof -
  have cache: "D e (snd (pk_transaction_try_emit_cache env tid e))" for e
    unfolding pk_transaction_try_emit_cache_def add_finished_idle_def Let_def
    by (auto simp: D_refl list_source_def split: option.split
        intro!: D_trans [OF _ D_source] D_life_then)
  have free: "free_role PK_ROLE_ENUM_GET_UPDATES" by (simp add: free_role_def action_for_def)
  show ?thesis
    unfolding pk_transaction_get_updates_def
  proof (intro E_implemented E_checked)
    fix f assume f: "D d f"
    let ?p = "prepare PK_ROLE_ENUM_GET_UPDATES
        (\<lambda>t. t\<lparr>cached_filters := pk_filter_bitfield_from_string (Some filters)\<rparr>) tid f"
    let ?c = "snd (pk_transaction_try_emit_cache env tid ?p)"
    have "E tid d (commit_method env tid ?c)"
      by (rule E_commit_method_from [OF free _ plug f cache]) simp
    moreover have "E tid d (reply tid None ?c)"
      by (rule E_then [OF E_after [OF f E_then [OF E_prepare cache]] D_reply]) simp
    ultimately show "E tid d (let e = ?p; (ret, e) = pk_transaction_try_emit_cache env tid e
        in if ret then reply tid None e else commit_method env tid e)"
      by (simp add: Let_def split_beta)
  qed (auto simp: D_refl)
qed

lemma E_get_old: "E tid d (pk_transaction_get_old_transactions env n tid d)"
  unfolding pk_transaction_get_old_transactions_def add_finished_idle_def Let_def
  by (rule E_then [OF E_prepare])
    (auto simp: list_source_def intro!: D_trans [OF D_trans [OF D_effect D_source] D_reply])

lemma E_accept_eula:
  assumes plug: "plugins_keep D env"
  shows "E tid d (pk_transaction_accept_eula env e tid d)"
proof -
  let ?go = "\<lambda>d. let ret = fst (pk_backend_accept_eula e (d_backend d));
              d = backend_do env (\<lambda>b. snd (pk_backend_accept_eula e b)) d
          in if \<not> ret then refuse tid (PK_TRANSACTION_ERROR_INPUT_INVALID, ''EULA failed to be added'') d
             else reply tid None (add_finished_idle tid d)"
  have go: "D f (?go f)" for f
  proof -
    have "D f (backend_do env (\<lambda>b. snd (pk_backend_accept_eula e b)) f)"
      by (rule D_backend_quiet [OF plug]) (rule no_calls.R_accept_eula)
    then show ?thesis
      unfolding Let_def add_finished_idle_def
      by (auto simp: list_source_def intro: D_trans [OF _ D_refuse]
          intro!: D_trans [OF _ D_reply] D_trans [OF _ D_source])
  qed
  let ?p = "prepare PK_ROLE_ENUM_ACCEPT_EULA id tid d"
  have a: "E tid d (authorize_then False PK_ROLE_ENUM_ACCEPT_EULA tid ?go ?p)"
    by (rule E_authorize [OF _ _ D_refl go]) (simp_all add: same_trust_def action_for_def)
  have p: "E tid d ?p" by (rule E_prepare) simp
  show ?thesis
    unfolding pk_transaction_accept_eula_def checked.simps
    using a E_then [OF p D_refuse] E_then [OF p D_release] E_then [OF p D_reply]
    by (simp split: check.split)
qed

lemma D_cancel:
  assumes plug: "plugins_keep D env" and t: "get_tr tid d = Some t" and s: "tr_sender t = Some sender"
  shows "D d (pk_transaction_cancel env sender tid d)"
proof -
  have then_reply: "D d (reply tid r e)" if "D d e" for e r by (rule D_trans [OF that D_reply])
  have "D d (cancel_queued tid (snd (is_implemented PK_ROLE_ENUM_CANCEL d)))"
    by (rule D_trans [OF D_is_implemented D_cancel_queued])
  moreover have "D d (cancel_running env x (snd (is_implemented PK_ROLE_ENUM_CANCEL d)))" for x
    by (rule D_trans [OF D_is_implemented D_cancel_running [OF plug]])
  ultimately show ?thesis
    unfolding pk_transaction_cancel_def t option.case Let_def split_beta
    by (simp add: s then_reply D_is_implemented)
qed

lemmas query_methods =
  pk_transaction_get_categories_def pk_transaction_get_depends_def pk_transaction_get_details_def
  pk_transaction_get_distro_upgrades_def pk_transaction_get_files_def pk_transaction_get_packages_def
  pk_transaction_get_repo_list_def pk_transaction_get_requires_def
  pk_transaction_get_update_detail_def pk_transaction_resolve_def pk_transaction_what_provides_def
  pk_transaction_download_packages_def pk_transaction_simulate_install_packages_def
  pk_transaction_simulate_remove_packages_def pk_transaction_simulate_update_packages_def
  pk_transaction_simulate_repair_system_def

lemmas search_methods =
  pk_transaction_search_details_def pk_transaction_search_files_def
  pk_transaction_search_groups_def pk_transaction_search_names_def

lemmas privileged_methods =
  pk_transaction_install_packages_def pk_transaction_install_signature_def
  pk_transaction_remove_packages_def pk_transaction_repo_enable_def
  pk_transaction_repo_set_data_def pk_transaction_rollback_def pk_transaction_update_packages_def
  pk_transaction_update_system_def pk_transaction_upgrade_system_def pk_transaction_repair_system_def

lemma free_roles [simp]:
  "free_role PK_ROLE_ENUM_GET_CATEGORIES" "free_role PK_ROLE_ENUM_GET_DEPENDS"
  "free_role PK_ROLE_ENUM_GET_DETAILS" "free_role PK_ROLE_ENUM_GET_DISTRO_UPGRADES"
  "free_role PK_ROLE_ENUM_GET_FILES" "free_role PK_ROLE_ENUM_GET_PACKAGES"
  "free_role PK_ROLE_ENUM_GET_REPO_LIST" "free_role PK_ROLE_ENUM_GET_REQUIRES"
  "free_role PK_ROLE_ENUM_GET_UPDATE_DETAIL" "free_role PK_ROLE_ENUM_RESOLVE"
  "free_role PK_ROLE_ENUM_WHAT_PROVIDES" "free_role PK_ROLE_ENUM_DOWNLOAD_PACKAGES"
  "free_role PK_ROLE_ENUM_SIMULATE_INSTALL_PACKAGES" "free_role PK_ROLE_ENUM_SIMULATE_INSTALL_FILES"
  "free_role PK_ROLE_ENUM_SIMULATE_REMOVE_PACKAGES" "free_role PK_ROLE_ENUM_SIMULATE_UPDATE_PACKAGES"
  "free_role PK_ROLE_ENUM_SIMULATE_REPAIR_SYSTEM" "free_role PK_ROLE_ENUM_SEARCH_DETAILS"
  "free_role PK_ROLE_ENUM_SEARCH_FILE" "free_role PK_ROLE_ENUM_SEARCH_GROUP"
  "free_role PK_ROLE_ENUM_SEARCH_NAME"
  by (simp_all add: free_role_def action_for_def)

lemma E_method:
  assumes plug: "plugins_keep D env"
    and cancel: "m = M_Cancel \<Longrightarrow> \<exists>t. get_tr tid d = Some t \<and> tr_sender t = Some sender"
  shows "E tid d (method_body env sender m tid d)"
proof (cases m)
  case (M_SetHints hints)
  then show ?thesis by (simp add: method_body_def E_quiet D_set_hints)
next
  case (M_AcceptEula e)
  then show ?thesis by (simp add: method_body_def E_accept_eula [OF plug])
next
  case M_Cancel
  with cancel obtain t where "get_tr tid d = Some t" "tr_sender t = Some sender" by blast
  then show ?thesis by (simp add: M_Cancel method_body_def E_quiet D_cancel [OF plug])
next
  case (M_GetUpdates f)
  then show ?thesis by (simp add: method_body_def E_get_updates [OF plug])
next
  case (M_GetOldTransactions n)
  then show ?thesis by (simp add: method_body_def E_get_old)
next
  case (M_InstallFiles only p)
  have "E tid d (pk_transaction_install_files env only p tid d)"
    unfolding pk_transaction_install_files_def Let_def
    by (intro E_implemented E_checked E_authorize_late)
      (auto simp: D_refl same_trust_def intro: D_trans D_plugin [OF plug])
  with M_InstallFiles show ?thesis by (simp add: method_body_def)
next
  case (M_SimulateInstallFiles p)
  have "E tid d (pk_transaction_simulate_install_files env p tid d)"
    unfolding pk_transaction_simulate_install_files_def Let_def
    by (intro E_implemented E_checked E_commit_method plug)
      (auto simp: D_refl intro: D_trans D_plugin [OF plug])
  with M_SimulateInstallFiles show ?thesis by (simp add: method_body_def)
next
  case (M_RefreshCache f)
  have "E tid d (pk_transaction_refresh_cache env f tid d)"
    unfolding pk_transaction_refresh_cache_def Let_def
    by (intro E_implemented E_authorize_method)
      (auto simp: D_refl same_trust_def action_for_def intro: D_trans D_cache)
  with M_RefreshCache show ?thesis by (simp add: method_body_def)
qed (simp add: method_body_def; unfold query_methods search_methods privileged_methods Let_def;
     intro E_search E_implemented E_checked E_commit_method E_authorize_method plug;
     simp add: D_refl same_trust_def action_for_def)+

end

end
