(* ===== verification/PK_Daemon_Steps.thy ===== *)
theory PK_Daemon_Steps
  imports PK_Method_Laws
begin

text \<open>
  The daemon as a state machine: what may happen to it is an event, \<open>daemon_step\<close> is the step
  relation with the guards that the main loop, the bus and PolicyKit give, and a history is any
  sequence of steps from the start. The invariant of the list holds in every history.
\<close>

section \<open>The main loop\<close>

definition pk_transaction_list_init :: "daemon \<Rightarrow> daemon" where
  "pk_transaction_list_init d =
     (let d = d\<lparr>d_items := [], d_unwedge2_id := 0\<rparr>;
          (i, d) = loop_add SRC_wedge_check1 d
      in d\<lparr>d_unwedge1_id := i\<rparr>)"

definition daemon_start :: "PkBackend \<Rightarrow> daemon" where
  "daemon_start b = pk_transaction_list_init
     \<lparr>d_items = [], d_backend = b, d_cache = None, d_notify_timeout = 0, d_unwedge1_id = 0,
      d_unwedge2_id = 0, d_loop = main_loop_new, d_auth = [], d_effects = [], d_gone = [],
      d_aborted = False\<rparr>"

text \<open>A callback runs; its source stays in the loop only if the callback returns \<open>TRUE\<close>.\<close>

fun daemon_callback :: "environment \<Rightarrow> daemon_source \<Rightarrow> daemon \<Rightarrow> daemon" where
  "daemon_callback env (SRC_list_run_idle tid) d = pk_transaction_list_run_idle_cb env tid d"
| "daemon_callback env (SRC_list_no_commit tid) d = pk_transaction_list_no_commit_cb tid d"
| "daemon_callback env (SRC_list_remove_item tid) d = pk_transaction_list_remove_item_cb tid d"
| "daemon_callback env (SRC_transaction_finished_idle tid) d = pk_transaction_finished_idle_cb tid d"
| "daemon_callback env SRC_notify_updates_changed d = pk_notify_finished_updates_changed_cb d"
| "daemon_callback env SRC_wedge_check1 d = pk_transaction_list_wedge_check1 d"
| "daemon_callback env SRC_wedge_check2 d = pk_transaction_list_wedge_check2 d"

definition daemon_dispatch :: "environment \<Rightarrow> nat \<Rightarrow> daemon_source \<Rightarrow> daemon \<Rightarrow> daemon" where
  "daemon_dispatch env i f d =
     (let d = daemon_callback env f d
      in if f = SRC_wedge_check1 then d else loop_remove i d)"

section \<open>Steps\<close>

datatype daemon_event =
    DE_create string "string option"
  | DE_call string transaction_method string
  | DE_timer nat daemon_source
  | DE_answer nat auth_answer
  | DE_backend backend_event
  | DE_vanished string
  | DE_cancel_background

text \<open>
  The tids come from a counter in the database and are never used twice, so no question about
  an older transaction of the same name is still open.
\<close>

definition fresh_tid :: "string \<Rightarrow> daemon \<Rightarrow> bool" where
  "fresh_tid tid d = list_all (\<lambda>r. ar_tid r \<noteq> tid) (d_auth d)"

definition answered :: "nat \<Rightarrow> daemon \<Rightarrow> daemon" where
  "answered k d = d\<lparr>d_auth := take k (d_auth d) @ drop (Suc k) (d_auth d)\<rparr>"

inductive daemon_step :: "environment \<Rightarrow> daemon \<Rightarrow> daemon_event \<Rightarrow> daemon \<Rightarrow> bool" for env where
  create: "fresh_tid tid d \<Longrightarrow>
    daemon_step env d (DE_create tid sender) (snd (pk_transaction_list_create env tid sender d))"
| call: "daemon_step env d (DE_call sender m tid) (pk_transaction_method_call env sender m tid d)"
| timer: "pending (d_loop d) i f \<Longrightarrow>
    daemon_step env d (DE_timer i f) (daemon_dispatch env i f d)"
| answer: "k < length (d_auth d) \<Longrightarrow>
    daemon_step env d (DE_answer k a)
      (pk_transaction_action_obtain_authorization_finished_cb env a (ar_tid (d_auth d ! k)) (answered k d))"
| backend: "daemon_step env d (DE_backend e) (backend_do env (backend_step e) d)"
| vanished: "daemon_step env d (DE_vanished tid) (upd_tr tid pk_transaction_vanished_cb d)"
| cancel_background:
    "daemon_step env d DE_cancel_background (pk_transaction_list_cancel_background env d)"

inductive_cases daemon_step_createE: "daemon_step env d (DE_create tid sender) d'"
inductive_cases daemon_step_callE: "daemon_step env d (DE_call sender m tid) d'"
inductive_cases daemon_step_timerE: "daemon_step env d (DE_timer i f) d'"
inductive_cases daemon_step_answerE: "daemon_step env d (DE_answer k a) d'"
inductive_simps daemon_step_backend: "daemon_step env d (DE_backend e) d'"

text \<open>
  A history; \<open>ok\<close> restricts the events that may happen, and the list collects what was granted:
  the tid and the action of every question that PolicyKit answered with yes, as long as the tid
  is in use.
\<close>

type_synonym grants = "(string \<times> string) list"

fun granted :: "daemon \<Rightarrow> daemon_event \<Rightarrow> grants \<Rightarrow> grants" where
  "granted d (DE_create tid sender) g =
     (if get_item tid d = None then filter (\<lambda>(t, a). t \<noteq> tid) g else g)"
| "granted d (DE_answer k AUTH_AUTHORIZED) g =
     (ar_tid (d_auth d ! k), ar_action_id (d_auth d ! k)) # g"
| "granted d e g = g"

inductive daemon_history ::
  "environment \<Rightarrow> (daemon \<Rightarrow> daemon_event \<Rightarrow> bool) \<Rightarrow> PkBackend \<Rightarrow> daemon \<Rightarrow> grants \<Rightarrow> bool"
  for env ok b where
  start: "daemon_history env ok b (daemon_start b) []"
| step: "daemon_history env ok b d g \<Longrightarrow> ok d e \<Longrightarrow> daemon_step env d e d' \<Longrightarrow>
    daemon_history env ok b d' (granted d e g)"

section \<open>Runs of a transaction\<close>

text \<open>
  The call of the plugin that a transaction stands for: the specification of the big
  \<open>switch\<close> over the roles in \<open>pk_transaction_run\<close>.
\<close>

definition call_of :: "PkTransaction \<Rightarrow> backend_call option" where
  "call_of t =
     (case tr_role t of
        PK_ROLE_ENUM_GET_DEPENDS \<Rightarrow>
          Some (VF_get_depends (cached_filters t) (cached_package_ids t) (cached_force t))
      | PK_ROLE_ENUM_GET_UPDATE_DETAIL \<Rightarrow> Some (VF_get_update_detail (cached_package_ids t))
      | PK_ROLE_ENUM_RESOLVE \<Rightarrow> Some (VF_resolve (cached_filters t) (cached_package_ids t))
      | PK_ROLE_ENUM_ROLLBACK \<Rightarrow> Some (VF_rollback (cached_transaction_id t))
      | PK_ROLE_ENUM_DOWNLOAD_PACKAGES \<Rightarrow>
          Some (VF_download_packages (cached_package_ids t) (cached_directory t))
      | PK_ROLE_ENUM_GET_DETAILS \<Rightarrow> Some (VF_get_details (cached_package_ids t))
      | PK_ROLE_ENUM_GET_DISTRO_UPGRADES \<Rightarrow> Some VF_get_distro_upgrades
      | PK_ROLE_ENUM_GET_FILES \<Rightarrow> Some (VF_get_files (cached_package_ids t))
      | PK_ROLE_ENUM_GET_REQUIRES \<Rightarrow>
          Some (VF_get_requires (cached_filters t) (cached_package_ids t) (cached_force t))
      | PK_ROLE_ENUM_WHAT_PROVIDES \<Rightarrow>
          Some (VF_what_provides (cached_filters t) (cached_provides t) (cached_values t))
      | PK_ROLE_ENUM_GET_UPDATES \<Rightarrow> Some (VF_get_updates (cached_filters t))
      | PK_ROLE_ENUM_GET_PACKAGES \<Rightarrow> Some (VF_get_packages (cached_filters t))
      | PK_ROLE_ENUM_SEARCH_DETAILS \<Rightarrow> Some (VF_search_details (cached_filters t) (cached_values t))
      | PK_ROLE_ENUM_SEARCH_FILE \<Rightarrow> Some (VF_search_files (cached_filters t) (cached_values t))
      | PK_ROLE_ENUM_SEARCH_GROUP \<Rightarrow> Some (VF_search_groups (cached_filters t) (cached_values t))
      | PK_ROLE_ENUM_SEARCH_NAME \<Rightarrow> Some (VF_search_names (cached_filters t) (cached_values t))
      | PK_ROLE_ENUM_INSTALL_PACKAGES \<Rightarrow>
          Some (VF_install_packages (cached_only_trusted t) (cached_package_ids t))
      | PK_ROLE_ENUM_INSTALL_FILES \<Rightarrow>
          Some (VF_install_files (cached_only_trusted t) (cached_full_paths t))
      | PK_ROLE_ENUM_INSTALL_SIGNATURE \<Rightarrow>
          Some (VF_install_signature PK_SIGTYPE_ENUM_GPG (cached_key_id t) (cached_package_id t))
      | PK_ROLE_ENUM_REFRESH_CACHE \<Rightarrow> Some (VF_refresh_cache (cached_force t))
      | PK_ROLE_ENUM_REMOVE_PACKAGES \<Rightarrow>
          Some (VF_remove_packages (cached_package_ids t) (cached_allow_deps t) (cached_autoremove t))
      | PK_ROLE_ENUM_UPDATE_PACKAGES \<Rightarrow>
          Some (VF_update_packages (cached_only_trusted t) (cached_package_ids t))
      | PK_ROLE_ENUM_UPDATE_SYSTEM \<Rightarrow> Some (VF_update_system (cached_only_trusted t))
      | PK_ROLE_ENUM_GET_CATEGORIES \<Rightarrow> Some VF_get_categories
      | PK_ROLE_ENUM_GET_REPO_LIST \<Rightarrow> Some (VF_get_repo_list (cached_filters t))
      | PK_ROLE_ENUM_REPO_ENABLE \<Rightarrow> Some (VF_repo_enable (cached_repo_id t) (cached_enabled t))
      | PK_ROLE_ENUM_REPO_SET_DATA \<Rightarrow>
          Some (VF_repo_set_data (cached_repo_id t) (cached_parameter t) (cached_value t))
      | PK_ROLE_ENUM_SIMULATE_INSTALL_FILES \<Rightarrow> Some (VF_simulate_install_files (cached_full_paths t))
      | PK_ROLE_ENUM_SIMULATE_INSTALL_PACKAGES \<Rightarrow>
          Some (VF_simulate_install_packages (cached_package_ids t))
      | PK_ROLE_ENUM_SIMULATE_REMOVE_PACKAGES \<Rightarrow>
          Some (VF_simulate_remove_packages (cached_package_ids t) (cached_autoremove t))
      | PK_ROLE_ENUM_SIMULATE_UPDATE_PACKAGES \<Rightarrow>
          Some (VF_simulate_update_packages (cached_package_ids t))
      | PK_ROLE_ENUM_UPGRADE_SYSTEM \<Rightarrow> Some (VF_upgrade_system (cached_value t) (cached_upgrade_kind t))
      | PK_ROLE_ENUM_REPAIR_SYSTEM \<Rightarrow> Some (VF_repair_system (cached_only_trusted t))
      | PK_ROLE_ENUM_SIMULATE_REPAIR_SYSTEM \<Rightarrow> Some VF_simulate_repair_system
      | _ \<Rightarrow> None)"

definition method_calls :: "PkBackend \<Rightarrow> PkBackend \<Rightarrow> backend_signal list" where
  "method_calls b b' = filter is_method_call (new_signals b b')"

lemma unguarded_method_calls:
  "unguarded b b' \<Longrightarrow> VFUNC v \<in> set (method_calls b b') \<Longrightarrow> \<not> guarded_call v"
  by (auto simp: unguarded_def method_calls_def new_signals_append)

lemma no_calls_method_calls: "no_calls b b' \<Longrightarrow> method_calls b b' = []"
  by (auto simp: no_calls_def method_calls_def new_signals_append list_ex_iff filter_empty_conv)

lemma backend_begin_calls:
  "\<exists>ss. emitted (backend_begin req role puts call b) = emitted b @ ss \<and> set (filter is_method_call ss) \<subseteq> {VFUNC call}"
  by (auto simp: backend_begin_def Let_def pk_backend_set_role_internal_def
      pk_backend_transaction_reset_def emit_def)


lemmas role_calls =
  pk_backend_get_depends_def pk_backend_get_update_detail_def pk_backend_resolve_def
  pk_backend_rollback_def pk_backend_download_packages_def pk_backend_get_details_def
  pk_backend_get_distro_upgrades_def pk_backend_get_files_def pk_backend_get_requires_def
  pk_backend_what_provides_def pk_backend_get_updates_def pk_backend_get_packages_def
  pk_backend_search_details_def pk_backend_search_files_def pk_backend_search_groups_def
  pk_backend_search_names_def pk_backend_install_packages_def pk_backend_install_files_def
  pk_backend_install_signature_def pk_backend_refresh_cache_def pk_backend_remove_packages_def
  pk_backend_update_packages_def pk_backend_update_system_def pk_backend_get_categories_def
  pk_backend_get_repo_list_def pk_backend_repo_enable_def pk_backend_repo_set_data_def
  pk_backend_simulate_install_files_def pk_backend_simulate_install_packages_def
  pk_backend_simulate_remove_packages_def pk_backend_simulate_update_packages_def
  pk_backend_upgrade_system_def pk_backend_repair_system_def

lemma simulate_repair_calls:
  "pk_backend_simulate_repair_system b = Some b' \<Longrightarrow>
   \<exists>ss. emitted b' = emitted b @ ss \<and> set (filter is_method_call ss) \<subseteq> {VFUNC VF_simulate_repair_system}"
  using backend_begin_calls
  by (auto simp: pk_backend_simulate_repair_system_def split: if_splits)

lemma run_role_calls:
  assumes "run_role t b = Some (Some b')"
  shows "\<exists>ss. emitted b' = emitted b @ ss \<and> (\<forall>s \<in> set ss. is_method_call s \<longrightarrow> (\<exists>v. s = VFUNC v \<and> call_of t = Some v))"
proof -
  have "(\<exists>req role puts call. b' = backend_begin req role puts call b \<and> call_of t = Some call) \<or>
      pk_backend_simulate_repair_system b = Some b' \<and> call_of t = Some VF_simulate_repair_system"
    using assms
    by (cases "tr_role t") (simp_all add: run_role_def call_of_def role_calls; blast)+
  then show ?thesis
    using backend_begin_calls simulate_repair_calls by (elim disjE exE conjE) fastforce+
qed


section \<open>Every step keeps the invariant of the list\<close>

lemma keeps_backend: "plugins_keep keeps env \<Longrightarrow> keeps d (backend_do env f d)"
  by (rule keeps.D_backend) (simp_all add: keeps_frame)

lemma keeps_commit:
  assumes "plugins_keep keeps env"
  shows "keeps d (snd (pk_transaction_commit env tid d))"
proof (cases "list_ok d")
  case True
  have "keeps c (snd (set_state tid PK_TRANSACTION_STATE_COMMITTED c))" for c
    by (rule keeps_set_state) simp
  with keeps_control.D_commit [OF True assms, of tid] show ?thesis by (blast intro: keeps_trans)
qed (simp add: keeps_def)

lemma keeps_prepare: "save_ok save \<Longrightarrow> keeps d (prepare role save tid d)"
  unfolding prepare_def by (rule keeps_upd_tr) (simp add: save_ok_def pk_transaction_set_role_def)

interpretation keeps_methods: method_contract keeps "\<lambda>tid. keeps"
proof
  show "keeps d f" if "keeps d e" "keeps e f" for d e f using that by (rule keeps_trans)
  show "keeps d f" if "keeps d e" "keeps e f" for d e f using that by (rule keeps_trans)
  show "keeps d e" if "keeps d e" for d e using that .
  show "keeps d (prepare role save tid d)" if "save_ok save" for save role tid d
    using that by (rule keeps_prepare)
  show "keeps d (snd (pk_transaction_commit env tid e))"
    if "save_ok save" "plugins_keep keeps env" "keeps (prepare role save tid d) e" for save role tid d e env
    using keeps_trans [OF keeps_prepare [OF that(1)] keeps_trans [OF that(3) keeps_commit [OF that(2)]]] .
  show "keeps d (question tid a e)"
    if "save_ok save" "keeps (prepare role save tid d) e" for a save role tid d e
    using keeps_trans [OF keeps_prepare [OF that(1)] keeps_trans [OF that(2) keeps_question]] .
  show "keeps d (prepare role save tid (question tid a e))"
    if "save_ok save" "keeps d e" for a save role tid d e
    using keeps_trans [OF that(2) keeps_trans [OF keeps_question keeps_prepare [OF that(1)]]] .
qed

lemma keeps_method_call:
  assumes "plugins_keep keeps env"
  shows "keeps d (pk_transaction_method_call env sender m tid d)"
  unfolding pk_transaction_method_call_def
  using keeps_methods.E_method [OF assms, of m tid d sender]
  by (auto simp: keeps_refl keeps.D_reply split: option.split)

lemma keeps_run:
  assumes "plugins_keep keeps env"
  shows "keeps d (snd (pk_transaction_run env tid d))"
  using keeps_control.D_run [OF assms, of d tid] keeps_backend [OF assms] keeps_trans by metis

lemma idle_item:
  assumes ok: "list_ok d" and i: "pending (d_loop d) i (SRC_list_run_idle tid)"
  obtains item where "get_item tid d = Some item" "it_idle_id item = i" "i \<noteq> 0"
proof -
  have "source_ok (d_items d) (i, SRC_list_run_idle tid)" "i \<noteq> 0"
    using i ok by (auto simp: list_ok_def list_all_iff pending_def loop_ok_def)
  then obtain item where "item \<in> set (d_items d)" "it_tid item = tid" "it_idle_id item = i"
    by (auto simp: list_ex_iff)
  with get_item_unique [OF ok] \<open>i \<noteq> 0\<close> show ?thesis by (metis that)
qed

text \<open>The idle source of a transaction and its id go away together when it has been run.\<close>

lemma keeps_run_idle:
  assumes plug: "plugins_keep keeps env" and i: "pending (d_loop d) i (SRC_list_run_idle tid)"
  shows "keeps d (daemon_dispatch env i (SRC_list_run_idle tid) d)"
proof (cases "list_ok d")
  case ok: True
  define c where "c = (let r = pk_transaction_run env tid d in if \<not> fst r then abort (snd r) else snd r)"
  have c: "keeps d c"
    unfolding c_def Let_def
    using keeps_run [OF plug] keeps_trans [OF keeps_run [OF plug] keeps.D_abort] by simp
  have e: "daemon_dispatch env i (SRC_list_run_idle tid) d =
      upd_item tid (\<lambda>item. item\<lparr>it_idle_id := 0\<rparr>) (loop_remove i c)"
    by (simp add: daemon_dispatch_def pk_transaction_list_run_idle_cb_def c_def Let_def split_beta
        upd_item_def loop_remove_def)
  have "it_idle_id b = i \<or> it_idle_id b = 0" if b: "b \<in> set (d_items c)" "it_tid b = tid" for b
  proof -
    obtain a where a: "a \<in> set (d_items d)" "later a b"
      using c ok b(1) by (auto simp: keeps_def)
    then have "it_tid a = tid" using b(2) by (simp add: later_def)
    moreover obtain item where "get_item tid d = Some item" "it_idle_id item = i" "i \<noteq> 0"
      by (rule idle_item [OF ok i])
    ultimately have "it_idle_id a = i \<and> i \<noteq> 0" using get_item_unique [OF ok a(1)] by simp
    moreover have "item_ok a" using ok a(1) by (simp add: list_ok_def list_all_iff)
    ultimately show ?thesis using a(2) by (auto simp: item_ok_def later_def)
  qed
  then have "keeps c (daemon_dispatch env i (SRC_list_run_idle tid) d)"
    unfolding e by (intro keeps_forget) auto
  with c show ?thesis by (rule keeps_trans)
qed (simp add: keeps_def)

lemma keeps_wedge: "keeps d (pk_transaction_list_wedge_check1 d)"
proof -
  have "keeps (snd (loop_add SRC_wedge_check2 d)) (snd (loop_add SRC_wedge_check2 d)\<lparr>d_unwedge2_id := j\<rparr>)" for j
    by (rule keeps_frame) simp_all
  with keeps_add_source [of SRC_wedge_check2 d] have "keeps d (snd (loop_add SRC_wedge_check2 d)\<lparr>d_unwedge2_id := j\<rparr>)" for j
    by (auto simp: list_source_def intro: keeps_trans)
  then show ?thesis
    by (simp add: pk_transaction_list_wedge_check1_def Let_def split_beta keeps_refl)
qed

lemma keeps_dispatch:
  assumes plug: "plugins_keep keeps env" and i: "pending (d_loop d) i f"
  shows "keeps d (daemon_dispatch env i f d)"
proof -
  have drop: "keeps d (loop_remove i c)" if "keeps d c" for c
    using that keeps_remove_source by (rule keeps_trans)
  show ?thesis
  proof (cases f)
    case (SRC_list_run_idle tid)
    then show ?thesis using keeps_run_idle [OF plug] i by simp
  next
    case SRC_notify_updates_changed
    have "keeps d (pk_notify_finished_updates_changed_cb d)"
      by (rule keeps_frame) (simp_all add: pk_notify_finished_updates_changed_cb_def)
    then show ?thesis by (simp add: SRC_notify_updates_changed daemon_dispatch_def drop)
  next
    case SRC_wedge_check1
    then show ?thesis by (simp add: daemon_dispatch_def keeps_wedge)
  qed (simp_all add: daemon_dispatch_def drop keeps_remove_internal pk_transaction_list_no_commit_cb_def
      pk_transaction_list_remove_item_cb_def keeps.D_finished_idle keeps_refl
      pk_transaction_list_wedge_check2_def)
qed

lemma keeps_answer:
  assumes plug: "plugins_keep keeps env"
  shows "keeps d (pk_transaction_action_obtain_authorization_finished_cb env a tid d)"
proof (cases "get_tr tid d")
  case None
  then show ?thesis
    by (simp add: pk_transaction_action_obtain_authorization_finished_cb_def keeps_refl)
next
  case (Some t)
  let ?c = "upd_tr tid (\<lambda>t. t\<lparr>tr_waiting_for_auth := False\<rparr>) d"
  have c: "keeps d ?c" by (rule keeps.D_life) simp
  note rules = keeps_trans [OF c keeps.D_auth_refused] keeps_trans [OF c keeps_commit [OF plug]]
  show ?thesis
    unfolding pk_transaction_action_obtain_authorization_finished_cb_def Some option.case Let_def split_beta
    by (auto split: auth_answer.split intro: rules keeps_trans [OF rules(1) keeps.D_effect]
        keeps_trans [OF rules(2) keeps.D_release] keeps_trans [OF rules(2) keeps.D_effect])
qed


section \<open>Creating a transaction\<close>

definition created_item :: "environment \<Rightarrow> string \<Rightarrow> string \<Rightarrow> nat \<Rightarrow> daemon \<Rightarrow> PkTransactionItem" where
  "created_item env tid s i d =
     \<lparr>it_transaction = (pk_transaction_new (pk_backend_get_mime_types (d_backend d)))
        \<lparr>tr_state := PK_TRANSACTION_STATE_NEW, tr_tid := Some tid, tr_sender := Some s,
         tr_subject := True, tr_cmdline := cmdline_of_sender env s, tr_uid := uid_of_sender env s\<rparr>,
      it_tid = tid, it_remove_id = 0, it_idle_id = 0, it_commit_id = i,
      it_uid = uid_of_sender env s, it_background = False\<rparr>"

lemma transaction_new_fields [simp]:
  "tr_state (pk_transaction_new m) = PK_TRANSACTION_STATE_UNKNOWN" "tr_tid (pk_transaction_new m) = None"
  "tr_sender (pk_transaction_new m) = None" "tr_role (pk_transaction_new m) = PK_ROLE_ENUM_UNKNOWN"
  by (simp_all add: pk_transaction_new_def pk_transaction_setup_mime_types_def)

lemma created_item_fields [simp]:
  "it_tid (created_item env tid s i d) = tid" "it_idle_id (created_item env tid s i d) = 0"
  "it_commit_id (created_item env tid s i d) = i" "it_remove_id (created_item env tid s i d) = 0"
  "item_state (created_item env tid s i d) = PK_TRANSACTION_STATE_NEW"
  "tr_role (it_transaction (created_item env tid s i d)) = PK_ROLE_ENUM_UNKNOWN"
  "tr_tid (it_transaction (created_item env tid s i d)) = Some tid"
  "tr_sender (it_transaction (created_item env tid s i d)) = Some s"
  "it_uid (created_item env tid s i d) = uid_of_sender env s"
  by (simp_all add: created_item_def)

lemma list_create_eq:
  assumes "list_ok d"
  shows "pk_transaction_list_create env tid sender d =
    (case sender of
       None \<Rightarrow> (False, d)
     | Some s \<Rightarrow>
         if get_item tid d \<noteq> None then (False, d)
         else if conf_guint (conf env) ''SimultaneousTransactionsForUid''
                   < pk_transaction_list_get_number_transactions_for_uid (uid_of_sender env s) d
         then (False, pk_transaction_list_item_free (created_item env tid s 0 d) d)
         else (True, (snd (loop_add (SRC_list_no_commit tid) d))
           \<lparr>d_items := d_items d @ [created_item env tid s (fst (loop_add (SRC_list_no_commit tid) d)) d]\<rparr>))"
proof -
  have n: "pk_transaction_set_state PK_TRANSACTION_STATE_NEW t = (True, t\<lparr>tr_state := PK_TRANSACTION_STATE_NEW\<rparr>)"
    if "tr_state t = PK_TRANSACTION_STATE_UNKNOWN" for t
    using that by (simp add: pk_transaction_set_state.simps [of PK_TRANSACTION_STATE_NEW t])
  show ?thesis
    by (simp add: pk_transaction_list_create_def from_tid_item [OF assms] n pk_transaction_set_tid_def
        pk_transaction_set_sender_def created_item_def or_empty_def Let_def split_beta
        split: option.split del: loop_add_fields(6))
qed

lemma list_ok_create:
  assumes ok: "list_ok d"
  shows "list_ok (snd (pk_transaction_list_create env tid sender d))"
proof -
  have free: "list_ok (pk_transaction_list_item_free (created_item env tid s 0 d) d)" for s
  proof -
    have loop: "loop_ok (d_loop d)" using ok by (simp add: list_ok_def)
    note free = item_free_loop [OF loop, of "created_item env tid s 0 d"]
    with ok show ?thesis by (auto simp: list_ok_def list_all_iff)
  qed
  have add: "list_ok ((snd (loop_add (SRC_list_no_commit tid) d))
      \<lparr>d_items := d_items d @ [created_item env tid s (fst (loop_add (SRC_list_no_commit tid) d)) d]\<rparr>)"
    (is "list_ok ?e") if "get_item tid d = None" for s
  proof -
    let ?item = "created_item env tid s (fst (loop_add (SRC_list_no_commit tid) d)) d"
    have old: "source_ok (d_items d @ [?item]) x" if "x \<in> set (sources (d_loop d))" for x
      using ok that by (auto simp: list_ok_def list_all_iff intro: source_ok_mono)
    have "list_all (source_ok (d_items d @ [?item]))
        (sources (snd (g_source_add (SRC_list_no_commit tid) (d_loop d))))"
      using old by (auto simp: list_all_iff g_source_add_def)
    moreover have "item_ok ?item" by (simp add: item_ok_def)
    ultimately show ?thesis
      using ok that by (auto simp: list_ok_def loop_ok_add get_item_None)
  qed
  show ?thesis
    using ok free add by (simp add: list_create_eq [OF ok] split: option.split)
qed

section \<open>Histories\<close>

lemma list_ok_start: "list_ok (daemon_start b)"
  by (simp add: daemon_start_def pk_transaction_list_init_def list_ok_def split_beta loop_ok_add
      loop_ok_new) (simp add: g_source_add_def main_loop_new_def)

lemma list_ok_answered: "list_ok (answered k d) = list_ok d"
  by (simp add: list_ok_def answered_def)

lemma daemon_step_keeps:
  assumes plug: "plugins_keep keeps env" and st: "daemon_step env d e d'"
    and "\<And>tid sender. e \<noteq> DE_create tid sender"
  shows "keeps d d'"
  using st
proof cases
  case (answer k a)
  have "keeps d (answered k d)" by (rule keeps_frame) (simp_all add: answered_def)
  then show ?thesis unfolding answer by (rule keeps_trans) (rule keeps_answer [OF plug])
qed (use assms keeps_method_call keeps_dispatch keeps_backend keeps.D_cancel_background keeps.D_life
     vanished_same_life in auto)

lemma daemon_step_ok:
  assumes plug: "plugins_keep keeps env" and ok: "list_ok d" and st: "daemon_step env d e d'"
  shows "list_ok d'"
proof (cases "\<exists>tid sender. e = DE_create tid sender")
  case True
  with st show ?thesis by (auto elim!: daemon_step_createE intro: list_ok_create [OF ok])
next
  case False
  with daemon_step_keeps [OF plug st] ok show ?thesis by (auto simp: keeps_def)
qed

lemma daemon_history_ok:
  "daemon_history env P b d g \<Longrightarrow> plugins_keep keeps env \<Longrightarrow> list_ok d"
  by (induction rule: daemon_history.induct) (auto intro: list_ok_start daemon_step_ok)

end
