(* ===== verification/PK_Security.thy ===== *)
theory PK_Security
  imports PK_Daemon_Steps
begin

text \<open>
  Who may make the plugin do what. If every transaction is used for one method only, no call
  of the plugin happens without the authorization that the policy asks for; this is the
  invariant \<open>secure\<close>. The daemon does not enforce the assumption: the theory
  \<open>PK_Daemon_Clients\<close> shows a client that uses a transaction twice.
\<close>

section \<open>The policy\<close>

definition required_action :: "PkTransaction \<Rightarrow> string option" where
  "required_action t = action_for (cached_only_trusted t) (tr_role t)"

definition allowed :: "grants \<Rightarrow> string \<Rightarrow> PkTransaction \<Rightarrow> bool" where
  "allowed g tid t = (case required_action t of None \<Rightarrow> True | Some a \<Rightarrow> (tid, a) \<in> set g)"

definition item_secure :: "grants \<Rightarrow> PkTransactionItem \<Rightarrow> bool" where
  "item_secure g item =
     (working item \<longrightarrow> allowed g (it_tid item) (it_transaction item) \<and>
        tr_role (it_transaction item) \<noteq> PK_ROLE_ENUM_UNKNOWN)"

definition secure :: "grants \<Rightarrow> daemon \<Rightarrow> bool" where
  "secure g d \<longleftrightarrow> list_ok d \<and> (\<forall>item \<in> set (d_items d). item_secure g item) \<and>
     (\<forall>r \<in> set (d_auth d). \<forall>item \<in> set (d_items d). it_tid item = ar_tid r \<longrightarrow>
        required_action (it_transaction item) = Some (ar_action_id r))"

lemma unknown_role_free [simp]: "action_for b PK_ROLE_ENUM_UNKNOWN = None"
  by (simp add: action_for_def)

lemma allowed_mono: "set g \<subseteq> set g' \<Longrightarrow> allowed g tid t \<Longrightarrow> allowed g' tid t"
  by (auto simp: allowed_def split: option.splits)

lemma secure_mono: "set g \<subseteq> set g' \<Longrightarrow> secure g d \<Longrightarrow> secure g' d"
  unfolding secure_def item_secure_def using allowed_mono by blast

section \<open>Steps that give nobody new work\<close>

definition calm :: "daemon \<Rightarrow> daemon \<Rightarrow> bool" where
  "calm d d' \<longleftrightarrow> keeps d d' \<and> (list_ok d \<longrightarrow> d_auth d' = d_auth d \<and> jobs d d')"

lemma quiet_calm: "quiet d d' \<Longrightarrow> calm d d'"
  by (auto simp: quiet_def calm_def)

lemma calm_trans:
  assumes "calm a b" and "calm b c"
  shows "calm a c"
  unfolding calm_def
proof (intro conjI impI)
  show "keeps a c" using assms keeps_trans unfolding calm_def by blast
  assume a: "list_ok a"
  then have b: "list_ok b" using assms(1) by (simp add: calm_def keeps_def)
  show "d_auth c = d_auth a" using assms a b by (simp add: calm_def)
  show "jobs a c" using assms a b jobs_trans [of a b c] by (simp add: calm_def)
qed

lemma secure_calm:
  assumes calm: "calm d d'" and sec: "secure g d"
  shows "secure g d'"
proof -
  have ok: "list_ok d" using sec by (simp add: secure_def)
  have ok': "list_ok d'" and auth: "d_auth d' = d_auth d" and jobs: "jobs d d'"
    using calm ok by (auto simp: calm_def keeps_def)
  have item: "item_secure g b \<and> (\<forall>r \<in> set (d_auth d). it_tid b = ar_tid r \<longrightarrow>
      required_action (it_transaction b) = Some (ar_action_id r))" if "b \<in> set (d_items d')" for b
  proof -
    obtain a where a: "a \<in> set (d_items d)" and same: "same_job a b"
      using jobs \<open>b \<in> set (d_items d')\<close> by (auto simp: jobs_def)
    have "item_secure g a \<and> (\<forall>r \<in> set (d_auth d). it_tid a = ar_tid r \<longrightarrow>
        required_action (it_transaction a) = Some (ar_action_id r))"
      using sec a by (simp add: secure_def)
    then show ?thesis
      using same by (auto simp: item_secure_def same_job_def allowed_def required_action_def)
  qed
  then show ?thesis using ok' auth by (auto simp: secure_def)
qed

lemmas secure_quiet = secure_calm [OF quiet_calm]

section \<open>Committing and asking\<close>

lemma same_job_tr:
  assumes "quiet d c" and "list_ok d" and "get_item tid c = Some b"
  obtains a where "get_item tid d = Some a" "same_job a b"
proof -
  have "b \<in> set (d_items c)" "it_tid b = tid" using get_item_Some [OF assms(3)] by auto
  then obtain a where a: "a \<in> set (d_items d)" "same_job a b"
    using assms(1,2) by (auto simp: quiet_def jobs_def)
  moreover from a(2) \<open>it_tid b = tid\<close> have "it_tid a = tid" by (simp add: same_job_def)
  ultimately show ?thesis using get_item_unique [OF assms(2)] that by blast
qed

text \<open>A change of every item.\<close>

lemma secure_map:
  assumes "list_ok d'" and "d_items d' = map f (d_items d)" and "d_auth d' = d_auth d"
    and "\<And>a. a \<in> set (d_items d) \<Longrightarrow> item_secure g (f a)"
    and "\<And>a r. a \<in> set (d_items d) \<Longrightarrow> r \<in> set (d_auth d) \<Longrightarrow> it_tid (f a) = ar_tid r \<Longrightarrow>
      required_action (it_transaction (f a)) = Some (ar_action_id r)"
  shows "secure g d'"
  unfolding secure_def assms(2,3) set_map using assms(1,4,5) by blast

lemma secureD:
  "secure g d \<Longrightarrow> a \<in> set (d_items d) \<Longrightarrow> item_secure g a"
  "secure g d \<Longrightarrow> a \<in> set (d_items d) \<Longrightarrow> r \<in> set (d_auth d) \<Longrightarrow> it_tid a = ar_tid r \<Longrightarrow>
     required_action (it_transaction a) = Some (ar_action_id r)"
  by (auto simp: secure_def)

lemma secure_set_committed:
  assumes sec: "secure g d" and item: "get_item tid d = Some item"
    and al: "allowed g tid (it_transaction item)"
    and role: "tr_role (it_transaction item) \<noteq> PK_ROLE_ENUM_UNKNOWN"
  shows "secure g (snd (set_state tid PK_TRANSACTION_STATE_COMMITTED d))"
proof -
  let ?t = "it_transaction item"
  let ?u = "snd (pk_transaction_set_state PK_TRANSACTION_STATE_COMMITTED ?t)"
  let ?f = "\<lambda>a. if it_tid a = tid then a\<lparr>it_transaction := ?u\<rparr> else a"
  have ok: "list_ok d" using sec by (simp add: secure_def)
  have unk: "tr_state ?t \<noteq> PK_TRANSACTION_STATE_UNKNOWN"
    using list_ok_state [OF ok] get_item_Some [OF item] by blast
  have same: "tr_role ?u = tr_role ?t" "cached_only_trusted ?u = cached_only_trusted ?t"
    using set_state_result(2) [OF unk, of PK_TRANSACTION_STATE_COMMITTED] by (simp_all add: same_life_def)
  have the_item: "a = item" if "a \<in> set (d_items d)" "it_tid a = tid" for a
    using get_item_unique [OF ok that(1)] that(2) item by simp
  have new: "item_secure g (?f a) \<and> it_tid (?f a) = it_tid a \<and>
      required_action (it_transaction (?f a)) = required_action (it_transaction a)"
    if "a \<in> set (d_items d)" for a
  proof (cases "it_tid a = tid")
    case True
    then show ?thesis
      using the_item [OF that True] same al role
      by (simp add: item_secure_def allowed_def required_action_def)
  next
    case False
    then show ?thesis using secureD(1) [OF sec that] by simp
  qed
  show ?thesis
  proof (rule secure_map)
    show "list_ok (snd (set_state tid PK_TRANSACTION_STATE_COMMITTED d))"
      using keeps_set_state [of PK_TRANSACTION_STATE_COMMITTED d tid] ok by (simp add: keeps_def)
    show "d_items (snd (set_state tid PK_TRANSACTION_STATE_COMMITTED d)) = map ?f (d_items d)"
      by (simp add: set_state_upd [OF item])
    show "required_action (it_transaction (?f a)) = Some (ar_action_id r)"
      if a: "a \<in> set (d_items d)" and r: "r \<in> set (d_auth d)" "it_tid (?f a) = ar_tid r" for a r
      using new [OF a] secureD(2) [OF sec a r(1)] r(2) by metis
  qed (use new in simp_all)
qed

lemma secure_commit:
  assumes sec: "secure g d" and plug: "plugins_keep quiet env"
    and al: "\<And>t. get_tr tid d = Some t \<Longrightarrow> allowed g tid t \<and> tr_role t \<noteq> PK_ROLE_ENUM_UNKNOWN"
  shows "secure g (snd (pk_transaction_commit env tid d)) \<and>
    unguarded (d_backend d) (d_backend (snd (pk_transaction_commit env tid d)))"
proof -
  have ok: "list_ok d" using sec by (simp add: secure_def)
  from quiet_control.D_commit [OF ok plug, of tid] show ?thesis
  proof (elim disjE exE conjE)
    assume "quiet d (snd (pk_transaction_commit env tid d))"
    then show ?thesis using secure_quiet [OF _ sec] ok by (simp add: quiet_def)
  next
    fix c item
    let ?s = "snd (set_state tid PK_TRANSACTION_STATE_COMMITTED c)"
    assume dc: "quiet d c" and okc: "list_ok c" and item: "get_item tid c = Some item"
      and rest: "quiet ?s (snd (pk_transaction_commit env tid d))"
    obtain a where a: "get_item tid d = Some a" "same_job a item"
      using same_job_tr [OF dc ok item] .
    then have "allowed g tid (it_transaction item)" "tr_role (it_transaction item) \<noteq> PK_ROLE_ENUM_UNKNOWN"
      using al [of "it_transaction a"]
      by (auto simp: get_tr_def same_job_def allowed_def required_action_def)
    then have sec_s: "secure g ?s"
      by (rule secure_set_committed [OF secure_quiet [OF dc sec] item])
    have "unguarded (d_backend d) (d_backend ?s)" using dc ok by (simp add: quiet_def)
    moreover have "unguarded (d_backend ?s) (d_backend (snd (pk_transaction_commit env tid d)))"
      using rest sec_s by (simp add: quiet_def secure_def)
    ultimately show ?thesis using secure_quiet [OF rest sec_s] unguarded_trans by blast
  qed
qed

definition unused :: "string \<Rightarrow> daemon \<Rightarrow> bool" where
  "unused tid d = (case get_tr tid d of None \<Rightarrow> True | Some t \<Rightarrow> tr_role t = PK_ROLE_ENUM_UNKNOWN)"

lemma unused_quiet:
  assumes "quiet d e" and "list_ok d" and "unused tid d"
  shows "unused tid e"
proof (cases "get_item tid e")
  case None
  then show ?thesis by (simp add: unused_def get_tr_def)
next
  case (Some b)
  obtain a where "get_item tid d = Some a" "same_job a b" using same_job_tr [OF assms(1,2) Some] .
  with assms(3) Some show ?thesis by (simp add: unused_def get_tr_def same_job_def)
qed

lemma prepare_items:
  assumes ok: "list_ok d" and save: "save_ok save"
  shows "list_ok (prepare role save tid d)"
    and "d_items (prepare role save tid d) =
      map (\<lambda>a. if it_tid a = tid
        then a\<lparr>it_transaction := pk_transaction_set_role role (save (it_transaction a))\<rparr> else a) (d_items d)"
    and "d_auth (prepare role save tid d) = d_auth d"
    and "d_backend (prepare role save tid d) = d_backend d"
  using keeps_prepare [OF save, of d role tid] ok
  by (simp_all add: keeps_def) (simp_all add: prepare_def upd_tr_def)

lemma secure_prepare:
  assumes sec: "secure g d" and new: "unused tid d" and save: "save_ok save"
  shows "secure g (prepare role save tid d)"
proof -
  have ok: "list_ok d" using sec by (simp add: secure_def)
  note items = prepare_items [OF ok save, of role tid]
  let ?f = "\<lambda>a. if it_tid a = tid
      then a\<lparr>it_transaction := pk_transaction_set_role role (save (it_transaction a))\<rparr> else a"
  have role: "tr_role (it_transaction a) = PK_ROLE_ENUM_UNKNOWN"
    if "a \<in> set (d_items d)" "it_tid a = tid" for a
    using new get_item_unique [OF ok that(1)] that(2) by (simp add: unused_def get_tr_def)
  show ?thesis
  proof (rule secure_map [OF items(1) items(2) items(3)])
    fix a assume a: "a \<in> set (d_items d)"
    show "item_secure g (?f a)"
      using secureD(1) [OF sec a] role [OF a] save
      by (auto simp: item_secure_def working_def active_def save_ok_def pk_transaction_set_role_def)
    fix r assume r: "r \<in> set (d_auth d)" "it_tid (?f a) = ar_tid r"
    then have tid: "it_tid a = ar_tid r" by (simp split: if_splits)
    from secureD(2) [OF sec a r(1) tid] role [OF a] have "it_tid a \<noteq> tid"
      by (auto simp: required_action_def)
    with secureD(2) [OF sec a r(1) tid] show "required_action (it_transaction (?f a)) = Some (ar_action_id r)"
      by simp
  qed
qed

lemma prepared_tr:
  assumes "list_ok d" and "save_ok save" and "quiet (prepare role save tid d) e" and "get_tr tid e = Some u"
  shows "tr_role u = role \<and> (\<exists>t. cached_only_trusted u = cached_only_trusted (save t))"
proof -
  obtain b where b: "get_item tid e = Some b" "it_transaction b = u"
    using assms(4) by (auto simp: get_tr_Some)
  note ok = prepare_items(1) [OF assms(1,2)]
  obtain a where a: "get_item tid (prepare role save tid d) = Some a" "same_job a b"
    using same_job_tr [OF assms(3) ok b(1)] .
  have "a \<in> set (d_items (prepare role save tid d)) \<and> it_tid a = tid" using get_item_Some [OF a(1)] .
  with a(2) b(2) show ?thesis
    unfolding prepare_items(2) [OF assms(1,2)]
    by (auto simp: same_job_def pk_transaction_set_role_def split: if_splits)
qed

lemma prepared_action:
  assumes "list_ok d" and "save_ok save" and "quiet (prepare role save tid d) e" and "get_tr tid e = Some u"
    and req: "\<And>t. action_for (cached_only_trusted (save t)) role = Some a"
  shows "required_action u = Some a"
proof -
  obtain t where "tr_role u = role" "cached_only_trusted u = cached_only_trusted (save t)"
    using prepared_tr [OF assms(1-4)] by blast
  with req [of t] show ?thesis by (simp add: required_action_def)
qed

text \<open>Asking is a calm change, and one more question.\<close>

lemma calm_ask:
  "calm d (upd_tr tid (\<lambda>t. t\<lparr>tr_waiting_for_auth := True\<rparr>)
      (snd (set_state tid PK_TRANSACTION_STATE_WAITING_FOR_AUTH d)))"
proof -
  let ?c = "snd (set_state tid PK_TRANSACTION_STATE_WAITING_FOR_AUTH d)"
  have "jobs d ?c" if "list_ok d"
    using jobs_set_state [OF that, of tid _ PK_TRANSACTION_STATE_WAITING_FOR_AUTH]
    by (cases "get_item tid d") (simp_all add: set_state_missing jobs_refl state_order)
  then have "calm d ?c" using keeps_set_state [of PK_TRANSACTION_STATE_WAITING_FOR_AUTH d tid]
    by (simp add: calm_def)
  moreover have "calm ?c (upd_tr tid (\<lambda>t. t\<lparr>tr_waiting_for_auth := True\<rparr>) ?c)"
    by (rule quiet_calm [OF quiet.D_life]) simp
  ultimately show ?thesis by (rule calm_trans)
qed

lemma secure_append:
  assumes "secure g d" and "\<And>t. get_tr tid d = Some t \<Longrightarrow> required_action t = Some a"
  shows "secure g (d\<lparr>d_auth := d_auth d @ [\<lparr>ar_tid = tid, ar_action_id = a, ar_details = x\<rparr>]\<rparr>)"
proof -
  have ok: "list_ok d" using assms(1) by (simp add: secure_def)
  have "required_action (it_transaction item) = Some a" if "item \<in> set (d_items d)" "it_tid item = tid" for item
    using assms(2) get_item_unique [OF ok that(1)] that(2) by (simp add: get_tr_def)
  with assms(1) show ?thesis by (auto simp: secure_def list_ok_def)
qed


section \<open>The methods\<close>

definition method_secure :: "string \<Rightarrow> daemon \<Rightarrow> daemon \<Rightarrow> bool" where
  "method_secure tid d d' \<longleftrightarrow>
     (\<forall>g. secure g d \<and> unused tid d \<longrightarrow> secure g d' \<and> unguarded (d_backend d) (d_backend d'))"

lemma quiet_secure: "quiet d e \<Longrightarrow> secure g d \<Longrightarrow> secure g e \<and> unguarded (d_backend d) (d_backend e)"
  using secure_quiet [of d e g] by (simp add: quiet_def secure_def)

lemma question_parts:
  "question tid a e =
     (let c = upd_tr tid (\<lambda>t. t\<lparr>tr_waiting_for_auth := True\<rparr>)
                (snd (set_state tid PK_TRANSACTION_STATE_WAITING_FOR_AUTH e))
      in c\<lparr>d_auth := d_auth c @ [\<lparr>ar_tid = tid, ar_action_id = a, ar_details =
             (case get_tr tid e of None \<Rightarrow> [] | Some t \<Rightarrow> polkit_details t)\<rparr>]\<rparr>)"
  by (simp add: question_def)

lemma calm_tr:
  assumes "calm d e" and "list_ok d" and "get_tr tid e = Some u"
  shows "\<exists>t. get_tr tid d = Some t \<and> tr_role u = tr_role t \<and> cached_only_trusted u = cached_only_trusted t"
proof -
  obtain b where b: "get_item tid e = Some b" "it_transaction b = u"
    using assms(3) by (auto simp: get_tr_Some)
  have "b \<in> set (d_items e)" "it_tid b = tid" using get_item_Some [OF b(1)] by auto
  then obtain a where a: "a \<in> set (d_items d)" "same_job a b"
    using assms(1,2) by (auto simp: calm_def jobs_def)
  with \<open>it_tid b = tid\<close> get_item_unique [OF assms(2) a(1)] b(2) show ?thesis
    by (auto simp: same_job_def get_tr_def)
qed

lemma secure_question:
  assumes sec: "secure g e" and req: "\<And>t. get_tr tid e = Some t \<Longrightarrow> required_action t = Some a"
  shows "secure g (question tid a e) \<and> d_backend (question tid a e) = d_backend e"
proof -
  let ?c = "upd_tr tid (\<lambda>t. t\<lparr>tr_waiting_for_auth := True\<rparr>)
      (snd (set_state tid PK_TRANSACTION_STATE_WAITING_FOR_AUTH e))"
  have ok: "list_ok e" using sec by (simp add: secure_def)
  have "required_action u = Some a" if "get_tr tid ?c = Some u" for u
    using calm_tr [OF calm_ask ok that] req by (auto simp: required_action_def)
  then have "secure g (question tid a e)"
    unfolding question_parts Let_def by (rule secure_append [OF secure_calm [OF calm_ask sec]])
  moreover have "d_backend ?c = d_backend e" by (simp add: upd_tr_def)
  ultimately show ?thesis by (simp add: question_parts Let_def)
qed

lemma secure_question_late:
  assumes sec: "secure g e" and new: "unused tid e" and save: "save_ok save"
    and req: "\<And>t. action_for (cached_only_trusted (save t)) role = Some a"
  shows "secure g (prepare role save tid (question tid a e)) \<and>
    d_backend (prepare role save tid (question tid a e)) = d_backend e"
proof -
  let ?c = "upd_tr tid (\<lambda>t. t\<lparr>tr_waiting_for_auth := True\<rparr>)
      (snd (set_state tid PK_TRANSACTION_STATE_WAITING_FOR_AUTH e))"
  let ?p = "prepare role save tid ?c"
  have ok: "list_ok e" using sec by (simp add: secure_def)
  have sec_c: "secure g ?c" by (rule secure_calm [OF calm_ask sec])
  have "unused tid ?c"
    using calm_tr [OF calm_ask ok, of tid tid] new by (auto simp: unused_def split: option.splits)
  then have sec_p: "secure g ?p" by (rule secure_prepare [OF sec_c _ save])
  have ok_c: "list_ok ?c" using sec_c by (simp add: secure_def)
  have "required_action u = Some a" if "get_tr tid ?p = Some u" for u
    using prepared_action [OF ok_c save quiet.D_refl that req] .
  then have "secure g (?p\<lparr>d_auth := d_auth ?p @ [\<lparr>ar_tid = tid, ar_action_id = a, ar_details = x\<rparr>]\<rparr>)" for x
    by (rule secure_append [OF sec_p])
  moreover have "prepare role save tid (c\<lparr>d_auth := y\<rparr>) = (prepare role save tid c)\<lparr>d_auth := y\<rparr>" for c y
    by (simp add: prepare_def upd_tr_def upd_item_def)
  moreover have "d_auth ?p = d_auth ?c" by (rule prepare_items(3) [OF ok_c save])
  ultimately have "secure g (prepare role save tid (question tid a e))"
    by (simp add: question_parts Let_def)
  then show ?thesis by (simp add: prepare_def upd_tr_def question_def Let_def)
qed

interpretation secure_methods: method_contract quiet method_secure
proof
  show "method_secure tid d f" if "quiet d e" "method_secure tid e f" for tid d e f
    unfolding method_secure_def
  proof (intro allI impI)
    fix g assume g: "secure g d \<and> unused tid d"
    then have "list_ok d" by (simp add: secure_def)
    with g that unused_quiet [OF that(1)] quiet_secure [OF that(1)] unguarded_trans
    show "secure g f \<and> unguarded (d_backend d) (d_backend f)"
      unfolding method_secure_def by blast
  qed
  show "method_secure tid d f" if "method_secure tid d e" "quiet e f" for tid d e f
    using that(1) quiet_secure [OF that(2)] unguarded_trans unfolding method_secure_def by blast
  show "method_secure tid d e" if "quiet d e" for tid d e
    using quiet_secure [OF that] unfolding method_secure_def by blast
  show "method_secure tid d (prepare role save tid d)" if "save_ok save" for save role tid d
    using secure_prepare [OF _ _ that]
    by (auto simp: method_secure_def prepare_def upd_tr_def unguarded_refl)
  show "method_secure tid d (snd (pk_transaction_commit env tid e))"
    if free: "free_role role" and save: "save_ok save" and plug: "plugins_keep quiet env"
      and e: "quiet (prepare role save tid d) e" for role save tid d e env
    unfolding method_secure_def
  proof (intro allI impI)
    fix g assume g: "secure g d \<and> unused tid d"
    let ?p = "prepare role save tid d"
    have ok: "list_ok d" using g by (simp add: secure_def)
    have p: "secure g ?p" using secure_prepare [OF _ _ save] g by blast
    have "allowed g tid t \<and> tr_role t \<noteq> PK_ROLE_ENUM_UNKNOWN" if "get_tr tid e = Some t" for t
    proof -
      have "tr_role t = role" using prepared_tr [OF ok save e that] by simp
      moreover have "action_for b role = None" for b using free by (cases b) (auto simp: free_role_def)
      ultimately show ?thesis using free by (simp add: allowed_def required_action_def free_role_def)
    qed
    with quiet_secure [OF e p] secure_commit [OF _ plug, of g e tid] prepare_items(4) [OF ok save, of role tid]
    show "secure g (snd (pk_transaction_commit env tid e)) \<and>
        unguarded (d_backend d) (d_backend (snd (pk_transaction_commit env tid e)))"
      using unguarded_trans by metis
  qed
  show "method_secure tid d (question tid a e)"
    if act: "action_for only role = Some a" and save: "save_ok save" and trust: "same_trust only role save"
      and e: "quiet (prepare role save tid d) e" for only role a save tid d e
    unfolding method_secure_def
  proof (intro allI impI)
    fix g assume g: "secure g d \<and> unused tid d"
    let ?p = "prepare role save tid d"
    have ok: "list_ok d" using g by (simp add: secure_def)
    have p: "secure g ?p" using secure_prepare [OF _ _ save] g by blast
    have "required_action t = Some a" if "get_tr tid e = Some t" for t
      using prepared_action [OF ok save e that] act trust by (simp add: same_trust_def)
    with quiet_secure [OF e p] secure_question [of g e tid a] prepare_items(4) [OF ok save, of role tid]
    show "secure g (question tid a e) \<and> unguarded (d_backend d) (d_backend (question tid a e))"
      by simp
  qed
  show "method_secure tid d (prepare role save tid (question tid a e))"
    if act: "action_for only role = Some a" and save: "save_ok save" and trust: "same_trust only role save"
      and e: "quiet d e" for only role a save tid d e
    unfolding method_secure_def
  proof (intro allI impI)
    fix g assume g: "secure g d \<and> unused tid d"
    then have "list_ok d" by (simp add: secure_def)
    then have "unused tid e" using unused_quiet [OF e] g by simp
    with quiet_secure [OF e conjunct1 [OF g]] secure_question_late [of g e tid save role a] save act trust
    show "secure g (prepare role save tid (question tid a e)) \<and>
        unguarded (d_backend d) (d_backend (prepare role save tid (question tid a e)))"
      by (simp add: same_trust_def)
  qed
qed


section \<open>Every step\<close>

text \<open>Each transaction is used for one method, apart from hints and cancelling.\<close>

definition single_use :: "daemon \<Rightarrow> daemon_event \<Rightarrow> bool" where
  "single_use d e =
     (case e of
        DE_call sender m tid \<Rightarrow>
          (case m of M_Cancel \<Rightarrow> True | M_SetHints hints \<Rightarrow> True | _ \<Rightarrow> unused tid d)
      | _ \<Rightarrow> True)"

lemma quiet_method_call:
  assumes plug: "plugins_keep quiet env" and m: "m = M_Cancel \<or> m = M_SetHints hints"
  shows "quiet d (pk_transaction_method_call env sender m tid d)"
  using m
  by (auto simp: pk_transaction_method_call_def method_body_def quiet.D_refl quiet.D_reply
      quiet.D_set_hints secure_methods.D_cancel [OF plug] split: option.split)

lemma secure_method_call:
  assumes plug: "plugins_keep quiet env" and sec: "secure g d"
    and single: "single_use d (DE_call sender m tid)"
  shows "secure g (pk_transaction_method_call env sender m tid d) \<and>
    unguarded (d_backend d) (d_backend (pk_transaction_method_call env sender m tid d))"
proof (cases "m = M_Cancel \<or> (\<exists>hints. m = M_SetHints hints)")
  case True
  then show ?thesis using quiet_secure [OF quiet_method_call [OF plug] sec] by blast
next
  case False
  then have new: "unused tid d" using single by (auto simp: single_use_def split: transaction_method.splits)
  have "method_secure tid d (method_body env sender m tid d)"
    by (rule secure_methods.E_method [OF plug]) (use False in simp)
  with sec new have "secure g (method_body env sender m tid d) \<and>
      unguarded (d_backend d) (d_backend (method_body env sender m tid d))"
    by (simp add: method_secure_def)
  then show ?thesis
    using quiet_secure [OF quiet.D_reply sec] sec
    by (auto simp: pk_transaction_method_call_def unguarded_refl split: option.split)
qed

lemma secure_create:
  assumes sec: "secure g d" and fresh: "fresh_tid tid d"
  shows "secure (granted d (DE_create tid sender) g) (snd (pk_transaction_list_create env tid sender d)) \<and>
    d_backend (snd (pk_transaction_list_create env tid sender d)) = d_backend d"
proof -
  have ok: "list_ok d" using sec by (simp add: secure_def)
  let ?g = "granted d (DE_create tid sender) g"
  let ?d = "snd (pk_transaction_list_create env tid sender d)"
  have ok': "list_ok ?d" by (rule list_ok_create [OF ok])
  have parts: "d_auth ?d = d_auth d \<and> d_backend ?d = d_backend d \<and>
      (d_items ?d = d_items d \<or> get_item tid d = None \<and>
        (\<exists>s i. d_items ?d = d_items d @ [created_item env tid s i d]))"
    unfolding list_create_eq [OF ok] by (cases sender) auto
  have old: "item_secure ?g a" if a: "a \<in> set (d_items d)" for a
  proof (cases "get_item tid d = None")
    case True
    then have "it_tid a \<noteq> tid" using a by (auto simp: get_item_None)
    with secureD(1) [OF sec a] True show ?thesis
      by (auto simp: item_secure_def allowed_def split: option.splits)
  next
    case False
    then show ?thesis using secureD(1) [OF sec a] by auto
  qed
  have new: "item_secure ?g (created_item env tid s i d)" for s i
    by (simp add: item_secure_def working_def active_def state_order)
  have "secure ?g ?d"
    unfolding secure_def
    using ok' parts old new secureD(2) [OF sec] fresh
    by (fastforce simp: fresh_tid_def list_all_iff)
  with parts show ?thesis by blast
qed

lemma secure_answer:
  assumes plug: "plugins_keep quiet env" and sec: "secure g d" and k: "k < length (d_auth d)"
    and d': "d' = pk_transaction_action_obtain_authorization_finished_cb env a (ar_tid (d_auth d ! k)) (answered k d)"
  shows "secure (granted d (DE_answer k a) g) d' \<and> unguarded (d_backend d) (d_backend d')"
proof -
  let ?r = "d_auth d ! k"
  let ?tid = "ar_tid ?r"
  let ?g = "granted d (DE_answer k a) g"
  have r: "?r \<in> set (d_auth d)" using k by simp
  have fields: "d_items (answered k d) = d_items d" "d_backend (answered k d) = d_backend d"
    "set (d_auth (answered k d)) \<subseteq> set (d_auth d)"
    by (auto simp: answered_def dest: in_set_takeD in_set_dropD)
  have "secure g (answered k d)"
    using sec fields list_ok_answered [of k d] unfolding secure_def by (metis subsetD)
  moreover have "set g \<subseteq> set ?g" by (cases a) auto
  ultimately have sec1: "secure ?g (answered k d)" using secure_mono by blast
  show ?thesis
  proof (cases "get_tr ?tid (answered k d)")
    case None
    then show ?thesis
      using sec1 fields(2)
      by (simp add: d' pk_transaction_action_obtain_authorization_finished_cb_def unguarded_refl)
  next
    case (Some t)
    let ?c = "upd_tr ?tid (\<lambda>t. t\<lparr>tr_waiting_for_auth := False\<rparr>) (answered k d)"
    have c: "quiet (answered k d) ?c" by (rule quiet.D_life) simp
    have sec2: "secure ?g ?c" "unguarded (d_backend d) (d_backend ?c)"
      using quiet_secure [OF c sec1] fields(2) by simp_all
    note refuse = quiet_secure [OF quiet.D_auth_refused sec2(1)]
    show ?thesis
    proof (cases "a = AUTH_AUTHORIZED")
      case False
      have "quiet ?c d'"
        unfolding d' pk_transaction_action_obtain_authorization_finished_cb_def Some option.case Let_def
        using False
        by (auto simp: quiet.D_auth_refused split: auth_answer.split
            intro: quiet.D_trans [OF quiet.D_auth_refused quiet.D_effect])
      from quiet_secure [OF this sec2(1)] sec2(2) show ?thesis using unguarded_trans by blast
    next
      case True
      have "allowed ?g ?tid u \<and> tr_role u \<noteq> PK_ROLE_ENUM_UNKNOWN" if u: "get_tr ?tid ?c = Some u" for u
      proof -
        obtain b where b: "get_item ?tid ?c = Some b" "it_transaction b = u"
          using u by (auto simp: get_tr_Some)
        have ok: "list_ok (answered k d)" using sec1 by (simp add: secure_def)
        obtain z where z: "get_item ?tid (answered k d) = Some z" "same_job z b"
          using same_job_tr [OF c ok b(1)] .
        from get_item_Some [OF z(1)] fields(1) have "z \<in> set (d_items d)" "it_tid z = ?tid" by simp_all
        from secureD(2) [OF sec this(1) r this(2)] z(2) b(2)
        have "required_action u = Some (ar_action_id ?r)"
          by (simp add: required_action_def same_job_def)
        then show ?thesis using True by (auto simp: allowed_def required_action_def)
      qed
      note commit = secure_commit [OF sec2(1) plug this]
      let ?e = "snd (pk_transaction_commit env ?tid ?c)"
      have "quiet ?e d'"
        unfolding d' pk_transaction_action_obtain_authorization_finished_cb_def Some option.case
          Let_def split_beta
        using True by (simp add: quiet.D_release quiet.D_effect)
      from quiet_secure [OF this] commit sec2(2) show ?thesis using unguarded_trans by blast
    qed
  qed
qed


text \<open>A timer: only the one that runs a transaction calls the plugin.\<close>

lemma quiet_forget_source: "quiet d (loop_remove i d)"
  by (simp add: quiet_def keeps_remove_source jobs_refl unguarded_refl)

lemma quiet_dispatch:
  assumes "pending (d_loop d) i f" and "\<And>tid. f \<noteq> SRC_list_run_idle tid"
  shows "quiet d (daemon_dispatch env i f d)"
proof -
  have drop: "quiet d (loop_remove i c)" if "quiet d c" for c
    using that quiet_forget_source by (rule quiet.D_trans)
  have wedge: "quiet d (pk_transaction_list_wedge_check1 d)"
    using keeps_wedge [of d]
    by (simp add: quiet_def pk_transaction_list_wedge_check1_def Let_def split_beta jobs_refl unguarded_refl)
  have notify: "quiet d (pk_notify_finished_updates_changed_cb d)"
    by (rule quiet.D_same) (simp_all add: pk_notify_finished_updates_changed_cb_def)
  show ?thesis
    using assms(2) drop wedge notify
    by (cases f) (auto simp: daemon_dispatch_def quiet_remove_internal quiet.D_finished_idle
        quiet.D_refl pk_transaction_list_no_commit_cb_def pk_transaction_list_remove_item_cb_def
        pk_transaction_list_wedge_check2_def)
qed

lemma calm_backend:
  assumes plug: "plugins_keep quiet env"
  shows "calm d (backend_do env f d)"
proof -
  let ?c = "d\<lparr>d_backend := f (d_backend d)\<rparr>"
  have "calm d ?c" by (simp add: calm_def keeps_frame jobs_refl)
  moreover have "quiet ?c (backend_do env f d)"
    unfolding backend_do_def Let_def by (rule quiet.D_fold) (rule quiet.D_deliver [OF plug])
  ultimately show ?thesis using quiet_calm calm_trans by blast
qed

text \<open>Giving up the idle id of a transaction that has been run.\<close>

lemma calm_idle_done:
  assumes "keeps d (daemon_dispatch env i (SRC_list_run_idle tid) d)"
    and "calm d (snd (pk_transaction_run env tid d))"
  shows "calm d (daemon_dispatch env i (SRC_list_run_idle tid) d)"
proof -
  let ?c = "let r = pk_transaction_run env tid d in if \<not> fst r then abort (snd r) else snd r"
  have "calm (snd (pk_transaction_run env tid d)) ?c"
    by (simp add: Let_def quiet_calm quiet.D_refl quiet.D_abort)
  with assms(2) have c: "calm d ?c" by (rule calm_trans)
  have e: "daemon_dispatch env i (SRC_list_run_idle tid) d =
      upd_item tid (\<lambda>item. item\<lparr>it_idle_id := 0\<rparr>) (loop_remove i ?c)"
    by (simp add: daemon_dispatch_def pk_transaction_list_run_idle_cb_def Let_def split_beta
        upd_item_def loop_remove_def)
  have "d_auth (daemon_dispatch env i (SRC_list_run_idle tid) d) = d_auth ?c" unfolding e by simp
  moreover have "jobs ?c (daemon_dispatch env i (SRC_list_run_idle tid) d)"
    unfolding e by (rule jobs_upd_from [OF jobs_refl]) (simp_all add: same_job_def working_def)
  ultimately show ?thesis
    using assms(1) c jobs_trans [of d ?c] by (simp add: calm_def)
qed

lemma plugins_quiet_keeps: "plugins_keep quiet env \<Longrightarrow> plugins_keep keeps env"
  by (auto simp: plugins_keep_def quiet_def split: option.splits)

lemma calm_run_idle:
  assumes plug: "plugins_keep quiet env" and i: "pending (d_loop d) i (SRC_list_run_idle tid)"
  shows "calm d (daemon_dispatch env i (SRC_list_run_idle tid) d)"
proof -
  have "calm d (snd (pk_transaction_run env tid d))"
    using quiet_control.D_run [OF plug, of d tid] quiet_calm calm_trans calm_backend [OF plug] by metis
  with keeps_run_idle [OF plugins_quiet_keeps [OF plug] i]
  show ?thesis by (rule calm_idle_done)
qed

lemmas secure_run_idle = secure_calm [OF calm_run_idle]

lemma secure_step:
  assumes plug: "plugins_keep quiet env" and sec: "secure g d" and single: "single_use d e"
    and st: "daemon_step env d e d'"
  shows "secure (granted d e g) d'"
  using st
proof cases
  case (create tid sender)
  then show ?thesis using secure_create [OF sec] by blast
next
  case (call sender m tid)
  then show ?thesis using secure_method_call [OF plug sec] single by simp
next
  case (timer i f)
  show ?thesis
  proof (cases "\<exists>tid. f = SRC_list_run_idle tid")
    case True
    then show ?thesis using secure_run_idle [OF plug _ sec] timer by auto
  next
    case False
    then show ?thesis using secure_quiet [OF quiet_dispatch sec] timer by auto
  qed
next
  case (answer k a)
  then show ?thesis using secure_answer [OF plug sec answer(3)] by blast
next
  case (backend ev)
  have "quiet d d'"
    unfolding backend(2) by (rule quiet.D_backend_quiet [OF plug]) (rule no_calls_step)
  then show ?thesis using secure_quiet [OF _ sec] backend(1) by simp
next
  case (vanished tid)
  have "quiet d d'" unfolding vanished(2) by (rule quiet.D_life) simp
  then show ?thesis using secure_quiet [OF _ sec] vanished(1) by simp
next
  case cancel_background
  then show ?thesis using secure_quiet [OF quiet.D_cancel_background [OF plug] sec] by simp
qed

lemma secure_start: "secure [] (daemon_start b)"
  using list_ok_start [of b]
  by (simp add: secure_def daemon_start_def pk_transaction_list_init_def split_beta)

lemma secure_history:
  assumes "daemon_history env single_use b d g" and plug: "plugins_keep quiet env"
  shows "secure g d"
  using assms(1) by induction (auto intro: secure_start secure_step [OF plug])

section \<open>Calls of the plugin\<close>

lemma call_of_role: "call_of t = Some v \<Longrightarrow> role_of_call v = tr_role t"
  by (cases "tr_role t") (auto simp: call_of_def)

lemma new_signals_trans:
  "emitted c = emitted b @ ss \<Longrightarrow> emitted e = emitted c @ tt \<Longrightarrow> new_signals b e = ss @ tt"
  by (rule new_signals_append) simp

lemma run_calls:
  assumes plug: "plugins_keep quiet env" and ok: "list_ok d" and v: "guarded_call v"
    and call: "VFUNC v \<in> set (method_calls (d_backend d) (d_backend (snd (pk_transaction_run env tid d))))"
  shows "\<exists>t. get_tr tid d = Some t \<and> tr_role t = role_of_call v"
  using quiet_control.D_run [OF plug, of d tid]
proof (elim disjE exE conjE)
  assume "quiet d (snd (pk_transaction_run env tid d))"
  with call ok v unguarded_method_calls show ?thesis by (auto simp: quiet_def)
next
  fix c t b
  assume dc: "quiet d c" and t: "get_tr tid c = Some t"
    and role: "run_role t (d_backend c) = Some (Some b)"
    and run: "snd (pk_transaction_run env tid d) = backend_do env (\<lambda>_. b) c"
  let ?e = "backend_do env (\<lambda>_. b) c"
  have ok_c: "list_ok (c\<lparr>d_backend := b\<rparr>)"
    using dc ok by (auto simp: quiet_def keeps_def list_ok_def)
  have "quiet (c\<lparr>d_backend := b\<rparr>) ?e"
    unfolding backend_do_def Let_def by (rule quiet.D_fold) (rule quiet.D_deliver [OF plug])
  with ok_c have "unguarded b (d_backend ?e)" by (simp add: quiet_def)
  then obtain ss3 where 3: "emitted (d_backend ?e) = emitted b @ ss3" "VFUNC v \<notin> set ss3"
    using v unfolding unguarded_def by blast
  obtain ss1 where 1: "emitted (d_backend c) = emitted (d_backend d) @ ss1" "VFUNC v \<notin> set ss1"
    using dc ok v unfolding quiet_def unguarded_def by blast
  obtain ss2 where 2: "emitted b = emitted (d_backend c) @ ss2"
    "\<forall>s \<in> set ss2. is_method_call s \<longrightarrow> (\<exists>v. s = VFUNC v \<and> call_of t = Some v)"
    using run_role_calls [OF role] by blast
  have "new_signals (d_backend d) (d_backend ?e) = ss1 @ ss2 @ ss3"
    by (rule new_signals_append) (simp add: 1 2 3)
  with call 1(2) 2(2) 3(2) have "call_of t = Some v"
    unfolding run by (auto simp: method_calls_def)
  then have "tr_role t = role_of_call v" by (simp add: call_of_role)
  moreover obtain u where "get_tr tid d = Some u" "tr_role t = tr_role u"
    using calm_tr [OF quiet_calm [OF dc] ok t] by blast
  ultimately show ?thesis by auto
qed

lemma dispatch_calls:
  assumes plug: "plugins_keep quiet env" and ok: "list_ok d" and i: "pending (d_loop d) i f"
    and v: "guarded_call v" and call: "VFUNC v \<in> set (method_calls (d_backend d) (d_backend (daemon_dispatch env i f d)))"
  shows "\<exists>tid t. f = SRC_list_run_idle tid \<and> get_tr tid d = Some t \<and> tr_role t = role_of_call v"
proof (cases "\<exists>tid. f = SRC_list_run_idle tid")
  case True
  then obtain tid where f: "f = SRC_list_run_idle tid" by blast
  have "d_backend (daemon_dispatch env i f d) = d_backend (snd (pk_transaction_run env tid d))"
    by (simp add: f daemon_dispatch_def pk_transaction_list_run_idle_cb_def Let_def split_beta abort_def)
  with call run_calls [OF plug ok v, of tid] f show ?thesis by auto
next
  case False
  then have "quiet d (daemon_dispatch env i f d)" by (intro quiet_dispatch [OF i]) blast
  with ok v call unguarded_method_calls show ?thesis by (auto simp: quiet_def)
qed

end
