(* ===== verification/PK_Scheduler.thy ===== *)
theory PK_Scheduler
  imports PK_Control_Laws
begin

text \<open>
  What the list of transactions is for: an abstract scheduler, a queue of jobs that are new,
  ready, running or finished, with one rule for who is next. The list implements it: committing,
  finishing and creating commute with the abstraction \<open>queue_of\<close>, which forgets timers,
  signals, the backend and everything else.
\<close>

section \<open>The abstract scheduler\<close>

type_synonym job = "string \<times> PkTransactionState \<times> bool"

definition q_set :: "string \<Rightarrow> PkTransactionState \<Rightarrow> job list \<Rightarrow> job list" where
  "q_set tid s q = map (\<lambda>(t, s', bg). (t, if t = tid then s else s', bg)) q"

definition q_state :: "string \<Rightarrow> job list \<Rightarrow> PkTransactionState option" where
  "q_state tid q = map_option (\<lambda>(t, s, bg). s) (List.find (\<lambda>(t, s, bg). t = tid) q)"

text \<open>Foreground before background, then first come, first served.\<close>

definition q_next :: "job list \<Rightarrow> string option" where
  "q_next q =
     (case List.find (\<lambda>(t, s, bg). s = PK_TRANSACTION_STATE_READY \<and> \<not> bg) q of
        Some j \<Rightarrow> Some (fst j)
      | None \<Rightarrow> map_option fst (List.find (\<lambda>(t, s, bg). s = PK_TRANSACTION_STATE_READY) q))"

definition q_start_next :: "job list \<Rightarrow> job list" where
  "q_start_next q =
     (case q_next q of None \<Rightarrow> q | Some t \<Rightarrow> q_set t PK_TRANSACTION_STATE_RUNNING q)"

definition q_finish :: "string \<Rightarrow> job list \<Rightarrow> job list" where
  "q_finish tid q =
     (case q_state tid q of
        None \<Rightarrow> q
      | Some s \<Rightarrow>
          if s = PK_TRANSACTION_STATE_FINISHED then q
          else q_start_next (q_set tid PK_TRANSACTION_STATE_FINISHED q))"

definition q_running :: "job list \<Rightarrow> nat" where
  "q_running q = length (filter (\<lambda>(t, s, bg). s = PK_TRANSACTION_STATE_RUNNING) q)"

definition q_commit :: "string \<Rightarrow> job list \<Rightarrow> job list" where
  "q_commit tid q =
     (case q_state tid q of
        None \<Rightarrow> q
      | Some s \<Rightarrow>
          if PK_TRANSACTION_STATE_COMMITTED \<le> s then q
          else if q_running q = 0 then q_set tid PK_TRANSACTION_STATE_RUNNING q
          else q_set tid PK_TRANSACTION_STATE_READY q)"

definition queue_of :: "daemon \<Rightarrow> job list" where
  "queue_of d = map (\<lambda>i. (it_tid i, item_state i, it_background i)) (d_items d)"

section \<open>Looking\<close>

lemma find_map: "List.find P (map f xs) = map_option f (List.find (P \<circ> f) xs)"
  by (induction xs) auto

lemma q_state_queue: "q_state tid (queue_of d) = map_option item_state (get_item tid d)"
  by (simp add: q_state_def queue_of_def find_map comp_def option.map_comp get_item_def)

lemma q_next_queue: "q_next (queue_of d) = map_option it_tid (pk_transaction_list_get_next_item d)"
  by (simp add: q_next_def queue_of_def find_map comp_def pk_transaction_list_get_next_item_def
      option.map_comp split: option.split)

lemma q_running_queue: "q_running (queue_of d) = number_in_state [PK_TRANSACTION_STATE_RUNNING] d"
  by (simp add: q_running_def queue_of_def number_in_state_def filter_map comp_def)

lemma active_none:
  "pk_transaction_list_get_active_transaction d = None \<longleftrightarrow> q_running (queue_of d) = 0"
  by (simp add: pk_transaction_list_get_active_transaction_def q_running_queue number_in_state_def
      find_None_iff filter_empty_conv Ball_def)

section \<open>Changing\<close>

lemma queue_frame [simp]:
  "queue_of (effect e d) = queue_of d" "queue_of (snd (loop_add f d)) = queue_of d"
  "queue_of (loop_remove i d) = queue_of d" "queue_of (abort d) = queue_of d"
  by (simp_all add: queue_of_def abort_def)

lemma queue_upd:
  "(\<And>a. it_tid (f a) = it_tid a \<and> it_transaction (f a) = it_transaction a \<and>
     it_background (f a) = it_background a) \<Longrightarrow> queue_of (upd_item tid f d) = queue_of d"
  by (simp add: queue_of_def)

lemma queue_set_state:
  assumes ok: "list_ok d" and item: "get_item tid d = Some item" and s: "\<not> s < item_state item"
  shows "queue_of (snd (set_state tid s d)) = q_set tid (reached s) (queue_of d)"
proof -
  have unk: "item_state item \<noteq> PK_TRANSACTION_STATE_UNKNOWN"
    using list_ok_state [OF ok] get_item_Some [OF item] by blast
  have "tr_state (snd (pk_transaction_set_state s (it_transaction item))) = reached s"
    using set_state_result(3) [OF unk, of s] s by simp
  then show ?thesis by (simp add: set_state_upd [OF item] queue_of_def q_set_def)
qed

lemma queue_forget_commit [simp]: "queue_of (forget_commit tid item d) = queue_of d"
  by (simp add: forget_commit_def queue_upd)

lemma queue_run_item:
  assumes "list_ok d" and "get_item tid d = Some item" and "item_state item = PK_TRANSACTION_STATE_READY"
  shows "queue_of (pk_transaction_list_run_item tid d) = q_set tid PK_TRANSACTION_STATE_RUNNING (queue_of d)"
  unfolding run_item_eq Let_def
  using queue_set_state [OF assms(1,2), of PK_TRANSACTION_STATE_RUNNING] assms(3)
  by (simp add: queue_upd reached_def state_order)

lemma queue_run_next:
  assumes ok: "list_ok d"
  shows "queue_of (run_next d) = q_start_next (queue_of d)"
proof (cases "pk_transaction_list_get_next_item d")
  case None
  then show ?thesis by (simp add: run_next_def q_start_next_def q_next_queue)
next
  case (Some item)
  note ready = next_item_ready [OF Some]
  with queue_run_item [OF ok get_item_unique [OF ok]] Some show ?thesis
    by (simp add: run_next_def q_start_next_def q_next_queue)
qed

lemma queue_mark_finished:
  assumes ok: "list_ok d" and item: "get_item tid d = Some item"
  shows "queue_of (mark_finished tid item d) = q_set tid PK_TRANSACTION_STATE_FINISHED (queue_of d)"
proof -
  let ?b = "forget_commit tid item d"
  have b: "list_ok ?b" using keeps_forget_commit [OF item] ok by (simp add: keeps_def)
  have i: "get_item tid ?b = Some (item\<lparr>it_commit_id := 0\<rparr>)"
    using get_item_forget_commit [OF item, of tid] by simp
  have "\<not> PK_TRANSACTION_STATE_FINISHED < item_state (item\<lparr>it_commit_id := 0\<rparr>)"
    using finished_state_max [OF list_ok_state [OF ok]] get_item_Some [OF item] by (simp add: not_less)
  from queue_set_state [OF b i this] show ?thesis
    unfolding mark_finished_def Let_def by (simp add: queue_upd reached_def)
qed

section \<open>Refinement\<close>

lemma finish_refines:
  assumes ok: "list_ok d"
  shows "queue_of (pk_transaction_list_transaction_finished_cb tid d) = q_finish tid (queue_of d)"
proof (cases "get_item tid d")
  case None
  then show ?thesis
    unfolding pk_transaction_list_transaction_finished_cb_def from_tid_item [OF ok] None option.case
    by (simp add: q_finish_def q_state_queue None)
next
  case (Some item)
  show ?thesis
  proof (cases "item_state item = PK_TRANSACTION_STATE_FINISHED")
    case True
    then show ?thesis
      unfolding pk_transaction_list_transaction_finished_cb_def from_tid_item [OF ok] Some option.case
      by (simp add: q_finish_def q_state_queue Some)
  next
    case False
    have m: "list_ok (mark_finished tid item d)"
      using keeps_mark_finished [OF Some False] ok by (simp add: keeps_def)
    show ?thesis
      unfolding finished_cb_eq [OF ok Some False] queue_run_next [OF m] queue_mark_finished [OF ok Some]
      by (simp add: q_finish_def q_state_queue Some False)
  qed
qed

lemma q_set_twice: "q_set tid s (q_set tid s' q) = q_set tid s q"
  by (simp add: q_set_def comp_def split_def)

lemma q_running_set:
  assumes "distinct (map fst q)" and "q_state tid q = Some s'"
  shows "q_running (q_set tid s q) + (if s' = PK_TRANSACTION_STATE_RUNNING then 1 else 0) =
    q_running q + (if s = PK_TRANSACTION_STATE_RUNNING then 1 else 0)"
  using assms
proof (induction q)
  case (Cons j q)
  obtain t u bg where j: "j = (t, u, bg)" by (cases j) auto
  show ?case
  proof (cases "t = tid")
    case True
    with Cons.prems have "tid \<notin> fst ` set q" and u: "u = s'" by (auto simp: j q_state_def)
    then have "q_set tid s q = q" unfolding q_set_def by (intro map_idI) force
    with True u show ?thesis by (simp add: j q_set_def q_running_def)
  next
    case False
    with Cons.prems have "q_state tid q = Some s'" "distinct (map fst q)" by (auto simp: j q_state_def)
    from Cons.IH [OF this(2,1)] False show ?thesis
      by (simp add: j q_set_def q_running_def split: if_splits)
  qed
qed (simp add: q_state_def)

lemma distinct_queue: "list_ok d \<Longrightarrow> distinct (map fst (queue_of d))"
  by (simp add: queue_of_def list_ok_def comp_def)

lemma commit_refines:
  assumes ok: "list_ok d"
    and conf: "\<not> pk_conf_get_bool (conf env) ''TransactionCreateCommitTimeout''"
  shows "queue_of (snd (pk_transaction_list_commit env tid d)) = q_commit tid (queue_of d)"
proof (cases "get_item tid d")
  case None
  then show ?thesis
    by (simp add: pk_transaction_list_commit_def from_tid_item [OF ok] q_commit_def q_state_queue)
next
  case (Some item)
  let ?r = "set_state tid PK_TRANSACTION_STATE_COMMITTED d"
  have ret: "fst ?r = (\<not> PK_TRANSACTION_STATE_COMMITTED < item_state item)"
    by (rule fst_set_state [OF ok Some])
  show ?thesis
  proof (cases "PK_TRANSACTION_STATE_COMMITTED \<le> item_state item")
    case True
    then have "item_state item = PK_TRANSACTION_STATE_COMMITTED \<or> \<not> fst ?r" using ret by auto
    then have "snd (pk_transaction_list_commit env tid d) = d"
      using set_state_refused [OF ok, of tid PK_TRANSACTION_STATE_COMMITTED]
      by (auto simp: pk_transaction_list_commit_def from_tid_item [OF ok] Some split_beta)
    with True show ?thesis by (simp add: q_commit_def q_state_queue Some)
  next
    case False
    define c where "c = effect LIST_CHANGED (forget_commit tid item (snd ?r))"
    have early: "\<not> PK_TRANSACTION_STATE_COMMITTED < item_state item" "fst ?r"
      "item_state item \<noteq> PK_TRANSACTION_STATE_COMMITTED"
      using False ret by auto
    have qr: "queue_of (snd ?r) = q_set tid PK_TRANSACTION_STATE_READY (queue_of d)"
      using queue_set_state [OF ok Some early(1)] by (simp add: reached_def)
    then have qc: "queue_of c = q_set tid PK_TRANSACTION_STATE_READY (queue_of d)"
      by (simp add: c_def)
    let ?item = "item\<lparr>it_transaction :=
        snd (pk_transaction_set_state PK_TRANSACTION_STATE_COMMITTED (it_transaction item))\<rparr>"
    have i: "get_item tid (snd ?r) = Some ?item" using get_item_set_state [OF Some] by simp
    have okr: "list_ok (snd ?r)"
      using keeps_set_state [of PK_TRANSACTION_STATE_COMMITTED d tid] ok by (simp add: keeps_def)
    have okf: "list_ok (forget_commit tid item (snd ?r))"
      using keeps_forget_commit [OF i] okr forget_commit_cong [of item ?item tid] by (simp add: keeps_def)
    then have okc: "list_ok c" by (simp add: c_def list_ok_def)
    have "q_state tid (queue_of c) = Some PK_TRANSACTION_STATE_READY"
      unfolding qc using Some by (simp add: q_set_def queue_of_def q_state_def find_map comp_def
          get_item_def split: option.split) (auto dest: find_Some_in)
    then obtain item' where i': "get_item tid c = Some item'" "item_state item' = PK_TRANSACTION_STATE_READY"
      by (auto simp: q_state_queue)
    have run: "queue_of (pk_transaction_list_run_item tid c) = q_set tid PK_TRANSACTION_STATE_RUNNING (queue_of d)"
      using queue_run_item [OF okc i'] qc q_set_twice by simp
    have "item_state item \<noteq> PK_TRANSACTION_STATE_RUNNING" using False by (auto simp: state_order)
    then have count: "q_running (queue_of c) = q_running (queue_of d)"
      using q_running_set [OF distinct_queue [OF ok], of tid "item_state item" PK_TRANSACTION_STATE_READY]
        qc by (simp add: q_state_queue Some)
    have "pk_transaction_list_commit env tid d =
        (case pk_transaction_list_get_active_transaction c of
           None \<Rightarrow> (True, pk_transaction_list_run_item tid c) | Some x \<Rightarrow> (True, c))"
      using early conf
      unfolding pk_transaction_list_commit_def from_tid_item [OF ok] Some option.case c_def
        forget_commit_def Let_def split_beta
      by (simp only: de_Morgan_disj not_not simp_thms if_False if_True)
    with run qc count active_none [of c] False show ?thesis
      by (auto simp: q_commit_def q_state_queue Some split: option.split)
  qed
qed

section \<open>Counting the running jobs\<close>

lemma q_state_in:
  "distinct (map fst q) \<Longrightarrow> q_state t q = Some s \<longleftrightarrow> (\<exists>bg. (t, s, bg) \<in> set q)"
  by (induction q) (force simp: q_state_def split: if_splits)+

lemma q_next_ready:
  "q_next q = Some t \<Longrightarrow> distinct (map fst q) \<Longrightarrow> q_state t q = Some PK_TRANSACTION_STATE_READY"
  by (force simp: q_next_def q_state_in split: option.splits dest: find_Some_in)

lemma q_running_start:
  "distinct (map fst q) \<Longrightarrow>
   q_running (q_start_next q) = q_running q + (if q_next q = None then 0 else 1)"
  using q_running_set [of q _ PK_TRANSACTION_STATE_READY PK_TRANSACTION_STATE_RUNNING] q_next_ready [of q]
  by (auto simp: q_start_next_def split: option.split)

lemma q_fst_set [simp]: "map fst (q_set tid s q) = map fst q"
  by (simp add: q_set_def split_def comp_def)

lemma q_running_finish:
  assumes "distinct (map fst q)" and "q_state tid q = Some s" and "s \<noteq> PK_TRANSACTION_STATE_FINISHED"
  shows "q_running (q_finish tid q) + (if s = PK_TRANSACTION_STATE_RUNNING then 1 else 0) =
    q_running q + (if q_next (q_set tid PK_TRANSACTION_STATE_FINISHED q) = None then 0 else 1)"
  using q_running_set [OF assms(1,2), of PK_TRANSACTION_STATE_FINISHED]
    q_running_start [of "q_set tid PK_TRANSACTION_STATE_FINISHED q"] assms
  by (simp add: q_finish_def)

lemma q_next_None: "q_next q = None \<longleftrightarrow> (\<forall>(t, s, bg) \<in> set q. s \<noteq> PK_TRANSACTION_STATE_READY)"
  by (force simp: q_next_def find_None_iff split: option.split dest: find_Some_in)

lemma next_after_finish:
  "q_next (q_set tid PK_TRANSACTION_STATE_FINISHED (queue_of d)) = None \<longleftrightarrow>
   \<not> (\<exists>other \<in> set (d_items d). it_tid other \<noteq> tid \<and> item_state other = PK_TRANSACTION_STATE_READY)"
  by (auto simp: q_next_None q_set_def queue_of_def)

end
