(* ===== verification/PK_Daemon_Run.thy ===== *)
theory PK_Daemon_Run
  imports PK_Security PK_Scheduler
begin

text \<open>
  The steps of the daemon as a function, for concrete histories: \<open>daemon_exec\<close> computes the
  one state that \<open>daemon_step\<close> allows, \<open>daemon_run\<close> a whole history with what was granted on the
  way. A small daemon with a small plugin serves as the example.
\<close>

section \<open>Executable steps\<close>

fun daemon_exec :: "environment \<Rightarrow> daemon \<Rightarrow> daemon_event \<Rightarrow> daemon option" where
  "daemon_exec env d (DE_create tid sender) =
     (if fresh_tid tid d then Some (snd (pk_transaction_list_create env tid sender d)) else None)"
| "daemon_exec env d (DE_call sender m tid) = Some (pk_transaction_method_call env sender m tid d)"
| "daemon_exec env d (DE_timer i f) =
     (if pending (d_loop d) i f then Some (daemon_dispatch env i f d) else None)"
| "daemon_exec env d (DE_answer k a) =
     (if k < length (d_auth d)
      then Some (pk_transaction_action_obtain_authorization_finished_cb env a
                   (ar_tid (d_auth d ! k)) (answered k d))
      else None)"
| "daemon_exec env d (DE_backend e) = Some (backend_do env (backend_step e) d)"
| "daemon_exec env d (DE_vanished tid) = Some (upd_tr tid pk_transaction_vanished_cb d)"
| "daemon_exec env d DE_cancel_background = Some (pk_transaction_list_cancel_background env d)"

fun daemon_run ::
  "environment \<Rightarrow> (daemon \<Rightarrow> daemon_event \<Rightarrow> bool) \<Rightarrow> daemon_event list \<Rightarrow> daemon \<times> grants \<Rightarrow>
   (daemon \<times> grants) option" where
  "daemon_run env ok [] s = Some s"
| "daemon_run env ok (e # es) (d, g) =
     (case daemon_exec env d e of
        None \<Rightarrow> None
      | Some d' \<Rightarrow> if ok d e then daemon_run env ok es (d', granted d e g) else None)"

lemma daemon_exec_step: "daemon_exec env d e = Some d' \<longleftrightarrow> daemon_step env d e d'"
proof (cases e)
  case (DE_answer k a)
  then show ?thesis by (auto elim: daemon_step_answerE intro: daemon_step.intros split: if_splits)
qed (auto elim: daemon_step.cases intro: daemon_step.intros)

lemma daemon_run_history:
  "daemon_history env ok b d g \<Longrightarrow> daemon_run env ok es (d, g) = Some (d', g') \<Longrightarrow>
   daemon_history env ok b d' g'"
proof (induction es arbitrary: d g)
  case (Cons e es)
  then obtain d1 where d1: "daemon_exec env d e = Some d1" "ok d e"
    "daemon_run env ok es (d1, granted d e g) = Some (d', g')"
    by (auto split: option.splits if_splits)
  then have "daemon_step env d e d1" by (simp add: daemon_exec_step)
  from Cons.IH [OF daemon_history.step [OF Cons.prems(1) d1(2) this] d1(3)] show ?case .
qed simp

lemma daemon_run_start:
  "daemon_run env ok es (daemon_start b, []) = Some (d, g) \<Longrightarrow> daemon_history env ok b d g"
  by (rule daemon_run_history [OF daemon_history.start])

section \<open>An example\<close>

text \<open>The numbers are those of the configuration file that is shipped.\<close>

definition example_conf :: PkConf where
  "example_conf =
     \<lparr>keyfile_string = (\<lambda>k. None), keyfile_string_list = (\<lambda>k. None),
      keyfile_integer = (\<lambda>k.
        if k = ''SimultaneousTransactionsForUid'' then Some 500
        else if k = ''MaximumPackagesToProcess'' then Some 2500
        else if k = ''MaximumItemsToResolve'' then Some 100 else None),
      keyfile_boolean = (\<lambda>k. if k = ''UseUpdateCache'' then Some False else None)\<rparr>"

definition example_env :: environment where
  "example_env =
     \<lparr>conf = example_conf, uid_of_sender = (\<lambda>s. if s = '':1.1'' then 500 else 501),
      cmdline_of_sender = (\<lambda>s. None), session_of_sender = (\<lambda>s. None),
      db_get_proxy = (\<lambda>u s. None), db_get_root = (\<lambda>u s. None), file_exists = (\<lambda>f. True),
      content_type_of = (\<lambda>f. Some ''application/x-rpm''), service_pack_error = (\<lambda>f. None),
      mkdir_ok = (\<lambda>f. True), runtime_ms = 7, estimate_s = 0, plugins = []\<rparr>"

definition example_plugin :: PkBackendDesc where
  "example_plugin =
     \<lparr>desc_methods = [PK_ROLE_ENUM_GET_UPDATES, PK_ROLE_ENUM_GET_DETAILS,
        PK_ROLE_ENUM_INSTALL_PACKAGES, PK_ROLE_ENUM_INSTALL_FILES, PK_ROLE_ENUM_REMOVE_PACKAGES,
        PK_ROLE_ENUM_CANCEL],
      desc_get_roles = None, desc_get_groups = None, desc_get_filters = None,
      desc_get_mime_types = Some ''application/x-rpm'', desc_initialize = False,
      desc_destroy = False, desc_transaction_start = False, desc_transaction_stop = False,
      desc_transaction_reset = False\<rparr>"

definition example_daemon_backend :: PkBackend where
  "example_daemon_backend =
     snd (pk_backend_lock (\<lambda>b. b) ((pk_backend_new False False)\<lparr>be_desc := Some example_plugin\<rparr>))"

definition example_run :: "(daemon \<Rightarrow> daemon_event \<Rightarrow> bool) \<Rightarrow> daemon_event list \<Rightarrow> (daemon \<times> grants) option" where
  "example_run ok es = daemon_run example_env ok es (daemon_start example_daemon_backend, [])"

lemma example_history:
  "example_run ok es = Some (d, g) \<Longrightarrow> daemon_history example_env ok example_daemon_backend d g"
  unfolding example_run_def by (rule daemon_run_start)

lemma run_result:
  "(case r of None \<Rightarrow> False | Some (d, g) \<Rightarrow> g = [] \<and> P d) \<Longrightarrow> \<exists>d. r = Some (d, []) \<and> P d"
  for r :: "(daemon \<times> grants) option"
  by (cases r) auto

lemma example_plugins: "plugins_keep D example_env"
  by (rule plugins_keep_none) (simp add: example_env_def)

definition example_package :: string where
  "example_package = ''hal;0.5.8;i386;fedora''"

text \<open>Installing a package: asked, granted, and about to be run.\<close>

definition example_install :: "daemon_event list" where
  "example_install =
     [DE_create ''/1'' (Some '':1.1''), DE_call '':1.1'' (M_InstallPackages True [example_package]) ''/1'',
      DE_answer 0 AUTH_AUTHORIZED]"

end
