(* ===== verification/PK_Daemon_Properties.thy ===== *)
theory PK_Daemon_Properties
  imports PK_Daemon_Run
begin

text \<open>
  What the daemon promises to its clients, and where it breaks the promise: the properties of
  the transactions and their list, over whole histories, and concrete histories of a small
  daemon that show the flaws.
\<close>

section \<open>Invariants of every history\<close>

definition any_event :: "daemon \<Rightarrow> daemon_event \<Rightarrow> bool" where
  "any_event d e = True"

text \<open>The state in which the example is about to install a package.\<close>

definition example_ready :: "(daemon \<times> grants) option" where
  "example_ready = example_run single_use example_install"

definition example_run_timer :: daemon_event where
  "example_run_timer = DE_timer 3 (SRC_list_run_idle ''/1'')"

lemma example_ready_computed:
  "let s = example_ready; d = fst (the s); e = daemon_exec example_env d example_run_timer; d' = the e in
     s \<noteq> None \<and> e \<noteq> None \<and> d_items d' \<noteq> [] \<and> item_state (hd (d_items d')) = PK_TRANSACTION_STATE_RUNNING \<and>
     VFUNC (VF_install_packages True [example_package]) \<in> set (method_calls (d_backend d) (d_backend d')) \<and>
     q_finish ''/1'' (queue_of d) = [(''/1'', PK_TRANSACTION_STATE_FINISHED, False)] \<and>
     (case get_item ''/1'' d of None \<Rightarrow> False
      | Some i \<Rightarrow> item_state i = PK_TRANSACTION_STATE_RUNNING \<and> tr_sender (it_transaction i) = Some '':1.1'') \<and>
     number_in_state [PK_TRANSACTION_STATE_RUNNING] d = 1 \<and> get_item ''/2'' d = None \<and>
     pk_transaction_list_get_number_transactions_for_uid (uid_of_sender example_env '':1.1'') d
       \<le> conf_guint (conf example_env) ''SimultaneousTransactionsForUid''"
  by code_simp

lemma example_ready_facts:
  shows "example_ready \<noteq> None"
    and "daemon_exec example_env (fst (the example_ready)) example_run_timer \<noteq> None"
    and "d_items (the (daemon_exec example_env (fst (the example_ready)) example_run_timer)) \<noteq> []"
    and "item_state (hd (d_items (the (daemon_exec example_env (fst (the example_ready)) example_run_timer)))) =
        PK_TRANSACTION_STATE_RUNNING"
    and "VFUNC (VF_install_packages True [example_package]) \<in>
        set (method_calls (d_backend (fst (the example_ready)))
          (d_backend (the (daemon_exec example_env (fst (the example_ready)) example_run_timer))))"
    and "q_finish ''/1'' (queue_of (fst (the example_ready))) = [(''/1'', PK_TRANSACTION_STATE_FINISHED, False)]"
    and "case get_item ''/1'' (fst (the example_ready)) of None \<Rightarrow> False
      | Some i \<Rightarrow> item_state i = PK_TRANSACTION_STATE_RUNNING \<and> tr_sender (it_transaction i) = Some '':1.1''"
    and "number_in_state [PK_TRANSACTION_STATE_RUNNING] (fst (the example_ready)) = 1"
    and "get_item ''/2'' (fst (the example_ready)) = None"
    and "pk_transaction_list_get_number_transactions_for_uid (uid_of_sender example_env '':1.1'') (fst (the example_ready))
        \<le> conf_guint (conf example_env) ''SimultaneousTransactionsForUid''"
  using example_ready_computed unfolding Let_def by - (elim conjE, assumption)+

lemma example_ready_history:
  "daemon_history example_env single_use example_daemon_backend (fst (the example_ready)) (snd (the example_ready))"
  using example_ready_facts(1) by (auto simp: example_ready_def intro: example_history)

lemma example_ready_step:
  "daemon_step example_env (fst (the example_ready)) example_run_timer
     (the (daemon_exec example_env (fst (the example_ready)) example_run_timer))"
  using example_ready_facts(2) by (auto simp flip: daemon_exec_step)

text \<open>C3: In every history no two transactions of the list have the same tid, every item of the
  list knows its transaction, and a pending timer of the list always belongs to an item that is
  still in the list and remembers the timer: no callback of the list runs on a freed item.
  Plugins of the daemon are assumed to keep this.\<close>

theorem list_invariant:
  assumes "daemon_history env ok b d g" and "plugins_keep keeps env"
  shows "distinct (map it_tid (d_items d)) \<and>
    list_all (\<lambda>item. tr_tid (it_transaction item) = Some (it_tid item)) (d_items d) \<and>
    list_all (source_ok (d_items d)) (sources (d_loop d))"
proof -
  have "list_ok d" by (rule daemon_history_ok [OF assms])
  then show ?thesis by (auto simp: list_ok_def list_all_iff item_ok_def)
qed

lemma list_invariant_witness:
  "distinct (map it_tid (d_items (fst (the example_ready))))"
  by (rule conjunct1 [OF list_invariant [OF example_ready_history example_plugins]])

text \<open>C11: No step takes a transaction back in its life: apart from the creation of a new one, every
  item after a step was in the list before it, with the same owner and the same client, in the
  same state or an earlier one. Plugins of the daemon are assumed to keep this.\<close>

theorem states_never_go_back:
  assumes "daemon_history env ok b d g" and "plugins_keep keeps env" and "daemon_step env d e d'"
    and "\<And>tid sender. e \<noteq> DE_create tid sender" and "item' \<in> set (d_items d')"
  shows "\<exists>item \<in> set (d_items d). it_tid item' = it_tid item \<and> it_uid item' = it_uid item \<and>
    tr_sender (it_transaction item') = tr_sender (it_transaction item) \<and>
    item_state item \<le> item_state item'"
proof -
  have "keeps d d'" by (rule daemon_step_keeps [OF assms(2-4)])
  moreover have "list_ok d" by (rule daemon_history_ok [OF assms(1,2)])
  ultimately obtain item where "item \<in> set (d_items d)" "later item item'"
    using assms(5) by (auto simp: keeps_def)
  then show ?thesis by (auto simp: later_def)
qed

lemma states_never_go_back_witness:
  "\<exists>item \<in> set (d_items (fst (the example_ready))). item_state item \<le> PK_TRANSACTION_STATE_RUNNING"
proof -
  let ?d' = "the (daemon_exec example_env (fst (the example_ready)) example_run_timer)"
  note i = hd_in_set [OF example_ready_facts(3)] example_ready_facts(4)
  have "\<exists>item \<in> set (d_items (fst (the example_ready))). item_state item \<le> item_state (hd (d_items ?d'))"
    using states_never_go_back [OF example_ready_history example_plugins example_ready_step _ i(1)]
    by (auto simp: example_run_timer_def)
  with i(2) show ?thesis by simp
qed

text \<open>
  The plugins of the daemon take part: before a transaction starts, and after it has ended, some of those
  that come with it clear the backend and ask it for files or packages, and wait for the answer. Here
  is one, on a backend that has lists of files.
\<close>

lemma query_is_quiet:
  assumes "unguarded (d_backend d) b"
  shows "quiet d (d\<lparr>d_backend := b\<rparr>)"
  using assms by (simp add: quiet_def keeps_frame jobs_refl)

definition example_query :: "string \<Rightarrow> daemon \<Rightarrow> daemon" where
  "example_query tid d =
     d\<lparr>d_backend := snd (pk_backend_reset (pk_backend_finished_delay (pk_backend_get_files [example_package]
                     (snd (pk_backend_reset (d_backend d))))))\<rparr>"

definition example_query_env :: environment where
  "example_query_env = example_env\<lparr>plugins :=
     [\<lambda>phase. if phase = PK_PLUGIN_PHASE_TRANSACTION_RUN then Some example_query else None]\<rparr>"

definition example_query_backend :: PkBackend where
  "example_query_backend = example_daemon_backend\<lparr>be_desc :=
     Some (example_plugin\<lparr>desc_methods := PK_ROLE_ENUM_GET_FILES # desc_methods example_plugin\<rparr>)\<rparr>"

lemma unguarded_get_files: "unguarded b (pk_backend_get_files package_ids b)"
proof -
  obtain ss where ss: "emitted (pk_backend_get_files package_ids b) = emitted b @ ss"
    "set (filter is_method_call ss) \<subseteq> {VFUNC (VF_get_files package_ids)}"
    unfolding pk_backend_get_files_def using backend_begin_calls by blast
  have "\<not> guarded_call v" if "VFUNC v \<in> set ss" for v
    using guarded_is_method [of v] ss(2) that by (auto simp: guarded_call_def action_for_def)
  with ss(1) show ?thesis unfolding unguarded_def by blast
qed

lemma example_query_plugins: "plugins_keep quiet example_query_env"
proof -
  have "unguarded (d_backend d) (d_backend (example_query tid d))" for tid d
    unfolding example_query_def daemon.select_convs daemon.update_convs
    using unguarded_trans [OF unguarded_trans [OF no_calls_unguarded [OF no_calls_reset] unguarded_get_files]
        unguarded_trans [OF no_calls_unguarded [OF no_calls_finished_delay] no_calls_unguarded [OF no_calls_reset]]]
    by simp
  then have "quiet d (example_query tid d)" for tid d
    using query_is_quiet [of d "d_backend (example_query tid d)"] by (simp add: example_query_def)
  then show ?thesis by (simp add: plugins_keep_def example_query_env_def)
qed

definition example_query_ready :: "(daemon \<times> grants) option" where
  "example_query_ready =
     daemon_run example_query_env single_use example_install (daemon_start example_query_backend, [])"

lemma example_query_computed:
  "let s = example_query_ready; d = fst (the s); e = daemon_exec example_query_env d example_run_timer; d' = the e in
     s \<noteq> None \<and> e \<noteq> None \<and>
     method_calls (d_backend d) (d_backend d') =
       [VFUNC (VF_get_files [example_package]), VFUNC (VF_install_packages True [example_package])]"
  by code_simp

text \<open>C1: If every transaction is used for one method only, the daemon never makes the plugin do
  work that has not been authorized: a method of the plugin for which the policy asks an
  authorization is called only when the idle source of a transaction fires, the method is the one
  of the role of that transaction, and PolicyKit has granted the action that the policy asks for
  that role and that trust, to that transaction. The plugins of the daemon, whose phases are single
  steps here, may call every other method whenever they run, as those that come with it do with
  \<open>pk_backend_get_files\<close>, \<open>pk_backend_search_files\<close> and \<open>pk_backend_get_packages\<close>; it is assumed that they
  call none that needs an authorization, ask for none, and start no transaction.\<close>

theorem calls_need_authorization:
  assumes "daemon_history env single_use b d g" and "plugins_keep quiet env"
    and "daemon_step env d e d'" and "single_use d e"
    and "VFUNC v \<in> set (method_calls (d_backend d) (d_backend d'))" and "guarded_call v"
  shows "\<exists>i tid t. e = DE_timer i (SRC_list_run_idle tid) \<and> get_tr tid d = Some t \<and>
    tr_role t = role_of_call v \<and> allowed g tid t"
proof -
  have sec: "secure g d" by (rule secure_history [OF assms(1,2)])
  then have ok: "list_ok d" by (simp add: secure_def)
  have quiet: False if "unguarded (d_backend d) (d_backend d')"
    using unguarded_method_calls [OF that assms(5)] assms(6) by simp
  show ?thesis
    using assms(3)
  proof cases
    case (create tid sender)
    then show ?thesis using secure_create [OF sec create(3)] quiet unguarded_refl by metis
  next
    case (call sender m tid)
    then show ?thesis using secure_method_call [OF assms(2) sec] assms(4) quiet by blast
  next
    case (timer i f)
    have "VFUNC v \<in> set (method_calls (d_backend d) (d_backend (daemon_dispatch env i f d)))"
      using assms(5) timer by simp
    from dispatch_calls [OF assms(2) ok timer(3) assms(6) this] obtain tid t
      where f: "f = SRC_list_run_idle tid" and t: "get_tr tid d = Some t" "tr_role t = role_of_call v"
      by blast
    obtain item where item: "get_item tid d = Some item" "it_idle_id item = i" "i \<noteq> 0"
      using idle_item [OF ok timer(3) [unfolded f]] .
    then have "working item" by (simp add: working_def)
    with secureD(1) [OF sec] get_item_Some [OF item(1)] have "allowed g tid (it_transaction item)"
      by (auto simp: item_secure_def)
    with timer(1) f t item(1) show ?thesis by (auto simp: get_tr_def)
  next
    case (answer k a)
    then show ?thesis using secure_answer [OF assms(2) sec answer(3)] quiet by blast
  next
    case (backend ev)
    have "quiet d d'"
      unfolding backend(2) by (rule quiet.D_backend_quiet [OF assms(2)]) (rule no_calls_step)
    then show ?thesis using quiet ok by (simp add: quiet_def)
  next
    case (vanished tid)
    then show ?thesis using quiet unguarded_refl by (simp add: upd_tr_def)
  next
    case cancel_background
    then show ?thesis using quiet quiet.D_cancel_background [OF assms(2), of d] ok by (simp add: quiet_def)
  qed
qed

lemma calls_need_authorization_witness:
  "\<exists>i tid t. example_run_timer = DE_timer i (SRC_list_run_idle tid) \<and>
     get_tr tid (fst (the example_query_ready)) = Some t \<and>
     tr_role t = PK_ROLE_ENUM_INSTALL_PACKAGES \<and> allowed (snd (the example_query_ready)) tid t"
proof -
  let ?s = "the example_query_ready"
  let ?d' = "the (daemon_exec example_query_env (fst ?s) example_run_timer)"
  note facts = example_query_computed [unfolded Let_def]
  have "example_query_ready = Some (fst ?s, snd ?s)" using facts by auto
  then have h: "daemon_history example_query_env single_use example_query_backend (fst ?s) (snd ?s)"
    unfolding example_query_ready_def by (rule daemon_run_start)
  have st: "daemon_step example_query_env (fst ?s) example_run_timer ?d'"
    using facts by (auto simp flip: daemon_exec_step)
  have single: "single_use (fst ?s) example_run_timer" by (simp add: single_use_def example_run_timer_def)
  have call: "VFUNC (VF_install_packages True [example_package]) \<in> set (method_calls (d_backend (fst ?s)) (d_backend ?d'))"
    using facts by simp
  have "guarded_call (VF_install_packages True [example_package])"
    by (simp add: guarded_call_def action_for_def)
  from calls_need_authorization [OF h example_query_plugins st single call this] show ?thesis by simp
qed

section \<open>The scheduler\<close>

text \<open>C4: The list of transactions implements the abstract scheduler: what happens to the queue when a
  transaction finishes, is committed or is created is what the scheduler says - the finished
  one leaves, the next is the first ready one in the foreground, or else in the background; a
  committed one runs at once if nothing runs, and waits otherwise; a new one goes to the end.\<close>

theorem scheduler_refinement:
  assumes "list_ok d"
    and "\<not> pk_conf_get_bool (conf env) ''TransactionCreateCommitTimeout''"
  shows "queue_of (pk_transaction_list_transaction_finished_cb tid d) = q_finish tid (queue_of d) \<and>
    queue_of (snd (pk_transaction_list_commit env tid d)) = q_commit tid (queue_of d) \<and>
    queue_of (snd (pk_transaction_list_create env tid sender d)) =
      (if fst (pk_transaction_list_create env tid sender d)
       then queue_of d @ [(tid, PK_TRANSACTION_STATE_NEW, False)] else queue_of d)"
proof (intro conjI)
  show "queue_of (pk_transaction_list_transaction_finished_cb tid d) = q_finish tid (queue_of d)"
    by (rule finish_refines [OF assms(1)])
  show "queue_of (snd (pk_transaction_list_commit env tid d)) = q_commit tid (queue_of d)"
    by (rule commit_refines [OF assms])
  show "queue_of (snd (pk_transaction_list_create env tid sender d)) =
      (if fst (pk_transaction_list_create env tid sender d)
       then queue_of d @ [(tid, PK_TRANSACTION_STATE_NEW, False)] else queue_of d)"
    unfolding list_create_eq [OF assms(1)]
    by (simp add: queue_of_def created_item_def split: option.split)
qed

lemma example_ready_ok: "list_ok (fst (the example_ready))"
  by (rule daemon_history_ok [OF example_ready_history example_plugins])

lemma example_no_cancel: "\<not> pk_conf_get_bool (conf example_env) ''TransactionCreateCommitTimeout''"
  by (simp add: pk_conf_get_bool_def example_env_def example_conf_def)

lemma scheduler_refinement_witness:
  "queue_of (pk_transaction_list_transaction_finished_cb ''/1'' (fst (the example_ready))) =
     [(''/1'', PK_TRANSACTION_STATE_FINISHED, False)]"
  using scheduler_refinement [OF example_ready_ok example_no_cancel] example_ready_facts(6) by simp

text \<open>C27: One transaction at a time: a commit never makes a second transaction run, and the end of
  the transaction that runs never leaves more than before.\<close>

theorem one_at_a_time:
  assumes "list_ok d"
    and "\<not> pk_conf_get_bool (conf env) ''TransactionCreateCommitTimeout''"
    and "get_item tid d = Some item" and "item_state item = PK_TRANSACTION_STATE_RUNNING"
  shows "number_in_state [PK_TRANSACTION_STATE_RUNNING] (snd (pk_transaction_list_commit env tid' d))
           = number_in_state [PK_TRANSACTION_STATE_RUNNING] d \<and>
    number_in_state [PK_TRANSACTION_STATE_RUNNING] (pk_transaction_list_transaction_finished_cb tid d)
           \<le> number_in_state [PK_TRANSACTION_STATE_RUNNING] d"
proof (intro conjI)
  note dist = distinct_queue [OF assms(1)]
  have s: "q_state tid (queue_of d) = Some PK_TRANSACTION_STATE_RUNNING"
    using assms(3,4) by (simp add: q_state_queue)
  have "item \<in> set (d_items d)" using get_item_Some [OF assms(3)] by simp
  with assms(4) have some: "q_running (queue_of d) \<noteq> 0"
    by (auto simp: q_running_queue number_in_state_def filter_empty_conv)
  have "q_running (q_commit tid' (queue_of d)) = q_running (queue_of d)"
    using some q_running_set [OF dist, of tid' _ PK_TRANSACTION_STATE_READY]
    by (auto simp: q_commit_def state_order split: option.split)
  then show "number_in_state [PK_TRANSACTION_STATE_RUNNING] (snd (pk_transaction_list_commit env tid' d))
      = number_in_state [PK_TRANSACTION_STATE_RUNNING] d"
    using commit_refines [OF assms(1,2)] by (simp flip: q_running_queue)
  have "q_running (q_finish tid (queue_of d)) \<le> q_running (queue_of d)"
    using q_running_finish [OF dist s] by (simp split: if_splits)
  then show "number_in_state [PK_TRANSACTION_STATE_RUNNING] (pk_transaction_list_transaction_finished_cb tid d)
      \<le> number_in_state [PK_TRANSACTION_STATE_RUNNING] d"
    using finish_refines [OF assms(1)] by (simp flip: q_running_queue)
qed

lemma one_at_a_time_witness:
  "number_in_state [PK_TRANSACTION_STATE_RUNNING]
     (pk_transaction_list_transaction_finished_cb ''/1'' (fst (the example_ready))) \<le> 1"
  using one_at_a_time [OF example_ready_ok example_no_cancel] example_ready_facts(7,8)
  by (fastforce split: option.splits)

text \<open>C37: The end of a transaction that does not run - a refused authorization, or one that is cancelled
  while it waits in the queue - starts the next of the queue, whenever another one waits there, and
  although one may be running: then two run. The callback does not look whether anything runs, and
  the plugins are written for one at a time.\<close>

theorem finish_starts_second:
  assumes "list_ok d" and "get_item tid d = Some item"
    and "item_state item \<noteq> PK_TRANSACTION_STATE_RUNNING" and "item_state item \<noteq> PK_TRANSACTION_STATE_FINISHED"
  shows "number_in_state [PK_TRANSACTION_STATE_RUNNING] (pk_transaction_list_transaction_finished_cb tid d) =
    number_in_state [PK_TRANSACTION_STATE_RUNNING] d +
      (if \<exists>other \<in> set (d_items d). it_tid other \<noteq> tid \<and> item_state other = PK_TRANSACTION_STATE_READY
       then 1 else 0)"
proof -
  have s: "q_state tid (queue_of d) = Some (item_state item)" using assms(2) by (simp add: q_state_queue)
  from q_running_finish [OF distinct_queue [OF assms(1)] s assms(4)] assms(3) next_after_finish [of tid d]
  have "q_running (q_finish tid (queue_of d)) = q_running (queue_of d) +
      (if \<exists>other \<in> set (d_items d). it_tid other \<noteq> tid \<and> item_state other = PK_TRANSACTION_STATE_READY
       then 1 else 0)"
    by simp
  then show ?thesis using finish_refines [OF assms(1)] by (simp flip: q_running_queue)
qed

text \<open>One runs, one waits in the queue, and one asks for authorization; and two wait in the queue.\<close>

definition example_denied :: "daemon_event list" where
  "example_denied =
     [DE_create ''/1'' (Some '':1.1''), DE_call '':1.1'' (M_GetUpdates ''none'') ''/1'',
      DE_timer 3 (SRC_list_run_idle ''/1''),
      DE_create ''/2'' (Some '':1.1''), DE_call '':1.1'' (M_GetDetails [example_package]) ''/2'',
      DE_create ''/3'' (Some '':1.2''), DE_call '':1.2'' (M_InstallPackages False [example_package]) ''/3'']"

definition example_queued :: "daemon_event list" where
  "example_queued =
     [DE_create ''/1'' (Some '':1.1''), DE_call '':1.1'' (M_GetUpdates ''none'') ''/1'',
      DE_timer 3 (SRC_list_run_idle ''/1''),
      DE_create ''/2'' (Some '':1.1''), DE_call '':1.1'' (M_GetDetails [example_package]) ''/2'',
      DE_create ''/3'' (Some '':1.2''), DE_call '':1.2'' (M_GetDetails [example_package]) ''/3'']"

lemma finish_starts_second_witness:
  "number_in_state [PK_TRANSACTION_STATE_RUNNING]
     (pk_transaction_list_transaction_finished_cb ''/3''
        (fst (the (example_run single_use example_denied)))) = 2 \<and>
   number_in_state [PK_TRANSACTION_STATE_RUNNING]
     (pk_transaction_list_transaction_finished_cb ''/3''
        (fst (the (example_run single_use example_queued)))) = 2"
proof -
  have two: "number_in_state [PK_TRANSACTION_STATE_RUNNING] (pk_transaction_list_transaction_finished_cb ''/3''
      (fst (the (example_run single_use es)))) = 2"
    if facts: "case example_run single_use es of None \<Rightarrow> False | Some (d, g) \<Rightarrow>
      (case get_item ''/3'' d of None \<Rightarrow> False | Some i \<Rightarrow>
         item_state i \<noteq> PK_TRANSACTION_STATE_RUNNING \<and> item_state i \<noteq> PK_TRANSACTION_STATE_FINISHED) \<and>
      list_ex (\<lambda>i. it_tid i \<noteq> ''/3'' \<and> item_state i = PK_TRANSACTION_STATE_READY) (d_items d) \<and>
      number_in_state [PK_TRANSACTION_STATE_RUNNING] d = 1" for es
  proof -
    obtain d g where run: "example_run single_use es = Some (d, g)"
      using facts by (auto split: option.splits prod.splits)
    obtain i where i: "get_item ''/3'' d = Some i" "item_state i \<noteq> PK_TRANSACTION_STATE_RUNNING"
        "item_state i \<noteq> PK_TRANSACTION_STATE_FINISHED"
      and other: "\<exists>i \<in> set (d_items d). it_tid i \<noteq> ''/3'' \<and> item_state i = PK_TRANSACTION_STATE_READY"
      and one: "number_in_state [PK_TRANSACTION_STATE_RUNNING] d = 1"
      using facts by (auto simp: run list_ex_iff split: option.splits)
    have "list_ok d" by (rule daemon_history_ok [OF example_history [OF run] example_plugins])
    from finish_starts_second [OF this i] other one show ?thesis by (simp add: run)
  qed
  show ?thesis by (intro conjI; rule two; code_simp)
qed

end
