(* ===== verification/PK_Daemon_Clients.thy ===== *)
theory PK_Daemon_Clients
  imports PK_Daemon_Properties
begin

text \<open>
  What a single client sees: who may call a transaction, how many a user may have, which call of
  the plugin stands behind a role, and concrete histories in which the daemon lets a client do
  what it should not, or leaves it waiting.
\<close>

section \<open>States, calls and limits\<close>

text \<open>Changing the state of a transaction: a state that lies before the current one is refused and
  changes nothing; every other one is reached, a committed transaction being ready at once;
  nothing but the state, and what is announced of it, changes.\<close>

theorem set_state_spec:
  assumes "tr_state t \<noteq> PK_TRANSACTION_STATE_UNKNOWN"
  shows "pk_transaction_set_state s t =
      (if s < tr_state t then (False, t)
       else (True, snd (pk_transaction_set_state s t))) \<and>
    (\<not> s < tr_state t \<longrightarrow> tr_state (snd (pk_transaction_set_state s t)) =
      (if s = PK_TRANSACTION_STATE_COMMITTED then PK_TRANSACTION_STATE_READY else s)) \<and>
    same_life (t\<lparr>tr_state := tr_state (snd (pk_transaction_set_state s t))\<rparr>)
      (snd (pk_transaction_set_state s t))"
proof (intro conjI)
  have "fst (pk_transaction_set_state s t) = (\<not> s < tr_state t)" by (rule set_state_result(1) [OF assms])
  then show "pk_transaction_set_state s t =
      (if s < tr_state t then (False, t) else (True, snd (pk_transaction_set_state s t)))"
    using assms by (cases "pk_transaction_set_state s t") (auto simp: pk_transaction_set_state.simps [of s t])
  show "\<not> s < tr_state t \<longrightarrow> tr_state (snd (pk_transaction_set_state s t)) =
      (if s = PK_TRANSACTION_STATE_COMMITTED then PK_TRANSACTION_STATE_READY else s)"
    using set_state_result(3) [OF assms, of s] by (simp add: reached_def)
  show "same_life (t\<lparr>tr_state := tr_state (snd (pk_transaction_set_state s t))\<rparr>)
      (snd (pk_transaction_set_state s t))"
    by (rule set_state_result(2) [OF assms])
qed

definition example_new :: PkTransaction where
  "example_new = (pk_transaction_new None)\<lparr>tr_state := PK_TRANSACTION_STATE_NEW\<rparr>"

lemma set_state_spec_witness:
  "tr_state (snd (pk_transaction_set_state PK_TRANSACTION_STATE_COMMITTED example_new)) =
     PK_TRANSACTION_STATE_READY"
  using set_state_spec [of example_new PK_TRANSACTION_STATE_COMMITTED]
  by (simp add: example_new_def state_order)

text \<open>C14: Running a transaction makes exactly the call of the plugin that its role and its saved
  arguments stand for, and only if the plugin has that method. (Simulating a repair also needs the method
  for a repair.)\<close>

theorem run_makes_one_call:
  assumes "run_role t b = Some (Some b')"
    and "tr_role t \<noteq> PK_ROLE_ENUM_SIMULATE_REPAIR_SYSTEM"
  shows "method_calls b b' = (if has_method (tr_role t) b then [VFUNC (the (call_of t))] else [])"
proof -
  have one: "method_calls b (backend_begin req role puts call b) =
      (if has_method req b then [VFUNC call] else [])" if "is_method_call (VFUNC call)" for req role puts call
  proof -
    have "\<exists>ss. emitted (backend_begin req role puts call b) = emitted b @ ss \<and>
        filter is_method_call ss = (if has_method req b then [VFUNC call] else [])"
      using that by (auto simp: backend_begin_def Let_def pk_backend_set_role_internal_def
          pk_backend_transaction_reset_def emit_def)
    then show ?thesis by (auto simp: method_calls_def new_signals_append)
  qed
  have "\<exists>role puts call. b' = backend_begin (tr_role t) role puts call b \<and> call_of t = Some call \<and>
      is_method_call (VFUNC call)"
    using assms
    by (cases "tr_role t") (simp_all add: run_role_def call_of_def role_calls; blast)+
  with one show ?thesis by fastforce
qed

definition example_remove :: PkTransaction where
  "example_remove = example_new\<lparr>tr_role := PK_ROLE_ENUM_REMOVE_PACKAGES,
     cached_package_ids := [example_package], cached_allow_deps := True\<rparr>"

lemma run_makes_one_call_witness:
  "method_calls example_daemon_backend
     (pk_backend_remove_packages [example_package] True False example_daemon_backend) =
   [VFUNC (VF_remove_packages [example_package] True False)]"
proof -
  have fields: "tr_role example_remove = PK_ROLE_ENUM_REMOVE_PACKAGES"
    "cached_package_ids example_remove = [example_package]"
    "cached_allow_deps example_remove" "\<not> cached_autoremove example_remove"
    by (simp_all add: example_remove_def example_new_def pk_transaction_new_def
        pk_transaction_setup_mime_types_def)
  have "has_method PK_ROLE_ENUM_REMOVE_PACKAGES example_daemon_backend" by code_simp
  with run_makes_one_call [of example_remove example_daemon_backend] fields show ?thesis
    by (simp add: run_role_def call_of_def)
qed

text \<open>C36: A tid is created exactly when it is not in the list and its user has no more transactions
  than the limit of the configuration; the list then has one more. The comparison lets a user have one
  transaction more than the limit.\<close>

theorem create_limit:
  assumes "list_ok d"
  shows "(fst (pk_transaction_list_create env tid (Some s) d) \<longleftrightarrow>
      get_item tid d = None \<and>
      pk_transaction_list_get_number_transactions_for_uid (uid_of_sender env s) d
        \<le> conf_guint (conf env) ''SimultaneousTransactionsForUid'') \<and>
    (fst (pk_transaction_list_create env tid (Some s) d) \<longrightarrow>
      pk_transaction_list_get_number_transactions_for_uid (uid_of_sender env s)
        (snd (pk_transaction_list_create env tid (Some s) d)) =
      pk_transaction_list_get_number_transactions_for_uid (uid_of_sender env s) d + 1)"
  by (auto simp: list_create_eq [OF assms] not_less [symmetric] split: if_splits)
    (simp add: pk_transaction_list_get_number_transactions_for_uid_def)

lemma create_limit_witness:
  "fst (pk_transaction_list_create example_env ''/2'' (Some '':1.1'') (fst (the example_ready)))"
  using create_limit [OF example_ready_ok] example_ready_facts(9,10) by blast

section \<open>The work of others\<close>

text \<open>No question about cancelling is open.\<close>

definition no_foreign :: "daemon \<Rightarrow> bool" where
  "no_foreign d \<longleftrightarrow>
     (\<forall>r \<in> set (d_auth d). ar_action_id r \<noteq> ''org.freedesktop.packagekit.cancel-foreign'')"

definition never_asks :: "daemon \<Rightarrow> daemon \<Rightarrow> bool" where
  "never_asks d d' \<longleftrightarrow> keeps d d' \<and> (list_ok d \<and> no_foreign d \<longrightarrow> no_foreign d')"

lemma never_asks_trans: "never_asks a b \<Longrightarrow> never_asks b c \<Longrightarrow> never_asks a c"
  unfolding never_asks_def using keeps_trans by (meson keeps_def)

lemma never_asks_same: "keeps d d' \<Longrightarrow> d_auth d' = d_auth d \<Longrightarrow> never_asks d d'"
  by (simp add: never_asks_def no_foreign_def)

lemma calm_never_asks: "calm d d' \<Longrightarrow> never_asks d d'"
  by (simp add: calm_def never_asks_def no_foreign_def)

lemmas quiet_never_asks = calm_never_asks [OF quiet_calm]

lemma action_of_cancel:
  "action_for only role = Some ''org.freedesktop.packagekit.cancel-foreign'' \<Longrightarrow> role = PK_ROLE_ENUM_CANCEL"
  by (cases role) (simp_all add: action_for_def split: if_splits)

lemma question_auth:
  "d_auth (question tid a d) = d_auth d @ [\<lparr>ar_tid = tid, ar_action_id = a, ar_details =
     (case get_tr tid d of None \<Rightarrow> [] | Some t \<Rightarrow> polkit_details t)\<rparr>]"
  by (simp add: question_def Let_def upd_tr_def)

lemma never_asks_question:
  "a \<noteq> ''org.freedesktop.packagekit.cancel-foreign'' \<Longrightarrow> never_asks d (question tid a d)"
  using keeps_question [of d tid a] by (auto simp: never_asks_def no_foreign_def question_auth)

lemma never_asks_prepare: "save_ok save \<Longrightarrow> never_asks d (prepare role save tid d)"
  by (rule never_asks_same [OF keeps_prepare]) (simp_all add: prepare_def upd_tr_def)

lemma never_asks_commit:
  assumes plug: "plugins_keep quiet env"
  shows "never_asks d (snd (pk_transaction_commit env tid d))"
proof (cases "list_ok d")
  case True
  from quiet_control.D_commit [OF True plug, of tid] show ?thesis
  proof (elim disjE exE conjE)
    assume "quiet d (snd (pk_transaction_commit env tid d))"
    then show ?thesis by (rule quiet_never_asks)
  next
    fix c item
    let ?s = "snd (set_state tid PK_TRANSACTION_STATE_COMMITTED c)"
    assume c: "quiet d c" and rest: "quiet ?s (snd (pk_transaction_commit env tid d))"
    have "never_asks c ?s" by (rule never_asks_same [OF keeps_set_state]) simp_all
    from never_asks_trans [OF never_asks_trans [OF quiet_never_asks [OF c] this] quiet_never_asks [OF rest]]
    show ?thesis .
  qed
next
  case False
  then show ?thesis using keeps_commit [OF plugins_quiet_keeps [OF plug]] by (simp add: never_asks_def)
qed

interpretation never_asks: method_contract quiet "\<lambda>tid. never_asks"
proof
  show "never_asks d f" if "quiet d e" "never_asks e f" for d e f
    using quiet_never_asks [OF that(1)] that(2) by (rule never_asks_trans)
  show "never_asks d f" if "never_asks d e" "quiet e f" for d e f
    using that(1) quiet_never_asks [OF that(2)] by (rule never_asks_trans)
  show "never_asks d e" if "quiet d e" for d e using that by (rule quiet_never_asks)
  show "never_asks d (prepare role save tid d)" if "save_ok save" for save role tid d
    using that by (rule never_asks_prepare)
  show "never_asks d (snd (pk_transaction_commit env tid e))"
    if "save_ok save" "plugins_keep quiet env" "quiet (prepare role save tid d) e" for save role tid d e env
    using never_asks_trans [OF never_asks_prepare [OF that(1)] never_asks_trans [OF
          quiet_never_asks [OF that(3)] never_asks_commit [OF that(2)]]] .
  show "never_asks d (question tid a e)"
    if "action_for only role = Some a" "save_ok save" "same_trust only role save" "quiet (prepare role save tid d) e"
    for only role a save tid d e
  proof -
    have "a \<noteq> ''org.freedesktop.packagekit.cancel-foreign''"
      using that(1,3) action_of_cancel unfolding same_trust_def by blast
    from never_asks_trans [OF never_asks_prepare [OF that(2)] never_asks_trans [OF
          quiet_never_asks [OF that(4)] never_asks_question [OF this]]]
    show ?thesis .
  qed
  show "never_asks d (prepare role save tid (question tid a e))"
    if "action_for only role = Some a" "save_ok save" "same_trust only role save" "quiet d e"
    for only role a save tid d e
  proof -
    have "a \<noteq> ''org.freedesktop.packagekit.cancel-foreign''"
      using that(1,3) action_of_cancel unfolding same_trust_def by blast
    from never_asks_trans [OF quiet_never_asks [OF that(4)] never_asks_trans [OF
          never_asks_question [OF this] never_asks_prepare [OF that(2)]]]
    show ?thesis .
  qed
qed

lemma never_asks_call:
  assumes plug: "plugins_keep quiet env"
  shows "never_asks d (pk_transaction_method_call env sender m tid d)"
proof (cases "\<exists>t. get_tr tid d = Some t \<and> tr_sender t = Some sender")
  case True
  then have "never_asks d (method_body env sender m tid d)" by (rule never_asks.E_method [OF plug])
  with True show ?thesis by (auto simp: pk_transaction_method_call_def)
next
  case False
  then show ?thesis
    by (auto simp: pk_transaction_method_call_def intro!: quiet_never_asks quiet.D_refl quiet.D_reply
        split: option.split)
qed

lemma no_foreign_answer:
  assumes plug: "plugins_keep quiet env" and ok: "list_ok d" and d: "no_foreign d"
  shows "no_foreign (pk_transaction_action_obtain_authorization_finished_cb env a tid (answered k d))"
proof -
  let ?d = "answered k d"
  let ?c = "upd_tr tid (\<lambda>t. t\<lparr>tr_waiting_for_auth := False\<rparr>) ?d"
  have c: "never_asks ?d ?c" by (rule quiet_never_asks [OF quiet.D_life]) simp
  have commit: "never_asks ?c (snd (pk_transaction_commit env tid ?c))" by (rule never_asks_commit [OF plug])
  have "never_asks ?d (pk_transaction_action_obtain_authorization_finished_cb env a tid ?d)"
    unfolding pk_transaction_action_obtain_authorization_finished_cb_def Let_def split_beta
    by (cases a) (auto split: option.split intro: quiet_never_asks quiet.D_refl never_asks_trans [OF c]
        quiet.D_auth_refused quiet.D_trans [OF quiet.D_auth_refused quiet.D_effect] quiet.D_effect quiet.D_release
        never_asks_trans [OF commit])
  moreover have "list_ok ?d" using ok by (simp add: list_ok_answered)
  moreover have "no_foreign ?d"
    using d by (auto simp: no_foreign_def answered_def dest: in_set_takeD in_set_dropD)
  ultimately show ?thesis by (simp add: never_asks_def)
qed

lemma never_asks_dispatch:
  assumes plug: "plugins_keep quiet env" and i: "pending (d_loop d) i f"
  shows "never_asks d (daemon_dispatch env i f d)"
proof (cases "\<exists>tid. f = SRC_list_run_idle tid")
  case True
  then obtain tid where f: "f = SRC_list_run_idle tid" by blast
  show ?thesis
    unfolding f by (rule calm_never_asks [OF calm_run_idle [OF plug i [unfolded f]]])
next
  case False
  then show ?thesis by (intro quiet_never_asks quiet_dispatch [OF i]) blast
qed

lemma no_foreign_step:
  assumes plug: "plugins_keep quiet env" and ok: "list_ok d" and d: "no_foreign d"
    and st: "daemon_step env d e d'"
  shows "no_foreign d'"
proof -
  have *: "never_asks d d' \<Longrightarrow> no_foreign d'" using ok d by (simp add: never_asks_def)
  from st show ?thesis
  proof cases
    case (create tid sender)
    have "d_auth d' = d_auth d" unfolding create(2) list_create_eq [OF ok] by (cases sender) auto
    with d show ?thesis by (simp add: no_foreign_def)
  next
    case (call sender m tid)
    then show ?thesis using * never_asks_call [OF plug] by simp
  next
    case (timer i f)
    then show ?thesis using * never_asks_dispatch [OF plug] by simp
  next
    case (answer k a)
    then show ?thesis using no_foreign_answer [OF plug ok d] by simp
  next
    case (backend ev)
    then show ?thesis using * calm_never_asks [OF calm_backend [OF plug]] by simp
  next
    case (vanished tid)
    have "quiet d d'" unfolding vanished(2) by (rule quiet.D_life) simp
    then show ?thesis by (rule * [OF quiet_never_asks])
  next
    case cancel_background
    then show ?thesis using * quiet_never_asks [OF quiet.D_cancel_background [OF plug]] by simp
  qed
qed

text \<open>C31: Nobody ever cancels the work of another user: in every history, in which clients call any
  methods on any transactions, PolicyKit is never asked for the action that the policy file has for
  it, and a call of \<open>Cancel\<close> by another sender is refused and does nothing. The branch of
  \<open>pk_transaction_cancel\<close> that compares the users and asks is dead, since all methods refuse the
  senders that do not own the transaction. Plugins of the daemon are assumed to ask for nothing.\<close>

theorem cancel_foreign_never_asked:
  assumes "daemon_history env ok b d g" and "plugins_keep quiet env"
  shows "(\<forall>r \<in> set (d_auth d). ar_action_id r \<noteq> ''org.freedesktop.packagekit.cancel-foreign'') \<and>
    (\<forall>t owner. get_tr tid d = Some t \<and> tr_sender t = Some owner \<and> owner \<noteq> sender \<longrightarrow>
      (\<exists>message. pk_transaction_method_call env sender M_Cancel tid d =
        d\<lparr>d_effects := d_effects d @ [REPLY tid (Some (PK_TRANSACTION_ERROR_REFUSED_BY_POLICY, message))]\<rparr>))"
proof (intro conjI)
  have "no_foreign d"
    using assms(1)
  proof induction
    case start
    show ?case by (simp add: no_foreign_def daemon_start_def pk_transaction_list_init_def split_beta)
  next
    case (step d g e d')
    show ?case
      using no_foreign_step [OF assms(2) daemon_history_ok [OF step(1) plugins_quiet_keeps [OF assms(2)]] step(4,3)] .
  qed
  then show "\<forall>r \<in> set (d_auth d). ar_action_id r \<noteq> ''org.freedesktop.packagekit.cancel-foreign''"
    by (simp add: no_foreign_def)
qed (auto simp: pk_transaction_method_call_def reply_def effect_def)

lemma cancel_foreign_never_asked_witness:
  "d_items (pk_transaction_method_call example_env '':1.2'' M_Cancel ''/1'' (fst (the example_ready))) =
     d_items (fst (the example_ready))"
proof -
  obtain t where "get_tr ''/1'' (fst (the example_ready)) = Some t" "tr_sender t = Some '':1.1''"
    using example_ready_facts(7) by (auto simp: get_tr_def split: option.splits)
  with cancel_foreign_never_asked [OF example_ready_history example_plugins, of "''/1''" "'':1.2''"]
  obtain message where "pk_transaction_method_call example_env '':1.2'' M_Cancel ''/1'' (fst (the example_ready)) =
      (fst (the example_ready))\<lparr>d_effects := d_effects (fst (the example_ready)) @
        [REPLY ''/1'' (Some (PK_TRANSACTION_ERROR_REFUSED_BY_POLICY, message))]\<rparr>"
    by fastforce
  then show ?thesis by simp
qed

section \<open>Flaws\<close>

text \<open>With \<open>UseUpdateCache\<close> and an empty cache \<open>GetUpdates\<close> is answered with success, but nothing
  was found in the cache, nothing is committed and no timer is started: the client waits for
  results that never come.\<close>

theorem update_cache_hangs:
  assumes "get_tr tid d = Some t" and "tr_sender t = Some sender"
    and "pk_conf_get_bool (conf env) ''UseUpdateCache''" and "d_cache d = None"
    and "fst (is_implemented PK_ROLE_ENUM_GET_UPDATES d)"
    and "pk_transaction_filter_check (Some filters) = None"
  shows "d_loop (pk_transaction_method_call env sender (M_GetUpdates filters) tid d) = d_loop d \<and>
    map item_state (d_items (pk_transaction_method_call env sender (M_GetUpdates filters) tid d)) =
      map item_state (d_items d) \<and>
    d_effects (pk_transaction_method_call env sender (M_GetUpdates filters) tid d) =
      d_effects d @ [REPLY tid None]"
proof -
  define c where "c = snd (is_implemented PK_ROLE_ENUM_GET_UPDATES d)"
  define e where "e = prepare PK_ROLE_ENUM_GET_UPDATES
      (\<lambda>t. t\<lparr>cached_filters := pk_filter_bitfield_from_string (Some filters)\<rparr>) tid c"
  have c: "d_loop c = d_loop d" "d_items c = d_items d" "d_effects c = d_effects d" "d_cache c = None"
    using assms(4) by (simp_all add: c_def is_implemented_def split_beta)
  then have e: "d_loop e = d_loop d" "map item_state (d_items e) = map item_state (d_items d)"
    "d_effects e = d_effects d" "d_cache e = None"
    by (auto simp: e_def prepare_def upd_tr_def pk_transaction_set_role_def)
  have "get_tr tid e \<noteq> None"
    using assms(1) c(2) by (auto simp: e_def prepare_def upd_tr_def get_tr_def get_item_upd) (simp add: get_item_def)
  then have cached: "pk_transaction_try_emit_cache env tid e = (True, e)"
    using assms(3) e(4) by (auto simp: pk_transaction_try_emit_cache_def pk_cache_get_results_def)
  have "pk_transaction_get_updates env filters tid d = reply tid None e"
    using assms(5,6) cached
    by (simp add: pk_transaction_get_updates_def implemented_def split_beta Let_def check_filter_def
        check_of_def c_def e_def)
  then show ?thesis
    using assms(1,2) e by (simp add: pk_transaction_method_call_def method_body_def reply_def)
qed

definition example_cache_env :: environment where
  "example_cache_env = example_env\<lparr>conf := example_conf
     \<lparr>keyfile_boolean := (\<lambda>k. if k = ''UseUpdateCache'' then Some True else None)\<rparr>\<rparr>"

definition example_fresh :: daemon where
  "example_fresh =
     snd (pk_transaction_list_create example_env ''/1'' (Some '':1.1'') (daemon_start example_daemon_backend))"

lemma update_cache_hangs_witness:
  "d_loop (pk_transaction_method_call example_cache_env '':1.1'' (M_GetUpdates ''none'') ''/1'' example_fresh) =
     d_loop example_fresh"
proof -
  have "map_option tr_sender (get_tr ''/1'' example_fresh) = Some (Some '':1.1'')" by code_simp
  then obtain t where t: "get_tr ''/1'' example_fresh = Some t" "tr_sender t = Some '':1.1''" by auto
  have "pk_conf_get_bool (conf example_cache_env) ''UseUpdateCache'' \<and> d_cache example_fresh = None \<and>
      fst (is_implemented PK_ROLE_ENUM_GET_UPDATES example_fresh) \<and>
      pk_transaction_filter_check (Some ''none'') = None"
    by code_simp
  with update_cache_hangs [OF t] show ?thesis by blast
qed

text \<open>A question about a transaction that has started changes nothing but that it waits for the answer: its
  state would go back, which is refused, and the refusal is not looked at.\<close>

lemma question_started:
  assumes ok: "list_ok d" and item: "get_item tid d = Some item"
    and started: "PK_TRANSACTION_STATE_WAITING_FOR_AUTH < item_state item"
  shows "d_loop (question tid a d) = d_loop d"
    and "get_tr tid (question tid a d) = Some ((it_transaction item)\<lparr>tr_waiting_for_auth := True\<rparr>)"
proof -
  have "\<not> fst (set_state tid PK_TRANSACTION_STATE_WAITING_FOR_AUTH d)"
    using started fst_set_state [OF ok item] by simp
  then have same: "snd (set_state tid PK_TRANSACTION_STATE_WAITING_FOR_AUTH d) = d"
    by (rule set_state_refused [OF ok])
  show "d_loop (question tid a d) = d_loop d"
    by (simp add: question_def Let_def same upd_tr_def)
  have "get_item tid (question tid a d) = get_item tid (upd_tr tid (\<lambda>t. t\<lparr>tr_waiting_for_auth := True\<rparr>) d)"
    by (simp add: question_def Let_def same get_item_def)
  then show "get_tr tid (question tid a d) = Some ((it_transaction item)\<lparr>tr_waiting_for_auth := True\<rparr>)"
    using item by (simp add: get_tr_def upd_tr_def get_item_upd)
qed

text \<open>C30: A client gets past the authorization with a second method on its own transaction: if that one is
  about to run - a query, which is free, was committed, and its idle source has not fired - and the
  client calls \<open>RemovePackages\<close> with arguments that pass the checks, then PolicyKit is asked, but the
  idle source is still there, and the transaction that it will run is now the removal of those
  packages, for which nobody has given the authorization.\<close>

theorem second_method_bypasses_authorization:
  assumes ok: "list_ok d" and i: "pending (d_loop d) i (SRC_list_run_idle tid)"
    and t: "get_tr tid d = Some t" "tr_sender t = Some sender" "tr_subject t"
    and state: "tr_state t = PK_TRANSACTION_STATE_RUNNING"
    and checks: "fst (is_implemented PK_ROLE_ENUM_REMOVE_PACKAGES d)" "check_number env package_ids = Pass"
      "pk_package_ids_check (Some package_ids)"
    and g: "(tid, ''org.freedesktop.packagekit.package-remove'') \<notin> set g"
    and d': "d' = pk_transaction_method_call env sender (M_RemovePackages package_ids allow_deps autoremove) tid d"
  shows "pending (d_loop d') i (SRC_list_run_idle tid) \<and>
    (\<exists>r. d_auth d' = d_auth d @ [r] \<and> ar_action_id r = ''org.freedesktop.packagekit.package-remove'') \<and>
    (\<exists>t'. get_tr tid d' = Some t' \<and> tr_state t' = PK_TRANSACTION_STATE_RUNNING \<and>
      call_of t' = Some (VF_remove_packages package_ids allow_deps autoremove) \<and> \<not> allowed g tid t')"
proof -
  let ?a = "''org.freedesktop.packagekit.package-remove''"
  let ?save = "\<lambda>t. t\<lparr>cached_allow_deps := allow_deps, cached_autoremove := autoremove, cached_package_ids := package_ids\<rparr>"
  define c where "c = snd (is_implemented PK_ROLE_ENUM_REMOVE_PACKAGES d)"
  define p where "p = prepare PK_ROLE_ENUM_REMOVE_PACKAGES ?save tid c"
  define line where "line = ''uid '' @ fmt_i (tr_uid (?save t)) @ '' is trying to obtain '' @ ?a @ '' auth (only_trusted:0)''"
  define e where "e = effect (SYSLOG_AUTH line) p"
  define t' where "t' = pk_transaction_set_role PK_ROLE_ENUM_REMOVE_PACKAGES (?save t)"
  have c: "d_loop c = d_loop d" "d_items c = d_items d" "d_auth c = d_auth d"
    by (simp_all add: c_def is_implemented_def split_beta)
  obtain item where item: "get_item tid d = Some item" "it_transaction item = t"
    using t(1) by (auto simp: get_tr_Some)
  have "get_item tid c = Some item" using item(1) c(2) by (simp add: get_item_def)
  then have p: "get_item tid p = Some (item\<lparr>it_transaction := t'\<rparr>)"
    by (simp add: p_def prepare_def upd_tr_def get_item_upd t'_def item(2))
  have ok_p: "list_ok p"
    using keeps_prepare [of ?save c PK_ROLE_ENUM_REMOVE_PACKAGES tid] ok c
    by (simp add: keeps_def p_def list_ok_def)
  have fields: "tr_subject t' = tr_subject t" "tr_state t' = tr_state t" "tr_sender t' = tr_sender t"
    "tr_uid t' = tr_uid (?save t)"
    by (simp_all add: t'_def pk_transaction_set_role_def)
  have p_loop: "d_loop p = d_loop d" "d_auth p = d_auth d" by (simp_all add: p_def prepare_def upd_tr_def c)
  have e: "list_ok e" "get_item tid e = Some (item\<lparr>it_transaction := t'\<rparr>)" "d_loop e = d_loop d" "d_auth e = d_auth d"
    using ok_p p p_loop by (simp_all add: e_def list_ok_def get_item_def)
  have "pk_transaction_obtain_authorization tid False PK_ROLE_ENUM_REMOVE_PACKAGES p = (None, question tid ?a e)"
    using p t(3) fields by (simp add: pk_transaction_obtain_authorization_def get_tr_def question_def Let_def e_def line_def)
  then have d'_eq: "d' = reply tid None (question tid ?a e)"
    using t checks
    by (simp add: d' pk_transaction_method_call_def method_body_def pk_transaction_remove_packages_def
        implemented_def split_beta check_package_ids_def authorize_method_def authorize_then_def c_def p_def)
  have "PK_TRANSACTION_STATE_WAITING_FOR_AUTH < item_state (item\<lparr>it_transaction := t'\<rparr>)"
    by (simp add: fields state state_order)
  note q = question_started [OF e(1,2) this, of ?a]
  have loop: "d_loop d' = d_loop d" by (simp add: d'_eq reply_def q(1) e(3))
  have tr: "get_tr tid d' = Some (t'\<lparr>tr_waiting_for_auth := True\<rparr>)"
    using q(2) by (simp add: d'_eq reply_def get_tr_def get_item_def)
  have "\<not> allowed g tid (t'\<lparr>tr_waiting_for_auth := True\<rparr>)"
    using g by (simp add: allowed_def required_action_def action_for_def t'_def pk_transaction_set_role_def)
  moreover have "call_of (t'\<lparr>tr_waiting_for_auth := True\<rparr>) = Some (VF_remove_packages package_ids allow_deps autoremove)"
    by (simp add: call_of_def t'_def pk_transaction_set_role_def)
  moreover have "\<exists>r. d_auth d' = d_auth d @ [r] \<and> ar_action_id r = ?a"
    by (simp add: d'_eq reply_def question_auth e(4))
  ultimately show ?thesis using i loop tr fields(2) state by auto
qed

text \<open>The whole history: the plugin removes the packages, and the question is still open.\<close>

definition example_query_first :: "daemon_event list" where
  "example_query_first = [DE_create ''/1'' (Some '':1.1''), DE_call '':1.1'' (M_GetUpdates ''none'') ''/1'']"

definition example_bypassed :: daemon where
  "example_bypassed = pk_transaction_method_call example_env '':1.1''
     (M_RemovePackages [example_package] False False) ''/1'' (fst (the (example_run any_event example_query_first)))"

lemma second_method_bypasses_authorization_witness:
  "\<exists>r t'. d_auth example_bypassed = [r] \<and> get_tr ''/1'' example_bypassed = Some t' \<and>
     \<not> allowed [] ''/1'' t' \<and>
     VFUNC (VF_remove_packages [example_package] False False) \<in>
       set (emitted (d_backend (daemon_dispatch example_env 3 (SRC_list_run_idle ''/1'') example_bypassed)))"
proof -
  let ?s = "the (example_run any_event example_query_first)"
  have facts: "let s = example_run any_event example_query_first; d = fst (the s); t = the (get_tr ''/1'' d) in
      s \<noteq> None \<and> pending (d_loop d) 3 (SRC_list_run_idle ''/1'') \<and> get_tr ''/1'' d \<noteq> None \<and>
      tr_sender t = Some '':1.1'' \<and> tr_subject t \<and> tr_state t = PK_TRANSACTION_STATE_RUNNING \<and>
      fst (is_implemented PK_ROLE_ENUM_REMOVE_PACKAGES d) \<and>
      check_number example_env [example_package] = Pass \<and> pk_package_ids_check (Some [example_package]) \<and>
      d_auth d = [] \<and>
      VFUNC (VF_remove_packages [example_package] False False) \<in>
        set (emitted (d_backend (daemon_dispatch example_env 3 (SRC_list_run_idle ''/1'')
          (pk_transaction_method_call example_env '':1.1'' (M_RemovePackages [example_package] False False) ''/1'' d))))"
    by code_simp
  note f = facts [unfolded Let_def]
  have "example_run any_event example_query_first = Some (fst ?s, snd ?s)" using f by auto
  then have ok: "list_ok (fst ?s)" by (rule daemon_history_ok [OF example_history example_plugins])
  obtain t where t: "get_tr ''/1'' (fst ?s) = Some t" using f by auto
  from f t have "pending (d_loop (fst ?s)) 3 (SRC_list_run_idle ''/1'')" "tr_sender t = Some '':1.1''"
    "tr_subject t" "tr_state t = PK_TRANSACTION_STATE_RUNNING"
    "fst (is_implemented PK_ROLE_ENUM_REMOVE_PACKAGES (fst ?s))" "check_number example_env [example_package] = Pass"
    "pk_package_ids_check (Some [example_package])"
    by (simp_all only: option.sel)
  from second_method_bypasses_authorization [OF ok this(1) t this(2-7) _ example_bypassed_def, of "[]"] f
  show ?thesis unfolding example_bypassed_def by fastforce
qed

text \<open>A client that cancels a transaction which has ended without having run - its first cancel
  took it out of the queue, or PolicyKit has refused it - cancels whatever the backend is doing for
  somebody else: an ended transaction is taken for a running one, and the backend is not asked
  whose transaction it runs.\<close>

theorem second_cancel_hits_another:
  assumes "get_tr tid d = Some t" and "tr_sender t = Some sender" and "tr_role t \<noteq> PK_ROLE_ENUM_UNKNOWN"
    and "tr_state t = PK_TRANSACTION_STATE_FINISHED" and "\<not> tr_finished t"
    and "fst (is_implemented PK_ROLE_ENUM_CANCEL d)"
  shows "pk_transaction_method_call env sender M_Cancel tid d =
    reply tid None (cancel_running env PK_EXIT_ENUM_CANCELLED (snd (is_implemented PK_ROLE_ENUM_CANCEL d)))"
  using assms
  by (simp add: pk_transaction_method_call_def method_body_def pk_transaction_cancel_def split_beta state_order)

definition example_refused :: "daemon_event list" where
  "example_refused =
     [DE_create ''/1'' (Some '':1.1''), DE_call '':1.1'' (M_InstallPackages True [example_package]) ''/1'',
      DE_answer 0 AUTH_NOT_AUTHORIZED]"

lemma second_cancel_hits_another_witness:
  "pk_transaction_method_call example_env '':1.1'' M_Cancel ''/1''
     (fst (the (example_run single_use example_refused))) =
   reply ''/1'' None (cancel_running example_env PK_EXIT_ENUM_CANCELLED
     (snd (is_implemented PK_ROLE_ENUM_CANCEL (fst (the (example_run single_use example_refused))))))"
proof -
  let ?d = "fst (the (example_run single_use example_refused))"
  have "let d = fst (the (example_run single_use example_refused)) in
      (case get_tr ''/1'' d of None \<Rightarrow> False
       | Some t \<Rightarrow> tr_sender t = Some '':1.1'' \<and> tr_role t \<noteq> PK_ROLE_ENUM_UNKNOWN \<and>
          tr_state t = PK_TRANSACTION_STATE_FINISHED \<and> \<not> tr_finished t) \<and>
      fst (is_implemented PK_ROLE_ENUM_CANCEL d)"
    by code_simp
  then have "(case get_tr ''/1'' ?d of None \<Rightarrow> False
       | Some t \<Rightarrow> tr_sender t = Some '':1.1'' \<and> tr_role t \<noteq> PK_ROLE_ENUM_UNKNOWN \<and>
          tr_state t = PK_TRANSACTION_STATE_FINISHED \<and> \<not> tr_finished t)"
    and "fst (is_implemented PK_ROLE_ENUM_CANCEL ?d)"
    unfolding Let_def by (rule conjunct1, rule conjunct2)
  then show ?thesis using second_cancel_hits_another [of "''/1''" ?d] by (fastforce split: option.splits)
qed

text \<open>A second method on a transaction that is about to run removes it from the list, and with it
  its idle source; nobody starts the next one. The queue then holds a ready transaction, nothing runs, and
  no timer is left that would run it.\<close>

theorem release_stalls_queue:
  "\<exists>d. daemon_run example_env any_event
       [DE_create ''/1'' (Some '':1.1''), DE_call '':1.1'' (M_GetUpdates ''none'') ''/1'',
        DE_create ''/2'' (Some '':1.2''), DE_call '':1.2'' (M_GetDetails [example_package]) ''/2'',
        DE_call '':1.1'' (M_GetDetails [example_package]) ''/1'']
       (daemon_start example_daemon_backend, []) = Some (d, []) \<and>
     queue_of d = [(''/2'', PK_TRANSACTION_STATE_READY, False)] \<and>
     map snd (sources (d_loop d)) = [SRC_wedge_check1] \<and> d_auth d = []"
  by (rule run_result) code_simp

text \<open>An agreement counts as accepted as soon as the client has asked, before PolicyKit has answered:
  the plugin finds it in the list of accepted agreements while the question is still open.\<close>

theorem eula_accepted_unauthorized:
  "\<exists>d. daemon_run example_env single_use
       [DE_create ''/1'' (Some '':1.1''), DE_call '':1.1'' (M_AcceptEula ''vmware'') ''/1'']
       (daemon_start example_daemon_backend, []) = Some (d, []) \<and>
     pk_backend_is_eula_valid ''vmware'' (d_backend d) \<and>
     map ar_action_id (d_auth d) = [''org.freedesktop.packagekit.package-eula-accept'']"
  by (rule run_result) code_simp

text \<open>The warning that the software is not from a trusted source is part of the question for untrusted
  packages, but not of the one for untrusted local files: \<open>InstallFiles\<close> saves its arguments after it has
  asked.\<close>

theorem no_warning_for_files:
  "\<exists>d. daemon_run example_env single_use
       [DE_create ''/1'' (Some '':1.1''), DE_call '':1.1'' (M_InstallFiles False [''/tmp/a.rpm'']) ''/1'',
        DE_create ''/2'' (Some '':1.1''), DE_call '':1.1'' (M_InstallPackages False [example_package]) ''/2'']
       (daemon_start example_daemon_backend, []) = Some (d, []) \<and>
     map (\<lambda>r. (ar_tid r, ar_action_id r, map fst (ar_details r))) (d_auth d) =
       [(''/1'', ''org.freedesktop.packagekit.package-install-untrusted'', []),
        (''/2'', ''org.freedesktop.packagekit.package-install-untrusted'',
         [''package_ids'', ''polkit.icon_name'', ''polkit.gettext_domain'', ''polkit.message''])]"
  by (rule run_result) code_simp

end
