(* ===== verification/PK_Spawn.thy ===== *)
theory PK_Spawn
  imports PK_Main_Loop PK_Conf
begin

text \<open>
  Helper processes (\<open>src/src/pk-spawn.c\<close>): starting one or reusing the one that waits for
  commands, reading its output line by line, and the ways in which it ends. What the kernel
  answers to \<open>read\<close>, \<open>write\<close>, \<open>kill\<close>, \<open>waitpid\<close> and the spawning of a process is an argument of the
  function that asks; what is sent to the kernel, and the signals of the object, are appended
  to \<open>sp_emitted\<close> in the order of the code. Descriptors and process ids are integers with -1
  for none.
\<close>

section \<open>State\<close>

datatype PkSpawnExitType =
    PK_SPAWN_EXIT_TYPE_SUCCESS | PK_SPAWN_EXIT_TYPE_FAILED
  | PK_SPAWN_EXIT_TYPE_DISPATCHER_CHANGED | PK_SPAWN_EXIT_TYPE_DISPATCHER_EXIT
  | PK_SPAWN_EXIT_TYPE_SIGQUIT | PK_SPAWN_EXIT_TYPE_SIGKILL | PK_SPAWN_EXIT_TYPE_UNKNOWN

datatype spawn_signal =
    SPAWN_EXIT PkSpawnExitType
  | SPAWN_STDOUT string
  | SPAWN_STDERR string
  | SYS_close int
  | SYS_kill int nat
  | SYS_write int string
  | SYS_spawn "string list" "string list"
  | SYS_nice int int
  | SYS_idle_io int

datatype spawn_source = SRC_check_child | SRC_sigkill

record PkSpawn =
  sp_child_pid :: int
  sp_stdin_fd :: int
  sp_stdout_fd :: int
  sp_stderr_fd :: int
  sp_poll_id :: nat
  sp_kill_id :: nat
  sp_finished :: bool
  sp_background :: bool
  sp_is_sending_exit :: bool
  sp_is_changing_dispatcher :: bool
  sp_allow_sigkill :: bool
  sp_exit :: PkSpawnExitType
  sp_stdout_buf :: string
  sp_stderr_buf :: string
  sp_last_argv0 :: "string option"
  sp_last_envp :: "string list option"
  sp_loop :: "spawn_source main_loop"
  sp_emitted :: "spawn_signal list"

definition pk_spawn_init :: PkSpawn where
  "pk_spawn_init =
     \<lparr>sp_child_pid = - 1, sp_stdin_fd = - 1, sp_stdout_fd = - 1, sp_stderr_fd = - 1,
      sp_poll_id = 0, sp_kill_id = 0, sp_finished = False, sp_background = False,
      sp_is_sending_exit = False, sp_is_changing_dispatcher = False, sp_allow_sigkill = True,
      sp_exit = PK_SPAWN_EXIT_TYPE_UNKNOWN, sp_stdout_buf = [], sp_stderr_buf = [],
      sp_last_argv0 = None, sp_last_envp = None, sp_loop = main_loop_new, sp_emitted = []\<rparr>"

definition spawn_emit :: "spawn_signal \<Rightarrow> PkSpawn \<Rightarrow> PkSpawn" where
  "spawn_emit s sp = sp\<lparr>sp_emitted := sp_emitted sp @ [s]\<rparr>"

definition spawn_add :: "spawn_source \<Rightarrow> PkSpawn \<Rightarrow> nat \<times> PkSpawn" where
  "spawn_add f sp = (let (i, m) = g_source_add f (sp_loop sp) in (i, sp\<lparr>sp_loop := m\<rparr>))"

definition spawn_remove :: "nat \<Rightarrow> PkSpawn \<Rightarrow> PkSpawn" where
  "spawn_remove i sp = sp\<lparr>sp_loop := g_source_remove i (sp_loop sp)\<rparr>"

section \<open>Output of the helper\<close>

text \<open>
  The chunks are what \<open>read\<close> returns before it would block; each one is appended as a C string,
  so up to its first NUL byte.
\<close>

definition pk_spawn_read_fd_into_buffer :: "string list \<Rightarrow> string \<Rightarrow> string" where
  "pk_spawn_read_fd_into_buffer chunks buf =
     foldl (\<lambda>buf chunk. buf @ takeWhile (\<lambda>c. c \<noteq> CHR 0x00) chunk) buf chunks"

fun emit_lines :: "string list \<Rightarrow> nat \<Rightarrow> PkSpawn \<Rightarrow> nat \<times> PkSpawn" where
  "emit_lines [] bytes sp = (bytes, sp)"
| "emit_lines (line # lines) bytes sp =
     emit_lines lines (bytes + (length line + 1)) (spawn_emit (SPAWN_STDOUT line) sp)"

text \<open>The part before the last newline is emitted line by line and erased from the buffer.\<close>

definition pk_spawn_emit_whole_lines :: "PkSpawn \<Rightarrow> bool \<times> PkSpawn" where
  "pk_spawn_emit_whole_lines sp =
     (if pk_strzero (Some (sp_stdout_buf sp)) then (False, sp)
      else
        let lines = g_strsplit CHR 0x0A (sp_stdout_buf sp);
            size = length lines;
            (bytes_processed, sp) = emit_lines (take (size - 1) lines) 0 sp
        in (True, sp\<lparr>sp_stdout_buf := drop bytes_processed (sp_stdout_buf sp)\<rparr>))"

definition pk_spawn_exit_type_enum_to_string :: "PkSpawnExitType \<Rightarrow> string" where
  "pk_spawn_exit_type_enum_to_string type =
     (if type = PK_SPAWN_EXIT_TYPE_SUCCESS then ''success''
      else if type = PK_SPAWN_EXIT_TYPE_FAILED then ''failed''
      else if type = PK_SPAWN_EXIT_TYPE_DISPATCHER_CHANGED then ''dispatcher-changed''
      else if type = PK_SPAWN_EXIT_TYPE_DISPATCHER_EXIT then ''dispatcher-exit''
      else if type = PK_SPAWN_EXIT_TYPE_SIGQUIT then ''sigquit''
      else if type = PK_SPAWN_EXIT_TYPE_SIGKILL then ''sigkill''
      else ''unknown'')"

section \<open>Looking at the helper\<close>

text \<open>How a process has ended, as \<open>waitpid\<close> tells: by a signal, by itself, or not at all.\<close>

datatype wait_status = WS_SIGNALED nat | WS_EXITED nat | WS_OTHER

record child_poll =
  cp_stdout :: "string list"
  cp_stderr :: "string list"
  cp_pid :: int
  cp_status :: wait_status

definition SIGQUIT :: nat where "SIGQUIT = 3"
definition SIGKILL :: nat where "SIGKILL = 9"

definition read_output :: "child_poll \<Rightarrow> PkSpawn \<Rightarrow> PkSpawn" where
  "read_output p sp =
     (let sp = sp\<lparr>sp_stdout_buf := pk_spawn_read_fd_into_buffer (cp_stdout p) (sp_stdout_buf sp)\<rparr>;
          sp = sp\<lparr>sp_stderr_buf := pk_spawn_read_fd_into_buffer (cp_stderr p) (sp_stderr_buf sp)\<rparr>;
          sp = (if sp_stderr_buf sp \<noteq> []
                then (spawn_emit (SPAWN_STDERR (sp_stderr_buf sp)) sp)\<lparr>sp_stderr_buf := []\<rparr> else sp)
      in snd (pk_spawn_emit_whole_lines sp))"

definition close_child :: "PkSpawn \<Rightarrow> PkSpawn" where
  "close_child sp =
     (let sp = (if 0 < sp_poll_id sp then (spawn_remove (sp_poll_id sp) sp)\<lparr>sp_poll_id := 0\<rparr> else sp);
          sp = spawn_emit (SYS_close (sp_stdin_fd sp)) sp;
          sp = spawn_emit (SYS_close (sp_stdout_fd sp)) sp;
          sp = spawn_emit (SYS_close (sp_stderr_fd sp)) sp
      in sp\<lparr>sp_stdin_fd := - 1, sp_stdout_fd := - 1, sp_stderr_fd := - 1, sp_child_pid := - 1\<rparr>)"

text \<open>The exit type is set by a signal always, by a normal end only if it was not set before.\<close>

definition set_exit :: "wait_status \<Rightarrow> PkSpawn \<Rightarrow> PkSpawn option" where
  "set_exit status sp =
     (case status of
        WS_SIGNALED retval \<Rightarrow>
          if retval = SIGQUIT then Some (sp\<lparr>sp_exit := PK_SPAWN_EXIT_TYPE_SIGQUIT\<rparr>)
          else if retval = SIGKILL then Some (sp\<lparr>sp_exit := PK_SPAWN_EXIT_TYPE_SIGKILL\<rparr>)
          else Some (sp\<lparr>sp_exit := PK_SPAWN_EXIT_TYPE_SIGKILL\<rparr>)
      | WS_OTHER \<Rightarrow> None
      | WS_EXITED retval \<Rightarrow>
          if retval = 0 then
            Some (if sp_exit sp = PK_SPAWN_EXIT_TYPE_UNKNOWN
                  then sp\<lparr>sp_exit := PK_SPAWN_EXIT_TYPE_SUCCESS\<rparr> else sp)
          else
            Some (if sp_exit sp = PK_SPAWN_EXIT_TYPE_UNKNOWN
                  then sp\<lparr>sp_exit := PK_SPAWN_EXIT_TYPE_FAILED\<rparr> else sp))"

definition emit_exit :: "PkSpawn \<Rightarrow> PkSpawn" where
  "emit_exit sp =
     (let sp = sp\<lparr>sp_finished := True\<rparr>;
          sp = (if sp_kill_id sp \<noteq> 0 then (spawn_remove (sp_kill_id sp) sp)\<lparr>sp_kill_id := 0\<rparr> else sp);
          sp = (if sp_is_changing_dispatcher sp
                then sp\<lparr>sp_exit := PK_SPAWN_EXIT_TYPE_DISPATCHER_CHANGED\<rparr>
                else if sp_is_sending_exit sp
                then sp\<lparr>sp_exit := PK_SPAWN_EXIT_TYPE_DISPATCHER_EXIT\<rparr> else sp)
      in spawn_emit (SPAWN_EXIT (sp_exit sp)) sp)"

definition pk_spawn_check_child :: "child_poll \<Rightarrow> PkSpawn \<Rightarrow> bool \<times> PkSpawn" where
  "pk_spawn_check_child p sp =
     (if sp_finished sp then (False, sp)
      else
        let sp = read_output p sp;
            pid = cp_pid p
        in
        if pid = - 1 then (True, sp)
        else if pid = 0 then (True, sp)
        else if pid \<noteq> sp_child_pid sp then (True, sp)
        else
          let sp = close_child sp in
          (case set_exit (cp_status p) sp of
             None \<Rightarrow> (True, sp)
           | Some sp \<Rightarrow> (False, emit_exit sp)))"

definition pk_spawn_is_running :: "PkSpawn \<Rightarrow> bool" where
  "pk_spawn_is_running sp = (sp_child_pid sp \<noteq> - 1)"

section \<open>Ending a helper\<close>

text \<open>
  \<open>retval\<close> is what \<open>kill\<close> returns. It is compared with the error numbers although \<open>kill\<close>
  returns -1 when it fails.
\<close>

definition EPERM :: int where "EPERM = 1"
definition EINVAL :: int where "EINVAL = 22"

definition pk_spawn_sigkill_cb :: "int \<Rightarrow> PkSpawn \<Rightarrow> PkSpawn" where
  "pk_spawn_sigkill_cb retval sp =
     (if sp_finished sp then sp
      else
        let sp = sp\<lparr>sp_exit := PK_SPAWN_EXIT_TYPE_SIGKILL\<rparr>;
            sp = spawn_emit (SYS_kill (sp_child_pid sp) SIGKILL) sp
        in if retval = EINVAL then sp else if retval = EPERM then sp else sp)"

definition pk_spawn_kill :: "int \<Rightarrow> PkSpawn \<Rightarrow> bool \<times> PkSpawn" where
  "pk_spawn_kill retval sp =
     (if sp_kill_id sp \<noteq> 0 then (False, sp)
      else if sp_child_pid sp = - 1 then (False, sp)
      else if sp_finished sp then (False, sp)
      else
        let sp = sp\<lparr>sp_exit := PK_SPAWN_EXIT_TYPE_SIGQUIT\<rparr>;
            sp = spawn_emit (SYS_kill (sp_child_pid sp) SIGQUIT) sp
        in if retval = EINVAL then (False, sp)
           else if retval = EPERM then (False, sp)
           else if sp_allow_sigkill sp then
             let (i, sp) = spawn_add SRC_sigkill sp in (True, sp\<lparr>sp_kill_id := i\<rparr>)
           else (True, sp))"

text \<open>\<open>wrote\<close> is what \<open>write\<close> returns: the number of bytes, or -1.\<close>

definition pk_spawn_send_stdin :: "int \<Rightarrow> string \<Rightarrow> PkSpawn \<Rightarrow> bool \<times> PkSpawn" where
  "pk_spawn_send_stdin wrote command sp =
     (if sp_finished sp then (False, sp)
      else if sp_child_pid sp = - 1 then (False, sp)
      else
        let buffer = command @ [CHR 0x0A];
            sp = spawn_emit (SYS_write (sp_stdin_fd sp) buffer) sp
        in if wrote \<noteq> int (length buffer) then (False, sp) else (True, sp))"

text \<open>
  The loop that waits for the end: \<open>polls k\<close> is what the helper shows at its \<open>k\<close>-th look. It
  returns \<open>ret\<close> and \<open>count\<close> as the code has them after the loop.
\<close>

function exit_loop :: "(nat \<Rightarrow> child_poll) \<Rightarrow> nat \<Rightarrow> PkSpawn \<Rightarrow> bool \<times> nat \<times> PkSpawn" where
  "exit_loop polls count sp =
     (let (ret, sp) = pk_spawn_check_child (polls count) sp in
      if ret then
        if count < 500 then exit_loop polls (Suc count) sp else (ret, Suc count, sp)
      else (ret, count, sp))"
  by pat_completeness auto
termination by (relation "measure (\<lambda>(polls, count, sp). 501 - count)") auto

declare exit_loop.simps [simp del]

definition pk_spawn_exit :: "int \<Rightarrow> (nat \<Rightarrow> child_poll) \<Rightarrow> PkSpawn \<Rightarrow> bool \<times> PkSpawn" where
  "pk_spawn_exit wrote polls sp =
     (if sp_is_sending_exit sp then (False, sp)
      else
        let sp = sp\<lparr>sp_is_sending_exit := True\<rparr>;
            (ret, sp) = pk_spawn_send_stdin wrote ''exit'' sp
        in if \<not> ret then (ret, sp\<lparr>sp_is_sending_exit := False\<rparr>)
           else
             let (ret, count, sp) = exit_loop polls 0 sp;
                 ret = (if count < 500 then True else ret)
             in (ret, sp\<lparr>sp_is_sending_exit := False\<rparr>))"

section \<open>Starting a helper\<close>

function strvequal_loop :: "string list \<Rightarrow> string list \<Rightarrow> nat \<Rightarrow> bool" where
  "strvequal_loop id1 id2 i =
     (if i < length id1 then (if id1 ! i \<noteq> id2 ! i then False else strvequal_loop id1 id2 (Suc i))
      else True)"
  by pat_completeness auto
termination by (relation "measure (\<lambda>(id1, id2, i). length id1 - i)") auto

declare strvequal_loop.simps [simp del]

definition pk_strvequal :: "string list option \<Rightarrow> string list option \<Rightarrow> bool" where
  "pk_strvequal id1 id2 =
     (case (id1, id2) of
        (None, None) \<Rightarrow> True
      | (Some a, Some b) \<Rightarrow> if length a \<noteq> length b then False else strvequal_loop a b 0
      | _ \<Rightarrow> False)"

text \<open>
  The answers while a helper is started: to the command for the old one, to its \<open>exit\<close>, what
  it shows until it has gone, and to the spawning: a message, or the process and its pipes.
\<close>

record spawn_answers =
  sa_wrote_command :: int
  sa_wrote_exit :: int
  sa_polls :: "nat \<Rightarrow> child_poll"
  sa_spawn :: "string + (int \<times> int \<times> int \<times> int)"

definition clamp_nice :: "int \<Rightarrow> int" where
  "clamp_nice n = (if 19 < n then 19 else if n < - 20 then - 20 else n)"

text \<open>The helper can be reused if it is the same program with the same environment.\<close>

definition reuse_child :: "spawn_answers \<Rightarrow> string list \<Rightarrow> string list \<Rightarrow> PkSpawn \<Rightarrow> bool \<times> PkSpawn" where
  "reuse_child a argv envp sp =
     (if sp_last_argv0 sp \<noteq> (case argv of [] \<Rightarrow> None | x # _ \<Rightarrow> Some x) then (False, sp)
      else if \<not> pk_strvequal (sp_last_envp sp) (Some envp) then (False, sp)
      else pk_spawn_send_stdin (sa_wrote_command a) (g_strjoinv [CHR 0x09] (tl argv)) sp)"

definition change_dispatcher :: "spawn_answers \<Rightarrow> PkSpawn \<Rightarrow> PkSpawn" where
  "change_dispatcher a sp =
     (let sp = sp\<lparr>sp_is_changing_dispatcher := True\<rparr>;
          (ret, sp) = pk_spawn_exit (sa_wrote_exit a) (sa_polls a) sp;
          sp = (if \<not> ret \<and> sp_poll_id sp \<noteq> 0
                then (spawn_remove (sp_poll_id sp) sp)\<lparr>sp_poll_id := 0\<rparr> else sp)
      in sp\<lparr>sp_is_changing_dispatcher := False\<rparr>)"

definition start_child ::
  "PkConf \<Rightarrow> spawn_answers \<Rightarrow> string list \<Rightarrow> string list \<Rightarrow> PkSpawn \<Rightarrow> string option \<times> PkSpawn" where
  "start_child conf a argv envp sp =
     (let sp = sp\<lparr>sp_finished := False\<rparr>;
          sp = spawn_emit (SYS_spawn argv envp) sp
      in (case sa_spawn a of
            Inl message \<Rightarrow> (Some (''failed to spawn '' @ hd argv @ '': '' @ message), sp)
          | Inr (pid, stdin, stdout, stderr) \<Rightarrow>
              let sp = sp\<lparr>sp_child_pid := pid, sp_stdin_fd := stdin, sp_stdout_fd := stdout,
                          sp_stderr_fd := stderr\<rparr>;
                  key = (if sp_background sp then ''BackendSpawnNiceValueBackground''
                         else ''BackendSpawnNiceValue'');
                  nice_value = clamp_nice (pk_conf_get_int conf key);
                  sp = (if nice_value \<noteq> 0 then spawn_emit (SYS_nice (sp_child_pid sp) nice_value) sp
                        else sp);
                  key = (if sp_background sp then ''BackendSpawnIdleIOBackground''
                         else ''BackendSpawnIdleIO'');
                  idleio = pk_conf_get_bool conf key;
                  sp = (if idleio then spawn_emit (SYS_idle_io (sp_child_pid sp)) sp else sp);
                  sp = sp\<lparr>sp_last_argv0 := (case argv of [] \<Rightarrow> None | x # _ \<Rightarrow> Some x),
                          sp_last_envp := Some envp\<rparr>;
                  sp = (if sp_poll_id sp \<noteq> 0 then spawn_remove (sp_poll_id sp) sp else sp);
                  (i, sp) = spawn_add SRC_check_child sp
              in (None, sp\<lparr>sp_poll_id := i\<rparr>)))"

text \<open>\<open>None\<close> is success, \<open>Some\<close> the message of the error.\<close>

definition pk_spawn_argv ::
  "PkConf \<Rightarrow> spawn_answers \<Rightarrow> string list \<Rightarrow> string list \<Rightarrow> PkSpawn \<Rightarrow> string option \<times> PkSpawn" where
  "pk_spawn_argv conf a argv envp sp =
     (if sp_is_sending_exit sp then
        (Some ''trying to use instance that is in the process of exiting'', sp)
      else if sp_stdin_fd sp \<noteq> - 1 then
        let (ret, sp) = reuse_child a argv envp sp in
        if ret then (None, sp)
        else start_child conf a argv envp (change_dispatcher a sp)
      else start_child conf a argv envp sp)"

definition pk_spawn_finalize :: "int \<Rightarrow> PkSpawn \<Rightarrow> PkSpawn" where
  "pk_spawn_finalize retval sp =
     (let sp = (if sp_poll_id sp \<noteq> 0 then (spawn_remove (sp_poll_id sp) sp)\<lparr>sp_poll_id := 0\<rparr> else sp);
          sp = (if sp_kill_id sp \<noteq> 0 then (spawn_remove (sp_kill_id sp) sp)\<lparr>sp_kill_id := 0\<rparr> else sp)
      in if sp_stdin_fd sp \<noteq> - 1 then
           let sp = snd (pk_spawn_kill retval sp)
           in (if sp_kill_id sp \<noteq> 0 then spawn_remove (sp_kill_id sp) sp else sp)
         else sp)"

end
