(* ===== verification/PK_Spawn_Laws.thy ===== *)
theory PK_Spawn_Laws
  imports PK_Spawn
begin

text \<open>
  What the helper processes can rely on: every line of output is seen once, whatever pieces it
  arrives in; in every history at most one timer looks at the helper, and a running helper is
  looked at unless a restart has failed; and how the exit type of one helper is reported for the next.
\<close>

section \<open>Lines\<close>

abbreviation newline :: char where
  "newline \<equiv> CHR 0x0A"

lemma emit_lines_eq:
  "emit_lines ls n sp =
     (n + length (concat (map (\<lambda>l. l @ [newline]) ls)), sp\<lparr>sp_emitted := sp_emitted sp @ map SPAWN_STDOUT ls\<rparr>)"
  by (induction ls n sp rule: emit_lines.induct) (simp_all add: spawn_emit_def)

lemma split_on_pieces:
  "s = concat (map (\<lambda>l. l @ [d]) (butlast (split_on d s))) @ last (split_on d s)"
proof (induction s)
  case (Cons c s)
  then show ?case by (cases "split_on d s") (auto split: if_splits)
qed simp

lemma emit_whole_lines_eq:
  "snd (pk_spawn_emit_whole_lines sp) =
     sp\<lparr>sp_stdout_buf := last (split_on newline (sp_stdout_buf sp)),
        sp_emitted := sp_emitted sp @ map SPAWN_STDOUT (butlast (split_on newline (sp_stdout_buf sp)))\<rparr>"
proof (cases "sp_stdout_buf sp = []")
  case True
  then show ?thesis by (simp add: pk_spawn_emit_whole_lines_def pk_strzero_def)
next
  case False
  let ?ls = "split_on newline (sp_stdout_buf sp)"
  have "drop (length (concat (map (\<lambda>l. l @ [newline]) (butlast ?ls)))) (sp_stdout_buf sp) = last ?ls"
    by (metis append_eq_conv_conj split_on_pieces)
  with False show ?thesis
    by (simp add: pk_spawn_emit_whole_lines_def pk_strzero_def g_strsplit_def emit_lines_eq Let_def butlast_conv_take)
qed

lemma split_on_app:
  "split_on d (s @ t) =
     butlast (split_on d s) @ split_on d (last (split_on d s) @ t)"
proof (induction s)
  case (Cons c s)
  obtain w ws where w: "split_on d s = w # ws" by (cases "split_on d s") auto
  show ?case
  proof (cases "ws = []")
    case True
    with Cons w show ?thesis by (cases "split_on d (w @ t)") auto
  next
    case False
    with Cons w show ?thesis by auto
  qed
qed simp

text \<open>One look at the output: what can be read is put into the buffer, the whole lines are emitted.\<close>

definition feed :: "string list \<Rightarrow> PkSpawn \<Rightarrow> PkSpawn" where
  "feed chunks sp =
     snd (pk_spawn_emit_whole_lines
       (sp\<lparr>sp_stdout_buf := pk_spawn_read_fd_into_buffer chunks (sp_stdout_buf sp)\<rparr>))"

lemma read_fd_eq:
  "\<forall>c \<in> set chunks. CHR 0x00 \<notin> set c \<Longrightarrow> pk_spawn_read_fd_into_buffer chunks buf = buf @ concat chunks"
proof (induction chunks arbitrary: buf)
  case (Cons c cs)
  have "takeWhile (\<lambda>x. x \<noteq> CHR 0x00) c = c"
    using Cons.prems by (auto simp: takeWhile_eq_all_conv)
  with Cons show ?case by (simp add: pk_spawn_read_fd_into_buffer_def)
qed (simp add: pk_spawn_read_fd_into_buffer_def)

lemma feed_eq:
  "\<forall>c \<in> set chunks. CHR 0x00 \<notin> set c \<Longrightarrow>
   feed chunks sp = sp\<lparr>sp_stdout_buf := last (split_on newline (sp_stdout_buf sp @ concat chunks)),
     sp_emitted := sp_emitted sp @ map SPAWN_STDOUT (butlast (split_on newline (sp_stdout_buf sp @ concat chunks)))\<rparr>"
  by (simp add: feed_def emit_whole_lines_eq read_fd_eq)

lemma feeds_eq:
  assumes "\<forall>chunks \<in> set looks. \<forall>c \<in> set chunks. CHR 0x00 \<notin> set c"
    and "newline \<notin> set (sp_stdout_buf sp)"
  shows "fold feed looks sp =
    sp\<lparr>sp_stdout_buf := last (split_on newline (sp_stdout_buf sp @ concat (concat looks))),
       sp_emitted := sp_emitted sp @
         map SPAWN_STDOUT (butlast (split_on newline (sp_stdout_buf sp @ concat (concat looks))))\<rparr>"
  using assms
proof (induction looks arbitrary: sp)
  case Nil
  then show ?case by (simp add: split_on_id)
next
  case (Cons l ls)
  let ?b = "sp_stdout_buf sp @ concat l"
  have "newline \<notin> set (last (split_on newline ?b))"
    by (metis last_in_set split_on_no_delim split_on_not_Nil)
  with Cons.prems Cons.IH [of "feed l sp"]
  have "fold feed ls (feed l sp) = (feed l sp)
    \<lparr>sp_stdout_buf := last (split_on newline (sp_stdout_buf (feed l sp) @ concat (concat ls))),
     sp_emitted := sp_emitted (feed l sp) @
       map SPAWN_STDOUT (butlast (split_on newline (sp_stdout_buf (feed l sp) @ concat (concat ls))))\<rparr>"
    by (simp add: feed_eq)
  with Cons.prems split_on_app [of newline ?b "concat (concat ls)"] show ?case
    by (simp add: feed_eq butlast_append)
qed

lemma split_on_lines:
  "\<forall>w \<in> set ws. d \<notin> set w \<Longrightarrow> split_on d (concat (map (\<lambda>w. w @ [d]) ws)) = ws @ [[]]"
  by (induction ws) (simp_all add: split_on_append)

section \<open>Timers\<close>

definition timers_ok :: "PkSpawn \<Rightarrow> bool" where
  "timers_ok sp \<longleftrightarrow> loop_ok (sp_loop sp) \<and>
     (\<forall>i. pending (sp_loop sp) i SRC_check_child \<longrightarrow> i = sp_poll_id sp) \<and>
     (\<forall>i. pending (sp_loop sp) i SRC_sigkill \<longrightarrow> i = sp_kill_id sp)"

definition exits :: "spawn_signal list \<Rightarrow> nat" where
  "exits es = length (filter (\<lambda>s. case s of SPAWN_EXIT t \<Rightarrow> True | _ \<Rightarrow> False) es)"

definition spawns :: "spawn_signal list \<Rightarrow> nat" where
  "spawns es = length (filter (\<lambda>s. case s of SYS_spawn argv envp \<Rightarrow> True | _ \<Rightarrow> False) es)"

lemma exits_append [simp]: "exits (es @ fs) = exits es + exits fs"
  by (simp add: exits_def)

lemma spawns_append [simp]: "spawns (es @ fs) = spawns es + spawns fs"
  by (simp add: spawns_def)

lemma exits_simps [simp]:
  "exits [] = 0" "exits (map SPAWN_STDOUT ls) = 0"
  "exits (s # es) = (case s of SPAWN_EXIT t \<Rightarrow> 1 | _ \<Rightarrow> 0) + exits es"
  by (simp_all add: exits_def filter_empty_conv split: spawn_signal.split)

lemma spawns_simps [simp]:
  "spawns [] = 0" "spawns (map SPAWN_STDOUT ls) = 0"
  "spawns (s # es) = (case s of SYS_spawn argv envp \<Rightarrow> 1 | _ \<Rightarrow> 0) + spawns es"
  by (simp_all add: spawns_def filter_empty_conv split: spawn_signal.split)

text \<open>
  What holds all the time: the timers are known by their ids, the pipes belong to a process, a
  process is not finished, and no more helpers have ended than were started.
\<close>

definition spawn_ok :: "PkSpawn \<Rightarrow> bool" where
  "spawn_ok sp \<longleftrightarrow> timers_ok sp \<and> (sp_child_pid sp = - 1 \<longleftrightarrow> sp_stdin_fd sp = - 1) \<and>
     (sp_child_pid sp \<noteq> - 1 \<longrightarrow> \<not> sp_finished sp) \<and>
     exits (sp_emitted sp) + (if sp_child_pid sp \<noteq> - 1 then 1 else 0) \<le> spawns (sp_emitted sp)"

definition watched :: "PkSpawn \<Rightarrow> bool" where
  "watched sp \<longleftrightarrow>
     (sp_child_pid sp \<noteq> - 1 \<longrightarrow> pending (sp_loop sp) (sp_poll_id sp) SRC_check_child)"

lemmas spawn_loop_simps = spawn_emit_def spawn_add_def spawn_remove_def loop_ok_add loop_ok_remove
  pending_remove split_beta

lemma spawn_ok_simps [simp]:
  "spawn_ok (sp\<lparr>sp_stdout_buf := b\<rparr>) = spawn_ok sp"
  "spawn_ok (sp\<lparr>sp_stderr_buf := b\<rparr>) = spawn_ok sp"
  "spawn_ok (sp\<lparr>sp_exit := x\<rparr>) = spawn_ok sp"
  "spawn_ok (sp\<lparr>sp_is_sending_exit := c\<rparr>) = spawn_ok sp"
  "spawn_ok (sp\<lparr>sp_is_changing_dispatcher := c\<rparr>) = spawn_ok sp"
  "spawn_ok (sp\<lparr>sp_background := c\<rparr>) = spawn_ok sp"
  "spawn_ok (sp\<lparr>sp_allow_sigkill := c\<rparr>) = spawn_ok sp"
  by (simp_all add: spawn_ok_def timers_ok_def)

lemma watched_simps [simp]:
  "watched (sp\<lparr>sp_stdout_buf := b\<rparr>) = watched sp"
  "watched (sp\<lparr>sp_stderr_buf := b\<rparr>) = watched sp"
  "watched (sp\<lparr>sp_exit := x\<rparr>) = watched sp"
  "watched (sp\<lparr>sp_is_sending_exit := c\<rparr>) = watched sp"
  "watched (sp\<lparr>sp_is_changing_dispatcher := c\<rparr>) = watched sp"
  "watched (sp\<lparr>sp_background := c\<rparr>) = watched sp"
  "watched (sp\<lparr>sp_allow_sigkill := c\<rparr>) = watched sp"
  "watched (spawn_emit s sp) = watched sp"
  by (simp_all add: watched_def spawn_emit_def)

lemma spawn_ok_emit:
  "spawn_ok sp \<Longrightarrow> exits [s] = 0 \<Longrightarrow> spawn_ok (spawn_emit s sp)"
  by (auto simp: spawn_ok_def timers_ok_def spawn_emit_def split: spawn_signal.splits)

lemma read_output_ok:
  assumes "spawn_ok sp"
  shows "spawn_ok (read_output p sp)" and "watched (read_output p sp) = watched sp"
    and "sp_child_pid (read_output p sp) = sp_child_pid sp"
    and "sp_finished (read_output p sp) = sp_finished sp"
  using assms
  by (auto simp: read_output_def Let_def emit_whole_lines_eq spawn_ok_def timers_ok_def watched_def
      spawn_emit_def)

lemma close_child_ok:
  assumes "spawn_ok sp" and "sp_child_pid sp \<noteq> - 1"
  shows "spawn_ok (close_child sp)" and "sp_child_pid (close_child sp) = - 1"
    and "exits (sp_emitted (close_child sp)) < spawns (sp_emitted (close_child sp))"
  using assms
  by (auto simp: close_child_def Let_def spawn_ok_def timers_ok_def spawn_loop_simps)

lemma set_exit_ok:
  "spawn_ok sp \<Longrightarrow> set_exit status sp = Some sp' \<Longrightarrow> spawn_ok sp' \<and>
     sp_child_pid sp' = sp_child_pid sp \<and> sp_emitted sp' = sp_emitted sp"
  by (auto simp: set_exit_def split: wait_status.splits if_splits)

lemma emit_exit_ok:
  assumes "spawn_ok sp" and "sp_child_pid sp = - 1" and "exits (sp_emitted sp) < spawns (sp_emitted sp)"
  shows "spawn_ok (emit_exit sp)" and "sp_child_pid (emit_exit sp) = - 1"
  using assms by (auto simp: emit_exit_def Let_def spawn_ok_def timers_ok_def spawn_loop_simps)

lemma gone_watched: "sp_child_pid sp = - 1 \<Longrightarrow> watched sp"
  by (simp add: watched_def)

lemma check_child_ok:
  assumes "spawn_ok sp"
  shows "spawn_ok (snd (pk_spawn_check_child p sp))"
    and "watched sp \<Longrightarrow> watched (snd (pk_spawn_check_child p sp))"
    and "\<not> fst (pk_spawn_check_child p sp) \<Longrightarrow> sp_child_pid (snd (pk_spawn_check_child p sp)) = - 1"
proof -
  let ?r = "read_output p sp"
  let ?c = "close_child ?r"
  note r = read_output_ok [OF assms, of p]
  have "spawn_ok (snd (pk_spawn_check_child p sp)) \<and>
    (watched sp \<longrightarrow> watched (snd (pk_spawn_check_child p sp))) \<and>
    (\<not> fst (pk_spawn_check_child p sp) \<longrightarrow> sp_child_pid (snd (pk_spawn_check_child p sp)) = - 1)"
  proof (cases "sp_finished sp \<or> cp_pid p = - 1 \<or> cp_pid p = 0 \<or> cp_pid p \<noteq> sp_child_pid ?r")
    case True
    show ?thesis
    proof (cases "sp_finished sp")
      case True
      with assms have "sp_child_pid sp = - 1" by (simp add: spawn_ok_def)
      with True assms show ?thesis by (simp add: pk_spawn_check_child_def)
    next
      case False
      with \<open>sp_finished sp \<or> _\<close> r show ?thesis
        by (elim disjE) (simp_all add: pk_spawn_check_child_def Let_def)
    qed
  next
    case False
    then have "sp_child_pid ?r \<noteq> - 1" by auto
    note c = close_child_ok [OF r(1) this]
    show ?thesis
    proof (cases "set_exit (cp_status p) ?c")
      case None
      with False c show ?thesis by (auto simp: pk_spawn_check_child_def Let_def gone_watched)
    next
      case (Some e)
      with set_exit_ok [OF c(1) Some] c emit_exit_ok [of e] False show ?thesis
        by (auto simp: pk_spawn_check_child_def Let_def gone_watched)
    qed
  qed
  then show "spawn_ok (snd (pk_spawn_check_child p sp))"
    and "watched sp \<Longrightarrow> watched (snd (pk_spawn_check_child p sp))"
    and "\<not> fst (pk_spawn_check_child p sp) \<Longrightarrow> sp_child_pid (snd (pk_spawn_check_child p sp)) = - 1"
    by blast+
qed

lemma sigkill_ok:
  assumes "spawn_ok sp"
  shows "spawn_ok (pk_spawn_sigkill_cb retval sp)"
    and "watched sp \<Longrightarrow> watched (pk_spawn_sigkill_cb retval sp)"
  using assms spawn_ok_emit by (auto simp: pk_spawn_sigkill_cb_def Let_def)

lemma pending_pos: "loop_ok m \<Longrightarrow> pending m i f \<Longrightarrow> 0 < i"
  by (auto simp: loop_ok_def pending_def)

lemma kill_ok:
  assumes "spawn_ok sp"
  shows "spawn_ok (snd (pk_spawn_kill retval sp))"
    and "watched sp \<Longrightarrow> watched (snd (pk_spawn_kill retval sp))"
  using assms
  by (auto simp: pk_spawn_kill_def Let_def spawn_ok_def timers_ok_def watched_def spawn_loop_simps
      pending_add dest: pending_pos)

lemma send_stdin_ok:
  assumes "spawn_ok sp"
  shows "spawn_ok (snd (pk_spawn_send_stdin wrote command sp))"
    and "watched sp \<Longrightarrow> watched (snd (pk_spawn_send_stdin wrote command sp))"
    and "fst (pk_spawn_send_stdin wrote command sp) \<Longrightarrow>
      sp_child_pid (snd (pk_spawn_send_stdin wrote command sp)) \<noteq> - 1"
  using assms
  by (auto simp: pk_spawn_send_stdin_def Let_def spawn_ok_def timers_ok_def watched_def spawn_emit_def
      split: if_splits)

lemma exit_loop_ok:
  "spawn_ok sp \<Longrightarrow> spawn_ok (snd (snd (exit_loop polls count sp))) \<and>
     (watched sp \<longrightarrow> watched (snd (snd (exit_loop polls count sp))))"
proof (induction polls count sp rule: exit_loop.induct)
  case (1 polls count sp)
  obtain ret n where n: "pk_spawn_check_child (polls count) sp = (ret, n)" by force
  note ok = check_child_ok [OF "1.prems", of "polls count", unfolded n]
  show ?case
  proof (cases "ret \<and> count < 500")
    case True
    with "1.IH" [OF n [symmetric]] ok show ?thesis
      by (simp add: exit_loop.simps [of polls count sp] n)
  next
    case False
    with ok show ?thesis by (auto simp: exit_loop.simps [of polls count sp] n)
  qed
qed

lemma exit_ok:
  assumes "spawn_ok sp"
  shows "spawn_ok (snd (pk_spawn_exit wrote polls sp))"
    and "watched sp \<Longrightarrow> watched (snd (pk_spawn_exit wrote polls sp))"
  using send_stdin_ok [of "sp\<lparr>sp_is_sending_exit := True\<rparr>" wrote "''exit''"] exit_loop_ok assms
  by (auto simp: pk_spawn_exit_def split_beta Let_def)

text \<open>What the kernel gives for a new process is never the number that stands for none; it may also
  give none.\<close>

definition sane :: "spawn_answers \<Rightarrow> bool" where
  "sane a = (case sa_spawn a of Inl message \<Rightarrow> True | Inr (pid, i, out, e) \<Rightarrow> 0 < pid \<and> 0 \<le> i)"

definition started :: "spawn_answers \<Rightarrow> bool" where
  "started a = (case sa_spawn a of Inl message \<Rightarrow> False | Inr (pid, i, out, e) \<Rightarrow> 0 < pid \<and> 0 \<le> i)"

lemma start_child_ok:
  assumes "spawn_ok sp" and "started a"
  shows "spawn_ok (snd (start_child conf a argv envp sp))"
    and "watched (snd (start_child conf a argv envp sp))"
proof -
  obtain pid i out e where a: "sa_spawn a = Inr (pid, i, out, e)" "0 < pid" "0 \<le> i"
    using assms(2) by (auto simp: started_def split: sum.splits)
  define l where "l = (if sp_poll_id sp \<noteq> 0 then g_source_remove (sp_poll_id sp) (sp_loop sp) else sp_loop sp)"
  have l: "loop_ok l" "\<And>i. \<not> pending l i SRC_check_child"
    "\<And>i. pending l i SRC_sigkill \<Longrightarrow> i = sp_kill_id sp"
    using assms(1)
    by (auto simp: l_def spawn_ok_def timers_ok_def loop_ok_remove pending_remove dest: pending_pos
        split: if_splits)
  have loop: "sp_loop (snd (start_child conf a argv envp sp)) = snd (g_source_add SRC_check_child l)"
    "sp_poll_id (snd (start_child conf a argv envp sp)) = fst (g_source_add SRC_check_child l)"
    by (simp_all add: start_child_def Let_def a(1) l_def spawn_loop_simps)
  have rest: "sp_kill_id (snd (start_child conf a argv envp sp)) = sp_kill_id sp"
    "sp_child_pid (snd (start_child conf a argv envp sp)) = pid"
    "sp_stdin_fd (snd (start_child conf a argv envp sp)) = i"
    "\<not> sp_finished (snd (start_child conf a argv envp sp))"
    "exits (sp_emitted (snd (start_child conf a argv envp sp))) = exits (sp_emitted sp)"
    "spawns (sp_emitted (snd (start_child conf a argv envp sp))) = Suc (spawns (sp_emitted sp))"
    by (simp_all add: start_child_def Let_def a(1) spawn_loop_simps)
  show "spawn_ok (snd (start_child conf a argv envp sp))"
    using assms(1) l a(2,3) by (auto simp: spawn_ok_def timers_ok_def loop rest loop_ok_add pending_add)
  show "watched (snd (start_child conf a argv envp sp))"
    by (simp add: watched_def loop pending_add)
qed

lemma start_child_failed:
  assumes "sa_spawn a = Inl message"
  shows "spawn_ok sp \<Longrightarrow> spawn_ok (snd (start_child conf a argv envp sp))"
    and "sp_child_pid (snd (start_child conf a argv envp sp)) = sp_child_pid sp"
    and "sp_loop (snd (start_child conf a argv envp sp)) = sp_loop sp"
    and "fst (start_child conf a argv envp sp) \<noteq> None"
  by (auto simp: start_child_def Let_def assms spawn_ok_def timers_ok_def spawn_emit_def)

lemma sane_cases:
  assumes "sane a"
  obtains "started a" | message where "sa_spawn a = Inl message"
  using assms by (auto simp: sane_def started_def split: sum.splits)

lemma change_dispatcher_ok:
  assumes "spawn_ok sp"
  shows "spawn_ok (change_dispatcher a sp)"
proof -
  let ?e = "snd (pk_spawn_exit (sa_wrote_exit a) (sa_polls a) (sp\<lparr>sp_is_changing_dispatcher := True\<rparr>))"
  have "spawn_ok ?e" using assms by (intro exit_ok) simp
  then show ?thesis
    by (auto simp: change_dispatcher_def split_beta Let_def)
      (auto simp: spawn_ok_def timers_ok_def spawn_loop_simps dest: pending_pos)
qed

lemma reuse_child_ok:
  assumes "spawn_ok sp"
  shows "spawn_ok (snd (reuse_child a argv envp sp))"
    and "watched sp \<Longrightarrow> watched (snd (reuse_child a argv envp sp))"
  using assms send_stdin_ok by (auto simp: reuse_child_def split: list.split)

lemma argv_ok:
  assumes "spawn_ok sp" and "watched sp" and "started a"
  shows "spawn_ok (snd (pk_spawn_argv conf a argv envp sp))"
    and "watched (snd (pk_spawn_argv conf a argv envp sp))"
  using assms reuse_child_ok [OF assms(1), of a argv envp]
    start_child_ok [OF change_dispatcher_ok [OF reuse_child_ok(1) [OF assms(1)]] assms(3)]
    start_child_ok [OF assms(1,3)]
  by (simp_all add: pk_spawn_argv_def split_beta Let_def)

text \<open>A start that fails may leave the old helper alone, without its timer.\<close>

definition restart_failed :: "PkConf \<Rightarrow> PkSpawn \<Rightarrow> PkSpawn \<Rightarrow> bool" where
  "restart_failed conf sp sp' \<longleftrightarrow>
     (\<exists>a argv envp error message. pk_spawn_is_running sp \<and> sa_spawn a = Inl message \<and>
        pk_spawn_argv conf a argv envp sp = (Some error, sp'))"

lemma argv_failed:
  assumes ok: "spawn_ok sp" and w: "watched sp" and a: "sa_spawn a = Inl message"
  shows "watched (snd (pk_spawn_argv conf a argv envp sp)) \<or>
    restart_failed conf sp (snd (pk_spawn_argv conf a argv envp sp))"
proof (cases "sp_is_sending_exit sp \<or> sp_stdin_fd sp = - 1 \<or> fst (reuse_child a argv envp sp)")
  case True
  have "watched (snd (start_child conf a argv envp sp))" if "sp_stdin_fd sp = - 1"
    using ok that start_child_failed(2) [OF a] by (simp add: watched_def spawn_ok_def)
  with True w reuse_child_ok(2) [OF ok w, of a argv envp] show ?thesis
    by (auto simp: pk_spawn_argv_def split_beta Let_def)
next
  case False
  then have run: "pk_spawn_is_running sp" using ok by (simp add: pk_spawn_is_running_def spawn_ok_def)
  from False have eq: "pk_spawn_argv conf a argv envp sp =
      start_child conf a argv envp (change_dispatcher a (snd (reuse_child a argv envp sp)))"
    by (simp add: pk_spawn_argv_def split_beta Let_def)
  then have "fst (pk_spawn_argv conf a argv envp sp) \<noteq> None" using start_child_failed(4) [OF a] by simp
  with run a show ?thesis unfolding restart_failed_def by (metis option.exhaust prod.collapse)
qed

lemma argv_spawn_ok:
  assumes "spawn_ok sp" and "sane a"
  shows "spawn_ok (snd (pk_spawn_argv conf a argv envp sp))"
proof -
  have "spawn_ok (snd (start_child conf a argv envp x))" if "spawn_ok x" for x
    using assms(2) that by (cases rule: sane_cases) (auto intro: start_child_ok start_child_failed)
  with assms(1) reuse_child_ok(1) [OF assms(1), of a argv envp] change_dispatcher_ok show ?thesis
    by (simp add: pk_spawn_argv_def split_beta Let_def)
qed

text \<open>A failed restart, exactly: the old helper cannot be told to exit, so its timer is removed, and no new
  one is started. It goes on running, and nobody looks at it.\<close>

lemma failed_restart_unwatched:
  assumes "spawn_ok sp" and "pk_spawn_is_running sp" and "\<not> sp_is_sending_exit sp"
    and "\<not> fst (reuse_child a argv envp sp)" and "sa_wrote_exit a \<noteq> 5" and "sa_spawn a = Inl message"
  shows "pk_spawn_is_running (snd (pk_spawn_argv conf a argv envp sp))"
    and "\<not> pending (sp_loop (snd (pk_spawn_argv conf a argv envp sp))) i SRC_check_child"
proof -
  let ?r = "snd (reuse_child a argv envp sp)"
  let ?d = "change_dispatcher a ?r"
  have r: "spawn_ok ?r" by (rule reuse_child_ok(1) [OF assms(1)])
  have same: "sp_child_pid ?r = sp_child_pid sp" "sp_is_sending_exit ?r = sp_is_sending_exit sp"
    "sp_finished ?r = sp_finished sp"
    by (auto simp: reuse_child_def pk_spawn_send_stdin_def Let_def spawn_emit_def split: list.split)
  have run: "sp_child_pid sp \<noteq> - 1" "\<not> sp_finished sp" "sp_stdin_fd sp \<noteq> - 1"
    using assms(1,2) by (simp_all add: pk_spawn_is_running_def spawn_ok_def)
  have d: "sp_child_pid ?d = sp_child_pid sp \<and> \<not> pending (sp_loop ?d) i SRC_check_child"
    using r run assms(3,5) same
    by (auto simp: change_dispatcher_def pk_spawn_exit_def pk_spawn_send_stdin_def Let_def spawn_emit_def
        spawn_remove_def spawn_ok_def timers_ok_def pending_remove dest: pending_pos)
  have "snd (pk_spawn_argv conf a argv envp sp) = snd (start_child conf a argv envp ?d)"
    using assms(3,4) run(3) by (simp add: pk_spawn_argv_def split_beta Let_def)
  with start_child_failed(2,3) [OF assms(6), of conf argv envp ?d] d run(1)
  show "pk_spawn_is_running (snd (pk_spawn_argv conf a argv envp sp))"
    and "\<not> pending (sp_loop (snd (pk_spawn_argv conf a argv envp sp))) i SRC_check_child"
    by (simp_all add: pk_spawn_is_running_def)
qed

section \<open>Histories\<close>

definition spawn_dispatch :: "nat \<Rightarrow> bool \<times> PkSpawn \<Rightarrow> PkSpawn" where
  "spawn_dispatch i r = (if fst r then snd r else spawn_remove i (snd r))"

text \<open>
  What may happen to the object: the calls of its user, which may fail to start a process, and its
  two timers.
\<close>

inductive spawn_step :: "PkConf \<Rightarrow> PkSpawn \<Rightarrow> PkSpawn \<Rightarrow> bool" for conf where
  argv: "sane a \<Longrightarrow> spawn_step conf sp (snd (pk_spawn_argv conf a argv envp sp))"
| exits: "spawn_step conf sp (snd (pk_spawn_exit wrote polls sp))"
| kill: "spawn_step conf sp (snd (pk_spawn_kill retval sp))"
| poll: "pending (sp_loop sp) i SRC_check_child \<Longrightarrow>
    spawn_step conf sp (spawn_dispatch i (pk_spawn_check_child p sp))"
| sigkill: "pending (sp_loop sp) i SRC_sigkill \<Longrightarrow>
    spawn_step conf sp (spawn_dispatch i (False, pk_spawn_sigkill_cb retval sp))"
| background: "spawn_step conf sp (sp\<lparr>sp_background := c\<rparr>)"
| allow_sigkill: "spawn_step conf sp (sp\<lparr>sp_allow_sigkill := c\<rparr>)"

inductive spawn_history :: "PkConf \<Rightarrow> PkSpawn \<Rightarrow> bool" for conf where
  init: "spawn_history conf pk_spawn_init"
| step: "spawn_history conf sp \<Longrightarrow> spawn_step conf sp sp' \<Longrightarrow> spawn_history conf sp'"

lemma spawn_remove_ok:
  assumes "spawn_ok sp"
  shows "spawn_ok (spawn_remove i sp)"
    and "watched sp \<Longrightarrow> sp_child_pid sp = - 1 \<or> i \<noteq> sp_poll_id sp \<Longrightarrow> watched (spawn_remove i sp)"
  using assms by (auto simp: spawn_ok_def timers_ok_def watched_def spawn_loop_simps)

lemma spawn_step_ok:
  assumes "spawn_step conf sp sp'" and "spawn_ok sp"
  shows "spawn_ok sp'"
  using assms(1)
proof cases
  case (argv a argv envp)
  with argv_spawn_ok [OF assms(2)] show ?thesis by simp
next
  case (poll i p)
  with check_child_ok(1) [OF assms(2), of p] spawn_remove_ok(1) show ?thesis by (auto simp: spawn_dispatch_def)
next
  case (sigkill i retval)
  with sigkill_ok(1) [OF assms(2), of retval] spawn_remove_ok(1) show ?thesis by (auto simp: spawn_dispatch_def)
qed (use assms exit_ok kill_ok in simp_all)

lemma spawn_step_watched:
  assumes "spawn_step conf sp sp'" and "spawn_ok sp" and "watched sp"
  shows "watched sp' \<or> restart_failed conf sp sp'"
  using assms(1)
proof cases
  case (argv a argv envp)
  from argv(2) argv_ok(2) [OF assms(2,3)] argv_failed [OF assms(2,3)] argv(1) show ?thesis
    by (cases rule: sane_cases) (simp, blast)
next
  case (exits wrote polls)
  with exit_ok [OF assms(2)] assms(3) show ?thesis by simp
next
  case (kill retval)
  with kill_ok [OF assms(2)] assms(3) show ?thesis by simp
next
  case (poll i p)
  note c = check_child_ok [OF assms(2), of p]
  with poll(1) assms(3) spawn_remove_ok [OF c(1)] show ?thesis by (auto simp: spawn_dispatch_def)
next
  case (sigkill i retval)
  have "i \<noteq> sp_poll_id (pk_spawn_sigkill_cb retval sp) \<or> sp_child_pid (pk_spawn_sigkill_cb retval sp) = - 1"
    using sigkill(2) assms(2,3)
    by (auto simp: pk_spawn_sigkill_cb_def Let_def spawn_emit_def spawn_ok_def timers_ok_def watched_def
        dest: pending_unique)
  with sigkill(1) sigkill_ok [OF assms(2), of retval] assms(3)
    spawn_remove_ok [of "pk_spawn_sigkill_cb retval sp" i] show ?thesis
    by (auto simp: spawn_dispatch_def)
qed (use assms in simp_all)

lemma spawn_history_ok: "spawn_history conf sp \<Longrightarrow> spawn_ok sp"
proof (induction rule: spawn_history.induct)
  case init
  have "\<not> pending main_loop_new i (f :: spawn_source)" for i f
    by (simp add: pending_def main_loop_new_def)
  then show ?case
    by (simp add: spawn_ok_def timers_ok_def pk_spawn_init_def loop_ok_new)
next
  case (step sp sp')
  then show ?case using spawn_step_ok by blast
qed

end
