(* ===== verification/PK_Backend_Spawn.thy ===== *)
theory PK_Backend_Spawn
  imports PK_Spawn PK_Backend
begin

text \<open>
  Plugins that let a helper program do the work (\<open>src/src/pk-backend-spawn.c\<close>): the lines that
  the helper prints are parsed and become reports of the backend object, its end becomes the end
  of the transaction, and its environment is made from the settings of the backend.

  A function that fails with a \<open>GError\<close> returns the message. Where the code would read through
  a \<open>NULL\<close> pointer or format a text with missing arguments, \<open>bs_undefined\<close> is set.
\<close>

section \<open>State\<close>

datatype backend_spawn_source = SRC_exit_timeout

text \<open>The two filters are code of the plugin.\<close>

record PkBackendSpawn =
  bs_spawn :: PkSpawn
  bs_backend :: PkBackend
  bs_name :: "string option"
  bs_kill_id :: nat
  bs_finished :: bool
  bs_allow_sigkill :: bool
  bs_stdout_func :: "(string \<Rightarrow> PkBackend \<Rightarrow> bool \<times> PkBackend) option"
  bs_stderr_func :: "(string \<Rightarrow> PkBackend \<Rightarrow> bool \<times> PkBackend) option"
  bs_loop :: "backend_spawn_source main_loop"
  bs_undefined :: bool

definition pk_backend_spawn_init :: "PkConf \<Rightarrow> PkBackend \<Rightarrow> PkBackendSpawn" where
  "pk_backend_spawn_init conf b =
     (let allow = pk_conf_get_bool conf ''BackendSpawnAllowSIGKILL''
      in \<lparr>bs_spawn = pk_spawn_init\<lparr>sp_allow_sigkill := allow\<rparr>, bs_backend = b, bs_name = None,
          bs_kill_id = 0, bs_finished = False, bs_allow_sigkill = allow, bs_stdout_func = None,
          bs_stderr_func = None, bs_loop = main_loop_new, bs_undefined = False\<rparr>)"

definition pk_backend_spawn_get_backend :: "PkBackendSpawn \<Rightarrow> PkBackend" where
  "pk_backend_spawn_get_backend bs = bs_backend bs"

definition pk_backend_spawn_set_filter_stdout ::
  "(string \<Rightarrow> PkBackend \<Rightarrow> bool \<times> PkBackend) option \<Rightarrow> PkBackendSpawn \<Rightarrow> PkBackendSpawn" where
  "pk_backend_spawn_set_filter_stdout func bs = bs\<lparr>bs_stdout_func := func\<rparr>"

definition pk_backend_spawn_set_filter_stderr ::
  "(string \<Rightarrow> PkBackend \<Rightarrow> bool \<times> PkBackend) option \<Rightarrow> PkBackendSpawn \<Rightarrow> PkBackendSpawn" where
  "pk_backend_spawn_set_filter_stderr func bs = bs\<lparr>bs_stderr_func := func\<rparr>"

definition pk_backend_spawn_get_name :: "PkBackendSpawn \<Rightarrow> string option" where
  "pk_backend_spawn_get_name bs = bs_name bs"

definition pk_backend_spawn_set_name :: "string \<Rightarrow> PkBackendSpawn \<Rightarrow> PkBackendSpawn" where
  "pk_backend_spawn_set_name name bs = bs\<lparr>bs_name := Some name\<rparr>"

definition pk_backend_spawn_start_kill_timer :: "PkBackendSpawn \<Rightarrow> PkBackendSpawn" where
  "pk_backend_spawn_start_kill_timer bs =
     (let bs = bs\<lparr>bs_finished := True\<rparr>;
          bs = (if 0 < bs_kill_id bs
                then bs\<lparr>bs_loop := g_source_remove (bs_kill_id bs) (bs_loop bs)\<rparr> else bs);
          (i, m) = g_source_add SRC_exit_timeout (bs_loop bs)
      in bs\<lparr>bs_loop := m, bs_kill_id := i\<rparr>)"

section \<open>Parsing what the helper prints\<close>

text \<open>
  \<open>TRUE\<close>, \<open>FALSE\<close> without an error, \<open>FALSE\<close> with the message of an error, or no defined result.
\<close>

datatype parse_answer = PARSE_TRUE | PARSE_FALSE | PARSE_ERROR string | PARSE_UNDEFINED

type_synonym parse_result = "parse_answer \<times> PkBackend"

definition parse_ret :: "bool \<times> PkBackend \<Rightarrow> parse_result" where
  "parse_ret r = (if fst r then PARSE_TRUE else PARSE_FALSE, snd r)"

definition parse_done :: "bool \<times> PkBackend \<Rightarrow> parse_result" where
  "parse_done r = (PARSE_TRUE, snd r)"

abbreviation quoted :: "string \<Rightarrow> string" where
  "quoted s \<equiv> [CHR 0x27] @ s @ [CHR 0x27]"

definition size_error :: "string list \<Rightarrow> PkBackend \<Rightarrow> parse_result" where
  "size_error sections b =
     (PARSE_ERROR (''invalid command'' @ quoted (hd sections) @ '', size '' @
        string_of_nat (length sections)), b)"

definition unknown_error :: "string \<Rightarrow> string \<Rightarrow> PkBackend \<Rightarrow> parse_result" where
  "unknown_error kind text b =
     (PARSE_ERROR (kind @ '' enum not recognised, and hence ignored: '' @ quoted text), b)"

definition blank_error :: "string \<Rightarrow> string \<Rightarrow> PkBackend \<Rightarrow> parse_result" where
  "blank_error what text b =
     (PARSE_ERROR (what @ '' blank, and hence ignored: '' @ quoted text), b)"

definition parse_error :: "string \<Rightarrow> PkBackend \<Rightarrow> parse_result" where
  "parse_error message b = (PARSE_ERROR message, b)"

text \<open>Semicolons stand for the newlines that a line cannot have.\<close>

definition newlines :: "string \<Rightarrow> string" where
  "newlines text = g_strdelimit text '';'' CHR 0x0A"

text \<open>\<open>atol\<close>: 0 if there is no number.\<close>

definition atol :: "string \<Rightarrow> int" where
  "atol text = (case g_ascii_strtoll text of None \<Rightarrow> 0 | Some v \<Rightarrow> v)"

text \<open>
  A text used as a format without arguments: \<open>%%\<close> is a percent sign, any other conversion
  takes an argument that is not there.
\<close>

fun format_no_args :: "string \<Rightarrow> string option" where
  "format_no_args [] = Some []"
| "format_no_args (c # s) =
     (if c \<noteq> CHR ''%'' then map_option (\<lambda>t. c # t) (format_no_args s)
      else (case s of
              d # r \<Rightarrow> if d = CHR ''%'' then map_option (\<lambda>t. c # t) (format_no_args r) else None
            | [] \<Rightarrow> None))"

definition parse_package :: "string list \<Rightarrow> PkBackend \<Rightarrow> parse_result" where
  "parse_package ss b =
     (if length ss \<noteq> 4 then size_error ss b
      else if \<not> pk_package_id_check (Some (ss ! 2)) then parse_error ''invalid package_id'' b
      else
        let info = pk_info_enum_from_string (Some (ss ! 1)) in
        if info = PK_INFO_ENUM_UNKNOWN then unknown_error ''Info'' (ss ! 1) b
        else parse_done (pk_backend_package info (ss ! 2) (Some (ss ! 3)) b))"

definition parse_details :: "string list \<Rightarrow> PkBackend \<Rightarrow> parse_result" where
  "parse_details ss b =
     (if length ss \<noteq> 7 then size_error ss b
      else
        let group' = pk_group_enum_from_string (Some (ss ! 3));
            package_size = word_of_int (atol (ss ! 6)) :: guint64
        in
        if 1073741824 < package_size
        then parse_error ''package size cannot be larger than one Gb'' b
        else parse_done (pk_backend_details (ss ! 1) (Some (ss ! 2)) group'
               (Some (newlines (ss ! 4))) (Some (ss ! 5)) package_size b))"

definition parse_files :: "string list \<Rightarrow> PkBackend \<Rightarrow> parse_result" where
  "parse_files ss b =
     (if length ss \<noteq> 3 then size_error ss b
      else parse_done (pk_backend_files (Some (ss ! 1)) (ss ! 2) b))"

definition parse_repo_detail :: "string list \<Rightarrow> PkBackend \<Rightarrow> parse_result" where
  "parse_repo_detail ss b =
     (if length ss \<noteq> 4 then size_error ss b
      else if ss ! 3 = ''true'' then
        parse_done (pk_backend_repo_detail (ss ! 1) (Some (ss ! 2)) True b)
      else if ss ! 3 = ''false'' then
        parse_done (pk_backend_repo_detail (ss ! 1) (Some (ss ! 2)) False b)
      else parse_error (''invalid qualifier '' @ quoted (ss ! 3)) b)"

definition parse_update_detail :: "string list \<Rightarrow> PkBackend \<Rightarrow> parse_result" where
  "parse_update_detail ss b =
     (if length ss \<noteq> 13 then
        parse_error (''invalid command '' @ quoted (hd ss) @ '', size '' @ string_of_nat (length ss)) b
      else
        let restart = pk_restart_enum_from_string (Some (ss ! 7)) in
        if restart = PK_RESTART_ENUM_UNKNOWN then unknown_error ''Restart'' (ss ! 7) b
        else
          let update_state = pk_update_state_enum_from_string (Some (ss ! 10)) in
          parse_done (pk_backend_update_detail
            \<lparr>ud_package_id = ss ! 1, ud_updates = Some (ss ! 2), ud_obsoletes = Some (ss ! 3),
             ud_vendor_url = Some (ss ! 4), ud_bugzilla_url = Some (ss ! 5),
             ud_cve_url = Some (ss ! 6), ud_restart = restart,
             ud_update_text = Some (newlines (ss ! 8)), ud_changelog = Some (newlines (ss ! 9)),
             ud_state = update_state, ud_issued = Some (ss ! 11), ud_updated = Some (ss ! 12)\<rparr> b))"

text \<open>The three kinds of percentage; \<open>what\<close> is the name in the messages.\<close>

definition parse_percent ::
  "string \<Rightarrow> string \<Rightarrow> string \<Rightarrow> (guint \<Rightarrow> PkBackend \<Rightarrow> bool \<times> PkBackend) \<Rightarrow> PkBackend \<Rightarrow>
   parse_result" where
  "parse_percent what shown text setter b =
     (case pk_strtoint (Some text) of
        None \<Rightarrow> parse_error (''invalid '' @ what @ '' value '' @ shown) b
      | Some percentage \<Rightarrow>
          if percentage < 0 \<or> 100 < percentage
          then parse_error (''invalid '' @ what @ '' value '' @ string_of_int percentage) b
          else parse_done (setter (word_of_int percentage) b))"

definition parse_percentage :: "guint \<Rightarrow> string list \<Rightarrow> PkBackend \<Rightarrow> parse_result" where
  "parse_percentage estimate ss b =
     (if length ss \<noteq> 2 then size_error ss b
      else parse_percent ''percentage'' (ss ! 1) (ss ! 1) (pk_backend_set_percentage estimate) b)"

definition parse_subpercentage :: "string list \<Rightarrow> PkBackend \<Rightarrow> parse_result" where
  "parse_subpercentage ss b =
     (if length ss \<noteq> 2 then size_error ss b
      else parse_percent ''subpercentage'' (ss ! 1) (ss ! 1) pk_backend_set_sub_percentage b)"

definition parse_item_percentage :: "string list \<Rightarrow> PkBackend \<Rightarrow> parse_result" where
  "parse_item_percentage ss b =
     (if length ss \<noteq> 3 then size_error ss b
      else if \<not> pk_package_id_check (Some (ss ! 1)) then parse_error ''invalid package_id'' b
      else parse_percent ''item-percentage'' (ss ! 1) (ss ! 2) (pk_backend_set_item_progress (ss ! 1)) b)"

definition parse_error_code :: "string list \<Rightarrow> PkBackend \<Rightarrow> parse_result" where
  "parse_error_code ss b =
     (if length ss \<noteq> 3 then size_error ss b
      else
        let error_enum = pk_error_enum_from_string (Some (ss ! 1)) in
        if error_enum = PK_ERROR_ENUM_UNKNOWN then unknown_error ''Error'' (ss ! 1) b
        else parse_done (pk_backend_error_code error_enum
               (g_strdelimit (newlines (ss ! 2)) ''%'' CHR ''$'') b))"

definition parse_require_restart :: "string list \<Rightarrow> PkBackend \<Rightarrow> parse_result" where
  "parse_require_restart ss b =
     (if length ss \<noteq> 3 then size_error ss b
      else
        let restart_enum = pk_restart_enum_from_string (Some (ss ! 1)) in
        if restart_enum = PK_RESTART_ENUM_UNKNOWN then unknown_error ''Restart'' (ss ! 1) b
        else if \<not> pk_package_id_check (Some (ss ! 2)) then parse_error ''invalid package_id'' b
        else parse_done (pk_backend_require_restart restart_enum (Some (ss ! 2)) b))"

text \<open>The text of a message is used as a format.\<close>

definition parse_message :: "string list \<Rightarrow> PkBackend \<Rightarrow> parse_result" where
  "parse_message ss b =
     (if length ss \<noteq> 3 then size_error ss b
      else
        let message_enum = pk_message_enum_from_string (Some (ss ! 1)) in
        if message_enum = PK_MESSAGE_ENUM_UNKNOWN then unknown_error ''Message'' (ss ! 1) b
        else
          (case format_no_args (newlines (ss ! 2)) of
             None \<Rightarrow> (PARSE_UNDEFINED, b)
           | Some buffer \<Rightarrow> parse_done (pk_backend_message message_enum buffer b)))"

definition parse_transaction_data :: "string list \<Rightarrow> PkBackend \<Rightarrow> parse_result" where
  "parse_transaction_data ss b =
     (if length ss \<noteq> 2 then size_error ss b
      else parse_done (pk_backend_set_transaction_data (ss ! 1) b))"

definition parse_status :: "string list \<Rightarrow> PkBackend \<Rightarrow> parse_result" where
  "parse_status ss b =
     (if length ss \<noteq> 2 then size_error ss b
      else
        let status_enum = pk_status_enum_from_string (Some (ss ! 1)) in
        if status_enum = PK_STATUS_ENUM_UNKNOWN then unknown_error ''Status'' (ss ! 1) b
        else parse_done (pk_backend_set_status status_enum b))"

text \<open>The 64 bits of a speed are cut to the 32 that \<open>pk_backend_set_speed\<close> takes.\<close>

definition parse_speed :: "string list \<Rightarrow> PkBackend \<Rightarrow> parse_result" where
  "parse_speed ss b =
     (if length ss \<noteq> 2 then size_error ss b
      else
        (case pk_strtouint64 (Some (ss ! 1)) of
           (Some speed, True) \<Rightarrow> parse_done (pk_backend_set_speed (ucast speed) b)
         | _ \<Rightarrow> parse_error (''failed to parse speed: '' @ quoted (ss ! 1)) b))"

definition parse_allow_cancel :: "string list \<Rightarrow> PkBackend \<Rightarrow> parse_result" where
  "parse_allow_cancel ss b =
     (if length ss \<noteq> 2 then size_error ss b
      else if ss ! 1 = ''true'' then parse_done (pk_backend_set_allow_cancel True b)
      else if ss ! 1 = ''false'' then parse_done (pk_backend_set_allow_cancel False b)
      else parse_error (''invalid section '' @ quoted (ss ! 1)) b)"

definition parse_no_percentage :: "guint \<Rightarrow> string list \<Rightarrow> PkBackend \<Rightarrow> parse_result" where
  "parse_no_percentage estimate ss b =
     (if length ss \<noteq> 1 then size_error ss b
      else parse_done (pk_backend_set_percentage estimate PK_BACKEND_PERCENTAGE_INVALID b))"

definition parse_repo_signature :: "string list \<Rightarrow> PkBackend \<Rightarrow> parse_result" where
  "parse_repo_signature ss b =
     (if length ss \<noteq> 9 then size_error ss b
      else
        let sig_type = pk_sig_type_enum_from_string (Some (ss ! 8)) in
        if sig_type = PK_SIGTYPE_ENUM_UNKNOWN then unknown_error ''Sig'' (ss ! 8) b
        else if pk_strzero (Some (ss ! 1)) then blank_error ''package_id'' (ss ! 1) b
        else if pk_strzero (Some (ss ! 2)) then blank_error ''repository name'' (ss ! 2) b
        else parse_ret (pk_backend_repo_signature_required
               \<lparr>sg_package_id = Some (ss ! 1), sg_repository_name = ss ! 2, sg_key_url = Some (ss ! 3),
                sg_key_userid = Some (ss ! 4), sg_key_id = Some (ss ! 5),
                sg_key_fingerprint = Some (ss ! 6), sg_key_timestamp = Some (ss ! 7),
                sg_type = sig_type\<rparr> b))"

definition parse_eula :: "string list \<Rightarrow> PkBackend \<Rightarrow> parse_result" where
  "parse_eula ss b =
     (if length ss \<noteq> 5 then size_error ss b
      else if pk_strzero (Some (ss ! 1)) then blank_error ''eula_id'' (ss ! 1) b
      else if pk_strzero (Some (ss ! 2)) then blank_error ''package_id'' (ss ! 2) b
      else if pk_strzero (Some (ss ! 4)) then blank_error ''agreement name'' (ss ! 4) b
      else parse_ret (pk_backend_eula_required
             \<lparr>eu_eula_id = ss ! 1, eu_package_id = ss ! 2, eu_vendor_name = ss ! 3,
              eu_license_agreement = ss ! 4\<rparr> b))"

definition parse_media_change :: "string list \<Rightarrow> PkBackend \<Rightarrow> parse_result" where
  "parse_media_change ss b =
     (if length ss \<noteq> 4 then size_error ss b
      else
        let media_type = pk_media_type_enum_from_string (Some (ss ! 1)) in
        if media_type = PK_MEDIA_TYPE_ENUM_UNKNOWN then unknown_error ''media type'' (ss ! 1) b
        else parse_ret (pk_backend_media_change_required media_type (ss ! 2) (ss ! 3) b))"

definition parse_distro_upgrade :: "string list \<Rightarrow> PkBackend \<Rightarrow> parse_result" where
  "parse_distro_upgrade ss b =
     (if length ss \<noteq> 4 then size_error ss b
      else
        let state = pk_distro_upgrade_enum_from_string (Some (ss ! 1)) in
        if state = PK_DISTRO_UPGRADE_ENUM_UNKNOWN then unknown_error ''distro upgrade'' (ss ! 1) b
        else parse_ret (pk_backend_distro_upgrade state (ss ! 2) (ss ! 3) b))"

definition parse_category :: "string list \<Rightarrow> PkBackend \<Rightarrow> parse_result" where
  "parse_category ss b =
     (if length ss \<noteq> 6 then size_error ss b
      else if ss ! 1 = ss ! 2 then parse_error ''cat_id cannot be the same as parent_id'' b
      else if pk_strzero (Some (ss ! 2)) then parse_error ''cat_id cannot not blank'' b
      else if pk_strzero (Some (ss ! 3)) then parse_error ''name cannot not blank'' b
      else if pk_strzero (Some (ss ! 5)) then parse_error ''icon cannot not blank'' b
      else if g_str_has_prefix (ss ! 5) ''/'' then
        parse_error (''icon '' @ quoted (ss ! 5) @ '' should be a named icon, not a path'') b
      else parse_ret (pk_backend_category (Some (ss ! 1)) (ss ! 2) (Some (ss ! 3)) (Some (ss ! 4))
             (Some (ss ! 5)) b))"

text \<open>
  The commands. \<open>finished\<close> also starts the timer of the backend spawn object and is in
  \<open>pk_backend_spawn_parse_stdout\<close>; the number that the remaining time is estimated to is an
  argument. The first section of an empty line is \<open>NULL\<close>.
\<close>

definition parse_command :: "guint \<Rightarrow> string list \<Rightarrow> PkBackend \<Rightarrow> parse_result" where
  "parse_command estimate ss b =
     (let command = (case ss of [] \<Rightarrow> None | c # _ \<Rightarrow> Some c) in
      if command = Some ''package'' then parse_package ss b
      else if command = Some ''details'' then parse_details ss b
      else if command = Some ''files'' then parse_files ss b
      else if command = Some ''repo-detail'' then parse_repo_detail ss b
      else if command = Some ''updatedetail'' then parse_update_detail ss b
      else if command = Some ''percentage'' then parse_percentage estimate ss b
      else if command = Some ''subpercentage'' then parse_subpercentage ss b
      else if command = Some ''item-percentage'' then parse_item_percentage ss b
      else if command = Some ''error'' then parse_error_code ss b
      else if command = Some ''requirerestart'' then parse_require_restart ss b
      else if command = Some ''message'' then parse_message ss b
      else if command = Some ''change-transaction-data'' then parse_transaction_data ss b
      else if command = Some ''status'' then parse_status ss b
      else if command = Some ''speed'' then parse_speed ss b
      else if command = Some ''allow-cancel'' then parse_allow_cancel ss b
      else if command = Some ''no-percentage-updates'' then parse_no_percentage estimate ss b
      else if command = Some ''repo-signature-required'' then parse_repo_signature ss b
      else if command = Some ''eula-required'' then parse_eula ss b
      else if command = Some ''media-change-required'' then parse_media_change ss b
      else if command = Some ''distro-upgrade'' then parse_distro_upgrade ss b
      else if command = Some ''category'' then parse_category ss b
      else parse_error (''invalid command '' @
             quoted (case command of None \<Rightarrow> ''(null)'' | Some c \<Rightarrow> c)) b)"

definition pk_backend_spawn_parse_stdout ::
  "guint \<Rightarrow> string \<Rightarrow> PkBackendSpawn \<Rightarrow> parse_answer \<times> PkBackendSpawn" where
  "pk_backend_spawn_parse_stdout estimate line bs =
     (let sections = g_strsplit CHR 0x09 line in
      if (case sections of [] \<Rightarrow> False | c # _ \<Rightarrow> c = ''finished'') then
        if length sections \<noteq> 1 then (fst (size_error sections (bs_backend bs)), bs)
        else
          let bs = bs\<lparr>bs_backend := snd (pk_backend_finished (bs_backend bs))\<rparr>
          in (PARSE_TRUE, pk_backend_spawn_start_kill_timer bs)
      else
        let (answer, b) = parse_command estimate sections (bs_backend bs)
        in (answer, bs\<lparr>bs_backend := b\<rparr>))"

section \<open>Signals of the helper\<close>

definition pk_backend_spawn_inject_data ::
  "guint \<Rightarrow> string \<Rightarrow> PkBackendSpawn \<Rightarrow> parse_answer \<times> PkBackendSpawn" where
  "pk_backend_spawn_inject_data estimate line bs =
     (case bs_stdout_func bs of
        None \<Rightarrow> pk_backend_spawn_parse_stdout estimate line bs
      | Some func \<Rightarrow>
          let (ret, b) = func line (bs_backend bs);
              bs = bs\<lparr>bs_backend := b\<rparr>
          in if \<not> ret then (PARSE_TRUE, bs) else pk_backend_spawn_parse_stdout estimate line bs)"

text \<open>The message of the error is read although \<open>FALSE\<close> may come without an error.\<close>

definition pk_backend_spawn_stdout_cb :: "guint \<Rightarrow> string \<Rightarrow> PkBackendSpawn \<Rightarrow> PkBackendSpawn" where
  "pk_backend_spawn_stdout_cb estimate line bs =
     (let (answer, bs) = pk_backend_spawn_inject_data estimate line bs in
      case answer of
        PARSE_TRUE \<Rightarrow> bs
      | PARSE_ERROR message \<Rightarrow>
          bs\<lparr>bs_backend := snd (pk_backend_message PK_MESSAGE_ENUM_BACKEND_ERROR
                (''Failed to parse output: '' @ message) (bs_backend bs))\<rparr>
      | PARSE_FALSE \<Rightarrow> bs\<lparr>bs_undefined := True\<rparr>
      | PARSE_UNDEFINED \<Rightarrow> bs\<lparr>bs_undefined := True\<rparr>)"

definition pk_backend_spawn_stderr_cb :: "string \<Rightarrow> PkBackendSpawn \<Rightarrow> PkBackendSpawn" where
  "pk_backend_spawn_stderr_cb line bs =
     (let (ret, bs) =
        (case bs_stderr_func bs of
           None \<Rightarrow> (True, bs)
         | Some func \<Rightarrow>
             let (ret, b) = func line (bs_backend bs) in (ret, bs\<lparr>bs_backend := b\<rparr>))
      in if \<not> ret then bs
         else bs\<lparr>bs_backend := snd (pk_backend_message PK_MESSAGE_ENUM_BACKEND_ERROR line
                (bs_backend bs))\<rparr>)"

definition pk_backend_has_set_error_code :: "PkBackend \<Rightarrow> bool" where
  "pk_backend_has_set_error_code b = be_set_error b"

definition pk_backend_spawn_exit_cb :: "PkSpawnExitType \<Rightarrow> PkBackendSpawn \<Rightarrow> PkBackendSpawn" where
  "pk_backend_spawn_exit_cb exit_enum bs =
     (let b = bs_backend bs;
          b = (if exit_enum = PK_SPAWN_EXIT_TYPE_SIGKILL
               then snd (pk_backend_error_code PK_ERROR_ENUM_PROCESS_KILL
                      ''Process had to be killed to be cancelled'' b)
               else b)
      in if exit_enum = PK_SPAWN_EXIT_TYPE_DISPATCHER_EXIT \<or>
            exit_enum = PK_SPAWN_EXIT_TYPE_DISPATCHER_CHANGED
         then bs\<lparr>bs_backend := b\<rparr>
         else if \<not> bs_finished bs then
           let b = (if \<not> pk_backend_has_set_error_code b
                    then snd (pk_backend_error_code PK_ERROR_ENUM_INTERNAL_ERROR
                           (''The backend exited unexpectedly. '' @
                            ''This is a serious error as the spawned backend did not complete the pending transaction.'') b)
                    else b)
           in bs\<lparr>bs_backend := snd (pk_backend_finished b)\<rparr>
         else bs\<lparr>bs_backend := b\<rparr>)"

text \<open>
  An operation on the helper, and then what it has emitted, in order: none of the callbacks
  touches the helper.
\<close>

fun spawn_signal_cb :: "guint \<Rightarrow> spawn_signal \<Rightarrow> PkBackendSpawn \<Rightarrow> PkBackendSpawn" where
  "spawn_signal_cb estimate (SPAWN_EXIT t) bs = pk_backend_spawn_exit_cb t bs"
| "spawn_signal_cb estimate (SPAWN_STDOUT line) bs = pk_backend_spawn_stdout_cb estimate line bs"
| "spawn_signal_cb estimate (SPAWN_STDERR line) bs = pk_backend_spawn_stderr_cb line bs"
| "spawn_signal_cb estimate _ bs = bs"

definition spawn_do ::
  "guint \<Rightarrow> (PkSpawn \<Rightarrow> 'a \<times> PkSpawn) \<Rightarrow> PkBackendSpawn \<Rightarrow> 'a \<times> PkBackendSpawn" where
  "spawn_do estimate f bs =
     (let (ret, sp) = f (bs_spawn bs);
          new = drop (length (sp_emitted (bs_spawn bs))) (sp_emitted sp)
      in (ret, fold (spawn_signal_cb estimate) new (bs\<lparr>bs_spawn := sp\<rparr>)))"

definition pk_backend_spawn_exit_timeout_cb ::
  "guint \<Rightarrow> int \<Rightarrow> (nat \<Rightarrow> child_poll) \<Rightarrow> PkBackendSpawn \<Rightarrow> PkBackendSpawn" where
  "pk_backend_spawn_exit_timeout_cb estimate wrote polls bs =
     (if pk_spawn_is_running (bs_spawn bs)
      then snd (spawn_do estimate (pk_spawn_exit wrote polls) bs) else bs)"

definition pk_backend_spawn_kill :: "guint \<Rightarrow> int \<Rightarrow> PkBackendSpawn \<Rightarrow> PkBackendSpawn" where
  "pk_backend_spawn_kill estimate retval bs =
     (let bs = bs\<lparr>bs_backend := snd (pk_backend_error_code PK_ERROR_ENUM_TRANSACTION_CANCELLED
                 ''the script was killed as the action was cancelled'' (bs_backend bs))\<rparr>
      in snd (spawn_do estimate (pk_spawn_kill retval) bs))"

definition pk_backend_spawn_exit ::
  "guint \<Rightarrow> int \<Rightarrow> (nat \<Rightarrow> child_poll) \<Rightarrow> PkBackendSpawn \<Rightarrow> PkBackendSpawn" where
  "pk_backend_spawn_exit estimate wrote polls bs = snd (spawn_do estimate (pk_spawn_exit wrote polls) bs)"

definition pk_backend_spawn_set_allow_sigkill :: "bool \<Rightarrow> PkBackendSpawn \<Rightarrow> bool \<times> PkBackendSpawn" where
  "pk_backend_spawn_set_allow_sigkill allow_sigkill bs =
     (if \<not> bs_allow_sigkill bs \<and> allow_sigkill then (False, bs)
      else (True, bs\<lparr>bs_spawn := (bs_spawn bs)\<lparr>sp_allow_sigkill := allow_sigkill\<rparr>\<rparr>))"

section \<open>Environment of the helper\<close>

definition pk_backend_spawn_convert_uri :: "string \<Rightarrow> string" where
  "pk_backend_spawn_convert_uri proxy =
     (let string = proxy;
          string = (if \<not> g_str_has_prefix proxy ''http://'' \<and> \<not> g_str_has_prefix proxy ''https://'' \<and>
                       \<not> g_str_has_prefix proxy ''ftp://''
                    then ''http://'' @ string else string)
      in if \<not> g_str_has_suffix proxy ''/'' then string @ ''/'' else string)"

text \<open>
  What the environment is made of besides the backend: the environment of the daemon, the
  orders in which two hash tables are gone through, which GLib leaves open, the state of the
  network, a key of the configuration and the place of the helpers.
\<close>

record spawn_environment =
  se_environ :: "string list"
  se_order :: "(string \<times> string) list \<Rightarrow> (string \<times> string) list"
  se_eula_order :: "string list \<Rightarrow> string list"
  se_network :: PkNetworkEnum
  se_idle :: bool
  se_helper_path :: "string \<Rightarrow> string \<Rightarrow> string"

text \<open>\<open>g_hash_table_replace\<close> on an association list.\<close>

definition replace :: "string \<Rightarrow> string \<Rightarrow> (string \<times> string) list \<Rightarrow> (string \<times> string) list" where
  "replace k v t = filter (\<lambda>(k', v'). k' \<noteq> k) t @ [(k, v)]"

definition replace_some ::
  "(string \<Rightarrow> string) \<Rightarrow> string \<Rightarrow> string option \<Rightarrow> (string \<times> string) list \<Rightarrow> (string \<times> string) list" where
  "replace_some f k v t = (if pk_strzero v then t else replace k (f (or_empty v)) t)"

definition environ_table :: "string list \<Rightarrow> (string \<times> string) list" where
  "environ_table items =
     foldl (\<lambda>t item.
        (case g_strsplit_max CHR ''='' 2 item of
           [k, v] \<Rightarrow> replace k v t
         | _ \<Rightarrow> t)) [] items"

definition true_false :: "bool \<Rightarrow> string" where
  "true_false b = (if b then ''TRUE'' else ''FALSE'')"

text \<open>\<open>interactive\<close> is an enumeration used as a truth value: only \<open>PK_HINT_ENUM_FALSE\<close> is 0.\<close>

definition env_table :: "spawn_environment \<Rightarrow> PkBackend \<Rightarrow> (string \<times> string) list" where
  "env_table e b =
     (let t = (if be_keep_environment b then environ_table (se_environ e) else []);
          t = (case pk_backend_get_accepted_eula_string (se_eula_order e) b of
                 None \<Rightarrow> t | Some eulas \<Rightarrow> replace ''accepted_eulas'' eulas t);
          t = replace_some pk_backend_spawn_convert_uri ''http_proxy'' (be_proxy_http b) t;
          t = replace_some pk_backend_spawn_convert_uri ''https_proxy'' (be_proxy_https b) t;
          t = replace_some pk_backend_spawn_convert_uri ''ftp_proxy'' (be_proxy_ftp b) t;
          t = replace_some pk_backend_spawn_convert_uri ''socks_proxy'' (be_proxy_socks b) t;
          t = replace_some pk_backend_spawn_convert_uri ''no_proxy'' (be_no_proxy b) t;
          t = replace_some pk_backend_spawn_convert_uri ''pac'' (be_pac b) t;
          t = replace_some (\<lambda>v. v) ''LANG'' (be_locale b) t;
          t = replace_some (\<lambda>v. v) ''FRONTEND_SOCKET'' (be_frontend_socket b) t;
          t = replace_some (\<lambda>v. v) ''ROOT'' (be_root b) t;
          t = replace ''NETWORK'' (true_false (pk_backend_is_online (se_network e))) t;
          t = replace ''BACKGROUND'' (true_false (pk_backend_use_background (se_idle e) b)) t;
          t = replace ''INTERACTIVE'' (true_false (be_interactive b \<noteq> PK_HINT_ENUM_FALSE)) t
      in if 0 < be_cache_age b then replace ''CACHE_AGE'' (fmt_i (be_cache_age b)) t else t)"

definition env_delimiters :: string where
  "env_delimiters = [CHR 0x5C] @ '';{}[]()*?%'' @ [CHR 0x0A, CHR 0x0D, CHR 0x09]"

definition env_safe :: "bool \<Rightarrow> string \<Rightarrow> string" where
  "env_safe keep s = (if \<not> keep then g_strdelimit s env_delimiters CHR ''_'' else s)"

definition pk_backend_spawn_get_envp :: "spawn_environment \<Rightarrow> PkBackend \<Rightarrow> string list" where
  "pk_backend_spawn_get_envp e b =
     map (\<lambda>(k, v). env_safe (be_keep_environment b) k @ ''='' @ env_safe (be_keep_environment b) v)
       (se_order e (env_table e b))"

section \<open>Starting the helper\<close>

definition pk_backend_spawn_va_list_to_argv :: "string \<Rightarrow> string list \<Rightarrow> string list" where
  "pk_backend_spawn_va_list_to_argv string_first args = string_first # args"

definition pk_backend_spawn_helper_va_list ::
  "PkConf \<Rightarrow> spawn_environment \<Rightarrow> guint \<Rightarrow> spawn_answers \<Rightarrow> string \<Rightarrow> string list \<Rightarrow>
   PkBackendSpawn \<Rightarrow> bool \<times> PkBackendSpawn" where
  "pk_backend_spawn_helper_va_list conf e estimate a executable args bs =
     (let argv = pk_backend_spawn_va_list_to_argv executable args;
          filename = se_helper_path e (or_empty (bs_name bs)) (hd argv);
          argv = filename # tl argv;
          bs = bs\<lparr>bs_spawn := (bs_spawn bs)
                 \<lparr>sp_background := (be_background (bs_backend bs) = PK_HINT_ENUM_TRUE)\<rparr>\<rparr>;
          bs = bs\<lparr>bs_finished := False\<rparr>;
          envp = pk_backend_spawn_get_envp e (bs_backend bs);
          (err, bs) = spawn_do estimate (pk_spawn_argv conf a argv envp) bs
      in (case err of
            None \<Rightarrow> (True, bs)
          | Some message \<Rightarrow>
              let b = snd (pk_backend_error_code PK_ERROR_ENUM_INTERNAL_ERROR
                        (''Spawn of helper '' @ quoted (hd argv) @ '' failed'') (bs_backend bs))
              in (False, bs\<lparr>bs_backend := snd (pk_backend_finished b)\<rparr>)))"

definition pk_backend_spawn_helper ::
  "PkConf \<Rightarrow> spawn_environment \<Rightarrow> guint \<Rightarrow> spawn_answers \<Rightarrow> string \<Rightarrow> string list \<Rightarrow>
   PkBackendSpawn \<Rightarrow> bool \<times> PkBackendSpawn" where
  "pk_backend_spawn_helper conf e estimate a first_element args bs =
     (if bs_name bs = None then (False, bs)
      else
        let bs = (if 0 < bs_kill_id bs
                  then bs\<lparr>bs_loop := g_source_remove (bs_kill_id bs) (bs_loop bs), bs_kill_id := 0\<rparr>
                  else bs)
        in pk_backend_spawn_helper_va_list conf e estimate a first_element args bs)"

text \<open>The end of the object: its timer goes, and the helper is ended with it.\<close>

definition pk_backend_spawn_finalize :: "int \<Rightarrow> PkBackendSpawn \<Rightarrow> PkBackendSpawn" where
  "pk_backend_spawn_finalize retval bs =
     (let bs = (if 0 < bs_kill_id bs
                then bs\<lparr>bs_loop := g_source_remove (bs_kill_id bs) (bs_loop bs)\<rparr> else bs)
      in bs\<lparr>bs_spawn := pk_spawn_finalize retval (bs_spawn bs)\<rparr>)"

end
