(* ===== verification/PK_Helper_Laws.thy ===== *)
theory PK_Helper_Laws
  imports PK_Spawn_Laws PK_Backend_Spawn
begin

text \<open>
  The protocol between a helper and the daemon. A report is what a helper has to say, its
  line is how it says it, and its call is the operation of the backend object that it stands
  for; parsing is the inverse of printing.
\<close>

section \<open>Numbers in lines\<close>

lemma of_char_digit: "d < 10 \<Longrightarrow> (of_char (digit_char d) :: nat) = 48 + d"
  by (simp add: digit_char_def)

lemma digits_value_app: "digits_value (ds @ [c]) = 10 * digits_value ds + ((of_char c :: nat) - 48)"
  by (simp add: digits_value_def)

lemma string_of_nat_digits:
  "list_all g_ascii_isdigit (string_of_nat n) \<and> string_of_nat n \<noteq> [] \<and> digits_value (string_of_nat n) = n"
proof (induction n rule: string_of_nat.induct)
  case (1 n)
  show ?case
  proof (cases "n < 10")
    case True
    then show ?thesis
      by (simp add: string_of_nat.simps [of n] g_ascii_isdigit_def of_char_digit digits_value_def)
  next
    case False
    with 1 show ?thesis
      by (simp add: string_of_nat.simps [of n] digits_value_app of_char_digit g_ascii_isdigit_def)
  qed
qed

lemma isdigit_facts:
  assumes "g_ascii_isdigit c"
  shows "\<not> g_ascii_isspace c" and "c \<noteq> CHR ''-''" and "c \<noteq> CHR ''+''" and "c \<noteq> CHR 0x09"
    and "c \<noteq> newline" and "c \<noteq> CHR 0x00"
  using assms by (auto simp: g_ascii_isdigit_def g_ascii_isspace_def)

lemma parse_string_of_nat: "g_parse_number (string_of_nat n) = Some (False, n)"
proof -
  obtain c cs where s: "string_of_nat n = c # cs" and d: "list_all g_ascii_isdigit (c # cs)"
    and v: "digits_value (c # cs) = n"
    using string_of_nat_digits [of n] by (cases "string_of_nat n") auto
  from d have c: "g_ascii_isdigit c" and cs: "takeWhile g_ascii_isdigit cs = cs"
    by (auto simp: takeWhile_eq_all_conv list_all_iff)
  show ?thesis
    using isdigit_facts [OF c] c cs v by (simp add: g_parse_number_def s Let_def del: takeWhile_eq_all_conv)
qed

lemma strtoint_string_of_nat: "int n \<le> G_MAXINT \<Longrightarrow> pk_strtoint (Some (string_of_nat n)) = Some (int n)"
  by (simp add: pk_strtoint_def g_ascii_strtoll_def parse_string_of_nat G_MAXINT_def G_MININT_def)

lemma strtouint64_string_of_nat:
  "n < 2 ^ 64 \<Longrightarrow> pk_strtouint64 (Some (string_of_nat n)) = (Some (of_nat n), True)"
  by (simp add: pk_strtouint64_def g_ascii_strtoull_def parse_string_of_nat)

lemma atol_string_of_nat: "n < 2 ^ 63 \<Longrightarrow> atol (string_of_nat n) = int n"
  by (simp add: atol_def g_ascii_strtoll_def parse_string_of_nat)

section \<open>Texts in lines\<close>

definition plain :: "string \<Rightarrow> bool" where
  "plain s \<longleftrightarrow> CHR 0x09 \<notin> set s \<and> newline \<notin> set s \<and> CHR 0x00 \<notin> set s"

lemma plain_number: "plain (string_of_nat n)"
  using string_of_nat_digits [of n] isdigit_facts by (force simp: plain_def list_all_iff)

text \<open>A text of several lines is printed with semicolons.\<close>

definition semicolons :: "string \<Rightarrow> string" where
  "semicolons text = g_strdelimit text [newline] CHR '';''"

definition multiline :: "string \<Rightarrow> bool" where
  "multiline s \<longleftrightarrow> CHR 0x09 \<notin> set s \<and> CHR '';'' \<notin> set s \<and> CHR 0x00 \<notin> set s"

lemma newlines_semicolons: "multiline s \<Longrightarrow> newlines (semicolons s) = s"
  by (induction s) (auto simp: newlines_def semicolons_def g_strdelimit_def multiline_def)

lemma plain_semicolons: "multiline s \<Longrightarrow> plain (semicolons s)"
  by (auto simp: plain_def multiline_def semicolons_def g_strdelimit_def)

lemma format_plain: "CHR ''%'' \<notin> set s \<Longrightarrow> format_no_args s = Some s"
  by (induction s) auto

lemma no_percent: "CHR ''%'' \<notin> set s \<Longrightarrow> g_strdelimit s ''%'' CHR ''$'' = s"
  by (rule g_strdelimit_unchanged) simp

text \<open>No text of an enumeration has a tab or a newline.\<close>

lemma tables_plain:
  "list_all (\<lambda>(e, s). plain s) enum_info" "list_all (\<lambda>(e, s). plain s) enum_group"
  "list_all (\<lambda>(e, s). plain s) enum_restart" "list_all (\<lambda>(e, s). plain s) enum_update_state"
  "list_all (\<lambda>(e, s). plain s) enum_error" "list_all (\<lambda>(e, s). plain s) enum_message"
  "list_all (\<lambda>(e, s). plain s) enum_status" "list_all (\<lambda>(e, s). plain s) enum_sig_type"
  "list_all (\<lambda>(e, s). plain s) enum_media_type" "list_all (\<lambda>(e, s). plain s) enum_upgrade"
  by code_simp+

lemma plain_entry: "list_all (\<lambda>(e, s). plain s) table \<Longrightarrow> (e, s) \<in> set table \<Longrightarrow> plain s"
  by (auto simp: list_all_iff)

lemma plain_enum:
  "e1 \<noteq> PK_INFO_ENUM_LAST \<Longrightarrow> plain (pk_info_enum_to_string e1)"
  "e2 \<noteq> PK_GROUP_ENUM_LAST \<Longrightarrow> plain (pk_group_enum_to_string e2)"
  "e3 \<noteq> PK_RESTART_ENUM_LAST \<Longrightarrow> plain (pk_restart_enum_to_string e3)"
  "e4 \<noteq> PK_UPDATE_STATE_ENUM_LAST \<Longrightarrow> plain (pk_update_state_enum_to_string e4)"
  "e5 \<noteq> PK_ERROR_ENUM_LAST \<Longrightarrow> plain (pk_error_enum_to_string e5)"
  "e6 \<noteq> PK_MESSAGE_ENUM_LAST \<Longrightarrow> plain (pk_message_enum_to_string e6)"
  "e7 \<noteq> PK_STATUS_ENUM_LAST \<Longrightarrow> plain (pk_status_enum_to_string e7)"
  "e8 \<noteq> PK_SIGTYPE_ENUM_LAST \<Longrightarrow> plain (pk_sig_type_enum_to_string e8)"
  "e9 \<noteq> PK_MEDIA_TYPE_ENUM_LAST \<Longrightarrow> plain (pk_media_type_enum_to_string e9)"
  "e10 \<noteq> PK_DISTRO_UPGRADE_ENUM_LAST \<Longrightarrow> plain (pk_distro_upgrade_enum_to_string e10)"
  unfolding enum_string_defs
  by (erule plain_entry [OF tables_plain(1) t_info.find_string_entry],
      erule plain_entry [OF tables_plain(2) t_group.find_string_entry],
      erule plain_entry [OF tables_plain(3) t_restart.find_string_entry],
      erule plain_entry [OF tables_plain(4) t_update_state.find_string_entry],
      erule plain_entry [OF tables_plain(5) t_error.find_string_entry],
      erule plain_entry [OF tables_plain(6) t_message.find_string_entry],
      erule plain_entry [OF tables_plain(7) t_status.find_string_entry],
      erule plain_entry [OF tables_plain(8) t_sig_type.find_string_entry],
      erule plain_entry [OF tables_plain(9) t_media_type.find_string_entry],
      erule plain_entry [OF tables_plain(10) t_upgrade.find_string_entry])

lemma enum_trips:
  "e1 \<noteq> PK_INFO_ENUM_LAST \<Longrightarrow> pk_info_enum_from_string (Some (pk_info_enum_to_string e1)) = e1"
  "e2 \<noteq> PK_GROUP_ENUM_LAST \<Longrightarrow> pk_group_enum_from_string (Some (pk_group_enum_to_string e2)) = e2"
  "e3 \<noteq> PK_RESTART_ENUM_LAST \<Longrightarrow> pk_restart_enum_from_string (Some (pk_restart_enum_to_string e3)) = e3"
  "e4 \<noteq> PK_UPDATE_STATE_ENUM_LAST \<Longrightarrow>
     pk_update_state_enum_from_string (Some (pk_update_state_enum_to_string e4)) = e4"
  "e5 \<noteq> PK_ERROR_ENUM_LAST \<Longrightarrow> pk_error_enum_from_string (Some (pk_error_enum_to_string e5)) = e5"
  "e6 \<noteq> PK_MESSAGE_ENUM_LAST \<Longrightarrow> pk_message_enum_from_string (Some (pk_message_enum_to_string e6)) = e6"
  "e7 \<noteq> PK_STATUS_ENUM_LAST \<Longrightarrow> pk_status_enum_from_string (Some (pk_status_enum_to_string e7)) = e7"
  "e8 \<noteq> PK_SIGTYPE_ENUM_LAST \<Longrightarrow> pk_sig_type_enum_from_string (Some (pk_sig_type_enum_to_string e8)) = e8"
  "e9 \<noteq> PK_MEDIA_TYPE_ENUM_LAST \<Longrightarrow>
     pk_media_type_enum_from_string (Some (pk_media_type_enum_to_string e9)) = e9"
  "e10 \<noteq> PK_DISTRO_UPGRADE_ENUM_LAST \<Longrightarrow>
     pk_distro_upgrade_enum_from_string (Some (pk_distro_upgrade_enum_to_string e10)) = e10"
  unfolding enum_string_defs
  by (erule t_info.value_of_string,
      erule t_group.value_of_string,
      erule t_restart.value_of_string,
      erule t_update_state.value_of_string,
      erule t_error.value_of_string,
      erule t_message.value_of_string,
      erule t_status.value_of_string,
      erule t_sig_type.value_of_string,
      erule t_media_type.value_of_string,
      erule t_upgrade.value_of_string)

section \<open>Reports\<close>

datatype helper_report =
    HR_package PkInfoEnum string string
  | HR_details string string PkGroupEnum string string nat
  | HR_files string string
  | HR_repo_detail string string bool
  | HR_update_detail string "string list" PkRestartEnum string string PkUpdateStateEnum string string
  | HR_percentage nat
  | HR_subpercentage nat
  | HR_item_percentage string nat
  | HR_error PkErrorEnum string
  | HR_require_restart PkRestartEnum string
  | HR_message PkMessageEnum string
  | HR_transaction_data string
  | HR_status PkStatusEnum
  | HR_speed nat
  | HR_allow_cancel bool
  | HR_no_percentage
  | HR_repo_signature string string "string list" PkSigTypeEnum
  | HR_eula string string string string
  | HR_media_change PkMediaTypeEnum string string
  | HR_distro_upgrade PkDistroUpgradeEnum string string
  | HR_category string string string string string

fun helper_sections :: "helper_report \<Rightarrow> string list" where
  "helper_sections (HR_package info package_id summary) =
     [''package'', pk_info_enum_to_string info, package_id, summary]"
| "helper_sections (HR_details package_id license grp description url size') =
     [''details'', package_id, license, pk_group_enum_to_string grp, semicolons description, url,
      string_of_nat size']"
| "helper_sections (HR_files package_id files) = [''files'', package_id, files]"
| "helper_sections (HR_repo_detail repo_id description enabled) =
     [''repo-detail'', repo_id, description, if enabled then ''true'' else ''false'']"
| "helper_sections (HR_update_detail package_id values restart update_text changelog state issued updated) =
     [''updatedetail'', package_id] @ values @
     [pk_restart_enum_to_string restart, semicolons update_text, semicolons changelog,
      pk_update_state_enum_to_string state, issued, updated]"
| "helper_sections (HR_percentage n) = [''percentage'', string_of_nat n]"
| "helper_sections (HR_subpercentage n) = [''subpercentage'', string_of_nat n]"
| "helper_sections (HR_item_percentage package_id n) = [''item-percentage'', package_id, string_of_nat n]"
| "helper_sections (HR_error code details) =
     [''error'', pk_error_enum_to_string code, semicolons details]"
| "helper_sections (HR_require_restart restart package_id) =
     [''requirerestart'', pk_restart_enum_to_string restart, package_id]"
| "helper_sections (HR_message type details) =
     [''message'', pk_message_enum_to_string type, semicolons details]"
| "helper_sections (HR_transaction_data data) = [''change-transaction-data'', data]"
| "helper_sections (HR_status status) = [''status'', pk_status_enum_to_string status]"
| "helper_sections (HR_speed n) = [''speed'', string_of_nat n]"
| "helper_sections (HR_allow_cancel allow) = [''allow-cancel'', if allow then ''true'' else ''false'']"
| "helper_sections HR_no_percentage = [''no-percentage-updates'']"
| "helper_sections (HR_repo_signature package_id name values sig_type) =
     [''repo-signature-required'', package_id, name] @ values @ [pk_sig_type_enum_to_string sig_type]"
| "helper_sections (HR_eula eula_id package_id vendor agreement) =
     [''eula-required'', eula_id, package_id, vendor, agreement]"
| "helper_sections (HR_media_change type media_id text') =
     [''media-change-required'', pk_media_type_enum_to_string type, media_id, text']"
| "helper_sections (HR_distro_upgrade state name summary) =
     [''distro-upgrade'', pk_distro_upgrade_enum_to_string state, name, summary]"
| "helper_sections (HR_category parent_id cat_id name summary icon) =
     [''category'', parent_id, cat_id, name, summary, icon]"

definition helper_line :: "helper_report \<Rightarrow> string" where
  "helper_line r = g_strjoinv [CHR 0x09] (helper_sections r)"

text \<open>What a report must be for its line to be accepted.\<close>

fun report_ok :: "helper_report \<Rightarrow> bool" where
  "report_ok (HR_package info package_id summary) =
     (info \<noteq> PK_INFO_ENUM_UNKNOWN \<and> info \<noteq> PK_INFO_ENUM_LAST \<and> pk_package_id_check (Some package_id) \<and>
      plain package_id \<and> plain summary)"
| "report_ok (HR_details package_id license grp description url size') =
     (plain package_id \<and> plain license \<and> grp \<noteq> PK_GROUP_ENUM_LAST \<and> multiline description \<and>
      plain url \<and> size' \<le> 2 ^ 30)"
| "report_ok (HR_files package_id files) = (plain package_id \<and> plain files)"
| "report_ok (HR_repo_detail repo_id description enabled) = (plain repo_id \<and> plain description)"
| "report_ok (HR_update_detail package_id values restart update_text changelog state issued updated) =
     (plain package_id \<and> length values = 5 \<and> list_all plain values \<and>
      restart \<noteq> PK_RESTART_ENUM_UNKNOWN \<and> restart \<noteq> PK_RESTART_ENUM_LAST \<and> multiline update_text \<and>
      multiline changelog \<and> state \<noteq> PK_UPDATE_STATE_ENUM_LAST \<and> plain issued \<and> plain updated)"
| "report_ok (HR_percentage n) = (n \<le> 100)"
| "report_ok (HR_subpercentage n) = (n \<le> 100)"
| "report_ok (HR_item_percentage package_id n) =
     (pk_package_id_check (Some package_id) \<and> plain package_id \<and> n \<le> 100)"
| "report_ok (HR_error code details) =
     (code \<noteq> PK_ERROR_ENUM_UNKNOWN \<and> code \<noteq> PK_ERROR_ENUM_LAST \<and> multiline details \<and>
      CHR ''%'' \<notin> set details)"
| "report_ok (HR_require_restart restart package_id) =
     (restart \<noteq> PK_RESTART_ENUM_UNKNOWN \<and> restart \<noteq> PK_RESTART_ENUM_LAST \<and>
      pk_package_id_check (Some package_id) \<and> plain package_id)"
| "report_ok (HR_message type details) =
     (type \<noteq> PK_MESSAGE_ENUM_UNKNOWN \<and> type \<noteq> PK_MESSAGE_ENUM_LAST \<and> multiline details \<and>
      CHR ''%'' \<notin> set details)"
| "report_ok (HR_transaction_data data) = plain data"
| "report_ok (HR_status status) = (status \<noteq> PK_STATUS_ENUM_UNKNOWN \<and> status \<noteq> PK_STATUS_ENUM_LAST)"
| "report_ok (HR_speed n) = (n < 2 ^ 64)"
| "report_ok (HR_allow_cancel allow) = True"
| "report_ok HR_no_percentage = True"
| "report_ok (HR_repo_signature package_id name values sig_type) =
     (package_id \<noteq> [] \<and> name \<noteq> [] \<and> plain package_id \<and> plain name \<and> length values = 5 \<and>
      list_all plain values \<and> sig_type \<noteq> PK_SIGTYPE_ENUM_UNKNOWN \<and> sig_type \<noteq> PK_SIGTYPE_ENUM_LAST)"
| "report_ok (HR_eula eula_id package_id vendor agreement) =
     (eula_id \<noteq> [] \<and> package_id \<noteq> [] \<and> agreement \<noteq> [] \<and> plain eula_id \<and> plain package_id \<and>
      plain vendor \<and> plain agreement)"
| "report_ok (HR_media_change type media_id text') =
     (type \<noteq> PK_MEDIA_TYPE_ENUM_UNKNOWN \<and> type \<noteq> PK_MEDIA_TYPE_ENUM_LAST \<and> plain media_id \<and> plain text')"
| "report_ok (HR_distro_upgrade state name summary) =
     (state \<noteq> PK_DISTRO_UPGRADE_ENUM_UNKNOWN \<and> state \<noteq> PK_DISTRO_UPGRADE_ENUM_LAST \<and> plain name \<and>
      plain summary)"
| "report_ok (HR_category parent_id cat_id name summary icon) =
     (parent_id \<noteq> cat_id \<and> cat_id \<noteq> [] \<and> name \<noteq> [] \<and> icon \<noteq> [] \<and> \<not> g_str_has_prefix icon ''/'' \<and>
      plain parent_id \<and> plain cat_id \<and> plain name \<and> plain summary \<and> plain icon)"

text \<open>The call of the backend object that a report stands for, with what the call returns.\<close>

fun report_call :: "guint \<Rightarrow> helper_report \<Rightarrow> PkBackend \<Rightarrow> bool \<times> PkBackend" where
  "report_call estimate (HR_package info package_id summary) b =
     pk_backend_package info package_id (Some summary) b"
| "report_call estimate (HR_details package_id license grp description url size') b =
     pk_backend_details package_id (Some license) grp (Some description) (Some url) (of_nat size') b"
| "report_call estimate (HR_files package_id files) b = pk_backend_files (Some package_id) files b"
| "report_call estimate (HR_repo_detail repo_id description enabled) b =
     pk_backend_repo_detail repo_id (Some description) enabled b"
| "report_call estimate (HR_update_detail package_id values restart update_text changelog state issued updated) b =
     pk_backend_update_detail
       \<lparr>ud_package_id = package_id, ud_updates = Some (values ! 0), ud_obsoletes = Some (values ! 1),
        ud_vendor_url = Some (values ! 2), ud_bugzilla_url = Some (values ! 3),
        ud_cve_url = Some (values ! 4), ud_restart = restart, ud_update_text = Some update_text,
        ud_changelog = Some changelog, ud_state = state, ud_issued = Some issued,
        ud_updated = Some updated\<rparr> b"
| "report_call estimate (HR_percentage n) b = pk_backend_set_percentage estimate (of_nat n) b"
| "report_call estimate (HR_subpercentage n) b = pk_backend_set_sub_percentage (of_nat n) b"
| "report_call estimate (HR_item_percentage package_id n) b =
     pk_backend_set_item_progress package_id (of_nat n) b"
| "report_call estimate (HR_error code details) b = pk_backend_error_code code details b"
| "report_call estimate (HR_require_restart restart package_id) b =
     pk_backend_require_restart restart (Some package_id) b"
| "report_call estimate (HR_message type details) b = pk_backend_message type details b"
| "report_call estimate (HR_transaction_data data) b = pk_backend_set_transaction_data data b"
| "report_call estimate (HR_status status) b = pk_backend_set_status status b"
| "report_call estimate (HR_speed n) b = pk_backend_set_speed (of_nat n) b"
| "report_call estimate (HR_allow_cancel allow) b = pk_backend_set_allow_cancel allow b"
| "report_call estimate HR_no_percentage b =
     pk_backend_set_percentage estimate PK_BACKEND_PERCENTAGE_INVALID b"
| "report_call estimate (HR_repo_signature package_id name values sig_type) b =
     pk_backend_repo_signature_required
       \<lparr>sg_package_id = Some package_id, sg_repository_name = name, sg_key_url = Some (values ! 0),
        sg_key_userid = Some (values ! 1), sg_key_id = Some (values ! 2),
        sg_key_fingerprint = Some (values ! 3), sg_key_timestamp = Some (values ! 4),
        sg_type = sig_type\<rparr> b"
| "report_call estimate (HR_eula eula_id package_id vendor agreement) b =
     pk_backend_eula_required
       \<lparr>eu_eula_id = eula_id, eu_package_id = package_id, eu_vendor_name = vendor,
        eu_license_agreement = agreement\<rparr> b"
| "report_call estimate (HR_media_change type media_id text') b =
     pk_backend_media_change_required type media_id text' b"
| "report_call estimate (HR_distro_upgrade state name summary) b =
     pk_backend_distro_upgrade state name summary b"
| "report_call estimate (HR_category parent_id cat_id name summary icon) b =
     pk_backend_category (Some parent_id) cat_id (Some name) (Some summary) (Some icon) b"

text \<open>The five reports for which the parser returns what the call returns.\<close>

fun report_returns :: "helper_report \<Rightarrow> bool" where
  "report_returns (HR_repo_signature package_id name values sig_type) = True"
| "report_returns (HR_eula eula_id package_id vendor agreement) = True"
| "report_returns (HR_media_change type media_id text') = True"
| "report_returns (HR_distro_upgrade state name summary) = True"
| "report_returns (HR_category parent_id cat_id name summary icon) = True"
| "report_returns _ = False"

section \<open>Parsing inverts printing\<close>

lemma plain_literal:
  "list_all plain [''package'', ''details'', ''files'', ''repo-detail'', ''updatedetail'', ''percentage'',
     ''subpercentage'', ''item-percentage'', ''error'', ''requirerestart'', ''message'',
     ''change-transaction-data'', ''status'', ''speed'', ''allow-cancel'', ''no-percentage-updates'',
     ''repo-signature-required'', ''eula-required'', ''media-change-required'', ''distro-upgrade'',
     ''category'', ''true'', ''false'']"
  by code_simp

lemma sections_plain: "report_ok r \<Longrightarrow> list_all plain (helper_sections r)"
  using plain_literal by (cases r) (auto simp: plain_enum plain_semicolons plain_number)

lemma sections_split:
  assumes "report_ok r"
  shows "g_strsplit CHR 0x09 (helper_line r) = helper_sections r"
  unfolding helper_line_def
proof (rule g_strsplit_joinv)
  show "helper_sections r \<noteq> []" "helper_sections r \<noteq> [[]]" by (cases r; simp)+
  show "\<forall>w \<in> set (helper_sections r). CHR 0x09 \<notin> set w"
    using sections_plain [OF assms] by (auto simp: list_all_iff plain_def)
qed

lemma five: "length xs = 5 \<longleftrightarrow> (\<exists>a b c d e. xs = [a, b, c, d, e])"
  by (auto simp: length_Suc_conv eval_nat_numeral)

lemma parse_percent_report:
  "n \<le> 100 \<Longrightarrow> parse_percent what shown (string_of_nat n) f b = parse_done (f (of_nat n) b)"
  by (simp add: parse_percent_def strtoint_string_of_nat G_MAXINT_def)

lemmas parse_defs = parse_package_def parse_details_def parse_files_def parse_repo_detail_def
  parse_update_detail_def parse_percentage_def parse_subpercentage_def parse_item_percentage_def
  parse_error_code_def parse_require_restart_def parse_message_def parse_transaction_data_def
  parse_status_def parse_speed_def parse_allow_cancel_def parse_no_percentage_def
  parse_repo_signature_def parse_eula_def parse_media_change_def parse_distro_upgrade_def
  parse_category_def

lemma size_accepted: "n \<le> 2 ^ 30 \<Longrightarrow> \<not> (1073741824 :: guint64) < word_of_int (atol (string_of_nat n))"
  by (simp add: atol_string_of_nat word_less_nat_alt unat_of_nat)

lemma ucast_speed: "(ucast (of_nat n :: guint64) :: guint) = of_nat n"
  by (rule word_unat_eq_iff [THEN iffD2])
    (simp add: unsigned_ucast_eq unsigned_of_nat take_bit_take_bit)

lemma parse_report:
  assumes "report_ok r"
  shows "parse_command estimate (helper_sections r) b =
    (if report_returns r then parse_ret else parse_done) (report_call estimate r b)"
proof (cases r)
  case (HR_details package_id license grp description url size')
  with assms size_accepted [of size'] show ?thesis
    by (simp add: parse_command_def parse_defs enum_trips newlines_semicolons atol_string_of_nat)
qed (use assms in \<open>auto simp: parse_command_def parse_defs enum_trips newlines_semicolons
    parse_percent_report five strtouint64_string_of_nat pk_strzero_def no_percent format_plain ucast_speed\<close>)

end
