(* ===== verification/PK_Helper_Properties.thy ===== *)
theory PK_Helper_Properties
  imports PK_Helper_Laws PK_Backend_Laws
begin

text \<open>
  What holds between the daemon and its helpers: reports arrive as calls, refused lines change
  nothing, the helper is watched while it runs, its environment is clean, and its end is the end
  of the work - except where an older exit type is reported again.
\<close>

section \<open>Callbacks\<close>

definition report_do :: "guint \<Rightarrow> helper_report \<Rightarrow> PkBackendSpawn \<Rightarrow> PkBackendSpawn" where
  "report_do estimate r bs =
     (let (ret, b) = report_call estimate r (bs_backend bs)
      in bs\<lparr>bs_backend := b, bs_undefined := bs_undefined bs \<or> report_returns r \<and> \<not> ret\<rparr>)"

lemma sections_not_finished: "\<exists>c ss. helper_sections r = c # ss \<and> c \<noteq> ''finished''"
  by (cases r) auto

lemma stdout_report:
  assumes "report_ok r" and "bs_stdout_func bs = None"
  shows "pk_backend_spawn_stdout_cb estimate (helper_line r) bs = report_do estimate r bs"
proof -
  obtain c ss where ss: "helper_sections r = c # ss" "c \<noteq> ''finished''"
    using sections_not_finished by blast
  have "pk_backend_spawn_parse_stdout estimate (helper_line r) bs =
      (let (answer, b) = parse_command estimate (helper_sections r) (bs_backend bs)
       in (answer, bs\<lparr>bs_backend := b\<rparr>))"
    using ss by (simp add: pk_backend_spawn_parse_stdout_def sections_split [OF assms(1)])
  then show ?thesis
    using assms(2)
    by (simp add: pk_backend_spawn_stdout_cb_def pk_backend_spawn_inject_data_def
        parse_report [OF assms(1)] report_do_def parse_ret_def parse_done_def split_beta)
qed

lemma report_do_frame [simp]:
  "bs_stdout_func (report_do estimate r bs) = bs_stdout_func bs"
  "bs_spawn (report_do estimate r bs) = bs_spawn bs"
  by (simp_all add: report_do_def split_beta)

lemma stdout_reports:
  "list_all report_ok rs \<Longrightarrow> bs_stdout_func bs = None \<Longrightarrow>
   fold (pk_backend_spawn_stdout_cb estimate) (map helper_line rs) bs = fold (report_do estimate) rs bs"
  by (induction rs arbitrary: bs) (simp_all add: stdout_report)

text \<open>No callback reads or writes the helper.\<close>

lemma parse_stdout_spawn:
  "pk_backend_spawn_parse_stdout estimate line (bs\<lparr>bs_spawn := sp\<rparr>) =
     apsnd (\<lambda>bs. bs\<lparr>bs_spawn := sp\<rparr>) (pk_backend_spawn_parse_stdout estimate line bs)"
  by (simp add: pk_backend_spawn_parse_stdout_def pk_backend_spawn_start_kill_timer_def Let_def split_beta)

lemma stdout_cb_spawn:
  "pk_backend_spawn_stdout_cb estimate line (bs\<lparr>bs_spawn := sp\<rparr>) =
     (pk_backend_spawn_stdout_cb estimate line bs)\<lparr>bs_spawn := sp\<rparr>"
proof -
  have "pk_backend_spawn_inject_data estimate line (bs\<lparr>bs_spawn := sp\<rparr>) =
      apsnd (\<lambda>bs. bs\<lparr>bs_spawn := sp\<rparr>) (pk_backend_spawn_inject_data estimate line bs)"
  proof (cases "bs_stdout_func bs")
    case (Some func)
    let ?b = "snd (func line (bs_backend bs))"
    have "bs\<lparr>bs_spawn := sp, bs_backend := ?b\<rparr> = bs\<lparr>bs_backend := ?b\<rparr>\<lparr>bs_spawn := sp\<rparr>" by simp
    then have "pk_backend_spawn_parse_stdout estimate line (bs\<lparr>bs_spawn := sp, bs_backend := ?b\<rparr>) =
        apsnd (\<lambda>bs. bs\<lparr>bs_spawn := sp\<rparr>)
          (pk_backend_spawn_parse_stdout estimate line (bs\<lparr>bs_backend := ?b\<rparr>))"
      by (simp only: parse_stdout_spawn)
    with Some show ?thesis by (simp add: pk_backend_spawn_inject_data_def split_beta Let_def)
  qed (simp add: pk_backend_spawn_inject_data_def parse_stdout_spawn)
  then show ?thesis
    by (simp add: pk_backend_spawn_stdout_cb_def split_beta split: parse_answer.split)
qed

lemma stdout_cbs_spawn:
  "fold (pk_backend_spawn_stdout_cb estimate) ls (bs\<lparr>bs_spawn := sp\<rparr>) =
     (fold (pk_backend_spawn_stdout_cb estimate) ls bs)\<lparr>bs_spawn := sp\<rparr>"
  by (induction ls arbitrary: bs) (simp_all add: stdout_cb_spawn)

lemma stdout_signals:
  "fold (spawn_signal_cb estimate) (map SPAWN_STDOUT ls) bs = fold (pk_backend_spawn_stdout_cb estimate) ls bs"
  by (induction ls arbitrary: bs) simp_all

section \<open>Looking at a running helper\<close>

definition running_look :: "child_poll \<Rightarrow> bool" where
  "running_look p \<longleftrightarrow> cp_pid p = 0 \<and> cp_stderr p = []"

definition looked :: "PkSpawn \<Rightarrow> bool" where
  "looked sp \<longleftrightarrow> \<not> sp_finished sp \<and> sp_stderr_buf sp = []"

lemma look_feed:
  "running_look p \<Longrightarrow> looked sp \<Longrightarrow> pk_spawn_check_child p sp = (True, feed (cp_stdout p) sp)"
  by (simp add: running_look_def looked_def pk_spawn_check_child_def read_output_def feed_def Let_def
      pk_spawn_read_fd_into_buffer_def)

definition look :: "guint \<Rightarrow> child_poll \<Rightarrow> PkBackendSpawn \<Rightarrow> PkBackendSpawn" where
  "look estimate p bs = snd (spawn_do estimate (pk_spawn_check_child p) bs)"

lemma look_eq:
  assumes "running_look p" and "looked (bs_spawn bs)" and "\<forall>c \<in> set (cp_stdout p). CHR 0x00 \<notin> set c"
  shows "look estimate p bs =
    (fold (pk_backend_spawn_stdout_cb estimate)
      (butlast (split_on newline (sp_stdout_buf (bs_spawn bs) @ concat (cp_stdout p)))) bs)
      \<lparr>bs_spawn := feed (cp_stdout p) (bs_spawn bs)\<rparr>"
  using assms(3)
  by (simp add: look_def spawn_do_def look_feed [OF assms(1,2)] feed_eq stdout_signals stdout_cbs_spawn)

lemma looks_eq:
  assumes "list_all running_look ps" and "looked (bs_spawn bs)"
    and "\<forall>p \<in> set ps. \<forall>c \<in> set (cp_stdout p). CHR 0x00 \<notin> set c"
    and "newline \<notin> set (sp_stdout_buf (bs_spawn bs))"
  shows "fold (look estimate) ps bs =
    (fold (pk_backend_spawn_stdout_cb estimate)
      (butlast (split_on newline (sp_stdout_buf (bs_spawn bs) @ concat (concat (map cp_stdout ps))))) bs)
      \<lparr>bs_spawn := fold feed (map cp_stdout ps) (bs_spawn bs)\<rparr>"
  using assms
proof (induction ps arbitrary: bs)
  case Nil
  then show ?case by (simp add: split_on_id)
next
  case (Cons p ps)
  let ?b = "sp_stdout_buf (bs_spawn bs) @ concat (cp_stdout p)"
  let ?l = "look estimate p bs"
  have nul: "\<forall>c \<in> set (cp_stdout p). CHR 0x00 \<notin> set c" using Cons.prems(3) by simp
  have l: "?l = (fold (pk_backend_spawn_stdout_cb estimate) (butlast (split_on newline ?b)) bs)
      \<lparr>bs_spawn := feed (cp_stdout p) (bs_spawn bs)\<rparr>"
    using Cons.prems nul by (intro look_eq) simp_all
  have f: "bs_spawn ?l = feed (cp_stdout p) (bs_spawn bs)" by (simp add: l)
  have buf: "sp_stdout_buf (bs_spawn ?l) = last (split_on newline ?b)"
    using nul by (simp add: f feed_eq)
  have "looked (bs_spawn ?l)" using Cons.prems(2) nul by (simp add: f feed_eq looked_def)
  moreover have "newline \<notin> set (sp_stdout_buf (bs_spawn ?l))"
    unfolding buf by (metis last_in_set split_on_no_delim split_on_not_Nil)
  ultimately have "fold (look estimate) ps ?l =
    (fold (pk_backend_spawn_stdout_cb estimate)
      (butlast (split_on newline (last (split_on newline ?b) @ concat (concat (map cp_stdout ps))))) ?l)
      \<lparr>bs_spawn := fold feed (map cp_stdout ps) (bs_spawn ?l)\<rparr>"
    using Cons.IH [of ?l] Cons.prems(1,3) buf by simp
  with split_on_app [of newline ?b "concat (concat (map cp_stdout ps))"] show ?case
    by (simp add: f l stdout_cbs_spawn butlast_append)
qed

lemma helper_line_plain:
  assumes "report_ok r"
  shows "CHR 0x00 \<notin> set (helper_line r)" and "newline \<notin> set (helper_line r)"
proof -
  have "set (g_strjoinv [CHR 0x09] ws) \<subseteq> insert (CHR 0x09) (\<Union> (set ` set ws))" for ws
    by (induction "[CHR 0x09]" ws rule: g_strjoinv.induct) auto
  with sections_plain [OF assms] show "CHR 0x00 \<notin> set (helper_line r)" "newline \<notin> set (helper_line r)"
    by (fastforce simp: helper_line_def list_all_iff plain_def)+
qed

section \<open>Reports arrive\<close>

text \<open>C15: The protocol of the helpers: whatever reports a helper prints, and in whatever pieces its output
  is read, the backend object sees the calls that the reports stand for, each once and in the
  order in which they were printed, and nothing is left in the buffer.\<close>

theorem helper_protocol:
  assumes "list_all report_ok rs" and "bs_stdout_func bs = None"
    and "list_all running_look ps" and "looked (bs_spawn bs)" and "sp_stdout_buf (bs_spawn bs) = []"
    and "concat (concat (map cp_stdout ps)) = concat (map (\<lambda>r. helper_line r @ [newline]) rs)"
  shows "fold (look estimate) ps bs =
    (fold (report_do estimate) rs bs)\<lparr>bs_spawn := bs_spawn (fold (look estimate) ps bs)\<rparr> \<and>
    sp_stdout_buf (bs_spawn (fold (look estimate) ps bs)) = []"
proof -
  have lines: "\<forall>l \<in> set (map helper_line rs). newline \<notin> set l \<and> CHR 0x00 \<notin> set l"
    using assms(1) helper_line_plain by (auto simp: list_all_iff)
  have all: "concat (concat (map cp_stdout ps)) = concat (map (\<lambda>l. l @ [newline]) (map helper_line rs))"
    using assms(6) by (simp add: comp_def)
  have "CHR 0x00 \<notin> set (concat (concat (map cp_stdout ps)))"
    unfolding all using lines by auto
  then have nul: "\<forall>p \<in> set ps. \<forall>c \<in> set (cp_stdout p). CHR 0x00 \<notin> set c" by auto
  have split: "split_on newline (concat (concat (map cp_stdout ps))) = map helper_line rs @ [[]]"
    unfolding all using lines by (intro split_on_lines) auto
  have "fold (look estimate) ps bs =
    (fold (report_do estimate) rs bs)\<lparr>bs_spawn := fold feed (map cp_stdout ps) (bs_spawn bs)\<rparr>"
    using looks_eq [OF assms(3,4) nul] assms(5) split stdout_reports [OF assms(1,2)] by simp
  moreover have "sp_stdout_buf (fold feed (map cp_stdout ps) (bs_spawn bs)) = []"
    using feeds_eq [of "map cp_stdout ps" "bs_spawn bs"] nul assms(5) split by simp
  ultimately show ?thesis by simp
qed

definition example_look :: "string list \<Rightarrow> child_poll" where
  "example_look chunks = \<lparr>cp_stdout = chunks, cp_stderr = [], cp_pid = 0, cp_status = WS_OTHER\<rparr>"

definition example_plugin_backend :: PkBackend where
  "example_plugin_backend = snd (pk_backend_lock (\<lambda>b. b)
     ((pk_backend_new False False)\<lparr>be_desc := Some
        \<lparr>desc_methods = [], desc_get_roles = None, desc_get_groups = None, desc_get_filters = None,
         desc_get_mime_types = None, desc_initialize = False, desc_destroy = False,
         desc_transaction_start = False, desc_transaction_stop = False,
         desc_transaction_reset = False\<rparr>\<rparr>))"

definition example_helper_conf :: PkConf where
  "example_helper_conf = \<lparr>keyfile_string = (\<lambda>k. None), keyfile_string_list = (\<lambda>k. None),
     keyfile_integer = (\<lambda>k. None),
     keyfile_boolean = (\<lambda>k. if k = ''BackendSpawnAllowSIGKILL'' then Some True else None)\<rparr>"

definition example_spawn :: PkBackendSpawn where
  "example_spawn = pk_backend_spawn_set_name ''test''
     (pk_backend_spawn_init example_helper_conf example_plugin_backend)"

definition example_reports :: "helper_report list" where
  "example_reports = [HR_status PK_STATUS_ENUM_QUERY, HR_percentage 42]"

definition example_looks :: "child_poll list" where
  "example_looks =
     [example_look [''sta'', ''tus'' @ [CHR 0x09] @ ''que''],
      example_look [''ry'' @ [newline] @ ''percent'', ''age'' @ [CHR 0x09]],
      example_look [''42'' @ [newline]]]"

lemma helper_protocol_witness:
  "bs_backend (fold (look 0) example_looks example_spawn) =
   bs_backend (fold (report_do 0) example_reports example_spawn)"
proof -
  have "concat (concat (map cp_stdout example_looks)) =
      concat (map (\<lambda>r. helper_line r @ [newline]) example_reports)"
    "list_all report_ok example_reports" "list_all running_look example_looks"
    by code_simp+
  moreover have "bs_stdout_func example_spawn = None" "looked (bs_spawn example_spawn)"
    "sp_stdout_buf (bs_spawn example_spawn) = []"
    by (simp_all add: example_spawn_def pk_backend_spawn_set_name_def pk_backend_spawn_init_def Let_def
        looked_def pk_spawn_init_def)
  ultimately have "fold (look 0) example_looks example_spawn =
    (fold (report_do 0) example_reports example_spawn)
      \<lparr>bs_spawn := bs_spawn (fold (look 0) example_looks example_spawn)\<rparr>"
    using helper_protocol by blast
  then show ?thesis by (metis PkBackendSpawn.select_convs(2) PkBackendSpawn.surjective PkBackendSpawn.update_convs(1))
qed

section \<open>Refused lines\<close>

definition clean :: "parse_result \<Rightarrow> PkBackend \<Rightarrow> bool" where
  "clean r b \<longleftrightarrow> (\<forall>m. fst r = PARSE_ERROR m \<longrightarrow> snd r = b)"

lemma clean_simps [simp]:
  "clean (parse_done r) b" "clean (parse_ret r) b" "clean (size_error ss b) b"
  "clean (unknown_error kind t b) b" "clean (blank_error what t b) b" "clean (parse_error m b) b"
  "clean (a, b) b"
  by (simp_all add: clean_def parse_done_def parse_ret_def size_error_def unknown_error_def blank_error_def
      parse_error_def)

lemma clean_percent [simp]: "clean (parse_percent what shown t f b) b"
  by (simp add: parse_percent_def split: option.split)

lemma clean_branches:
  "clean (parse_package ss b) b" "clean (parse_details ss b) b" "clean (parse_files ss b) b"
  "clean (parse_repo_detail ss b) b" "clean (parse_update_detail ss b) b"
  "clean (parse_percentage estimate ss b) b" "clean (parse_subpercentage ss b) b"
  "clean (parse_item_percentage ss b) b" "clean (parse_error_code ss b) b"
  "clean (parse_require_restart ss b) b" "clean (parse_message ss b) b"
  "clean (parse_transaction_data ss b) b" "clean (parse_status ss b) b" "clean (parse_speed ss b) b"
  "clean (parse_allow_cancel ss b) b" "clean (parse_no_percentage estimate ss b) b"
  "clean (parse_repo_signature ss b) b" "clean (parse_eula ss b) b" "clean (parse_media_change ss b) b"
  "clean (parse_distro_upgrade ss b) b" "clean (parse_category ss b) b"
  by (simp_all add: parse_defs Let_def split: option.split prod.split bool.split)

lemma clean_command: "clean (parse_command estimate ss b) b"
  by (simp add: parse_command_def Let_def clean_branches)

text \<open>A line that the daemon refuses with an error - an unknown command, a wrong number of fields, a
  field that does not parse - changes nothing but adds one message about it.\<close>

theorem refused_line_harmless:
  assumes "fst (pk_backend_spawn_parse_stdout estimate line bs) = PARSE_ERROR message"
    and "bs_stdout_func bs = None"
  shows "pk_backend_spawn_stdout_cb estimate line bs =
    bs\<lparr>bs_backend := snd (pk_backend_message PK_MESSAGE_ENUM_BACKEND_ERROR
         (''Failed to parse output: '' @ message) (bs_backend bs))\<rparr>"
proof -
  have "snd (pk_backend_spawn_parse_stdout estimate line bs) = bs"
    using assms(1) clean_command [of estimate "g_strsplit CHR 0x09 line" "bs_backend bs"]
    by (auto simp: pk_backend_spawn_parse_stdout_def Let_def split_beta clean_def split: if_splits)
  with assms show ?thesis
    by (simp add: pk_backend_spawn_stdout_cb_def pk_backend_spawn_inject_data_def split_beta)
qed

lemma refused_line_harmless_witness:
  "pk_backend_spawn_stdout_cb 0 ''package'' example_spawn =
    example_spawn\<lparr>bs_backend := snd (pk_backend_message PK_MESSAGE_ENUM_BACKEND_ERROR
         (''Failed to parse output: '' @ ''invalid command'' @ [CHR 0x27] @ ''package'' @ [CHR 0x27] @
          '', size 1'') (bs_backend example_spawn))\<rparr>"
proof -
  have "fst (pk_backend_spawn_parse_stdout 0 ''package'' example_spawn) =
      PARSE_ERROR (''invalid command'' @ [CHR 0x27] @ ''package'' @ [CHR 0x27] @ '', size 1'')"
    by code_simp
  moreover have "bs_stdout_func example_spawn = None"
    by (simp add: example_spawn_def pk_backend_spawn_set_name_def pk_backend_spawn_init_def Let_def)
  ultimately show ?thesis by (rule refused_line_harmless)
qed

text \<open>After an error has been reported, five kinds of reports take the daemon down: the backend refuses
  them, the parser returns \<open>FALSE\<close> without an error, and the message of that error is read.\<close>

theorem required_after_error_crashes:
  assumes "report_returns r" and "report_ok r" and "be_set_error (bs_backend bs)"
    and "bs_stdout_func bs = None"
  shows "bs_undefined (pk_backend_spawn_stdout_cb estimate (helper_line r) bs)"
proof -
  have "\<not> fst (report_call estimate r (bs_backend bs))"
    using assms(1,3)
    by (cases r) (simp_all add: pk_backend_repo_signature_required_def pk_backend_eula_required_def
        pk_backend_media_change_required_def pk_backend_distro_upgrade_def pk_backend_category_def)
  with assms show ?thesis by (simp add: stdout_report report_do_def split_beta)
qed

lemma required_after_error_crashes_witness:
  "bs_undefined (pk_backend_spawn_stdout_cb 0 (''media-change-required'' @ [CHR 0x09] @ ''dvd'' @ [CHR 0x09] @
     ''linux-disk-1'' @ [CHR 0x09] @ ''linux-disk-1'')
     (pk_backend_spawn_stdout_cb 0 (''error'' @ [CHR 0x09] @ ''no-network'' @ [CHR 0x09] @ ''offline'')
        example_spawn))"
proof -
  let ?r = "HR_media_change PK_MEDIA_TYPE_ENUM_DVD ''linux-disk-1'' ''linux-disk-1''"
  let ?e = "pk_backend_spawn_stdout_cb 0 (''error'' @ [CHR 0x09] @ ''no-network'' @ [CHR 0x09] @ ''offline'')
        example_spawn"
  have "report_ok ?r" "be_set_error (bs_backend ?e)" "bs_stdout_func ?e = None"
    "helper_line ?r = ''media-change-required'' @ [CHR 0x09] @ ''dvd'' @ [CHR 0x09] @
     ''linux-disk-1'' @ [CHR 0x09] @ ''linux-disk-1''"
    by code_simp+
  then show ?thesis using required_after_error_crashes [of ?r ?e 0] by simp
qed

section \<open>The end of a helper\<close>

lemma finished_marks:
  assumes "be_locked b" and "\<not> be_during_initialize b"
  shows "be_finished (snd (pk_backend_finished b)) \<and>
    be_set_error (snd (pk_backend_finished b)) = be_set_error b"
proof -
  have "core (finish_close (finish_untimed (finish_prepare b))) = core b" by (simp add: pk_frame)
  from core_eqD [OF this] assms show ?thesis by (simp add: pk_backend_finished_steps Let_def pk_frame)
qed

lemma error_exit_initialize: "be_during_initialize (error_exit e b) = be_during_initialize b"
  by (simp add: error_exit_def pk_backend_set_exit_code_def Let_def)

lemma error_marks:
  assumes "\<not> be_during_initialize b"
  shows "be_set_error (snd (pk_backend_error_code e t b)) \<and>
    be_locked (snd (pk_backend_error_code e t b)) = be_locked b \<and>
    \<not> be_during_initialize (snd (pk_backend_error_code e t b))"
  using assms
  by (simp add: error_code_steps Let_def pk_frame emit_def add_result_def error_exit_initialize)
    (simp add: add_source_def split_beta)

lemma exit_finishes:
  assumes "t \<noteq> PK_SPAWN_EXIT_TYPE_DISPATCHER_EXIT" and "t \<noteq> PK_SPAWN_EXIT_TYPE_DISPATCHER_CHANGED"
    and "\<not> bs_finished bs" and "be_locked (bs_backend bs)" and "\<not> be_during_initialize (bs_backend bs)"
  shows "be_finished (bs_backend (pk_backend_spawn_exit_cb t bs)) \<and>
    be_set_error (bs_backend (pk_backend_spawn_exit_cb t bs))"
proof -
  define b where "b = (if t = PK_SPAWN_EXIT_TYPE_SIGKILL
      then snd (pk_backend_error_code PK_ERROR_ENUM_PROCESS_KILL
             ''Process had to be killed to be cancelled'' (bs_backend bs)) else bs_backend bs)"
  have b: "be_locked b" "\<not> be_during_initialize b"
    using assms(4,5) error_marks [OF assms(5)] by (simp_all add: b_def)
  define c where "c = (if \<not> pk_backend_has_set_error_code b
      then snd (pk_backend_error_code PK_ERROR_ENUM_INTERNAL_ERROR
             (''The backend exited unexpectedly. '' @
              ''This is a serious error as the spawned backend did not complete the pending transaction.'') b)
      else b)"
  have c: "be_locked c" "\<not> be_during_initialize c" "be_set_error c"
    using b error_marks [OF b(2)] by (simp_all add: c_def pk_backend_has_set_error_code_def)
  have "bs_backend (pk_backend_spawn_exit_cb t bs) = snd (pk_backend_finished c)"
    using assms(1-3) by (simp add: pk_backend_spawn_exit_cb_def Let_def b_def c_def)
  with finished_marks [OF c(1,2)] c(3) show ?thesis by simp
qed

text \<open>A look at a process that has ended, in the way that \<open>status\<close> tells, and the exit type that is
  reported: that of a signal, or that of an end by itself if none was recorded before.\<close>

definition ended_look :: "PkSpawn \<Rightarrow> wait_status \<Rightarrow> child_poll" where
  "ended_look sp status =
     \<lparr>cp_stdout = [], cp_stderr = [], cp_pid = sp_child_pid sp, cp_status = status\<rparr>"

fun reported_exit :: "wait_status \<Rightarrow> PkSpawnExitType \<Rightarrow> PkSpawnExitType" where
  "reported_exit (WS_SIGNALED n) old =
     (if n = SIGQUIT then PK_SPAWN_EXIT_TYPE_SIGQUIT else PK_SPAWN_EXIT_TYPE_SIGKILL)"
| "reported_exit (WS_EXITED code) old =
     (if old \<noteq> PK_SPAWN_EXIT_TYPE_UNKNOWN then old
      else if code = 0 then PK_SPAWN_EXIT_TYPE_SUCCESS else PK_SPAWN_EXIT_TYPE_FAILED)"
| "reported_exit WS_OTHER old = old"

lemma set_exit_reported:
  "status \<noteq> WS_OTHER \<Longrightarrow> set_exit status sp = Some (sp\<lparr>sp_exit := reported_exit status (sp_exit sp)\<rparr>)"
  by (cases status) (auto simp: set_exit_def)

lemma ended_check:
  assumes "looked sp" and "0 < sp_child_pid sp" and "\<not> sp_is_changing_dispatcher sp"
    and "\<not> sp_is_sending_exit sp" and "status \<noteq> WS_OTHER"
    and "newline \<notin> set (sp_stdout_buf sp)"
  shows "\<exists>es. sp_emitted (snd (pk_spawn_check_child (ended_look sp status) sp)) =
      sp_emitted sp @ es @ [SPAWN_EXIT (reported_exit status (sp_exit sp))] \<and> set es \<subseteq> range SYS_close"
proof -
  have out: "read_output (ended_look sp status) sp = sp"
    using assms(1,6)
    by (simp add: read_output_def ended_look_def looked_def pk_spawn_read_fd_into_buffer_def Let_def
        emit_whole_lines_eq split_on_id)
  have e: "sp_emitted (close_child sp) =
      sp_emitted sp @ [SYS_close (sp_stdin_fd sp), SYS_close (sp_stdout_fd sp), SYS_close (sp_stderr_fd sp)]"
    "sp_exit (close_child sp) = sp_exit sp"
    "sp_is_changing_dispatcher (close_child sp) = sp_is_changing_dispatcher sp"
    "sp_is_sending_exit (close_child sp) = sp_is_sending_exit sp"
    by (simp_all add: close_child_def Let_def spawn_emit_def spawn_remove_def)
  define c where "c = (close_child sp)\<lparr>sp_exit := reported_exit status (sp_exit sp)\<rparr>"
  have "snd (pk_spawn_check_child (ended_look sp status) sp) = emit_exit c"
    using assms(1,2) set_exit_reported [OF assms(5), of "close_child sp"]
    by (simp add: pk_spawn_check_child_def out [unfolded ended_look_def] ended_look_def looked_def Let_def
        c_def e(2))
  then show ?thesis
    using assms(3,4)
    by (auto simp: emit_exit_def Let_def spawn_emit_def spawn_remove_def c_def e)
qed

text \<open>C29: A helper that ends, by itself or by a signal, before it has said that it is finished leaves a
  backend that has finished with an error - unless the exit type is that of a dispatcher that was
  told to exit or was changed. The field is never cleared, so this happens to a helper that ends by
  itself after an older one was replaced: then nothing happens to the backend, and the transaction
  never ends. The helper is one that runs and that nobody is telling to exit, its whole lines have been
  read, and the backend is locked and initialized.\<close>

theorem helper_end_finishes:
  assumes "looked (bs_spawn bs)" and "0 < sp_child_pid (bs_spawn bs)"
    and "\<not> sp_is_changing_dispatcher (bs_spawn bs)" and "\<not> sp_is_sending_exit (bs_spawn bs)"
    and "newline \<notin> set (sp_stdout_buf (bs_spawn bs))" and "status \<noteq> WS_OTHER"
    and "\<not> bs_finished bs" and "be_locked (bs_backend bs)" and "\<not> be_during_initialize (bs_backend bs)"
    and b': "b' = bs_backend (look estimate (ended_look (bs_spawn bs) status) bs)"
  shows "if reported_exit status (sp_exit (bs_spawn bs)) \<in>
        {PK_SPAWN_EXIT_TYPE_DISPATCHER_EXIT, PK_SPAWN_EXIT_TYPE_DISPATCHER_CHANGED}
      then b' = bs_backend bs else be_finished b' \<and> be_set_error b'"
proof -
  let ?t = "reported_exit status (sp_exit (bs_spawn bs))"
  obtain es where es: "sp_emitted (snd (pk_spawn_check_child (ended_look (bs_spawn bs) status) (bs_spawn bs))) =
      sp_emitted (bs_spawn bs) @ es @ [SPAWN_EXIT ?t]" "set es \<subseteq> range SYS_close"
    using ended_check [OF assms(1-4,6,5)] by auto
  have silent: "fold (spawn_signal_cb estimate) es x = x" for x
    using es(2) by (induction es arbitrary: x) auto
  define bs' where "bs' = bs\<lparr>bs_spawn := snd (pk_spawn_check_child (ended_look (bs_spawn bs) status) (bs_spawn bs))\<rparr>"
  have eq: "b' = bs_backend (pk_backend_spawn_exit_cb ?t bs')"
    by (simp add: b' look_def spawn_do_def split_beta Let_def es(1) silent bs'_def)
  have same: "bs_backend bs' = bs_backend bs" "bs_finished bs' = bs_finished bs" by (simp_all add: bs'_def)
  show ?thesis
  proof (cases "?t \<in> {PK_SPAWN_EXIT_TYPE_DISPATCHER_EXIT, PK_SPAWN_EXIT_TYPE_DISPATCHER_CHANGED}")
    case True
    then show ?thesis unfolding eq by (auto simp: pk_backend_spawn_exit_cb_def same)
  next
    case False
    with exit_finishes [of ?t bs'] assms(7-9) show ?thesis by (simp add: eq same)
  qed
qed

text \<open>
  A helper answers a transaction; the next one has another locale, so the helper is asked to exit
  and a new one is started, which fails at once.
\<close>

definition example_answers :: "int \<Rightarrow> spawn_answers" where
  "example_answers pid =
     \<lparr>sa_wrote_command = 0, sa_wrote_exit = 5,
      sa_polls = (\<lambda>k. \<lparr>cp_stdout = [], cp_stderr = [], cp_pid = 100, cp_status = WS_EXITED 0\<rparr>),
      sa_spawn = Inr (pid, 10, 11, 12)\<rparr>"

definition example_spawn_environment :: spawn_environment where
  "example_spawn_environment =
     \<lparr>se_environ = [], se_order = (\<lambda>t. t), se_eula_order = (\<lambda>t. t), se_network = PK_NETWORK_ENUM_ONLINE,
      se_idle = False, se_helper_path = (\<lambda>name file. ''/usr/share/PackageKit/helpers/'' @ name @ ''/'' @ file)\<rparr>"

definition example_helper :: "int \<Rightarrow> PkBackendSpawn \<Rightarrow> PkBackendSpawn" where
  "example_helper pid bs = snd (pk_backend_spawn_helper example_helper_conf example_spawn_environment 0
     (example_answers pid) ''testBackend.py'' [''get-updates''] bs)"

definition example_changed :: PkBackendSpawn where
  "example_changed =
     (let bs = example_helper 100 example_spawn;
          bs = pk_backend_spawn_stdout_cb 0 ''finished'' bs;
          bs = bs\<lparr>bs_backend := snd (pk_backend_reset (bs_backend bs))\<rparr>;
          bs = bs\<lparr>bs_backend := snd (pk_backend_set_locale ''de_DE.utf8'' (bs_backend bs))\<rparr>
      in example_helper 101 bs)"

lemma helper_end_finishes_witness:
  "be_finished (bs_backend (look 0 (ended_look (bs_spawn (example_helper 100 example_spawn)) (WS_EXITED 1))
     (example_helper 100 example_spawn))) \<and>
   bs_backend (look 0 (ended_look (bs_spawn example_changed) (WS_EXITED 1)) example_changed) = bs_backend example_changed"
proof -
  have "let bs = example_changed; sp = bs_spawn bs in
      looked sp \<and> 0 < sp_child_pid sp \<and> \<not> sp_is_changing_dispatcher sp \<and> \<not> sp_is_sending_exit sp \<and>
      newline \<notin> set (sp_stdout_buf sp) \<and> \<not> bs_finished bs \<and> be_locked (bs_backend bs) \<and>
      \<not> be_during_initialize (bs_backend bs) \<and> sp_exit sp = PK_SPAWN_EXIT_TYPE_DISPATCHER_CHANGED"
    by code_simp
  moreover have "let bs = example_helper 100 example_spawn; sp = bs_spawn bs in
      looked sp \<and> 0 < sp_child_pid sp \<and> \<not> sp_is_changing_dispatcher sp \<and> \<not> sp_is_sending_exit sp \<and>
      newline \<notin> set (sp_stdout_buf sp) \<and> \<not> bs_finished bs \<and> be_locked (bs_backend bs) \<and>
      \<not> be_during_initialize (bs_backend bs) \<and> sp_exit sp = PK_SPAWN_EXIT_TYPE_UNKNOWN"
    by code_simp
  ultimately show ?thesis
    unfolding Let_def
    using helper_end_finishes [OF _ _ _ _ _ _ _ _ _ refl, of example_changed "WS_EXITED 1" 0]
      helper_end_finishes [OF _ _ _ _ _ _ _ _ _ refl, of "example_helper 100 example_spawn" "WS_EXITED 1" 0]
    by simp
qed

text \<open>C0: A helper that does not react to \<open>exit\<close> within five seconds is still running when \<open>pk_spawn_exit\<close>
  returns, but the function returns \<open>TRUE\<close>, as for a helper that has gone: its callers never learn
  of the failure.\<close>

theorem exit_timeout_reports_success:
  assumes "\<And>k. running_look (polls k)" and "looked sp" and "0 < sp_child_pid sp"
    and "\<not> sp_is_sending_exit sp" and "wrote = 5"
  shows "fst (pk_spawn_exit wrote polls sp) \<and>
    sp_child_pid (snd (pk_spawn_exit wrote polls sp)) = sp_child_pid sp"
proof -
  have loop: "looked s \<Longrightarrow> count \<le> 500 \<Longrightarrow> \<exists>s'. exit_loop polls count s = (True, 501, s') \<and>
      sp_child_pid s' = sp_child_pid s" for count s
  proof (induction "500 - count" arbitrary: count s)
    case 0
    then have "count = 500" by simp
    with 0 show ?case
      by (simp add: exit_loop.simps [of polls 500 s] look_feed [OF assms(1)] feed_def emit_whole_lines_eq)
  next
    case (Suc n)
    have "looked (feed (cp_stdout (polls count)) s)"
      using Suc.prems(1) by (simp add: looked_def feed_def emit_whole_lines_eq)
    moreover have "count < 500" using Suc.hyps(2) by simp
    ultimately show ?case using Suc.hyps(1) [of "Suc count" "feed (cp_stdout (polls count)) s"] Suc.hyps(2) Suc.prems
      by (simp add: exit_loop.simps [of polls count s] look_feed [OF assms(1)])
        (simp add: feed_def emit_whole_lines_eq)
  qed
  let ?s = "spawn_emit (SYS_write (sp_stdin_fd sp) (''exit'' @ [newline])) (sp\<lparr>sp_is_sending_exit := True\<rparr>)"
  have "looked ?s" using assms(2) by (simp add: looked_def spawn_emit_def)
  from loop [OF this, of 0] obtain s' where "exit_loop polls 0 ?s = (True, 501, s')" "sp_child_pid s' = sp_child_pid sp"
    by (auto simp: spawn_emit_def)
  with assms(2-5) show ?thesis
    by (simp add: pk_spawn_exit_def pk_spawn_send_stdin_def looked_def Let_def)
qed

definition example_stuck :: PkSpawn where
  "example_stuck = pk_spawn_init\<lparr>sp_child_pid := 100, sp_stdin_fd := 10\<rparr>"

lemma exit_timeout_reports_success_witness:
  "fst (pk_spawn_exit 5 (\<lambda>k. example_look []) example_stuck)"
proof -
  have "running_look (example_look [])" "looked example_stuck" "0 < sp_child_pid example_stuck"
    "\<not> sp_is_sending_exit example_stuck"
    by (simp_all add: running_look_def example_look_def looked_def example_stuck_def pk_spawn_init_def)
  then show ?thesis using exit_timeout_reports_success [of "\<lambda>k. example_look []" example_stuck 5] by simp
qed

text \<open>The timer that kills a helper that was cancelled survives the reuse of the helper: it then
  kills the helper while it works for the next transaction.\<close>

theorem reuse_keeps_kill_timer:
  assumes "pending (sp_loop sp) i SRC_sigkill" and "looked sp" and "0 < sp_child_pid sp"
    and "\<not> sp_is_sending_exit sp" and "sp_stdin_fd sp \<noteq> - 1"
    and "sp_last_argv0 sp = Some command" and "sp_last_envp sp = Some envp"
    and "sa_wrote_command a = int (length (g_strjoinv [CHR 0x09] args)) + 1"
  shows "fst (pk_spawn_argv conf a (command # args) envp sp) = None \<and>
    pending (sp_loop (snd (pk_spawn_argv conf a (command # args) envp sp))) i SRC_sigkill \<and>
    SYS_kill (sp_child_pid sp) SIGKILL
      \<in> set (sp_emitted (pk_spawn_sigkill_cb retval (snd (pk_spawn_argv conf a (command # args) envp sp))))"
proof -
  have "a = b \<Longrightarrow> strvequal_loop a b k" for a b k
    by (induction a b k rule: strvequal_loop.induct) (subst strvequal_loop.simps, auto)
  then have "pk_strvequal (Some envp) (Some envp)" by (simp add: pk_strvequal_def)
  with assms have "pk_spawn_argv conf a (command # args) envp sp =
      (None, spawn_emit (SYS_write (sp_stdin_fd sp) (g_strjoinv [CHR 0x09] args @ [newline])) sp)"
    by (simp add: pk_spawn_argv_def reuse_child_def pk_spawn_send_stdin_def looked_def)
  with assms show ?thesis
    by (simp add: pk_spawn_sigkill_cb_def looked_def spawn_emit_def Let_def)
qed

definition example_killed :: PkSpawn where
  "example_killed = snd (pk_spawn_kill 0 (bs_spawn (example_helper 100 example_spawn)))"

lemma reuse_keeps_kill_timer_witness:
  "SYS_kill 100 SIGKILL \<in> set (sp_emitted (pk_spawn_sigkill_cb 0
     (snd (pk_spawn_argv example_helper_conf ((example_answers 100)\<lparr>sa_wrote_command := 12\<rparr>)
       (the (sp_last_argv0 example_killed) # [''get-updates'']) (the (sp_last_envp example_killed))
       example_killed))))"
proof -
  let ?a = "(example_answers 100)\<lparr>sa_wrote_command := 12\<rparr>"
  let ?argv0 = "the (sp_last_argv0 example_killed)" and ?envp = "the (sp_last_envp example_killed)"
  have facts: "let sp = example_killed in
      pending (sp_loop sp) (sp_kill_id sp) SRC_sigkill \<and> looked sp \<and> sp_child_pid sp = 100 \<and>
      \<not> sp_is_sending_exit sp \<and> sp_stdin_fd sp \<noteq> - 1 \<and> sp_last_argv0 sp \<noteq> None \<and> sp_last_envp sp \<noteq> None"
    by code_simp
  have "sp_last_argv0 example_killed = Some ?argv0" "sp_last_envp example_killed = Some ?envp"
    "looked example_killed" "sp_child_pid example_killed = 100" "\<not> sp_is_sending_exit example_killed"
    "sp_stdin_fd example_killed \<noteq> - 1"
    "pending (sp_loop example_killed) (sp_kill_id example_killed) SRC_sigkill"
    using facts by (simp_all add: Let_def)
  moreover have "sa_wrote_command ?a = int (length (g_strjoinv [CHR 0x09] [''get-updates''])) + 1"
    by simp
  ultimately show ?thesis
    using reuse_keeps_kill_timer [of example_killed "sp_kill_id example_killed" ?argv0 ?envp ?a
        "[''get-updates'']" example_helper_conf 0] by simp
qed

section \<open>Watching\<close>

definition helper_seen :: "PkSpawn \<Rightarrow> bool" where
  "helper_seen sp \<longleftrightarrow> (pk_spawn_is_running sp \<longrightarrow> (\<exists>i. pending (sp_loop sp) i SRC_check_child))"

lemma seen_watched: "spawn_ok sp \<Longrightarrow> helper_seen sp = watched sp"
  by (auto simp: helper_seen_def watched_def pk_spawn_is_running_def spawn_ok_def timers_ok_def)

text \<open>C16: In every history, in which helpers are started, reused, told to exit and killed, the calls of the
  system may fail and the timers fire: at most one timer looks at the helper, no more ends are reported
  than starts were tried, and no step takes away the timer of a running helper but one, a restart
  in which the new helper cannot be started. A process that does start has a positive number and
  its pipe a descriptor.\<close>

theorem helper_watched:
  assumes "spawn_history conf sp" and "spawn_step conf sp sp'"
  shows "(\<forall>i j. pending (sp_loop sp') i SRC_check_child \<and> pending (sp_loop sp') j SRC_check_child \<longrightarrow> i = j) \<and>
    exits (sp_emitted sp') + (if pk_spawn_is_running sp' then 1 else 0) \<le> spawns (sp_emitted sp') \<and>
    (helper_seen sp \<and> \<not> helper_seen sp' \<longrightarrow> restart_failed conf sp sp')"
proof -
  have ok: "spawn_ok sp" by (rule spawn_history_ok [OF assms(1)])
  have ok': "spawn_ok sp'" by (rule spawn_step_ok [OF assms(2) ok])
  have one: "\<forall>i. pending (sp_loop sp') i SRC_check_child \<longrightarrow> i = sp_poll_id sp'"
    and counts: "exits (sp_emitted sp') + (if sp_child_pid sp' \<noteq> - 1 then 1 else 0) \<le> spawns (sp_emitted sp')"
    using ok' unfolding spawn_ok_def timers_ok_def by blast+
  have runs: "pk_spawn_is_running sp' = (sp_child_pid sp' \<noteq> - 1)"
    using ok' by (auto simp: spawn_ok_def pk_spawn_is_running_def)
  show ?thesis
  proof (intro conjI)
    show "\<forall>i j. pending (sp_loop sp') i SRC_check_child \<and> pending (sp_loop sp') j SRC_check_child \<longrightarrow> i = j"
      using one by metis
    show "exits (sp_emitted sp') + (if pk_spawn_is_running sp' then 1 else 0) \<le> spawns (sp_emitted sp')"
      using counts by (simp only: runs)
    show "helper_seen sp \<and> \<not> helper_seen sp' \<longrightarrow> restart_failed conf sp sp'"
      using spawn_step_watched [OF assms(2) ok] seen_watched [OF ok] seen_watched [OF ok'] by blast
  qed
qed

lemma helper_watched_witness:
  "0 < spawns (sp_emitted (snd (pk_spawn_argv example_helper_conf (example_answers 100) [''/bin/true''] [] pk_spawn_init)))"
proof -
  let ?sp = "snd (pk_spawn_argv example_helper_conf (example_answers 100) [''/bin/true''] [] pk_spawn_init)"
  have "sane (example_answers 100)" by (simp add: sane_def example_answers_def)
  then have "spawn_step example_helper_conf pk_spawn_init ?sp" by (rule spawn_step.argv)
  moreover have "pk_spawn_is_running ?sp" by code_simp
  ultimately show ?thesis using helper_watched [OF spawn_history.init] by fastforce
qed

section \<open>Environment\<close>

text \<open>Unless the environment of the daemon is kept, no variable that a helper gets has a character in
  its name or its value that a shell would read, wherever the value came from.\<close>

theorem helper_environment_clean:
  assumes "\<not> be_keep_environment b" and "item \<in> set (pk_backend_spawn_get_envp e b)"
  shows "set item \<inter> set env_delimiters = {}"
proof -
  have "set (env_safe False s) \<inter> set env_delimiters = {}" for s
    unfolding env_safe_def by (simp, rule g_strdelimit_set) (simp add: env_delimiters_def)
  then have safe: "c \<in> set (env_safe False s) \<Longrightarrow> c \<notin> set env_delimiters" for c s by blast
  have eq: "CHR ''='' \<notin> set env_delimiters" by (simp add: env_delimiters_def)
  obtain k v where "item = env_safe False k @ ''='' @ env_safe False v"
    using assms by (auto simp: pk_backend_spawn_get_envp_def)
  with safe eq show ?thesis by (simp only: disjoint_iff set_append) auto
qed

lemma helper_environment_clean_witness:
  "set (hd (pk_backend_spawn_get_envp example_spawn_environment
     ((bs_backend example_spawn)\<lparr>be_locale := Some ''C;rm -rf *''\<rparr>))) \<inter> set env_delimiters = {}"
proof (rule helper_environment_clean)
  show "\<not> be_keep_environment ((bs_backend example_spawn)\<lparr>be_locale := Some ''C;rm -rf *''\<rparr>)"
    by code_simp
  have "let b = (bs_backend example_spawn)\<lparr>be_locale := Some ''C;rm -rf *''\<rparr>
    in pk_backend_spawn_get_envp example_spawn_environment b \<noteq> []"
    by code_simp
  then show "hd (pk_backend_spawn_get_envp example_spawn_environment
      ((bs_backend example_spawn)\<lparr>be_locale := Some ''C;rm -rf *''\<rparr>))
    \<in> set (pk_backend_spawn_get_envp example_spawn_environment
      ((bs_backend example_spawn)\<lparr>be_locale := Some ''C;rm -rf *''\<rparr>))"
    by (auto simp only: Let_def intro: hd_in_set)
qed

text \<open>The address of a proxy gets exactly one scheme and ends with a slash, and an address that has
  been converted is not changed again.\<close>

theorem proxy_address:
  "(g_str_has_prefix (pk_backend_spawn_convert_uri p) ''http://'' \<or>
    g_str_has_prefix (pk_backend_spawn_convert_uri p) ''https://'' \<or>
    g_str_has_prefix (pk_backend_spawn_convert_uri p) ''ftp://'') \<and>
   g_str_has_suffix (pk_backend_spawn_convert_uri p) ''/'' \<and>
   pk_backend_spawn_convert_uri (pk_backend_spawn_convert_uri p) = pk_backend_spawn_convert_uri p"
proof -
  have pre: "g_str_has_prefix (pk_backend_spawn_convert_uri p) ''http://'' \<or>
    g_str_has_prefix (pk_backend_spawn_convert_uri p) ''https://'' \<or>
    g_str_has_prefix (pk_backend_spawn_convert_uri p) ''ftp://''"
    by (auto simp: pk_backend_spawn_convert_uri_def Let_def g_str_has_prefix_iff)
  moreover have suf: "g_str_has_suffix (pk_backend_spawn_convert_uri p) ''/''"
    by (auto simp: pk_backend_spawn_convert_uri_def Let_def g_str_has_suffix_iff)
  moreover have "pk_backend_spawn_convert_uri q = q"
    if "g_str_has_prefix q ''http://'' \<or> g_str_has_prefix q ''https://'' \<or> g_str_has_prefix q ''ftp://''"
      "g_str_has_suffix q ''/''" for q
    using that by (auto simp: pk_backend_spawn_convert_uri_def Let_def)
  ultimately show ?thesis by blast
qed

end
