(* ===== verification/PK_Client_Calls.thy ===== *)
theory PK_Client_Calls
  imports PK_Bitfield PK_Results
begin

text \<open>
  What the objects of the client library ask of the client object (\<open>PkClient\<close>,
  \<open>src/lib/packagekit-glib2/pk-client.h\<close>) and what they get back: a call is a value, and its result,
  which \<open>pk_client_generic_finish\<close> gives to the callback, is an argument of the callback. What the
  client object does with a call is the subject of \<open>PK_Client\<close> and the theories after it.
\<close>

section \<open>Package objects\<close>

text \<open>
  The private structure of a \<open>PkPackage\<close> of the client (\<open>pk-package.c\<close>). The objects are shared:
  the arrays of a result and any number of sacks hold references to the same object, so they
  live in a heap and a reference is a number. Every object has an identifier: those of a
  result and those that a sack makes itself get theirs from \<open>pk_package_set_id\<close>.
\<close>

record PkPackageObject = PkPackage +
  po_license :: "string option"
  po_group :: PkGroupEnum
  po_description :: "string option"
  po_url :: "string option"
  po_size :: guint64
  po_updates :: "string option"
  po_obsoletes :: "string option"
  po_vendor_url :: "string option"
  po_bugzilla_url :: "string option"
  po_cve_url :: "string option"
  po_restart :: PkRestartEnum
  po_update_text :: "string option"
  po_changelog :: "string option"
  po_state :: PkUpdateStateEnum
  po_issued :: "string option"
  po_updated :: "string option"

text \<open>A new object is zeroed; 0 is the first value of each enumeration.\<close>

definition package_object_new :: "string \<Rightarrow> PkPackageObject" where
  "package_object_new package_id =
     \<lparr>pkg_info = PK_INFO_ENUM_UNKNOWN, pkg_id = package_id, pkg_summary = None, po_license = None,
      po_group = PK_GROUP_ENUM_UNKNOWN, po_description = None, po_url = None, po_size = 0,
      po_updates = None, po_obsoletes = None, po_vendor_url = None, po_bugzilla_url = None,
      po_cve_url = None, po_restart = PK_RESTART_ENUM_UNKNOWN, po_update_text = None,
      po_changelog = None, po_state = PK_UPDATE_STATE_ENUM_UNKNOWN, po_issued = None,
      po_updated = None\<rparr>"

record package_heap =
  objects :: "nat \<Rightarrow> PkPackageObject"
  next_object :: nat

definition pk_package_get_info :: "package_heap \<Rightarrow> nat \<Rightarrow> PkInfoEnum" where
  "pk_package_get_info h r = pkg_info (objects h r)"

definition pk_package_get_id :: "package_heap \<Rightarrow> nat \<Rightarrow> string" where
  "pk_package_get_id h r = pkg_id (objects h r)"

definition pk_package_get_summary :: "package_heap \<Rightarrow> nat \<Rightarrow> string option" where
  "pk_package_get_summary h r = pkg_summary (objects h r)"

text \<open>The sections of the identifier, which \<open>pk_package_set_id\<close> stores with it.\<close>

definition package_id_split :: "package_heap \<Rightarrow> nat \<Rightarrow> string list" where
  "package_id_split h r = g_strsplit CHR '';'' (pk_package_get_id h r)"

definition pk_package_get_name :: "package_heap \<Rightarrow> nat \<Rightarrow> string" where
  "pk_package_get_name h r = package_id_split h r ! 0"

definition pk_package_get_version :: "package_heap \<Rightarrow> nat \<Rightarrow> string" where
  "pk_package_get_version h r = package_id_split h r ! 1"

definition pk_package_get_arch :: "package_heap \<Rightarrow> nat \<Rightarrow> string" where
  "pk_package_get_arch h r = package_id_split h r ! 2"

definition pk_package_get_data :: "package_heap \<Rightarrow> nat \<Rightarrow> string" where
  "pk_package_get_data h r = package_id_split h r ! 3"

section \<open>Errors and results\<close>

datatype PkClientError =
    PK_CLIENT_ERROR_FAILED
  | PK_CLIENT_ERROR_FAILED_AUTH
  | PK_CLIENT_ERROR_NO_TID
  | PK_CLIENT_ERROR_ALREADY_TID
  | PK_CLIENT_ERROR_ROLE_UNKNOWN
  | PK_CLIENT_ERROR_CANNOT_START_DAEMON
  | PK_CLIENT_ERROR_INVALID_INPUT
  | PK_CLIENT_ERROR_INVALID_FILE
  | PK_CLIENT_ERROR_NOT_SUPPORTED
  | PK_CLIENT_ERROR_DECLINED_SIMULATION
  | PK_CLIENT_ERROR_LAST

text \<open>
  An error of the domain of the client; an error of the daemon, that has the same domain and the
  code of the daemon shifted by 255; or an error of another domain, with its code.
\<close>

datatype client_error =
    CLIENT_ERROR PkClientError string | DAEMON_ERROR PkErrorEnum string | OTHER_ERROR int string

text \<open>The results as the client hands them out: what the task and the sack read of them.\<close>

record client_results =
  cr_exit_enum :: PkExitEnum
  cr_error_code :: "PkError option"
  cr_package_array :: "nat list"
  cr_package_sack :: "nat list"
  cr_details_array :: "PkDetails list"
  cr_update_detail_array :: "PkUpdateDetail list"
  cr_repo_signature_required_array :: "PkRepoSignatureRequired list"
  cr_eula_required_array :: "PkEulaRequired list"

type_synonym client_answer = "client_error + client_results"

section \<open>Calls\<close>

text \<open>The arguments of the calls; a \<open>NULL\<close> pointer is \<open>None\<close>.\<close>

datatype client_call =
    CLIENT_install_packages bool "string list option"
  | CLIENT_update_packages bool "string list option"
  | CLIENT_remove_packages "string list option" bool bool
  | CLIENT_update_system bool
  | CLIENT_install_files bool "string list option"
  | CLIENT_resolve PkBitfield "string list option"
  | CLIENT_search_names PkBitfield "string list option"
  | CLIENT_search_details PkBitfield "string list option"
  | CLIENT_search_groups PkBitfield "string list option"
  | CLIENT_search_files PkBitfield "string list option"
  | CLIENT_get_details "string list option"
  | CLIENT_get_update_detail "string list option"
  | CLIENT_download_packages "string list option" "string option"
  | CLIENT_get_updates PkBitfield
  | CLIENT_get_depends PkBitfield "string list option" bool
  | CLIENT_get_packages PkBitfield
  | CLIENT_get_requires PkBitfield "string list option" bool
  | CLIENT_what_provides PkBitfield PkProvidesEnum "string list option"
  | CLIENT_get_files "string list option"
  | CLIENT_get_categories
  | CLIENT_refresh_cache bool
  | CLIENT_rollback "string option"
  | CLIENT_get_repo_list PkBitfield
  | CLIENT_repo_enable "string option" bool
  | CLIENT_repair_system bool
  | CLIENT_simulate_install_packages "string list option"
  | CLIENT_simulate_update_packages "string list option"
  | CLIENT_simulate_remove_packages "string list option" bool
  | CLIENT_simulate_install_files "string list option"
  | CLIENT_simulate_repair_system
  | CLIENT_install_signature PkSigTypeEnum "string option" "string option"
  | CLIENT_accept_eula string
  | CLIENT_get_old_transactions guint
  | CLIENT_get_distro_upgrades
  | CLIENT_repo_set_data "string option" "string option" "string option"
  | CLIENT_upgrade_system "string option" PkUpgradeKindEnum

end
