(* ===== verification/PK_Package_Sack.thy ===== *)
theory PK_Package_Sack
  imports PK_Client_Calls "HOL-Library.Multiset"
begin

text \<open>
  A sack of packages (\<open>src/lib/packagekit-glib2/pk-package-sack.c\<close>): its array is the list of the
  references to the package objects, which live in the heap. The functions that merge data into
  the packages are split, as in the code, into the one that makes the call to the client and the
  callback that takes its answer.
\<close>

type_synonym PkPackageSack = "nat list"

section \<open>Contents\<close>

definition pk_package_sack_new :: PkPackageSack where
  "pk_package_sack_new = []"

definition pk_package_sack_clear :: "PkPackageSack \<Rightarrow> PkPackageSack" where
  "pk_package_sack_clear sack = []"

definition pk_package_sack_get_size :: "PkPackageSack \<Rightarrow> guint" where
  "pk_package_sack_get_size sack = of_nat (length sack)"

definition pk_package_sack_get_ids :: "package_heap \<Rightarrow> PkPackageSack \<Rightarrow> string list" where
  "pk_package_sack_get_ids h sack = map (pk_package_get_id h) sack"

definition pk_package_sack_get_package_ids :: "package_heap \<Rightarrow> PkPackageSack \<Rightarrow> string list" where
  "pk_package_sack_get_package_ids h sack = map (pk_package_get_id h) sack"

definition pk_package_sack_get_array :: "PkPackageSack \<Rightarrow> nat list" where
  "pk_package_sack_get_array sack = sack"

definition pk_package_sack_add_package :: "nat \<Rightarrow> PkPackageSack \<Rightarrow> bool \<times> PkPackageSack" where
  "pk_package_sack_add_package r sack = (True, sack @ [r])"

text \<open>\<open>None\<close> is success, \<open>Some\<close> the error of \<open>pk_package_set_id\<close>; a new object is never given out before.\<close>

definition pk_package_sack_add_package_by_id ::
  "string \<Rightarrow> package_heap \<Rightarrow> PkPackageSack \<Rightarrow> client_error option \<times> package_heap \<times> PkPackageSack" where
  "pk_package_sack_add_package_by_id package_id h sack =
     (if \<not> pk_package_set_id package_id then
        (Some (OTHER_ERROR 0
           (if \<not> g_utf8_validate package_id then ''invalid UTF8!''
            else if length (g_strsplit CHR '';'' package_id) \<noteq> 4 then ''invalid number of sections''
            else ''name invalid'')), h, sack)
      else
        let r = next_object h;
            h = \<lparr>objects = (objects h)(r := package_object_new package_id), next_object = Suc r\<rparr>
        in (None, h, sack @ [r]))"

fun filter_by_info_loop :: "package_heap \<Rightarrow> PkInfoEnum \<Rightarrow> PkPackageSack \<Rightarrow> PkPackageSack \<Rightarrow> PkPackageSack" where
  "filter_by_info_loop h info [] results = results"
| "filter_by_info_loop h info (r # rs) results =
     filter_by_info_loop h info rs
       (if pk_package_get_info h r = info then snd (pk_package_sack_add_package r results) else results)"

definition pk_package_sack_filter_by_info ::
  "package_heap \<Rightarrow> PkPackageSack \<Rightarrow> PkInfoEnum \<Rightarrow> PkPackageSack" where
  "pk_package_sack_filter_by_info h sack info = filter_by_info_loop h info sack pk_package_sack_new"

fun filter_loop :: "(nat \<Rightarrow> bool) \<Rightarrow> PkPackageSack \<Rightarrow> PkPackageSack \<Rightarrow> PkPackageSack" where
  "filter_loop filter_cb [] results = results"
| "filter_loop filter_cb (r # rs) results =
     filter_loop filter_cb rs
       (if filter_cb r then snd (pk_package_sack_add_package r results) else results)"

definition pk_package_sack_filter :: "(nat \<Rightarrow> bool) \<Rightarrow> PkPackageSack \<Rightarrow> PkPackageSack" where
  "pk_package_sack_filter filter_cb sack = filter_loop filter_cb sack pk_package_sack_new"

section \<open>Removing\<close>

text \<open>\<open>g_ptr_array_remove\<close> removes the first element that is the same pointer.\<close>

definition pk_package_sack_remove_package :: "nat \<Rightarrow> PkPackageSack \<Rightarrow> bool \<times> PkPackageSack" where
  "pk_package_sack_remove_package r sack = (r \<in> set sack, remove1 r sack)"

fun remove_package_by_id_loop :: "package_heap \<Rightarrow> string \<Rightarrow> PkPackageSack \<Rightarrow> bool \<times> PkPackageSack" where
  "remove_package_by_id_loop h package_id [] = (False, [])"
| "remove_package_by_id_loop h package_id (r # rs) =
     (if package_id = pk_package_get_id h r then (True, rs)
      else let (ret, rs) = remove_package_by_id_loop h package_id rs in (ret, r # rs))"

definition pk_package_sack_remove_package_by_id ::
  "package_heap \<Rightarrow> PkPackageSack \<Rightarrow> string \<Rightarrow> bool \<times> PkPackageSack" where
  "pk_package_sack_remove_package_by_id h sack package_id = remove_package_by_id_loop h package_id sack"

text \<open>
  The loop runs over the array that it removes from: after a removal it looks at the same index
  again.
\<close>

function remove_by_filter_loop :: "(nat \<Rightarrow> bool) \<Rightarrow> nat \<Rightarrow> bool \<Rightarrow> PkPackageSack \<Rightarrow> bool \<times> PkPackageSack" where
  "remove_by_filter_loop filter_cb i ret sack =
     (if i < length sack then
        let package = sack ! i in
        if \<not> filter_cb package
        then remove_by_filter_loop filter_cb i True (snd (pk_package_sack_remove_package package sack))
        else remove_by_filter_loop filter_cb (Suc i) ret sack
      else (ret, sack))"
  by pat_completeness auto
termination
  by (relation "measure (\<lambda>(f, i, ret, sack). length sack - i)")
    (auto simp: pk_package_sack_remove_package_def length_remove1)

declare remove_by_filter_loop.simps [simp del]

definition pk_package_sack_remove_by_filter :: "(nat \<Rightarrow> bool) \<Rightarrow> PkPackageSack \<Rightarrow> bool \<times> PkPackageSack" where
  "pk_package_sack_remove_by_filter filter_cb sack = remove_by_filter_loop filter_cb 0 False sack"

fun find_by_id_loop :: "package_heap \<Rightarrow> string \<Rightarrow> PkPackageSack \<Rightarrow> nat option" where
  "find_by_id_loop h package_id [] = None"
| "find_by_id_loop h package_id (r # rs) =
     (if package_id = pk_package_get_id h r then Some r else find_by_id_loop h package_id rs)"

definition pk_package_sack_find_by_id :: "package_heap \<Rightarrow> PkPackageSack \<Rightarrow> string \<Rightarrow> nat option" where
  "pk_package_sack_find_by_id h sack package_id = find_by_id_loop h package_id sack"

section \<open>Sorting\<close>

text \<open>
  \<open>strcmp\<close> compares bytes; of its result only the sign is defined. \<open>g_strcmp0\<close> puts \<open>NULL\<close> first.
  The identifiers are valid, so that their names are there to be compared.
\<close>

fun strcmp :: "string \<Rightarrow> string \<Rightarrow> int" where
  "strcmp [] [] = 0"
| "strcmp [] (d # t) = - 1"
| "strcmp (c # s) [] = 1"
| "strcmp (c # s) (d # t) =
     (if c = d then strcmp s t else if (of_char c :: nat) < of_char d then - 1 else 1)"

definition g_strcmp0 :: "string option \<Rightarrow> string option \<Rightarrow> int" where
  "g_strcmp0 s t =
     (case (s, t) of
        (None, None) \<Rightarrow> 0
      | (None, Some _) \<Rightarrow> - 1
      | (Some _, None) \<Rightarrow> 1
      | (Some s, Some t) \<Rightarrow> strcmp s t)"

definition pk_package_sack_sort_compare_name_func :: "package_heap \<Rightarrow> nat \<Rightarrow> nat \<Rightarrow> int" where
  "pk_package_sack_sort_compare_name_func h a b =
     (let split1 = g_strsplit CHR '';'' (pk_package_get_id h a);
          split2 = g_strsplit CHR '';'' (pk_package_get_id h b)
      in strcmp (split1 ! 0) (split2 ! 0))"

definition pk_package_sack_sort_compare_package_id_func :: "package_heap \<Rightarrow> nat \<Rightarrow> nat \<Rightarrow> int" where
  "pk_package_sack_sort_compare_package_id_func h a b =
     strcmp (pk_package_get_id h a) (pk_package_get_id h b)"

definition pk_package_sack_sort_compare_summary_func :: "package_heap \<Rightarrow> nat \<Rightarrow> nat \<Rightarrow> int" where
  "pk_package_sack_sort_compare_summary_func h a b =
     g_strcmp0 (pk_package_get_summary h a) (pk_package_get_summary h b)"

definition pk_package_sack_sort_compare_info_func :: "package_heap \<Rightarrow> nat \<Rightarrow> nat \<Rightarrow> int" where
  "pk_package_sack_sort_compare_info_func h a b =
     (let info1 = pk_package_get_info h a; info2 = pk_package_get_info h b
      in if info1 = info2 then 0
         else if enum_value info1 > enum_value info2 then - 1
         else 1)"

text \<open>\<open>g_ptr_array_sort\<close> is stable.\<close>

fun insort_by :: "('a \<Rightarrow> 'a \<Rightarrow> int) \<Rightarrow> 'a \<Rightarrow> 'a list \<Rightarrow> 'a list" where
  "insort_by cmp x [] = [x]"
| "insort_by cmp x (y # ys) = (if cmp x y \<le> 0 then x # y # ys else y # insort_by cmp x ys)"

definition g_ptr_array_sort :: "('a \<Rightarrow> 'a \<Rightarrow> int) \<Rightarrow> 'a list \<Rightarrow> 'a list" where
  "g_ptr_array_sort cmp xs = foldr (insort_by cmp) xs []"

datatype PkPackageSackSortType =
    PK_PACKAGE_SACK_SORT_TYPE_NAME
  | PK_PACKAGE_SACK_SORT_TYPE_INFO
  | PK_PACKAGE_SACK_SORT_TYPE_PACKAGE_ID
  | PK_PACKAGE_SACK_SORT_TYPE_SUMMARY
  | PK_PACKAGE_SACK_SORT_TYPE_LAST

definition pk_package_sack_sort :: "package_heap \<Rightarrow> PkPackageSackSortType \<Rightarrow> PkPackageSack \<Rightarrow> PkPackageSack" where
  "pk_package_sack_sort h type sack =
     (if type = PK_PACKAGE_SACK_SORT_TYPE_NAME then
        g_ptr_array_sort (pk_package_sack_sort_compare_name_func h) sack
      else if type = PK_PACKAGE_SACK_SORT_TYPE_PACKAGE_ID then
        g_ptr_array_sort (pk_package_sack_sort_compare_package_id_func h) sack
      else if type = PK_PACKAGE_SACK_SORT_TYPE_SUMMARY then
        g_ptr_array_sort (pk_package_sack_sort_compare_summary_func h) sack
      else if type = PK_PACKAGE_SACK_SORT_TYPE_INFO then
        g_ptr_array_sort (pk_package_sack_sort_compare_info_func h) sack
      else sack)"

fun total_bytes_loop :: "package_heap \<Rightarrow> PkPackageSack \<Rightarrow> guint64 \<Rightarrow> guint64" where
  "total_bytes_loop h [] bytes = bytes"
| "total_bytes_loop h (r # rs) bytes = total_bytes_loop h rs (bytes + po_size (objects h r))"

definition pk_package_sack_get_total_bytes :: "package_heap \<Rightarrow> PkPackageSack \<Rightarrow> guint64" where
  "pk_package_sack_get_total_bytes h sack = total_bytes_loop h sack 0"

section \<open>Merging data into the packages\<close>

text \<open>What the asynchronous result is completed with.\<close>

definition pk_package_sack_merge_bool_state_finish :: "bool \<Rightarrow> client_error option \<Rightarrow> client_error + bool" where
  "pk_package_sack_merge_bool_state_finish ret error = (if ret then Inr ret else Inl (the error))"

definition set_object :: "nat \<Rightarrow> (PkPackageObject \<Rightarrow> PkPackageObject) \<Rightarrow> package_heap \<Rightarrow> package_heap" where
  "set_object r f h = h\<lparr>objects := (objects h)(r := f (objects h r))\<rparr>"

definition put_resolved :: "package_heap \<Rightarrow> nat \<Rightarrow> PkPackageObject \<Rightarrow> PkPackageObject" where
  "put_resolved h item p =
     p\<lparr>pkg_info := pk_package_get_info h item, pkg_summary := pk_package_get_summary h item\<rparr>"

fun resolve_merge_loop :: "PkPackageSack \<Rightarrow> nat list \<Rightarrow> package_heap \<Rightarrow> package_heap" where
  "resolve_merge_loop sack [] h = h"
| "resolve_merge_loop sack (item # items) h =
     resolve_merge_loop sack items
       (case pk_package_sack_find_by_id h sack (pk_package_get_id h item) of
          None \<Rightarrow> h
        | Some package \<Rightarrow>
            set_object package (put_resolved h item) h)"

definition pk_package_sack_resolve_cb ::
  "PkPackageSack \<Rightarrow> client_answer \<Rightarrow> package_heap \<Rightarrow> (client_error + bool) \<times> package_heap" where
  "pk_package_sack_resolve_cb sack answer h =
     (case answer of
        Inl error \<Rightarrow> (pk_package_sack_merge_bool_state_finish False (Some error), h)
      | Inr results \<Rightarrow>
          let packages = cr_package_array results in
          if packages = [] then
            (pk_package_sack_merge_bool_state_finish False
               (Some (OTHER_ERROR 0 ''no packages found!'')), h)
          else (pk_package_sack_merge_bool_state_finish True None,
                resolve_merge_loop sack packages h))"

definition pk_package_sack_resolve_async :: "package_heap \<Rightarrow> PkPackageSack \<Rightarrow> client_call" where
  "pk_package_sack_resolve_async h sack =
     CLIENT_resolve (pk_bitfield_value PK_FILTER_ENUM_INSTALLED)
       (Some (pk_package_sack_get_package_ids h sack))"

definition put_details :: "PkDetails \<Rightarrow> PkPackageObject \<Rightarrow> PkPackageObject" where
  "put_details item p =
     p\<lparr>po_license := dt_license item, po_group := dt_group item, po_description := dt_description item,
       po_url := dt_url item, po_size := dt_size item\<rparr>"

fun details_merge_loop :: "PkPackageSack \<Rightarrow> PkDetails list \<Rightarrow> package_heap \<Rightarrow> package_heap" where
  "details_merge_loop sack [] h = h"
| "details_merge_loop sack (item # items) h =
     details_merge_loop sack items
       (case pk_package_sack_find_by_id h sack (dt_package_id item) of
          None \<Rightarrow> h
        | Some package \<Rightarrow>
            set_object package (put_details item) h)"

definition pk_package_sack_get_details_cb ::
  "PkPackageSack \<Rightarrow> client_answer \<Rightarrow> package_heap \<Rightarrow> (client_error + bool) \<times> package_heap" where
  "pk_package_sack_get_details_cb sack answer h =
     (case answer of
        Inl error \<Rightarrow> (pk_package_sack_merge_bool_state_finish False (Some error), h)
      | Inr results \<Rightarrow>
          let details = cr_details_array results in
          if details = [] then
            (pk_package_sack_merge_bool_state_finish False
               (Some (OTHER_ERROR 0 ''no details found!'')), h)
          else (pk_package_sack_merge_bool_state_finish True None,
                details_merge_loop sack details h))"

definition pk_package_sack_get_details_async :: "package_heap \<Rightarrow> PkPackageSack \<Rightarrow> client_call" where
  "pk_package_sack_get_details_async h sack =
     CLIENT_get_details (Some (pk_package_sack_get_package_ids h sack))"

definition put_update_detail :: "PkUpdateDetail \<Rightarrow> PkPackageObject \<Rightarrow> PkPackageObject" where
  "put_update_detail item p =
     p\<lparr>po_updates := ud_updates item, po_obsoletes := ud_obsoletes item,
       po_vendor_url := ud_vendor_url item, po_bugzilla_url := ud_bugzilla_url item,
       po_cve_url := ud_cve_url item, po_restart := ud_restart item,
       po_update_text := ud_update_text item, po_changelog := ud_changelog item,
       po_state := ud_state item, po_issued := ud_issued item, po_updated := ud_updated item\<rparr>"

fun update_detail_merge_loop :: "PkPackageSack \<Rightarrow> PkUpdateDetail list \<Rightarrow> package_heap \<Rightarrow> package_heap" where
  "update_detail_merge_loop sack [] h = h"
| "update_detail_merge_loop sack (item # items) h =
     update_detail_merge_loop sack items
       (case pk_package_sack_find_by_id h sack (ud_package_id item) of
          None \<Rightarrow> h
        | Some package \<Rightarrow>
            set_object package (put_update_detail item) h)"

definition pk_package_sack_get_update_detail_cb ::
  "PkPackageSack \<Rightarrow> client_answer \<Rightarrow> package_heap \<Rightarrow> (client_error + bool) \<times> package_heap" where
  "pk_package_sack_get_update_detail_cb sack answer h =
     (case answer of
        Inl error \<Rightarrow> (pk_package_sack_merge_bool_state_finish False (Some error), h)
      | Inr results \<Rightarrow>
          let update_details = cr_update_detail_array results in
          if update_details = [] then
            (pk_package_sack_merge_bool_state_finish False
               (Some (OTHER_ERROR 0 ''no update details found!'')), h)
          else (pk_package_sack_merge_bool_state_finish True None,
                update_detail_merge_loop sack update_details h))"

definition pk_package_sack_get_update_detail_async :: "package_heap \<Rightarrow> PkPackageSack \<Rightarrow> client_call" where
  "pk_package_sack_get_update_detail_async h sack =
     CLIENT_get_update_detail (Some (pk_package_sack_get_package_ids h sack))"

end
