(* ===== verification/PK_Task.thy ===== *)
theory PK_Task
  imports PK_Package_Sack PK_Main_Loop
begin

text \<open>
  The task (\<open>src/lib/packagekit-glib2/pk-task.c\<close>): the object by which applications run
  transactions that may need the user. It simulates an action first, asks the user whether to go
  on, runs the action, and when the daemon answers that a signature, an agreement, another medium
  or an untrusted package is in the way, asks again and repeats the action.

  Each request has a state that is allocated when it is made and freed when it is finished; the
  states live in a store by their address. What the task asks of the client is a pending call,
  whose callback runs when the answer comes. The questions are functions of the class that the
  application brings; it replies to them by calling \<open>pk_task_user_accepted\<close> or
  \<open>pk_task_user_declined\<close> with the number of the request. Calls, questions, replies and results are
  recorded in the order in which they happen.
\<close>

section \<open>State\<close>

record PkTaskState =
  st_request :: guint
  st_role :: PkRoleEnum
  st_exit_enum :: PkExitEnum
  st_simulate :: bool
  st_only_trusted :: bool
  st_package_ids :: "string list option"
  st_allow_deps :: bool
  st_autoremove :: bool
  st_files :: "string list option"
  st_results :: "client_results option"
  st_ret :: bool
  st_enabled :: bool
  st_force :: bool
  st_recursive :: bool
  st_directory :: "string option"
  st_packages :: "string list option"
  st_repo_id :: "string option"
  st_transaction_id :: "string option"
  st_values :: "string list option"
  st_filters :: PkBitfield
  st_provides :: PkProvidesEnum

text \<open>The structure is zeroed when it is allocated.\<close>

definition task_state_new :: "PkRoleEnum \<Rightarrow> PkTaskState" where
  "task_state_new role =
     \<lparr>st_request = 0, st_role = role, st_exit_enum = PK_EXIT_ENUM_UNKNOWN, st_simulate = False,
      st_only_trusted = False, st_package_ids = None, st_allow_deps = False, st_autoremove = False,
      st_files = None, st_results = None, st_ret = False, st_enabled = False, st_force = False,
      st_recursive = False, st_directory = None, st_packages = None, st_repo_id = None,
      st_transaction_id = None, st_values = None, st_filters = 0,
      st_provides = PK_PROVIDES_ENUM_UNKNOWN\<rparr>"

datatype task_callback =
    CB_ready | CB_simulate_ready | CB_install_signatures_ready | CB_accept_eulas_ready

datatype task_question = Q_untrusted | Q_key | Q_eula | Q_media_change | Q_simulate

datatype task_source = SRC_user_accepted nat | SRC_user_declined nat

datatype task_event =
    TASK_CALL guint client_call
  | TASK_ANSWER guint package_heap client_answer
  | TASK_QUESTION guint task_question client_results
  | TASK_REPLY guint bool
  | TASK_DONE guint "client_error option + client_results option"

text \<open>Which questions the class of the application supports: which function pointers are set.\<close>

record PkTaskClass =
  untrusted_question :: bool
  key_question :: bool
  eula_question :: bool
  media_change_question :: bool
  simulate_question :: bool

text \<open>
  The task: \<open>tk_array\<close> has the addresses of the unfinished states, \<open>tk_last_request\<close> is the static
  counter of the requests, \<open>tk_undefined\<close> is set when a freed state is used, a function that is not
  there is called or an assertion fails.
\<close>

record PkTask =
  tk_array :: "nat list"
  tk_simulate :: bool
  tk_interactive :: bool
  tk_states :: "nat \<Rightarrow> PkTaskState option"
  tk_next_state :: nat
  tk_calls :: "(nat \<times> task_callback) list"
  tk_loop :: "task_source main_loop"
  tk_last_request :: guint
  tk_events :: "task_event list"
  tk_undefined :: bool

definition pk_task_init :: PkTask where
  "pk_task_init =
     \<lparr>tk_array = [], tk_simulate = True, tk_interactive = True, tk_states = (\<lambda>a. None),
      tk_next_state = 0, tk_calls = [], tk_loop = main_loop_new, tk_last_request = 0,
      tk_events = [], tk_undefined = False\<rparr>"

definition pk_task_set_simulate :: "bool \<Rightarrow> PkTask \<Rightarrow> PkTask" where
  "pk_task_set_simulate simulate task = task\<lparr>tk_simulate := simulate\<rparr>"

definition pk_task_get_simulate :: "PkTask \<Rightarrow> bool" where
  "pk_task_get_simulate task = tk_simulate task"

definition pk_task_set_interactive :: "bool \<Rightarrow> PkTask \<Rightarrow> PkTask" where
  "pk_task_set_interactive interactive task = task\<lparr>tk_interactive := interactive\<rparr>"

definition pk_task_get_interactive :: "PkTask \<Rightarrow> bool" where
  "pk_task_get_interactive task = tk_interactive task"

definition task_emit :: "task_event \<Rightarrow> PkTask \<Rightarrow> PkTask" where
  "task_emit e task = task\<lparr>tk_events := tk_events task @ [e]\<rparr>"

text \<open>Using the state at an address: undefined if it has been freed.\<close>

definition with_state :: "nat \<Rightarrow> (PkTaskState \<Rightarrow> PkTask \<Rightarrow> PkTask) \<Rightarrow> PkTask \<Rightarrow> PkTask" where
  "with_state a f task =
     (case tk_states task a of None \<Rightarrow> task\<lparr>tk_undefined := True\<rparr> | Some st \<Rightarrow> f st task)"

definition upd_state :: "nat \<Rightarrow> (PkTaskState \<Rightarrow> PkTaskState) \<Rightarrow> PkTask \<Rightarrow> PkTask" where
  "upd_state a f task =
     with_state a (\<lambda>st task. task\<lparr>tk_states := (tk_states task)(a := Some (f st))\<rparr>) task"

definition submit :: "nat \<Rightarrow> task_callback \<Rightarrow> client_call \<Rightarrow> PkTask \<Rightarrow> PkTask" where
  "submit a cb call task =
     with_state a (\<lambda>st task.
       (task_emit (TASK_CALL (st_request st) call) task)\<lparr>tk_calls := tk_calls task @ [(a, cb)]\<rparr>) task"

section \<open>Requests\<close>

definition pk_task_generate_request_id :: "PkTask \<Rightarrow> guint \<times> PkTask" where
  "pk_task_generate_request_id task =
     (let request = tk_last_request task + 1 in (request, task\<lparr>tk_last_request := request\<rparr>))"

fun find_request_loop :: "(nat \<Rightarrow> PkTaskState option) \<Rightarrow> guint \<Rightarrow> nat list \<Rightarrow> nat option" where
  "find_request_loop states request [] = None"
| "find_request_loop states request (a # as) =
     (if map_option st_request (states a) = Some request then Some a
      else find_request_loop states request as)"

definition pk_task_find_by_request :: "PkTask \<Rightarrow> guint \<Rightarrow> nat option" where
  "pk_task_find_by_request task request =
     (if request = 0 then None else find_request_loop (tk_states task) request (tk_array task))"

definition pk_task_generic_state_finish :: "nat \<Rightarrow> client_error option \<Rightarrow> PkTask \<Rightarrow> PkTask" where
  "pk_task_generic_state_finish a error task =
     with_state a (\<lambda>st task.
       let outcome = (if st_ret st then Inr (st_results st) else Inl error);
           task = task_emit (TASK_DONE (st_request st) outcome) task
       in task\<lparr>tk_array := remove1 a (tk_array task), tk_states := (tk_states task)(a := None)\<rparr>) task"

section \<open>Actions\<close>

definition action_call :: "PkTaskState \<Rightarrow> client_call option" where
  "action_call st =
     (if st_role st = PK_ROLE_ENUM_INSTALL_PACKAGES then
        Some (CLIENT_install_packages (st_only_trusted st) (st_package_ids st))
      else if st_role st = PK_ROLE_ENUM_UPDATE_PACKAGES then
        Some (CLIENT_update_packages (st_only_trusted st) (st_package_ids st))
      else if st_role st = PK_ROLE_ENUM_REMOVE_PACKAGES then
        Some (CLIENT_remove_packages (st_package_ids st) (st_allow_deps st) (st_autoremove st))
      else if st_role st = PK_ROLE_ENUM_UPDATE_SYSTEM then
        Some (CLIENT_update_system (st_only_trusted st))
      else if st_role st = PK_ROLE_ENUM_INSTALL_FILES then
        Some (CLIENT_install_files (st_only_trusted st) (st_files st))
      else if st_role st = PK_ROLE_ENUM_RESOLVE then
        Some (CLIENT_resolve (st_filters st) (st_packages st))
      else if st_role st = PK_ROLE_ENUM_SEARCH_NAME then
        Some (CLIENT_search_names (st_filters st) (st_values st))
      else if st_role st = PK_ROLE_ENUM_SEARCH_DETAILS then
        Some (CLIENT_search_details (st_filters st) (st_values st))
      else if st_role st = PK_ROLE_ENUM_SEARCH_GROUP then
        Some (CLIENT_search_groups (st_filters st) (st_values st))
      else if st_role st = PK_ROLE_ENUM_SEARCH_FILE then
        Some (CLIENT_search_files (st_filters st) (st_values st))
      else if st_role st = PK_ROLE_ENUM_GET_DETAILS then
        Some (CLIENT_get_details (st_package_ids st))
      else if st_role st = PK_ROLE_ENUM_GET_UPDATE_DETAIL then
        Some (CLIENT_get_update_detail (st_package_ids st))
      else if st_role st = PK_ROLE_ENUM_DOWNLOAD_PACKAGES then
        Some (CLIENT_download_packages (st_package_ids st) (st_directory st))
      else if st_role st = PK_ROLE_ENUM_GET_UPDATES then
        Some (CLIENT_get_updates (st_filters st))
      else if st_role st = PK_ROLE_ENUM_GET_DEPENDS then
        Some (CLIENT_get_depends (st_filters st) (st_package_ids st) (st_recursive st))
      else if st_role st = PK_ROLE_ENUM_GET_PACKAGES then
        Some (CLIENT_get_packages (st_filters st))
      else if st_role st = PK_ROLE_ENUM_GET_REQUIRES then
        Some (CLIENT_get_requires (st_filters st) (st_package_ids st) (st_recursive st))
      else if st_role st = PK_ROLE_ENUM_WHAT_PROVIDES then
        Some (CLIENT_what_provides (st_filters st) (st_provides st) (st_values st))
      else if st_role st = PK_ROLE_ENUM_GET_FILES then
        Some (CLIENT_get_files (st_package_ids st))
      else if st_role st = PK_ROLE_ENUM_GET_CATEGORIES then
        Some (CLIENT_get_categories)
      else if st_role st = PK_ROLE_ENUM_REFRESH_CACHE then
        Some (CLIENT_refresh_cache (st_force st))
      else if st_role st = PK_ROLE_ENUM_ROLLBACK then
        Some (CLIENT_rollback (st_transaction_id st))
      else if st_role st = PK_ROLE_ENUM_GET_REPO_LIST then
        Some (CLIENT_get_repo_list (st_filters st))
      else if st_role st = PK_ROLE_ENUM_REPO_ENABLE then
        Some (CLIENT_repo_enable (st_repo_id st) (st_enabled st))
      else if st_role st = PK_ROLE_ENUM_REPAIR_SYSTEM then
        Some (CLIENT_repair_system (st_only_trusted st))
      else None)"

definition pk_task_do_async_action :: "nat \<Rightarrow> PkTask \<Rightarrow> PkTask" where
  "pk_task_do_async_action a task =
     (let task = upd_state a (\<lambda>st. st\<lparr>st_simulate := False\<rparr>) task
      in with_state a (\<lambda>st task.
           case action_call st of
             None \<Rightarrow> task\<lparr>tk_undefined := True\<rparr>
           | Some call \<Rightarrow> submit a CB_ready call task) task)"

definition pk_task_package_filter_cb :: "package_heap \<Rightarrow> nat \<Rightarrow> bool" where
  "pk_task_package_filter_cb h package =
     (let info = pk_package_get_info h package in
      if info = PK_INFO_ENUM_CLEANUP \<or> info = PK_INFO_ENUM_UNTRUSTED \<or> info = PK_INFO_ENUM_FINISHED
      then False
      else if pk_package_get_data h package = ''local'' then False
      else True)"

definition simulate_call :: "PkTaskState \<Rightarrow> client_call option" where
  "simulate_call st =
     (if st_role st = PK_ROLE_ENUM_INSTALL_PACKAGES then
        Some (CLIENT_simulate_install_packages (st_package_ids st))
      else if st_role st = PK_ROLE_ENUM_UPDATE_PACKAGES then
        Some (CLIENT_simulate_update_packages (st_package_ids st))
      else if st_role st = PK_ROLE_ENUM_REMOVE_PACKAGES then
        Some (CLIENT_simulate_remove_packages (st_package_ids st) (st_autoremove st))
      else if st_role st = PK_ROLE_ENUM_INSTALL_FILES then
        Some (CLIENT_simulate_install_files (st_files st))
      else if st_role st = PK_ROLE_ENUM_REPAIR_SYSTEM then
        Some CLIENT_simulate_repair_system
      else None)"

definition pk_task_do_async_simulate_action :: "nat \<Rightarrow> PkTask \<Rightarrow> PkTask" where
  "pk_task_do_async_simulate_action a task =
     (let task = upd_state a (\<lambda>st. st\<lparr>st_simulate := True\<rparr>) task
      in with_state a (\<lambda>st task.
           case simulate_call st of
             None \<Rightarrow> task\<lparr>tk_undefined := True\<rparr>
           | Some call \<Rightarrow> submit a CB_simulate_ready call task) task)"

section \<open>The answer to a simulation\<close>

fun remove_original_loop :: "package_heap \<Rightarrow> string list \<Rightarrow> PkPackageSack \<Rightarrow> PkPackageSack" where
  "remove_original_loop h [] sack = sack"
| "remove_original_loop h (i # is) sack =
     remove_original_loop h is (snd (pk_package_sack_remove_package_by_id h sack i))"

text \<open>The sack is the one of the results: what is removed from it is removed from what the user sees.\<close>

definition simulate_success :: "PkTaskClass \<Rightarrow> package_heap \<Rightarrow> nat \<Rightarrow> client_results \<Rightarrow> PkTask \<Rightarrow> PkTask" where
  "simulate_success klass h a results task =
     (let sack = cr_package_sack results;
          untrusted_sack = pk_package_sack_filter_by_info h sack PK_INFO_ENUM_UNTRUSTED;
          task = (if 0 < pk_package_sack_get_size untrusted_sack
                  then upd_state a (\<lambda>st. st\<lparr>st_only_trusted := False\<rparr>) task else task);
          sack = snd (pk_package_sack_remove_by_filter (pk_task_package_filter_cb h) sack)
      in with_state a (\<lambda>st task.
           let sack = (case st_package_ids st of
                         None \<Rightarrow> sack
                       | Some package_ids \<Rightarrow> remove_original_loop h package_ids sack);
               task = upd_state a (\<lambda>st. st\<lparr>st_results := Some (results\<lparr>cr_package_sack := sack\<rparr>)\<rparr>) task
           in if pk_package_sack_get_size sack = 0 then pk_task_do_async_action a task
              else
                let sack = pk_package_sack_sort h PK_PACKAGE_SACK_SORT_TYPE_INFO sack;
                    results = results\<lparr>cr_package_sack := sack\<rparr>;
                    task = upd_state a (\<lambda>st. st\<lparr>st_results := Some results\<rparr>) task
                in if simulate_question klass
                   then task_emit (TASK_QUESTION (st_request st) Q_simulate results) task
                   else task\<lparr>tk_undefined := True\<rparr>) task)"

text \<open>
  Only the code of the error is compared, not its domain; \<open>PK_CLIENT_ERROR_NOT_SUPPORTED\<close> is 8.
\<close>

fun is_not_supported :: "client_error \<Rightarrow> bool" where
  "is_not_supported (CLIENT_ERROR code message) = (code = PK_CLIENT_ERROR_NOT_SUPPORTED)"
| "is_not_supported (DAEMON_ERROR code message) = False"
| "is_not_supported (OTHER_ERROR code message) = (code = 8)"

definition pk_task_simulate_ready_cb ::
  "PkTaskClass \<Rightarrow> package_heap \<Rightarrow> nat \<Rightarrow> client_answer \<Rightarrow> PkTask \<Rightarrow> PkTask" where
  "pk_task_simulate_ready_cb klass h a answer task =
     (let task = upd_state a (\<lambda>st. st\<lparr>st_results := None\<rparr>) task in
      case answer of
        Inl error \<Rightarrow>
          if is_not_supported error then pk_task_do_async_action a task
          else pk_task_generic_state_finish a (Some error) task
      | Inr results \<Rightarrow>
          let task = upd_state a (\<lambda>st. st\<lparr>st_results := Some results, st_exit_enum := cr_exit_enum results\<rparr>) task
          in if cr_exit_enum results \<noteq> PK_EXIT_ENUM_SUCCESS then
               let task = upd_state a (\<lambda>st. st\<lparr>st_ret := True\<rparr>) task
               in pk_task_generic_state_finish a None task
             else simulate_success klass h a results task)"

section \<open>Signatures and agreements\<close>

text \<open>The text of an error that a result has; without one \<open>NULL\<close> is printed.\<close>

definition error_details :: "client_results \<Rightarrow> string" where
  "error_details results = (case cr_error_code results of None \<Rightarrow> ''(null)'' | Some e \<Rightarrow> er_details e)"

text \<open>The callbacks of both detours differ in the text of their error only.\<close>

definition detour_ready :: "string \<Rightarrow> nat \<Rightarrow> client_answer \<Rightarrow> PkTask \<Rightarrow> PkTask" where
  "detour_ready what a answer task =
     (let task = upd_state a (\<lambda>st. st\<lparr>st_results := None\<rparr>) task in
      case answer of
        Inl error \<Rightarrow> pk_task_generic_state_finish a (Some error) task
      | Inr results \<Rightarrow>
          let task = upd_state a (\<lambda>st. st\<lparr>st_results := Some results, st_exit_enum := cr_exit_enum results\<rparr>) task
          in if cr_exit_enum results \<noteq> PK_EXIT_ENUM_SUCCESS then
               pk_task_generic_state_finish a
                 (Some (CLIENT_ERROR PK_CLIENT_ERROR_FAILED (what @ error_details results))) task
             else pk_task_do_async_action a task)"

definition pk_task_install_signatures_ready_cb :: "nat \<Rightarrow> client_answer \<Rightarrow> PkTask \<Rightarrow> PkTask" where
  "pk_task_install_signatures_ready_cb = detour_ready ''failed to install signature: ''"

definition pk_task_accept_eulas_ready_cb :: "nat \<Rightarrow> client_answer \<Rightarrow> PkTask \<Rightarrow> PkTask" where
  "pk_task_accept_eulas_ready_cb = detour_ready ''failed to accept eula: ''"

definition pk_task_install_signatures :: "nat \<Rightarrow> PkTask \<Rightarrow> PkTask" where
  "pk_task_install_signatures a task =
     with_state a (\<lambda>st task.
       case (case st_results st of None \<Rightarrow> [] | Some results \<Rightarrow> cr_repo_signature_required_array results) of
         [] \<Rightarrow> pk_task_generic_state_finish a
                 (Some (CLIENT_ERROR PK_CLIENT_ERROR_FAILED ''no signatures to install'')) task
       | [item] \<Rightarrow>
           submit a CB_install_signatures_ready
             (CLIENT_install_signature (sg_type item) (sg_key_id item) (sg_package_id item)) task
       | _ \<Rightarrow> pk_task_generic_state_finish a
                 (Some (CLIENT_ERROR PK_CLIENT_ERROR_FAILED ''more than one signature to install'')) task) task"

definition pk_task_accept_eulas :: "nat \<Rightarrow> PkTask \<Rightarrow> PkTask" where
  "pk_task_accept_eulas a task =
     with_state a (\<lambda>st task.
       case (case st_results st of None \<Rightarrow> [] | Some results \<Rightarrow> cr_eula_required_array results) of
         [] \<Rightarrow> pk_task_generic_state_finish a
                 (Some (CLIENT_ERROR PK_CLIENT_ERROR_FAILED ''no eulas to accept'')) task
       | [item] \<Rightarrow> submit a CB_accept_eulas_ready (CLIENT_accept_eula (eu_eula_id item)) task
       | _ \<Rightarrow> pk_task_generic_state_finish a
                 (Some (CLIENT_ERROR PK_CLIENT_ERROR_FAILED ''more than one eula to accept'')) task) task"

section \<open>Replies of the user\<close>

definition pk_task_user_accepted_idle_cb :: "nat \<Rightarrow> PkTask \<Rightarrow> PkTask" where
  "pk_task_user_accepted_idle_cb a task =
     with_state a (\<lambda>st task.
       if st_exit_enum st = PK_EXIT_ENUM_KEY_REQUIRED then pk_task_install_signatures a task
       else if st_exit_enum st = PK_EXIT_ENUM_EULA_REQUIRED then pk_task_accept_eulas a task
       else pk_task_do_async_action a task) task"

definition pk_task_user_declined_idle_cb :: "nat \<Rightarrow> PkTask \<Rightarrow> PkTask" where
  "pk_task_user_declined_idle_cb a task =
     with_state a (\<lambda>st task.
       if st_simulate st then
         pk_task_generic_state_finish a
           (Some (CLIENT_ERROR PK_CLIENT_ERROR_DECLINED_SIMULATION ''user declined simulation'')) task
       else
         pk_task_generic_state_finish a
           (Some (CLIENT_ERROR PK_CLIENT_ERROR_FAILED ''user declined interaction'')) task) task"

definition add_idle :: "task_source \<Rightarrow> PkTask \<Rightarrow> PkTask" where
  "add_idle src task = task\<lparr>tk_loop := snd (g_source_add src (tk_loop task))\<rparr>"

definition pk_task_user_accepted :: "guint \<Rightarrow> PkTask \<Rightarrow> bool \<times> PkTask" where
  "pk_task_user_accepted request task =
     (case pk_task_find_by_request task request of
        None \<Rightarrow> (False, task)
      | Some a \<Rightarrow> (True, add_idle (SRC_user_accepted a) task))"

definition pk_task_user_declined :: "guint \<Rightarrow> PkTask \<Rightarrow> bool \<times> PkTask" where
  "pk_task_user_declined request task =
     (case pk_task_find_by_request task request of
        None \<Rightarrow> (False, task)
      | Some a \<Rightarrow> (True, add_idle (SRC_user_declined a) task))"

section \<open>The answer to an action\<close>

text \<open>The four exit codes that need the user are treated alike.\<close>

definition ask :: "bool \<Rightarrow> task_question \<Rightarrow> string \<Rightarrow> nat \<Rightarrow> client_results \<Rightarrow> PkTask \<Rightarrow> PkTask" where
  "ask supported question what a results task =
     with_state a (\<lambda>st task.
       if \<not> tk_interactive task then snd (pk_task_user_accepted (st_request st) task)
       else if \<not> supported then
         pk_task_generic_state_finish a
           (Some (CLIENT_ERROR PK_CLIENT_ERROR_NOT_SUPPORTED
              (''could not do '' @ what @ '' question as no klass support''))) task
       else task_emit (TASK_QUESTION (st_request st) question results) task) task"

definition pk_task_ready_cb :: "PkTaskClass \<Rightarrow> nat \<Rightarrow> client_answer \<Rightarrow> PkTask \<Rightarrow> PkTask" where
  "pk_task_ready_cb klass a answer task =
     (let task = upd_state a (\<lambda>st. st\<lparr>st_results := None\<rparr>) task in
      case answer of
        Inl error \<Rightarrow> pk_task_generic_state_finish a (Some error) task
      | Inr results \<Rightarrow>
          let exit_enum = cr_exit_enum results;
              task = upd_state a (\<lambda>st. st\<lparr>st_results := Some results, st_exit_enum := exit_enum\<rparr>) task
          in if exit_enum = PK_EXIT_ENUM_NEED_UNTRUSTED then
               ask (untrusted_question klass) Q_untrusted ''untrusted'' a results
                 (upd_state a (\<lambda>st. st\<lparr>st_only_trusted := False\<rparr>) task)
             else if exit_enum = PK_EXIT_ENUM_KEY_REQUIRED then
               ask (key_question klass) Q_key ''key'' a results task
             else if exit_enum = PK_EXIT_ENUM_EULA_REQUIRED then
               ask (eula_question klass) Q_eula ''eula'' a results task
             else if exit_enum = PK_EXIT_ENUM_MEDIA_CHANGE_REQUIRED then
               ask (media_change_question klass) Q_media_change ''media change'' a results task
             else if exit_enum = PK_EXIT_ENUM_CANCELLED_PRIORITY then pk_task_do_async_action a task
             else
               let task = upd_state a (\<lambda>st. st\<lparr>st_ret := True\<rparr>) task
               in pk_task_generic_state_finish a None task)"

section \<open>Making requests\<close>

text \<open>What all of them do: the state gets a number and an address and is put into the array.\<close>

definition add_state :: "PkTaskState \<Rightarrow> PkTask \<Rightarrow> nat \<times> PkTask" where
  "add_state st task =
     (let (request, task) = pk_task_generate_request_id task;
          a = tk_next_state task
      in (a, task\<lparr>tk_states := (tk_states task)(a := Some (st\<lparr>st_request := request\<rparr>)),
                  tk_next_state := Suc a, tk_array := tk_array task @ [a]\<rparr>))"

definition start_action :: "PkTaskState \<Rightarrow> PkTask \<Rightarrow> PkTask" where
  "start_action st task = (let (a, task) = add_state st task in pk_task_do_async_action a task)"

definition start_simulated :: "PkTaskClass \<Rightarrow> PkTaskState \<Rightarrow> PkTask \<Rightarrow> PkTask" where
  "start_simulated klass st task =
     (let (a, task) = add_state st task
      in if tk_simulate task \<and> simulate_question klass then pk_task_do_async_simulate_action a task
         else pk_task_do_async_action a task)"

definition pk_task_install_packages_async :: "PkTaskClass \<Rightarrow> string list \<Rightarrow> PkTask \<Rightarrow> PkTask" where
  "pk_task_install_packages_async klass package_ids task =
     start_simulated klass
       ((task_state_new PK_ROLE_ENUM_INSTALL_PACKAGES)
          \<lparr>st_only_trusted := True, st_package_ids := Some package_ids\<rparr>) task"

definition pk_task_update_packages_async :: "PkTaskClass \<Rightarrow> string list \<Rightarrow> PkTask \<Rightarrow> PkTask" where
  "pk_task_update_packages_async klass package_ids task =
     start_simulated klass
       ((task_state_new PK_ROLE_ENUM_UPDATE_PACKAGES)
          \<lparr>st_only_trusted := True, st_package_ids := Some package_ids\<rparr>) task"

definition pk_task_remove_packages_async :: "PkTaskClass \<Rightarrow> string list \<Rightarrow> bool \<Rightarrow> bool \<Rightarrow> PkTask \<Rightarrow> PkTask" where
  "pk_task_remove_packages_async klass package_ids allow_deps autoremove task =
     start_simulated klass
       ((task_state_new PK_ROLE_ENUM_REMOVE_PACKAGES)
          \<lparr>st_package_ids := Some package_ids, st_allow_deps := allow_deps, st_autoremove := autoremove\<rparr>) task"

definition pk_task_install_files_async :: "PkTaskClass \<Rightarrow> string list \<Rightarrow> PkTask \<Rightarrow> PkTask" where
  "pk_task_install_files_async klass files task =
     start_simulated klass
       ((task_state_new PK_ROLE_ENUM_INSTALL_FILES)
          \<lparr>st_only_trusted := True, st_files := Some files\<rparr>) task"

definition pk_task_update_system_async :: "PkTask \<Rightarrow> PkTask" where
  "pk_task_update_system_async task =
     start_action
       ((task_state_new PK_ROLE_ENUM_UPDATE_SYSTEM)
          \<lparr>st_only_trusted := True\<rparr>) task"

definition pk_task_resolve_async :: "PkBitfield \<Rightarrow> string list \<Rightarrow> PkTask \<Rightarrow> PkTask" where
  "pk_task_resolve_async filters packages task =
     start_action
       ((task_state_new PK_ROLE_ENUM_RESOLVE)
          \<lparr>st_only_trusted := True, st_filters := filters, st_packages := Some packages\<rparr>) task"

definition pk_task_search_names_async :: "PkBitfield \<Rightarrow> string list \<Rightarrow> PkTask \<Rightarrow> PkTask" where
  "pk_task_search_names_async filters values task =
     start_action
       ((task_state_new PK_ROLE_ENUM_SEARCH_NAME)
          \<lparr>st_only_trusted := True, st_filters := filters, st_values := Some values\<rparr>) task"

definition pk_task_search_details_async :: "PkBitfield \<Rightarrow> string list \<Rightarrow> PkTask \<Rightarrow> PkTask" where
  "pk_task_search_details_async filters values task =
     start_action
       ((task_state_new PK_ROLE_ENUM_SEARCH_DETAILS)
          \<lparr>st_only_trusted := True, st_filters := filters, st_values := Some values\<rparr>) task"

definition pk_task_search_groups_async :: "PkBitfield \<Rightarrow> string list \<Rightarrow> PkTask \<Rightarrow> PkTask" where
  "pk_task_search_groups_async filters values task =
     start_action
       ((task_state_new PK_ROLE_ENUM_SEARCH_GROUP)
          \<lparr>st_only_trusted := True, st_filters := filters, st_values := Some values\<rparr>) task"

definition pk_task_search_files_async :: "PkBitfield \<Rightarrow> string list \<Rightarrow> PkTask \<Rightarrow> PkTask" where
  "pk_task_search_files_async filters values task =
     start_action
       ((task_state_new PK_ROLE_ENUM_SEARCH_FILE)
          \<lparr>st_only_trusted := True, st_filters := filters, st_values := Some values\<rparr>) task"

definition pk_task_get_details_async :: "string list \<Rightarrow> PkTask \<Rightarrow> PkTask" where
  "pk_task_get_details_async package_ids task =
     start_action
       ((task_state_new PK_ROLE_ENUM_GET_DETAILS)
          \<lparr>st_only_trusted := True, st_package_ids := Some package_ids\<rparr>) task"

definition pk_task_get_update_detail_async :: "string list \<Rightarrow> PkTask \<Rightarrow> PkTask" where
  "pk_task_get_update_detail_async package_ids task =
     start_action
       ((task_state_new PK_ROLE_ENUM_GET_UPDATE_DETAIL)
          \<lparr>st_only_trusted := True, st_package_ids := Some package_ids\<rparr>) task"

definition pk_task_download_packages_async :: "string list \<Rightarrow> string \<Rightarrow> PkTask \<Rightarrow> PkTask" where
  "pk_task_download_packages_async package_ids directory task =
     start_action
       ((task_state_new PK_ROLE_ENUM_DOWNLOAD_PACKAGES)
          \<lparr>st_only_trusted := True, st_package_ids := Some package_ids, st_directory := Some directory\<rparr>) task"

definition pk_task_get_updates_async :: "PkBitfield \<Rightarrow> PkTask \<Rightarrow> PkTask" where
  "pk_task_get_updates_async filters task =
     start_action
       ((task_state_new PK_ROLE_ENUM_GET_UPDATES)
          \<lparr>st_only_trusted := True, st_filters := filters\<rparr>) task"

definition pk_task_get_depends_async :: "PkBitfield \<Rightarrow> string list \<Rightarrow> bool \<Rightarrow> PkTask \<Rightarrow> PkTask" where
  "pk_task_get_depends_async filters package_ids recursive task =
     start_action
       ((task_state_new PK_ROLE_ENUM_GET_DEPENDS)
          \<lparr>st_only_trusted := True, st_filters := filters, st_package_ids := Some package_ids, st_recursive := recursive\<rparr>) task"

definition pk_task_get_packages_async :: "PkBitfield \<Rightarrow> PkTask \<Rightarrow> PkTask" where
  "pk_task_get_packages_async filters task =
     start_action
       ((task_state_new PK_ROLE_ENUM_GET_PACKAGES)
          \<lparr>st_only_trusted := True, st_filters := filters\<rparr>) task"

definition pk_task_get_requires_async :: "PkBitfield \<Rightarrow> string list \<Rightarrow> bool \<Rightarrow> PkTask \<Rightarrow> PkTask" where
  "pk_task_get_requires_async filters package_ids recursive task =
     start_action
       ((task_state_new PK_ROLE_ENUM_GET_REQUIRES)
          \<lparr>st_only_trusted := True, st_filters := filters, st_package_ids := Some package_ids, st_recursive := recursive\<rparr>) task"

definition pk_task_what_provides_async :: "PkBitfield \<Rightarrow> PkProvidesEnum \<Rightarrow> string list \<Rightarrow> PkTask \<Rightarrow> PkTask" where
  "pk_task_what_provides_async filters provides values task =
     start_action
       ((task_state_new PK_ROLE_ENUM_WHAT_PROVIDES)
          \<lparr>st_only_trusted := True, st_filters := filters, st_provides := provides, st_values := Some values\<rparr>) task"

definition pk_task_get_files_async :: "string list \<Rightarrow> PkTask \<Rightarrow> PkTask" where
  "pk_task_get_files_async package_ids task =
     start_action
       ((task_state_new PK_ROLE_ENUM_GET_FILES)
          \<lparr>st_only_trusted := True, st_package_ids := Some package_ids\<rparr>) task"

definition pk_task_get_categories_async :: "PkTask \<Rightarrow> PkTask" where
  "pk_task_get_categories_async task =
     start_action
       ((task_state_new PK_ROLE_ENUM_GET_CATEGORIES)
          \<lparr>st_only_trusted := True\<rparr>) task"

definition pk_task_refresh_cache_async :: "bool \<Rightarrow> PkTask \<Rightarrow> PkTask" where
  "pk_task_refresh_cache_async force task =
     start_action
       ((task_state_new PK_ROLE_ENUM_REFRESH_CACHE)
          \<lparr>st_only_trusted := True, st_force := force\<rparr>) task"

definition pk_task_rollback_async :: "string \<Rightarrow> PkTask \<Rightarrow> PkTask" where
  "pk_task_rollback_async transaction_id task =
     start_action
       ((task_state_new PK_ROLE_ENUM_ROLLBACK)
          \<lparr>st_only_trusted := True, st_transaction_id := Some transaction_id\<rparr>) task"

definition pk_task_get_repo_list_async :: "PkBitfield \<Rightarrow> PkTask \<Rightarrow> PkTask" where
  "pk_task_get_repo_list_async filters task =
     start_action
       ((task_state_new PK_ROLE_ENUM_GET_REPO_LIST)
          \<lparr>st_only_trusted := True, st_filters := filters\<rparr>) task"

definition pk_task_repo_enable_async :: "string \<Rightarrow> bool \<Rightarrow> PkTask \<Rightarrow> PkTask" where
  "pk_task_repo_enable_async repo_id enabled task =
     start_action
       ((task_state_new PK_ROLE_ENUM_REPO_ENABLE)
          \<lparr>st_only_trusted := True, st_repo_id := Some repo_id, st_enabled := enabled\<rparr>) task"

definition pk_task_repair_system_async :: "PkTaskClass \<Rightarrow> PkTask \<Rightarrow> PkTask" where
  "pk_task_repair_system_async klass task =
     start_simulated klass
       ((task_state_new PK_ROLE_ENUM_REPAIR_SYSTEM)
          \<lparr>st_only_trusted := True\<rparr>) task"

text \<open>The methods by name, to speak of any of them.\<close>

datatype task_method =
    TASK_install_packages "string list"
  | TASK_update_packages "string list"
  | TASK_remove_packages "string list" bool bool
  | TASK_install_files "string list"
  | TASK_update_system
  | TASK_resolve PkBitfield "string list"
  | TASK_search_names PkBitfield "string list"
  | TASK_search_details PkBitfield "string list"
  | TASK_search_groups PkBitfield "string list"
  | TASK_search_files PkBitfield "string list"
  | TASK_get_details "string list"
  | TASK_get_update_detail "string list"
  | TASK_download_packages "string list" string
  | TASK_get_updates PkBitfield
  | TASK_get_depends PkBitfield "string list" bool
  | TASK_get_packages PkBitfield
  | TASK_get_requires PkBitfield "string list" bool
  | TASK_what_provides PkBitfield PkProvidesEnum "string list"
  | TASK_get_files "string list"
  | TASK_get_categories
  | TASK_refresh_cache bool
  | TASK_rollback string
  | TASK_get_repo_list PkBitfield
  | TASK_repo_enable string bool
  | TASK_repair_system

fun task_start :: "PkTaskClass \<Rightarrow> task_method \<Rightarrow> PkTask \<Rightarrow> PkTask" where
  "task_start klass (TASK_install_packages package_ids) task =
     pk_task_install_packages_async klass package_ids task"
| "task_start klass (TASK_update_packages package_ids) task =
     pk_task_update_packages_async klass package_ids task"
| "task_start klass (TASK_remove_packages package_ids allow_deps autoremove) task =
     pk_task_remove_packages_async klass package_ids allow_deps autoremove task"
| "task_start klass (TASK_install_files files) task =
     pk_task_install_files_async klass files task"
| "task_start klass TASK_update_system task =
     pk_task_update_system_async task"
| "task_start klass (TASK_resolve filters packages) task =
     pk_task_resolve_async filters packages task"
| "task_start klass (TASK_search_names filters values) task =
     pk_task_search_names_async filters values task"
| "task_start klass (TASK_search_details filters values) task =
     pk_task_search_details_async filters values task"
| "task_start klass (TASK_search_groups filters values) task =
     pk_task_search_groups_async filters values task"
| "task_start klass (TASK_search_files filters values) task =
     pk_task_search_files_async filters values task"
| "task_start klass (TASK_get_details package_ids) task =
     pk_task_get_details_async package_ids task"
| "task_start klass (TASK_get_update_detail package_ids) task =
     pk_task_get_update_detail_async package_ids task"
| "task_start klass (TASK_download_packages package_ids directory) task =
     pk_task_download_packages_async package_ids directory task"
| "task_start klass (TASK_get_updates filters) task =
     pk_task_get_updates_async filters task"
| "task_start klass (TASK_get_depends filters package_ids recursive) task =
     pk_task_get_depends_async filters package_ids recursive task"
| "task_start klass (TASK_get_packages filters) task =
     pk_task_get_packages_async filters task"
| "task_start klass (TASK_get_requires filters package_ids recursive) task =
     pk_task_get_requires_async filters package_ids recursive task"
| "task_start klass (TASK_what_provides filters provides values) task =
     pk_task_what_provides_async filters provides values task"
| "task_start klass (TASK_get_files package_ids) task =
     pk_task_get_files_async package_ids task"
| "task_start klass TASK_get_categories task =
     pk_task_get_categories_async task"
| "task_start klass (TASK_refresh_cache force) task =
     pk_task_refresh_cache_async force task"
| "task_start klass (TASK_rollback transaction_id) task =
     pk_task_rollback_async transaction_id task"
| "task_start klass (TASK_get_repo_list filters) task =
     pk_task_get_repo_list_async filters task"
| "task_start klass (TASK_repo_enable repo_id enabled) task =
     pk_task_repo_enable_async repo_id enabled task"
| "task_start klass TASK_repair_system task =
     pk_task_repair_system_async klass task"

section \<open>What comes from outside\<close>

text \<open>The client answers the pending call at a position of the list: the callback of the call runs.\<close>

definition task_answer :: "PkTaskClass \<Rightarrow> package_heap \<Rightarrow> nat \<Rightarrow> client_answer \<Rightarrow> PkTask \<Rightarrow> PkTask" where
  "task_answer klass h i answer task =
     (let (a, cb) = tk_calls task ! i;
          task = task\<lparr>tk_calls := take i (tk_calls task) @ drop (Suc i) (tk_calls task)\<rparr>
      in with_state a (\<lambda>st task.
           let task = task_emit (TASK_ANSWER (st_request st) h answer) task
           in case cb of
                CB_ready \<Rightarrow> pk_task_ready_cb klass a answer task
              | CB_simulate_ready \<Rightarrow> pk_task_simulate_ready_cb klass h a answer task
              | CB_install_signatures_ready \<Rightarrow> pk_task_install_signatures_ready_cb a answer task
              | CB_accept_eulas_ready \<Rightarrow> pk_task_accept_eulas_ready_cb a answer task) task)"

fun task_dispatch :: "task_source \<Rightarrow> PkTask \<Rightarrow> PkTask" where
  "task_dispatch (SRC_user_accepted a) task = pk_task_user_accepted_idle_cb a task"
| "task_dispatch (SRC_user_declined a) task = pk_task_user_declined_idle_cb a task"

definition task_idle :: "nat \<Rightarrow> task_source \<Rightarrow> PkTask \<Rightarrow> PkTask" where
  "task_idle i src task = task_dispatch src (task\<lparr>tk_loop := g_source_remove i (tk_loop task)\<rparr>)"

definition task_reply :: "guint \<Rightarrow> bool \<Rightarrow> PkTask \<Rightarrow> PkTask" where
  "task_reply request accepted task =
     (let task = task_emit (TASK_REPLY request accepted) task
      in snd (if accepted then pk_task_user_accepted request task
              else pk_task_user_declined request task))"

end
