(* ===== verification/PK_Sack_Laws.thy ===== *)
theory PK_Sack_Laws
  imports PK_Package_Sack
begin

text \<open>
  Laws of the sack: sorting by any of its four orders, removing by a filter, finding, and merging
  data into the packages.
\<close>

section \<open>Stable sorting\<close>

text \<open>What a comparison has to promise for a sort to make sense: it never calls two elements both
  smaller, and it is transitive.\<close>

locale comparison =
  fixes cmp :: "'a \<Rightarrow> 'a \<Rightarrow> int"
  assumes total: "0 < cmp x y \<Longrightarrow> cmp y x \<le> 0"
    and trans: "cmp x y \<le> 0 \<Longrightarrow> cmp y z \<le> 0 \<Longrightarrow> cmp x z \<le> 0"
begin

definition same :: "'a \<Rightarrow> 'a \<Rightarrow> bool" where
  "same x y \<longleftrightarrow> cmp x y \<le> 0 \<and> cmp y x \<le> 0"

lemma mset_insort: "mset (insort_by cmp x xs) = add_mset x (mset xs)"
  by (induction xs) auto

lemma mset_sort: "mset (g_ptr_array_sort cmp xs) = mset xs"
  by (induction xs) (simp_all add: g_ptr_array_sort_def mset_insort)

lemma set_insort: "set (insort_by cmp x xs) = insert x (set xs)"
  by (induction xs) auto

lemma sorted_insort:
  "sorted_wrt (\<lambda>a b. cmp a b \<le> 0) xs \<Longrightarrow> sorted_wrt (\<lambda>a b. cmp a b \<le> 0) (insort_by cmp x xs)"
proof (induction xs)
  case (Cons y ys)
  show ?case
  proof (cases "cmp x y \<le> 0")
    case True
    then show ?thesis using Cons.prems trans [of x y] by auto
  next
    case False
    then have "cmp y x \<le> 0" using total by simp
    then show ?thesis using Cons False by (auto simp: set_insort)
  qed
qed simp

lemma sorted_sort: "sorted_wrt (\<lambda>a b. cmp a b \<le> 0) (g_ptr_array_sort cmp xs)"
  by (induction xs) (simp_all add: g_ptr_array_sort_def sorted_insort)

lemma filter_insort:
  "sorted_wrt (\<lambda>a b. cmp a b \<le> 0) xs \<Longrightarrow>
   filter (same k) (insort_by cmp x xs) = (if same k x then x # filter (same k) xs else filter (same k) xs)"
proof (induction xs)
  case (Cons y ys)
  have no: "\<not> (same k x \<and> same k y)" if "\<not> cmp x y \<le> 0"
    using that trans unfolding same_def by blast
  show ?case using Cons no by auto
qed simp

lemma stable_sort: "filter (same k) (g_ptr_array_sort cmp xs) = filter (same k) xs"
proof (induction xs)
  case (Cons x xs)
  have "filter (same k) (g_ptr_array_sort cmp (x # xs)) =
      filter (same k) (insort_by cmp x (g_ptr_array_sort cmp xs))"
    by (simp add: g_ptr_array_sort_def)
  then show ?case using Cons by (simp add: filter_insort sorted_sort)
qed (simp add: g_ptr_array_sort_def)

end

section \<open>The comparisons of the code\<close>

lemma strcmp_total: "0 < strcmp s t \<Longrightarrow> strcmp t s \<le> 0"
proof (induction s t rule: strcmp.induct)
  case (4 c s d t)
  have "c \<noteq> d \<Longrightarrow> (of_char c :: nat) < of_char d \<or> (of_char d :: nat) < of_char c"
    by (metis linorder_neqE_nat of_char_eq_iff)
  with 4 show ?case by (auto split: if_splits)
qed simp_all

lemma strcmp_trans: "strcmp s t \<le> 0 \<Longrightarrow> strcmp t u \<le> 0 \<Longrightarrow> strcmp s u \<le> 0"
proof (induction s t arbitrary: u rule: strcmp.induct)
  case 1
  then show ?case by (cases u) auto
next
  case (2 d t)
  then show ?case by (cases u) auto
next
  case (3 c s)
  then show ?case by simp
next
  case (4 c s d t)
  then show ?case by (cases u) (auto split: if_splits)
qed

lemma strcmp0_total: "0 < g_strcmp0 s t \<Longrightarrow> g_strcmp0 t s \<le> 0"
  using strcmp_total by (auto simp: g_strcmp0_def split: option.splits)

lemma strcmp0_trans: "g_strcmp0 s t \<le> 0 \<Longrightarrow> g_strcmp0 t u \<le> 0 \<Longrightarrow> g_strcmp0 s u \<le> 0"
  using strcmp_trans by (auto simp: g_strcmp0_def split: option.splits)

interpretation by_name: comparison "pk_package_sack_sort_compare_name_func h" for h
  by unfold_locales
    (auto simp: pk_package_sack_sort_compare_name_func_def Let_def intro: strcmp_total strcmp_trans)

interpretation by_id: comparison "pk_package_sack_sort_compare_package_id_func h" for h
  by unfold_locales
    (auto simp: pk_package_sack_sort_compare_package_id_func_def intro: strcmp_total strcmp_trans)

interpretation by_summary: comparison "pk_package_sack_sort_compare_summary_func h" for h
  by unfold_locales
    (auto simp: pk_package_sack_sort_compare_summary_func_def intro: strcmp0_total strcmp0_trans)

lemma info_func_le:
  "pk_package_sack_sort_compare_info_func h a b \<le> 0 \<longleftrightarrow>
   enum_value (pk_package_get_info h b) \<le> enum_value (pk_package_get_info h a)"
  using enum_value_inj [of "pk_package_get_info h a" "pk_package_get_info h b"]
  by (auto simp: pk_package_sack_sort_compare_info_func_def Let_def)

lemma info_func_less:
  "0 < pk_package_sack_sort_compare_info_func h a b \<longleftrightarrow>
   enum_value (pk_package_get_info h a) < enum_value (pk_package_get_info h b)"
  using info_func_le [of h a b] by linarith

interpretation by_info: comparison "pk_package_sack_sort_compare_info_func h" for h
  by unfold_locales (simp_all add: info_func_le info_func_less)

text \<open>The order that a type of sorting asks for.\<close>

definition sack_order :: "package_heap \<Rightarrow> PkPackageSackSortType \<Rightarrow> nat \<Rightarrow> nat \<Rightarrow> bool" where
  "sack_order h type a b =
     (case type of
        PK_PACKAGE_SACK_SORT_TYPE_NAME \<Rightarrow> strcmp (pk_package_get_name h a) (pk_package_get_name h b) \<le> 0
      | PK_PACKAGE_SACK_SORT_TYPE_INFO \<Rightarrow>
          enum_value (pk_package_get_info h b) \<le> enum_value (pk_package_get_info h a)
      | PK_PACKAGE_SACK_SORT_TYPE_PACKAGE_ID \<Rightarrow> strcmp (pk_package_get_id h a) (pk_package_get_id h b) \<le> 0
      | PK_PACKAGE_SACK_SORT_TYPE_SUMMARY \<Rightarrow>
          g_strcmp0 (pk_package_get_summary h a) (pk_package_get_summary h b) \<le> 0
      | PK_PACKAGE_SACK_SORT_TYPE_LAST \<Rightarrow> True)"

text \<open>C33: Sorting a sack keeps every package as often as it is there, orders the packages as the type
  asks - by information the most important first - and leaves packages that are equal in that
  order in the order in which they were; that last part is a promise of GLib's sort, which documents it
  from version 2.32 on.\<close>

theorem sack_sort_spec:
  assumes "type \<noteq> PK_PACKAGE_SACK_SORT_TYPE_LAST"
  shows "mset (pk_package_sack_sort h type sack) = mset sack \<and>
    sorted_wrt (sack_order h type) (pk_package_sack_sort h type sack) \<and>
    (\<forall>k. filter (\<lambda>r. sack_order h type k r \<and> sack_order h type r k) (pk_package_sack_sort h type sack) =
      filter (\<lambda>r. sack_order h type k r \<and> sack_order h type r k) sack)"
proof (cases type)
  case PK_PACKAGE_SACK_SORT_TYPE_NAME
  have "sack_order h type = (\<lambda>a b. pk_package_sack_sort_compare_name_func h a b \<le> 0)"
    by (intro ext) (simp add: PK_PACKAGE_SACK_SORT_TYPE_NAME sack_order_def pk_package_get_name_def
        pk_package_sack_sort_compare_name_func_def package_id_split_def)
  then show ?thesis
    using by_name.mset_sort by_name.sorted_sort by_name.stable_sort
    by (simp add: PK_PACKAGE_SACK_SORT_TYPE_NAME pk_package_sack_sort_def by_name.same_def [abs_def])
next
  case PK_PACKAGE_SACK_SORT_TYPE_INFO
  have "sack_order h type = (\<lambda>a b. pk_package_sack_sort_compare_info_func h a b \<le> 0)"
    by (intro ext) (simp add: PK_PACKAGE_SACK_SORT_TYPE_INFO sack_order_def info_func_le)
  then show ?thesis
    using by_info.mset_sort by_info.sorted_sort by_info.stable_sort
    by (simp add: PK_PACKAGE_SACK_SORT_TYPE_INFO pk_package_sack_sort_def by_info.same_def [abs_def])
next
  case PK_PACKAGE_SACK_SORT_TYPE_PACKAGE_ID
  have "sack_order h type = (\<lambda>a b. pk_package_sack_sort_compare_package_id_func h a b \<le> 0)"
    by (intro ext) (simp add: PK_PACKAGE_SACK_SORT_TYPE_PACKAGE_ID sack_order_def
        pk_package_sack_sort_compare_package_id_func_def)
  then show ?thesis
    using by_id.mset_sort by_id.sorted_sort by_id.stable_sort
    by (simp add: PK_PACKAGE_SACK_SORT_TYPE_PACKAGE_ID pk_package_sack_sort_def by_id.same_def [abs_def])
next
  case PK_PACKAGE_SACK_SORT_TYPE_SUMMARY
  have "sack_order h type = (\<lambda>a b. pk_package_sack_sort_compare_summary_func h a b \<le> 0)"
    by (intro ext) (simp add: PK_PACKAGE_SACK_SORT_TYPE_SUMMARY sack_order_def
        pk_package_sack_sort_compare_summary_func_def)
  then show ?thesis
    using by_summary.mset_sort by_summary.sorted_sort by_summary.stable_sort
    by (simp add: PK_PACKAGE_SACK_SORT_TYPE_SUMMARY pk_package_sack_sort_def by_summary.same_def [abs_def])
qed (use assms in simp)

definition example_heap :: package_heap where
  "example_heap =
     \<lparr>objects = (\<lambda>r. if r = 0 then (package_object_new ''gtk;2;i386;fedora'')\<lparr>pkg_info := PK_INFO_ENUM_UPDATING\<rparr>
                    else if r = 1 then (package_object_new ''hal;1;i386;fedora'')\<lparr>pkg_info := PK_INFO_ENUM_REMOVING\<rparr>
                    else (package_object_new ''glib;2;i386;fedora'')\<lparr>pkg_info := PK_INFO_ENUM_REMOVING\<rparr>),
      next_object = 3\<rparr>"

lemma sack_sort_spec_witness:
  "mset (pk_package_sack_sort example_heap PK_PACKAGE_SACK_SORT_TYPE_INFO [0, 1, 2]) = {#0, 1, 2#} \<and>
   pk_package_sack_sort example_heap PK_PACKAGE_SACK_SORT_TYPE_INFO [0, 1, 2] = [1, 2, 0]"
proof -
  have "pk_package_sack_sort example_heap PK_PACKAGE_SACK_SORT_TYPE_INFO [0, 1, 2] = [1, 2, 0]"
    by code_simp
  then show ?thesis
    using sack_sort_spec [of PK_PACKAGE_SACK_SORT_TYPE_INFO example_heap "[0, 1, 2]"] by simp
qed

section \<open>Removing and finding\<close>

lemma remove1_middle: "x \<notin> set xs \<Longrightarrow> remove1 x (xs @ x # ys) = xs @ ys"
  by (induction xs) auto

lemma remove_by_filter_loop_eq:
  "list_all f xs \<Longrightarrow> remove_by_filter_loop f (length xs) ret (xs @ ys) =
     (ret \<or> \<not> list_all f ys, xs @ filter f ys)"
proof (induction ys arbitrary: xs ret)
  case Nil
  then show ?case by (simp add: remove_by_filter_loop.simps)
next
  case (Cons y ys)
  show ?case
  proof (cases "f y")
    case True
    then show ?thesis
      using Cons.IH [of "xs @ [y]" ret] Cons.prems
      by (simp add: remove_by_filter_loop.simps [of f "length xs" ret])
  next
    case False
    then have "y \<notin> set xs" using Cons.prems by (auto simp: list_all_iff)
    then show ?thesis
      using Cons.IH [of xs True] Cons.prems False
      by (simp add: remove_by_filter_loop.simps [of f "length xs" ret] remove1_middle
          pk_package_sack_remove_package_def)
  qed
qed

text \<open>C35: Removing by a filter, which deletes from the array while it runs over it and deletes the first
  occurrence of a package, ends with exactly the packages that the filter retains, in their order
  and as often as before, as building a new sack by the filter does, and says whether any was
  removed.\<close>

theorem sack_remove_by_filter:
  "pk_package_sack_remove_by_filter f sack = (\<not> list_all f sack, pk_package_sack_filter f sack)"
proof -
  have "filter_loop f xs results = results @ filter f xs" for xs results
    by (induction xs arbitrary: results) (simp_all add: pk_package_sack_add_package_def)
  then show ?thesis
    using remove_by_filter_loop_eq [of f "[]" False sack]
    by (simp add: pk_package_sack_remove_by_filter_def pk_package_sack_filter_def pk_package_sack_new_def)
qed


section \<open>Merging data\<close>

text \<open>
  The three loops that merge data do the same: each item finds the first package of the sack with
  its identifier and overwrites some fields of it.
\<close>

fun merge_loop ::
  "('i \<Rightarrow> string) \<Rightarrow> ('i \<Rightarrow> PkPackageObject \<Rightarrow> PkPackageObject) \<Rightarrow> PkPackageSack \<Rightarrow> 'i list \<Rightarrow>
   package_heap \<Rightarrow> package_heap" where
  "merge_loop key put sack [] h = h"
| "merge_loop key put sack (item # items) h =
     merge_loop key put sack items
       (case pk_package_sack_find_by_id h sack (key item) of
          None \<Rightarrow> h
        | Some package \<Rightarrow> set_object package (put item) h)"

text \<open>What an object is after the merge.\<close>

definition merged ::
  "('i \<Rightarrow> string) \<Rightarrow> ('i \<Rightarrow> PkPackageObject \<Rightarrow> PkPackageObject) \<Rightarrow> PkPackageSack \<Rightarrow> 'i list \<Rightarrow>
   package_heap \<Rightarrow> nat \<Rightarrow> PkPackageObject" where
  "merged key put sack items h r =
     (if pk_package_sack_find_by_id h sack (pk_package_get_id h r) = Some r then
        (case find (\<lambda>item. key item = pk_package_get_id h r) (rev items) of
           None \<Rightarrow> objects h r
         | Some item \<Rightarrow> put item (objects h r))
      else objects h r)"

lemma find_append:
  "find P (xs @ ys) = (case find P xs of None \<Rightarrow> find P ys | Some x \<Rightarrow> Some x)"
  by (induction xs) simp_all

lemma find_by_id_cong:
  "(\<And>r. pk_package_get_id h' r = pk_package_get_id h r) \<Longrightarrow>
   pk_package_sack_find_by_id h' sack i = pk_package_sack_find_by_id h sack i"
  unfolding pk_package_sack_find_by_id_def by (induction sack) simp_all

lemma find_by_id_Some:
  "pk_package_sack_find_by_id h sack i = Some r \<Longrightarrow> r \<in> set sack \<and> pk_package_get_id h r = i"
  unfolding pk_package_sack_find_by_id_def by (induction sack) (auto split: if_splits)

locale merging =
  fixes key :: "'i \<Rightarrow> string" and put :: "'i \<Rightarrow> PkPackageObject \<Rightarrow> PkPackageObject"
  assumes put_id: "pkg_id (put i p) = pkg_id p"
    and put_put: "put i (put j p) = put i p"
begin

lemma set_object_id: "pk_package_get_id (set_object package (put item) h) r = pk_package_get_id h r"
  by (simp add: pk_package_get_id_def set_object_def put_id)

lemma merge_spec: "objects (merge_loop key put sack items h) r = merged key put sack items h r"
proof (induction items arbitrary: h)
  case (Cons item items)
  let ?h = "case pk_package_sack_find_by_id h sack (key item) of
      None \<Rightarrow> h | Some package \<Rightarrow> set_object package (put item) h"
  have ids: "pk_package_get_id ?h r = pk_package_get_id h r" for r
    by (simp add: set_object_id split: option.split)
  have find: "pk_package_sack_find_by_id ?h sack i = pk_package_sack_find_by_id h sack i" for i
    by (rule find_by_id_cong) (rule ids)
  show ?case
  proof (cases "pk_package_sack_find_by_id h sack (key item) = Some r")
    case True
    then have "key item = pk_package_get_id h r" using find_by_id_Some by metis
    with True show ?thesis
      using Cons [of ?h] ids find
      by (simp add: merged_def set_object_def find_append put_put split: option.split)
  next
    case False
    then have same: "objects ?h r = objects h r"
      by (auto simp: set_object_def split: option.split)
    have "pk_package_sack_find_by_id h sack (pk_package_get_id h r) = Some r \<Longrightarrow>
        key item \<noteq> pk_package_get_id h r"
      using False by auto
    then show ?thesis
      using Cons [of ?h] ids find same
      by (auto simp: merged_def find_append split: option.split)
  qed
qed (simp add: merged_def)

end

interpretation resolved: merging "pk_package_get_id h" "put_resolved h" for h
  by unfold_locales (simp_all add: put_resolved_def)

interpretation detailed: merging dt_package_id put_details
  by unfold_locales (simp_all add: put_details_def)

interpretation update_detailed: merging ud_package_id put_update_detail
  by unfold_locales (simp_all add: put_update_detail_def)

lemma details_merge_loop_eq: "details_merge_loop sack items h = merge_loop dt_package_id put_details sack items h"
  by (induction items arbitrary: h) simp_all

lemma update_detail_merge_loop_eq:
  "update_detail_merge_loop sack items h = merge_loop ud_package_id put_update_detail sack items h"
  by (induction items arbitrary: h) simp_all

lemma resolve_merge_loop_eq:
  assumes "set items \<inter> set sack = {}" and "\<And>r. r \<notin> set sack \<Longrightarrow> objects h r = objects h0 r"
  shows "resolve_merge_loop sack items h =
    merge_loop (pk_package_get_id h0) (put_resolved h0) sack items h"
  using assms
proof (induction items arbitrary: h)
  case (Cons item items)
  have item: "pk_package_get_id h item = pk_package_get_id h0 item"
    "pk_package_get_info h item = pk_package_get_info h0 item"
    "pk_package_get_summary h item = pk_package_get_summary h0 item"
    using Cons.prems by (simp_all add: pk_package_get_id_def pk_package_get_info_def pk_package_get_summary_def)
  let ?h = "case pk_package_sack_find_by_id h sack (pk_package_get_id h0 item) of
      None \<Rightarrow> h | Some package \<Rightarrow> set_object package (put_resolved h0 item) h"
  have "r \<notin> set sack \<Longrightarrow> objects ?h r = objects h0 r" for r
    using Cons.prems(2) find_by_id_Some
    by (auto simp: set_object_def split: option.split)
  moreover have "put_resolved h item = put_resolved h0 item"
    by (simp add: fun_eq_iff put_resolved_def item)
  ultimately show ?case
    using Cons.IH [of ?h] Cons.prems(1) by (simp add: item(1) cong: option.case_cong)
qed simp

text \<open>C34: Merging: an answer without items of the kind that was asked for is an error and changes nothing.
  Otherwise each package that is the first of its identifier in the sack takes over the fields of
  the last item with that identifier, and no other package object changes - neither those outside
  the sack nor a second one with the same identifier. The packages of an answer to \<open>Resolve\<close> are new
  objects, that are not in the sack.\<close>

theorem sack_merge_spec:
  assumes "set (cr_package_array results) \<inter> set sack = {}"
  shows "(if cr_package_array results = []
      then pk_package_sack_resolve_cb sack (Inr results) h = (Inl (OTHER_ERROR 0 ''no packages found!''), h)
      else fst (pk_package_sack_resolve_cb sack (Inr results) h) = Inr True \<and>
        (\<forall>r. objects (snd (pk_package_sack_resolve_cb sack (Inr results) h)) r =
          merged (pk_package_get_id h) (put_resolved h) sack (cr_package_array results) h r)) \<and>
    (if cr_details_array results = []
      then pk_package_sack_get_details_cb sack (Inr results) h = (Inl (OTHER_ERROR 0 ''no details found!''), h)
      else fst (pk_package_sack_get_details_cb sack (Inr results) h) = Inr True \<and>
        (\<forall>r. objects (snd (pk_package_sack_get_details_cb sack (Inr results) h)) r =
          merged dt_package_id put_details sack (cr_details_array results) h r)) \<and>
    (if cr_update_detail_array results = []
      then pk_package_sack_get_update_detail_cb sack (Inr results) h =
        (Inl (OTHER_ERROR 0 ''no update details found!''), h)
      else fst (pk_package_sack_get_update_detail_cb sack (Inr results) h) = Inr True \<and>
        (\<forall>r. objects (snd (pk_package_sack_get_update_detail_cb sack (Inr results) h)) r =
          merged ud_package_id put_update_detail sack (cr_update_detail_array results) h r))"
  using assms
  by (simp add: pk_package_sack_resolve_cb_def pk_package_sack_get_details_cb_def
      pk_package_sack_get_update_detail_cb_def pk_package_sack_merge_bool_state_finish_def Let_def
      resolve_merge_loop_eq details_merge_loop_eq update_detail_merge_loop_eq
      resolved.merge_spec detailed.merge_spec update_detailed.merge_spec)

definition example_merge_results :: client_results where
  "example_merge_results =
     \<lparr>cr_exit_enum = PK_EXIT_ENUM_SUCCESS, cr_error_code = None, cr_package_array = [], cr_package_sack = [],
      cr_details_array = [\<lparr>dt_package_id = ''gtk;2;i386;fedora'', dt_license = Some ''LGPL'',
        dt_group = PK_GROUP_ENUM_UNKNOWN, dt_description = None, dt_url = None, dt_size = 42\<rparr>],
      cr_update_detail_array = [],
      cr_repo_signature_required_array = [], cr_eula_required_array = []\<rparr>"

text \<open>An ordinary answer to \<open>GetDetails\<close>, with nothing but details.\<close>

lemma sack_merge_spec_witness:
  "let h = snd (pk_package_sack_get_details_cb [0, 2] (Inr example_merge_results) example_heap)
   in po_size (objects h 0) = 42 \<and> objects h 2 = objects example_heap 2"
proof -
  have arrays: "set (cr_package_array example_merge_results) \<inter> set [0, 2] = {}"
    "cr_details_array example_merge_results \<noteq> []"
    by (simp_all add: example_merge_results_def)
  from sack_merge_spec [OF arrays(1), of example_heap] arrays(2)
  have "objects (snd (pk_package_sack_get_details_cb [0, 2] (Inr example_merge_results) example_heap)) r =
      merged dt_package_id put_details [0, 2] (cr_details_array example_merge_results) example_heap r" for r
    by simp
  moreover have "po_size (merged dt_package_id put_details [0, 2] (cr_details_array example_merge_results)
      example_heap 0) = 42"
    by code_simp
  moreover have "merged dt_package_id put_details [0, 2] (cr_details_array example_merge_results)
      example_heap 2 = objects example_heap 2"
    by code_simp
  ultimately show ?thesis by (simp add: Let_def)
qed

end
