(* ===== verification/PK_Task_Laws.thy ===== *)
theory PK_Task_Laws
  imports PK_Task PK_Sack_Laws
begin

text \<open>
  The life of the requests of a task. A request that is not finished has exactly one token: a
  call that the client has not answered, an idle source of a reply, or a question that the user
  has not answered. Whoever takes the token must finish the request or put a token back; so no
  request is lost, none is finished twice and no freed state is used.
\<close>

section \<open>Tokens\<close>

fun is_question :: "guint \<Rightarrow> task_event \<Rightarrow> bool" where
  "is_question r (TASK_QUESTION r' q results) = (r = r')"
| "is_question r _ = False"

fun is_reply :: "guint \<Rightarrow> task_event \<Rightarrow> bool" where
  "is_reply r (TASK_REPLY r' accepted) = (r = r')"
| "is_reply r _ = False"

fun is_done :: "guint \<Rightarrow> task_event \<Rightarrow> bool" where
  "is_done r (TASK_DONE r' outcome) = (r = r')"
| "is_done r _ = False"

definition questions :: "guint \<Rightarrow> PkTask \<Rightarrow> nat" where
  "questions r task = length (filter (is_question r) (tk_events task))"

definition replies :: "guint \<Rightarrow> PkTask \<Rightarrow> nat" where
  "replies r task = length (filter (is_reply r) (tk_events task))"

definition dones :: "guint \<Rightarrow> PkTask \<Rightarrow> nat" where
  "dones r task = length (filter (is_done r) (tk_events task))"

fun source_state :: "task_source \<Rightarrow> nat" where
  "source_state (SRC_user_accepted a) = a"
| "source_state (SRC_user_declined a) = a"

definition calls_of :: "nat \<Rightarrow> PkTask \<Rightarrow> nat" where
  "calls_of a task = length (filter (\<lambda>(b, cb). b = a) (tk_calls task))"

definition idles_of :: "nat \<Rightarrow> PkTask \<Rightarrow> nat" where
  "idles_of a task = length (filter (\<lambda>(i, src). source_state src = a) (sources (tk_loop task)))"

definition started :: "guint \<Rightarrow> PkTask \<Rightarrow> bool" where
  "started r task \<longleftrightarrow> 0 < r \<and> r \<le> tk_last_request task"

definition request_of :: "PkTask \<Rightarrow> nat \<Rightarrow> guint option" where
  "request_of task a = map_option st_request (tk_states task a)"

definition live :: "guint \<Rightarrow> PkTask \<Rightarrow> bool" where
  "live r task \<longleftrightarrow> (\<exists>a. request_of task a = Some r)"

text \<open>The user may reply to a question once.\<close>

definition asked :: "guint \<Rightarrow> PkTask \<Rightarrow> bool" where
  "asked r task \<longleftrightarrow> replies r task < questions r task"

text \<open>
  The invariant; \<open>held\<close> is the state whose token has been taken by the code that is running.
\<close>

definition store_ok :: "PkTask \<Rightarrow> bool" where
  "store_ok task \<longleftrightarrow>
     \<not> tk_undefined task \<and> distinct (tk_array task) \<and>
     set (tk_array task) = {a. request_of task a \<noteq> None} \<and>
     (\<forall>a \<in> set (tk_array task). a < tk_next_state task) \<and> loop_ok (tk_loop task)"

definition requests_ok :: "PkTask \<Rightarrow> bool" where
  "requests_ok task \<longleftrightarrow>
     (\<forall>a r. request_of task a = Some r \<longrightarrow> started r task) \<and>
     (\<forall>a b r. request_of task a = Some r \<and> request_of task b = Some r \<longrightarrow> a = b)"

definition actions_ok :: "PkTask \<Rightarrow> bool" where
  "actions_ok task \<longleftrightarrow> (\<forall>a st. tk_states task a = Some st \<longrightarrow> action_call st \<noteq> None)"

definition tokens_ok :: "nat option \<Rightarrow> PkTask \<Rightarrow> bool" where
  "tokens_ok held task \<longleftrightarrow>
     (\<forall>a r. request_of task a = Some r \<longrightarrow>
        replies r task \<le> questions r task \<and>
        calls_of a task + idles_of a task + questions r task =
          replies r task + (if held = Some a then 0 else 1)) \<and>
     (\<forall>a. request_of task a = None \<longrightarrow> calls_of a task = 0 \<and> idles_of a task = 0)"

definition dones_ok :: "PkTask \<Rightarrow> bool" where
  "dones_ok task \<longleftrightarrow>
     (\<forall>r. dones r task = (if started r task \<and> \<not> live r task then 1 else 0)) \<and>
     (\<forall>r. \<not> started r task \<longrightarrow> questions r task = 0) \<and>
     (\<forall>r. \<not> live r task \<longrightarrow> questions r task = replies r task)"

definition class_ok :: "PkTaskClass \<Rightarrow> PkTask \<Rightarrow> bool" where
  "class_ok klass task \<longleftrightarrow>
     (\<forall>(a, cb) \<in> set (tk_calls task). cb = CB_simulate_ready \<longrightarrow> simulate_question klass)"

definition task_ok :: "PkTaskClass \<Rightarrow> nat option \<Rightarrow> PkTask \<Rightarrow> bool" where
  "task_ok klass held task \<longleftrightarrow>
     store_ok task \<and> actions_ok task \<and> requests_ok task \<and> tokens_ok held task \<and> dones_ok task \<and> class_ok klass task"

lemmas task_ok_defs = task_ok_def store_ok_def requests_ok_def tokens_ok_def dones_ok_def class_ok_def
  started_def live_def
lemmas count_defs = questions_def replies_def dones_def calls_of_def idles_of_def

section \<open>Steps that keep the invariant\<close>

text \<open>Changing fields of a state that neither its number nor its action depend on.\<close>

definition mild :: "(PkTaskState \<Rightarrow> PkTaskState) \<Rightarrow> bool" where
  "mild f \<longleftrightarrow> (\<forall>st. st_request (f st) = st_request st \<and> st_role (f st) = st_role st)"

lemma action_call_role: "action_call st \<noteq> None \<Longrightarrow> st_role st' = st_role st \<Longrightarrow> action_call st' \<noteq> None"
  unfolding action_call_def by (simp split: if_splits)

lemma upd_state_fields [simp]:
  "tk_array (upd_state a f task) = tk_array task"
  "tk_interactive (upd_state a f task) = tk_interactive task"
  "tk_simulate (upd_state a f task) = tk_simulate task"
  "tk_calls (upd_state a f task) = tk_calls task"
  "tk_loop (upd_state a f task) = tk_loop task"
  "tk_events (upd_state a f task) = tk_events task"
  "tk_next_state (upd_state a f task) = tk_next_state task"
  "tk_last_request (upd_state a f task) = tk_last_request task"
  "tk_states (upd_state a f task) =
     (\<lambda>b. if b = a then map_option f (tk_states task a) else tk_states task b)"
  "tk_undefined (upd_state a f task) = (tk_undefined task \<or> tk_states task a = None)"
  by (auto simp: upd_state_def with_state_def split: option.split)

lemma request_of_upd [simp]: "mild f \<Longrightarrow> request_of (upd_state a f task) b = request_of task b"
  by (simp add: request_of_def mild_def option.map_comp comp_def)

lemma states_request: "tk_states task a = None \<longleftrightarrow> request_of task a = None"
  by (simp add: request_of_def)

text \<open>What the invariant reads of a task besides the actions of the states.\<close>

lemma task_ok_cong:
  assumes "task_ok klass held task"
    and "tk_undefined task' = tk_undefined task" and "tk_array task' = tk_array task"
    and "request_of task' = request_of task" and "tk_next_state task' = tk_next_state task"
    and "tk_calls task' = tk_calls task" and "tk_loop task' = tk_loop task"
    and "tk_events task' = tk_events task" and "tk_last_request task' = tk_last_request task"
    and "actions_ok task'"
  shows "task_ok klass held task'"
proof -
  have eqs: "questions r task' = questions r task" "replies r task' = replies r task"
    "dones r task' = dones r task" "calls_of a task' = calls_of a task" "idles_of a task' = idles_of a task"
    for r a
    by (simp_all add: count_defs assms)
  have "store_ok task' = store_ok task" "requests_ok task' = requests_ok task"
    "tokens_ok held task' = tokens_ok held task" "dones_ok task' = dones_ok task"
    "class_ok klass task' = class_ok klass task"
    by (simp_all add: store_ok_def requests_ok_def tokens_ok_def dones_ok_def class_ok_def started_def
        live_def eqs assms(2-9))
  with assms(1,10) show ?thesis by (simp add: task_ok_def)
qed

lemma upd_state_ok:
  assumes "mild f" and "task_ok klass held task" and "request_of task a \<noteq> None"
  shows "task_ok klass held (upd_state a f task)"
proof (rule task_ok_cong [OF assms(2)])
  show "tk_undefined (upd_state a f task) = tk_undefined task"
    using assms(3) by (auto simp: request_of_def)
  show "actions_ok (upd_state a f task)"
    unfolding actions_ok_def
  proof (intro allI impI)
    fix b st
    assume st: "tk_states (upd_state a f task) b = Some st"
    obtain st' where "tk_states task b = Some st'" "st_role st = st_role st'"
      using st assms(1) by (auto simp: mild_def split: if_splits)
    then show "action_call st \<noteq> None"
      using assms(2) action_call_role unfolding task_ok_def actions_ok_def by blast
  qed
qed (use assms(1) in \<open>simp_all add: fun_eq_iff\<close>)

lemma with_state_Some: "tk_states task a = Some st \<Longrightarrow> with_state a f task = f st task"
  by (simp add: with_state_def)

section \<open>How the primitives move tokens\<close>

lemma counts_emit [simp]:
  "questions r (task_emit e task) = questions r task + (if is_question r e then 1 else 0)"
  "replies r (task_emit e task) = replies r task + (if is_reply r e then 1 else 0)"
  "dones r (task_emit e task) = dones r task + (if is_done r e then 1 else 0)"
  "calls_of a (task_emit e task) = calls_of a task"
  "idles_of a (task_emit e task) = idles_of a task"
  "request_of (task_emit e task) = request_of task"
  "actions_ok (task_emit e task) = actions_ok task"
  by (simp_all add: task_emit_def count_defs request_of_def [abs_def] actions_ok_def)

lemma emit_fields [simp]:
  "tk_array (task_emit e task) = tk_array task"
  "tk_simulate (task_emit e task) = tk_simulate task"
  "tk_interactive (task_emit e task) = tk_interactive task"
  "tk_states (task_emit e task) = tk_states task"
  "tk_calls (task_emit e task) = tk_calls task"
  "tk_loop (task_emit e task) = tk_loop task"
  "tk_next_state (task_emit e task) = tk_next_state task"
  "tk_last_request (task_emit e task) = tk_last_request task"
  "tk_undefined (task_emit e task) = tk_undefined task"
  "tk_events (task_emit e task) = tk_events task @ [e]"
  by (simp_all add: task_emit_def)

lemma counts_calls [simp]:
  "questions r (task\<lparr>tk_calls := cs\<rparr>) = questions r task"
  "replies r (task\<lparr>tk_calls := cs\<rparr>) = replies r task"
  "dones r (task\<lparr>tk_calls := cs\<rparr>) = dones r task"
  "idles_of a (task\<lparr>tk_calls := cs\<rparr>) = idles_of a task"
  "request_of (task\<lparr>tk_calls := cs\<rparr>) = request_of task"
  "actions_ok (task\<lparr>tk_calls := cs\<rparr>) = actions_ok task"
  "calls_of a (task\<lparr>tk_calls := cs @ [(b, cb)]\<rparr>) = calls_of a (task\<lparr>tk_calls := cs\<rparr>) + (if b = a then 1 else 0)"
  "calls_of a (task\<lparr>tk_calls := tk_calls task\<rparr>) = calls_of a task"
  by (simp_all add: count_defs request_of_def [abs_def] actions_ok_def)

lemma counts_loop [simp]:
  "questions r (task\<lparr>tk_loop := m\<rparr>) = questions r task"
  "replies r (task\<lparr>tk_loop := m\<rparr>) = replies r task"
  "dones r (task\<lparr>tk_loop := m\<rparr>) = dones r task"
  "calls_of a (task\<lparr>tk_loop := m\<rparr>) = calls_of a task"
  "request_of (task\<lparr>tk_loop := m\<rparr>) = request_of task"
  "actions_ok (task\<lparr>tk_loop := m\<rparr>) = actions_ok task"
  "idles_of a (task\<lparr>tk_loop := snd (g_source_add src (tk_loop task))\<rparr>) =
     idles_of a task + (if source_state src = a then 1 else 0)"
  by (simp_all add: count_defs request_of_def [abs_def] actions_ok_def g_source_add_def)

text \<open>Giving the token back.\<close>

lemma submit_ok:
  assumes "task_ok klass (Some a) task" and "request_of task a \<noteq> None"
    and "cb = CB_simulate_ready \<Longrightarrow> simulate_question klass"
  shows "task_ok klass None (submit a cb call task)"
proof -
  obtain st where st: "tk_states task a = Some st" using assms(2) states_request [of task a] by auto
  have calls: "calls_of b (task_emit e task\<lparr>tk_calls := tk_calls task\<rparr>) = calls_of b task" for b e
    by (simp add: count_defs)
  show ?thesis
    using assms unfolding task_ok_defs submit_def with_state_Some [OF st]
    by (auto simp: calls)
qed

lemma add_idle_ok:
  assumes "task_ok klass (Some (source_state src)) task" and "request_of task (source_state src) \<noteq> None"
  shows "task_ok klass None (add_idle src task)"
  using assms loop_ok_add [of "tk_loop task" src] unfolding task_ok_defs add_idle_def
  by auto

lemma question_ok:
  assumes "task_ok klass (Some a) task" and "request_of task a = Some r"
  shows "task_ok klass None (task_emit (TASK_QUESTION r q results) task)"
proof -
  have "tokens_ok None (task_emit (TASK_QUESTION r q results) task)"
    using assms unfolding task_ok_def requests_ok_def tokens_ok_def
    by (auto intro: le_SucI)
  moreover have "dones_ok (task_emit (TASK_QUESTION r q results) task)"
    using assms unfolding task_ok_defs by auto
  ultimately show ?thesis
    using assms(1) by (simp add: task_ok_def store_ok_def requests_ok_def class_ok_def started_def)
qed

lemma request_of_None: "request_of task a = None \<longleftrightarrow> tk_states task a = None"
  by (simp add: request_of_def)

lemma request_of_Some: "request_of task a = Some r \<Longrightarrow> \<exists>st. tk_states task a = Some st \<and> st_request st = r"
  by (simp add: request_of_def)

lemma finish_fields:
  fixes error :: "client_error option"
  assumes "tk_states task a = Some st"
  defines "task' \<equiv> pk_task_generic_state_finish a error task"
  shows "request_of task' = (request_of task)(a := None)"
    and "tk_states task' = (tk_states task)(a := None)"
    and "tk_array task' = remove1 a (tk_array task)"
    and "questions r task' = questions r task" and "replies r task' = replies r task"
    and "dones r task' = dones r task + (if r = st_request st then 1 else 0)"
    and "calls_of b task' = calls_of b task" and "idles_of b task' = idles_of b task"
    and "tk_calls task' = tk_calls task" and "tk_loop task' = tk_loop task"
    and "tk_last_request task' = tk_last_request task" and "tk_next_state task' = tk_next_state task"
    and "tk_undefined task' = tk_undefined task"
    and "tk_events task' = tk_events task @
      [TASK_DONE (st_request st) (if st_ret st then Inr (st_results st) else Inl error)]"
  unfolding task'_def pk_task_generic_state_finish_def with_state_Some [OF assms(1)] Let_def
  by (auto simp: request_of_def count_defs)

lemma tokensD:
  assumes "task_ok klass held task" and "request_of task a = Some r"
  shows "replies r task \<le> questions r task"
    and "calls_of a task + idles_of a task + questions r task =
      replies r task + (if held = Some a then 0 else 1)"
  using assms unfolding task_ok_def tokens_ok_def by blast+

lemma finish_ok:
  assumes "task_ok klass (Some a) task" and "request_of task a = Some r"
  shows "task_ok klass None (pk_task_generic_state_finish a error task)"
proof -
  obtain st where st: "tk_states task a = Some st" "st_request st = r"
    using assms(2) request_of_Some by blast
  note f = finish_fields [OF st(1), where error = error]
  let ?t = "pk_task_generic_state_finish a error task"
  have uniq: "request_of task b = Some r \<Longrightarrow> b = a" for b
    using assms unfolding task_ok_def requests_ok_def by blast
  have live: "live q ?t \<longleftrightarrow> live q task \<and> q \<noteq> r" for q
  proof -
    have "live q ?t \<longleftrightarrow> (\<exists>b. b \<noteq> a \<and> request_of task b = Some q)"
      unfolding live_def f by (simp add: fun_upd_apply) blast
    also have "\<dots> \<longleftrightarrow> live q task \<and> q \<noteq> r"
      unfolding live_def using uniq assms(2) by (metis option.inject)
    finally show ?thesis .
  qed
  have "store_ok ?t"
  proof -
    have "set (tk_array task) - {a} = {b. request_of ?t b \<noteq> None}"
      using assms(1) by (auto simp: task_ok_def store_ok_def f)
    with assms(1) show ?thesis
      unfolding task_ok_def store_ok_def f by (simp add: set_remove1_eq distinct_remove1)
  qed
  moreover have "actions_ok ?t"
    using assms(1) by (auto simp: task_ok_def actions_ok_def f)
  moreover have "requests_ok ?t"
    using assms(1) unfolding task_ok_def requests_ok_def started_def f by (auto split: if_splits)
  moreover have "tokens_ok None ?t"
  proof -
    have "calls_of a task = 0" "idles_of a task = 0" using tokensD [OF assms] by simp_all
    then show ?thesis using assms unfolding task_ok_def tokens_ok_def f by auto
  qed
  moreover have "dones_ok ?t"
  proof -
    have r: "started r task" "live r task" "questions r task = replies r task"
      using assms tokensD [OF assms] unfolding task_ok_def requests_ok_def live_def by auto
    show ?thesis
      using assms(1) r unfolding task_ok_def dones_ok_def live started_def f st(2) by auto
  qed
  moreover have "class_ok klass ?t"
    using assms(1) by (simp add: task_ok_def class_ok_def f)
  ultimately show ?thesis by (simp add: task_ok_def)
qed

lemma find_request:
  "a \<in> set as \<Longrightarrow> (\<And>b. map_option st_request (states b) = Some r \<longleftrightarrow> b = a) \<Longrightarrow>
   find_request_loop states r as = Some a"
  by (induction as) auto

lemma find_by_request:
  assumes "task_ok klass held task" and "request_of task a = Some r"
  shows "pk_task_find_by_request task r = Some a"
proof -
  have "request_of task b = Some r \<longleftrightarrow> b = a" for b
    using assms unfolding task_ok_def requests_ok_def by blast
  moreover have "a \<in> set (tk_array task)" using assms by (simp add: task_ok_def store_ok_def)
  moreover have "r \<noteq> 0" using assms by (auto simp: task_ok_def requests_ok_def started_def)
  ultimately show ?thesis
    by (simp add: pk_task_find_by_request_def find_request request_of_def)
qed

lemma accepted_ok:
  assumes "task_ok klass (Some a) task" and "request_of task a = Some r"
  shows "task_ok klass None (snd (pk_task_user_accepted r task))"
  using assms add_idle_ok [of klass "SRC_user_accepted a"]
  by (simp add: pk_task_user_accepted_def find_by_request)

lemma declined_ok:
  assumes "task_ok klass (Some a) task" and "request_of task a = Some r"
  shows "task_ok klass None (snd (pk_task_user_declined r task))"
  using assms add_idle_ok [of klass "SRC_user_declined a"]
  by (simp add: pk_task_user_declined_def find_by_request)

section \<open>The code keeps the invariant\<close>

lemma mild_simps [simp]:
  "mild (\<lambda>st. st\<lparr>st_simulate := b\<rparr>)" "mild (\<lambda>st. st\<lparr>st_only_trusted := b\<rparr>)"
  "mild (\<lambda>st. st\<lparr>st_results := x\<rparr>)" "mild (\<lambda>st. st\<lparr>st_ret := b\<rparr>)"
  "mild (\<lambda>st. st\<lparr>st_results := x, st_exit_enum := e\<rparr>)"
  by (simp_all add: mild_def)

lemma actions_okD:
  "task_ok klass held task \<Longrightarrow> tk_states task a = Some st \<Longrightarrow> \<exists>call. action_call st = Some call"
  unfolding task_ok_def actions_ok_def by blast

lemma action_ok:
  assumes "task_ok klass (Some a) task" and "request_of task a = Some r"
  shows "task_ok klass None (pk_task_do_async_action a task)"
proof -
  let ?t = "upd_state a (\<lambda>st. st\<lparr>st_simulate := False\<rparr>) task"
  have ok: "task_ok klass (Some a) ?t" and r: "request_of ?t a = Some r"
    using assms by (simp_all add: upd_state_ok)
  obtain st where st: "tk_states ?t a = Some st" using request_of_Some [OF r] by blast
  obtain call where "action_call st = Some call" using actions_okD [OF ok st] by blast
  then have "pk_task_do_async_action a task = submit a CB_ready call ?t"
    by (simp only: pk_task_do_async_action_def Let_def with_state_Some [OF st] option.case)
  with submit_ok [OF ok, of CB_ready] r show ?thesis by simp
qed

lemma simulate_action_ok:
  assumes "task_ok klass (Some a) task" and "tk_states task a = Some st"
    and "simulate_call st \<noteq> None" and "simulate_question klass"
  shows "task_ok klass None (pk_task_do_async_simulate_action a task)"
proof -
  let ?t = "upd_state a (\<lambda>st. st\<lparr>st_simulate := True\<rparr>) task"
  have ok: "task_ok klass (Some a) ?t" and r: "request_of ?t a \<noteq> None"
    using assms by (simp_all add: upd_state_ok request_of_def)
  have st: "tk_states ?t a = Some (st\<lparr>st_simulate := True\<rparr>)" using assms(2) by simp
  have "simulate_call (st\<lparr>st_simulate := True\<rparr>) \<noteq> None"
    using assms(3) by (simp add: simulate_call_def split: if_splits)
  then obtain call where "simulate_call (st\<lparr>st_simulate := True\<rparr>) = Some call" by blast
  then have "pk_task_do_async_simulate_action a task = submit a CB_simulate_ready call ?t"
    by (simp only: pk_task_do_async_simulate_action_def Let_def with_state_Some [OF st] option.case)
  with submit_ok [OF ok r] assms(4) show ?thesis by simp
qed

lemma ask_ok:
  assumes "task_ok klass (Some a) task" and "request_of task a = Some r"
  shows "task_ok klass None (ask supported question what a results task)"
proof -
  obtain st where st: "tk_states task a = Some st" "st_request st = r"
    using assms(2) request_of_Some by blast
  show ?thesis
    using assms accepted_ok finish_ok question_ok
    by (simp add: ask_def with_state_Some [OF st(1)] st(2))
qed

lemma ready_ok:
  assumes "task_ok klass (Some a) task" and "request_of task a = Some r"
  shows "task_ok klass None (pk_task_ready_cb klass' a answer task)"
proof (cases answer)
  case (Inl error)
  then show ?thesis
    using assms finish_ok by (simp add: pk_task_ready_cb_def upd_state_ok)
next
  case (Inr results)
  let ?t = "upd_state a (\<lambda>st. st\<lparr>st_results := Some results, st_exit_enum := cr_exit_enum results\<rparr>)
    (upd_state a (\<lambda>st. st\<lparr>st_results := None\<rparr>) task)"
  have ok: "task_ok klass (Some a) ?t" "request_of ?t a = Some r"
    using assms by (simp_all add: upd_state_ok)
  have untrusted: "task_ok klass (Some a) (upd_state a (\<lambda>st. st\<lparr>st_only_trusted := False\<rparr>) ?t)"
    "request_of (upd_state a (\<lambda>st. st\<lparr>st_only_trusted := False\<rparr>) ?t) a = Some r"
    and ret: "task_ok klass (Some a) (upd_state a (\<lambda>st. st\<lparr>st_ret := True\<rparr>) ?t)"
    "request_of (upd_state a (\<lambda>st. st\<lparr>st_ret := True\<rparr>) ?t) a = Some r"
    using ok by (simp_all add: upd_state_ok)
  show ?thesis
    by (simp only: pk_task_ready_cb_def Let_def Inr sum.case ask_ok [OF ok] ask_ok [OF untrusted]
        action_ok [OF ok] finish_ok [OF ret] simp_thms split: if_split)
qed

lemma detour_ok:
  assumes "task_ok klass (Some a) task" and "request_of task a = Some r"
  shows "task_ok klass None (detour_ready what a answer task)"
proof (cases answer)
  case (Inl error)
  then show ?thesis
    using assms finish_ok by (simp add: detour_ready_def upd_state_ok)
next
  case (Inr results)
  let ?t = "upd_state a (\<lambda>st. st\<lparr>st_results := Some results, st_exit_enum := cr_exit_enum results\<rparr>)
    (upd_state a (\<lambda>st. st\<lparr>st_results := None\<rparr>) task)"
  have ok: "task_ok klass (Some a) ?t" "request_of ?t a = Some r"
    using assms by (simp_all add: upd_state_ok)
  show ?thesis
    by (simp only: detour_ready_def Let_def Inr sum.case action_ok [OF ok] finish_ok [OF ok] simp_thms
        split: if_split)
qed

lemma simulate_success_ok:
  assumes "task_ok klass (Some a) task" and "request_of task a = Some r" and "simulate_question klass"
  shows "task_ok klass None (simulate_success klass h a results task)"
proof -
  define t where "t = (if 0 < pk_package_sack_get_size
      (pk_package_sack_filter_by_info h (cr_package_sack results) PK_INFO_ENUM_UNTRUSTED)
    then upd_state a (\<lambda>st. st\<lparr>st_only_trusted := False\<rparr>) task else task)"
  have t: "task_ok klass (Some a) t" "request_of t a = Some r"
    using assms by (simp_all add: t_def upd_state_ok)
  obtain st where st: "tk_states t a = Some st" "st_request st = r" using request_of_Some [OF t(2)] by blast
  have upd: "task_ok klass (Some a) (upd_state a (\<lambda>st. st\<lparr>st_results := x\<rparr>) u)"
    if "task_ok klass (Some a) u" "request_of u a = Some r" for u x
    using that by (simp add: upd_state_ok)
  show ?thesis
    unfolding simulate_success_def t_def [symmetric] Let_def with_state_Some [OF st(1)]
    using t assms(3) st(2) by (simp add: action_ok upd question_ok [where a = a])
qed

lemma simulate_ready_ok:
  assumes "task_ok klass (Some a) task" and "request_of task a = Some r" and "simulate_question klass"
  shows "task_ok klass None (pk_task_simulate_ready_cb klass h a answer task)"
proof (cases answer)
  case (Inl error)
  then show ?thesis
    using assms finish_ok action_ok by (simp add: pk_task_simulate_ready_cb_def upd_state_ok Let_def)
next
  case (Inr results)
  let ?t = "upd_state a (\<lambda>st. st\<lparr>st_results := Some results, st_exit_enum := cr_exit_enum results\<rparr>)
    (upd_state a (\<lambda>st. st\<lparr>st_results := None\<rparr>) task)"
  have ok: "task_ok klass (Some a) ?t" "request_of ?t a = Some r"
    and ret: "task_ok klass (Some a) (upd_state a (\<lambda>st. st\<lparr>st_ret := True\<rparr>) ?t)"
    "request_of (upd_state a (\<lambda>st. st\<lparr>st_ret := True\<rparr>) ?t) a = Some r"
    using assms by (simp_all add: upd_state_ok)
  show ?thesis
    by (simp only: pk_task_simulate_ready_cb_def Let_def Inr sum.case simulate_success_ok [OF ok assms(3)]
        finish_ok [OF ret] simp_thms split: if_split)
qed

lemma signatures_ok:
  assumes "task_ok klass (Some a) task" and "request_of task a = Some r"
  shows "task_ok klass None (pk_task_install_signatures a task)"
    and "task_ok klass None (pk_task_accept_eulas a task)"
proof -
  obtain st where st: "tk_states task a = Some st" using assms(2) request_of_Some by blast
  show "task_ok klass None (pk_task_install_signatures a task)"
    "task_ok klass None (pk_task_accept_eulas a task)"
    using finish_ok [OF assms] submit_ok [OF assms(1)] assms(2)
    by (auto simp: pk_task_install_signatures_def pk_task_accept_eulas_def with_state_Some [OF st]
        split: list.split)
qed

lemma dispatch_ok:
  assumes "task_ok klass (Some (source_state src)) task" and "request_of task (source_state src) = Some r"
  shows "task_ok klass None (task_dispatch src task)"
proof (cases src)
  case (SRC_user_accepted a)
  obtain st where st: "tk_states task a = Some st" using request_of_Some [OF assms(2)] SRC_user_accepted by auto
  have ok: "task_ok klass (Some a) task" "request_of task a = Some r"
    using assms SRC_user_accepted by simp_all
  show ?thesis
    unfolding SRC_user_accepted task_dispatch.simps pk_task_user_accepted_idle_cb_def with_state_Some [OF st]
    by (simp only: signatures_ok [OF ok] action_ok [OF ok] simp_thms split: if_split)
next
  case (SRC_user_declined a)
  obtain st where st: "tk_states task a = Some st" using request_of_Some [OF assms(2)] SRC_user_declined by auto
  have ok: "task_ok klass (Some a) task" "request_of task a = Some r"
    using assms SRC_user_declined by simp_all
  show ?thesis
    unfolding SRC_user_declined task_dispatch.simps pk_task_user_declined_idle_cb_def with_state_Some [OF st]
    by (simp only: finish_ok [OF ok] simp_thms split: if_split)
qed

section \<open>Taking a token\<close>

lemma filter_take_drop:
  assumes "i < length xs"
  shows "length (filter P xs) = length (filter P (take i xs @ drop (Suc i) xs)) + (if P (xs ! i) then 1 else 0)"
proof -
  have "filter P xs = filter P (take i xs @ xs ! i # drop (Suc i) xs)"
    using id_take_nth_drop [OF assms] by simp
  then show ?thesis by simp
qed

lemma take_token:
  assumes "task_ok klass None task" and "request_of t = request_of task"
    and "\<And>q. questions q t = questions q task" and "\<And>q. replies q t = replies q task"
    and "\<And>b. calls_of b task + idles_of b task = calls_of b t + idles_of b t + (if b = a then 1 else 0)"
  shows "tokens_ok (Some a) t" and "\<exists>r. request_of task a = Some r"
proof -
  have none: "request_of task b = None \<Longrightarrow> calls_of b t = 0 \<and> idles_of b t = 0 \<and> b \<noteq> a" for b
    using assms(1) assms(5) [of b] unfolding task_ok_def tokens_ok_def by (auto split: if_splits)
  then show "\<exists>r. request_of task a = Some r" by fastforce
  show "tokens_ok (Some a) t"
    unfolding tokens_ok_def assms(2-4)
  proof (intro conjI allI impI)
    fix b r
    assume "request_of task b = Some r"
    from tokensD [OF assms(1) this] assms(5) [of b]
    show "replies r task \<le> questions r task"
      "calls_of b t + idles_of b t + questions r task = replies r task + (if Some a = Some b then 0 else 1)"
      by (auto split: if_splits)
  qed (use none in auto)
qed

lemma take_call:
  assumes "task_ok klass None task" and "i < length (tk_calls task)" and ac: "tk_calls task ! i = (a, cb)"
  shows "tk_states task a = Some st \<Longrightarrow> task_ok klass (Some a)
      (task_emit (TASK_ANSWER (st_request st) h answer)
        (task\<lparr>tk_calls := take i (tk_calls task) @ drop (Suc i) (tk_calls task)\<rparr>))"
    and "\<exists>st. tk_states task a = Some st"
proof -
  define t where "t = task\<lparr>tk_calls := take i (tk_calls task) @ drop (Suc i) (tk_calls task)\<rparr>"
  have calls: "calls_of b task = calls_of b t + (if b = a then 1 else 0)" for b
    using filter_take_drop [OF assms(2), of "\<lambda>(b', cb). b' = b"] ac
    by (auto simp: calls_of_def t_def)
  have "calls_of b task + idles_of b task = calls_of b t + idles_of b t + (if b = a then 1 else 0)" for b
    by (simp add: calls) (simp add: t_def)
  note taken = take_token [OF assms(1) _ _ _ this]
  obtain r where r: "request_of task a = Some r" using taken(2) by (auto simp: t_def)
  then obtain st where st: "tk_states t a = Some st" "st_request st = r"
    using request_of_Some by (fastforce simp: t_def)
  have t_simps: "request_of t = request_of task" "questions q t = questions q task"
    "replies q t = replies q task" "dones q t = dones q task" "idles_of b t = idles_of b task"
    "actions_ok t = actions_ok task" for q b
    by (simp_all add: t_def)
  have "tokens_ok (Some a) t" using taken(1) by (simp add: t_simps)
  moreover have "class_ok klass t"
    using assms(1) unfolding task_ok_def class_ok_def t_def
    by (auto dest: in_set_takeD in_set_dropD)
  ultimately have ok: "task_ok klass (Some a) t"
    using assms(1) unfolding task_ok_def store_ok_def requests_ok_def dones_ok_def started_def live_def t_simps
    by (simp add: t_def)
  show "\<exists>st. tk_states task a = Some st" using st(1) by (simp add: t_def)
  show "task_ok klass (Some a) (task_emit (TASK_ANSWER (st_request st) h answer)
      (task\<lparr>tk_calls := take i (tk_calls task) @ drop (Suc i) (tk_calls task)\<rparr>))" for st
    unfolding t_def [symmetric]
    using ok unfolding task_ok_defs by (simp_all add: t_simps)
qed

lemma task_answer_eq:
  assumes "tk_calls task ! i = (a, cb)" and "tk_states task a = Some st"
  shows "task_answer klass h i answer task =
    (let u = task_emit (TASK_ANSWER (st_request st) h answer)
           (task\<lparr>tk_calls := take i (tk_calls task) @ drop (Suc i) (tk_calls task)\<rparr>)
     in case cb of
          CB_ready \<Rightarrow> pk_task_ready_cb klass a answer u
        | CB_simulate_ready \<Rightarrow> pk_task_simulate_ready_cb klass h a answer u
        | CB_install_signatures_ready \<Rightarrow> pk_task_install_signatures_ready_cb a answer u
        | CB_accept_eulas_ready \<Rightarrow> pk_task_accept_eulas_ready_cb a answer u)"
  using assms(2) by (simp add: task_answer_def assms(1) with_state_def Let_def)

lemma task_answer_ok:
  assumes "task_ok klass None task" and "i < length (tk_calls task)"
  shows "task_ok klass None (task_answer klass h i answer task)"
proof -
  obtain a cb where ac: "tk_calls task ! i = (a, cb)" by fastforce
  note taken = take_call [OF assms ac]
  obtain st where st: "tk_states task a = Some st" using taken(2) by blast
  define t where "t = task\<lparr>tk_calls := take i (tk_calls task) @ drop (Suc i) (tk_calls task)\<rparr>"
  let ?u = "task_emit (TASK_ANSWER (st_request st) h answer) t"
  have u: "task_ok klass (Some a) ?u" "request_of ?u a = Some (st_request st)"
    using taken(1) [OF st] st by (simp_all add: t_def) (simp add: request_of_def)
  have cb: "cb = CB_simulate_ready \<Longrightarrow> simulate_question klass"
    using assms ac nth_mem [OF assms(2)] unfolding task_ok_def class_ok_def by auto
  show ?thesis
    unfolding task_answer_eq [OF ac st] t_def [symmetric] Let_def
    using ready_ok [OF u] simulate_ready_ok [OF u] cb detour_ok [OF u]
    by (simp add: pk_task_install_signatures_ready_cb_def pk_task_accept_eulas_ready_cb_def
        split: task_callback.split)
qed

lemma take_idle:
  assumes "task_ok klass None task" and "pending (tk_loop task) i src"
  shows "task_ok klass (Some (source_state src)) (task\<lparr>tk_loop := g_source_remove i (tk_loop task)\<rparr>)"
    and "\<exists>st. tk_states task (source_state src) = Some st"
proof -
  define t where "t = task\<lparr>tk_loop := g_source_remove i (tk_loop task)\<rparr>"
  let ?a = "source_state src"
  have loop: "loop_ok (tk_loop task)" using assms(1) by (simp add: task_ok_def store_ok_def)
  have idles: "idles_of b task = idles_of b t + (if b = ?a then 1 else 0)" for b
  proof -
    have "length (filter (\<lambda>(j, f). source_state f = b) xs) =
        length (filter (\<lambda>(j, f). source_state f = b) (filter (\<lambda>(j, f). j \<noteq> i) xs)) +
        (if b = ?a then 1 else 0)"
      if "distinct (map fst xs)" "(i, src) \<in> set xs" for xs :: "(nat \<times> task_source) list"
      using that
    proof (induction xs)
      case (Cons x xs)
      obtain j f where x: "x = (j, f)" by fastforce
      show ?case
      proof (cases "j = i")
        case True
        then have "i \<notin> fst ` set xs" "f = src"
          using Cons.prems x by (auto simp: rev_image_eqI)
        moreover have "filter (\<lambda>(j, f). j \<noteq> i) xs = xs"
          using \<open>i \<notin> fst ` set xs\<close> by (intro filter_True) force
        ultimately show ?thesis using True x by simp
      next
        case False
        then show ?thesis using Cons x by auto
      qed
    qed simp
    with assms(2) loop show ?thesis
      by (simp add: idles_of_def t_def g_source_remove_def pending_def loop_ok_def)
  qed
  have t_simps: "request_of t = request_of task" "questions q t = questions q task"
    "replies q t = replies q task" "dones q t = dones q task" "calls_of b t = calls_of b task"
    "actions_ok t = actions_ok task" for q b
    by (simp_all add: t_def)
  have "calls_of b task + idles_of b task = calls_of b t + idles_of b t + (if b = ?a then 1 else 0)" for b
    by (simp add: idles) (simp add: t_def)
  note taken = take_token [OF assms(1) t_simps(1-3) this]
  obtain r where r: "request_of task ?a = Some r" using taken(2) by blast
  then show "\<exists>st. tk_states task ?a = Some st" using request_of_Some by blast
  show "task_ok klass (Some ?a) (task\<lparr>tk_loop := g_source_remove i (tk_loop task)\<rparr>)"
    unfolding t_def [symmetric]
    using assms(1) taken(1) loop_ok_remove [OF loop]
    unfolding task_ok_def store_ok_def requests_ok_def dones_ok_def started_def live_def class_ok_def t_simps
    by (simp add: t_def)
qed

lemma task_idle_ok:
  assumes "task_ok klass None task" and "pending (tk_loop task) i src"
  shows "task_ok klass None (task_idle i src task)"
proof -
  obtain st where "tk_states task (source_state src) = Some st" using take_idle(2) [OF assms] by blast
  then show ?thesis
    unfolding task_idle_def
    by (intro dispatch_ok [OF take_idle(1) [OF assms], where r = "st_request st"]) (simp add: request_of_def)
qed

lemma task_reply_ok:
  assumes "task_ok klass None task" and "asked r task"
  shows "task_ok klass None (task_reply r accepted task)"
proof -
  obtain a where a: "request_of task a = Some r"
    using assms unfolding task_ok_def dones_ok_def asked_def live_def by fastforce
  have uniq: "request_of task b = Some r \<Longrightarrow> b = a" for b
    using assms(1) a unfolding task_ok_def requests_ok_def by blast
  let ?t = "task_emit (TASK_REPLY r accepted) task"
  have "tokens_ok (Some a) ?t"
    unfolding tokens_ok_def counts_emit
  proof (intro conjI allI impI)
    fix b q
    assume b: "request_of task b = Some q"
    have eq: "q = r \<longleftrightarrow> b = a" using uniq [of b] b a by auto
    have flags: "is_reply q (TASK_REPLY r accepted) = (b = a)" "is_question q (TASK_REPLY r accepted) = False"
      using eq by simp_all
    have less: "b = a \<Longrightarrow> replies q task < questions q task"
      using eq assms(2) by (simp add: asked_def)
    note t = tokensD [OF assms(1) b]
    show "replies q task + (if is_reply q (TASK_REPLY r accepted) then 1 else 0)
        \<le> questions q task + (if is_question q (TASK_REPLY r accepted) then 1 else 0)"
      unfolding flags using t(1) less by (cases "b = a") simp_all
    show "calls_of b task + idles_of b task + (questions q task + (if is_question q (TASK_REPLY r accepted) then 1 else 0)) =
        replies q task + (if is_reply q (TASK_REPLY r accepted) then 1 else 0) + (if Some a = Some b then 0 else 1)"
      unfolding flags using t(2) by (cases "b = a") simp_all
  qed (use assms(1) in \<open>auto simp: task_ok_def tokens_ok_def\<close>)
  moreover have "dones_ok ?t"
  proof -
    have "live q ?t = live q task" "started q ?t = started q task" for q
      by (simp_all add: live_def started_def)
    moreover have "live r task" using a by (auto simp: live_def)
    ultimately show ?thesis using assms(1) unfolding task_ok_def dones_ok_def counts_emit by auto
  qed
  ultimately have "task_ok klass (Some a) ?t"
    using assms(1) unfolding task_ok_def store_ok_def requests_ok_def class_ok_def started_def by simp
  with accepted_ok [of klass a ?t r] declined_ok [of klass a ?t r] a show ?thesis
    by (cases accepted) (simp_all add: task_reply_def Let_def)
qed

section \<open>New requests\<close>

lemma add_state_fields:
  fixes st :: PkTaskState
  assumes "task_ok klass None task" and "tk_last_request task \<noteq> - 1"
  defines "a \<equiv> fst (add_state st task)" and "t \<equiv> snd (add_state st task)"
  defines "r \<equiv> tk_last_request task + 1"
  shows "a = tk_next_state task" and "request_of task a = None" and "request_of t = (request_of task)(a := Some r)"
    and "tk_states t = (tk_states task)(a := Some (st\<lparr>st_request := r\<rparr>))"
    and "started q t \<longleftrightarrow> started q task \<or> q = r" and "\<not> started r task"
    and "live q t \<longleftrightarrow> live q task \<or> q = r" and "\<not> live r task"
    and "questions q t = questions q task" and "replies q t = replies q task" and "dones q t = dones q task"
    and "calls_of b t = calls_of b task" and "idles_of b t = idles_of b task"
    and "tk_array t = tk_array task @ [a]" and "tk_next_state t = Suc a" and "tk_loop t = tk_loop task"
    and "tk_calls t = tk_calls task" and "tk_undefined t = tk_undefined task"
    and "tk_events t = tk_events task" and "tk_simulate t = tk_simulate task"
    and "tk_interactive t = tk_interactive task"
proof -
  have "a \<notin> set (tk_array task)"
    using assms(1) by (auto simp: task_ok_def store_ok_def a_def add_state_def pk_task_generate_request_id_def Let_def)
  then show none: "request_of task a = None"
    using assms(1) by (simp add: task_ok_def store_ok_def)
  show "request_of t = (request_of task)(a := Some r)"
    by (auto simp: fun_eq_iff request_of_def t_def a_def r_def add_state_def pk_task_generate_request_id_def Let_def)
  then have live: "live q t \<longleftrightarrow> live q task \<or> q = r" for q
    using none unfolding live_def by (metis fun_upd_other fun_upd_same option.inject option.distinct(1))
  then show "live q t \<longleftrightarrow> live q task \<or> q = r" .
  let ?l = "tk_last_request task"
  have less: "?l < ?l + 1" and le: "p \<le> ?l + 1 \<longleftrightarrow> p \<le> ?l \<or> p = ?l + 1" for p
    using assms(2) inc_less_eq_self_iff_eq leI apply blast
    using assms(2) by (metis inc_less_eq_iff nle_le word_le_less_eq)
  have last: "tk_last_request t = ?l + 1"
    by (simp add: t_def add_state_def pk_task_generate_request_id_def Let_def)
  show "started q t \<longleftrightarrow> started q task \<or> q = r"
    using less le unfolding started_def last r_def by (metis order_le_less_trans word_zero_le)
  show "\<not> started r task"
    using less unfolding started_def r_def by (meson leD)
  then show "\<not> live r task"
    using assms(1) by (auto simp: task_ok_def requests_ok_def live_def)
qed (simp_all add: a_def t_def r_def add_state_def pk_task_generate_request_id_def Let_def count_defs)

lemma add_state_ok:
  assumes "task_ok klass None task" and "tk_last_request task \<noteq> - 1" and "action_call st \<noteq> None"
  shows "task_ok klass (Some (fst (add_state st task))) (snd (add_state st task))"
proof -
  note f = add_state_fields [OF assms(1,2)]
  let ?a = "fst (add_state st task)" and ?t = "snd (add_state st task)"
  have bound: "b \<in> set (tk_array task) \<Longrightarrow> b < ?a" for b
    using assms(1) f(1) by (simp add: task_ok_def store_ok_def)
  have "store_ok ?t"
    using assms(1) bound f(2) unfolding task_ok_def store_ok_def f(3,14-18)
    by (auto simp: less_Suc_eq)
  moreover have "actions_ok ?t"
  proof -
    have "action_call (st\<lparr>st_request := r\<rparr>) \<noteq> None" for r
      using assms(3) by (rule action_call_role) simp
    then show ?thesis
      using assms(1) by (auto simp: task_ok_def actions_ok_def f(4))
  qed
  moreover have "requests_ok ?t"
    using assms(1) f(6,8) unfolding task_ok_def requests_ok_def f(3,5) live_def
    by (auto split: if_splits)
  moreover have "tokens_ok (Some ?a) ?t"
  proof -
    have "questions (tk_last_request task + 1) task = 0" "replies (tk_last_request task + 1) task = 0"
      using assms(1) f(6,8) unfolding task_ok_def dones_ok_def by auto
    then show ?thesis
      using assms(1) f(2) unfolding task_ok_def tokens_ok_def f(3,9-13)
      by (auto split: if_splits)
  qed
  moreover have "dones_ok ?t"
    using assms(1) f(6,8) unfolding task_ok_def dones_ok_def f(5,7,9-11) by auto
  moreover have "class_ok klass ?t"
    using assms(1) by (simp add: task_ok_def class_ok_def f(17))
  ultimately show ?thesis by (simp add: task_ok_def)
qed

lemma start_action_ok:
  assumes "task_ok klass None task" and "tk_last_request task \<noteq> - 1" and "action_call st \<noteq> None"
  shows "task_ok klass None (start_action st task)"
  using action_ok [OF add_state_ok [OF assms]] add_state_fields(3) [OF assms(1,2)]
  by (simp add: start_action_def split_beta)

lemma start_simulated_ok:
  assumes "task_ok klass None task" and "tk_last_request task \<noteq> - 1" and "action_call st \<noteq> None"
    and "simulate_call st \<noteq> None"
  shows "task_ok klass None (start_simulated klass st task)"
proof -
  let ?r = "tk_last_request task + 1"
  have "simulate_call (st\<lparr>st_request := ?r\<rparr>) \<noteq> None"
    using assms(4) by (simp add: simulate_call_def split: if_splits)
  then show ?thesis
    using action_ok [OF add_state_ok [OF assms(1-3)]] add_state_fields(3,4) [OF assms(1,2)]
      simulate_action_ok [OF add_state_ok [OF assms(1-3)], of "st\<lparr>st_request := ?r\<rparr>"]
    by (simp add: start_simulated_def split_beta)
qed

lemmas starter_defs =
  pk_task_install_packages_async_def pk_task_update_packages_async_def pk_task_remove_packages_async_def
  pk_task_install_files_async_def pk_task_update_system_async_def pk_task_resolve_async_def
  pk_task_search_names_async_def pk_task_search_details_async_def pk_task_search_groups_async_def
  pk_task_search_files_async_def pk_task_get_details_async_def pk_task_get_update_detail_async_def
  pk_task_download_packages_async_def pk_task_get_updates_async_def pk_task_get_depends_async_def
  pk_task_get_packages_async_def pk_task_get_requires_async_def pk_task_what_provides_async_def
  pk_task_get_files_async_def pk_task_get_categories_async_def pk_task_refresh_cache_async_def
  pk_task_rollback_async_def pk_task_get_repo_list_async_def pk_task_repo_enable_async_def
  pk_task_repair_system_async_def

lemma start_ok:
  assumes "task_ok klass None task" and "tk_last_request task \<noteq> - 1"
  shows "task_ok klass None (task_start klass m task)"
  by (cases m)
    (simp_all add: starter_defs start_action_ok [OF assms] start_simulated_ok [OF assms]
      action_call_def simulate_call_def task_state_new_def)

section \<open>Histories\<close>

inductive task_step :: "PkTaskClass \<Rightarrow> PkTask \<Rightarrow> PkTask \<Rightarrow> bool" for klass where
  start: "tk_last_request task \<noteq> - 1 \<Longrightarrow> task_step klass task (task_start klass m task)"
| answer: "i < length (tk_calls task) \<Longrightarrow> task_step klass task (task_answer klass h i answer task)"
| reply: "asked r task \<Longrightarrow> task_step klass task (task_reply r accepted task)"
| idle: "pending (tk_loop task) i src \<Longrightarrow> task_step klass task (task_idle i src task)"
| set_simulate: "task_step klass task (pk_task_set_simulate b task)"
| set_interactive: "task_step klass task (pk_task_set_interactive b task)"

inductive task_history :: "PkTaskClass \<Rightarrow> PkTask \<Rightarrow> bool" for klass where
  init: "task_history klass pk_task_init"
| step: "task_history klass task \<Longrightarrow> task_step klass task task' \<Longrightarrow> task_history klass task'"

lemma task_ok_init: "task_ok klass None pk_task_init"
  by (simp add: task_ok_defs count_defs actions_ok_def pk_task_init_def request_of_def loop_ok_new main_loop_new_def)
    (auto simp: loop_ok_def)

lemma flags_ok:
  assumes "task_ok klass held task"
  shows "task_ok klass held (task\<lparr>tk_simulate := b\<rparr>)" and "task_ok klass held (task\<lparr>tk_interactive := b\<rparr>)"
  by (rule task_ok_cong [OF assms]; use assms in \<open>simp add: request_of_def [abs_def] task_ok_def actions_ok_def\<close>)+

lemma task_step_ok: "task_step klass task task' \<Longrightarrow> task_ok klass None task \<Longrightarrow> task_ok klass None task'"
  by (induction rule: task_step.induct)
    (simp_all add: start_ok task_answer_ok task_reply_ok task_idle_ok pk_task_set_simulate_def
      pk_task_set_interactive_def flags_ok)

lemma task_history_ok: "task_history klass task \<Longrightarrow> task_ok klass None task"
  by (induction rule: task_history.induct) (simp_all add: task_ok_init task_step_ok)

end
