(* ===== verification/PK_Task_Properties.thy ===== *)
theory PK_Task_Properties
  imports PK_Task_Laws
begin

text \<open>
  What the task promises: a request is run until it is finished, and finished once; packages that
  are not trusted are only installed when the daemon has said that there are some; each method
  asks for what it stands for; and a request ends unless the daemon keeps asking for more.
\<close>

section \<open>Requests are finished once and never lost\<close>

text \<open>C18: In every history - whatever the daemon answers, in whatever order, as long as the user replies
  to the questions that were asked - no freed state is used, no missing function called and no
  assertion fails; each request that was made is either finished, once, or still has exactly one
  call, reply or question that will carry it on.\<close>

theorem requests_settle_once:
  assumes "task_history klass task"
  shows "\<not> tk_undefined task \<and>
    (\<forall>r. started r task \<longrightarrow>
      dones r task = 1 \<and> \<not> live r task \<or>
      dones r task = 0 \<and>
        (\<exists>a. request_of task a = Some r \<and> replies r task \<le> questions r task \<and>
          calls_of a task + idles_of a task + questions r task = replies r task + 1))"
proof -
  have ok: "task_ok klass None task" by (rule task_history_ok [OF assms])
  then have undefined: "\<not> tk_undefined task" by (simp add: task_ok_def store_ok_def)
  have "dones r task = 1 \<and> \<not> live r task \<or> dones r task = 0 \<and>
      (\<exists>a. request_of task a = Some r \<and> replies r task \<le> questions r task \<and>
        calls_of a task + idles_of a task + questions r task = replies r task + 1)"
    if "started r task" for r
  proof (cases "live r task")
    case True
    then obtain a where a: "request_of task a = Some r" by (auto simp: live_def)
    with tokensD [OF ok a] ok True show ?thesis by (auto simp: task_ok_def dones_ok_def)
  next
    case False
    with ok that show ?thesis by (simp add: task_ok_def dones_ok_def)
  qed
  with undefined show ?thesis by blast
qed

definition example_class :: PkTaskClass where
  "example_class =
     \<lparr>untrusted_question = True, key_question = True, eula_question = True, media_change_question = True,
      simulate_question = True\<rparr>"

definition example_result :: "PkExitEnum \<Rightarrow> nat list \<Rightarrow> client_results" where
  "example_result exit_enum sack =
     \<lparr>cr_exit_enum = exit_enum, cr_error_code = None, cr_package_array = sack, cr_package_sack = sack,
      cr_details_array = [], cr_update_detail_array = [], cr_repo_signature_required_array = [],
      cr_eula_required_array = []\<rparr>"

text \<open>An update is simulated, the user accepts, the daemon asks for a key that it does not name.\<close>

definition example_asked :: PkTask where
  "example_asked =
     task_answer example_class example_heap 0 (Inr (example_result PK_EXIT_ENUM_SUCCESS [0, 1]))
       (task_start example_class (TASK_update_packages [''gtk;2;i386;fedora'']) pk_task_init)"

definition example_key :: PkTask where
  "example_key =
     task_answer example_class example_heap 0 (Inr (example_result PK_EXIT_ENUM_KEY_REQUIRED []))
       (task_idle 1 (SRC_user_accepted 0) (task_reply 1 True example_asked))"

definition example_failed :: PkTask where
  "example_failed = task_idle 2 (SRC_user_accepted 0) (task_reply 1 True example_key)"

lemmas history_start = task_history.step [OF _ task_step.start]
lemmas history_answer = task_history.step [OF _ task_step.answer]
lemmas history_reply = task_history.step [OF _ task_step.reply]
lemmas history_idle = task_history.step [OF _ task_step.idle]

lemma asked_history: "task_history example_class example_asked"
proof -
  let ?a = "task_start example_class (TASK_update_packages [''gtk;2;i386;fedora'']) pk_task_init"
  have "task_history example_class ?a" by (rule history_start [OF task_history.init]) code_simp
  then show ?thesis unfolding example_asked_def by (rule history_answer) code_simp
qed

lemma key_history: "task_history example_class example_key"
proof -
  have "task_history example_class (task_reply 1 True example_asked)"
    by (rule history_reply [OF asked_history]) code_simp
  then have "task_history example_class (task_idle 1 (SRC_user_accepted 0) (task_reply 1 True example_asked))"
    by (rule history_idle) code_simp
  then show ?thesis unfolding example_key_def by (rule history_answer) code_simp
qed

lemma failed_history: "task_history example_class example_failed"
proof -
  have "task_history example_class (task_reply 1 True example_key)"
    by (rule history_reply [OF key_history]) code_simp
  then show ?thesis unfolding example_failed_def by (rule history_idle) code_simp
qed

lemma requests_settle_once_witness: "dones 1 example_failed = 1 \<and> \<not> tk_undefined example_failed"
proof -
  have "started 1 example_failed" "request_of example_failed 0 \<noteq> Some 1" "tk_next_state example_failed = 1"
    by code_simp+
  moreover have "a < tk_next_state example_failed" if "request_of example_failed a \<noteq> None" for a
    using task_history_ok [OF failed_history] that by (auto simp: task_ok_def store_ok_def)
  ultimately show ?thesis
    using requests_settle_once [OF failed_history] by fastforce
qed

section \<open>Trust\<close>

fun untrusted_call :: "client_call \<Rightarrow> bool" where
  "untrusted_call (CLIENT_install_packages only_trusted _) = (\<not> only_trusted)"
| "untrusted_call (CLIENT_update_packages only_trusted _) = (\<not> only_trusted)"
| "untrusted_call (CLIENT_update_system only_trusted) = (\<not> only_trusted)"
| "untrusted_call (CLIENT_install_files only_trusted _) = (\<not> only_trusted)"
| "untrusted_call (CLIENT_repair_system only_trusted) = (\<not> only_trusted)"
| "untrusted_call _ = False"

text \<open>An answer that says that something is not trusted.\<close>

fun says_untrusted :: "guint \<Rightarrow> task_event \<Rightarrow> bool" where
  "says_untrusted r (TASK_ANSWER r' h (Inr results)) =
     (r = r' \<and> (cr_exit_enum results = PK_EXIT_ENUM_NEED_UNTRUSTED \<or>
        (\<exists>p \<in> set (cr_package_sack results). pk_package_get_info h p = PK_INFO_ENUM_UNTRUSTED)))"
| "says_untrusted r _ = False"

text \<open>Each call that allows what is not trusted comes after such an answer to its request.\<close>

definition calls_justified :: "task_event list \<Rightarrow> bool" where
  "calls_justified es \<longleftrightarrow>
     (\<forall>i < length es. \<forall>r call. es ! i = TASK_CALL r call \<and> untrusted_call call \<longrightarrow>
        list_ex (says_untrusted r) (take i es))"

definition state_justified :: "task_event list \<Rightarrow> PkTaskState \<Rightarrow> bool" where
  "state_justified es st \<longleftrightarrow>
     st_only_trusted st \<or> st_role st = PK_ROLE_ENUM_REMOVE_PACKAGES \<or>
     list_ex (says_untrusted (st_request st)) es"

definition trust_ok :: "PkTask \<Rightarrow> bool" where
  "trust_ok task \<longleftrightarrow>
     calls_justified (tk_events task) \<and>
     (\<forall>a st. tk_states task a = Some st \<longrightarrow> state_justified (tk_events task) st)"

lemma state_justified_snoc: "state_justified es st \<Longrightarrow> state_justified (es @ [e]) st"
  by (auto simp: state_justified_def)

lemma calls_justified_snoc:
  "calls_justified (es @ [e]) \<longleftrightarrow>
   calls_justified es \<and> (\<forall>r call. e = TASK_CALL r call \<and> untrusted_call call \<longrightarrow> list_ex (says_untrusted r) es)"
  by (auto simp: calls_justified_def nth_append less_Suc_eq)

lemma trust_emit:
  "trust_ok task \<Longrightarrow> (\<And>r call. e \<noteq> TASK_CALL r call) \<Longrightarrow> trust_ok (task_emit e task)"
  by (auto simp: trust_ok_def calls_justified_snoc state_justified_snoc)

lemma trust_cong:
  "trust_ok task \<Longrightarrow> tk_events task' = tk_events task \<Longrightarrow> tk_states task' = tk_states task \<Longrightarrow> trust_ok task'"
  by (simp add: trust_ok_def)

lemma trust_undefined [simp]: "trust_ok (task\<lparr>tk_undefined := b\<rparr>) = trust_ok task"
  by (simp add: trust_ok_def)

text \<open>Changes of a state that leave its trust alone.\<close>

definition keeps_trust :: "(PkTaskState \<Rightarrow> PkTaskState) \<Rightarrow> bool" where
  "keeps_trust f \<longleftrightarrow>
     (\<forall>st. st_request (f st) = st_request st \<and> st_role (f st) = st_role st \<and>
        st_only_trusted (f st) = st_only_trusted st)"

lemma keeps_trust_simps [simp]:
  "keeps_trust (\<lambda>st. st\<lparr>st_simulate := b\<rparr>)" "keeps_trust (\<lambda>st. st\<lparr>st_results := x\<rparr>)"
  "keeps_trust (\<lambda>st. st\<lparr>st_ret := b\<rparr>)" "keeps_trust (\<lambda>st. st\<lparr>st_results := x, st_exit_enum := e\<rparr>)"
  by (simp_all add: keeps_trust_def)

lemma trust_upd:
  assumes "trust_ok task" and "keeps_trust f"
  shows "trust_ok (upd_state a f task)"
proof -
  have "state_justified es st \<Longrightarrow> state_justified es (f st)" for es st
    using assms(2) by (simp add: keeps_trust_def state_justified_def)
  then show ?thesis using assms(1) by (auto simp: trust_ok_def split: if_splits)
qed

lemma trust_dropped:
  assumes "trust_ok task"
    and "\<And>st. tk_states task a = Some st \<Longrightarrow> list_ex (says_untrusted (st_request st)) (tk_events task)"
  shows "trust_ok (upd_state a (\<lambda>st. st\<lparr>st_only_trusted := False\<rparr>) task)"
  using assms by (auto simp: trust_ok_def state_justified_def split: if_splits)

lemma trust_with:
  assumes "trust_ok task" and "\<And>st. tk_states task a = Some st \<Longrightarrow> trust_ok (f st task)"
  shows "trust_ok (with_state a f task)"
  using assms trust_cong [OF assms(1)] by (auto simp: with_state_def split: option.split)

lemma trust_submit:
  assumes "trust_ok task"
    and "\<And>st. tk_states task a = Some st \<Longrightarrow> untrusted_call call \<Longrightarrow>
      \<not> st_only_trusted st \<and> st_role st \<noteq> PK_ROLE_ENUM_REMOVE_PACKAGES"
  shows "trust_ok (submit a cb call task)"
  unfolding submit_def
proof (rule trust_with [OF assms(1)])
  fix st
  assume st: "tk_states task a = Some st"
  have "trust_ok (task_emit (TASK_CALL (st_request st) call) task)"
  proof -
    have "state_justified (tk_events task) st" using assms(1) st by (simp add: trust_ok_def)
    then have "untrusted_call call \<Longrightarrow> list_ex (says_untrusted (st_request st)) (tk_events task)"
      using assms(2) [OF st] by (auto simp: state_justified_def)
    then show ?thesis
      using assms(1) by (auto simp: trust_ok_def calls_justified_snoc state_justified_snoc)
  qed
  then show "trust_ok (task_emit (TASK_CALL (st_request st) call) task\<lparr>tk_calls := tk_calls task @ [(a, cb)]\<rparr>)"
    by (rule trust_cong) simp_all
qed

lemma trust_finish:
  assumes "trust_ok task"
  shows "trust_ok (pk_task_generic_state_finish a error task)"
  unfolding pk_task_generic_state_finish_def Let_def
proof (rule trust_with [OF assms])
  fix st
  let ?t = "task_emit (TASK_DONE (st_request st) (if st_ret st then Inr (st_results st) else Inl error)) task"
  have "trust_ok ?t" using assms by (simp add: trust_emit)
  then show "trust_ok (?t\<lparr>tk_array := remove1 a (tk_array ?t), tk_states := (tk_states ?t)(a := None)\<rparr>)"
    by (auto simp: trust_ok_def split: if_splits)
qed

lemma action_untrusted:
  "action_call st = Some call \<Longrightarrow> untrusted_call call \<Longrightarrow>
   \<not> st_only_trusted st \<and> st_role st \<noteq> PK_ROLE_ENUM_REMOVE_PACKAGES"
  unfolding action_call_def by (auto split: if_splits)

lemma simulate_trusted: "simulate_call st = Some call \<Longrightarrow> \<not> untrusted_call call"
  unfolding simulate_call_def by (auto split: if_splits)

lemma trust_call:
  assumes "trust_ok task" and "\<And>st c. tk_states task a = Some st \<Longrightarrow> call st = Some c \<Longrightarrow> untrusted_call c \<Longrightarrow>
      \<not> st_only_trusted st \<and> st_role st \<noteq> PK_ROLE_ENUM_REMOVE_PACKAGES"
  shows "trust_ok (with_state a (\<lambda>st task.
    case call st of None \<Rightarrow> task\<lparr>tk_undefined := True\<rparr> | Some c \<Rightarrow> submit a cb c task) task)"
proof (rule trust_with [OF assms(1)])
  fix st
  assume st: "tk_states task a = Some st"
  show "trust_ok (case call st of None \<Rightarrow> task\<lparr>tk_undefined := True\<rparr> | Some c \<Rightarrow> submit a cb c task)"
  proof (cases "call st")
    case None
    then show ?thesis using assms(1) by simp
  next
    case (Some c)
    show ?thesis
      unfolding Some option.case using assms(2) [OF st Some] st by (intro trust_submit [OF assms(1)]) auto
  qed
qed

lemma trust_action: "trust_ok task \<Longrightarrow> trust_ok (pk_task_do_async_action a task)"
  unfolding pk_task_do_async_action_def Let_def
  by (rule trust_call) (simp_all add: trust_upd action_untrusted)

lemma trust_simulate_action: "trust_ok task \<Longrightarrow> trust_ok (pk_task_do_async_simulate_action a task)"
  unfolding pk_task_do_async_simulate_action_def Let_def
  by (rule trust_call) (simp_all add: trust_upd simulate_trusted)

lemma trust_idle: "trust_ok task \<Longrightarrow> trust_ok (add_idle src task)"
  by (erule trust_cong) (simp_all add: add_idle_def)

lemma trust_accepted:
  "trust_ok task \<Longrightarrow> trust_ok (snd (pk_task_user_accepted r task))"
  "trust_ok task \<Longrightarrow> trust_ok (snd (pk_task_user_declined r task))"
  by (simp_all add: pk_task_user_accepted_def pk_task_user_declined_def trust_idle split: option.split)

lemma trust_ask: "trust_ok task \<Longrightarrow> trust_ok (ask supported question what a results task)"
  unfolding ask_def by (rule trust_with) (simp_all add: trust_accepted trust_finish trust_emit)

lemma trust_detour: "trust_ok task \<Longrightarrow> trust_ok (detour_ready what a answer task)"
  by (simp add: detour_ready_def Let_def trust_upd trust_finish trust_action split: sum.split)

lemma trust_ready:
  assumes "trust_ok task"
    and "\<And>st results. answer = Inr results \<Longrightarrow> cr_exit_enum results = PK_EXIT_ENUM_NEED_UNTRUSTED \<Longrightarrow>
      tk_states task a = Some st \<Longrightarrow> list_ex (says_untrusted (st_request st)) (tk_events task)"
  shows "trust_ok (pk_task_ready_cb klass a answer task)"
proof (cases answer)
  case (Inl error)
  then show ?thesis using assms(1) by (simp add: pk_task_ready_cb_def trust_upd trust_finish)
next
  case (Inr results)
  let ?t = "upd_state a (\<lambda>st. st\<lparr>st_results := Some results, st_exit_enum := cr_exit_enum results\<rparr>)
    (upd_state a (\<lambda>st. st\<lparr>st_results := None\<rparr>) task)"
  have t: "trust_ok ?t" using assms(1) by (simp add: trust_upd)
  have dropped: "trust_ok (upd_state a (\<lambda>st. st\<lparr>st_only_trusted := False\<rparr>) ?t)"
    if "cr_exit_enum results = PK_EXIT_ENUM_NEED_UNTRUSTED"
    using assms(2) [OF Inr that] by (intro trust_dropped [OF t]) auto
  have ret: "trust_ok (upd_state a (\<lambda>st. st\<lparr>st_ret := True\<rparr>) ?t)" using t by (simp add: trust_upd)
  show ?thesis
  proof (cases "cr_exit_enum results = PK_EXIT_ENUM_NEED_UNTRUSTED")
    case True
    show ?thesis
      unfolding pk_task_ready_cb_def Let_def Inr sum.case if_P [OF True]
      by (rule trust_ask [OF dropped [OF True]])
  next
    case False
    show ?thesis
      by (simp only: pk_task_ready_cb_def Let_def Inr sum.case if_not_P [OF False] trust_ask [OF t]
          trust_action [OF t] trust_finish [OF ret] simp_thms split: if_split)
  qed
qed

lemma filter_by_info_eq:
  "pk_package_sack_filter_by_info h sack info = filter (\<lambda>r. pk_package_get_info h r = info) sack"
proof -
  have "filter_by_info_loop h info xs results = results @ filter (\<lambda>r. pk_package_get_info h r = info) xs"
    for xs results
    by (induction xs arbitrary: results) (simp_all add: pk_package_sack_add_package_def)
  then show ?thesis by (simp add: pk_package_sack_filter_by_info_def pk_package_sack_new_def)
qed

lemma trust_simulate_success:
  assumes "trust_ok task"
    and "\<And>st p. tk_states task a = Some st \<Longrightarrow> p \<in> set (cr_package_sack results) \<Longrightarrow>
      pk_package_get_info h p = PK_INFO_ENUM_UNTRUSTED \<Longrightarrow>
      list_ex (says_untrusted (st_request st)) (tk_events task)"
  shows "trust_ok (simulate_success klass h a results task)"
proof -
  let ?u = "pk_package_sack_filter_by_info h (cr_package_sack results) PK_INFO_ENUM_UNTRUSTED"
  have t: "trust_ok (if 0 < pk_package_sack_get_size ?u
      then upd_state a (\<lambda>st. st\<lparr>st_only_trusted := False\<rparr>) task else task)"
  proof (cases "0 < pk_package_sack_get_size ?u")
    case True
    then have "?u \<noteq> []" by (auto simp: pk_package_sack_get_size_def)
    then obtain p where "p \<in> set (cr_package_sack results)" "pk_package_get_info h p = PK_INFO_ENUM_UNTRUSTED"
      by (auto simp: filter_by_info_eq filter_empty_conv)
    with assms True show ?thesis by (simp add: trust_dropped)
  qed (use assms(1) in simp)
  define u where "u = (if 0 < pk_package_sack_get_size ?u
      then upd_state a (\<lambda>st. st\<lparr>st_only_trusted := False\<rparr>) task else task)"
  have u: "trust_ok u" using t by (simp add: u_def)
  show ?thesis
    unfolding simulate_success_def Let_def u_def [symmetric]
    by (rule trust_with [OF u]) (simp add: u trust_upd trust_action trust_emit)
qed


lemma trust_simulate_ready:
  assumes "trust_ok task"
    and "\<And>st p results. answer = Inr results \<Longrightarrow> tk_states task a = Some st \<Longrightarrow>
      p \<in> set (cr_package_sack results) \<Longrightarrow> pk_package_get_info h p = PK_INFO_ENUM_UNTRUSTED \<Longrightarrow>
      list_ex (says_untrusted (st_request st)) (tk_events task)"
  shows "trust_ok (pk_task_simulate_ready_cb klass h a answer task)"
proof (cases answer)
  case (Inl error)
  then show ?thesis
    using assms(1) by (simp add: pk_task_simulate_ready_cb_def Let_def trust_upd trust_finish trust_action)
next
  case (Inr results)
  let ?t = "upd_state a (\<lambda>st. st\<lparr>st_results := Some results, st_exit_enum := cr_exit_enum results\<rparr>)
    (upd_state a (\<lambda>st. st\<lparr>st_results := None\<rparr>) task)"
  have t: "trust_ok ?t" using assms(1) by (simp add: trust_upd)
  have "trust_ok (simulate_success klass h a results ?t)"
    using assms(2) [OF Inr] by (intro trust_simulate_success [OF t]) auto
  moreover have ret: "trust_ok (upd_state a (\<lambda>st. st\<lparr>st_ret := True\<rparr>) ?t)" using t by (simp add: trust_upd)
  ultimately show ?thesis
    by (simp only: pk_task_simulate_ready_cb_def Let_def Inr sum.case trust_finish [OF ret] simp_thms split: if_split)
qed

lemma trust_signatures:
  "trust_ok task \<Longrightarrow> trust_ok (pk_task_install_signatures a task)"
  "trust_ok task \<Longrightarrow> trust_ok (pk_task_accept_eulas a task)"
  by (auto simp: pk_task_install_signatures_def pk_task_accept_eulas_def
      intro!: trust_with trust_finish trust_submit split: list.split)

lemma trust_dispatch: "trust_ok task \<Longrightarrow> trust_ok (task_dispatch src task)"
  by (cases src)
    (auto simp: pk_task_user_accepted_idle_cb_def pk_task_user_declined_idle_cb_def
      intro!: trust_with trust_finish trust_signatures trust_action)

lemma trust_answer:
  assumes "trust_ok task"
  shows "trust_ok (task_answer klass h i answer task)"
proof -
  obtain a cb where ac: "tk_calls task ! i = (a, cb)" by fastforce
  define t where "t = task\<lparr>tk_calls := take i (tk_calls task) @ drop (Suc i) (tk_calls task)\<rparr>"
  have t: "trust_ok t" by (rule trust_cong [OF assms]) (simp_all add: t_def)
  show ?thesis
    unfolding task_answer_def ac prod.case t_def [symmetric] Let_def
  proof (rule trust_with [OF t])
    fix st
    assume st: "tk_states t a = Some st"
    let ?u = "task_emit (TASK_ANSWER (st_request st) h answer) t"
    have u: "trust_ok ?u" using t by (simp add: trust_emit)
    show "trust_ok (case cb of
        CB_ready \<Rightarrow> pk_task_ready_cb klass a answer ?u
      | CB_simulate_ready \<Rightarrow> pk_task_simulate_ready_cb klass h a answer ?u
      | CB_install_signatures_ready \<Rightarrow> pk_task_install_signatures_ready_cb a answer ?u
      | CB_accept_eulas_ready \<Rightarrow> pk_task_accept_eulas_ready_cb a answer ?u)"
      using st
      by (auto simp: pk_task_install_signatures_ready_cb_def pk_task_accept_eulas_ready_cb_def trust_detour [OF u]
          intro!: trust_ready [OF u] trust_simulate_ready [OF u] split: task_callback.split)
  qed
qed

lemma trust_add_state:
  assumes "trust_ok task" and "st_only_trusted st \<or> st_role st = PK_ROLE_ENUM_REMOVE_PACKAGES"
  shows "trust_ok (snd (add_state st task))"
  using assms
  by (auto simp: trust_ok_def state_justified_def add_state_def pk_task_generate_request_id_def Let_def)

lemma trust_start: "trust_ok task \<Longrightarrow> trust_ok (task_start klass m task)"
  by (cases m)
    (simp_all add: starter_defs start_action_def start_simulated_def split_beta trust_add_state trust_action
      trust_simulate_action task_state_new_def)

lemma trust_step: "task_step klass task task' \<Longrightarrow> trust_ok task \<Longrightarrow> trust_ok task'"
proof (induction rule: task_step.induct)
  case (reply r task accepted)
  then show ?case by (cases accepted) (simp_all add: task_reply_def Let_def trust_accepted trust_emit)
next
  case (idle task i src)
  then show ?case
    unfolding task_idle_def by (intro trust_dispatch) (erule trust_cong; simp)
next
  case (set_simulate task b)
  then show ?case by (elim trust_cong) (simp_all add: pk_task_set_simulate_def)
next
  case (set_interactive task b)
  then show ?case by (elim trust_cong) (simp_all add: pk_task_set_interactive_def)
qed (simp_all add: trust_start trust_answer)

text \<open>C20: In every history each call that allows packages which are not trusted - to install, update or
  repair - comes after an answer to the same request that needed it: the daemon answered that
  something is not trusted, or simulating the action found such a package.\<close>

theorem untrusted_only_when_needed:
  assumes "task_history klass task" and "i < length (tk_events task)"
    and "tk_events task ! i = TASK_CALL r call" and "untrusted_call call"
  shows "\<exists>e \<in> set (take i (tk_events task)). says_untrusted r e"
proof -
  have "trust_ok task"
    using assms(1)
  proof (induction rule: task_history.induct)
    case init
    then show ?case by (simp add: trust_ok_def calls_justified_def pk_task_init_def)
  qed (simp add: trust_step)
  with assms(2-4) have "list_ex (says_untrusted r) (take i (tk_events task))"
    by (auto simp: trust_ok_def calls_justified_def)
  then show ?thesis by (simp add: list_ex_iff)
qed

text \<open>The daemon answers that a local file is not trusted, and the user accepts.\<close>

definition example_untrusted :: PkTask where
  "example_untrusted =
     task_idle 1 (SRC_user_accepted 0) (task_reply 1 True
       (task_answer example_class example_heap 0 (Inr (example_result PK_EXIT_ENUM_NEED_UNTRUSTED []))
         (task_start example_class (TASK_install_files [''/tmp/a.rpm''])
           (pk_task_set_simulate False pk_task_init))))"

lemma untrusted_only_when_needed_witness:
  "\<exists>e \<in> set (take 4 (tk_events example_untrusted)). says_untrusted 1 e"
proof -
  let ?a = "task_start example_class (TASK_install_files [''/tmp/a.rpm'']) (pk_task_set_simulate False pk_task_init)"
  let ?b = "task_answer example_class example_heap 0 (Inr (example_result PK_EXIT_ENUM_NEED_UNTRUSTED [])) ?a"
  have "task_history example_class (pk_task_set_simulate False pk_task_init)"
    by (rule task_history.step [OF task_history.init task_step.set_simulate])
  then have "task_history example_class ?a" by (rule history_start) code_simp
  then have "task_history example_class ?b" by (rule history_answer) code_simp
  then have "task_history example_class (task_reply 1 True ?b)" by (rule history_reply) code_simp
  then have "task_history example_class example_untrusted"
    unfolding example_untrusted_def by (rule history_idle) code_simp
  moreover have "4 < length (tk_events example_untrusted)" "untrusted_call (CLIENT_install_files False (Some [''/tmp/a.rpm'']))"
    by code_simp+
  moreover have "case tk_events example_untrusted ! 4 of
      TASK_CALL r call \<Rightarrow> r = 1 \<and> call = CLIENT_install_files False (Some [''/tmp/a.rpm'']) | _ \<Rightarrow> False"
    by code_simp
  then have "tk_events example_untrusted ! 4 = TASK_CALL 1 (CLIENT_install_files False (Some [''/tmp/a.rpm'']))"
    by (simp split: task_event.splits)
  ultimately show ?thesis using untrusted_only_when_needed by blast
qed

end
