(* ===== verification/PK_Task_Bounds.thy ===== *)
theory PK_Task_Bounds
  imports PK_Task_Properties
begin

text \<open>
  Requests come to an end: a request calls the client at most twice - once to simulate the action
  and once to run it - and twice more for each answer after which the action is repeated, once for
  the signature or the agreement and once for the action. The invariant is a budget: each token
  of a request leaves room for the calls that it may still lead to.
\<close>

section \<open>The budget of a request\<close>

fun is_call :: "guint \<Rightarrow> task_event \<Rightarrow> bool" where
  "is_call r (TASK_CALL r' call) = (r = r')"
| "is_call r _ = False"

text \<open>The answers of the daemon after which the action is run again.\<close>

fun asks_again :: "guint \<Rightarrow> task_event \<Rightarrow> bool" where
  "asks_again r (TASK_ANSWER r' h (Inr results)) =
     (r = r' \<and> cr_exit_enum results \<in>
        {PK_EXIT_ENUM_NEED_UNTRUSTED, PK_EXIT_ENUM_KEY_REQUIRED, PK_EXIT_ENUM_EULA_REQUIRED,
         PK_EXIT_ENUM_MEDIA_CHANGE_REQUIRED, PK_EXIT_ENUM_CANCELLED_PRIORITY})"
| "asks_again r _ = False"

definition spent :: "guint \<Rightarrow> PkTask \<Rightarrow> nat" where
  "spent r task = length (filter (is_call r) (tk_events task))"

definition again :: "guint \<Rightarrow> PkTask \<Rightarrow> nat" where
  "again r task = length (filter (asks_again r) (tk_events task))"

definition room :: "nat \<Rightarrow> guint \<Rightarrow> PkTask \<Rightarrow> bool" where
  "room n r task \<longleftrightarrow> spent r task + n \<le> 2 + 2 * again r task"

text \<open>The calls that follow when the user accepts.\<close>

definition need :: "PkTaskState \<Rightarrow> nat" where
  "need st = (if st_exit_enum st \<in> {PK_EXIT_ENUM_KEY_REQUIRED, PK_EXIT_ENUM_EULA_REQUIRED} then 2 else 1)"

definition paid :: "nat \<Rightarrow> PkTaskState \<Rightarrow> PkTask \<Rightarrow> bool" where
  "paid a st task \<longleftrightarrow>
     (\<forall>cb. (a, cb) \<in> set (tk_calls task) \<and> cb \<noteq> CB_ready \<longrightarrow> room 1 (st_request st) task) \<and>
     (calls_of a task = 0 \<longrightarrow> room (need st) (st_request st) task)"

definition within :: "nat option \<Rightarrow> PkTask \<Rightarrow> bool" where
  "within held task \<longleftrightarrow>
     (\<forall>r. room 0 r task) \<and> (\<forall>r. \<not> started r task \<longrightarrow> spent r task = 0) \<and>
     (\<forall>a st. tk_states task a = Some st \<and> held \<noteq> Some a \<longrightarrow> paid a st task)"

lemma need_le: "need st \<le> 2" "1 \<le> need st" by (simp_all add: need_def)

lemma room_mono: "room n r task \<Longrightarrow> m \<le> n \<Longrightarrow> room m r task" by (simp add: room_def)

lemma events_counts [simp]:
  "spent r (task_emit e task) = spent r task + (if is_call r e then 1 else 0)"
  "again r (task_emit e task) = again r task + (if asks_again r e then 1 else 0)"
  "spent r (task\<lparr>tk_calls := cs\<rparr>) = spent r task" "again r (task\<lparr>tk_calls := cs\<rparr>) = again r task"
  "spent r (task\<lparr>tk_loop := m\<rparr>) = spent r task" "again r (task\<lparr>tk_loop := m\<rparr>) = again r task"
  by (simp_all add: spent_def again_def)

text \<open>What the budget reads of a task.\<close>

lemma within_cong:
  assumes "within held task" and "tk_states task' = tk_states task" and "tk_calls task' = tk_calls task"
    and "\<And>r. spent r task' = spent r task" and "\<And>r. again r task' = again r task"
    and "tk_last_request task' = tk_last_request task"
  shows "within held task'"
  using assms(1) unfolding within_def paid_def room_def started_def calls_of_def assms(2-6) .

lemma paid_cong:
  assumes "tk_calls task' = tk_calls task" and "\<And>r. spent r task' = spent r task"
    and "\<And>r. again r task' = again r task"
  shows "paid a st task' = paid a st task"
  by (simp add: paid_def room_def calls_of_def assms)

lemma within_states:
  assumes "within (Some a) task" and "tk_states task' = (tk_states task)(a := x)"
    and "tk_calls task' = tk_calls task" and "\<And>r. spent r task' = spent r task"
    and "\<And>r. again r task' = again r task" and "tk_last_request task' = tk_last_request task"
    and "held = None \<Longrightarrow> x = None" and "held \<noteq> None \<Longrightarrow> held = Some a"
  shows "within held task'"
proof -
  note paid = paid_cong [OF assms(3-5)]
  have "paid b st task'" if "tk_states task' b = Some st" "held \<noteq> Some b" for b st
    using assms(1,2,7,8) that by (auto simp: paid within_def split: if_splits)
  then show ?thesis
    using assms(1) by (simp add: within_def room_def started_def assms(4-6))
qed

lemma within_upd: "within (Some a) task \<Longrightarrow> within (Some a) (upd_state a f task)"
  by (erule within_states [where x = "map_option f (tk_states task a)"])
    (simp_all add: fun_eq_iff spent_def again_def)

lemma room_upd [simp]: "room n r (upd_state a f task) = room n r task"
  by (simp add: room_def spent_def again_def)

lemma room_again:
  "room 0 r task \<Longrightarrow> asks_again r e \<Longrightarrow> \<not> is_call r e \<Longrightarrow> room 2 r (task_emit e task)"
  by (simp add: room_def)

section \<open>The code keeps to the budget\<close>

lemma held_calls:
  assumes "task_ok klass (Some a) task" and "tk_states task a = Some st"
  shows "calls_of a task = 0" and "(a, cb) \<notin> set (tk_calls task)"
proof -
  have "request_of task a = Some (st_request st)" using assms(2) by (simp add: request_of_def)
  from tokensD [OF assms(1) this] show none: "calls_of a task = 0" by simp
  then show "(a, cb) \<notin> set (tk_calls task)" by (auto simp: calls_of_def filter_empty_conv)
qed

lemma other_request:
  assumes "task_ok klass held task" and "tk_states task a = Some st" and "tk_states task b = Some st'"
    and "b \<noteq> a"
  shows "st_request st' \<noteq> st_request st"
proof
  assume "st_request st' = st_request st"
  then have "request_of task b = Some (st_request st)" "request_of task a = Some (st_request st)"
    using assms(2,3) by (simp_all add: request_of_def)
  with assms(1,4) show False unfolding task_ok_def requests_ok_def by blast
qed

lemma release_within:
  assumes "task_ok klass (Some a) task" and "within (Some a) task" and "tk_states task a = Some st"
    and "room (need st) (st_request st) task"
  shows "within None task"
proof -
  have "paid a st task"
    using held_calls [OF assms(1,3)] assms(4) by (simp add: paid_def)
  then show ?thesis
    using assms(2,3) unfolding within_def by (metis option.inject)
qed

lemma submit_within:
  assumes "task_ok klass (Some a) task" and "within (Some a) task" and "tk_states task a = Some st"
    and "room (if cb = CB_ready then 1 else 2) (st_request st) task"
  shows "within None (submit a cb call task)"
proof -
  let ?r = "st_request st"
  let ?t = "submit a cb call task"
  have t: "tk_states ?t = tk_states task" "tk_calls ?t = tk_calls task @ [(a, cb)]"
    "spent q ?t = spent q task + (if q = ?r then 1 else 0)" "again q ?t = again q task"
    "started q ?t = started q task" for q
    by (simp_all add: submit_def with_state_Some [OF assms(3)] spent_def again_def started_def)
  have room: "room m q task \<Longrightarrow> q \<noteq> ?r \<Longrightarrow> room m q ?t" for m q by (simp add: room_def t)
  have mine: "room m ?r ?t \<longleftrightarrow> room (Suc m) ?r task" for m by (simp add: room_def t)
  have "started ?r task"
  proof -
    have "request_of task a = Some ?r" using assms(3) by (simp add: request_of_def)
    then show ?thesis using assms(1) unfolding task_ok_def requests_ok_def by blast
  qed
  moreover have "room 0 q ?t" for q
  proof (cases "q = ?r")
    case True
    then show ?thesis using assms(4) by (simp add: mine room_mono split: if_splits)
  qed (use assms(2) in \<open>simp add: within_def room\<close>)
  moreover have "paid b stb ?t" if b: "tk_states task b = Some stb" for b stb
  proof (cases "b = a")
    case True
    then have "stb = st" using assms(3) b by simp
    moreover have "cb \<noteq> CB_ready \<Longrightarrow> room 1 ?r ?t" using assms(4) mine [of 1] by (simp add: numeral_2_eq_2)
    ultimately show ?thesis
      using held_calls [OF assms(1,3)] True by (auto simp: paid_def t calls_of_def)
  next
    case False
    then have "paid b stb task" using assms(2) b by (auto simp: within_def)
    then show ?thesis
      using room [OF _ other_request [OF assms(1,3) b False]] False by (auto simp: paid_def t calls_of_def)
  qed
  ultimately show ?thesis
    using assms(2) unfolding within_def t by auto
qed

lemma finish_within:
  assumes "within (Some a) task" and "tk_states task a = Some st"
  shows "within None (pk_task_generic_state_finish a error task)"
proof -
  note f = finish_fields [OF assms(2), where error = error]
  show ?thesis
    by (rule within_states [OF assms(1) f(2)]) (simp_all add: spent_def again_def f)
qed

lemma call_within:
  assumes "task_ok klass (Some a) task" and "within (Some a) task" and "tk_states task a = Some st"
    and "call st \<noteq> None" and "room (if cb = CB_ready then 1 else 2) (st_request st) task"
  shows "within None (with_state a (\<lambda>st task.
    case call st of None \<Rightarrow> task\<lparr>tk_undefined := True\<rparr> | Some c \<Rightarrow> submit a cb c task) task)"
  using submit_within [OF assms(1-3,5)] assms(4) by (auto simp: with_state_Some [OF assms(3)])

lemma action_within:
  assumes "task_ok klass (Some a) task" and "within (Some a) task" and "tk_states task a = Some st"
    and "room 1 (st_request st) task"
  shows "within None (pk_task_do_async_action a task)"
proof -
  let ?t = "upd_state a (\<lambda>st. st\<lparr>st_simulate := False\<rparr>) task"
  have ok: "task_ok klass (Some a) ?t" using assms(1,3) by (simp add: upd_state_ok request_of_def)
  have st: "tk_states ?t a = Some (st\<lparr>st_simulate := False\<rparr>)" using assms(3) by simp
  show ?thesis
    unfolding pk_task_do_async_action_def Let_def
    by (rule call_within [OF ok within_upd [OF assms(2)] st])
      (use actions_okD [OF ok st] assms(4) in \<open>simp_all\<close>)
qed

text \<open>The call of the simulation is the first of its request: there is room for two.\<close>

lemma simulate_within:
  assumes "task_ok klass (Some a) task" and "within (Some a) task" and "tk_states task a = Some st"
    and "simulate_call st \<noteq> None" and "room 2 (st_request st) task"
  shows "within None (pk_task_do_async_simulate_action a task)"
proof -
  let ?t = "upd_state a (\<lambda>st. st\<lparr>st_simulate := True\<rparr>) task"
  have ok: "task_ok klass (Some a) ?t" using assms(1,3) by (simp add: upd_state_ok request_of_def)
  have st: "tk_states ?t a = Some (st\<lparr>st_simulate := True\<rparr>)" using assms(3) by simp
  show ?thesis
    unfolding pk_task_do_async_simulate_action_def Let_def
    by (rule call_within [OF ok within_upd [OF assms(2)] st])
      (use assms(4,5) in \<open>simp_all add: simulate_call_def split: if_splits\<close>)
qed

lemma idle_within: "within None task \<Longrightarrow> within None (add_idle src task)"
  by (erule within_cong) (simp_all add: add_idle_def spent_def again_def)

lemma accepted_within:
  "within None task \<Longrightarrow> within None (snd (pk_task_user_accepted r task))"
  "within None task \<Longrightarrow> within None (snd (pk_task_user_declined r task))"
  by (simp_all add: pk_task_user_accepted_def pk_task_user_declined_def idle_within split: option.split)

lemma emit_within: "within held task \<Longrightarrow> (\<And>r. \<not> is_call r e \<and> \<not> asks_again r e) \<Longrightarrow> within held (task_emit e task)"
  by (erule within_cong) simp_all

lemma ask_within:
  assumes "task_ok klass (Some a) task" and "within (Some a) task" and "tk_states task a = Some st"
    and "room 2 (st_request st) task"
  shows "within None (ask supported question what a results task)"
proof -
  have "within None task" by (rule release_within [OF assms(1-3) room_mono [OF assms(4) need_le(1)]])
  then show ?thesis
    by (simp add: ask_def with_state_Some [OF assms(3)] accepted_within emit_within finish_within [OF assms(2,3)])
qed

lemma detour_within:
  assumes "task_ok klass (Some a) task" and "within (Some a) task" and "tk_states task a = Some st"
    and "room 1 (st_request st) task"
  shows "within None (detour_ready what a answer task)"
proof (cases answer)
  case (Inl error)
  show ?thesis
    unfolding detour_ready_def Let_def Inl sum.case
    by (rule finish_within [OF within_upd [OF assms(2)]]) (use assms(3) in simp)
next
  case (Inr results)
  let ?f = "\<lambda>st. st\<lparr>st_results := Some results, st_exit_enum := cr_exit_enum results\<rparr>"
  let ?t = "upd_state a ?f (upd_state a (\<lambda>st. st\<lparr>st_results := None\<rparr>) task)"
  have ok: "task_ok klass (Some a) ?t" using assms(1,3) by (simp add: upd_state_ok request_of_def)
  have w: "within (Some a) ?t" by (intro within_upd assms)
  have st: "tk_states ?t a = Some (?f (st\<lparr>st_results := None\<rparr>))" using assms(3) by simp
  have "within None (pk_task_do_async_action a ?t)"
    by (rule action_within [OF ok w st]) (use assms(4) in simp)
  then show ?thesis
    by (simp only: detour_ready_def Let_def Inr sum.case finish_within [OF w st] simp_thms split: if_split)
qed

definition again_exits :: "PkExitEnum set" where
  "again_exits =
     {PK_EXIT_ENUM_NEED_UNTRUSTED, PK_EXIT_ENUM_KEY_REQUIRED, PK_EXIT_ENUM_EULA_REQUIRED,
      PK_EXIT_ENUM_MEDIA_CHANGE_REQUIRED, PK_EXIT_ENUM_CANCELLED_PRIORITY}"

lemma ready_within:
  assumes "task_ok klass (Some a) task" and "within (Some a) task" and "tk_states task a = Some st"
    and "\<And>results. answer = Inr results \<Longrightarrow> cr_exit_enum results \<in> again_exits \<Longrightarrow>
      room 2 (st_request st) task"
  shows "within None (pk_task_ready_cb klass' a answer task)"
proof (cases answer)
  case (Inl error)
  show ?thesis
    unfolding pk_task_ready_cb_def Let_def Inl sum.case
    by (rule finish_within [OF within_upd [OF assms(2)]]) (use assms(3) in simp)
next
  case (Inr results)
  let ?f = "\<lambda>st. st\<lparr>st_results := Some results, st_exit_enum := cr_exit_enum results\<rparr>"
  let ?t = "upd_state a ?f (upd_state a (\<lambda>st. st\<lparr>st_results := None\<rparr>) task)"
  let ?g = "\<lambda>st. st\<lparr>st_only_trusted := False\<rparr>" and ?h = "\<lambda>st. st\<lparr>st_ret := True\<rparr>"
  have ok: "task_ok klass (Some a) ?t" "task_ok klass (Some a) (upd_state a ?g ?t)"
    using assms(1,3) by (simp_all add: upd_state_ok request_of_def)
  have w: "within (Some a) ?t" "within (Some a) (upd_state a ?g ?t)" "within (Some a) (upd_state a ?h ?t)"
    by (intro within_upd assms(2))+
  have st: "tk_states ?t a = Some (?f (st\<lparr>st_results := None\<rparr>))"
    "tk_states (upd_state a ?g ?t) a = Some (?g (?f (st\<lparr>st_results := None\<rparr>)))"
    "tk_states (upd_state a ?h ?t) a = Some (?h (?f (st\<lparr>st_results := None\<rparr>)))"
    using assms(3) by simp_all
  show ?thesis
  proof (cases "cr_exit_enum results \<in> again_exits")
    case True
    have room: "room 2 (st_request st) task" "room 1 (st_request st) task"
      using assms(4) [OF Inr True] by (simp_all add: room_def)
    have "within None (ask b q what a results ?t)" "within None (ask b q what a results (upd_state a ?g ?t))"
      for b q what
      using ask_within [OF ok(1) w(1) st(1)] ask_within [OF ok(2) w(2) st(2)] room by simp_all
    moreover have "within None (pk_task_do_async_action a ?t)"
      using action_within [OF ok(1) w(1) st(1)] room by simp
    ultimately show ?thesis
      by (simp only: pk_task_ready_cb_def Let_def Inr sum.case finish_within [OF w(3) st(3)] simp_thms split: if_split)
  next
    case False
    then have "cr_exit_enum results \<noteq> PK_EXIT_ENUM_NEED_UNTRUSTED" "cr_exit_enum results \<noteq> PK_EXIT_ENUM_KEY_REQUIRED"
      "cr_exit_enum results \<noteq> PK_EXIT_ENUM_EULA_REQUIRED" "cr_exit_enum results \<noteq> PK_EXIT_ENUM_MEDIA_CHANGE_REQUIRED"
      "cr_exit_enum results \<noteq> PK_EXIT_ENUM_CANCELLED_PRIORITY"
      by (simp_all add: again_exits_def)
    then show ?thesis
      by (simp only: pk_task_ready_cb_def Let_def Inr sum.case if_False finish_within [OF w(3) st(3)])
  qed
qed

lemma simulate_success_within:
  assumes "task_ok klass (Some a) task" and "within (Some a) task" and "tk_states task a = Some st"
    and "room 1 (st_request st) task" and "st_exit_enum st = PK_EXIT_ENUM_SUCCESS"
    and "simulate_question klass'"
  shows "within None (simulate_success klass' h a results task)"
proof -
  define t where "t = (if 0 < pk_package_sack_get_size
      (pk_package_sack_filter_by_info h (cr_package_sack results) PK_INFO_ENUM_UNTRUSTED)
    then upd_state a (\<lambda>st. st\<lparr>st_only_trusted := False\<rparr>) task else task)"
  have ok: "task_ok klass (Some a) t"
    using assms(1,3) by (simp add: t_def upd_state_ok request_of_def)
  have w: "within (Some a) t" using assms(2) by (simp add: t_def within_upd)
  have "\<exists>st'. tk_states t a = Some st' \<and> st_request st' = st_request st \<and>
      st_exit_enum st' = PK_EXIT_ENUM_SUCCESS"
    using assms(3,5) by (simp add: t_def)
  then obtain st' where st: "tk_states t a = Some st'" "st_request st' = st_request st"
    "st_exit_enum st' = PK_EXIT_ENUM_SUCCESS"
    by blast
  have room: "room n r t = room n r task" for n r by (simp add: t_def)
  let ?v = "\<lambda>x. upd_state a (\<lambda>st. st\<lparr>st_results := Some x\<rparr>) t"
  have v: "task_ok klass (Some a) (?v x)" "within (Some a) (?v x)"
    "tk_states (?v x) a = Some (st'\<lparr>st_results := Some x\<rparr>)" for x
    using ok st by (simp_all add: upd_state_ok request_of_def within_upd [OF w])
  have action: "within None (pk_task_do_async_action a (?v x))" for x
    by (rule action_within [OF v]) (use assms(4) st(2) room in simp)
  have vv: "task_ok klass (Some a) (upd_state a (\<lambda>st. st\<lparr>st_results := Some y\<rparr>) (?v x))"
    "within (Some a) (upd_state a (\<lambda>st. st\<lparr>st_results := Some y\<rparr>) (?v x))"
    "tk_states (upd_state a (\<lambda>st. st\<lparr>st_results := Some y\<rparr>) (?v x)) a = Some (st'\<lparr>st_results := Some y\<rparr>)"
    for x y
    using v [of x] st by (simp_all add: upd_state_ok request_of_def within_upd)
  have "within None (upd_state a (\<lambda>st. st\<lparr>st_results := Some y\<rparr>) (?v x))" for x y
    by (rule release_within [OF vv]) (use assms(4) st(2,3) room in \<open>simp add: need_def\<close>)
  then show ?thesis
    unfolding simulate_success_def t_def [symmetric] Let_def with_state_Some [OF st(1)]
    using action assms(6) by (simp add: emit_within)
qed

lemma simulate_ready_within:
  assumes "task_ok klass (Some a) task" and "within (Some a) task" and "tk_states task a = Some st"
    and "room 1 (st_request st) task" and "simulate_question klass'"
  shows "within None (pk_task_simulate_ready_cb klass' h a answer task)"
proof -
  let ?v = "upd_state a (\<lambda>st. st\<lparr>st_results := None\<rparr>) task"
  have v: "task_ok klass (Some a) ?v" "within (Some a) ?v" "tk_states ?v a = Some (st\<lparr>st_results := None\<rparr>)"
    using assms(1,3) by (simp_all add: upd_state_ok request_of_def within_upd [OF assms(2)])
  show ?thesis
  proof (cases answer)
    case (Inl error)
    have "within None (pk_task_do_async_action a ?v)"
      by (rule action_within [OF v]) (use assms(4) in simp)
    then show ?thesis
      by (simp only: pk_task_simulate_ready_cb_def Let_def Inl sum.case finish_within [OF v(2,3)] simp_thms
          split: if_split)
  next
    case (Inr results)
    let ?f = "\<lambda>st. st\<lparr>st_results := Some results, st_exit_enum := cr_exit_enum results\<rparr>"
    let ?t = "upd_state a ?f ?v" and ?h = "\<lambda>st. st\<lparr>st_ret := True\<rparr>"
    have t: "task_ok klass (Some a) ?t" "within (Some a) ?t"
      "tk_states ?t a = Some (?f (st\<lparr>st_results := None\<rparr>))"
      using assms(1,3) by (simp_all add: upd_state_ok request_of_def within_upd [OF within_upd [OF assms(2)]])
    have "within None (pk_task_generic_state_finish a None (upd_state a ?h ?t))"
    proof (rule finish_within [OF within_upd [OF t(2)]])
      show "tk_states (upd_state a ?h ?t) a = Some (?h (?f (st\<lparr>st_results := None\<rparr>)))" using assms(3) by simp
    qed
    moreover have "within None (simulate_success klass' h a results ?t)" if "cr_exit_enum results = PK_EXIT_ENUM_SUCCESS"
      by (rule simulate_success_within [OF t]) (use assms(4,5) that in simp_all)
    ultimately show ?thesis
      unfolding pk_task_simulate_ready_cb_def Let_def Inr sum.case by (split if_split) blast
  qed
qed

lemma signatures_within:
  assumes "task_ok klass (Some a) task" and "within (Some a) task" and "tk_states task a = Some st"
    and "room 2 (st_request st) task"
  shows "within None (pk_task_install_signatures a task)" and "within None (pk_task_accept_eulas a task)"
  using submit_within [OF assms(1-3), of CB_install_signatures_ready]
    submit_within [OF assms(1-3), of CB_accept_eulas_ready] assms(4)
  by (auto simp: pk_task_install_signatures_def pk_task_accept_eulas_def with_state_Some [OF assms(3)]
      finish_within [OF assms(2,3)] split: list.split)

lemma dispatch_within:
  assumes "task_ok klass (Some (source_state src)) task" and "within (Some (source_state src)) task"
    and "tk_states task (source_state src) = Some st" and "room (need st) (st_request st) task"
  shows "within None (task_dispatch src task)"
proof (cases src)
  case (SRC_user_accepted a)
  note h = assms(1-3) [unfolded SRC_user_accepted source_state.simps]
  have "within None (pk_task_do_async_action a task)"
    by (rule action_within [OF h room_mono [OF assms(4) need_le(2)]])
  then show ?thesis
    using signatures_within [OF h] assms(4)
    by (auto simp: SRC_user_accepted pk_task_user_accepted_idle_cb_def with_state_Some [OF h(3)] need_def
        split: if_splits)
next
  case (SRC_user_declined a)
  note h = assms(1-3) [unfolded SRC_user_declined source_state.simps]
  show ?thesis
    by (simp add: SRC_user_declined pk_task_user_declined_idle_cb_def with_state_Some [OF h(3)]
        finish_within [OF h(2,3)])
qed

section \<open>The steps keep to the budget\<close>

lemma answer_within:
  assumes "task_ok klass None task" and "within None task" and "i < length (tk_calls task)"
  shows "within None (task_answer klass h i answer task)"
proof -
  obtain a cb where ac: "tk_calls task ! i = (a, cb)" by fastforce
  note taken = take_call [OF assms(1,3) ac]
  obtain st where st: "tk_states task a = Some st" using taken(2) by blast
  define t where "t = task\<lparr>tk_calls := take i (tk_calls task) @ drop (Suc i) (tk_calls task)\<rparr>"
  let ?u = "task_emit (TASK_ANSWER (st_request st) h answer) t"
  have ok: "task_ok klass (Some a) ?u" using taken(1) [OF st] by (simp add: t_def)
  have ust: "tk_states ?u a = Some st" using st by (simp add: t_def)
  have mem: "(a, cb) \<in> set (tk_calls task)" using ac assms(3) nth_mem by metis
  have t: "spent r t = spent r task" "again r t = again r task" for r
    by (simp_all add: t_def spent_def again_def)
  have "paid b st' ?u" if b: "tk_states task b = Some st'" "b \<noteq> a" for b st'
  proof -
    have "paid b st' task" using assms(2) b by (simp add: within_def)
    moreover have "calls_of b t = calls_of b task"
      using filter_take_drop [OF assms(3), of "\<lambda>(b', cb). b' = b"] ac b(2) by (simp add: calls_of_def t_def)
    moreover have "\<not> asks_again (st_request st') (TASK_ANSWER (st_request st) h answer)"
      using other_request [OF assms(1) st b] by (cases answer) simp_all
    then have "room n (st_request st') ?u = room n (st_request st') task" for n
      by (simp add: room_def t)
    moreover have "set (tk_calls ?u) \<subseteq> set (tk_calls task)"
      by (auto simp: t_def dest: in_set_takeD in_set_dropD)
    ultimately show ?thesis
      unfolding paid_def counts_emit by auto
  qed
  moreover have "room 0 r ?u" for r
  proof -
    have "spent r task \<le> 2 + 2 * again r task" using assms(2) by (simp add: within_def room_def)
    then show ?thesis by (simp add: room_def t)
  qed
  ultimately have w: "within (Some a) ?u"
    using assms(2) by (auto simp: within_def t started_def) (simp_all add: t_def)
  have room: "cb \<noteq> CB_ready \<Longrightarrow> room 1 (st_request st) task" "room 0 (st_request st) task"
    using assms(2) st mem unfolding within_def paid_def by blast+
  then have room1: "cb \<noteq> CB_ready \<Longrightarrow> room 1 (st_request st) ?u" by (auto simp: room_def t)
  have room2: "room 2 (st_request st) ?u"
    if "answer = Inr results" "cr_exit_enum results \<in> again_exits" for results
  proof (rule room_again)
    show "asks_again (st_request st) (TASK_ANSWER (st_request st) h answer)"
      using that by (simp add: again_exits_def)
  qed (use room(2) in \<open>simp_all add: room_def t\<close>)
  have sim: "cb = CB_simulate_ready \<Longrightarrow> simulate_question klass"
    using assms(1) mem by (auto simp: task_ok_def class_ok_def)
  show ?thesis
    unfolding task_answer_eq [OF ac st] t_def [symmetric] Let_def
    using ready_within [OF ok w ust room2] simulate_ready_within [OF ok w ust room1] sim
      detour_within [OF ok w ust room1]
    by (cases cb)
      (simp_all add: pk_task_install_signatures_ready_cb_def pk_task_accept_eulas_ready_cb_def)
qed

lemma idle_step_within:
  assumes "task_ok klass None task" and "within None task" and "pending (tk_loop task) i src"
  shows "within None (task_idle i src task)"
proof -
  note taken = take_idle [OF assms(1,3)]
  let ?a = "source_state src" and ?t = "task\<lparr>tk_loop := g_source_remove i (tk_loop task)\<rparr>"
  obtain st where st: "tk_states ?t ?a = Some st" using taken(2) by auto
  have "within (Some ?a) task" using assms(2) by (simp add: within_def)
  then have w: "within (Some ?a) ?t" by (rule within_cong) simp_all
  have "calls_of ?a task = 0"
    using held_calls(1) [OF taken(1) st] by (simp add: calls_of_def)
  then have "room (need st) (st_request st) ?t"
    using assms(2) st by (auto simp: within_def paid_def room_def spent_def again_def)
  then show ?thesis
    unfolding task_idle_def by (rule dispatch_within [OF taken(1) w st])
qed

lemma reply_within: "within None task \<Longrightarrow> within None (task_reply r accepted task)"
  by (simp add: task_reply_def Let_def accepted_within emit_within)

lemma add_state_within:
  assumes "task_ok klass None task" and "within None task" and "tk_last_request task \<noteq> - 1"
  shows "within (Some (fst (add_state st task))) (snd (add_state st task))"
    and "room 2 (tk_last_request task + 1) (snd (add_state st task))"
proof -
  note f = add_state_fields [OF assms(1,3)]
  have counts: "spent r (snd (add_state st task)) = spent r task" "again r (snd (add_state st task)) = again r task"
    for r
    by (simp_all add: spent_def again_def f)
  have "spent (tk_last_request task + 1) task = 0"
    using assms(2) f(6) by (simp add: within_def)
  then show "room 2 (tk_last_request task + 1) (snd (add_state st task))" by (simp add: room_def counts)
  show "within (Some (fst (add_state st task))) (snd (add_state st task))"
    using assms(2) by (auto simp: within_def paid_def room_def counts f split: if_splits)
qed

lemma start_action_within:
  assumes "task_ok klass None task" and "within None task" and "tk_last_request task \<noteq> - 1"
    and "action_call st \<noteq> None"
  shows "within None (start_action st task)"
proof -
  have "room 1 (tk_last_request task + 1) (snd (add_state st task))"
    by (rule room_mono [OF add_state_within(2) [OF assms(1-3)]]) simp
  then show ?thesis
    using action_within [OF add_state_ok [OF assms(1,3,4)] add_state_within(1) [OF assms(1-3)]]
      add_state_fields(4) [OF assms(1,3)]
    by (simp add: start_action_def split_beta)
qed

lemma start_simulated_within:
  assumes "task_ok klass None task" and "within None task" and "tk_last_request task \<noteq> - 1"
    and "action_call st \<noteq> None" and "simulate_call st \<noteq> None"
  shows "within None (start_simulated klass st task)"
proof -
  let ?r = "tk_last_request task + 1"
  have "simulate_call (st\<lparr>st_request := ?r\<rparr>) \<noteq> None"
    using assms(5) by (simp add: simulate_call_def split: if_splits)
  then show ?thesis
    using start_action_within [OF assms(1-4)] add_state_within(2) [OF assms(1-3)]
      simulate_within [OF add_state_ok [OF assms(1,3,4)] add_state_within(1) [OF assms(1-3)],
        of "st\<lparr>st_request := ?r\<rparr>"] add_state_fields(4) [OF assms(1,3)]
    by (simp add: start_simulated_def start_action_def split_beta)
qed

lemma start_within:
  assumes "task_ok klass None task" and "within None task" and "tk_last_request task \<noteq> - 1"
  shows "within None (task_start klass m task)"
  by (cases m)
    (simp_all add: starter_defs start_action_within [OF assms] start_simulated_within [OF assms]
      action_call_def simulate_call_def task_state_new_def)

lemma step_within:
  "task_step klass task task' \<Longrightarrow> task_ok klass None task \<Longrightarrow> within None task \<Longrightarrow> within None task'"
proof (induction rule: task_step.induct)
  case (set_simulate task b)
  then show ?case by (elim within_cong) (simp_all add: pk_task_set_simulate_def spent_def again_def)
next
  case (set_interactive task b)
  then show ?case by (elim within_cong) (simp_all add: pk_task_set_interactive_def spent_def again_def)
qed (simp_all add: start_within answer_within reply_within idle_step_within)

text \<open>C22: A request calls the client at most twice, and at most twice more for each answer that asks for
  the action to be repeated (something is not trusted, a key, an agreement or a medium is missing,
  or a more important transaction came first). So the number of its calls is bounded by
  what the daemon answers; a question to which the user does not reply keeps it open without a call.\<close>

theorem requests_end:
  assumes "task_history klass task"
  shows "length (filter (is_call r) (tk_events task)) \<le>
    2 + 2 * length (filter (asks_again r) (tk_events task))"
proof -
  have "within None task"
    using assms
  proof (induction rule: task_history.induct)
    case init
    then show ?case by (simp add: within_def room_def spent_def again_def pk_task_init_def)
  next
    case (step task task')
    then show ?case using step_within task_history_ok by blast
  qed
  then show ?thesis by (simp add: within_def room_def spent_def again_def)
qed

text \<open>The daemon asks for a key, the user accepts, the key is installed and the update runs again.\<close>

definition example_signature :: client_results where
  "example_signature =
     (example_result PK_EXIT_ENUM_KEY_REQUIRED [])
       \<lparr>cr_repo_signature_required_array :=
          [\<lparr>sg_package_id = Some ''gtk;2;i386;fedora'', sg_repository_name = ''fedora'', sg_key_url = None,
            sg_key_userid = None, sg_key_id = Some ''aa'', sg_key_fingerprint = None,
            sg_key_timestamp = None, sg_type = PK_SIGTYPE_ENUM_GPG\<rparr>]\<rparr>"

definition example_signed :: PkTask where
  "example_signed =
     (let key = task_answer example_class example_heap 0 (Inr example_signature)
            (task_idle 1 (SRC_user_accepted 0) (task_reply 1 True example_asked))
      in task_answer example_class example_heap 0 (Inr (example_result PK_EXIT_ENUM_SUCCESS []))
           (task_idle 2 (SRC_user_accepted 0) (task_reply 1 True key)))"

lemma signed_history: "task_history example_class example_signed"
proof -
  let ?key = "task_answer example_class example_heap 0 (Inr example_signature)
    (task_idle 1 (SRC_user_accepted 0) (task_reply 1 True example_asked))"
  have "task_history example_class (task_reply 1 True example_asked)"
    by (rule history_reply [OF asked_history]) code_simp
  then have "task_history example_class (task_idle 1 (SRC_user_accepted 0) (task_reply 1 True example_asked))"
    by (rule history_idle) code_simp
  then have "task_history example_class ?key" by (rule history_answer) code_simp
  then have "task_history example_class (task_reply 1 True ?key)" by (rule history_reply) code_simp
  then have "task_history example_class (task_idle 2 (SRC_user_accepted 0) (task_reply 1 True ?key))"
    by (rule history_idle) code_simp
  then show ?thesis unfolding example_signed_def Let_def by (rule history_answer) code_simp
qed

lemma requests_end_witness:
  "length (filter (is_call 1) (tk_events example_signed)) = 4 \<and>
   length (filter (asks_again 1) (tk_events example_signed)) = 1 \<and>
   length (filter (is_call 1) (tk_events example_signed)) \<le>
     2 + 2 * length (filter (asks_again 1) (tk_events example_signed))"
proof (intro conjI)
  show "length (filter (is_call 1) (tk_events example_signed)) = 4"
    "length (filter (asks_again 1) (tk_events example_signed)) = 1"
    by code_simp+
qed (rule requests_end [OF signed_history])

section \<open>Each method asks for what it stands for\<close>

fun expected_action :: "task_method \<Rightarrow> client_call" where
  "expected_action (TASK_install_packages package_ids) = CLIENT_install_packages True (Some package_ids)"
| "expected_action (TASK_update_packages package_ids) = CLIENT_update_packages True (Some package_ids)"
| "expected_action (TASK_remove_packages package_ids allow_deps autoremove) = CLIENT_remove_packages (Some package_ids) allow_deps autoremove"
| "expected_action (TASK_install_files files) = CLIENT_install_files True (Some files)"
| "expected_action TASK_update_system = CLIENT_update_system True"
| "expected_action (TASK_resolve filters packages) = CLIENT_resolve filters (Some packages)"
| "expected_action (TASK_search_names filters values) = CLIENT_search_names filters (Some values)"
| "expected_action (TASK_search_details filters values) = CLIENT_search_details filters (Some values)"
| "expected_action (TASK_search_groups filters values) = CLIENT_search_groups filters (Some values)"
| "expected_action (TASK_search_files filters values) = CLIENT_search_files filters (Some values)"
| "expected_action (TASK_get_details package_ids) = CLIENT_get_details (Some package_ids)"
| "expected_action (TASK_get_update_detail package_ids) = CLIENT_get_update_detail (Some package_ids)"
| "expected_action (TASK_download_packages package_ids directory) = CLIENT_download_packages (Some package_ids) (Some directory)"
| "expected_action (TASK_get_updates filters) = CLIENT_get_updates filters"
| "expected_action (TASK_get_depends filters package_ids recursive) = CLIENT_get_depends filters (Some package_ids) recursive"
| "expected_action (TASK_get_packages filters) = CLIENT_get_packages filters"
| "expected_action (TASK_get_requires filters package_ids recursive) = CLIENT_get_requires filters (Some package_ids) recursive"
| "expected_action (TASK_what_provides filters provides values) = CLIENT_what_provides filters provides (Some values)"
| "expected_action (TASK_get_files package_ids) = CLIENT_get_files (Some package_ids)"
| "expected_action TASK_get_categories = CLIENT_get_categories"
| "expected_action (TASK_refresh_cache force) = CLIENT_refresh_cache force"
| "expected_action (TASK_rollback transaction_id) = CLIENT_rollback (Some transaction_id)"
| "expected_action (TASK_get_repo_list filters) = CLIENT_get_repo_list filters"
| "expected_action (TASK_repo_enable repo_id enabled) = CLIENT_repo_enable (Some repo_id) enabled"
| "expected_action TASK_repair_system = CLIENT_repair_system True"

fun expected_simulation :: "task_method \<Rightarrow> client_call option" where
  "expected_simulation (TASK_install_packages package_ids) = Some (CLIENT_simulate_install_packages (Some package_ids))"
| "expected_simulation (TASK_update_packages package_ids) = Some (CLIENT_simulate_update_packages (Some package_ids))"
| "expected_simulation (TASK_remove_packages package_ids allow_deps autoremove) =
     Some (CLIENT_simulate_remove_packages (Some package_ids) autoremove)"
| "expected_simulation (TASK_install_files files) = Some (CLIENT_simulate_install_files (Some files))"
| "expected_simulation TASK_repair_system = Some CLIENT_simulate_repair_system"
| "expected_simulation _ = None"

definition expected_call :: "PkTaskClass \<Rightarrow> PkTask \<Rightarrow> task_method \<Rightarrow> client_call \<times> task_callback" where
  "expected_call klass task m =
     (case expected_simulation m of
        Some call \<Rightarrow> if tk_simulate task \<and> simulate_question klass then (call, CB_simulate_ready)
                      else (expected_action m, CB_ready)
      | None \<Rightarrow> (expected_action m, CB_ready))"

lemma start_action_call:
  assumes "action_call (st\<lparr>st_request := tk_last_request task + 1, st_simulate := False\<rparr>) = Some call"
  shows "tk_events (start_action st task) = tk_events task @ [TASK_CALL (tk_last_request task + 1) call]"
    and "tk_calls (start_action st task) = tk_calls task @ [(tk_next_state task, CB_ready)]"
    and "tk_array (start_action st task) = tk_array task @ [tk_next_state task]"
  using assms
  by (simp_all add: start_action_def add_state_def pk_task_generate_request_id_def Let_def
      pk_task_do_async_action_def submit_def with_state_def)

lemma start_simulated_call:
  fixes klass :: PkTaskClass and task :: PkTask and call call' :: client_call
  assumes "action_call (st\<lparr>st_request := tk_last_request task + 1, st_simulate := False\<rparr>) = Some call"
    and "simulate_call (st\<lparr>st_request := tk_last_request task + 1, st_simulate := True\<rparr>) = Some call'"
  defines "c \<equiv> if tk_simulate task \<and> simulate_question klass then (call', CB_simulate_ready) else (call, CB_ready)"
  shows "tk_events (start_simulated klass st task) =
      tk_events task @ [TASK_CALL (tk_last_request task + 1) (fst c)]"
    and "tk_calls (start_simulated klass st task) = tk_calls task @ [(tk_next_state task, snd c)]"
    and "tk_array (start_simulated klass st task) = tk_array task @ [tk_next_state task]"
  using assms(1,2)
  by (simp_all add: c_def start_simulated_def add_state_def pk_task_generate_request_id_def Let_def
      pk_task_do_async_action_def pk_task_do_async_simulate_action_def submit_def with_state_def)

text \<open>C32: Each of the methods makes exactly one call, with its own arguments, asking for trusted packages
  only: the simulation of the action where there is one, the task simulates and the application can
  ask about it, and otherwise the action itself; its request gets the next number.\<close>

theorem methods_call:
  "tk_events (task_start klass m task) =
     tk_events task @ [TASK_CALL (tk_last_request task + 1) (fst (expected_call klass task m))] \<and>
   tk_calls (task_start klass m task) =
     tk_calls task @ [(tk_next_state task, snd (expected_call klass task m))] \<and>
   tk_array (task_start klass m task) = tk_array task @ [tk_next_state task]"
  by (cases m)
    (simp_all add: starter_defs start_action_call start_simulated_call action_call_def simulate_call_def
      task_state_new_def expected_call_def)

end
