(* ===== verification/PK_Progress.thy ===== *)
theory PK_Progress
  imports PK_Results
begin

text \<open>
  The progress object of the client (\<open>src/lib/packagekit-glib2/pk-progress.c\<close>): what the
  application is shown while a call runs. Each setter says whether the value has changed; the
  application is only told about changes. A package object is compared by its address, which is
  the number of the object here.
\<close>

datatype PkProgressType =
    PK_PROGRESS_TYPE_PACKAGE_ID
  | PK_PROGRESS_TYPE_TRANSACTION_ID
  | PK_PROGRESS_TYPE_PERCENTAGE
  | PK_PROGRESS_TYPE_SUBPERCENTAGE
  | PK_PROGRESS_TYPE_ALLOW_CANCEL
  | PK_PROGRESS_TYPE_STATUS
  | PK_PROGRESS_TYPE_ROLE
  | PK_PROGRESS_TYPE_CALLER_ACTIVE
  | PK_PROGRESS_TYPE_ELAPSED_TIME
  | PK_PROGRESS_TYPE_REMAINING_TIME
  | PK_PROGRESS_TYPE_SPEED
  | PK_PROGRESS_TYPE_UID
  | PK_PROGRESS_TYPE_PACKAGE
  | PK_PROGRESS_TYPE_ITEM_PROGRESS
  | PK_PROGRESS_TYPE_INVALID

record PkProgress =
  pr_package_id :: "string option"
  pr_transaction_id :: "string option"
  pr_percentage :: int
  pr_subpercentage :: int
  pr_item_progress_value :: guint
  pr_item_progress_id :: "string option"
  pr_allow_cancel :: bool
  pr_role :: PkRoleEnum
  pr_status :: PkStatusEnum
  pr_caller_active :: bool
  pr_elapsed_time :: guint
  pr_remaining_time :: guint
  pr_speed :: guint
  pr_uid :: guint
  pr_package :: "(nat \<times> PkPackage) option"

text \<open>\<open>pk_progress_init\<close> leaves the structure as it is allocated, zeroed.\<close>

definition pk_progress_new :: PkProgress where
  "pk_progress_new =
     \<lparr>pr_package_id = None, pr_transaction_id = None, pr_percentage = 0, pr_subpercentage = 0,
      pr_item_progress_value = 0, pr_item_progress_id = None, pr_allow_cancel = False,
      pr_role = PK_ROLE_ENUM_UNKNOWN, pr_status = PK_STATUS_ENUM_UNKNOWN, pr_caller_active = False,
      pr_elapsed_time = 0, pr_remaining_time = 0, pr_speed = 0, pr_uid = 0, pr_package = None\<rparr>"

definition pk_progress_set_package_id :: "string \<Rightarrow> PkProgress \<Rightarrow> bool \<times> PkProgress" where
  "pk_progress_set_package_id package_id progress =
     (if pr_package_id progress = Some package_id then (False, progress)
      else if \<not> pk_package_id_check (Some package_id) then (False, progress)
      else (True, progress\<lparr>pr_package_id := Some package_id\<rparr>))"

text \<open>The item is not compared with the old one: setting a valid one is a change.\<close>

definition pk_progress_set_item_progress :: "string \<Rightarrow> guint \<Rightarrow> PkProgress \<Rightarrow> bool \<times> PkProgress" where
  "pk_progress_set_item_progress package_id percentage progress =
     (if \<not> pk_package_id_check (Some package_id) then (False, progress)
      else (True, progress\<lparr>pr_item_progress_id := Some package_id, pr_item_progress_value := percentage\<rparr>))"

definition pk_progress_set_transaction_id :: "string option \<Rightarrow> PkProgress \<Rightarrow> bool \<times> PkProgress" where
  "pk_progress_set_transaction_id transaction_id progress =
     (if pr_transaction_id progress = transaction_id then (False, progress)
      else (True, progress\<lparr>pr_transaction_id := transaction_id\<rparr>))"

definition pk_progress_set_percentage :: "int \<Rightarrow> PkProgress \<Rightarrow> bool \<times> PkProgress" where
  "pk_progress_set_percentage percentage progress =
     (if pr_percentage progress = percentage then (False, progress)
      else (True, progress\<lparr>pr_percentage := percentage\<rparr>))"

definition pk_progress_set_subpercentage :: "int \<Rightarrow> PkProgress \<Rightarrow> bool \<times> PkProgress" where
  "pk_progress_set_subpercentage subpercentage progress =
     (if pr_subpercentage progress = subpercentage then (False, progress)
      else (True, progress\<lparr>pr_subpercentage := subpercentage\<rparr>))"

definition pk_progress_set_status :: "PkStatusEnum \<Rightarrow> PkProgress \<Rightarrow> bool \<times> PkProgress" where
  "pk_progress_set_status status progress =
     (if pr_status progress = status then (False, progress)
      else (True, progress\<lparr>pr_status := status\<rparr>))"

definition pk_progress_set_role :: "PkRoleEnum \<Rightarrow> PkProgress \<Rightarrow> bool \<times> PkProgress" where
  "pk_progress_set_role role progress =
     (if pr_role progress = role then (False, progress)
      else (True, progress\<lparr>pr_role := role\<rparr>))"

definition pk_progress_set_allow_cancel :: "bool \<Rightarrow> PkProgress \<Rightarrow> bool \<times> PkProgress" where
  "pk_progress_set_allow_cancel allow_cancel progress =
     (if pr_allow_cancel progress = allow_cancel then (False, progress)
      else (True, progress\<lparr>pr_allow_cancel := allow_cancel\<rparr>))"

definition pk_progress_set_caller_active :: "bool \<Rightarrow> PkProgress \<Rightarrow> bool \<times> PkProgress" where
  "pk_progress_set_caller_active caller_active progress =
     (if pr_caller_active progress = caller_active then (False, progress)
      else (True, progress\<lparr>pr_caller_active := caller_active\<rparr>))"

definition pk_progress_set_elapsed_time :: "guint \<Rightarrow> PkProgress \<Rightarrow> bool \<times> PkProgress" where
  "pk_progress_set_elapsed_time elapsed_time progress =
     (if pr_elapsed_time progress = elapsed_time then (False, progress)
      else (True, progress\<lparr>pr_elapsed_time := elapsed_time\<rparr>))"

definition pk_progress_set_remaining_time :: "guint \<Rightarrow> PkProgress \<Rightarrow> bool \<times> PkProgress" where
  "pk_progress_set_remaining_time remaining_time progress =
     (if pr_remaining_time progress = remaining_time then (False, progress)
      else (True, progress\<lparr>pr_remaining_time := remaining_time\<rparr>))"

definition pk_progress_set_speed :: "guint \<Rightarrow> PkProgress \<Rightarrow> bool \<times> PkProgress" where
  "pk_progress_set_speed speed progress =
     (if pr_speed progress = speed then (False, progress)
      else (True, progress\<lparr>pr_speed := speed\<rparr>))"

definition pk_progress_set_uid :: "guint \<Rightarrow> PkProgress \<Rightarrow> bool \<times> PkProgress" where
  "pk_progress_set_uid uid progress =
     (if pr_uid progress = uid then (False, progress)
      else (True, progress\<lparr>pr_uid := uid\<rparr>))"

definition pk_progress_set_package :: "nat \<times> PkPackage \<Rightarrow> PkProgress \<Rightarrow> bool \<times> PkProgress" where
  "pk_progress_set_package package progress =
     (if map_option fst (pr_package progress) = Some (fst package) then (False, progress)
      else (True, progress\<lparr>pr_package := Some package\<rparr>))"

lemmas progress_defs =
  pk_progress_set_package_id_def pk_progress_set_item_progress_def pk_progress_set_transaction_id_def
  pk_progress_set_percentage_def pk_progress_set_subpercentage_def pk_progress_set_status_def
  pk_progress_set_role_def pk_progress_set_allow_cancel_def pk_progress_set_caller_active_def
  pk_progress_set_elapsed_time_def pk_progress_set_remaining_time_def pk_progress_set_speed_def
  pk_progress_set_uid_def pk_progress_set_package_def

end
