(* ===== verification/PK_Client.thy ===== *)
theory PK_Client
  imports PK_Progress PK_Client_Calls PK_Transaction
begin

text \<open>
  The client (\<open>src/lib/packagekit-glib2/pk-client.c\<close>): the object of the library that makes one
  method call of the daemon after another into one call of the application. A call gets an
  identifier for a transaction, connects to its object, sends the hints, calls the method and then
  collects the signals of the transaction until it is finished; then its state is freed.

  The states of the calls live in a store by their address. What the client waits for - answers
  on the bus and copies of files - is a list of pending operations, whose callbacks run when the
  environment answers; the events are what the client does, in the order in which it happens.
\<close>

section \<open>State\<close>

record PkClientState =
  cs_allow_deps :: bool
  cs_autoremove :: bool
  cs_enabled :: bool
  cs_force :: bool
  cs_only_trusted :: bool
  cs_recursive :: bool
  cs_ret :: bool
  cs_directory :: "string option"
  cs_eula_id :: "string option"
  cs_files :: "string list option"
  cs_key_id :: "string option"
  cs_package_id :: "string option"
  cs_package_ids :: "string list option"
  cs_parameter :: "string option"
  cs_repo_id :: "string option"
  cs_search :: "string list option"
  cs_tid :: "string option"
  cs_distro_id :: "string option"
  cs_transaction_id :: "string option"
  cs_value :: "string option"
  cs_number :: guint
  cs_cancellable_id :: bool
  cs_cancellable_client :: bool
  cs_proxy :: bool
  cs_filters :: PkBitfield
  cs_progress :: PkProgress
  cs_progress_callback :: bool
  cs_provides :: PkProvidesEnum
  cs_results :: "PkResults option"
  cs_inputs :: nat
  cs_role :: PkRoleEnum
  cs_type :: PkSigTypeEnum
  cs_upgrade_kind :: PkUpgradeKindEnum
  cs_refcount :: guint
  cs_client_helper :: bool

text \<open>
  The structure is zeroed when it is allocated and gets a progress object; \<open>cs_inputs\<close> is the
  property of the results that has the number of things that were asked for.
\<close>

definition client_state_new :: "PkRoleEnum \<Rightarrow> PkClientState" where
  "client_state_new role =
     \<lparr>cs_allow_deps = False, cs_autoremove = False, cs_enabled = False, cs_force = False,
      cs_only_trusted = False, cs_recursive = False, cs_ret = False, cs_directory = None,
      cs_eula_id = None, cs_files = None, cs_key_id = None, cs_package_id = None,
      cs_package_ids = None, cs_parameter = None, cs_repo_id = None, cs_search = None,
      cs_tid = None, cs_distro_id = None, cs_transaction_id = None, cs_value = None,
      cs_number = 0, cs_cancellable_id = False, cs_cancellable_client = False, cs_proxy = False,
      cs_filters = 0, cs_progress = pk_progress_new, cs_progress_callback = False,
      cs_provides = PK_PROVIDES_ENUM_UNKNOWN, cs_results = None, cs_inputs = 0, cs_role = role,
      cs_type = PK_SIGTYPE_ENUM_UNKNOWN, cs_upgrade_kind = PK_UPGRADE_KIND_ENUM_UNKNOWN,
      cs_refcount = 0, cs_client_helper = False\<rparr>"

text \<open>The arguments of a method call on the bus.\<close>

datatype bus_value = B_string string | B_strings "string list" | B_bool bool | B_uint guint

text \<open>What the client waits for; the copies have the path to which the file is copied.\<close>

datatype client_op =
    OP_get_tid | OP_get_proxy | OP_set_hints | OP_method | OP_cancel
  | OP_copy_downloaded string | OP_copy_native string | OP_adopt_proxy | OP_progress_proxy

datatype client_event =
    EV_GET_TID nat
  | EV_CONNECT nat string
  | EV_CALL nat string "bus_value list"
  | EV_COPY nat string string
  | EV_PROGRESS nat PkProgressType PkProgress
  | EV_IDLE bool
  | EV_DONE nat "client_error option + PkResults option"
  | EV_DONE_PROGRESS nat "client_error option + PkProgress"

text \<open>
  \<open>cl_handlers\<close> has the states whose handler is connected to the cancellable of the application,
  \<open>cl_next_object\<close> numbers the package objects, and \<open>cl_undefined\<close> is set when a freed state is
  used, a missing pointer is sent on the bus or the process aborts.
\<close>

record PkClient =
  cl_calls :: "nat list"
  cl_locale :: "string option"
  cl_background :: bool
  cl_interactive :: bool
  cl_idle :: bool
  cl_cache_age :: guint
  cl_states :: "nat \<Rightarrow> PkClientState option"
  cl_next_state :: nat
  cl_next_object :: nat
  cl_pending :: "(nat \<times> client_op) list"
  cl_handlers :: "nat list"
  cl_events :: "client_event list"
  cl_undefined :: bool

definition pk_client_init :: "string option \<Rightarrow> PkClient" where
  "pk_client_init locale =
     \<lparr>cl_calls = [], cl_locale = locale, cl_background = False, cl_interactive = True, cl_idle = True,
      cl_cache_age = 0, cl_states = (\<lambda>a. None), cl_next_state = 0, cl_next_object = 0,
      cl_pending = [], cl_handlers = [], cl_events = [], cl_undefined = False\<rparr>"

definition pk_client_set_locale :: "string option \<Rightarrow> PkClient \<Rightarrow> PkClient" where
  "pk_client_set_locale value c = c\<lparr>cl_locale := value\<rparr>"

definition pk_client_get_locale :: "PkClient \<Rightarrow> string option" where
  "pk_client_get_locale c = cl_locale c"

definition pk_client_set_background :: "bool \<Rightarrow> PkClient \<Rightarrow> PkClient" where
  "pk_client_set_background background c = c\<lparr>cl_background := background\<rparr>"

definition pk_client_get_background :: "PkClient \<Rightarrow> bool" where
  "pk_client_get_background c = cl_background c"

definition pk_client_set_interactive :: "bool \<Rightarrow> PkClient \<Rightarrow> PkClient" where
  "pk_client_set_interactive interactive c = c\<lparr>cl_interactive := interactive\<rparr>"

definition pk_client_get_interactive :: "PkClient \<Rightarrow> bool" where
  "pk_client_get_interactive c = cl_interactive c"

definition pk_client_get_idle :: "PkClient \<Rightarrow> bool" where
  "pk_client_get_idle c = cl_idle c"

definition pk_client_set_cache_age :: "guint \<Rightarrow> PkClient \<Rightarrow> PkClient" where
  "pk_client_set_cache_age cache_age c = c\<lparr>cl_cache_age := cache_age\<rparr>"

definition pk_client_get_cache_age :: "PkClient \<Rightarrow> guint" where
  "pk_client_get_cache_age c = cl_cache_age c"

definition client_emit :: "client_event \<Rightarrow> PkClient \<Rightarrow> PkClient" where
  "client_emit e c = c\<lparr>cl_events := cl_events c @ [e]\<rparr>"

definition client_wait :: "nat \<Rightarrow> client_op \<Rightarrow> PkClient \<Rightarrow> PkClient" where
  "client_wait a op c = c\<lparr>cl_pending := cl_pending c @ [(a, op)]\<rparr>"

definition with_cs :: "nat \<Rightarrow> (PkClientState \<Rightarrow> PkClient \<Rightarrow> PkClient) \<Rightarrow> PkClient \<Rightarrow> PkClient" where
  "with_cs a f c =
     (case cl_states c a of None \<Rightarrow> c\<lparr>cl_undefined := True\<rparr> | Some st \<Rightarrow> f st c)"

definition upd_cs :: "nat \<Rightarrow> (PkClientState \<Rightarrow> PkClientState) \<Rightarrow> PkClient \<Rightarrow> PkClient" where
  "upd_cs a f c = with_cs a (\<lambda>st c. c\<lparr>cl_states := (cl_states c)(a := Some (f st))\<rparr>) c"

text \<open>Setting a value of the progress object, and telling the application when it has changed.\<close>

definition report ::
  "PkProgressType \<Rightarrow> (PkProgress \<Rightarrow> bool \<times> PkProgress) \<Rightarrow> nat \<Rightarrow> PkClient \<Rightarrow> PkClient" where
  "report type set_value a c =
     with_cs a (\<lambda>st c.
       let (ret, progress) = set_value (cs_progress st);
           c = upd_cs a (\<lambda>st. st\<lparr>cs_progress := progress\<rparr>) c
       in if ret \<and> cs_progress_callback st then client_emit (EV_PROGRESS a type progress) c else c) c"

section \<open>Errors of the bus\<close>

definition pk_client_fixup_dbus_error :: "string \<Rightarrow> client_error" where
  "pk_client_fixup_dbus_error message =
     (if g_str_has_prefix message ''org.freedesktop.packagekit.'' then
        CLIENT_ERROR PK_CLIENT_ERROR_FAILED_AUTH ''PolicyKit authorization failure''
      else
        let name = (if g_str_has_prefix message ''org.freedesktop.PackageKit.Transaction.''
                    then drop 39 message else message)
        in if g_str_has_prefix name ''PermissionDenied'' \<or> g_str_has_prefix name ''RefusedByPolicy'' then
             CLIENT_ERROR PK_CLIENT_ERROR_FAILED_AUTH message
           else if g_str_has_prefix name ''PackageIdInvalid'' \<or> g_str_has_prefix name ''SearchInvalid'' \<or>
                   g_str_has_prefix name ''FilterInvalid'' \<or> g_str_has_prefix name ''InvalidProvide'' \<or>
                   g_str_has_prefix name ''InputInvalid'' then
             CLIENT_ERROR PK_CLIENT_ERROR_INVALID_INPUT message
           else if g_str_has_prefix name ''PackInvalid'' \<or> g_str_has_prefix name ''NoSuchFile'' \<or>
                   g_str_has_prefix name ''MimeTypeNotSupported'' \<or>
                   g_str_has_prefix name ''NoSuchDirectory'' then
             CLIENT_ERROR PK_CLIENT_ERROR_INVALID_FILE message
           else if g_str_has_prefix name ''NotSupported'' then
             CLIENT_ERROR PK_CLIENT_ERROR_NOT_SUPPORTED message
           else CLIENT_ERROR PK_CLIENT_ERROR_FAILED message)"

section \<open>The end of a call\<close>

text \<open>
  \<open>idle\<close> is announced when it changes. Only two functions enter a state with
  \<open>pk_client_state_add\<close>.
\<close>

definition update_idle :: "PkClient \<Rightarrow> PkClient" where
  "update_idle c =
     (let is_idle = (length (cl_calls c) = 0)
      in if is_idle \<noteq> cl_idle c then client_emit (EV_IDLE is_idle) (c\<lparr>cl_idle := is_idle\<rparr>) else c)"

definition pk_client_state_remove :: "nat \<Rightarrow> PkClient \<Rightarrow> PkClient" where
  "pk_client_state_remove a c = update_idle (c\<lparr>cl_calls := remove1 a (cl_calls c)\<rparr>)"

definition pk_client_state_add :: "nat \<Rightarrow> PkClient \<Rightarrow> PkClient" where
  "pk_client_state_add a c = update_idle (c\<lparr>cl_calls := cl_calls c @ [a]\<rparr>)"

text \<open>
  The handler is disconnected from the cancellable that is kept in \<open>cancellable_client\<close>; without
  one it stays connected.
\<close>

definition disconnect :: "nat \<Rightarrow> PkClientState \<Rightarrow> PkClient \<Rightarrow> PkClient" where
  "disconnect a st c =
     (if cs_cancellable_id st \<and> cs_cancellable_client st
      then c\<lparr>cl_handlers := removeAll a (cl_handlers c)\<rparr> else c)"

definition pk_client_state_finish :: "client_error option \<Rightarrow> nat \<Rightarrow> PkClient \<Rightarrow> PkClient" where
  "pk_client_state_finish error a c =
     (let c = report PK_PROGRESS_TYPE_STATUS (pk_progress_set_status PK_STATUS_ENUM_FINISHED) a c
      in with_cs a (\<lambda>st c.
           let outcome = (if cs_ret st then Inr (cs_results st) else Inl error);
               c = disconnect a st c;
               c = pk_client_state_remove a c;
               c = client_emit (EV_DONE a outcome) c
           in c\<lparr>cl_states := (cl_states c)(a := None)\<rparr>) c)"

text \<open>The results of a call that succeeds are there: they are taken a reference of.\<close>

definition pk_client_get_progress_state_finish :: "client_error option \<Rightarrow> nat \<Rightarrow> PkClient \<Rightarrow> PkClient" where
  "pk_client_get_progress_state_finish error a c =
     with_cs a (\<lambda>st c.
       let outcome = (if cs_ret st then Inr (cs_progress st) else Inl error);
           c = disconnect a st c;
           c = pk_client_state_remove a c;
           c = client_emit (EV_DONE_PROGRESS a outcome) c
       in c\<lparr>cl_states := (cl_states c)(a := None)\<rparr>) c"

section \<open>Properties of the transaction\<close>

definition pk_client_percentage_to_signed :: "guint \<Rightarrow> int" where
  "pk_client_percentage_to_signed percentage = (if percentage = 101 then - 1 else sint percentage)"

text \<open>Reading a value of another type gives \<open>NULL\<close>, 0 or \<open>FALSE\<close> with a warning.\<close>

fun variant_string :: "dbus_value \<Rightarrow> string option" where
  "variant_string (V_string s) = Some s"
| "variant_string _ = None"

fun variant_uint :: "dbus_value \<Rightarrow> guint" where
  "variant_uint (V_uint n) = n"
| "variant_uint _ = 0"

fun variant_bool :: "dbus_value \<Rightarrow> bool" where
  "variant_bool (V_bool b) = b"
| "variant_bool _ = False"

definition pk_client_set_property_value :: "string \<Rightarrow> dbus_value \<Rightarrow> nat \<Rightarrow> PkClient \<Rightarrow> PkClient" where
  "pk_client_set_property_value key value a =
     (if key = ''Role'' then
        report PK_PROGRESS_TYPE_ROLE (pk_progress_set_role (pk_role_enum_from_string (variant_string value))) a
      else if key = ''Status'' then
        report PK_PROGRESS_TYPE_STATUS (pk_progress_set_status (pk_status_enum_from_string (variant_string value))) a
      else if key = ''LastPackage'' then
        (case variant_string value of
           None \<Rightarrow> id
         | Some package_id \<Rightarrow>
             if \<not> pk_package_id_check (Some package_id) then id
             else report PK_PROGRESS_TYPE_PACKAGE_ID (pk_progress_set_package_id package_id) a)
      else if key = ''Percentage'' then
        report PK_PROGRESS_TYPE_PERCENTAGE
          (pk_progress_set_percentage (pk_client_percentage_to_signed (variant_uint value))) a
      else if key = ''Subpercentage'' then
        report PK_PROGRESS_TYPE_SUBPERCENTAGE
          (pk_progress_set_subpercentage (pk_client_percentage_to_signed (variant_uint value))) a
      else if key = ''AllowCancel'' then
        report PK_PROGRESS_TYPE_ALLOW_CANCEL (pk_progress_set_allow_cancel (variant_bool value)) a
      else if key = ''CallerActive'' then
        report PK_PROGRESS_TYPE_CALLER_ACTIVE (pk_progress_set_caller_active (variant_bool value)) a
      else if key = ''ElapsedTime'' then
        report PK_PROGRESS_TYPE_ELAPSED_TIME (pk_progress_set_elapsed_time (variant_uint value)) a
      else if key = ''RemainingTime'' then
        report PK_PROGRESS_TYPE_REMAINING_TIME (pk_progress_set_elapsed_time (variant_uint value)) a
      else if key = ''Speed'' then
        report PK_PROGRESS_TYPE_SPEED (pk_progress_set_speed (variant_uint value)) a
      else if key = ''Uid'' then
        report PK_PROGRESS_TYPE_UID (pk_progress_set_uid (variant_uint value)) a
      else id)"

definition pk_client_properties_changed_cb ::
  "(string \<times> dbus_value) list \<Rightarrow> nat \<Rightarrow> PkClient \<Rightarrow> PkClient" where
  "pk_client_properties_changed_cb changed a c =
     fold (\<lambda>(key, value). pk_client_set_property_value key value a) changed c"

end
