(* ===== verification/PK_Client_Signals.thy ===== *)
theory PK_Client_Signals
  imports PK_Client
begin

text \<open>
  What the client does with the signals of a transaction: the reports become objects of the
  results, and the end of the transaction ends the call. The files of a download are copied from
  the cache of the daemon to the directory of the application first.
\<close>

section \<open>Reports\<close>

definition add_report :: "(PkResults \<Rightarrow> PkResults) \<Rightarrow> nat \<Rightarrow> PkClient \<Rightarrow> PkClient" where
  "add_report f a c = upd_cs a (\<lambda>st. st\<lparr>cs_results := map_option f (cs_results st)\<rparr>) c"

definition verb_infos :: "PkInfoEnum list" where
  "verb_infos =
     [PK_INFO_ENUM_DOWNLOADING, PK_INFO_ENUM_UPDATING, PK_INFO_ENUM_INSTALLING, PK_INFO_ENUM_REMOVING,
      PK_INFO_ENUM_CLEANUP, PK_INFO_ENUM_OBSOLETING, PK_INFO_ENUM_REINSTALLING,
      PK_INFO_ENUM_DOWNGRADING, PK_INFO_ENUM_PREPARING, PK_INFO_ENUM_DECOMPRESSING,
      PK_INFO_ENUM_FINISHED]"

definition pk_client_signal_package ::
  "PkInfoEnum \<Rightarrow> string \<Rightarrow> string \<Rightarrow> nat \<Rightarrow> PkClient \<Rightarrow> PkClient" where
  "pk_client_signal_package info_enum package_id summary a c =
     (if \<not> pk_package_set_id package_id then c
      else
        let package = \<lparr>pkg_info = info_enum, pkg_id = package_id, pkg_summary = Some summary\<rparr>;
            object_ref = cl_next_object c;
            c = c\<lparr>cl_next_object := Suc object_ref\<rparr>;
            c = (if info_enum \<noteq> PK_INFO_ENUM_FINISHED then add_report (pk_results_add_package package) a c
                 else c)
        in if info_enum \<in> set verb_infos then
             let c = report PK_PROGRESS_TYPE_PACKAGE_ID (pk_progress_set_package_id package_id) a c
             in report PK_PROGRESS_TYPE_PACKAGE (pk_progress_set_package (object_ref, package)) a c
           else c)"

section \<open>Copying downloads\<close>

text \<open>Two functions of GLib on paths, as they are documented.\<close>

definition g_path_get_basename :: "string \<Rightarrow> string" where
  "g_path_get_basename file_name =
     (if file_name = [] then ''.''
      else
        let reversed = dropWhile (\<lambda>x. x = CHR ''/'') (rev file_name)
        in if reversed = [] then ''/'' else rev (takeWhile (\<lambda>x. x \<noteq> CHR ''/'') reversed))"

definition g_build_filename :: "string \<Rightarrow> string \<Rightarrow> string" where
  "g_build_filename first second =
     (if first = [] then second
      else if second = [] then first
      else rev (dropWhile (\<lambda>x. x = CHR ''/'') (rev first)) @ ''/'' @
             dropWhile (\<lambda>x. x = CHR ''/'') second)"

definition pk_client_copy_downloaded_file :: "string \<Rightarrow> string \<Rightarrow> nat \<Rightarrow> PkClient \<Rightarrow> PkClient" where
  "pk_client_copy_downloaded_file package_id source_file a c =
     with_cs a (\<lambda>st c.
       let basename = g_path_get_basename source_file;
           path = (case cs_directory st of None \<Rightarrow> [] | Some d \<Rightarrow> g_build_filename d basename);
           c = client_wait a (OP_copy_downloaded path) (client_emit (EV_COPY a source_file path) c);
           files = g_strsplit CHR '','' path
       in add_report (pk_results_add_files \<lparr>fl_package_id = package_id, fl_files = files\<rparr>) a c) c"

text \<open>\<open>len\<close> is read before the copies add items of their own to the array.\<close>

definition pk_client_copy_downloaded :: "nat \<Rightarrow> PkClient \<Rightarrow> PkClient" where
  "pk_client_copy_downloaded a c =
     with_cs a (\<lambda>st c.
       case cs_results st of
         None \<Rightarrow> c
       | Some results \<Rightarrow>
           let array = files_array results;
               count = sum_list (map (\<lambda>item. of_nat (length (fl_files item))) array);
               c = upd_cs a (\<lambda>st. st\<lparr>cs_refcount := cs_refcount st + count\<rparr>) c;
               c = report PK_PROGRESS_TYPE_PERCENTAGE (pk_progress_set_percentage (- 1)) a c
           in fold (\<lambda>item. fold (\<lambda>file. pk_client_copy_downloaded_file (fl_package_id item) file a)
                     (fl_files item)) array c) c"

definition g_ptr_array_remove_index_fast :: "nat \<Rightarrow> 'a list \<Rightarrow> 'a list" where
  "g_ptr_array_remove_index_fast i xs =
     (if Suc i = length xs then butlast xs else (butlast xs)[i := last xs])"

lemma length_remove_fast [simp]: "xs \<noteq> [] \<Longrightarrow> length (g_ptr_array_remove_index_fast i xs) = length xs - 1"
  by (simp add: g_ptr_array_remove_index_fast_def)

text \<open>Without a first file \<open>g_str_has_prefix\<close> is given \<open>NULL\<close> and is false.\<close>

definition below_directory :: "string option \<Rightarrow> PkFiles \<Rightarrow> bool" where
  "below_directory directory item =
     (case (fl_files item, directory) of (f # fs, Some d) \<Rightarrow> g_str_has_prefix f d | _ \<Rightarrow> False)"

function remove_old_loop :: "string option \<Rightarrow> nat \<Rightarrow> PkFiles list \<Rightarrow> PkFiles list" where
  "remove_old_loop directory i array =
     (if i < length array then
        if \<not> below_directory directory (array ! i)
        then remove_old_loop directory i (g_ptr_array_remove_index_fast i array)
        else remove_old_loop directory (Suc i) array
      else array)"
  by pat_completeness auto

termination
  by (relation "measure (\<lambda>(directory, i, array). 2 * length array - i)")
    (auto simp: g_ptr_array_remove_index_fast_def)

declare remove_old_loop.simps [simp del]

definition pk_client_copy_finished_remove_old_files :: "nat \<Rightarrow> PkClient \<Rightarrow> PkClient" where
  "pk_client_copy_finished_remove_old_files a c =
     with_cs a (\<lambda>st c.
       add_report (\<lambda>results. results\<lparr>files_array := remove_old_loop (cs_directory st) 0 (files_array results)\<rparr>)
         a c) c"

text \<open>The argument is the error of the copy; \<open>None\<close> is success.\<close>

definition pk_client_copy_downloaded_finished_cb :: "client_error option \<Rightarrow> nat \<Rightarrow> PkClient \<Rightarrow> PkClient" where
  "pk_client_copy_downloaded_finished_cb error a c =
     (case error of
        Some e \<Rightarrow> pk_client_state_finish (Some e) a c
      | None \<Rightarrow>
          let c = upd_cs a (\<lambda>st. st\<lparr>cs_refcount := cs_refcount st - 1\<rparr>) c
          in with_cs a (\<lambda>st c.
               if cs_refcount st = 0 then
                 let c = pk_client_copy_finished_remove_old_files a c;
                     c = upd_cs a (\<lambda>st. st\<lparr>cs_ret := True\<rparr>) c
                 in pk_client_state_finish None a c
               else c) c)"

definition pk_client_copy_progress_cb :: "int \<Rightarrow> int \<Rightarrow> nat \<Rightarrow> PkClient \<Rightarrow> PkClient" where
  "pk_client_copy_progress_cb current_num_bytes total_num_bytes a c =
     (let c = report PK_PROGRESS_TYPE_STATUS (pk_progress_set_status PK_STATUS_ENUM_COPY_FILES) a c;
          percentage = (if total_num_bytes > 0 then (100 * current_num_bytes) div total_num_bytes else - 1)
      in report PK_PROGRESS_TYPE_PERCENTAGE (pk_progress_set_percentage percentage) a c)"

section \<open>The end of the transaction\<close>

definition finished_error :: "PkResults option \<Rightarrow> PkExitEnum \<Rightarrow> client_error" where
  "finished_error results exit_enum =
     (case Option.bind results res_error_code of
        Some e \<Rightarrow> DAEMON_ERROR (er_code e) (er_details e)
      | None \<Rightarrow> CLIENT_ERROR PK_CLIENT_ERROR_FAILED (''Failed: '' @ pk_exit_enum_to_string exit_enum))"

definition pk_client_signal_finished :: "PkExitEnum \<Rightarrow> nat \<Rightarrow> PkClient \<Rightarrow> PkClient" where
  "pk_client_signal_finished exit_enum a c =
     (let c = add_report (pk_results_set_exit_code exit_enum) a c
      in with_cs a (\<lambda>st c.
           if exit_enum = PK_EXIT_ENUM_FAILED then
             pk_client_state_finish (Some (finished_error (cs_results st) exit_enum)) a c
           else if cs_role st = PK_ROLE_ENUM_DOWNLOAD_PACKAGES \<and> cs_directory st \<noteq> None then
             pk_client_copy_downloaded a c
           else
             let c = upd_cs a (\<lambda>st. st\<lparr>cs_ret := True\<rparr>) c
             in pk_client_state_finish None a c) c)"

section \<open>Signals\<close>

text \<open>
  The signals that arrive. \<open>Transaction\<close> reports a transaction of the past. A signal
  with a string that is missing, which no text of D-Bus can stand for, does not get on the bus: it is dropped here. The user id of \<open>RepoSignatureRequired\<close> is taken from the
  field of the URL, and each field after it from the one before.
\<close>

datatype client_signal =
    SIG dbus_signal
  | SIG_Transaction string string bool string guint string guint string
  | SIG_unknown string

text \<open>The state of an upgrade is looked up as that of an update; its number is stored.\<close>

definition upgrade_state :: "string \<Rightarrow> PkDistroUpgradeEnum" where
  "upgrade_state s =
     (case pk_update_state_enum_from_string (Some s) of
        PK_UPDATE_STATE_ENUM_UNKNOWN \<Rightarrow> PK_DISTRO_UPGRADE_ENUM_UNKNOWN
      | PK_UPDATE_STATE_ENUM_STABLE \<Rightarrow> PK_DISTRO_UPGRADE_ENUM_STABLE
      | PK_UPDATE_STATE_ENUM_UNSTABLE \<Rightarrow> PK_DISTRO_UPGRADE_ENUM_UNSTABLE
      | _ \<Rightarrow> PK_DISTRO_UPGRADE_ENUM_LAST)"

fun signal_report :: "client_signal \<Rightarrow> PkResults \<Rightarrow> PkResults" where
  "signal_report (SIG (DBUS_Message type details)) =
     pk_results_add_message \<lparr>ms_type = pk_message_enum_from_string (Some type), ms_details = details\<rparr>"
| "signal_report (SIG (DBUS_Details package_id license group_text description url bytes)) =
     pk_results_add_details
       \<lparr>dt_package_id = package_id, dt_license = Some license,
        dt_group = pk_group_enum_from_string (Some group_text), dt_description = Some description,
        dt_url = Some url, dt_size = bytes\<rparr>"
| "signal_report (SIG (DBUS_UpdateDetail [t0, t1, t2, t3, t4, t5, t6, t7, t8, t9, t10, t11])) =
     pk_results_add_update_detail
       \<lparr>ud_package_id = t0, ud_updates = Some t1, ud_obsoletes = Some t2, ud_vendor_url = Some t3,
        ud_bugzilla_url = Some t4, ud_cve_url = Some t5,
        ud_restart = pk_restart_enum_from_string (Some t6), ud_update_text = Some t7,
        ud_changelog = Some t8, ud_state = pk_update_state_enum_from_string (Some t9),
        ud_issued = Some t10, ud_updated = Some t11\<rparr>"
| "signal_report (SIG_Transaction tid timespec succeeded role duration data uid cmdline) =
     pk_results_add_transaction
       \<lparr>tp_tid = tid, tp_timespec = timespec, tp_succeeded = succeeded,
        tp_role = pk_role_enum_from_string (Some role), tp_duration = duration, tp_data = data,
        tp_uid = uid, tp_cmdline = cmdline\<rparr>"
| "signal_report (SIG (DBUS_DistroUpgrade state name summary)) =
     (case name of
        Some n \<Rightarrow> pk_results_add_distro_upgrade
          \<lparr>du_state = upgrade_state state, du_name = Some n, du_summary = Some summary\<rparr>
      | None \<Rightarrow> id)"
| "signal_report (SIG (DBUS_RequireRestart restart package_id)) =
     pk_results_add_require_restart
       \<lparr>rr_restart = pk_restart_enum_from_string (Some restart), rr_package_id = package_id\<rparr>"
| "signal_report (SIG (DBUS_Category parent_id cat_id name summary icon)) =
     (case those [parent_id, name, summary] of
        Some [p, n, s] \<Rightarrow> pk_results_add_category
          \<lparr>ct_parent_id = Some p, ct_cat_id = cat_id, ct_name = Some n, ct_summary = Some s,
           ct_icon = Some icon\<rparr>
      | _ \<Rightarrow> id)"
| "signal_report (SIG (DBUS_Files package_id files)) =
     pk_results_add_files \<lparr>fl_package_id = package_id, fl_files = g_strsplit CHR '';'' files\<rparr>"
| "signal_report (SIG (DBUS_RepoSignatureRequired texts)) =
     (case those texts of
        Some [t0, t1, t2, t3, t4, t5, t6, t7] \<Rightarrow> pk_results_add_repo_signature_required
          \<lparr>sg_package_id = Some t0, sg_repository_name = t1, sg_key_url = Some t2, sg_key_userid = Some t2,
           sg_key_id = Some t3, sg_key_fingerprint = Some t4, sg_key_timestamp = Some t5,
           sg_type = pk_sig_type_enum_from_string (Some t6)\<rparr>
      | _ \<Rightarrow> id)"
| "signal_report (SIG (DBUS_EulaRequired eula_id package_id vendor_name license_agreement)) =
     pk_results_add_eula_required
       \<lparr>eu_eula_id = eula_id, eu_package_id = package_id, eu_vendor_name = vendor_name,
        eu_license_agreement = license_agreement\<rparr>"
| "signal_report (SIG (DBUS_RepoDetail repo_id description enabled)) =
     pk_results_add_repo_detail
       \<lparr>rd_repo_id = repo_id, rd_description = Some description, rd_enabled = enabled\<rparr>"
| "signal_report (SIG (DBUS_ErrorCode code details)) =
     pk_results_set_error_code
       \<lparr>er_code = pk_error_enum_from_string (Some code), er_details = details\<rparr>"
| "signal_report (SIG (DBUS_MediaChangeRequired media_type media_id media_text)) =
     pk_results_add_media_change_required
       \<lparr>mc_media_type = pk_media_type_enum_from_string (Some media_type), mc_media_id = media_id,
        mc_media_text = media_text\<rparr>"
| "signal_report _ = id"

text \<open>\<open>ItemProgress\<close>, \<open>Changed\<close> and \<open>Destroy\<close> are read and dropped, unknown signals logged.\<close>

definition pk_client_signal_cb :: "client_signal \<Rightarrow> nat \<Rightarrow> PkClient \<Rightarrow> PkClient" where
  "pk_client_signal_cb s a =
     (case s of
        SIG (DBUS_PropertiesChanged key value) \<Rightarrow> pk_client_properties_changed_cb [(key, value)] a
      | SIG (DBUS_Finished exit_text runtime) \<Rightarrow>
          pk_client_signal_finished (pk_exit_enum_from_string (Some exit_text)) a
      | SIG (DBUS_Package info package_id summary) \<Rightarrow>
          pk_client_signal_package (pk_info_enum_from_string (Some info)) package_id (or_empty summary) a
      | SIG (DBUS_ItemProgress package_id percentage) \<Rightarrow> id
      | SIG DBUS_Changed \<Rightarrow> id
      | SIG DBUS_Destroy \<Rightarrow> id
      | SIG_unknown name \<Rightarrow> id
      | _ \<Rightarrow> add_report (signal_report s) a)"

end
