(* ===== verification/PK_Client_Run.thy ===== *)
theory PK_Client_Run
  imports PK_Client_Signals PK_Shared
begin

text \<open>
  The calls of the client from their start to the method call on the bus, the callbacks of the
  pending operations, the copies of files that the daemon cannot read, cancelling, and adopting
  or looking at a transaction of somebody else.
\<close>

section \<open>The environment\<close>

text \<open>What the client asks the system: paths, variables, and whether files and programs are there.\<close>

record client_env =
  ce_realpath :: "string \<Rightarrow> string option"
  ce_is_native :: "string \<Rightarrow> bool"
  ce_home_dir :: string
  ce_make_directory :: "string \<Rightarrow> bool"
  ce_tmp_dir :: string
  ce_self_test :: bool
  ce_test_helper :: bool
  ce_debconf :: bool
  ce_verbose :: bool
  ce_term :: "string option"
  ce_display :: "string option"
  ce_kde_full_session :: "string option"
  ce_helper_start :: bool

section \<open>The method call\<close>

definition bus_string :: "string option \<Rightarrow> bus_value option" where
  "bus_string = map_option B_string"

definition bus_strings :: "string list option \<Rightarrow> bus_value option" where
  "bus_strings = map_option B_strings"

text \<open>An argument \<open>None\<close> is a \<open>NULL\<close> pointer, which cannot be sent.\<close>

definition client_bus_call :: "PkClientState \<Rightarrow> (string \<times> bus_value option list) option" where
  "client_bus_call st =
     (if cs_role st = PK_ROLE_ENUM_RESOLVE then
       Some (''Resolve'', [Some (B_string (pk_filter_bitfield_to_string (cs_filters st))),
         bus_strings (cs_package_ids st)])
     else if cs_role st = PK_ROLE_ENUM_SEARCH_NAME then
       Some (''SearchNames'', [Some (B_string (pk_filter_bitfield_to_string (cs_filters st))),
         bus_strings (cs_search st)])
     else if cs_role st = PK_ROLE_ENUM_SEARCH_DETAILS then
       Some (''SearchDetails'', [Some (B_string (pk_filter_bitfield_to_string (cs_filters st))),
         bus_strings (cs_search st)])
     else if cs_role st = PK_ROLE_ENUM_SEARCH_GROUP then
       Some (''SearchGroups'', [Some (B_string (pk_filter_bitfield_to_string (cs_filters st))),
         bus_strings (cs_search st)])
     else if cs_role st = PK_ROLE_ENUM_SEARCH_FILE then
       Some (''SearchFiles'', [Some (B_string (pk_filter_bitfield_to_string (cs_filters st))),
         bus_strings (cs_search st)])
     else if cs_role st = PK_ROLE_ENUM_GET_DETAILS then
       Some (''GetDetails'', [bus_strings (cs_package_ids st)])
     else if cs_role st = PK_ROLE_ENUM_GET_UPDATE_DETAIL then
       Some (''GetUpdateDetail'', [bus_strings (cs_package_ids st)])
     else if cs_role st = PK_ROLE_ENUM_GET_OLD_TRANSACTIONS then
       Some (''GetOldTransactions'', [Some (B_uint (cs_number st))])
     else if cs_role st = PK_ROLE_ENUM_DOWNLOAD_PACKAGES then
       Some (''DownloadPackages'', [Some (B_bool (cs_directory st = None)),
         bus_strings (cs_package_ids st)])
     else if cs_role st = PK_ROLE_ENUM_GET_UPDATES then
       Some (''GetUpdates'', [Some (B_string (pk_filter_bitfield_to_string (cs_filters st)))])
     else if cs_role st = PK_ROLE_ENUM_UPDATE_SYSTEM then
       Some (''UpdateSystem'', [Some (B_bool (cs_only_trusted st))])
     else if cs_role st = PK_ROLE_ENUM_GET_DEPENDS then
       Some (''GetDepends'', [Some (B_string (pk_filter_bitfield_to_string (cs_filters st))),
         bus_strings (cs_package_ids st),
         Some (B_bool (cs_recursive st))])
     else if cs_role st = PK_ROLE_ENUM_GET_PACKAGES then
       Some (''GetPackages'', [Some (B_string (pk_filter_bitfield_to_string (cs_filters st)))])
     else if cs_role st = PK_ROLE_ENUM_GET_REQUIRES then
       Some (''GetRequires'', [Some (B_string (pk_filter_bitfield_to_string (cs_filters st))),
         bus_strings (cs_package_ids st),
         Some (B_bool (cs_recursive st))])
     else if cs_role st = PK_ROLE_ENUM_WHAT_PROVIDES then
       Some (''WhatProvides'', [Some (B_string (pk_filter_bitfield_to_string (cs_filters st))),
         Some (B_string (pk_provides_enum_to_string (cs_provides st))),
         bus_strings (cs_search st)])
     else if cs_role st = PK_ROLE_ENUM_GET_DISTRO_UPGRADES then
       Some (''GetDistroUpgrades'', [])
     else if cs_role st = PK_ROLE_ENUM_GET_FILES then
       Some (''GetFiles'', [bus_strings (cs_package_ids st)])
     else if cs_role st = PK_ROLE_ENUM_GET_CATEGORIES then
       Some (''GetCategories'', [])
     else if cs_role st = PK_ROLE_ENUM_REMOVE_PACKAGES then
       Some (''RemovePackages'', [bus_strings (cs_package_ids st),
         Some (B_bool (cs_allow_deps st)),
         Some (B_bool (cs_autoremove st))])
     else if cs_role st = PK_ROLE_ENUM_REFRESH_CACHE then
       Some (''RefreshCache'', [Some (B_bool (cs_force st))])
     else if cs_role st = PK_ROLE_ENUM_INSTALL_PACKAGES then
       Some (''InstallPackages'', [Some (B_bool (cs_only_trusted st)),
         bus_strings (cs_package_ids st)])
     else if cs_role st = PK_ROLE_ENUM_INSTALL_SIGNATURE then
       Some (''InstallSignature'', [Some (B_string (pk_sig_type_enum_to_string (cs_type st))),
         bus_string (cs_key_id st),
         bus_string (cs_package_id st)])
     else if cs_role st = PK_ROLE_ENUM_UPDATE_PACKAGES then
       Some (''UpdatePackages'', [Some (B_bool (cs_only_trusted st)),
         bus_strings (cs_package_ids st)])
     else if cs_role st = PK_ROLE_ENUM_INSTALL_FILES then
       Some (''InstallFiles'', [Some (B_bool (cs_only_trusted st)),
         bus_strings (cs_files st)])
     else if cs_role st = PK_ROLE_ENUM_ACCEPT_EULA then
       Some (''AcceptEula'', [bus_string (cs_eula_id st)])
     else if cs_role st = PK_ROLE_ENUM_ROLLBACK then
       Some (''Rollback'', [bus_string (cs_transaction_id st)])
     else if cs_role st = PK_ROLE_ENUM_GET_REPO_LIST then
       Some (''GetRepoList'', [Some (B_string (pk_filter_bitfield_to_string (cs_filters st)))])
     else if cs_role st = PK_ROLE_ENUM_REPO_ENABLE then
       Some (''RepoEnable'', [bus_string (cs_repo_id st),
         Some (B_bool (cs_enabled st))])
     else if cs_role st = PK_ROLE_ENUM_REPO_SET_DATA then
       Some (''RepoSetData'', [bus_string (cs_repo_id st),
         Some (B_string (or_empty (cs_parameter st))),
         Some (B_string (or_empty (cs_value st)))])
     else if cs_role st = PK_ROLE_ENUM_SIMULATE_INSTALL_FILES then
       Some (''SimulateInstallFiles'', [bus_strings (cs_files st)])
     else if cs_role st = PK_ROLE_ENUM_SIMULATE_INSTALL_PACKAGES then
       Some (''SimulateInstallPackages'', [bus_strings (cs_package_ids st)])
     else if cs_role st = PK_ROLE_ENUM_SIMULATE_REMOVE_PACKAGES then
       Some (''SimulateRemovePackages'', [bus_strings (cs_package_ids st),
         Some (B_bool (cs_autoremove st))])
     else if cs_role st = PK_ROLE_ENUM_SIMULATE_UPDATE_PACKAGES then
       Some (''SimulateUpdatePackages'', [bus_strings (cs_package_ids st)])
     else if cs_role st = PK_ROLE_ENUM_UPGRADE_SYSTEM then
       Some (''UpgradeSystem'', [bus_string (cs_distro_id st),
         Some (B_string (pk_upgrade_kind_enum_to_string (cs_upgrade_kind st)))])
     else if cs_role st = PK_ROLE_ENUM_REPAIR_SYSTEM then
       Some (''RepairSystem'', [Some (B_bool (cs_only_trusted st))])
     else if cs_role st = PK_ROLE_ENUM_SIMULATE_REPAIR_SYSTEM then
       Some (''SimulateRepairSystem'', [])
     else None)"

definition client_inputs :: "PkClientState \<Rightarrow> nat" where
  "client_inputs st =
     (if cs_role st \<in>
         {PK_ROLE_ENUM_RESOLVE, PK_ROLE_ENUM_GET_DETAILS, PK_ROLE_ENUM_GET_UPDATE_DETAIL,
         PK_ROLE_ENUM_DOWNLOAD_PACKAGES, PK_ROLE_ENUM_GET_DEPENDS, PK_ROLE_ENUM_GET_REQUIRES,
         PK_ROLE_ENUM_GET_FILES, PK_ROLE_ENUM_REMOVE_PACKAGES, PK_ROLE_ENUM_INSTALL_PACKAGES,
         PK_ROLE_ENUM_UPDATE_PACKAGES, PK_ROLE_ENUM_SIMULATE_INSTALL_PACKAGES,
         PK_ROLE_ENUM_SIMULATE_UPDATE_PACKAGES}
      then (case cs_package_ids st of None \<Rightarrow> 0 | Some package_ids \<Rightarrow> length package_ids)
      else if cs_role st \<in> {PK_ROLE_ENUM_INSTALL_FILES, PK_ROLE_ENUM_SIMULATE_INSTALL_FILES}
      then (case cs_files st of None \<Rightarrow> 0 | Some files \<Rightarrow> length files)
      else 0)"

definition pk_client_set_hints_cb :: "string option \<Rightarrow> nat \<Rightarrow> PkClient \<Rightarrow> PkClient" where
  "pk_client_set_hints_cb failure a c =
     (case failure of
        Some message \<Rightarrow> pk_client_state_finish (Some (pk_client_fixup_dbus_error message)) a c
      | None \<Rightarrow>
          let c = upd_cs a (\<lambda>st. st\<lparr>cs_results := Some pk_results_new\<rparr>) c
          in with_cs a (\<lambda>st c.
               case client_bus_call st of
                 None \<Rightarrow> c\<lparr>cl_undefined := True\<rparr>
               | Some (name, args) \<Rightarrow>
                   if None \<in> set args then c\<lparr>cl_undefined := True\<rparr>
                   else
                     let c = client_emit (EV_CALL a name (map the args)) c;
                         c = client_wait a OP_method c
                     in upd_cs a (\<lambda>st. st\<lparr>cs_inputs := client_inputs st\<rparr>) c) c)"

text \<open>When the method call has succeeded the client waits for the signal \<open>Finished\<close>.\<close>

definition pk_client_method_cb :: "string option \<Rightarrow> nat \<Rightarrow> PkClient \<Rightarrow> PkClient" where
  "pk_client_method_cb failure a c =
     (case failure of
        Some message \<Rightarrow> pk_client_state_finish (Some (pk_client_fixup_dbus_error message)) a c
      | None \<Rightarrow> c)"

section \<open>Hints\<close>

definition pk_client_bool_to_string :: "bool \<Rightarrow> string" where
  "pk_client_bool_to_string v = (if v then ''true'' else ''false'')"

text \<open>The environment of the helper; \<open>None\<close> when there is no helper to start.\<close>

definition pk_client_create_helper_argv_envp :: "client_env \<Rightarrow> string list option" where
  "pk_client_create_helper_argv_envp env =
     (if \<not> ce_debconf env then None
      else Some (
        [''DEBCONF_DB_REPLACE=configdb'', ''DEBCONF_DB_OVERRIDE=Pipe{infd:none outfd:none}''] @
        (if ce_verbose env then [''DEBCONF_DEBUG=.''] else []) @
        (case ce_term env of None \<Rightarrow> [] | Some term \<Rightarrow> [''TERM='' @ term]) @
        (case ce_display env of None \<Rightarrow> [] | Some display \<Rightarrow> [''DISPLAY='' @ display]) @
        (case (ce_term env, ce_display env) of
           (None, None) \<Rightarrow> []
         | (Some term, None) \<Rightarrow> [''DEBIAN_FRONTEND=dialog'']
         | (_, Some display) \<Rightarrow>
             [''DEBIAN_FRONTEND='' @ (if ce_kde_full_session env = Some ''true'' then ''kde'' else ''gnome'')])))"

text \<open>Whether a helper object was made, and the hint with its socket.\<close>

definition pk_client_create_helper_socket :: "client_env \<Rightarrow> string \<Rightarrow> bool \<times> string option" where
  "pk_client_create_helper_socket env tid =
     (let ret = (ce_self_test env \<and> ce_test_helper env) \<or> pk_client_create_helper_argv_envp env \<noteq> None
      in if \<not> ret then (False, None)
         else
           let socket_id = ''gpk-'' @ drop 1 tid @ ''.socket'';
               socket_filename = g_build_filename (ce_tmp_dir env) socket_id
           in if ce_helper_start env then (True, Some (''frontend-socket='' @ socket_filename))
              else (True, None))"

definition interactive_roles :: "PkRoleEnum list" where
  "interactive_roles =
     [PK_ROLE_ENUM_INSTALL_FILES, PK_ROLE_ENUM_INSTALL_PACKAGES, PK_ROLE_ENUM_REMOVE_PACKAGES,
      PK_ROLE_ENUM_UPDATE_PACKAGES, PK_ROLE_ENUM_UPDATE_SYSTEM]"

definition client_hints :: "client_env \<Rightarrow> PkClient \<Rightarrow> PkClientState \<Rightarrow> string list" where
  "client_hints env c st =
     (case cl_locale c of None \<Rightarrow> [] | Some locale_text \<Rightarrow> [''locale='' @ locale_text]) @
     [''background='' @ pk_client_bool_to_string (cl_background c),
      ''interactive='' @ pk_client_bool_to_string (cl_interactive c)] @
     (if 0 < cl_cache_age c then [''cache-age='' @ fmt_u (cl_cache_age c)] else []) @
     (if cs_role st \<in> set interactive_roles then
        (case snd (pk_client_create_helper_socket env (or_empty (cs_tid st))) of
           None \<Rightarrow> [] | Some hint \<Rightarrow> [hint])
      else [])"

definition pk_client_proxy_connect :: "(string \<times> dbus_value) list \<Rightarrow> nat \<Rightarrow> PkClient \<Rightarrow> PkClient" where
  "pk_client_proxy_connect properties a c =
     fold (\<lambda>(key, value). pk_client_set_property_value key value a) properties
       (upd_cs a (\<lambda>st. st\<lparr>cs_proxy := True\<rparr>) c)"

text \<open>
  The argument has the cached properties of the proxy. Without a proxy \<open>g_error\<close> aborts the
  process. The state is put into the array of calls without looking at \<open>idle\<close>.
\<close>

definition pk_client_get_proxy_cb ::
  "client_env \<Rightarrow> client_error + (string \<times> dbus_value) list \<Rightarrow> nat \<Rightarrow> PkClient \<Rightarrow> PkClient" where
  "pk_client_get_proxy_cb env proxy a c =
     (case proxy of
        Inl error \<Rightarrow> c\<lparr>cl_undefined := True\<rparr>
      | Inr properties \<Rightarrow>
          let c = pk_client_proxy_connect properties a c
          in with_cs a (\<lambda>st c.
               let hints = client_hints env c st;
                   c = (if cs_role st \<in> set interactive_roles
                        then upd_cs a (\<lambda>st. st\<lparr>cs_client_helper :=
                               fst (pk_client_create_helper_socket env (or_empty (cs_tid st)))\<rparr>) c
                        else c);
                   c = client_emit (EV_CALL a ''SetHints'' [B_strings hints]) c;
                   c = client_wait a OP_set_hints c
               in c\<lparr>cl_calls := cl_calls c @ [a]\<rparr>) c)"

definition pk_client_get_tid_cb :: "client_error + string \<Rightarrow> nat \<Rightarrow> PkClient \<Rightarrow> PkClient" where
  "pk_client_get_tid_cb answer a c =
     (case answer of
        Inl error \<Rightarrow> pk_client_state_finish (Some error) a c
      | Inr tid \<Rightarrow>
          let c = upd_cs a (\<lambda>st. st\<lparr>cs_tid := Some tid,
                    cs_progress := snd (pk_progress_set_transaction_id (Some tid) (cs_progress st))\<rparr>) c
          in client_wait a OP_get_proxy (client_emit (EV_CONNECT a tid) c))"

section \<open>Starting a call\<close>

text \<open>
  The cancellable of the application: none, one, or one that has been cancelled already. The
  handler is not connected to the last, so there is no identifier.
\<close>

datatype cancel_arg = NO_CANCELLABLE | CANCELLABLE | CANCELLED

text \<open>\<open>G_IO_ERROR_CANCELLED\<close> is 19.\<close>

definition cancelled_error :: client_error where
  "cancelled_error = OTHER_ERROR 19 ''Operation was cancelled''"

definition client_add :: "cancel_arg \<Rightarrow> PkClientState \<Rightarrow> PkClient \<Rightarrow> nat \<times> PkClient" where
  "client_add cancel st c =
     (let a = cl_next_state c;
          st = st\<lparr>cs_cancellable_id := cancel = CANCELLABLE\<rparr>
      in (a, c\<lparr>cl_states := (cl_states c)(a := Some st), cl_next_state := Suc a,
               cl_handlers := cl_handlers c @ (if cancel = CANCELLABLE then [a] else [])\<rparr>))"

definition pk_client_set_role :: "PkRoleEnum \<Rightarrow> nat \<Rightarrow> PkClient \<Rightarrow> PkClient" where
  "pk_client_set_role role a c = report PK_PROGRESS_TYPE_ROLE (pk_progress_set_role role) a c"

definition client_get_tid :: "nat \<Rightarrow> PkClient \<Rightarrow> PkClient" where
  "client_get_tid a c = client_wait a OP_get_tid (client_emit (EV_GET_TID a) c)"

text \<open>What the starters do with the state they have filled in.\<close>

definition client_begin ::
  "cancel_arg \<Rightarrow> (nat \<Rightarrow> PkClient \<Rightarrow> PkClient) \<Rightarrow> PkClientState \<Rightarrow> PkClient \<Rightarrow> PkClient" where
  "client_begin cancel go st c =
     (let (a, c) = client_add cancel st c
      in if cancel = CANCELLED then pk_client_state_finish (Some cancelled_error) a c
         else go a (pk_client_set_role (cs_role st) a c))"

definition client_start :: "cancel_arg \<Rightarrow> bool \<Rightarrow> PkClientState \<Rightarrow> PkClient \<Rightarrow> PkClient" where
  "client_start cancel callback st c =
     client_begin cancel client_get_tid
       (st\<lparr>cs_cancellable_client := cancel \<noteq> NO_CANCELLABLE, cs_progress_callback := callback\<rparr>) c"

definition pk_client_resolve_async ::
  "PkBitfield \<Rightarrow> string list option \<Rightarrow> cancel_arg \<Rightarrow> bool \<Rightarrow> PkClient \<Rightarrow> PkClient" where
  "pk_client_resolve_async filters packages cancel callback c =
     client_start cancel callback
       ((client_state_new PK_ROLE_ENUM_RESOLVE)\<lparr>cs_filters := filters, cs_package_ids := packages\<rparr>) c"

definition pk_client_search_names_async ::
  "PkBitfield \<Rightarrow> string list option \<Rightarrow> cancel_arg \<Rightarrow> bool \<Rightarrow> PkClient \<Rightarrow> PkClient" where
  "pk_client_search_names_async filters values cancel callback c =
     client_start cancel callback
       ((client_state_new PK_ROLE_ENUM_SEARCH_NAME)\<lparr>cs_filters := filters, cs_search := values\<rparr>) c"

definition pk_client_search_details_async ::
  "PkBitfield \<Rightarrow> string list option \<Rightarrow> cancel_arg \<Rightarrow> bool \<Rightarrow> PkClient \<Rightarrow> PkClient" where
  "pk_client_search_details_async filters values cancel callback c =
     client_start cancel callback
       ((client_state_new PK_ROLE_ENUM_SEARCH_DETAILS)\<lparr>cs_filters := filters, cs_search := values\<rparr>) c"

definition pk_client_search_groups_async ::
  "PkBitfield \<Rightarrow> string list option \<Rightarrow> cancel_arg \<Rightarrow> bool \<Rightarrow> PkClient \<Rightarrow> PkClient" where
  "pk_client_search_groups_async filters values cancel callback c =
     client_start cancel callback
       ((client_state_new PK_ROLE_ENUM_SEARCH_GROUP)\<lparr>cs_filters := filters, cs_search := values\<rparr>) c"

definition pk_client_search_files_async ::
  "PkBitfield \<Rightarrow> string list option \<Rightarrow> cancel_arg \<Rightarrow> bool \<Rightarrow> PkClient \<Rightarrow> PkClient" where
  "pk_client_search_files_async filters values cancel callback c =
     client_start cancel callback
       ((client_state_new PK_ROLE_ENUM_SEARCH_FILE)\<lparr>cs_filters := filters, cs_search := values\<rparr>) c"

definition pk_client_get_details_async ::
  "string list option \<Rightarrow> cancel_arg \<Rightarrow> bool \<Rightarrow> PkClient \<Rightarrow> PkClient" where
  "pk_client_get_details_async package_ids cancel callback c =
     (if package_ids = None then c
      else client_start cancel callback
        ((client_state_new PK_ROLE_ENUM_GET_DETAILS)\<lparr>cs_package_ids := package_ids\<rparr>) c)"

definition pk_client_get_update_detail_async ::
  "string list option \<Rightarrow> cancel_arg \<Rightarrow> bool \<Rightarrow> PkClient \<Rightarrow> PkClient" where
  "pk_client_get_update_detail_async package_ids cancel callback c =
     (if package_ids = None then c
      else client_start cancel callback
        ((client_state_new PK_ROLE_ENUM_GET_UPDATE_DETAIL)\<lparr>cs_package_ids := package_ids\<rparr>) c)"

definition pk_client_download_packages_async ::
  "string list option \<Rightarrow> string option \<Rightarrow> cancel_arg \<Rightarrow> bool \<Rightarrow> PkClient \<Rightarrow> PkClient" where
  "pk_client_download_packages_async package_ids directory cancel callback c =
     (if package_ids = None then c
      else client_start cancel callback
        ((client_state_new PK_ROLE_ENUM_DOWNLOAD_PACKAGES)\<lparr>cs_package_ids := package_ids, cs_directory := directory\<rparr>) c)"

definition pk_client_get_updates_async ::
  "PkBitfield \<Rightarrow> cancel_arg \<Rightarrow> bool \<Rightarrow> PkClient \<Rightarrow> PkClient" where
  "pk_client_get_updates_async filters cancel callback c =
     client_start cancel callback
       ((client_state_new PK_ROLE_ENUM_GET_UPDATES)\<lparr>cs_filters := filters\<rparr>) c"

definition pk_client_get_old_transactions_async ::
  "guint \<Rightarrow> cancel_arg \<Rightarrow> bool \<Rightarrow> PkClient \<Rightarrow> PkClient" where
  "pk_client_get_old_transactions_async number cancel callback c =
     client_start cancel callback
       ((client_state_new PK_ROLE_ENUM_GET_OLD_TRANSACTIONS)\<lparr>cs_number := number\<rparr>) c"

definition pk_client_update_system_async ::
  "bool \<Rightarrow> cancel_arg \<Rightarrow> bool \<Rightarrow> PkClient \<Rightarrow> PkClient" where
  "pk_client_update_system_async only_trusted cancel callback c =
     client_start cancel callback
       ((client_state_new PK_ROLE_ENUM_UPDATE_SYSTEM)\<lparr>cs_only_trusted := only_trusted\<rparr>) c"

definition pk_client_get_depends_async ::
  "PkBitfield \<Rightarrow> string list option \<Rightarrow> bool \<Rightarrow> cancel_arg \<Rightarrow> bool \<Rightarrow> PkClient \<Rightarrow> PkClient" where
  "pk_client_get_depends_async filters package_ids recursive cancel callback c =
     (if package_ids = None then c
      else client_start cancel callback
        ((client_state_new PK_ROLE_ENUM_GET_DEPENDS)\<lparr>cs_filters := filters, cs_package_ids := package_ids, cs_recursive := recursive\<rparr>) c)"

definition pk_client_get_packages_async ::
  "PkBitfield \<Rightarrow> cancel_arg \<Rightarrow> bool \<Rightarrow> PkClient \<Rightarrow> PkClient" where
  "pk_client_get_packages_async filters cancel callback c =
     client_start cancel callback
       ((client_state_new PK_ROLE_ENUM_GET_PACKAGES)\<lparr>cs_filters := filters\<rparr>) c"

definition pk_client_get_requires_async ::
  "PkBitfield \<Rightarrow> string list option \<Rightarrow> bool \<Rightarrow> cancel_arg \<Rightarrow> bool \<Rightarrow> PkClient \<Rightarrow> PkClient" where
  "pk_client_get_requires_async filters package_ids recursive cancel callback c =
     (if package_ids = None then c
      else client_start cancel callback
        ((client_state_new PK_ROLE_ENUM_GET_REQUIRES)\<lparr>cs_filters := filters, cs_package_ids := package_ids, cs_recursive := recursive\<rparr>) c)"

definition pk_client_what_provides_async ::
  "PkBitfield \<Rightarrow> PkProvidesEnum \<Rightarrow> string list option \<Rightarrow> cancel_arg \<Rightarrow> bool \<Rightarrow> PkClient \<Rightarrow> PkClient" where
  "pk_client_what_provides_async filters provides values cancel callback c =
     client_start cancel callback
       ((client_state_new PK_ROLE_ENUM_WHAT_PROVIDES)\<lparr>cs_filters := filters, cs_provides := provides, cs_search := values\<rparr>) c"

definition pk_client_get_distro_upgrades_async ::
  "cancel_arg \<Rightarrow> bool \<Rightarrow> PkClient \<Rightarrow> PkClient" where
  "pk_client_get_distro_upgrades_async cancel callback c =
     client_start cancel callback
       (client_state_new PK_ROLE_ENUM_GET_DISTRO_UPGRADES) c"

definition pk_client_get_files_async ::
  "string list option \<Rightarrow> cancel_arg \<Rightarrow> bool \<Rightarrow> PkClient \<Rightarrow> PkClient" where
  "pk_client_get_files_async package_ids cancel callback c =
     (if package_ids = None then c
      else client_start cancel callback
        ((client_state_new PK_ROLE_ENUM_GET_FILES)\<lparr>cs_package_ids := package_ids\<rparr>) c)"

definition pk_client_get_categories_async ::
  "cancel_arg \<Rightarrow> bool \<Rightarrow> PkClient \<Rightarrow> PkClient" where
  "pk_client_get_categories_async cancel callback c =
     client_start cancel callback
       (client_state_new PK_ROLE_ENUM_GET_CATEGORIES) c"

definition pk_client_remove_packages_async ::
  "string list option \<Rightarrow> bool \<Rightarrow> bool \<Rightarrow> cancel_arg \<Rightarrow> bool \<Rightarrow> PkClient \<Rightarrow> PkClient" where
  "pk_client_remove_packages_async package_ids allow_deps autoremove cancel callback c =
     (if package_ids = None then c
      else client_start cancel callback
        ((client_state_new PK_ROLE_ENUM_REMOVE_PACKAGES)\<lparr>cs_package_ids := package_ids, cs_allow_deps := allow_deps, cs_autoremove := autoremove\<rparr>) c)"

definition pk_client_refresh_cache_async ::
  "bool \<Rightarrow> cancel_arg \<Rightarrow> bool \<Rightarrow> PkClient \<Rightarrow> PkClient" where
  "pk_client_refresh_cache_async force cancel callback c =
     client_start cancel callback
       ((client_state_new PK_ROLE_ENUM_REFRESH_CACHE)\<lparr>cs_force := force\<rparr>) c"

definition pk_client_install_packages_async ::
  "bool \<Rightarrow> string list option \<Rightarrow> cancel_arg \<Rightarrow> bool \<Rightarrow> PkClient \<Rightarrow> PkClient" where
  "pk_client_install_packages_async only_trusted package_ids cancel callback c =
     (if package_ids = None then c
      else client_start cancel callback
        ((client_state_new PK_ROLE_ENUM_INSTALL_PACKAGES)\<lparr>cs_only_trusted := only_trusted, cs_package_ids := package_ids\<rparr>) c)"

definition pk_client_install_signature_async ::
  "PkSigTypeEnum \<Rightarrow> string option \<Rightarrow> string option \<Rightarrow> cancel_arg \<Rightarrow> bool \<Rightarrow> PkClient \<Rightarrow> PkClient" where
  "pk_client_install_signature_async type key_id package_id cancel callback c =
     client_start cancel callback
       ((client_state_new PK_ROLE_ENUM_INSTALL_SIGNATURE)\<lparr>cs_type := type, cs_key_id := key_id, cs_package_id := package_id\<rparr>) c"

definition pk_client_update_packages_async ::
  "bool \<Rightarrow> string list option \<Rightarrow> cancel_arg \<Rightarrow> bool \<Rightarrow> PkClient \<Rightarrow> PkClient" where
  "pk_client_update_packages_async only_trusted package_ids cancel callback c =
     (if package_ids = None then c
      else client_start cancel callback
        ((client_state_new PK_ROLE_ENUM_UPDATE_PACKAGES)\<lparr>cs_only_trusted := only_trusted, cs_package_ids := package_ids\<rparr>) c)"

definition pk_client_accept_eula_async ::
  "string option \<Rightarrow> cancel_arg \<Rightarrow> bool \<Rightarrow> PkClient \<Rightarrow> PkClient" where
  "pk_client_accept_eula_async eula_id cancel callback c =
     client_start cancel callback
       ((client_state_new PK_ROLE_ENUM_ACCEPT_EULA)\<lparr>cs_eula_id := eula_id\<rparr>) c"

definition pk_client_rollback_async ::
  "string option \<Rightarrow> cancel_arg \<Rightarrow> bool \<Rightarrow> PkClient \<Rightarrow> PkClient" where
  "pk_client_rollback_async transaction_id cancel callback c =
     client_start cancel callback
       ((client_state_new PK_ROLE_ENUM_ROLLBACK)\<lparr>cs_transaction_id := transaction_id\<rparr>) c"

definition pk_client_get_repo_list_async ::
  "PkBitfield \<Rightarrow> cancel_arg \<Rightarrow> bool \<Rightarrow> PkClient \<Rightarrow> PkClient" where
  "pk_client_get_repo_list_async filters cancel callback c =
     client_start cancel callback
       ((client_state_new PK_ROLE_ENUM_GET_REPO_LIST)\<lparr>cs_filters := filters\<rparr>) c"

definition pk_client_repo_enable_async ::
  "string option \<Rightarrow> bool \<Rightarrow> cancel_arg \<Rightarrow> bool \<Rightarrow> PkClient \<Rightarrow> PkClient" where
  "pk_client_repo_enable_async repo_id enabled cancel callback c =
     client_start cancel callback
       ((client_state_new PK_ROLE_ENUM_REPO_ENABLE)\<lparr>cs_repo_id := repo_id, cs_enabled := enabled\<rparr>) c"

definition pk_client_repo_set_data_async ::
  "string option \<Rightarrow> string option \<Rightarrow> string option \<Rightarrow> cancel_arg \<Rightarrow> bool \<Rightarrow> PkClient \<Rightarrow> PkClient" where
  "pk_client_repo_set_data_async repo_id parameter val cancel callback c =
     client_start cancel callback
       ((client_state_new PK_ROLE_ENUM_REPO_SET_DATA)\<lparr>cs_repo_id := repo_id, cs_parameter := parameter, cs_value := val\<rparr>) c"

definition pk_client_simulate_install_packages_async ::
  "string list option \<Rightarrow> cancel_arg \<Rightarrow> bool \<Rightarrow> PkClient \<Rightarrow> PkClient" where
  "pk_client_simulate_install_packages_async package_ids cancel callback c =
     (if package_ids = None then c
      else client_start cancel callback
        ((client_state_new PK_ROLE_ENUM_SIMULATE_INSTALL_PACKAGES)\<lparr>cs_package_ids := package_ids\<rparr>) c)"

definition pk_client_simulate_remove_packages_async ::
  "string list option \<Rightarrow> bool \<Rightarrow> cancel_arg \<Rightarrow> bool \<Rightarrow> PkClient \<Rightarrow> PkClient" where
  "pk_client_simulate_remove_packages_async package_ids autoremove cancel callback c =
     (if package_ids = None then c
      else client_start cancel callback
        ((client_state_new PK_ROLE_ENUM_SIMULATE_REMOVE_PACKAGES)\<lparr>cs_package_ids := package_ids, cs_autoremove := autoremove\<rparr>) c)"

definition pk_client_simulate_update_packages_async ::
  "string list option \<Rightarrow> cancel_arg \<Rightarrow> bool \<Rightarrow> PkClient \<Rightarrow> PkClient" where
  "pk_client_simulate_update_packages_async package_ids cancel callback c =
     (if package_ids = None then c
      else client_start cancel callback
        ((client_state_new PK_ROLE_ENUM_SIMULATE_UPDATE_PACKAGES)\<lparr>cs_package_ids := package_ids\<rparr>) c)"

definition pk_client_upgrade_system_async ::
  "string option \<Rightarrow> PkUpgradeKindEnum \<Rightarrow> cancel_arg \<Rightarrow> bool \<Rightarrow> PkClient \<Rightarrow> PkClient" where
  "pk_client_upgrade_system_async distro_id upgrade_kind cancel callback c =
     client_start cancel callback
       ((client_state_new PK_ROLE_ENUM_UPGRADE_SYSTEM)\<lparr>cs_distro_id := distro_id, cs_upgrade_kind := upgrade_kind\<rparr>) c"

text \<open>
  These two keep the cancellable of the application in the field of the internal one, not in
  \<open>cancellable_client\<close>, so the handler that they connect to it is never disconnected.
\<close>

definition pk_client_repair_system_async ::
  "bool \<Rightarrow> cancel_arg \<Rightarrow> bool \<Rightarrow> PkClient \<Rightarrow> PkClient" where
  "pk_client_repair_system_async only_trusted cancel callback c =
     client_begin cancel client_get_tid
       ((client_state_new PK_ROLE_ENUM_REPAIR_SYSTEM)
          \<lparr>cs_only_trusted := only_trusted, cs_progress_callback := callback\<rparr>) c"

definition pk_client_simulate_repair_system_async :: "cancel_arg \<Rightarrow> bool \<Rightarrow> PkClient \<Rightarrow> PkClient" where
  "pk_client_simulate_repair_system_async cancel callback c =
     client_begin cancel client_get_tid
       ((client_state_new PK_ROLE_ENUM_SIMULATE_REPAIR_SYSTEM)\<lparr>cs_progress_callback := callback\<rparr>) c"

section \<open>Files\<close>

fun real_paths_loop :: "client_env \<Rightarrow> string list \<Rightarrow> client_error + string list" where
  "real_paths_loop env [] = Inr []"
| "real_paths_loop env (p # ps) =
     (case ce_realpath env p of
        None \<Rightarrow> Inl (CLIENT_ERROR PK_CLIENT_ERROR_INVALID_INPUT (''could not resolve: '' @ p))
      | Some r \<Rightarrow> (case real_paths_loop env ps of Inl e \<Rightarrow> Inl e | Inr rs \<Rightarrow> Inr (r # rs)))"

definition pk_client_convert_real_paths :: "client_env \<Rightarrow> string list \<Rightarrow> client_error + string list" where
  "pk_client_convert_real_paths env paths = real_paths_loop env paths"

text \<open>The directory below the home directory; \<open>None\<close> when it cannot be made.\<close>

definition pk_client_get_user_temp :: "client_env \<Rightarrow> string \<Rightarrow> string option" where
  "pk_client_get_user_temp env subfolder =
     (let path = g_build_filename (g_build_filename (ce_home_dir env) ''.PackageKit'') subfolder
      in if ce_make_directory env path then Some path else None)"

definition pk_client_is_file_native :: "client_env \<Rightarrow> string \<Rightarrow> bool" where
  "pk_client_is_file_native env filename =
     (ce_is_native env filename \<and> \<not> strstr_found filename ''/.gvfs/'')"

text \<open>Without a directory \<open>g_build_filename\<close> is given \<open>NULL\<close> first and gives the empty string.\<close>

fun copy_native_loop ::
  "client_env \<Rightarrow> string option \<Rightarrow> nat \<Rightarrow> string list \<Rightarrow> PkClient \<Rightarrow> string list \<times> PkClient" where
  "copy_native_loop env user_temp a [] c = ([], c)"
| "copy_native_loop env user_temp a (f # fs) c =
     (if pk_client_is_file_native env f then
        let (rest, c) = copy_native_loop env user_temp a fs c in (f # rest, c)
      else
        let path = (case user_temp of None \<Rightarrow> [] | Some t \<Rightarrow> g_build_filename t (g_path_get_basename f));
            c = client_wait a (OP_copy_native path) (client_emit (EV_COPY a f path) c);
            (rest, c) = copy_native_loop env user_temp a fs c
        in (path # rest, c))"

definition pk_client_copy_non_native_then_get_tid :: "client_env \<Rightarrow> nat \<Rightarrow> PkClient \<Rightarrow> PkClient" where
  "pk_client_copy_non_native_then_get_tid env a c =
     (let user_temp = pk_client_get_user_temp env ''native-cache'';
          c = report PK_PROGRESS_TYPE_PERCENTAGE (pk_progress_set_percentage (- 1)) a c
      in with_cs a (\<lambda>st c.
           let (files, c) = copy_native_loop env user_temp a
                 (case cs_files st of None \<Rightarrow> [] | Some files \<Rightarrow> files) c
           in upd_cs a (\<lambda>st. st\<lparr>cs_files := Some files\<rparr>) c) c)"

definition start_files :: "client_env \<Rightarrow> string list \<Rightarrow> nat \<Rightarrow> PkClient \<Rightarrow> PkClient" where
  "start_files env files a c =
     (case pk_client_convert_real_paths env files of
        Inl error \<Rightarrow> pk_client_state_finish (Some error) a c
      | Inr paths \<Rightarrow>
          let count = of_nat (length (filter (\<lambda>f. \<not> pk_client_is_file_native env f) paths));
              c = upd_cs a (\<lambda>st. st\<lparr>cs_files := Some paths, cs_refcount := count\<rparr>) c
          in if count = 0 then client_get_tid a c
             else pk_client_copy_non_native_then_get_tid env a c)"

definition pk_client_copy_native_finished_cb :: "client_error option \<Rightarrow> nat \<Rightarrow> PkClient \<Rightarrow> PkClient" where
  "pk_client_copy_native_finished_cb error a c =
     (case error of
        Some e \<Rightarrow> pk_client_state_finish (Some e) a c
      | None \<Rightarrow>
          let c = upd_cs a (\<lambda>st. st\<lparr>cs_refcount := cs_refcount st - 1\<rparr>) c
          in with_cs a (\<lambda>st c. if cs_refcount st = 0 then client_get_tid a c else c) c)"

definition pk_client_install_files_async ::
  "client_env \<Rightarrow> bool \<Rightarrow> string list option \<Rightarrow> cancel_arg \<Rightarrow> bool \<Rightarrow> PkClient \<Rightarrow> PkClient" where
  "pk_client_install_files_async env only_trusted files cancel callback c =
     (case files of
        None \<Rightarrow> c
      | Some fs \<Rightarrow>
          client_begin cancel (start_files env fs)
            ((client_state_new PK_ROLE_ENUM_INSTALL_FILES)
               \<lparr>cs_cancellable_client := cancel \<noteq> NO_CANCELLABLE, cs_progress_callback := callback,
                cs_only_trusted := only_trusted\<rparr>) c)"

definition pk_client_simulate_install_files_async ::
  "client_env \<Rightarrow> string list option \<Rightarrow> cancel_arg \<Rightarrow> bool \<Rightarrow> PkClient \<Rightarrow> PkClient" where
  "pk_client_simulate_install_files_async env files cancel callback c =
     (case files of
        None \<Rightarrow> c
      | Some fs \<Rightarrow>
          client_begin cancel (start_files env fs)
            ((client_state_new PK_ROLE_ENUM_SIMULATE_INSTALL_FILES)
               \<lparr>cs_cancellable_client := cancel \<noteq> NO_CANCELLABLE, cs_progress_callback := callback\<rparr>) c)"

section \<open>Other transactions\<close>

definition pk_client_adopt_get_proxy_cb ::
  "client_error + (string \<times> dbus_value) list \<Rightarrow> nat \<Rightarrow> PkClient \<Rightarrow> PkClient" where
  "pk_client_adopt_get_proxy_cb proxy a c =
     (case proxy of
        Inl error \<Rightarrow> pk_client_state_finish (Some error) a c
      | Inr properties \<Rightarrow>
          let c = pk_client_proxy_connect properties a c;
              c = upd_cs a (\<lambda>st. st\<lparr>cs_ret := True\<rparr>) c
          in pk_client_state_finish None a c)"

definition pk_client_adopt_async ::
  "string \<Rightarrow> cancel_arg \<Rightarrow> bool \<Rightarrow> PkClient \<Rightarrow> PkClient" where
  "pk_client_adopt_async transaction_id cancel callback c =
     client_begin cancel
       (\<lambda>a c.
          let c = upd_cs a (\<lambda>st. st\<lparr>cs_progress :=
                    snd (pk_progress_set_transaction_id (Some transaction_id) (cs_progress st))\<rparr>) c;
              c = client_wait a OP_adopt_proxy (client_emit (EV_CONNECT a transaction_id) c)
          in pk_client_state_add a c)
       ((client_state_new PK_ROLE_ENUM_UNKNOWN)
          \<lparr>cs_cancellable_client := cancel \<noteq> NO_CANCELLABLE, cs_progress_callback := callback,
           cs_tid := Some transaction_id, cs_results := Some pk_results_new\<rparr>) c"

definition pk_client_get_progress_cb ::
  "client_error + (string \<times> dbus_value) list \<Rightarrow> nat \<Rightarrow> PkClient \<Rightarrow> PkClient" where
  "pk_client_get_progress_cb proxy a c =
     (case proxy of
        Inl error \<Rightarrow> pk_client_get_progress_state_finish (Some error) a c
      | Inr properties \<Rightarrow>
          let c = pk_client_proxy_connect properties a c;
              c = upd_cs a (\<lambda>st. st\<lparr>cs_ret := True\<rparr>) c
          in pk_client_get_progress_state_finish None a c)"

text \<open>Setting the role 0 of the zeroed state changes nothing; this starter does not even try.\<close>

definition pk_client_get_progress_async :: "string \<Rightarrow> cancel_arg \<Rightarrow> PkClient \<Rightarrow> PkClient" where
  "pk_client_get_progress_async transaction_id cancel c =
     (let (a, c) = client_add cancel
            ((client_state_new PK_ROLE_ENUM_UNKNOWN)
               \<lparr>cs_cancellable_client := cancel \<noteq> NO_CANCELLABLE, cs_tid := Some transaction_id\<rparr>) c
      in if cancel = CANCELLED then pk_client_state_finish (Some cancelled_error) a c
         else
           let c = upd_cs a (\<lambda>st. st\<lparr>cs_progress :=
                     snd (pk_progress_set_transaction_id (Some transaction_id) (cs_progress st))\<rparr>) c;
               c = client_wait a OP_progress_proxy (client_emit (EV_CONNECT a transaction_id) c)
           in pk_client_state_add a c)"

section \<open>Cancelling\<close>

text \<open>The callback of the reply prints the transaction when the call has succeeded.\<close>

definition pk_client_cancel_cb :: "string option \<Rightarrow> nat \<Rightarrow> PkClient \<Rightarrow> PkClient" where
  "pk_client_cancel_cb failure a c =
     (case failure of Some message \<Rightarrow> c | None \<Rightarrow> with_cs a (\<lambda>st c. c) c)"

definition pk_client_cancellable_cancel_cb :: "nat \<Rightarrow> PkClient \<Rightarrow> PkClient" where
  "pk_client_cancellable_cancel_cb a c =
     with_cs a (\<lambda>st c.
       if \<not> cs_proxy st then c
       else client_wait a OP_cancel (client_emit (EV_CALL a ''Cancel'' []) c)) c"

section \<open>The answers\<close>

datatype op_answer =
    ANS_tid "client_error + string"
  | ANS_proxy "client_error + (string \<times> dbus_value) list"
  | ANS_reply "string option"
  | ANS_copy "client_error option"

fun op_fits :: "client_op \<Rightarrow> op_answer \<Rightarrow> bool" where
  "op_fits OP_get_tid (ANS_tid x) = True"
| "op_fits OP_get_proxy (ANS_proxy x) = True"
| "op_fits OP_set_hints (ANS_reply x) = True"
| "op_fits OP_method (ANS_reply x) = True"
| "op_fits OP_cancel (ANS_reply x) = True"
| "op_fits (OP_copy_downloaded p) (ANS_copy x) = True"
| "op_fits (OP_copy_native p) (ANS_copy x) = True"
| "op_fits OP_adopt_proxy (ANS_proxy x) = True"
| "op_fits OP_progress_proxy (ANS_proxy x) = True"
| "op_fits _ _ = False"

fun client_dispatch :: "client_env \<Rightarrow> client_op \<Rightarrow> op_answer \<Rightarrow> nat \<Rightarrow> PkClient \<Rightarrow> PkClient" where
  "client_dispatch env OP_get_tid (ANS_tid x) a c = pk_client_get_tid_cb x a c"
| "client_dispatch env OP_get_proxy (ANS_proxy x) a c = pk_client_get_proxy_cb env x a c"
| "client_dispatch env OP_set_hints (ANS_reply x) a c = pk_client_set_hints_cb x a c"
| "client_dispatch env OP_method (ANS_reply x) a c = pk_client_method_cb x a c"
| "client_dispatch env OP_cancel (ANS_reply x) a c = pk_client_cancel_cb x a c"
| "client_dispatch env (OP_copy_downloaded p) (ANS_copy x) a c = pk_client_copy_downloaded_finished_cb x a c"
| "client_dispatch env (OP_copy_native p) (ANS_copy x) a c = pk_client_copy_native_finished_cb x a c"
| "client_dispatch env OP_adopt_proxy (ANS_proxy x) a c = pk_client_adopt_get_proxy_cb x a c"
| "client_dispatch env OP_progress_proxy (ANS_proxy x) a c = pk_client_get_progress_cb x a c"
| "client_dispatch env _ _ a c = c"

text \<open>The pending operation at a position of the list is answered.\<close>

definition client_answer_op :: "client_env \<Rightarrow> nat \<Rightarrow> op_answer \<Rightarrow> PkClient \<Rightarrow> PkClient" where
  "client_answer_op env i answer c =
     (let (a, op) = cl_pending c ! i;
          c = c\<lparr>cl_pending := take i (cl_pending c) @ drop (Suc i) (cl_pending c)\<rparr>
      in client_dispatch env op answer a c)"

text \<open>A signal reaches the calls that are connected to the transaction.\<close>

definition client_signal :: "client_signal \<Rightarrow> nat \<Rightarrow> PkClient \<Rightarrow> PkClient" where
  "client_signal s a c =
     (case cl_states c a of
        None \<Rightarrow> c
      | Some st \<Rightarrow> if cs_proxy st then pk_client_signal_cb s a c else c)"

text \<open>The application cancels: the handlers that are connected run.\<close>

definition client_cancel :: "nat \<Rightarrow> PkClient \<Rightarrow> PkClient" where
  "client_cancel a c = (if a \<in> set (cl_handlers c) then pk_client_cancellable_cancel_cb a c else c)"

end
