(* ===== verification/PK_Wire.thy ===== *)
theory PK_Wire
  imports PK_Client_Run PK_Transaction_Methods
begin

text \<open>
  The bus between the client and the daemon: how the daemon reads the arguments of a method call
  (\<open>pk_transaction_method_call\<close> and the first lines of each handler), and the calls of the
  client as one type, so that a call can be followed from the application to the handler.
\<close>

section \<open>Reading the arguments of a method\<close>

text \<open>
  The handler of \<open>UpgradeSystem\<close> reads with a format that does not fit two strings, so it gets
  nothing; the type of a signature is read and not used.
\<close>

definition unpack_method :: "string \<Rightarrow> bus_value list \<Rightarrow> transaction_method option" where
  "unpack_method name args =
     (if name = ''SetHints'' then (case args of [B_strings hints] \<Rightarrow> Some (M_SetHints hints) | _ \<Rightarrow> None)
     else if name = ''AcceptEula'' then (case args of [B_string x] \<Rightarrow> Some (M_AcceptEula x) | _ \<Rightarrow> None)
     else if name = ''Cancel'' then (case args of [] \<Rightarrow> Some M_Cancel | _ \<Rightarrow> None)
     else if name = ''DownloadPackages'' then (case args of [B_bool x, B_strings y] \<Rightarrow> Some (M_DownloadPackages x y) | _ \<Rightarrow> None)
     else if name = ''GetCategories'' then (case args of [] \<Rightarrow> Some M_GetCategories | _ \<Rightarrow> None)
     else if name = ''GetDepends'' then (case args of [B_string x, B_strings y, B_bool z] \<Rightarrow> Some (M_GetDepends x y z) | _ \<Rightarrow> None)
     else if name = ''GetDetails'' then (case args of [B_strings x] \<Rightarrow> Some (M_GetDetails x) | _ \<Rightarrow> None)
     else if name = ''GetFiles'' then (case args of [B_strings x] \<Rightarrow> Some (M_GetFiles x) | _ \<Rightarrow> None)
     else if name = ''GetOldTransactions'' then (case args of [B_uint x] \<Rightarrow> Some (M_GetOldTransactions x) | _ \<Rightarrow> None)
     else if name = ''GetPackages'' then (case args of [B_string x] \<Rightarrow> Some (M_GetPackages x) | _ \<Rightarrow> None)
     else if name = ''GetRepoList'' then (case args of [B_string x] \<Rightarrow> Some (M_GetRepoList x) | _ \<Rightarrow> None)
     else if name = ''GetRequires'' then (case args of [B_string x, B_strings y, B_bool z] \<Rightarrow> Some (M_GetRequires x y z) | _ \<Rightarrow> None)
     else if name = ''GetUpdateDetail'' then (case args of [B_strings x] \<Rightarrow> Some (M_GetUpdateDetail x) | _ \<Rightarrow> None)
     else if name = ''GetUpdates'' then (case args of [B_string x] \<Rightarrow> Some (M_GetUpdates x) | _ \<Rightarrow> None)
     else if name = ''GetDistroUpgrades'' then (case args of [] \<Rightarrow> Some M_GetDistroUpgrades | _ \<Rightarrow> None)
     else if name = ''InstallFiles'' then (case args of [B_bool x, B_strings y] \<Rightarrow> Some (M_InstallFiles x y) | _ \<Rightarrow> None)
     else if name = ''InstallPackages'' then (case args of [B_bool x, B_strings y] \<Rightarrow> Some (M_InstallPackages x y) | _ \<Rightarrow> None)
     else if name = ''InstallSignature'' then (case args of [B_string x, B_string y, B_string z] \<Rightarrow> Some (M_InstallSignature y z) | _ \<Rightarrow> None)
     else if name = ''RefreshCache'' then (case args of [B_bool x] \<Rightarrow> Some (M_RefreshCache x) | _ \<Rightarrow> None)
     else if name = ''RemovePackages'' then (case args of [B_strings x, B_bool y, B_bool z] \<Rightarrow> Some (M_RemovePackages x y z) | _ \<Rightarrow> None)
     else if name = ''RepoEnable'' then (case args of [B_string x, B_bool y] \<Rightarrow> Some (M_RepoEnable x y) | _ \<Rightarrow> None)
     else if name = ''RepoSetData'' then (case args of [B_string x, B_string y, B_string z] \<Rightarrow> Some (M_RepoSetData x y z) | _ \<Rightarrow> None)
     else if name = ''Resolve'' then (case args of [B_string x, B_strings y] \<Rightarrow> Some (M_Resolve x y) | _ \<Rightarrow> None)
     else if name = ''Rollback'' then (case args of [B_string x] \<Rightarrow> Some (M_Rollback x) | _ \<Rightarrow> None)
     else if name = ''SearchDetails'' then (case args of [B_string x, B_strings y] \<Rightarrow> Some (M_SearchDetails x y) | _ \<Rightarrow> None)
     else if name = ''SearchFiles'' then (case args of [B_string x, B_strings y] \<Rightarrow> Some (M_SearchFiles x y) | _ \<Rightarrow> None)
     else if name = ''SearchGroups'' then (case args of [B_string x, B_strings y] \<Rightarrow> Some (M_SearchGroups x y) | _ \<Rightarrow> None)
     else if name = ''SearchNames'' then (case args of [B_string x, B_strings y] \<Rightarrow> Some (M_SearchNames x y) | _ \<Rightarrow> None)
     else if name = ''SimulateInstallFiles'' then (case args of [B_strings x] \<Rightarrow> Some (M_SimulateInstallFiles x) | _ \<Rightarrow> None)
     else if name = ''SimulateInstallPackages'' then (case args of [B_strings x] \<Rightarrow> Some (M_SimulateInstallPackages x) | _ \<Rightarrow> None)
     else if name = ''SimulateRemovePackages'' then (case args of [B_strings x, B_bool y] \<Rightarrow> Some (M_SimulateRemovePackages x y) | _ \<Rightarrow> None)
     else if name = ''SimulateUpdatePackages'' then (case args of [B_strings x] \<Rightarrow> Some (M_SimulateUpdatePackages x) | _ \<Rightarrow> None)
     else if name = ''UpdatePackages'' then (case args of [B_bool x, B_strings y] \<Rightarrow> Some (M_UpdatePackages x y) | _ \<Rightarrow> None)
     else if name = ''UpdateSystem'' then (case args of [B_bool x] \<Rightarrow> Some (M_UpdateSystem x) | _ \<Rightarrow> None)
     else if name = ''WhatProvides'' then (case args of [B_string x, B_string y, B_strings z] \<Rightarrow> Some (M_WhatProvides x y z) | _ \<Rightarrow> None)
     else if name = ''UpgradeSystem'' then None
     else if name = ''RepairSystem'' then (case args of [B_bool x] \<Rightarrow> Some (M_RepairSystem x) | _ \<Rightarrow> None)
     else if name = ''SimulateRepairSystem'' then (case args of [] \<Rightarrow> Some M_SimulateRepairSystem | _ \<Rightarrow> None)
     else None)"

section \<open>The calls of the client\<close>

fun client_invoke ::
  "client_env \<Rightarrow> client_call \<Rightarrow> cancel_arg \<Rightarrow> bool \<Rightarrow> PkClient \<Rightarrow> PkClient" where
  "client_invoke env (CLIENT_install_packages only_trusted package_ids) cancel callback =
     pk_client_install_packages_async only_trusted package_ids cancel callback"
| "client_invoke env (CLIENT_update_packages only_trusted package_ids) cancel callback =
     pk_client_update_packages_async only_trusted package_ids cancel callback"
| "client_invoke env (CLIENT_remove_packages package_ids allow_deps autoremove) cancel callback =
     pk_client_remove_packages_async package_ids allow_deps autoremove cancel callback"
| "client_invoke env (CLIENT_update_system only_trusted) cancel callback =
     pk_client_update_system_async only_trusted cancel callback"
| "client_invoke env (CLIENT_resolve filters packages) cancel callback =
     pk_client_resolve_async filters packages cancel callback"
| "client_invoke env (CLIENT_search_names filters values) cancel callback =
     pk_client_search_names_async filters values cancel callback"
| "client_invoke env (CLIENT_search_details filters values) cancel callback =
     pk_client_search_details_async filters values cancel callback"
| "client_invoke env (CLIENT_search_groups filters values) cancel callback =
     pk_client_search_groups_async filters values cancel callback"
| "client_invoke env (CLIENT_search_files filters values) cancel callback =
     pk_client_search_files_async filters values cancel callback"
| "client_invoke env (CLIENT_get_details package_ids) cancel callback =
     pk_client_get_details_async package_ids cancel callback"
| "client_invoke env (CLIENT_get_update_detail package_ids) cancel callback =
     pk_client_get_update_detail_async package_ids cancel callback"
| "client_invoke env (CLIENT_download_packages package_ids directory) cancel callback =
     pk_client_download_packages_async package_ids directory cancel callback"
| "client_invoke env (CLIENT_get_updates filters) cancel callback =
     pk_client_get_updates_async filters cancel callback"
| "client_invoke env (CLIENT_get_depends filters package_ids recursive) cancel callback =
     pk_client_get_depends_async filters package_ids recursive cancel callback"
| "client_invoke env (CLIENT_get_packages filters) cancel callback =
     pk_client_get_packages_async filters cancel callback"
| "client_invoke env (CLIENT_get_requires filters package_ids recursive) cancel callback =
     pk_client_get_requires_async filters package_ids recursive cancel callback"
| "client_invoke env (CLIENT_what_provides filters provides values) cancel callback =
     pk_client_what_provides_async filters provides values cancel callback"
| "client_invoke env (CLIENT_get_files package_ids) cancel callback =
     pk_client_get_files_async package_ids cancel callback"
| "client_invoke env CLIENT_get_categories cancel callback =
     pk_client_get_categories_async cancel callback"
| "client_invoke env (CLIENT_refresh_cache force) cancel callback =
     pk_client_refresh_cache_async force cancel callback"
| "client_invoke env (CLIENT_rollback transaction_id) cancel callback =
     pk_client_rollback_async transaction_id cancel callback"
| "client_invoke env (CLIENT_get_repo_list filters) cancel callback =
     pk_client_get_repo_list_async filters cancel callback"
| "client_invoke env (CLIENT_repo_enable repo_id enabled) cancel callback =
     pk_client_repo_enable_async repo_id enabled cancel callback"
| "client_invoke env (CLIENT_repair_system only_trusted) cancel callback =
     pk_client_repair_system_async only_trusted cancel callback"
| "client_invoke env (CLIENT_simulate_install_packages package_ids) cancel callback =
     pk_client_simulate_install_packages_async package_ids cancel callback"
| "client_invoke env (CLIENT_simulate_update_packages package_ids) cancel callback =
     pk_client_simulate_update_packages_async package_ids cancel callback"
| "client_invoke env (CLIENT_simulate_remove_packages package_ids autoremove) cancel callback =
     pk_client_simulate_remove_packages_async package_ids autoremove cancel callback"
| "client_invoke env (CLIENT_install_signature type key_id package_id) cancel callback =
     pk_client_install_signature_async type key_id package_id cancel callback"
| "client_invoke env (CLIENT_get_old_transactions number) cancel callback =
     pk_client_get_old_transactions_async number cancel callback"
| "client_invoke env CLIENT_get_distro_upgrades cancel callback =
     pk_client_get_distro_upgrades_async cancel callback"
| "client_invoke env (CLIENT_repo_set_data repo_id parameter val) cancel callback =
     pk_client_repo_set_data_async repo_id parameter val cancel callback"
| "client_invoke env (CLIENT_upgrade_system distro_id upgrade_kind) cancel callback =
     pk_client_upgrade_system_async distro_id upgrade_kind cancel callback"
| "client_invoke env (CLIENT_accept_eula eula_id) cancel callback =
     pk_client_accept_eula_async (Some eula_id) cancel callback"
| "client_invoke env (CLIENT_install_files only_trusted files) cancel callback =
     pk_client_install_files_async env only_trusted files cancel callback"
| "client_invoke env (CLIENT_simulate_install_files files) cancel callback =
     pk_client_simulate_install_files_async env files cancel callback"
| "client_invoke env CLIENT_simulate_repair_system cancel callback =
     pk_client_simulate_repair_system_async cancel callback"

end
