(* ===== verification/PK_Client_Laws.thy ===== *)
theory PK_Client_Laws
  imports PK_Wire
begin

text \<open>
  What the client does with a call of the application: the operations of a call one after the
  other, with the properties of the proxy reported in between, and the method call in the end.
\<close>

section \<open>Reports to the application\<close>

text \<open>Everything the client does but for the reports of progress.\<close>

fun is_progress :: "client_event \<Rightarrow> bool" where
  "is_progress (EV_PROGRESS a ty p) = True"
| "is_progress _ = False"

definition acts :: "PkClient \<Rightarrow> client_event list" where
  "acts c = filter (\<lambda>e. \<not> is_progress e) (cl_events c)"

lemma acts_client_emit [simp]: "acts (client_emit e c) = acts c @ (if is_progress e then [] else [e])"
  by (simp add: acts_def client_emit_def)

lemma client_emit_simps [simp]:
  "cl_pending (client_emit e c) = cl_pending c" "cl_calls (client_emit e c) = cl_calls c"
  "cl_states (client_emit e c) = cl_states c" "cl_next_state (client_emit e c) = cl_next_state c"
  "cl_handlers (client_emit e c) = cl_handlers c" "cl_undefined (client_emit e c) = cl_undefined c"
  "cl_locale (client_emit e c) = cl_locale c" "cl_background (client_emit e c) = cl_background c"
  "cl_interactive (client_emit e c) = cl_interactive c" "cl_cache_age (client_emit e c) = cl_cache_age c"
  "cl_idle (client_emit e c) = cl_idle c" "cl_next_object (client_emit e c) = cl_next_object c"
  by (simp_all add: client_emit_def)

lemma client_wait_simps [simp]:
  "cl_pending (client_wait a op c) = cl_pending c @ [(a, op)]" "cl_calls (client_wait a op c) = cl_calls c"
  "cl_states (client_wait a op c) = cl_states c" "cl_next_state (client_wait a op c) = cl_next_state c"
  "cl_handlers (client_wait a op c) = cl_handlers c" "cl_undefined (client_wait a op c) = cl_undefined c"
  "cl_locale (client_wait a op c) = cl_locale c" "cl_background (client_wait a op c) = cl_background c"
  "cl_interactive (client_wait a op c) = cl_interactive c" "cl_cache_age (client_wait a op c) = cl_cache_age c"
  "cl_idle (client_wait a op c) = cl_idle c" "cl_events (client_wait a op c) = cl_events c"
  "acts (client_wait a op c) = acts c"
  by (simp_all add: client_wait_def acts_def)

lemma acts_updates [simp]:
  "acts (c\<lparr>cl_states := f\<rparr>) = acts c" "acts (c\<lparr>cl_pending := p\<rparr>) = acts c"
  "acts (c\<lparr>cl_calls := l\<rparr>) = acts c" "acts (c\<lparr>cl_idle := i\<rparr>) = acts c"
  "acts (c\<lparr>cl_undefined := u\<rparr>) = acts c" "acts (c\<lparr>cl_next_state := n\<rparr>) = acts c"
  "acts (c\<lparr>cl_handlers := h\<rparr>) = acts c" "acts (c\<lparr>cl_next_object := m\<rparr>) = acts c"
  by (simp_all add: acts_def)

text \<open>What a report leaves as it is: all but the progress of the call.\<close>

definition unmoved :: "nat \<Rightarrow> PkClient \<Rightarrow> PkClient \<Rightarrow> bool" where
  "unmoved a c c' \<longleftrightarrow>
     acts c' = acts c \<and> cl_pending c' = cl_pending c \<and> cl_calls c' = cl_calls c \<and> cl_idle c' = cl_idle c \<and>
     cl_next_state c' = cl_next_state c \<and> cl_handlers c' = cl_handlers c \<and> cl_locale c' = cl_locale c \<and>
     cl_background c' = cl_background c \<and> cl_interactive c' = cl_interactive c \<and>
     cl_cache_age c' = cl_cache_age c \<and> cl_undefined c' = cl_undefined c \<and>
     (\<exists>p. cl_states c' = (cl_states c)(a := map_option (\<lambda>st. st\<lparr>cs_progress := p\<rparr>) (cl_states c a)))"

lemma unmoved_refl [simp]: "unmoved a c c"
proof (cases "cl_states c a")
  case (Some st)
  then have "cl_states c = (cl_states c)(a := map_option (\<lambda>st. st\<lparr>cs_progress := cs_progress st\<rparr>) (cl_states c a)) "
    by auto
  moreover have "cl_states c = (cl_states c)(a := map_option (\<lambda>s. s\<lparr>cs_progress := cs_progress st\<rparr>) (cl_states c a))"
    using Some by auto
  ultimately show ?thesis unfolding unmoved_def by blast
qed (auto simp: unmoved_def fun_eq_iff)

lemma unmoved_trans [trans]:
  assumes "unmoved a c d" and "unmoved a d e"
  shows "unmoved a c e"
proof -
  obtain p q where "cl_states d = (cl_states c)(a := map_option (\<lambda>st. st\<lparr>cs_progress := p\<rparr>) (cl_states c a))"
    and "cl_states e = (cl_states d)(a := map_option (\<lambda>st. st\<lparr>cs_progress := q\<rparr>) (cl_states d a))"
    using assms unfolding unmoved_def by blast
  then have "cl_states e = (cl_states c)(a := map_option (\<lambda>st. st\<lparr>cs_progress := q\<rparr>) (cl_states c a))"
    by (auto simp: option.map_comp comp_def)
  then show ?thesis using assms unfolding unmoved_def by auto
qed

lemma report_unmoved:
  assumes "cl_states c a = Some st"
  shows "unmoved a c (report ty f a c)"
  using assms
  by (auto simp: unmoved_def report_def with_cs_def upd_cs_def Let_def split: prod.splits intro!: exI)

lemma unmoved_state:
  assumes "unmoved a c c'" and "cl_states c a = Some st"
  obtains p where "cl_states c' a = Some (st\<lparr>cs_progress := p\<rparr>)"
  using assms by (auto simp: unmoved_def)

lemma property_unmoved:
  assumes "cl_states c a = Some st"
  shows "unmoved a c (pk_client_set_property_value key v a c)"
  using report_unmoved [OF assms]
  by (auto simp: pk_client_set_property_value_def split: option.split)

lemma properties_unmoved:
  "cl_states c a = Some st \<Longrightarrow> unmoved a c (fold (\<lambda>(key, v). pk_client_set_property_value key v a) ps c)"
proof (induction ps arbitrary: c st)
  case (Cons p ps)
  obtain key v where p: "p = (key, v)" by force
  have q: "unmoved a c (pk_client_set_property_value key v a c)" by (rule property_unmoved [OF Cons.prems])
  from q Cons.prems obtain x where "cl_states (pk_client_set_property_value key v a c) a = Some (st\<lparr>cs_progress := x\<rparr>)"
    by (rule unmoved_state)
  from unmoved_trans [OF q Cons.IH [OF this]] show ?case by (simp add: p)
qed simp

end
