(* ===== verification/PK_Client_Steps.thy ===== *)
theory PK_Client_Steps
  imports PK_Client_Laws
begin

text \<open>
  A call of the application followed to the handler of the daemon, when every operation on the way
  succeeds: the identifier of the transaction, the connection, the hints, the method.
\<close>

section \<open>Where a call is\<close>

text \<open>
  The call \<open>a\<close> of client \<open>c\<close> has got to a client whose state is \<open>st\<close> but for the progress,
  that waits for \<open>pending\<close> and has done \<open>done\<close>.
\<close>

definition same_client :: "PkClient \<Rightarrow> PkClient \<Rightarrow> bool" where
  "same_client c c' \<longleftrightarrow>
     cl_locale c' = cl_locale c \<and> cl_background c' = cl_background c \<and> cl_interactive c' = cl_interactive c \<and>
     cl_cache_age c' = cl_cache_age c \<and> cl_undefined c' = cl_undefined c"

definition got_to :: "PkClient \<Rightarrow> nat \<Rightarrow> PkClientState \<Rightarrow> (nat \<times> client_op) list \<Rightarrow> client_event list \<Rightarrow> PkClient \<Rightarrow> bool" where
  "got_to c a st waits evs c' \<longleftrightarrow>
     (\<exists>p. cl_states c' a = Some (st\<lparr>cs_progress := p\<rparr>)) \<and> cl_pending c' = waits \<and> acts c' = evs \<and> same_client c c'"

lemma unmoved_got_to:
  assumes "got_to c a st waits evs d" and "unmoved a d e"
  shows "got_to c a st waits evs e"
proof -
  obtain p where "cl_states d a = Some (st\<lparr>cs_progress := p\<rparr>)" using assms(1) by (auto simp: got_to_def)
  from unmoved_state [OF assms(2) this] obtain q where "cl_states e a = Some (st\<lparr>cs_progress := p, cs_progress := q\<rparr>)" .
  then show ?thesis using assms by (auto simp: got_to_def unmoved_def same_client_def)
qed

lemma upd_cs_got_to:
  assumes "got_to c a st waits evs d"
    and "\<And>p. f (st\<lparr>cs_progress := p\<rparr>) = st'\<lparr>cs_progress := g p\<rparr>"
  shows "got_to c a st' waits evs (upd_cs a f d)"
proof -
  obtain p where "cl_states d a = Some (st\<lparr>cs_progress := p\<rparr>)" using assms(1) by (auto simp: got_to_def)
  then show ?thesis using assms by (auto simp: got_to_def upd_cs_def with_cs_def same_client_def)
qed

lemma emit_got_to:
  "got_to c a st waits evs d \<Longrightarrow> \<not> is_progress e \<Longrightarrow> got_to c a st waits (evs @ [e]) (client_emit e d)"
  by (auto simp: got_to_def same_client_def)

lemma wait_got_to: "got_to c a st waits evs d \<Longrightarrow> got_to c a st (waits @ [(a, op)]) evs (client_wait a op d)"
  by (auto simp: got_to_def same_client_def)

lemma calls_got_to: "got_to c a st waits evs d \<Longrightarrow> got_to c a st waits evs (d\<lparr>cl_calls := l\<rparr>)"
  by (auto simp: got_to_def same_client_def)

lemma get_tid_got_to:
  "got_to c a st waits evs d \<Longrightarrow> got_to c a st (waits @ [(a, OP_get_tid)]) (evs @ [EV_GET_TID a]) (client_get_tid a d)"
  unfolding client_get_tid_def by (intro wait_got_to emit_got_to) simp_all

lemma connect_got_to:
  assumes "got_to c a st waits evs d"
  shows "got_to c a (st\<lparr>cs_proxy := True\<rparr>) waits evs (pk_client_proxy_connect props a d)"
proof -
  have g: "got_to c a (st\<lparr>cs_proxy := True\<rparr>) waits evs (upd_cs a (\<lambda>st. st\<lparr>cs_proxy := True\<rparr>) d)"
    by (rule upd_cs_got_to [OF assms, where g = id]) simp
  then obtain p where "cl_states (upd_cs a (\<lambda>st. st\<lparr>cs_proxy := True\<rparr>) d) a = Some (st\<lparr>cs_proxy := True, cs_progress := p\<rparr>)"
    by (auto simp: got_to_def)
  from properties_unmoved [OF this] show ?thesis
    unfolding pk_client_proxy_connect_def by (rule unmoved_got_to [OF g])
qed

lemma with_cs_got_to:
  assumes "got_to c a st waits evs d"
    and "\<And>p. got_to c a st' waits' evs' (f (st\<lparr>cs_progress := p\<rparr>) d)"
  shows "got_to c a st' waits' evs' (with_cs a f d)"
  using assms by (auto simp: got_to_def with_cs_def)

section \<open>The operations of a call\<close>

lemma answer_got_to:
  assumes "got_to c a st (waits @ [(a, op)]) evs d" and "n = length waits"
    and "\<And>e. got_to c a st waits evs e \<Longrightarrow> got_to c a st' waits' evs' (client_dispatch env op answer a e)"
  shows "got_to c a st' waits' evs' (client_answer_op env n answer d)"
proof -
  have "cl_pending d = waits @ [(a, op)]" using assms(1) by (simp add: got_to_def)
  moreover have "got_to c a st waits evs (d\<lparr>cl_pending := waits\<rparr>)"
    using assms(1) by (auto simp: got_to_def same_client_def)
  ultimately show ?thesis using assms(2,3) by (simp add: client_answer_op_def)
qed

lemma tid_got_to:
  assumes "got_to c a st (waits @ [(a, OP_get_tid)]) evs d"
  shows "got_to c a (st\<lparr>cs_tid := Some tid\<rparr>) (waits @ [(a, OP_get_proxy)]) (evs @ [EV_CONNECT a tid])
    (client_answer_op env (length waits) (ANS_tid (Inr tid)) d)"
proof (rule answer_got_to [OF assms refl])
  fix e assume e: "got_to c a st waits evs e"
  have "got_to c a (st\<lparr>cs_tid := Some tid\<rparr>) waits evs
      (upd_cs a (\<lambda>st. st\<lparr>cs_tid := Some tid,
         cs_progress := snd (pk_progress_set_transaction_id (Some tid) (cs_progress st))\<rparr>) e)"
    by (rule upd_cs_got_to [OF e, where g = "\<lambda>p. snd (pk_progress_set_transaction_id (Some tid) p)"]) simp
  then show "got_to c a (st\<lparr>cs_tid := Some tid\<rparr>) (waits @ [(a, OP_get_proxy)]) (evs @ [EV_CONNECT a tid])
      (client_dispatch env OP_get_tid (ANS_tid (Inr tid)) a e)"
    by (auto simp: pk_client_get_tid_cb_def Let_def intro!: wait_got_to emit_got_to)
qed

lemma client_hints_cong:
  "same_client c d \<Longrightarrow> client_hints env d (st\<lparr>cs_progress := p\<rparr>) = client_hints env c st"
  "client_hints env c (st\<lparr>cs_proxy := x\<rparr>) = client_hints env c st"
  by (simp_all add: client_hints_def same_client_def cong: option.case_cong)

definition with_helper :: "client_env \<Rightarrow> PkClientState \<Rightarrow> PkClientState" where
  "with_helper env st =
     (if cs_role st \<in> set interactive_roles
      then st\<lparr>cs_client_helper := fst (pk_client_create_helper_socket env (or_empty (cs_tid st)))\<rparr> else st)"

lemma proxy_got_to:
  assumes "got_to c a st (waits @ [(a, OP_get_proxy)]) evs d"
  shows "got_to c a (with_helper env (st\<lparr>cs_proxy := True\<rparr>)) (waits @ [(a, OP_set_hints)])
    (evs @ [EV_CALL a ''SetHints'' [B_strings (client_hints env c st)]])
    (client_answer_op env (length waits) (ANS_proxy (Inr props)) d)"
proof (rule answer_got_to [OF assms refl])
  fix e assume "got_to c a st waits evs e"
  then have e: "got_to c a (st\<lparr>cs_proxy := True\<rparr>) waits evs (pk_client_proxy_connect props a e)"
    by (rule connect_got_to)
  have hints: "client_hints env (pk_client_proxy_connect props a e) (st\<lparr>cs_proxy := True, cs_progress := p\<rparr>) =
      client_hints env c st" for p
    using e client_hints_cong(1) [where c = c and d = "pk_client_proxy_connect props a e" and st = "st\<lparr>cs_proxy := True\<rparr>"]
    by (simp add: got_to_def client_hints_cong(2))
  have u: "got_to c a (st\<lparr>cs_proxy := True, cs_client_helper := fst (pk_client_create_helper_socket env (or_empty (cs_tid st)))\<rparr>) waits evs
      (upd_cs a (\<lambda>st. st\<lparr>cs_client_helper := fst (pk_client_create_helper_socket env (or_empty (cs_tid st)))\<rparr>)
        (pk_client_proxy_connect props a e))"
    by (rule upd_cs_got_to [OF e, where g = id]) simp
  show "got_to c a (with_helper env (st\<lparr>cs_proxy := True\<rparr>)) (waits @ [(a, OP_set_hints)])
      (evs @ [EV_CALL a ''SetHints'' [B_strings (client_hints env c st)]])
      (client_dispatch env OP_get_proxy (ANS_proxy (Inr props)) a e)"
    unfolding client_dispatch.simps pk_client_get_proxy_cb_def sum.case Let_def
    by (rule with_cs_got_to [OF e])
      (use e u in \<open>auto simp: with_helper_def hints intro!: calls_got_to wait_got_to emit_got_to\<close>)
qed

definition method_of :: "PkClientState \<Rightarrow> string \<Rightarrow> bus_value list \<Rightarrow> bool" where
  "method_of st name args \<longleftrightarrow> client_bus_call st = Some (name, map Some args)"

lemma hints_set_got_to:
  assumes "got_to c a st (waits @ [(a, OP_set_hints)]) evs d" and "method_of st name args"
    and irrelevant: "\<And>p r. client_bus_call (st\<lparr>cs_results := r, cs_progress := p\<rparr>) = client_bus_call st"
    "\<And>p r. client_inputs (st\<lparr>cs_results := r, cs_progress := p\<rparr>) = client_inputs st"
  shows "got_to c a (st\<lparr>cs_results := Some pk_results_new, cs_inputs := client_inputs st\<rparr>) (waits @ [(a, OP_method)])
    (evs @ [EV_CALL a name args]) (client_answer_op env (length waits) (ANS_reply None) d)"
proof (rule answer_got_to [OF assms(1) refl])
  fix e assume e: "got_to c a st waits evs e"
  have n: "None \<notin> set (map Some args)" by auto
  have e: "got_to c a (st\<lparr>cs_results := Some pk_results_new\<rparr>) waits evs
      (upd_cs a (\<lambda>st. st\<lparr>cs_results := Some pk_results_new\<rparr>) e)"
    by (rule upd_cs_got_to [OF e, where g = id]) simp
  have x: "got_to c a (st\<lparr>cs_results := Some pk_results_new\<rparr>) (waits @ [(a, OP_method)]) (evs @ [EV_CALL a name args])
      (client_wait a OP_method (client_emit (EV_CALL a name args) (upd_cs a (\<lambda>st. st\<lparr>cs_results := Some pk_results_new\<rparr>) e)))"
    by (intro wait_got_to emit_got_to e) simp
  show "got_to c a (st\<lparr>cs_results := Some pk_results_new, cs_inputs := client_inputs st\<rparr>) (waits @ [(a, OP_method)])
      (evs @ [EV_CALL a name args]) (client_dispatch env OP_set_hints (ANS_reply None) a e)"
    unfolding client_dispatch.simps pk_client_set_hints_cb_def option.case Let_def
    apply (rule with_cs_got_to [OF e])
    apply (use assms(2) in \<open>simp add: irrelevant method_of_def n comp_def del: set_map\<close>)
    apply (rule upd_cs_got_to [OF x, where g = id])
    apply (simp add: irrelevant)
    done
qed

section \<open>Starting\<close>

lemma report_got_to:
  assumes "got_to c a st waits evs d"
  shows "got_to c a st waits evs (report ty f a d)"
proof -
  obtain p where "cl_states d a = Some (st\<lparr>cs_progress := p\<rparr>)" using assms by (auto simp: got_to_def)
  from report_unmoved [OF this] show ?thesis by (rule unmoved_got_to [OF assms])
qed

lemma same_progress [simp]: "st\<lparr>cs_progress := cs_progress st\<rparr> = st"
  by simp

lemma client_add_got_to:
  fixes st :: PkClientState
  shows "got_to c (cl_next_state c) (st\<lparr>cs_cancellable_id := cancel = CANCELLABLE\<rparr>) (cl_pending c) (acts c)
    (snd (client_add cancel st c))"
proof -
  let ?st = "st\<lparr>cs_cancellable_id := cancel = CANCELLABLE\<rparr>"
  have "cl_states (snd (client_add cancel st c)) (cl_next_state c) = Some ?st"
    by (simp add: client_add_def Let_def)
  then have "cl_states (snd (client_add cancel st c)) (cl_next_state c) = Some (?st\<lparr>cs_progress := cs_progress ?st\<rparr>)"
    by (simp only: same_progress)
  then have "\<exists>p. cl_states (snd (client_add cancel st c)) (cl_next_state c) = Some (?st\<lparr>cs_progress := p\<rparr>)"
    by (rule exI)
  then show ?thesis unfolding got_to_def
    by (intro conjI, assumption) (simp_all add: client_add_def Let_def same_client_def acts_def)
qed

lemma client_begin_got_to:
  assumes "cancel \<noteq> CANCELLED"
    and go: "\<And>d. got_to c (cl_next_state c) (st\<lparr>cs_cancellable_id := cancel = CANCELLABLE\<rparr>) (cl_pending c) (acts c) d \<Longrightarrow>
      got_to c (cl_next_state c) st' waits evs (go (cl_next_state c) d)"
  shows "got_to c (cl_next_state c) st' waits evs (client_begin cancel go st c)"
proof -
  have "fst (client_add cancel st c) = cl_next_state c" by (simp add: client_add_def Let_def)
  then show ?thesis
    using assms(1) go [OF report_got_to [OF client_add_got_to]] by (cases "client_add cancel st c") (simp add: client_begin_def pk_client_set_role_def)
qed

text \<open>A call whose method is the one that the state says.\<close>

definition asks :: "transaction_method \<Rightarrow> PkClientState \<Rightarrow> bool" where
  "asks m st \<longleftrightarrow>
     (\<exists>name args. unpack_method name args = Some m \<and>
        (\<forall>p x tid h r ci cc pc rc.
           method_of (st\<lparr>cs_progress := p, cs_proxy := x, cs_tid := tid, cs_client_helper := h, cs_results := r,
             cs_cancellable_id := ci, cs_cancellable_client := cc, cs_progress_callback := pc, cs_refcount := rc\<rparr>) name args))"


lemma asksI:
  assumes "unpack_method name args = Some m"
    and "\<And>p x tid h r ci cc pc rc.
      client_bus_call (st\<lparr>cs_progress := p, cs_proxy := x, cs_tid := tid, cs_client_helper := h, cs_results := r,
        cs_cancellable_id := ci, cs_cancellable_client := cc, cs_progress_callback := pc, cs_refcount := rc\<rparr>) =
        Some (name, map Some args)"
  shows "asks m st"
  unfolding asks_def method_of_def using assms by blast

lemmas asks_defs = unpack_method_def client_bus_call_def client_state_new_def bus_string_def bus_strings_def

lemma asks_M_InstallPackages: "asks (M_InstallPackages t ps) ((client_state_new PK_ROLE_ENUM_INSTALL_PACKAGES)\<lparr>cs_only_trusted := t, cs_package_ids := Some ps\<rparr>)"
  by (rule asksI [where name = "''InstallPackages''" and args = "[B_bool t, B_strings ps]"]; simp add: asks_defs)

lemma asks_M_UpdatePackages: "asks (M_UpdatePackages t ps) ((client_state_new PK_ROLE_ENUM_UPDATE_PACKAGES)\<lparr>cs_only_trusted := t, cs_package_ids := Some ps\<rparr>)"
  by (rule asksI [where name = "''UpdatePackages''" and args = "[B_bool t, B_strings ps]"]; simp add: asks_defs)

lemma asks_M_RemovePackages: "asks (M_RemovePackages ps d r) ((client_state_new PK_ROLE_ENUM_REMOVE_PACKAGES)\<lparr>cs_package_ids := Some ps, cs_allow_deps := d, cs_autoremove := r\<rparr>)"
  by (rule asksI [where name = "''RemovePackages''" and args = "[B_strings ps, B_bool d, B_bool r]"]; simp add: asks_defs)

lemma asks_M_UpdateSystem: "asks (M_UpdateSystem t) ((client_state_new PK_ROLE_ENUM_UPDATE_SYSTEM)\<lparr>cs_only_trusted := t\<rparr>)"
  by (rule asksI [where name = "''UpdateSystem''" and args = "[B_bool t]"]; simp add: asks_defs)

lemma asks_M_Resolve: "asks (M_Resolve (pk_filter_bitfield_to_string f) ps) ((client_state_new PK_ROLE_ENUM_RESOLVE)\<lparr>cs_filters := f, cs_package_ids := Some ps\<rparr>)"
  by (rule asksI [where name = "''Resolve''" and args = "[B_string (pk_filter_bitfield_to_string f), B_strings ps]"]; simp add: asks_defs)

lemma asks_M_SearchNames: "asks (M_SearchNames (pk_filter_bitfield_to_string f) ps) ((client_state_new PK_ROLE_ENUM_SEARCH_NAME)\<lparr>cs_filters := f, cs_search := Some ps\<rparr>)"
  by (rule asksI [where name = "''SearchNames''" and args = "[B_string (pk_filter_bitfield_to_string f), B_strings ps]"]; simp add: asks_defs)

lemma asks_M_SearchDetails: "asks (M_SearchDetails (pk_filter_bitfield_to_string f) ps) ((client_state_new PK_ROLE_ENUM_SEARCH_DETAILS)\<lparr>cs_filters := f, cs_search := Some ps\<rparr>)"
  by (rule asksI [where name = "''SearchDetails''" and args = "[B_string (pk_filter_bitfield_to_string f), B_strings ps]"]; simp add: asks_defs)

lemma asks_M_SearchGroups: "asks (M_SearchGroups (pk_filter_bitfield_to_string f) ps) ((client_state_new PK_ROLE_ENUM_SEARCH_GROUP)\<lparr>cs_filters := f, cs_search := Some ps\<rparr>)"
  by (rule asksI [where name = "''SearchGroups''" and args = "[B_string (pk_filter_bitfield_to_string f), B_strings ps]"]; simp add: asks_defs)

lemma asks_M_SearchFiles: "asks (M_SearchFiles (pk_filter_bitfield_to_string f) ps) ((client_state_new PK_ROLE_ENUM_SEARCH_FILE)\<lparr>cs_filters := f, cs_search := Some ps\<rparr>)"
  by (rule asksI [where name = "''SearchFiles''" and args = "[B_string (pk_filter_bitfield_to_string f), B_strings ps]"]; simp add: asks_defs)

lemma asks_M_GetDetails: "asks (M_GetDetails ps) ((client_state_new PK_ROLE_ENUM_GET_DETAILS)\<lparr>cs_package_ids := Some ps\<rparr>)"
  by (rule asksI [where name = "''GetDetails''" and args = "[B_strings ps]"]; simp add: asks_defs)

lemma asks_M_GetUpdateDetail: "asks (M_GetUpdateDetail ps) ((client_state_new PK_ROLE_ENUM_GET_UPDATE_DETAIL)\<lparr>cs_package_ids := Some ps\<rparr>)"
  by (rule asksI [where name = "''GetUpdateDetail''" and args = "[B_strings ps]"]; simp add: asks_defs)

lemma asks_M_DownloadPackages: "asks (M_DownloadPackages (dir = None) ps) ((client_state_new PK_ROLE_ENUM_DOWNLOAD_PACKAGES)\<lparr>cs_package_ids := Some ps, cs_directory := dir\<rparr>)"
  by (rule asksI [where name = "''DownloadPackages''" and args = "[B_bool (dir = None), B_strings ps]"]; simp add: asks_defs)

lemma asks_M_GetUpdates: "asks (M_GetUpdates (pk_filter_bitfield_to_string f)) ((client_state_new PK_ROLE_ENUM_GET_UPDATES)\<lparr>cs_filters := f\<rparr>)"
  by (rule asksI [where name = "''GetUpdates''" and args = "[B_string (pk_filter_bitfield_to_string f)]"]; simp add: asks_defs)

lemma asks_M_GetDepends: "asks (M_GetDepends (pk_filter_bitfield_to_string f) ps r) ((client_state_new PK_ROLE_ENUM_GET_DEPENDS)\<lparr>cs_filters := f, cs_package_ids := Some ps, cs_recursive := r\<rparr>)"
  by (rule asksI [where name = "''GetDepends''" and args = "[B_string (pk_filter_bitfield_to_string f), B_strings ps, B_bool r]"]; simp add: asks_defs)

lemma asks_M_GetPackages: "asks (M_GetPackages (pk_filter_bitfield_to_string f)) ((client_state_new PK_ROLE_ENUM_GET_PACKAGES)\<lparr>cs_filters := f\<rparr>)"
  by (rule asksI [where name = "''GetPackages''" and args = "[B_string (pk_filter_bitfield_to_string f)]"]; simp add: asks_defs)

lemma asks_M_GetRequires: "asks (M_GetRequires (pk_filter_bitfield_to_string f) ps r) ((client_state_new PK_ROLE_ENUM_GET_REQUIRES)\<lparr>cs_filters := f, cs_package_ids := Some ps, cs_recursive := r\<rparr>)"
  by (rule asksI [where name = "''GetRequires''" and args = "[B_string (pk_filter_bitfield_to_string f), B_strings ps, B_bool r]"]; simp add: asks_defs)

lemma asks_M_WhatProvides: "asks (M_WhatProvides (pk_filter_bitfield_to_string f) (pk_provides_enum_to_string p) ps) ((client_state_new PK_ROLE_ENUM_WHAT_PROVIDES)\<lparr>cs_filters := f, cs_provides := p, cs_search := Some ps\<rparr>)"
  by (rule asksI [where name = "''WhatProvides''" and args = "[B_string (pk_filter_bitfield_to_string f), B_string (pk_provides_enum_to_string p), B_strings ps]"]; simp add: asks_defs)

lemma asks_M_GetFiles: "asks (M_GetFiles ps) ((client_state_new PK_ROLE_ENUM_GET_FILES)\<lparr>cs_package_ids := Some ps\<rparr>)"
  by (rule asksI [where name = "''GetFiles''" and args = "[B_strings ps]"]; simp add: asks_defs)

lemma asks_M_GetCategories: "asks M_GetCategories (client_state_new PK_ROLE_ENUM_GET_CATEGORIES)"
  by (rule asksI [where name = "''GetCategories''" and args = "[]"]; simp add: asks_defs)

lemma asks_M_RefreshCache: "asks (M_RefreshCache t) ((client_state_new PK_ROLE_ENUM_REFRESH_CACHE)\<lparr>cs_force := t\<rparr>)"
  by (rule asksI [where name = "''RefreshCache''" and args = "[B_bool t]"]; simp add: asks_defs)

lemma asks_M_Rollback: "asks (M_Rollback k) ((client_state_new PK_ROLE_ENUM_ROLLBACK)\<lparr>cs_transaction_id := Some k\<rparr>)"
  by (rule asksI [where name = "''Rollback''" and args = "[B_string k]"]; simp add: asks_defs)

lemma asks_M_GetRepoList: "asks (M_GetRepoList (pk_filter_bitfield_to_string f)) ((client_state_new PK_ROLE_ENUM_GET_REPO_LIST)\<lparr>cs_filters := f\<rparr>)"
  by (rule asksI [where name = "''GetRepoList''" and args = "[B_string (pk_filter_bitfield_to_string f)]"]; simp add: asks_defs)

lemma asks_M_RepoEnable: "asks (M_RepoEnable k t) ((client_state_new PK_ROLE_ENUM_REPO_ENABLE)\<lparr>cs_repo_id := Some k, cs_enabled := t\<rparr>)"
  by (rule asksI [where name = "''RepoEnable''" and args = "[B_string k, B_bool t]"]; simp add: asks_defs)

lemma asks_M_RepairSystem: "asks (M_RepairSystem t) ((client_state_new PK_ROLE_ENUM_REPAIR_SYSTEM)\<lparr>cs_only_trusted := t\<rparr>)"
  by (rule asksI [where name = "''RepairSystem''" and args = "[B_bool t]"]; simp add: asks_defs)

lemma asks_M_SimulateInstallPackages: "asks (M_SimulateInstallPackages ps) ((client_state_new PK_ROLE_ENUM_SIMULATE_INSTALL_PACKAGES)\<lparr>cs_package_ids := Some ps\<rparr>)"
  by (rule asksI [where name = "''SimulateInstallPackages''" and args = "[B_strings ps]"]; simp add: asks_defs)

lemma asks_M_SimulateUpdatePackages: "asks (M_SimulateUpdatePackages ps) ((client_state_new PK_ROLE_ENUM_SIMULATE_UPDATE_PACKAGES)\<lparr>cs_package_ids := Some ps\<rparr>)"
  by (rule asksI [where name = "''SimulateUpdatePackages''" and args = "[B_strings ps]"]; simp add: asks_defs)

lemma asks_M_SimulateRemovePackages: "asks (M_SimulateRemovePackages ps r) ((client_state_new PK_ROLE_ENUM_SIMULATE_REMOVE_PACKAGES)\<lparr>cs_package_ids := Some ps, cs_autoremove := r\<rparr>)"
  by (rule asksI [where name = "''SimulateRemovePackages''" and args = "[B_strings ps, B_bool r]"]; simp add: asks_defs)

lemma asks_M_SimulateRepairSystem: "asks M_SimulateRepairSystem (client_state_new PK_ROLE_ENUM_SIMULATE_REPAIR_SYSTEM)"
  by (rule asksI [where name = "''SimulateRepairSystem''" and args = "[]"]; simp add: asks_defs)

lemma asks_M_InstallSignature: "asks (M_InstallSignature k l) ((client_state_new PK_ROLE_ENUM_INSTALL_SIGNATURE)\<lparr>cs_type := ty, cs_key_id := Some k, cs_package_id := Some l\<rparr>)"
  by (rule asksI [where name = "''InstallSignature''" and args = "[B_string (pk_sig_type_enum_to_string ty), B_string k, B_string l]"]; simp add: asks_defs)

lemma asks_M_AcceptEula: "asks (M_AcceptEula k) ((client_state_new PK_ROLE_ENUM_ACCEPT_EULA)\<lparr>cs_eula_id := Some k\<rparr>)"
  by (rule asksI [where name = "''AcceptEula''" and args = "[B_string k]"]; simp add: asks_defs)

lemma asks_M_GetOldTransactions: "asks (M_GetOldTransactions n) ((client_state_new PK_ROLE_ENUM_GET_OLD_TRANSACTIONS)\<lparr>cs_number := n\<rparr>)"
  by (rule asksI [where name = "''GetOldTransactions''" and args = "[B_uint n]"]; simp add: asks_defs)

lemma asks_M_GetDistroUpgrades: "asks M_GetDistroUpgrades (client_state_new PK_ROLE_ENUM_GET_DISTRO_UPGRADES)"
  by (rule asksI [where name = "''GetDistroUpgrades''" and args = "[]"]; simp add: asks_defs)

lemma asks_M_RepoSetData: "asks (M_RepoSetData k (or_empty u) (or_empty v)) ((client_state_new PK_ROLE_ENUM_REPO_SET_DATA)\<lparr>cs_repo_id := Some k, cs_parameter := u, cs_value := v\<rparr>)"
  by (rule asksI [where name = "''RepoSetData''" and args = "[B_string k, B_string (or_empty u), B_string (or_empty v)]"]; simp add: asks_defs)

lemma asks_M_InstallFiles: "asks (M_InstallFiles t ps) ((client_state_new PK_ROLE_ENUM_INSTALL_FILES)\<lparr>cs_cancellable_client := cn, cs_progress_callback := cb, cs_only_trusted := t, cs_files := Some ps\<rparr>)"
  by (rule asksI [where name = "''InstallFiles''" and args = "[B_bool t, B_strings ps]"]; simp add: asks_defs)

lemma asks_M_SimulateInstallFiles: "asks (M_SimulateInstallFiles ps) ((client_state_new PK_ROLE_ENUM_SIMULATE_INSTALL_FILES)\<lparr>cs_cancellable_client := cn, cs_progress_callback := cb, cs_files := Some ps\<rparr>)"
  by (rule asksI [where name = "''SimulateInstallFiles''" and args = "[B_strings ps]"]; simp add: asks_defs)

lemmas asks_method = asks_M_InstallPackages asks_M_UpdatePackages asks_M_RemovePackages asks_M_UpdateSystem asks_M_Resolve asks_M_SearchNames asks_M_SearchDetails asks_M_SearchGroups asks_M_SearchFiles asks_M_GetDetails asks_M_GetUpdateDetail asks_M_DownloadPackages asks_M_GetUpdates asks_M_GetDepends asks_M_GetPackages asks_M_GetRequires asks_M_WhatProvides asks_M_GetFiles asks_M_GetCategories asks_M_RefreshCache asks_M_Rollback asks_M_GetRepoList asks_M_RepoEnable asks_M_RepairSystem asks_M_SimulateInstallPackages asks_M_SimulateUpdatePackages asks_M_SimulateRemovePackages asks_M_SimulateRepairSystem asks_M_InstallSignature asks_M_AcceptEula asks_M_GetOldTransactions asks_M_GetDistroUpgrades asks_M_RepoSetData asks_M_InstallFiles asks_M_SimulateInstallFiles

section \<open>From the application to the handler\<close>

definition begun :: "transaction_method \<Rightarrow> PkClient \<Rightarrow> PkClient \<Rightarrow> bool" where
  "begun m c c' \<longleftrightarrow>
     (\<exists>st ci cc pc rc. asks m st \<and>
        got_to c (cl_next_state c)
          (st\<lparr>cs_cancellable_id := ci, cs_cancellable_client := cc, cs_progress_callback := pc, cs_refcount := rc\<rparr>)
          (cl_pending c @ [(cl_next_state c, OP_get_tid)]) (acts c @ [EV_GET_TID (cl_next_state c)]) c')"

lemma asks_update:
  assumes "asks m st"
  shows "asks m (st\<lparr>cs_cancellable_id := ci\<rparr>)" "asks m (st\<lparr>cs_cancellable_client := cc\<rparr>)"
    "asks m (st\<lparr>cs_progress_callback := pc\<rparr>)" "asks m (st\<lparr>cs_refcount := rc\<rparr>)"
  using assms by (auto simp: asks_def)

lemma begunI:
  assumes "asks m st"
    and "got_to c (cl_next_state c) st (cl_pending c @ [(cl_next_state c, OP_get_tid)]) (acts c @ [EV_GET_TID (cl_next_state c)]) c'"
  shows "begun m c c'"
proof -
  have "st = st\<lparr>cs_cancellable_id := cs_cancellable_id st, cs_cancellable_client := cs_cancellable_client st,
      cs_progress_callback := cs_progress_callback st, cs_refcount := cs_refcount st\<rparr>" by simp
  then show ?thesis unfolding begun_def using assms by metis
qed

lemma begun_begin:
  assumes "asks m st" and "cancel \<noteq> CANCELLED"
  shows "begun m c (client_begin cancel client_get_tid st c)"
  using assms by (blast intro: begunI asks_update client_begin_got_to get_tid_got_to)

lemma begun_start: "asks m st \<Longrightarrow> cancel \<noteq> CANCELLED \<Longrightarrow> begun m c (client_start cancel callback st c)"
  unfolding client_start_def by (intro begun_begin asks_update)

text \<open>The files that the daemon can read as they are: paths that exist, on native file systems.\<close>

definition native_paths :: "client_env \<Rightarrow> string list \<Rightarrow> string list option" where
  "native_paths env files =
     (case pk_client_convert_real_paths env files of
        Inl error \<Rightarrow> None
      | Inr paths \<Rightarrow> if \<forall>p \<in> set paths. pk_client_is_file_native env p then Some paths else None)"

lemma native_paths_count:
  assumes "native_paths env files = Some ps"
  shows "pk_client_convert_real_paths env files = Inr ps"
    and "[f \<leftarrow> ps. \<not> pk_client_is_file_native env f] = []"
  using assms by (auto simp: native_paths_def filter_empty_conv split: sum.splits if_splits)

lemma begun_files:
  assumes "native_paths env files = Some ps" and "cancel \<noteq> CANCELLED" and "asks m (st\<lparr>cs_files := Some ps\<rparr>)"
  shows "begun m c (client_begin cancel (start_files env files) st c)"
proof (rule begunI [OF asks_update(1) [OF asks_update(4) [OF assms(3)]]])
  show "got_to c (cl_next_state c) (st\<lparr>cs_files := Some ps, cs_refcount := 0, cs_cancellable_id := cancel = CANCELLABLE\<rparr>)
      (cl_pending c @ [(cl_next_state c, OP_get_tid)]) (acts c @ [EV_GET_TID (cl_next_state c)])
      (client_begin cancel (start_files env files) st c)"
  proof (rule client_begin_got_to [OF assms(2)])
    fix d let ?a = "cl_next_state c"
    assume d: "got_to c ?a (st\<lparr>cs_cancellable_id := cancel = CANCELLABLE\<rparr>) (cl_pending c) (acts c) d"
    have "got_to c ?a (st\<lparr>cs_files := Some ps, cs_refcount := 0, cs_cancellable_id := cancel = CANCELLABLE\<rparr>)
        (cl_pending c) (acts c) (upd_cs ?a (\<lambda>st. st\<lparr>cs_files := Some ps, cs_refcount := 0\<rparr>) d)"
      by (rule upd_cs_got_to [OF d, where g = id]) simp
    from get_tid_got_to [OF this]
    show "got_to c ?a (st\<lparr>cs_files := Some ps, cs_refcount := 0, cs_cancellable_id := cancel = CANCELLABLE\<rparr>)
        (cl_pending c @ [(?a, OP_get_tid)]) (acts c @ [EV_GET_TID ?a]) (start_files env files ?a d)"
      by (simp add: start_files_def native_paths_count [OF assms(1)])
  qed
qed

text \<open>The method that a call of the application is to become.\<close>

fun asked_method :: "client_env \<Rightarrow> client_call \<Rightarrow> transaction_method option" where
  "asked_method env (CLIENT_install_packages t (Some ps)) = Some (M_InstallPackages t ps)"
| "asked_method env (CLIENT_update_packages t (Some ps)) = Some (M_UpdatePackages t ps)"
| "asked_method env (CLIENT_remove_packages (Some ps) d r) = Some (M_RemovePackages ps d r)"
| "asked_method env (CLIENT_update_system t) = Some (M_UpdateSystem t)"
| "asked_method env (CLIENT_resolve f (Some ps)) = Some (M_Resolve (pk_filter_bitfield_to_string f) ps)"
| "asked_method env (CLIENT_search_names f (Some vs)) = Some (M_SearchNames (pk_filter_bitfield_to_string f) vs)"
| "asked_method env (CLIENT_search_details f (Some vs)) = Some (M_SearchDetails (pk_filter_bitfield_to_string f) vs)"
| "asked_method env (CLIENT_search_groups f (Some vs)) = Some (M_SearchGroups (pk_filter_bitfield_to_string f) vs)"
| "asked_method env (CLIENT_search_files f (Some vs)) = Some (M_SearchFiles (pk_filter_bitfield_to_string f) vs)"
| "asked_method env (CLIENT_get_details (Some ps)) = Some (M_GetDetails ps)"
| "asked_method env (CLIENT_get_update_detail (Some ps)) = Some (M_GetUpdateDetail ps)"
| "asked_method env (CLIENT_download_packages (Some ps) d) = Some (M_DownloadPackages (d = None) ps)"
| "asked_method env (CLIENT_get_updates f) = Some (M_GetUpdates (pk_filter_bitfield_to_string f))"
| "asked_method env (CLIENT_get_depends f (Some ps) r) = Some (M_GetDepends (pk_filter_bitfield_to_string f) ps r)"
| "asked_method env (CLIENT_get_packages f) = Some (M_GetPackages (pk_filter_bitfield_to_string f))"
| "asked_method env (CLIENT_get_requires f (Some ps) r) = Some (M_GetRequires (pk_filter_bitfield_to_string f) ps r)"
| "asked_method env (CLIENT_what_provides f p (Some vs)) = Some (M_WhatProvides (pk_filter_bitfield_to_string f) (pk_provides_enum_to_string p) vs)"
| "asked_method env (CLIENT_get_files (Some ps)) = Some (M_GetFiles ps)"
| "asked_method env CLIENT_get_categories = Some M_GetCategories"
| "asked_method env (CLIENT_refresh_cache force) = Some (M_RefreshCache force)"
| "asked_method env (CLIENT_rollback (Some t)) = Some (M_Rollback t)"
| "asked_method env (CLIENT_get_repo_list f) = Some (M_GetRepoList (pk_filter_bitfield_to_string f))"
| "asked_method env (CLIENT_repo_enable (Some r) e) = Some (M_RepoEnable r e)"
| "asked_method env (CLIENT_repair_system t) = Some (M_RepairSystem t)"
| "asked_method env (CLIENT_simulate_install_packages (Some ps)) = Some (M_SimulateInstallPackages ps)"
| "asked_method env (CLIENT_simulate_update_packages (Some ps)) = Some (M_SimulateUpdatePackages ps)"
| "asked_method env (CLIENT_simulate_remove_packages (Some ps) r) = Some (M_SimulateRemovePackages ps r)"
| "asked_method env CLIENT_simulate_repair_system = Some M_SimulateRepairSystem"
| "asked_method env (CLIENT_install_signature ty (Some k) (Some p)) = Some (M_InstallSignature k p)"
| "asked_method env (CLIENT_accept_eula e) = Some (M_AcceptEula e)"
| "asked_method env (CLIENT_get_old_transactions n) = Some (M_GetOldTransactions n)"
| "asked_method env CLIENT_get_distro_upgrades = Some M_GetDistroUpgrades"
| "asked_method env (CLIENT_repo_set_data (Some r) p v) = Some (M_RepoSetData r (or_empty p) (or_empty v))"
| "asked_method env (CLIENT_install_files t (Some fs)) = map_option (M_InstallFiles t) (native_paths env fs)"
| "asked_method env (CLIENT_simulate_install_files (Some fs)) = map_option M_SimulateInstallFiles (native_paths env fs)"
| "asked_method env _ = None"

lemmas invoke_defs =
  pk_client_resolve_async_def pk_client_search_names_async_def pk_client_search_details_async_def
  pk_client_search_groups_async_def pk_client_search_files_async_def pk_client_get_details_async_def
  pk_client_get_update_detail_async_def pk_client_download_packages_async_def pk_client_get_updates_async_def
  pk_client_get_old_transactions_async_def pk_client_update_system_async_def pk_client_get_depends_async_def
  pk_client_get_packages_async_def pk_client_get_requires_async_def pk_client_what_provides_async_def
  pk_client_get_distro_upgrades_async_def pk_client_get_files_async_def pk_client_get_categories_async_def
  pk_client_remove_packages_async_def pk_client_refresh_cache_async_def pk_client_install_packages_async_def
  pk_client_install_signature_async_def pk_client_update_packages_async_def pk_client_accept_eula_async_def
  pk_client_rollback_async_def pk_client_get_repo_list_async_def pk_client_repo_enable_async_def
  pk_client_repo_set_data_async_def pk_client_simulate_install_packages_async_def pk_client_simulate_remove_packages_async_def
  pk_client_simulate_update_packages_async_def pk_client_upgrade_system_async_def pk_client_repair_system_async_def
  pk_client_simulate_repair_system_async_def pk_client_install_files_async_def pk_client_simulate_install_files_async_def

lemma invoke_begun:
  assumes "asked_method env call = Some m" and "cancel \<noteq> CANCELLED"
  shows "begun m c (client_invoke env call cancel callback c)"
  using assms(1)
  by (cases "(env, call)" rule: asked_method.cases)
    (auto simp: invoke_defs intro!: begun_start begun_begin begun_files asks_method asks_update assms(2)
      del: iffI)

lemma asked_got_to:
  assumes "asks m st"
  obtains name args where "unpack_method name args = Some m"
    and "\<And>p x tid h r ci cc pc rc.
      client_bus_call (st\<lparr>cs_progress := p, cs_proxy := x, cs_tid := tid, cs_client_helper := h, cs_results := r,
        cs_cancellable_id := ci, cs_cancellable_client := cc, cs_progress_callback := pc, cs_refcount := rc\<rparr>) =
        Some (name, map Some args)"
  using assms by (auto simp: asks_def method_of_def)

lemma client_inputs_cong:
  "client_inputs (st\<lparr>cs_results := r, cs_progress := p\<rparr>) = client_inputs st"
  by (simp add: client_inputs_def)

lemma method_got_to:
  assumes "begun m c d"
  defines "a \<equiv> cl_next_state c" and "n \<equiv> length (cl_pending c)"
  shows "\<exists>st name args. unpack_method name args = Some m \<and> cs_results st = Some pk_results_new \<and>
    got_to c a st (cl_pending c @ [(a, OP_method)])
      (acts c @ [EV_GET_TID a, EV_CONNECT a tid,
        EV_CALL a ''SetHints'' [B_strings (client_hints env c st)], EV_CALL a name args])
      (client_answer_op env n (ANS_reply None)
        (client_answer_op env n (ANS_proxy (Inr props)) (client_answer_op env n (ANS_tid (Inr tid)) d)))"
proof -
  obtain st ci cc pc rc where m: "asks m st" and "got_to c a
      (st\<lparr>cs_cancellable_id := ci, cs_cancellable_client := cc, cs_progress_callback := pc, cs_refcount := rc\<rparr>)
      (cl_pending c @ [(a, OP_get_tid)]) (acts c @ [EV_GET_TID a]) d" (is "got_to c a ?st _ _ _")
    using assms(1) unfolding begun_def a_def by blast
  from tid_got_to [OF this(2), where tid = tid and env = env]
  have "got_to c a (?st\<lparr>cs_tid := Some tid\<rparr>) (cl_pending c @ [(a, OP_get_proxy)]) (acts c @ [EV_GET_TID a, EV_CONNECT a tid])
      (client_answer_op env n (ANS_tid (Inr tid)) d)" by (simp add: n_def)
  note proxy_got_to [OF this, where env = env and props = props]
  moreover define st' where "st' = with_helper env (?st\<lparr>cs_tid := Some tid, cs_proxy := True\<rparr>)"
  ultimately have g: "got_to c a st' (cl_pending c @ [(a, OP_set_hints)])
      ((acts c @ [EV_GET_TID a, EV_CONNECT a tid]) @ [EV_CALL a ''SetHints'' [B_strings (client_hints env c (?st\<lparr>cs_tid := Some tid\<rparr>))]])
      (client_answer_op env n (ANS_proxy (Inr props)) (client_answer_op env n (ANS_tid (Inr tid)) d))"
    by (simp add: n_def)
  from m obtain name args where u: "unpack_method name args = Some m" and b:
    "\<And>p x tid h r ci cc pc rc.
      client_bus_call (st\<lparr>cs_progress := p, cs_proxy := x, cs_tid := tid, cs_client_helper := h, cs_results := r,
        cs_cancellable_id := ci, cs_cancellable_client := cc, cs_progress_callback := pc, cs_refcount := rc\<rparr>) =
        Some (name, map Some args)"
    by (rule asked_got_to) blast
  have call: "client_bus_call (st'\<lparr>cs_results := r, cs_progress := p\<rparr>) = Some (name, map Some args)" for r p
  proof -
    have "st'\<lparr>cs_results := r, cs_progress := p\<rparr> =
        st\<lparr>cs_progress := p, cs_proxy := True, cs_tid := Some tid, cs_client_helper := cs_client_helper st', cs_results := r,
          cs_cancellable_id := ci, cs_cancellable_client := cc, cs_progress_callback := pc, cs_refcount := rc\<rparr>"
      by (simp add: st'_def with_helper_def)
    then show ?thesis using b by (simp only:)
  qed
  then have "client_bus_call st' = Some (name, map Some args)"
    using call [where r = "cs_results st'" and p = "cs_progress st'"] by simp
  moreover have "client_hints env c (?st\<lparr>cs_tid := Some tid\<rparr>) =
      client_hints env c (st'\<lparr>cs_results := Some pk_results_new, cs_inputs := client_inputs st'\<rparr>)"
    by (simp add: client_hints_def st'_def with_helper_def)
  ultimately show ?thesis
    using hints_set_got_to [OF g, of name args env] u call
    by (intro exI [of _ "st'\<lparr>cs_results := Some pk_results_new, cs_inputs := client_inputs st'\<rparr>"] exI [of _ name] exI [of _ args])
      (simp add: method_of_def client_inputs_cong n_def)
qed

text \<open>A call with every answer on its way to the method.\<close>

definition client_drive ::
  "client_env \<Rightarrow> client_call \<Rightarrow> cancel_arg \<Rightarrow> bool \<Rightarrow> string \<Rightarrow> (string \<times> dbus_value) list \<Rightarrow> PkClient \<Rightarrow> PkClient" where
  "client_drive env call cancel callback tid props c =
     (let n = length (cl_pending c)
      in client_answer_op env n (ANS_reply None)
           (client_answer_op env n (ANS_proxy (Inr props))
             (client_answer_op env n (ANS_tid (Inr tid)) (client_invoke env call cancel callback c))))"

text \<open>C7: A call of the application - each of the 35 whose arguments the daemon can read, all but
  \<open>UpgradeSystem\<close> - becomes exactly one method call on the bus, after the identifier, the connection and
  the hints, and the arguments that the daemon reads from it make the method that the application
  asked for. The lists and identifiers that the method needs are not \<open>NULL\<close>, files exist and are on native
  file systems, so that they are not copied first, the call is not cancelled before it starts, and
  the bus answers each of the three questions on the way with success.\<close>

theorem calls_reach_handlers:
  assumes "asked_method env call = Some m" and "cancel \<noteq> CANCELLED"
  shows "\<exists>hints name args. unpack_method name args = Some m \<and>
    acts (client_drive env call cancel callback tid props c) =
      acts c @ [EV_GET_TID (cl_next_state c), EV_CONNECT (cl_next_state c) tid,
        EV_CALL (cl_next_state c) ''SetHints'' [B_strings hints], EV_CALL (cl_next_state c) name args] \<and>
    cl_pending (client_drive env call cancel callback tid props c) =
      cl_pending c @ [(cl_next_state c, OP_method)] \<and>
    cl_undefined (client_drive env call cancel callback tid props c) = cl_undefined c"
proof -
  from invoke_begun [OF assms] have "begun m c (client_invoke env call cancel callback c)" .
  from method_got_to [OF this, where env = env and tid = tid and props = props]
  obtain st name args where "unpack_method name args = Some m" and
    "got_to c (cl_next_state c) st (cl_pending c @ [(cl_next_state c, OP_method)])
      (acts c @ [EV_GET_TID (cl_next_state c), EV_CONNECT (cl_next_state c) tid,
        EV_CALL (cl_next_state c) ''SetHints'' [B_strings (client_hints env c st)],
        EV_CALL (cl_next_state c) name args]) (client_drive env call cancel callback tid props c)"
    unfolding client_drive_def Let_def by blast
  then show ?thesis unfolding got_to_def same_client_def by blast
qed

end
