(* ===== verification/PK_Wire_Laws.thy ===== *)
theory PK_Wire_Laws
  imports PK_Wire
begin

text \<open>
  From one side of the bus to the other: what the daemon reports is what the client collects, and
  what the application asks for is what the handler of the daemon gets.
\<close>

section \<open>Reports\<close>

text \<open>The signals that a callback of the daemon emits arrive at a call of the client.\<close>

definition crossing :: "(PkTransaction \<Rightarrow> PkTransaction) \<Rightarrow> PkTransaction \<Rightarrow> nat \<Rightarrow> PkClient \<Rightarrow> PkClient" where
  "crossing callback t a c =
     fold (\<lambda>s. client_signal (SIG s) a) (drop (length (tr_emitted t)) (tr_emitted (callback t))) c"

definition results_of :: "nat \<Rightarrow> PkClient \<Rightarrow> PkResults option" where
  "results_of a c = Option.bind (cl_states c a) cs_results"

text \<open>A text that is missing arrives as an empty one.\<close>

definition filled :: "string option \<Rightarrow> string option" where
  "filled s = Some (or_empty s)"

definition filled_details :: "PkDetails \<Rightarrow> PkDetails" where
  "filled_details d =
     d\<lparr>dt_license := filled (dt_license d), dt_description := filled (dt_description d), dt_url := filled (dt_url d)\<rparr>"

definition filled_update_detail :: "PkUpdateDetail \<Rightarrow> PkUpdateDetail" where
  "filled_update_detail u =
     u\<lparr>ud_updates := filled (ud_updates u), ud_obsoletes := filled (ud_obsoletes u),
       ud_vendor_url := filled (ud_vendor_url u), ud_bugzilla_url := filled (ud_bugzilla_url u),
       ud_cve_url := filled (ud_cve_url u), ud_update_text := filled (ud_update_text u),
       ud_changelog := filled (ud_changelog u), ud_issued := filled (ud_issued u),
       ud_updated := filled (ud_updated u)\<rparr>"

lemma wire_enums:
  "g \<noteq> PK_GROUP_ENUM_LAST \<Longrightarrow> pk_group_enum_from_string (Some (pk_group_enum_to_string g)) = g"
  "us \<noteq> PK_UPDATE_STATE_ENUM_LAST \<Longrightarrow> pk_update_state_enum_from_string (Some (pk_update_state_enum_to_string us)) = us"
  "re \<noteq> PK_RESTART_ENUM_LAST \<Longrightarrow> pk_restart_enum_from_string (Some (pk_restart_enum_to_string re)) = re"
  "me \<noteq> PK_MESSAGE_ENUM_LAST \<Longrightarrow> pk_message_enum_from_string (Some (pk_message_enum_to_string me)) = me"
  "er \<noteq> PK_ERROR_ENUM_LAST \<Longrightarrow> pk_error_enum_from_string (Some (pk_error_enum_to_string er)) = er"
  "mt \<noteq> PK_MEDIA_TYPE_ENUM_LAST \<Longrightarrow> pk_media_type_enum_from_string (Some (pk_media_type_enum_to_string mt)) = mt"
  unfolding enum_string_defs
  by (erule t_group.value_of_string t_update_state.value_of_string t_restart.value_of_string
      t_message.value_of_string t_error.value_of_string t_media_type.value_of_string)+

lemma upgrade_state_values:
  "upgrade_state (pk_distro_upgrade_enum_to_string PK_DISTRO_UPGRADE_ENUM_UNKNOWN) = PK_DISTRO_UPGRADE_ENUM_UNKNOWN"
  "upgrade_state (pk_distro_upgrade_enum_to_string PK_DISTRO_UPGRADE_ENUM_STABLE) = PK_DISTRO_UPGRADE_ENUM_STABLE"
  "upgrade_state (pk_distro_upgrade_enum_to_string PK_DISTRO_UPGRADE_ENUM_UNSTABLE) = PK_DISTRO_UPGRADE_ENUM_UNSTABLE"
  by code_simp+

lemma upgrade_state_round: "u \<noteq> PK_DISTRO_UPGRADE_ENUM_LAST \<Longrightarrow> upgrade_state (pk_distro_upgrade_enum_to_string u) = u"
  by (cases u) (simp_all add: upgrade_state_values)

lemma crossing_one:
  assumes "tr_emitted (callback t) = tr_emitted t @ [s]" and "cl_states c a = Some st" and "cs_proxy st"
  shows "crossing callback t a c = pk_client_signal_cb (SIG s) a c"
  by (simp add: crossing_def assms client_signal_def)

lemma crossing_report:
  assumes "tr_emitted (callback t) = tr_emitted t @ [s]" and "cl_states c a = Some st" and "cs_proxy st"
    and "cs_results st = Some r" and "pk_client_signal_cb (SIG s) a = add_report (signal_report (SIG s)) a"
  shows "results_of a (crossing callback t a c) = Some (signal_report (SIG s) r)"
  by (simp add: crossing_one [of callback, OF assms(1-3)] assms(5) add_report_def upd_cs_def with_cs_def assms(2,4) results_of_def)

lemma report_results [simp]: "results_of b (report type f a c) = results_of b c"
  by (auto simp: report_def with_cs_def upd_cs_def client_emit_def results_of_def Let_def split: option.splits prod.splits)

lemma crossing_package:
  assumes "tr_emitted (callback t) = tr_emitted t @ [DBUS_Package (pk_info_enum_to_string info) i (Some s)]"
    and "cl_states c a = Some st" and "cs_proxy st" and "cs_results st = Some r"
    and "pk_package_set_id i" and "info \<noteq> PK_INFO_ENUM_FINISHED" and "info \<noteq> PK_INFO_ENUM_LAST"
  shows "results_of a (crossing callback t a c) =
    Some (pk_results_add_package \<lparr>pkg_info = info, pkg_id = i, pkg_summary = Some s\<rparr> r)"
proof -
  have "pk_info_enum_from_string (Some (pk_info_enum_to_string info)) = info"
    using assms(7) unfolding enum_string_defs by (rule t_info.value_of_string)
  then have signal: "pk_client_signal_cb (SIG (DBUS_Package (pk_info_enum_to_string info) i (Some s))) a c =
      pk_client_signal_package info i s a c"
    by (simp add: pk_client_signal_cb_def or_empty_def)
  show ?thesis
    unfolding crossing_one [of callback, OF assms(1-3)] signal
    using assms(2,4-6)
    by (simp add: pk_client_signal_package_def Let_def)
      (simp add: add_report_def upd_cs_def with_cs_def results_of_def)
qed

lemma files_round:
  "\<forall>f \<in> set ws. f \<noteq> [] \<and> CHR '';'' \<notin> set f \<Longrightarrow> g_strsplit CHR '';'' (g_strjoinv '';'' ws) = ws"
proof (cases "ws = []")
  case False
  assume "\<forall>f \<in> set ws. f \<noteq> [] \<and> CHR '';'' \<notin> set f"
  with False show ?thesis by (intro g_strsplit_joinv) auto
qed (simp add: g_strsplit_def)

text \<open>C8: Each report that the daemon takes from the backend and sends to its client arrives there as the
  same report: the client's results get the object that the daemon's results got, with the texts
  that are missing empty. The values of enumerations are not the last one, which has no name; no
  file is empty or has a semicolon, the separator; a package is not finished, which is sent but no
  result, and its id has the four parts; and a category or an upgrade that has no name, no parent or no
  summary, where the daemon sends no empty text for it, does not arrive at all.\<close>

theorem reports_cross_the_bus:
  assumes "cl_states c a = Some st" and "cs_proxy st" and "cs_results st = Some r"
  shows "(dt_group d \<noteq> PK_GROUP_ENUM_LAST \<longrightarrow>
      results_of a (crossing (pk_transaction_details_cb d) t a c) = Some (pk_results_add_details (filled_details d) r)) \<and>
    (ud_restart u \<noteq> PK_RESTART_ENUM_LAST \<and> ud_state u \<noteq> PK_UPDATE_STATE_ENUM_LAST \<longrightarrow>
      results_of a (crossing (pk_transaction_update_detail_cb u) t a c) =
        Some (pk_results_add_update_detail (filled_update_detail u) r)) \<and>
    (pkg_info p \<noteq> PK_INFO_ENUM_LAST \<and> pkg_info p \<noteq> PK_INFO_ENUM_FINISHED \<and> pk_package_set_id (pkg_id p) \<longrightarrow>
      results_of a (crossing (package_accept p) t a c) =
        Some (pk_results_add_package (p\<lparr>pkg_summary := filled (pkg_summary p)\<rparr>) r)) \<and>
    ((\<forall>f \<in> set (fl_files l). f \<noteq> [] \<and> CHR '';'' \<notin> set f) \<longrightarrow>
      results_of a (crossing (pk_transaction_files_cb l) t a c) = Some (pk_results_add_files l r)) \<and>
    (du_state w \<noteq> PK_DISTRO_UPGRADE_ENUM_LAST \<longrightarrow>
      results_of a (crossing (pk_transaction_distro_upgrade_cb w) t a c) =
        Some (if du_name w = None then r
          else pk_results_add_distro_upgrade (w\<lparr>du_summary := filled (du_summary w)\<rparr>) r)) \<and>
    results_of a (crossing (pk_transaction_category_cb y) t a c) =
      Some (if None \<in> {ct_parent_id y, ct_name y, ct_summary y} then r
        else pk_results_add_category (y\<lparr>ct_icon := filled (ct_icon y)\<rparr>) r) \<and>
    results_of a (crossing (pk_transaction_repo_detail_cb z) t a c) =
      Some (pk_results_add_repo_detail (z\<lparr>rd_description := filled (rd_description z)\<rparr>) r) \<and>
    results_of a (crossing (pk_transaction_eula_required_cb e) t a c) = Some (pk_results_add_eula_required e r) \<and>
    (mc_media_type m \<noteq> PK_MEDIA_TYPE_ENUM_LAST \<longrightarrow>
      results_of a (crossing (pk_transaction_media_change_required_cb m) t a c) =
        Some (pk_results_add_media_change_required m r)) \<and>
    (ms_type s \<noteq> PK_MESSAGE_ENUM_LAST \<longrightarrow>
      results_of a (crossing (pk_transaction_message_cb True s) t a c) = Some (pk_results_add_message s r)) \<and>
    (er_code x \<noteq> PK_ERROR_ENUM_LAST \<longrightarrow>
      results_of a (crossing (pk_transaction_error_code_cb x) t a c) = Some (pk_results_set_error_code x r))"
proof (intro conjI impI)
  note crossing = crossing_report [OF _ assms]
  note emits = tr_result_def tr_emit_def Let_def pk_transaction_error_code_emit_def
  note defs = pk_client_signal_cb_def filled_def
  show "results_of a (crossing (pk_transaction_details_cb d) t a c) = Some (pk_results_add_details (filled_details d) r)"
    if "dt_group d \<noteq> PK_GROUP_ENUM_LAST"
    by (use that in \<open>cases d, subst crossing, simp add: pk_transaction_details_cb_def emits, simp_all add: defs wire_enums filled_details_def\<close>)
  show "results_of a (crossing (pk_transaction_update_detail_cb u) t a c) =
      Some (pk_results_add_update_detail (filled_update_detail u) r)"
    if "ud_restart u \<noteq> PK_RESTART_ENUM_LAST \<and> ud_state u \<noteq> PK_UPDATE_STATE_ENUM_LAST"
    by (use that in \<open>cases u, subst crossing, simp add: pk_transaction_update_detail_cb_def emits,
      simp_all add: defs wire_enums filled_update_detail_def\<close>)
  show "results_of a (crossing (package_accept p) t a c) =
      Some (pk_results_add_package (p\<lparr>pkg_summary := filled (pkg_summary p)\<rparr>) r)"
    if "pkg_info p \<noteq> PK_INFO_ENUM_LAST \<and> pkg_info p \<noteq> PK_INFO_ENUM_FINISHED \<and> pk_package_set_id (pkg_id p)"
    by (use that in \<open>cases p, subst crossing_package [OF _ assms], simp add: package_accept_def emits, auto simp: filled_def\<close>)
  show "results_of a (crossing (pk_transaction_files_cb l) t a c) = Some (pk_results_add_files l r)"
    if "\<forall>f \<in> set (fl_files l). f \<noteq> [] \<and> CHR '';'' \<notin> set f"
    by (use that in \<open>cases l, subst crossing, simp add: pk_transaction_files_cb_def emits, simp_all add: defs files_round\<close>)
  show "results_of a (crossing (pk_transaction_distro_upgrade_cb w) t a c) =
      Some (if du_name w = None then r
        else pk_results_add_distro_upgrade (w\<lparr>du_summary := filled (du_summary w)\<rparr>) r)"
    if "du_state w \<noteq> PK_DISTRO_UPGRADE_ENUM_LAST"
    by (use that in \<open>cases w, subst crossing, simp add: pk_transaction_distro_upgrade_cb_def emits,
      simp_all add: defs upgrade_state_round split: option.split\<close>)
  show "results_of a (crossing (pk_transaction_category_cb y) t a c) =
      Some (if None \<in> {ct_parent_id y, ct_name y, ct_summary y} then r
        else pk_results_add_category (y\<lparr>ct_icon := filled (ct_icon y)\<rparr>) r)"
    by (cases y, subst crossing, simp add: pk_transaction_category_cb_def emits,
      auto simp: defs split: option.split)
  show "results_of a (crossing (pk_transaction_repo_detail_cb z) t a c) =
      Some (pk_results_add_repo_detail (z\<lparr>rd_description := filled (rd_description z)\<rparr>) r)"
    by (cases z, subst crossing, simp add: pk_transaction_repo_detail_cb_def emits, simp_all add: defs)
  show "results_of a (crossing (pk_transaction_eula_required_cb e) t a c) = Some (pk_results_add_eula_required e r)"
    by (cases e, subst crossing, simp add: pk_transaction_eula_required_cb_def emits, simp_all add: defs)
  show "results_of a (crossing (pk_transaction_media_change_required_cb m) t a c) =
      Some (pk_results_add_media_change_required m r)"
    if "mc_media_type m \<noteq> PK_MEDIA_TYPE_ENUM_LAST"
    by (use that in \<open>cases m, subst crossing, simp add: pk_transaction_media_change_required_cb_def emits,
      simp_all add: defs wire_enums\<close>)
  show "results_of a (crossing (pk_transaction_message_cb True s) t a c) = Some (pk_results_add_message s r)"
    if "ms_type s \<noteq> PK_MESSAGE_ENUM_LAST"
    by (use that in \<open>cases s, subst crossing, simp add: pk_transaction_message_cb_def emits, simp_all add: defs wire_enums\<close>)
  show "results_of a (crossing (pk_transaction_error_code_cb x) t a c) = Some (pk_results_set_error_code x r)"
    if "er_code x \<noteq> PK_ERROR_ENUM_LAST"
    by (use that in \<open>cases x, subst crossing, simp add: pk_transaction_error_code_cb_def emits, simp_all add: defs wire_enums\<close>)
qed

end
