(* ===== verification/PK_Client_Properties.thy ===== *)
theory PK_Client_Properties
  imports PK_Client_Steps PK_Wire_Laws PK_Helper_Laws
begin

text \<open>
  What the two ends of the bus make of each other: the hints of the client in the transaction of
  the daemon, and the reports that do not survive the way back.
\<close>

section \<open>Hints\<close>

lemma strsplit_hint:
  assumes "CHR ''='' \<notin> set key"
  shows "g_strsplit_max CHR ''='' 2 (key @ CHR ''='' # v) = [key, v]"
proof -
  have "takeWhile (\<lambda>c. c \<noteq> CHR ''='') (key @ CHR ''='' # v) = key"
    and "dropWhile (\<lambda>c. c \<noteq> CHR ''='') (key @ CHR ''='' # v) = CHR ''='' # v"
    using assms by (auto simp: takeWhile_append dropWhile_append)
  then show ?thesis by (simp add: g_strsplit_max_def numeral_2_eq_2)
qed

lemma hint_taken:
  assumes "CHR ''='' \<notin> set key" and "pk_transaction_set_hint fe key v t = (None, t')"
  shows "set_hints_loop fe ((key @ CHR ''='' # v) # hs) t = set_hints_loop fe hs t'"
  using assms by (simp add: strsplit_hint)

lemma hints_append:
  "set_hints_loop fe (hs @ hs') t =
     (case set_hints_loop fe hs t of (None, t) \<Rightarrow> set_hints_loop fe hs' t | (Some e, t) \<Rightarrow> (Some e, t))"
  by (induction hs arbitrary: t) (auto simp: Let_def split: option.splits prod.splits)

definition hint_of :: "bool \<Rightarrow> PkHintEnum" where
  "hint_of b = (if b then PK_HINT_ENUM_TRUE else PK_HINT_ENUM_FALSE)"

lemma strtouint_fmt: "pk_strtouint (Some (fmt_u age)) = Some age"
proof -
  have "unat age < 2 ^ 32" using unsigned_less [of age] by simp
  then have "pk_strtouint64 (Some (fmt_u age)) = (Some (of_nat (unat age)), True)"
    by (simp add: fmt_u_def strtouint64_string_of_nat)
  moreover have "unat (of_nat (unat age) :: guint64) = unat age"
    using \<open>unat age < 2 ^ 32\<close> by (simp only: unat_of_nat) simp
  ultimately show ?thesis
    using \<open>unat age < 2 ^ 32\<close> by (simp only: pk_strtouint_exact) auto
qed

lemma hint_keys:
  "CHR ''='' \<notin> set ''locale''" "CHR ''='' \<notin> set ''background''" "CHR ''='' \<notin> set ''interactive''"
  "CHR ''='' \<notin> set ''cache-age''" "CHR ''='' \<notin> set ''frontend-socket''"
  by simp_all

lemma hint_texts:
  "''locale='' @ l = ''locale'' @ CHR ''='' # l" "''background='' @ l = ''background'' @ CHR ''='' # l"
  "''interactive='' @ l = ''interactive'' @ CHR ''='' # l" "''cache-age='' @ l = ''cache-age'' @ CHR ''='' # l"
  by simp_all

lemma bool_hint: "pk_hint_enum_from_string (Some (pk_client_bool_to_string b)) = hint_of b"
  by (simp add: pk_hint_enum_from_string_def pk_client_bool_to_string_def hint_of_def)

lemma hint_of_valid: "hint_of b \<noteq> PK_HINT_ENUM_INVALID"
  by (simp add: hint_of_def)

lemma unset_locale: "tr_locale t = None \<Longrightarrow> t\<lparr>tr_locale := None\<rparr> = t"
  by (cases t) simp

lemma unset_socket: "tr_frontend_socket t = None \<Longrightarrow> t\<lparr>tr_frontend_socket := None\<rparr> = t"
  by (cases t) simp

text \<open>The socket of the helper that the client starts, when it starts one.\<close>

definition helper_socket :: "client_env \<Rightarrow> PkClientState \<Rightarrow> string option" where
  "helper_socket env st =
     (if cs_role st \<in> set interactive_roles
      then map_option (drop 16) (snd (pk_client_create_helper_socket env (or_empty (cs_tid st)))) else None)"

lemma socket_hints:
  "(if cs_role st \<in> set interactive_roles then
      (case snd (pk_client_create_helper_socket env (or_empty (cs_tid st))) of None \<Rightarrow> [] | Some hint \<Rightarrow> [hint]) else []) =
   (case helper_socket env st of None \<Rightarrow> [] | Some p \<Rightarrow> [''frontend-socket'' @ CHR ''='' # p])"
  by (auto simp: helper_socket_def pk_client_create_helper_socket_def Let_def)

text \<open>C9: A new transaction takes every hint that the client sends, and has the locale, the background,
  the interactivity, the age of the cache and the socket of the client afterwards.\<close>

theorem hints_cross_the_bus:
  assumes "tr_locale t = None" and "tr_frontend_socket t = None"
    and "\<And>p. helper_socket env st = Some p \<Longrightarrow> p \<noteq> [] \<and> hd p = CHR ''/'' \<and> fe p"
  shows "set_hints_loop fe (client_hints env c st) t =
    (None, t\<lparr>tr_locale := cl_locale c, tr_background := hint_of (cl_background c),
             tr_interactive := hint_of (cl_interactive c),
             tr_cache_age := (if cl_cache_age c = 0 then tr_cache_age t else cl_cache_age c),
             tr_frontend_socket := helper_socket env st\<rparr>)"
proof -
  let ?h1 = "case cl_locale c of None \<Rightarrow> [] | Some l \<Rightarrow> [''locale='' @ l]"
  let ?t1 = "t\<lparr>tr_locale := cl_locale c\<rparr>"
  have 1: "set_hints_loop fe ?h1 t = (None, ?t1)"
  proof (cases "cl_locale c")
    case (Some l)
    then have "pk_transaction_set_hint fe ''locale'' l t = (None, ?t1)"
      by (simp add: pk_transaction_set_hint_def assms(1))
    from hint_taken [OF hint_keys(1) this, of "[]"] Some show ?thesis by (simp add: hint_texts)
  qed (simp add: assms(1) unset_locale)
  let ?b = "pk_client_bool_to_string (cl_background c)" and ?i = "pk_client_bool_to_string (cl_interactive c)"
  let ?t2 = "?t1\<lparr>tr_background := hint_of (cl_background c), tr_interactive := hint_of (cl_interactive c)\<rparr>"
  have "pk_transaction_set_hint fe ''background'' ?b ?t1 = (None, ?t1\<lparr>tr_background := hint_of (cl_background c)\<rparr>)"
    by (simp add: pk_transaction_set_hint_def bool_hint hint_of_valid Let_def)
  moreover have "pk_transaction_set_hint fe ''interactive'' ?i (?t1\<lparr>tr_background := hint_of (cl_background c)\<rparr>) = (None, ?t2)"
    by (simp add: pk_transaction_set_hint_def bool_hint hint_of_valid Let_def)
  ultimately have 2: "set_hints_loop fe [''background='' @ ?b, ''interactive='' @ ?i] ?t1 = (None, ?t2)"
    by (simp only: hint_texts hint_taken [OF hint_keys(2)] hint_taken [OF hint_keys(3)] set_hints_loop.simps(1))
  let ?h3 = "if 0 < cl_cache_age c then [''cache-age='' @ fmt_u (cl_cache_age c)] else []"
  let ?t3 = "?t2\<lparr>tr_cache_age := (if cl_cache_age c = 0 then tr_cache_age t else cl_cache_age c)\<rparr>"
  have 3: "set_hints_loop fe ?h3 ?t2 = (None, ?t3)"
  proof (cases "cl_cache_age c = 0")
    case False
    then have "pk_transaction_set_hint fe ''cache-age'' (fmt_u (cl_cache_age c)) ?t2 = (None, ?t3)"
      by (simp add: pk_transaction_set_hint_def strtouint_fmt)
    note taken = hint_taken [OF hint_keys(4) this, of "[]", unfolded set_hints_loop.simps(1)]
    have "?h3 = [''cache-age'' @ CHR ''='' # fmt_u (cl_cache_age c)]"
      using False by (simp add: word_neq_0_conv [symmetric])
    then show ?thesis by (simp only: taken)
  qed simp
  let ?h4 = "case helper_socket env st of None \<Rightarrow> [] | Some p \<Rightarrow> [''frontend-socket'' @ CHR ''='' # p]"
  have 4: "set_hints_loop fe ?h4 ?t3 = (None, ?t3\<lparr>tr_frontend_socket := helper_socket env st\<rparr>)"
  proof (cases "helper_socket env st")
    case None
    then show ?thesis by (simp add: assms(2) unset_socket)
  next
    case (Some p)
    then have "pk_transaction_set_hint fe ''frontend-socket'' p ?t3 = (None, ?t3\<lparr>tr_frontend_socket := Some p\<rparr>)"
      using assms(2) assms(3) [OF Some] by (simp add: pk_transaction_set_hint_def)
    from hint_taken [OF hint_keys(5) this, of "[]"] Some show ?thesis
      by (simp only: option.case set_hints_loop.simps(1))
  qed
  show ?thesis
    unfolding client_hints_def socket_hints
    by (simp only: append_assoc hints_append 1 2 3 4 option.case prod.case)
qed

section \<open>Reports that change on the way\<close>

text \<open>C23: A request to import a key does not arrive as it was sent: the address of the key arrives again as
  the user id, the user id as the id of the key, the id as the fingerprint, the fingerprint as the time
  stamp, and the type of the signature is the one that the text of the time stamp happens to name;
  the time stamp and the type are lost. A request that names no package does not arrive.\<close>

theorem signature_fields_shift:
  assumes "cl_states c a = Some st" and "cs_proxy st" and "cs_results st = Some r"
  shows "results_of a (crossing (pk_transaction_repo_signature_required_cb s) t a c) =
    Some (if sg_package_id s = None then r else pk_results_add_repo_signature_required
      (s\<lparr>sg_key_url := filled (sg_key_url s), sg_key_userid := filled (sg_key_url s),
         sg_key_id := filled (sg_key_userid s), sg_key_fingerprint := filled (sg_key_id s),
         sg_key_timestamp := filled (sg_key_fingerprint s),
         sg_type := pk_sig_type_enum_from_string (filled (sg_key_timestamp s))\<rparr>) r)"
proof -
  note crossing = crossing_report [OF _ assms]
  show ?thesis
    by (cases s, subst crossing, simp add: pk_transaction_repo_signature_required_cb_def tr_result_def tr_emit_def Let_def,
      auto simp: pk_client_signal_cb_def filled_def or_empty_def split: option.split)
qed

section \<open>Examples\<close>

text \<open>A client with one call that waits for the end of its transaction.\<close>

definition example_state :: PkClientState where
  "example_state = (client_state_new PK_ROLE_ENUM_INSTALL_PACKAGES)\<lparr>cs_proxy := True, cs_results := Some pk_results_new, cs_tid := Some ''/1_abcd_data''\<rparr>"

definition example_client :: PkClient where
  "example_client = (pk_client_init (Some ''C''))\<lparr>cl_states := (\<lambda>a. if a = 0 then Some example_state else None), cl_next_state := 1\<rparr>"

definition example_client_env :: client_env where
  "example_client_env =
     \<lparr>ce_realpath = (\<lambda>p. Some p), ce_is_native = (\<lambda>p. True), ce_home_dir = ''/home/u'',
      ce_make_directory = (\<lambda>p. True), ce_tmp_dir = ''/tmp'', ce_self_test = False, ce_test_helper = False,
      ce_debconf = True, ce_verbose = False, ce_term = Some ''xterm'', ce_display = None,
      ce_kde_full_session = None, ce_helper_start = True\<rparr>"

lemma example_facts:
  "cl_states example_client 0 = Some example_state" "cs_proxy example_state"
  "cs_results example_state = Some pk_results_new"
  by (simp_all add: example_client_def example_state_def)

theorem reports_cross_the_bus_witness:
  "\<forall>t. results_of 0 (crossing (pk_transaction_message_cb True \<lparr>ms_type = PK_MESSAGE_ENUM_NEWER_PACKAGE_EXISTS, ms_details = ''x''\<rparr>) t 0 example_client) =
     Some (pk_results_add_message \<lparr>ms_type = PK_MESSAGE_ENUM_NEWER_PACKAGE_EXISTS, ms_details = ''x''\<rparr> pk_results_new)"
  using reports_cross_the_bus [OF example_facts, where s = "\<lparr>ms_type = PK_MESSAGE_ENUM_NEWER_PACKAGE_EXISTS, ms_details = ''x''\<rparr>"]
  by simp

theorem calls_reach_handlers_witness:
  "\<exists>hints name args. unpack_method name args = Some (M_InstallFiles True [''/a.rpm'']) \<and>
     acts (client_drive example_client_env (CLIENT_install_files True (Some [''/a.rpm''])) CANCELLABLE True ''/2_b_data'' [] example_client) =
       [EV_GET_TID 1, EV_CONNECT 1 ''/2_b_data'', EV_CALL 1 ''SetHints'' [B_strings hints], EV_CALL 1 name args]"
proof -
  have "asked_method example_client_env (CLIENT_install_files True (Some [''/a.rpm''])) = Some (M_InstallFiles True [''/a.rpm''])"
    by code_simp
  from calls_reach_handlers [OF this, of CANCELLABLE True "''/2_b_data''" "[]" example_client]
  show ?thesis by (auto simp: example_client_def acts_def pk_client_init_def)
qed

theorem hints_cross_the_bus_witness:
  "set_hints_loop (\<lambda>p. p = ''/tmp/gpk-1_abcd_data.socket'') (client_hints example_client_env example_client example_state)
     (pk_transaction_new None) =
   (None, (pk_transaction_new None)\<lparr>tr_locale := Some ''C'', tr_background := PK_HINT_ENUM_FALSE,
      tr_interactive := PK_HINT_ENUM_TRUE, tr_frontend_socket := Some ''/tmp/gpk-1_abcd_data.socket''\<rparr>)"
proof -
  have h: "helper_socket example_client_env example_state = Some ''/tmp/gpk-1_abcd_data.socket''" by code_simp
  have n: "tr_locale (pk_transaction_new None) = None" "tr_frontend_socket (pk_transaction_new None) = None"
    by (simp_all add: pk_transaction_new_def pk_transaction_setup_mime_types_def)
  show ?thesis
    using hints_cross_the_bus [OF n, where env = example_client_env and st = example_state and c = example_client
        and fe = "\<lambda>p. p = ''/tmp/gpk-1_abcd_data.socket''"] h
    by (simp add: example_client_def pk_client_init_def hint_of_def)
qed

text \<open>A key of a repository, whose type does not arrive.\<close>

theorem signature_fields_shift_witness:
  "\<forall>t. map_option (\<lambda>r. map sg_type (repo_signature_required_array r))
     (results_of 0 (crossing (pk_transaction_repo_signature_required_cb
       \<lparr>sg_package_id = Some ''a;1;i386;d'', sg_repository_name = ''r'', sg_key_url = Some ''u'', sg_key_userid = Some ''n'',
        sg_key_id = Some ''k'', sg_key_fingerprint = Some ''f'', sg_key_timestamp = Some ''2012'',
        sg_type = PK_SIGTYPE_ENUM_GPG\<rparr>) t 0 example_client)) = Some [PK_SIGTYPE_ENUM_UNKNOWN]"
proof
  fix t
  have u: "pk_sig_type_enum_from_string (Some ''2012'') = PK_SIGTYPE_ENUM_UNKNOWN" by code_simp
  show "map_option (\<lambda>r. map sg_type (repo_signature_required_array r))
     (results_of 0 (crossing (pk_transaction_repo_signature_required_cb
       \<lparr>sg_package_id = Some ''a;1;i386;d'', sg_repository_name = ''r'', sg_key_url = Some ''u'', sg_key_userid = Some ''n'',
        sg_key_id = Some ''k'', sg_key_fingerprint = Some ''f'', sg_key_timestamp = Some ''2012'',
        sg_type = PK_SIGTYPE_ENUM_GPG\<rparr>) t 0 example_client)) = Some [PK_SIGTYPE_ENUM_UNKNOWN]"
    by (simp add: signature_fields_shift [OF example_facts] filled_def or_empty_def u
      pk_results_add_repo_signature_required_def pk_results_new_def)
qed

end
