(* ===== verification/PK_Transaction_Db.thy ===== *)
theory PK_Transaction_Db
  imports PK_Results
begin

text \<open>
  The database of the transactions (\<open>src/src/pk-transaction-db.c\<close>). The code talks to SQLite with
  texts in SQL; a table is the list of its rows, a column that is \<open>NULL\<close> is \<open>None\<close>, and a number
  is its decimal text, which is how \<open>sqlite3_exec\<close> hands it to the callbacks.

  The statements on transactions are printed with the values between quotes. A value that has
  a quote of its own makes another text of it; what SQLite does with that text is an argument,
  \<open>other\<close>. The statements that change proxies and roots bind their values and have no such case; the
  queries for them print the session, which is a name that ConsoleKit gives and has no quotes.
  SQLite is taken to execute the statements that it understands.
\<close>

section \<open>Tables\<close>

record transaction_row =
  rw_transaction_id :: string
  rw_timespec :: "string option"
  rw_duration :: "string option"
  rw_succeeded :: "string option"
  rw_role :: "string option"
  rw_data :: "string option"
  rw_uid :: "string option"
  rw_cmdline :: "string option"

record proxy_values =
  px_http :: "string option"
  px_https :: "string option"
  px_ftp :: "string option"
  px_socks :: "string option"
  px_no_proxy :: "string option"
  px_pac :: "string option"

record proxy_row = proxy_values +
  px_uid :: guint
  px_session :: string

record root_row =
  rt_uid :: guint
  rt_session :: string
  rt_root :: string

record tables =
  tb_transactions :: "transaction_row list"
  tb_last_action :: "(string \<times> string) list"
  tb_job_count :: "string option"
  tb_proxy :: "proxy_row list"
  tb_root :: "root_row list"

text \<open>The save of the job count is pending when \<open>database_save_id\<close> is not 0.\<close>

record PkTransactionDb =
  td_tables :: tables
  td_job_count :: guint
  td_save_pending :: bool

section \<open>Statements\<close>

datatype statement =
    SQL_add string string
  | SQL_set_role string string
  | SQL_set_uid string guint
  | SQL_set_cmdline string string
  | SQL_set_data string string
  | SQL_set_finished string bool guint

definition quote1 :: "string \<Rightarrow> string" where
  "quote1 s = [CHR 0x27] @ s @ [CHR 0x27]"

definition quote2 :: "string \<Rightarrow> string" where
  "quote2 s = [CHR 0x22] @ s @ [CHR 0x22]"

fun statement_text :: "statement \<Rightarrow> string" where
  "statement_text (SQL_add tid timespec) =
     ''INSERT INTO transactions (transaction_id, timespec) VALUES ('' @ quote1 tid @ '', '' @ quote1 timespec @ '')''"
| "statement_text (SQL_set_role tid role_text) =
     ''UPDATE transactions SET role = '' @ quote1 role_text @ '' WHERE transaction_id = '' @ quote1 tid"
| "statement_text (SQL_set_uid tid uid) =
     ''UPDATE transactions SET uid = '' @ quote1 (fmt_i uid) @ '' WHERE transaction_id = '' @ quote1 tid"
| "statement_text (SQL_set_cmdline tid cmdline) =
     ''UPDATE transactions SET cmdline = '' @ quote1 cmdline @ '' WHERE transaction_id = '' @ quote1 tid"
| "statement_text (SQL_set_data tid data) =
     ''UPDATE transactions SET data = '' @ quote2 data @ '' WHERE transaction_id = '' @ quote1 tid"
| "statement_text (SQL_set_finished tid success runtime) =
     ''UPDATE transactions SET succeeded = '' @ (if success then ''1'' else ''0'') @ '', duration = '' @ fmt_i runtime @
     '' WHERE transaction_id = '' @ quote1 tid"

text \<open>
  A text between double quotes is a string for SQLite unless it is the name of a column, in any
  case of letters.
\<close>

definition lower_char :: "char \<Rightarrow> char" where
  "lower_char c = (if 65 \<le> (of_char c :: nat) \<and> (of_char c :: nat) \<le> 90 then char_of ((of_char c :: nat) + 32) else c)"

definition column_names :: "string list" where
  "column_names =
     [''transaction_id'', ''timespec'', ''duration'', ''succeeded'', ''role'', ''data'', ''description'',
      ''uid'', ''cmdline'', ''rowid'', ''oid'', ''_rowid_'']"

definition plain_text :: "string \<Rightarrow> bool" where
  "plain_text s \<longleftrightarrow> CHR 0x27 \<notin> set s"

definition plain_data :: "string \<Rightarrow> bool" where
  "plain_data s \<longleftrightarrow> CHR 0x22 \<notin> set s \<and> map lower_char s \<notin> set column_names"

fun plain_statement :: "statement \<Rightarrow> bool" where
  "plain_statement (SQL_add tid timespec) = (plain_text tid \<and> plain_text timespec)"
| "plain_statement (SQL_set_role tid role_text) = (plain_text tid \<and> plain_text role_text)"
| "plain_statement (SQL_set_uid tid uid) = plain_text tid"
| "plain_statement (SQL_set_cmdline tid cmdline) = (plain_text tid \<and> plain_text cmdline)"
| "plain_statement (SQL_set_data tid data) = (plain_text tid \<and> plain_data data)"
| "plain_statement (SQL_set_finished tid success runtime) = plain_text tid"

definition update_rows ::
  "string \<Rightarrow> (transaction_row \<Rightarrow> transaction_row) \<Rightarrow> transaction_row list \<Rightarrow> transaction_row list" where
  "update_rows tid f rows = map (\<lambda>r. if rw_transaction_id r = tid then f r else r) rows"

text \<open>The identifier is the primary key: a second row with it is not inserted.\<close>

fun statement_effect :: "statement \<Rightarrow> transaction_row list \<Rightarrow> transaction_row list" where
  "statement_effect (SQL_add tid timespec) rows =
     (if tid \<in> set (map rw_transaction_id rows) then rows
      else rows @ [\<lparr>rw_transaction_id = tid, rw_timespec = Some timespec, rw_duration = None,
                    rw_succeeded = Some ''0'', rw_role = None, rw_data = None, rw_uid = Some ''0'',
                    rw_cmdline = None\<rparr>])"
| "statement_effect (SQL_set_role tid role_text) rows = update_rows tid (\<lambda>r. r\<lparr>rw_role := Some role_text\<rparr>) rows"
| "statement_effect (SQL_set_uid tid uid) rows = update_rows tid (\<lambda>r. r\<lparr>rw_uid := Some (fmt_i uid)\<rparr>) rows"
| "statement_effect (SQL_set_cmdline tid cmdline) rows = update_rows tid (\<lambda>r. r\<lparr>rw_cmdline := Some cmdline\<rparr>) rows"
| "statement_effect (SQL_set_data tid data) rows = update_rows tid (\<lambda>r. r\<lparr>rw_data := Some data\<rparr>) rows"
| "statement_effect (SQL_set_finished tid success runtime) rows =
     update_rows tid (\<lambda>r. r\<lparr>rw_succeeded := Some (if success then ''1'' else ''0''), rw_duration := Some (fmt_i runtime)\<rparr>) rows"

definition pk_transaction_db_sql_statement ::
  "(string \<Rightarrow> tables \<Rightarrow> tables) \<Rightarrow> statement \<Rightarrow> PkTransactionDb \<Rightarrow> PkTransactionDb" where
  "pk_transaction_db_sql_statement other s tdb =
     tdb\<lparr>td_tables :=
       (if plain_statement s
        then (td_tables tdb)\<lparr>tb_transactions := statement_effect s (tb_transactions (td_tables tdb))\<rparr>
        else other (statement_text s) (td_tables tdb))\<rparr>"

section \<open>Transactions\<close>

text \<open>\<open>timespec\<close> is what \<open>pk_iso8601_present\<close> returns. All of these return \<open>TRUE\<close>.\<close>

definition pk_transaction_db_add ::
  "(string \<Rightarrow> tables \<Rightarrow> tables) \<Rightarrow> string \<Rightarrow> string \<Rightarrow> PkTransactionDb \<Rightarrow> bool \<times> PkTransactionDb" where
  "pk_transaction_db_add other timespec tid tdb =
     (True, pk_transaction_db_sql_statement other (SQL_add tid timespec) tdb)"

definition pk_transaction_db_set_role ::
  "(string \<Rightarrow> tables \<Rightarrow> tables) \<Rightarrow> string \<Rightarrow> PkRoleEnum \<Rightarrow> PkTransactionDb \<Rightarrow> bool \<times> PkTransactionDb" where
  "pk_transaction_db_set_role other tid role tdb =
     (True, pk_transaction_db_sql_statement other (SQL_set_role tid (pk_role_enum_to_string role)) tdb)"

definition pk_transaction_db_set_uid ::
  "(string \<Rightarrow> tables \<Rightarrow> tables) \<Rightarrow> string \<Rightarrow> guint \<Rightarrow> PkTransactionDb \<Rightarrow> bool \<times> PkTransactionDb" where
  "pk_transaction_db_set_uid other tid uid tdb =
     (True, pk_transaction_db_sql_statement other (SQL_set_uid tid uid) tdb)"

definition pk_transaction_db_set_cmdline ::
  "(string \<Rightarrow> tables \<Rightarrow> tables) \<Rightarrow> string \<Rightarrow> string \<Rightarrow> PkTransactionDb \<Rightarrow> bool \<times> PkTransactionDb" where
  "pk_transaction_db_set_cmdline other tid cmdline tdb =
     (True, pk_transaction_db_sql_statement other (SQL_set_cmdline tid cmdline) tdb)"

definition pk_transaction_db_set_data ::
  "(string \<Rightarrow> tables \<Rightarrow> tables) \<Rightarrow> string \<Rightarrow> string \<Rightarrow> PkTransactionDb \<Rightarrow> bool \<times> PkTransactionDb" where
  "pk_transaction_db_set_data other tid data tdb =
     (True, pk_transaction_db_sql_statement other (SQL_set_data tid data) tdb)"

definition pk_transaction_db_set_finished ::
  "(string \<Rightarrow> tables \<Rightarrow> tables) \<Rightarrow> string \<Rightarrow> bool \<Rightarrow> guint \<Rightarrow> PkTransactionDb \<Rightarrow> bool \<times> PkTransactionDb" where
  "pk_transaction_db_set_finished other tid success runtime tdb =
     (True, pk_transaction_db_sql_statement other (SQL_set_finished tid success runtime) tdb)"

text \<open>SQLite has no statement \<open>TRUNCATE\<close>: the text is refused, which nobody looks at.\<close>

definition pk_transaction_db_empty :: "PkTransactionDb \<Rightarrow> bool \<times> PkTransactionDb" where
  "pk_transaction_db_empty tdb = (True, tdb)"

section \<open>Reading transactions\<close>

text \<open>The object that a row becomes; its texts are \<open>NULL\<close> until they are set.\<close>

record past_item =
  pi_tid :: "string option"
  pi_timespec :: "string option"
  pi_succeeded :: bool
  pi_role :: PkRoleEnum
  pi_duration :: guint
  pi_data :: "string option"
  pi_uid :: guint
  pi_cmdline :: "string option"

text \<open>\<open>junk\<close> is what the variable \<open>temp\<close> holds when nothing has been read into it.\<close>

definition pk_transaction_sqlite_transaction_cb :: "guint \<Rightarrow> transaction_row \<Rightarrow> past_item" where
  "pk_transaction_sqlite_transaction_cb junk row =
     \<lparr>pi_tid = Some (rw_transaction_id row),
      pi_timespec = rw_timespec row,
      pi_succeeded = ((case pk_strtouint (rw_succeeded row) of None \<Rightarrow> junk | Some temp \<Rightarrow> temp) = 1),
      pi_role = (case rw_role row of None \<Rightarrow> PK_ROLE_ENUM_UNKNOWN | Some v \<Rightarrow> pk_role_enum_from_string (Some v)),
      pi_duration =
        (case pk_strtouint (rw_duration row) of
           None \<Rightarrow> 0
         | Some temp \<Rightarrow> if temp > 60 * 60 * 12 then 0 else temp),
      pi_data = rw_data row,
      pi_uid = (case pk_strtouint (rw_uid row) of None \<Rightarrow> 0 | Some temp \<Rightarrow> temp),
      pi_cmdline = rw_cmdline row\<rparr>"

text \<open>
  \<open>order\<close> is how SQLite orders rows by descending \<open>timespec\<close>. The limit is printed with \<open>%i\<close>, and
  a negative one is none. The result has what is emitted as the signal \<open>transaction\<close>.
\<close>

definition pk_transaction_db_get_list ::
  "(transaction_row list \<Rightarrow> transaction_row list) \<Rightarrow> guint \<Rightarrow> guint \<Rightarrow> PkTransactionDb \<Rightarrow> past_item list" where
  "pk_transaction_db_get_list order junk limit tdb =
     (let rows = order (tb_transactions (td_tables tdb));
          rows = (if limit = 0 \<or> sint limit < 0 then rows else take (unat limit) rows)
      in map (pk_transaction_sqlite_transaction_cb junk) rows)"

section \<open>The time of the last action\<close>

text \<open>
  The role is the primary key of the table. \<open>parse\<close> is \<open>g_time_val_from_iso8601\<close>, in seconds, and
  \<open>seconds\<close> the time of the clock, whose text is \<open>timespec\<close>.
\<close>

definition pk_transaction_db_iso8601_difference :: "(string \<Rightarrow> int option) \<Rightarrow> int \<Rightarrow> string \<Rightarrow> guint" where
  "pk_transaction_db_iso8601_difference parse seconds isodate =
     (case parse isodate of None \<Rightarrow> 0 | Some timeval_then \<Rightarrow> word_of_int (seconds - timeval_then))"

definition pk_transaction_db_action_time_since ::
  "(string \<Rightarrow> int option) \<Rightarrow> int \<Rightarrow> PkRoleEnum \<Rightarrow> PkTransactionDb \<Rightarrow> guint" where
  "pk_transaction_db_action_time_since parse seconds role tdb =
     (case map_of (tb_last_action (td_tables tdb)) (pk_role_enum_to_string role) of
        None \<Rightarrow> G_MAXUINT
      | Some timespec \<Rightarrow> pk_transaction_db_iso8601_difference parse seconds timespec)"

definition pk_transaction_db_action_time_reset ::
  "(string \<Rightarrow> int option) \<Rightarrow> int \<Rightarrow> string \<Rightarrow> PkRoleEnum \<Rightarrow> PkTransactionDb \<Rightarrow> bool \<times> PkTransactionDb" where
  "pk_transaction_db_action_time_reset parse seconds timespec role tdb =
     (let role_text = pk_role_enum_to_string role;
          since = pk_transaction_db_action_time_since parse seconds role tdb;
          actions = tb_last_action (td_tables tdb)
      in if since = G_MAXUINT then
           if role_text \<in> fst ` set actions then (False, tdb)
           else (True, tdb\<lparr>td_tables := (td_tables tdb)\<lparr>tb_last_action := actions @ [(role_text, timespec)]\<rparr>\<rparr>)
         else
           (True, tdb\<lparr>td_tables := (td_tables tdb)\<lparr>tb_last_action :=
              map (\<lambda>(r, t). (r, if r = role_text then timespec else t)) actions\<rparr>\<rparr>))"

section \<open>Identifiers\<close>

text \<open>\<open>g_rand_int_range\<close> gives a number from 97 to 101, \<open>'a'\<close> to \<open>'e'\<close>; \<open>rand\<close> has the ones it gives.\<close>

definition pk_transaction_db_get_random_hex_string :: "nat \<Rightarrow> (nat \<Rightarrow> nat) \<Rightarrow> string" where
  "pk_transaction_db_get_random_hex_string len rand = map (\<lambda>i. char_of (rand i)) [0..<len]"

definition pk_transaction_db_generate_id :: "(nat \<Rightarrow> nat) \<Rightarrow> PkTransactionDb \<Rightarrow> string \<times> PkTransactionDb" where
  "pk_transaction_db_generate_id rand tdb =
     (let tdb = tdb\<lparr>td_job_count := td_job_count tdb + 1\<rparr>;
          tdb = tdb\<lparr>td_save_pending := True\<rparr>;
          rand_str = pk_transaction_db_get_random_hex_string 8 rand
      in (''/'' @ fmt_i (td_job_count tdb) @ ''_'' @ rand_str @ ''_data'', tdb))"

definition pk_transaction_db_defer_write_job_count_cb :: "PkTransactionDb \<Rightarrow> PkTransactionDb" where
  "pk_transaction_db_defer_write_job_count_cb tdb =
     tdb\<lparr>td_tables := (td_tables tdb)\<lparr>tb_job_count := Some (fmt_i (td_job_count tdb))\<rparr>, td_save_pending := False\<rparr>"

definition pk_transaction_sqlite_job_id_cb :: "string \<Rightarrow> PkTransactionDb \<Rightarrow> PkTransactionDb" where
  "pk_transaction_sqlite_job_id_cb value tdb =
     (case pk_strtouint (Some value) of None \<Rightarrow> tdb | Some n \<Rightarrow> tdb\<lparr>td_job_count := n\<rparr>)"

text \<open>
  The tables that a database has when it is opened; a missing one is created empty. The job count is
  \<open>None\<close> when there is no table \<open>config\<close>. \<open>old_file\<close>
  is the content of the file that had the job count before.
\<close>

definition pk_transaction_db_init :: "tables \<Rightarrow> string option \<Rightarrow> PkTransactionDb" where
  "pk_transaction_db_init tb old_file =
     (let tdb = \<lparr>td_tables = tb, td_job_count = 0, td_save_pending = False\<rparr>
      in case tb_job_count tb of
           None \<Rightarrow>
             let count = (case old_file of None \<Rightarrow> 0 | Some text \<Rightarrow>
                            (case pk_strtouint (Some text) of None \<Rightarrow> 0 | Some n \<Rightarrow> n))
             in tdb\<lparr>td_job_count := count, td_tables := tb\<lparr>tb_job_count := Some (fmt_i count)\<rparr>\<rparr>
         | Some value \<Rightarrow> pk_transaction_sqlite_job_id_cb value tdb)"

definition pk_transaction_db_finalize :: "PkTransactionDb \<Rightarrow> tables" where
  "pk_transaction_db_finalize tdb =
     td_tables (if td_save_pending tdb then pk_transaction_db_defer_write_job_count_cb tdb else tdb)"

section \<open>Proxies and roots\<close>

definition proxy_of :: "guint \<Rightarrow> string \<Rightarrow> PkTransactionDb \<Rightarrow> proxy_row option" where
  "proxy_of uid session tdb = List.find (\<lambda>r. px_uid r = uid \<and> px_session r = session) (tb_proxy (td_tables tdb))"

text \<open>The answer has the six values; the columns are there even when their values are \<open>NULL\<close>.\<close>

definition pk_transaction_db_get_proxy ::
  "guint \<Rightarrow> string \<Rightarrow> PkTransactionDb \<Rightarrow>
   (string option \<times> string option \<times> string option \<times> string option \<times> string option \<times> string option) option" where
  "pk_transaction_db_get_proxy uid session tdb =
     (if uid = G_MAXUINT then None
      else map_option (\<lambda>r. (px_http r, px_https r, px_ftp r, px_socks r, px_no_proxy r, px_pac r)) (proxy_of uid session tdb))"

definition pk_transaction_db_set_proxy ::
  "guint \<Rightarrow> string \<Rightarrow> string option \<Rightarrow> string option \<Rightarrow> string option \<Rightarrow> string option \<Rightarrow> string option \<Rightarrow>
   string option \<Rightarrow> PkTransactionDb \<Rightarrow> bool \<times> PkTransactionDb" where
  "pk_transaction_db_set_proxy uid session http https ftp socks no_proxy pac tdb =
     (if uid = G_MAXUINT then (False, tdb)
      else
        let rows = tb_proxy (td_tables tdb);
            rows = (if pk_transaction_db_get_proxy uid session tdb \<noteq> None then
                      map (\<lambda>r. if px_uid r = uid \<and> px_session r = session
                               then r\<lparr>px_http := http, px_https := https, px_ftp := ftp, px_socks := socks,
                                      px_no_proxy := no_proxy, px_pac := pac\<rparr> else r) rows
                    else rows @ [\<lparr>px_http = http, px_https = https, px_ftp = ftp, px_socks = socks,
                                  px_no_proxy = no_proxy, px_pac = pac, px_uid = uid, px_session = session\<rparr>])
        in (True, tdb\<lparr>td_tables := (td_tables tdb)\<lparr>tb_proxy := rows\<rparr>\<rparr>))"

definition root_of :: "guint \<Rightarrow> string \<Rightarrow> PkTransactionDb \<Rightarrow> root_row option" where
  "root_of uid session tdb = List.find (\<lambda>r. rt_uid r = uid \<and> rt_session r = session) (tb_root (td_tables tdb))"

definition pk_transaction_db_get_root :: "guint \<Rightarrow> string \<Rightarrow> PkTransactionDb \<Rightarrow> string option" where
  "pk_transaction_db_get_root uid session tdb =
     (if uid = G_MAXUINT then None else map_option rt_root (root_of uid session tdb))"

definition pk_transaction_db_set_root :: "guint \<Rightarrow> string \<Rightarrow> string \<Rightarrow> PkTransactionDb \<Rightarrow> bool \<times> PkTransactionDb" where
  "pk_transaction_db_set_root uid session root tdb =
     (if uid = G_MAXUINT then (False, tdb)
      else
        let rows = tb_root (td_tables tdb);
            rows = (if pk_transaction_db_get_root uid session tdb \<noteq> None then
                      map (\<lambda>r. if rt_uid r = uid \<and> rt_session r = session then r\<lparr>rt_root := root\<rparr> else r) rows
                    else rows @ [\<lparr>rt_uid = uid, rt_session = session, rt_root = root\<rparr>])
        in (True, tdb\<lparr>td_tables := (td_tables tdb)\<lparr>tb_root := rows\<rparr>\<rparr>))"

end
