(* ===== verification/PK_Db_Laws.thy ===== *)
theory PK_Db_Laws
  imports PK_Transaction_Db PK_Client_Properties
begin

text \<open>
  What the database keeps: the history of a transaction until a client asks for it, the settings of
  each session, and the number that makes the identifiers of transactions.
\<close>

section \<open>Numbers\<close>

lemma signed_wrap: "sint (w :: guint) = (uint w + 2147483648) mod 4294967296 - 2147483648"
  unfolding sint_uint signed_take_bit_eq_take_bit_shift take_bit_eq_mod by simp

lemma signed_small: "sint (w :: guint) = int (unat w)" if "unat w < 2 ^ 31"
proof -
  from that have "int (unat w) < int (2 ^ 31)" by (simp only: of_nat_less_iff)
  then show ?thesis by (simp add: signed_wrap)
qed

lemma signed_large: "sint (w :: guint) = int (unat w) - 2 ^ 32" if "\<not> unat w < 2 ^ 31"
proof -
  from that have "\<not> int (unat w) < int (2 ^ 31)" by (subst of_nat_less_iff)
  then have lo: "2147483648 \<le> uint w" by simp
  have hi: "uint w < 4294967296" using unsigned_less [of w, where 'a = int] by simp
  have "(uint w + 2147483648) mod 4294967296 = (uint w + 2147483648 - 4294967296) mod 4294967296"
    by (simp only: minus_mod_self2)
  also have "\<dots> = uint w + 2147483648 - 4294967296" using lo hi by (intro mod_pos_pos_trivial) auto
  finally show ?thesis by (simp add: signed_wrap)
qed

lemma fmt_i_small: "unat w < 2 ^ 31 \<Longrightarrow> fmt_i w = fmt_u (w :: guint)"
  by (simp add: fmt_i_def fmt_u_def string_of_int_def signed_small)

lemma parse_minus: "g_parse_number (CHR ''-'' # string_of_nat n) = Some (True, n)"
proof -
  have "takeWhile g_ascii_isdigit (string_of_nat n) = string_of_nat n"
    using string_of_nat_digits [of n] by (auto simp: list_all_iff)
  then show ?thesis using string_of_nat_digits [of n] by (simp add: g_parse_number_def g_ascii_isspace_def Let_def del: takeWhile_eq_all_conv)
qed

text \<open>A number that is printed with a sign is read back, unless the sign is a minus.\<close>

lemma strtouint_fmt_i: "pk_strtouint (Some (fmt_i w)) = (if unat w < 2 ^ 31 then Some w else None)"
proof (cases "unat w < 2 ^ 31")
  case True
  then show ?thesis by (simp add: fmt_i_small strtouint_fmt)
next
  case False
  let ?m = "2 ^ 32 - unat w"
  have w: "unat w < 2 ^ 32" using unsigned_less [of w, where 'a = nat] by simp
  have "nat (- (int n - 2 ^ 32)) = 2 ^ 32 - n" for n by (simp add: nat_diff_distrib')
  moreover have "int (unat w) - 2 ^ 32 < 0" using w by (metis diff_less_0_iff_less of_nat_less_numeral_power_cancel_iff)
  ultimately have "fmt_i w = CHR ''-'' # string_of_nat ?m"
    unfolding fmt_i_def string_of_int_def signed_large [OF False] by (simp del: of_nat_unat)
  moreover have "ucast G_MAXUINT < (- of_nat ?m :: guint64)"
  proof -
    have "(- of_nat ?m :: guint64) = of_nat (2 ^ 64 - ?m)" using w by (subst of_nat_diff) simp_all
    then have "unat (- of_nat ?m :: guint64) = 2 ^ 64 - ?m" using w by (simp only: unat_of_nat) simp
    then show ?thesis using False by (simp add: word_less_nat_alt G_MAXUINT_def)
  qed
  moreover have "\<not> 2 ^ 64 - 1 < ?m" by simp
  ultimately show ?thesis using False
    by (simp add: pk_strtouint_def pk_strtouint64_def g_ascii_strtoull_def parse_minus)
qed

lemma fmt_i_chars: "c \<in> set (fmt_i w) \<Longrightarrow> g_ascii_isdigit c \<or> c = CHR ''-''"
  using string_of_nat_digits by (auto simp: fmt_i_def string_of_int_def list_all_iff split: if_splits)

lemma string_of_nat_inj: "string_of_nat m = string_of_nat n \<Longrightarrow> m = n"
  by (metis string_of_nat_digits)

lemma minus_not_number: "CHR ''-'' # s \<noteq> string_of_nat n"
  using string_of_nat_digits [of n] isdigit_facts(2) by (metis list.pred_inject(2))

lemma fmt_i_inj: "fmt_i v = fmt_i w \<Longrightarrow> v = (w :: guint)"
proof -
  assume eq: "fmt_i v = fmt_i w"
  have "sint v = sint w"
    using eq minus_not_number minus_not_number [symmetric]
    by (auto simp: fmt_i_def string_of_int_def split: if_splits dest!: string_of_nat_inj)
  then show ?thesis by (rule signed_word_eqI)
qed

section \<open>Settings of sessions\<close>

text \<open>
  A store of settings by user and session: a setting is kept for its session alone, and a user
  that could not be found out has none.
\<close>

locale session_store =
  fixes put :: "guint \<Rightarrow> string \<Rightarrow> 'v \<Rightarrow> 's \<Rightarrow> bool \<times> 's"
    and look :: "guint \<Rightarrow> string \<Rightarrow> 's \<Rightarrow> 'v option"
  assumes put_known: "uid \<noteq> G_MAXUINT \<Longrightarrow> fst (put uid session v s)"
    and put_unknown: "put G_MAXUINT session v s = (False, s)"
    and look_unknown: "look G_MAXUINT session s = None"
    and look_put: "uid \<noteq> G_MAXUINT \<Longrightarrow> look uid session (snd (put uid session v s)) = Some v"
    and look_other: "(uid, session) \<noteq> (uid', session') \<Longrightarrow>
      look uid session (snd (put uid' session' v s)) = look uid session s"
begin

lemma look_puts:
  "look uid session (fold (\<lambda>((u, t), v) s. snd (put u t v s)) settings s) =
     (if uid = G_MAXUINT then None
      else case map_of (rev settings) (uid, session) of None \<Rightarrow> look uid session s | Some v \<Rightarrow> Some v)"
proof (induction settings arbitrary: s)
  case Nil
  then show ?case by (simp add: look_unknown)
next
  case (Cons x settings)
  obtain u t v where x: "x = ((u, t), v)" by (metis surj_pair)
  show ?case
    using look_put [of u t v s] look_other [of uid session u t v s]
    by (cases "(u, t) = (uid, session)") (auto simp: x Cons.IH map_add_def split: option.splits)
qed

end

lemma find_map_key:
  "(\<And>r. P (f r) = P r) \<Longrightarrow> List.find P (map f rows) = map_option f (List.find P rows)"
  by (induction rows) auto

lemma find_in_append: "List.find P (xs @ ys) = (case List.find P xs of None \<Rightarrow> List.find P ys | Some x \<Rightarrow> Some x)"
  by (induction xs) auto

interpretation proxies: session_store
  "\<lambda>uid session (http, https, ftp, socks, no_proxy, pac).
     pk_transaction_db_set_proxy uid session http https ftp socks no_proxy pac"
  pk_transaction_db_get_proxy
proof unfold_locales
  fix uid session uid' session' v s
  show "pk_transaction_db_get_proxy uid session (snd ((case v of (http, https, ftp, socks, no_proxy, pac) \<Rightarrow>
      pk_transaction_db_set_proxy uid session http https ftp socks no_proxy pac) s)) = Some v" if "uid \<noteq> G_MAXUINT"
    using that
    by (cases v; cases "proxy_of uid session s")
      (auto simp: pk_transaction_db_set_proxy_def pk_transaction_db_get_proxy_def Let_def proxy_of_def find_map_key find_in_append
        dest: find_Some_in)
  show "pk_transaction_db_get_proxy uid session (snd ((case v of (http, https, ftp, socks, no_proxy, pac) \<Rightarrow>
      pk_transaction_db_set_proxy uid' session' http https ftp socks no_proxy pac) s)) =
      pk_transaction_db_get_proxy uid session s" if "(uid, session) \<noteq> (uid', session')"
    using that
    by (cases v; cases "proxy_of uid session s")
      (auto simp: pk_transaction_db_set_proxy_def pk_transaction_db_get_proxy_def Let_def proxy_of_def find_map_key find_in_append
        dest: find_Some_in)
qed (auto simp: pk_transaction_db_set_proxy_def pk_transaction_db_get_proxy_def Let_def split: prod.splits)

interpretation roots: session_store
  "\<lambda>uid session root. pk_transaction_db_set_root uid session root" pk_transaction_db_get_root
proof unfold_locales
  fix uid session uid' session' v s
  show "pk_transaction_db_get_root uid session (snd (pk_transaction_db_set_root uid session v s)) = Some v"
    if "uid \<noteq> G_MAXUINT"
    using that
    by (cases "root_of uid session s")
      (auto simp: pk_transaction_db_set_root_def pk_transaction_db_get_root_def Let_def root_of_def find_map_key find_in_append
        dest: find_Some_in)
  show "pk_transaction_db_get_root uid session (snd (pk_transaction_db_set_root uid' session' v s)) =
      pk_transaction_db_get_root uid session s" if "(uid, session) \<noteq> (uid', session')"
    using that
    by (cases "root_of uid session s")
      (auto simp: pk_transaction_db_set_root_def pk_transaction_db_get_root_def Let_def root_of_def find_map_key find_in_append
        dest: find_Some_in)
qed (auto simp: pk_transaction_db_set_root_def pk_transaction_db_get_root_def Let_def)

section \<open>Identifiers\<close>

text \<open>The number that is in the table is the last one, unless it is still to be saved.\<close>

definition count_saved :: "PkTransactionDb \<Rightarrow> bool" where
  "count_saved tdb \<longleftrightarrow> td_save_pending tdb \<or> tb_job_count (td_tables tdb) = Some (fmt_i (td_job_count tdb))"

datatype db_event = DBE_generate "nat \<Rightarrow> nat" | DBE_idle | DBE_restart "string option"

text \<open>A restart is one that finalizes the object first.\<close>

fun db_step :: "db_event \<Rightarrow> PkTransactionDb \<Rightarrow> string list \<times> PkTransactionDb" where
  "db_step (DBE_generate rand) tdb = (let (tid, tdb) = pk_transaction_db_generate_id rand tdb in ([tid], tdb))"
| "db_step DBE_idle tdb = ([], if td_save_pending tdb then pk_transaction_db_defer_write_job_count_cb tdb else tdb)"
| "db_step (DBE_restart old_file) tdb = ([], pk_transaction_db_init (pk_transaction_db_finalize tdb) old_file)"

fun db_run :: "db_event list \<Rightarrow> PkTransactionDb \<Rightarrow> string list \<times> PkTransactionDb" where
  "db_run [] tdb = ([], tdb)"
| "db_run (e # es) tdb =
     (let (tids, tdb) = db_step e tdb; (more, tdb) = db_run es tdb in (tids @ more, tdb))"

definition tid_of :: "guint \<Rightarrow> string \<Rightarrow> string" where
  "tid_of n r = ''/'' @ fmt_i n @ ''_'' @ r @ ''_data''"

lemma tid_of_inj: "tid_of m r = tid_of n s \<Longrightarrow> m = n"
proof -
  assume "tid_of m r = tid_of n s"
  then have eq: "fmt_i m @ CHR ''_'' # (r @ ''_data'') = fmt_i n @ CHR ''_'' # (s @ ''_data'')"
    by (simp add: tid_of_def)
  have "CHR ''_'' \<notin> set (fmt_i w)" for w
    using fmt_i_chars [of "CHR ''_''" w] by (auto simp: g_ascii_isdigit_def)
  then have no: "\<forall>c \<in> set (fmt_i w). c \<noteq> CHR ''_''" for w by metis
  have "takeWhile (\<lambda>c. c \<noteq> CHR ''_'') (fmt_i w @ CHR ''_'' # t) = fmt_i w" for w t
    using no [of w] by (simp add: takeWhile_append)
  with eq have "fmt_i m = fmt_i n" by metis
  then show "m = n" by (rule fmt_i_inj)
qed

fun generations :: "db_event list \<Rightarrow> nat" where
  "generations [] = 0"
| "generations (DBE_generate r # es) = Suc (generations es)"
| "generations (_ # es) = generations es"

lemma restart_count:
  assumes "count_saved tdb" and "unat (td_job_count tdb) < 2 ^ 31"
  shows "count_saved (pk_transaction_db_init (pk_transaction_db_finalize tdb) old_file)"
    and "td_job_count (pk_transaction_db_init (pk_transaction_db_finalize tdb) old_file) = td_job_count tdb"
  using assms
  by (auto simp: count_saved_def pk_transaction_db_init_def pk_transaction_db_finalize_def Let_def
      pk_transaction_db_defer_write_job_count_cb_def pk_transaction_sqlite_job_id_cb_def strtouint_fmt_i)

lemma db_run_ids:
  assumes "count_saved tdb" and "unat (td_job_count tdb) + generations es < 2 ^ 31"
  shows "\<exists>ns. distinct ns \<and> (\<forall>n \<in> set ns. unat (td_job_count tdb) < unat n) \<and>
    list_all2 (\<lambda>tid n. \<exists>r. tid = tid_of n r) (fst (db_run es tdb)) ns"
  using assms
proof (induction es arbitrary: tdb)
  case Nil
  then show ?case by (intro exI [of _ "[]"]) simp
next
  case (Cons e es)
  show ?case
  proof (cases e)
    case (DBE_generate rand)
    let ?n = "td_job_count tdb + 1"
    obtain tid tdb' where g: "pk_transaction_db_generate_id rand tdb = (tid, tdb')" by force
    have tid: "\<exists>r. tid = tid_of ?n r" and c: "td_job_count tdb' = ?n" and s: "count_saved tdb'"
      using g by (auto simp: pk_transaction_db_generate_id_def Let_def tid_of_def count_saved_def)
    have n: "unat ?n = Suc (unat (td_job_count tdb))"
      using Cons.prems(2) DBE_generate unat_add_lem [of "td_job_count tdb" 1] by simp
    obtain ns where ns: "distinct ns" "\<forall>n \<in> set ns. unat ?n < unat n"
      "list_all2 (\<lambda>tid n. \<exists>r. tid = tid_of n r) (fst (db_run es tdb')) ns"
      using Cons.IH [OF s] Cons.prems(2) c n DBE_generate by auto
    then show ?thesis
      using tid n g by (intro exI [of _ "?n # ns"]) (auto simp: DBE_generate split: prod.splits)
  next
    case DBE_idle
    let ?tdb = "if td_save_pending tdb then pk_transaction_db_defer_write_job_count_cb tdb else tdb"
    have "count_saved ?tdb" "td_job_count ?tdb = td_job_count tdb"
      using Cons.prems(1) by (auto simp: count_saved_def pk_transaction_db_defer_write_job_count_cb_def)
    with Cons.IH [of ?tdb] Cons.prems(2) show ?thesis by (simp add: DBE_idle split: prod.splits)
  next
    case (DBE_restart f)
    have "unat (td_job_count tdb) < 2 ^ 31" using Cons.prems(2) by simp
    note r = restart_count [OF Cons.prems(1) this, of f]
    with Cons.IH [OF r(1)] Cons.prems(2) show ?thesis by (simp add: DBE_restart split: prod.splits)
  qed
qed

text \<open>C13: All transactions have identifiers of their own, over any number of restarts of the daemon, until
  two thousand million of them have been made.\<close>

theorem identifiers_distinct:
  assumes "count_saved tdb" and "unat (td_job_count tdb) + generations es < 2 ^ 31"
  shows "distinct (fst (db_run es tdb))"
proof -
  obtain ns where ns: "distinct ns" and tids: "list_all2 (\<lambda>tid n. \<exists>r. tid = tid_of n r) (fst (db_run es tdb)) ns"
    using db_run_ids [OF assms] by blast
  show ?thesis unfolding distinct_conv_nth
  proof (intro allI impI)
    fix i j assume ij: "i < length (fst (db_run es tdb))" "j < length (fst (db_run es tdb))" "i \<noteq> j"
    then have "ns ! i \<noteq> ns ! j" using ns tids by (simp add: nth_eq_iff_index_eq list_all2_lengthD)
    then show "fst (db_run es tdb) ! i \<noteq> fst (db_run es tdb) ! j"
      using list_all2_nthD [OF tids ij(1)] list_all2_nthD [OF tids ij(2)] tid_of_inj by metis
  qed
qed

text \<open>The tables of a fresh database, for the examples.\<close>

definition empty_tables :: tables where
  "empty_tables = \<lparr>tb_transactions = [], tb_last_action = [], tb_job_count = None, tb_proxy = [], tb_root = []\<rparr>"

definition example_rand :: "nat \<Rightarrow> nat" where
  "example_rand i = 97"

lemma identifiers_distinct_witness:
  "length (fst (db_run [DBE_generate example_rand, DBE_idle, DBE_restart None, DBE_generate example_rand]
     (pk_transaction_db_init empty_tables None))) = 2 \<and>
   distinct (fst (db_run [DBE_generate example_rand, DBE_idle, DBE_restart None, DBE_generate example_rand]
     (pk_transaction_db_init empty_tables None)))"
proof
  show "length (fst (db_run [DBE_generate example_rand, DBE_idle, DBE_restart None, DBE_generate example_rand]
     (pk_transaction_db_init empty_tables None))) = 2"
    by (simp add: pk_transaction_db_generate_id_def Let_def split: prod.splits)
  show "distinct (fst (db_run [DBE_generate example_rand, DBE_idle, DBE_restart None, DBE_generate example_rand]
     (pk_transaction_db_init empty_tables None)))"
    by (rule identifiers_distinct)
      (simp_all add: count_saved_def pk_transaction_db_init_def empty_tables_def)
qed

section \<open>History\<close>

text \<open>What a write of the daemon does to the database, with the time that is printed into it.\<close>

fun db_write ::
  "(string \<Rightarrow> tables \<Rightarrow> tables) \<Rightarrow> (string \<Rightarrow> int option) \<Rightarrow> (string \<Rightarrow> int) \<Rightarrow> string \<times> daemon_effect \<Rightarrow> PkTransactionDb \<Rightarrow> PkTransactionDb" where
  "db_write other parse seconds (now, DB_add tid) tdb = snd (pk_transaction_db_add other now tid tdb)"
| "db_write other parse seconds (now, DB_set_role tid role) tdb = snd (pk_transaction_db_set_role other tid role tdb)"
| "db_write other parse seconds (now, DB_set_uid tid uid) tdb = snd (pk_transaction_db_set_uid other tid uid tdb)"
| "db_write other parse seconds (now, DB_set_cmdline tid cmdline) tdb = snd (pk_transaction_db_set_cmdline other tid cmdline tdb)"
| "db_write other parse seconds (now, DB_set_data tid data) tdb = snd (pk_transaction_db_set_data other tid data tdb)"
| "db_write other parse seconds (now, DB_set_finished tid success runtime) tdb =
     snd (pk_transaction_db_set_finished other tid success runtime tdb)"
| "db_write other parse seconds (now, DB_action_time_reset role) tdb = snd (pk_transaction_db_action_time_reset parse (seconds now) now role tdb)"
| "db_write other parse seconds (now, _) tdb = tdb"

fun plain_write :: "string \<times> daemon_effect \<Rightarrow> bool" where
  "plain_write (now, DB_add tid) = (plain_text tid \<and> plain_text now)"
| "plain_write (now, DB_set_role tid role) = (plain_text tid \<and> role \<noteq> PK_ROLE_ENUM_LAST)"
| "plain_write (now, DB_set_uid tid uid) = plain_text tid"
| "plain_write (now, DB_set_cmdline tid cmdline) = (plain_text tid \<and> plain_text cmdline)"
| "plain_write (now, DB_set_data tid data) = (plain_text tid \<and> plain_data data)"
| "plain_write (now, DB_set_finished tid success runtime) = plain_text tid"
| "plain_write (now, _) = True"

text \<open>
  The history that the daemon means to keep: an object for each transaction. A user whose number has
  no sign bit is kept, any other becomes 0, and a duration of more than 43200 is 0.
\<close>

fun history_step ::
  "string \<times> daemon_effect \<Rightarrow> (string \<Rightarrow> past_item option) \<Rightarrow> string \<Rightarrow> past_item option" where
  "history_step (now, DB_add tid) h =
     (if h tid \<noteq> None then h
      else h(tid \<mapsto> \<lparr>pi_tid = Some tid, pi_timespec = Some now, pi_succeeded = False, pi_role = PK_ROLE_ENUM_UNKNOWN,
                     pi_duration = 0, pi_data = None, pi_uid = 0, pi_cmdline = None\<rparr>))"
| "history_step (now, DB_set_role tid role) h = h(tid := map_option (\<lambda>i. i\<lparr>pi_role := role\<rparr>) (h tid))"
| "history_step (now, DB_set_uid tid uid) h =
     h(tid := map_option (\<lambda>i. i\<lparr>pi_uid := if unat uid < 2 ^ 31 then uid else 0\<rparr>) (h tid))"
| "history_step (now, DB_set_cmdline tid cmdline) h = h(tid := map_option (\<lambda>i. i\<lparr>pi_cmdline := Some cmdline\<rparr>) (h tid))"
| "history_step (now, DB_set_data tid data) h = h(tid := map_option (\<lambda>i. i\<lparr>pi_data := Some data\<rparr>) (h tid))"
| "history_step (now, DB_set_finished tid success runtime) h =
     h(tid := map_option (\<lambda>i. i\<lparr>pi_succeeded := success, pi_duration := if runtime \<le> 43200 then runtime else 0\<rparr>) (h tid))"
| "history_step (now, _) h = h"

definition history :: "guint \<Rightarrow> PkTransactionDb \<Rightarrow> string \<Rightarrow> past_item option" where
  "history junk tdb tid =
     map_option (pk_transaction_sqlite_transaction_cb junk)
       (List.find (\<lambda>r. rw_transaction_id r = tid) (tb_transactions (td_tables tdb)))"

lemma find_update_rows:
  assumes "\<And>r. rw_transaction_id (f r) = rw_transaction_id r"
  shows "List.find (\<lambda>r. rw_transaction_id r = tid) (update_rows tid' f rows) =
    (if tid = tid' then map_option f (List.find (\<lambda>r. rw_transaction_id r = tid) rows)
     else List.find (\<lambda>r. rw_transaction_id r = tid) rows)"
  using assms by (induction rows) (auto simp: update_rows_def)

lemma role_read_back: "role \<noteq> PK_ROLE_ENUM_LAST \<Longrightarrow> pk_role_enum_from_string (Some (pk_role_enum_to_string role)) = role"
  unfolding enum_string_defs by (erule t_role.value_of_string)

lemma duration_read_back:
  "(case pk_strtouint (Some (fmt_i runtime)) of None \<Rightarrow> 0 | Some temp \<Rightarrow> if temp > 60 * 60 * 12 then 0 else temp) =
   (if runtime \<le> 43200 then runtime else 0)"
  by (auto simp: strtouint_fmt_i word_less_nat_alt word_le_nat_alt)

lemma strtouint_None: "pk_strtouint None = None"
  by (simp add: pk_strtouint_def pk_strtouint64_def)

lemma strtouint_bits: "pk_strtouint (Some ''0'') = Some 0" "pk_strtouint (Some ''1'') = Some 1"
proof -
  have "string_of_nat 0 = ''0''" "string_of_nat 1 = ''1''" by code_simp+
  then show "pk_strtouint (Some ''0'') = Some 0" "pk_strtouint (Some ''1'') = Some 1"
    using strtouint_fmt_i [of 0] strtouint_fmt_i [of 1] by (simp_all add: fmt_i_def string_of_int_def)
qed

abbreviation "past \<equiv> pk_transaction_sqlite_transaction_cb"

lemma past_of_update:
  "role \<noteq> PK_ROLE_ENUM_LAST \<Longrightarrow> past junk (r\<lparr>rw_role := Some (pk_role_enum_to_string role)\<rparr>) = (past junk r)\<lparr>pi_role := role\<rparr>"
  "past junk (r\<lparr>rw_uid := Some (fmt_i uid)\<rparr>) = (past junk r)\<lparr>pi_uid := if unat uid < 2 ^ 31 then uid else 0\<rparr>"
  "past junk (r\<lparr>rw_cmdline := Some cmdline\<rparr>) = (past junk r)\<lparr>pi_cmdline := Some cmdline\<rparr>"
  "past junk (r\<lparr>rw_data := Some data\<rparr>) = (past junk r)\<lparr>pi_data := Some data\<rparr>"
  "past junk (r\<lparr>rw_succeeded := Some (if success then ''1'' else ''0''), rw_duration := Some (fmt_i runtime)\<rparr>) =
    (past junk r)\<lparr>pi_succeeded := success, pi_duration := if runtime \<le> 43200 then runtime else 0\<rparr>"
  by (simp_all add: pk_transaction_sqlite_transaction_cb_def role_read_back strtouint_fmt_i strtouint_bits
      word_less_nat_alt word_le_nat_alt)

lemma history_update:
  assumes "\<And>r. past junk (f r) = g (past junk r)" and "\<And>r. rw_transaction_id (f r) = rw_transaction_id r"
  shows "history junk (tdb\<lparr>td_tables := (td_tables tdb)\<lparr>tb_transactions := update_rows tid f (tb_transactions (td_tables tdb))\<rparr>\<rparr>) =
    (history junk tdb)(tid := map_option g (history junk tdb tid))"
  by (rule ext) (simp add: history_def find_update_rows assms option.map_comp comp_def)

lemma history_add:
  "history junk (tdb\<lparr>td_tables := (td_tables tdb)\<lparr>tb_transactions :=
      statement_effect (SQL_add tid now) (tb_transactions (td_tables tdb))\<rparr>\<rparr>) =
    history_step (now, DB_add tid) (history junk tdb)"
proof (cases "tid \<in> rw_transaction_id ` set (tb_transactions (td_tables tdb))")
  case True
  then have "List.find (\<lambda>r. rw_transaction_id r = tid) (tb_transactions (td_tables tdb)) \<noteq> None"
    by (auto simp: find_None_iff)
  then have "history junk tdb tid \<noteq> None" by (auto simp: history_def)
  with True show ?thesis by (simp add: history_def)
next
  case False
  then have "List.find (\<lambda>r. rw_transaction_id r = tid) (tb_transactions (td_tables tdb)) = None"
    by (auto simp: find_None_iff)
  with False show ?thesis
    by (intro ext) (simp add: history_def find_in_append pk_transaction_sqlite_transaction_cb_def strtouint_None strtouint_bits
        split: option.split)
qed

lemmas db_call_defs = pk_transaction_db_add_def pk_transaction_db_set_role_def pk_transaction_db_set_uid_def
  pk_transaction_db_set_cmdline_def pk_transaction_db_set_data_def pk_transaction_db_set_finished_def

lemma statement_done:
  "plain_statement s \<Longrightarrow> pk_transaction_db_sql_statement other s tdb =
     tdb\<lparr>td_tables := (td_tables tdb)\<lparr>tb_transactions := statement_effect s (tb_transactions (td_tables tdb))\<rparr>\<rparr>"
  by (simp add: pk_transaction_db_sql_statement_def)

lemma history_unmoved: "tb_transactions (td_tables b) = tb_transactions (td_tables a) \<Longrightarrow> history junk b = history junk a"
  by (rule ext) (simp add: history_def)

lemma role_text_plain: "plain_text (pk_role_enum_to_string role)"
  by (induct role) code_simp+

lemma history_write:
  assumes "plain_write e"
  shows "history junk (db_write other parse seconds e tdb) = history_step e (history junk tdb)"
proof -
  obtain now w where e: "e = (now, w)" by (cases e)
  show ?thesis
  proof (cases w)
    case (DB_add tid)
    then show ?thesis
      using assms by (simp add: e pk_transaction_db_add_def statement_done history_add del: statement_effect.simps history_step.simps)
  next
    case (DB_action_time_reset role)
    then show ?thesis
      by (simp add: e) (rule history_unmoved, simp add: pk_transaction_db_action_time_reset_def Let_def)
  qed (use assms in \<open>simp_all add: e db_call_defs statement_done history_update past_of_update role_text_plain\<close>)
qed

definition row_keys :: "PkTransactionDb \<Rightarrow> string list" where
  "row_keys tdb = map rw_transaction_id (tb_transactions (td_tables tdb))"

lemma keys_of_update:
  "(\<And>r. rw_transaction_id (f r) = rw_transaction_id r) \<Longrightarrow> map rw_transaction_id (update_rows tid f rows) = map rw_transaction_id rows"
  by (simp add: update_rows_def)

lemma statement_keeps_keys:
  "distinct (map rw_transaction_id rows) \<Longrightarrow> distinct (map rw_transaction_id (statement_effect s rows))"
  by (cases s) (simp_all add: keys_of_update)

lemma write_keeps_keys: "\<lbrakk>plain_write e; distinct (row_keys tdb)\<rbrakk> \<Longrightarrow> distinct (row_keys (db_write other parse seconds e tdb))"
proof -
  assume plain: "plain_write e" and d: "distinct (row_keys tdb)"
  obtain now w where e: "e = (now, w)" by (cases e)
  show ?thesis
    using plain d
    by (cases w)
      (simp_all add: e db_call_defs statement_done role_text_plain row_keys_def statement_keeps_keys
        pk_transaction_db_action_time_reset_def Let_def del: statement_effect.simps)
qed

lemma ran_history: "distinct (row_keys tdb) \<Longrightarrow> ran (history junk tdb) = past junk ` set (tb_transactions (td_tables tdb))"
proof -
  assume d: "distinct (row_keys tdb)"
  have find: "List.find (\<lambda>r. rw_transaction_id r = rw_transaction_id x) rows = Some x"
    if "distinct (map rw_transaction_id rows)" "x \<in> set rows" for x rows
    using that by (induction rows) (auto simp: rev_image_eqI)
  show ?thesis
  proof
    show "ran (history junk tdb) \<subseteq> past junk ` set (tb_transactions (td_tables tdb))"
      by (auto simp: ran_def history_def dest!: find_Some_in)
    show "past junk ` set (tb_transactions (td_tables tdb)) \<subseteq> ran (history junk tdb)"
    proof
      fix i assume "i \<in> past junk ` set (tb_transactions (td_tables tdb))"
      then obtain x where x: "x \<in> set (tb_transactions (td_tables tdb))" "i = past junk x" by blast
      with find [OF _ x(1)] d have "history junk tdb (rw_transaction_id x) = Some i"
        by (simp add: history_def row_keys_def)
      then show "i \<in> ran (history junk tdb)" by (rule ranI)
    qed
  qed
qed

lemma history_writes:
  assumes "list_all plain_write es" and "distinct (row_keys tdb)"
  shows "history junk (fold (db_write other parse seconds) es tdb) = fold history_step es (history junk tdb)"
    and "distinct (row_keys (fold (db_write other parse seconds) es tdb))"
  using assms by (induction es arbitrary: tdb) (simp_all add: history_write write_keeps_keys)

text \<open>C6: The database implements the history of the daemon: after any writes for any transactions, in any
  order, none of whose texts has a quote, the list of old transactions has exactly the objects of the
  transactions that were added, each with the role, user, command, data and outcome that were written last.\<close>

theorem history_kept:
  assumes "list_all plain_write es" and "distinct (row_keys tdb)" and "\<And>rows. set (order rows) = set rows"
  shows "set (pk_transaction_db_get_list order junk 0 (fold (db_write other parse seconds) es tdb)) =
    ran (fold history_step es (history junk tdb))"
  using history_writes(1) [OF assms(1,2), of junk other parse seconds] history_writes(2) [OF assms(1,2), of other parse seconds] assms(3)
  by (simp add: pk_transaction_db_get_list_def Let_def flip: ran_history)

definition example_writes :: "(string \<times> daemon_effect) list" where
  "example_writes =
     [(''08:00'', DB_add ''/1''), (''08:00'', DB_set_role ''/1'' PK_ROLE_ENUM_INSTALL_PACKAGES), (''08:01'', DB_add ''/2''),
      (''08:00'', DB_set_uid ''/1'' 500), (''08:02'', DB_set_data ''/1'' ''installing''),
      (''08:03'', DB_set_finished ''/1'' True 43201)]"

definition example_past :: "past_item \<times> past_item" where
  "example_past =
     (\<lparr>pi_tid = Some ''/1'', pi_timespec = Some ''08:00'', pi_succeeded = True, pi_role = PK_ROLE_ENUM_INSTALL_PACKAGES,
       pi_duration = 0, pi_data = Some ''installing'', pi_uid = 500, pi_cmdline = None\<rparr>,
      \<lparr>pi_tid = Some ''/2'', pi_timespec = Some ''08:01'', pi_succeeded = False, pi_role = PK_ROLE_ENUM_UNKNOWN,
       pi_duration = 0, pi_data = None, pi_uid = 0, pi_cmdline = None\<rparr>)"

lemma example_past_history:
  "fold history_step example_writes Map.empty = [''/1'' \<mapsto> fst example_past, ''/2'' \<mapsto> snd example_past]"
  by (rule ext) (simp add: example_writes_def example_past_def)

lemma history_kept_witness:
  "set (pk_transaction_db_get_list id 0 0 (fold (db_write (\<lambda>_ tb. tb) (\<lambda>_. None) (\<lambda>_. 0)) example_writes
     (pk_transaction_db_init empty_tables None))) = {fst example_past, snd example_past}"
proof -
  have h: "history 0 (pk_transaction_db_init empty_tables None) = Map.empty"
    by (rule ext) (simp add: history_def pk_transaction_db_init_def empty_tables_def)
  have "list_all plain_write example_writes" by code_simp
  moreover have "distinct (row_keys (pk_transaction_db_init empty_tables None))"
    by (simp add: row_keys_def pk_transaction_db_init_def empty_tables_def)
  ultimately have "set (pk_transaction_db_get_list id 0 0 (fold (db_write (\<lambda>_ tb. tb) (\<lambda>_. None) (\<lambda>_. 0)) example_writes
     (pk_transaction_db_init empty_tables None))) = ran (fold history_step example_writes Map.empty)"
    unfolding h [symmetric] by (intro history_kept) simp_all
  then show ?thesis by (simp add: example_past_history insert_commute)
qed

text \<open>C25: Each session gets back the proxies and the root that were last set for it, whatever other users and
  sessions have set, and a user that could not be found out gets none.\<close>

theorem settings_kept:
  "pk_transaction_db_get_proxy uid session
     (fold (\<lambda>((u, t), http, https, ftp, socks, no_proxy, pac) tdb.
        snd (pk_transaction_db_set_proxy u t http https ftp socks no_proxy pac tdb)) proxies tdb) =
     (if uid = G_MAXUINT then None
      else case map_of (rev proxies) (uid, session) of
             None \<Rightarrow> pk_transaction_db_get_proxy uid session tdb | Some v \<Rightarrow> Some v) \<and>
   pk_transaction_db_get_root uid session
     (fold (\<lambda>((u, t), root) tdb. snd (pk_transaction_db_set_root u t root tdb)) roots tdb) =
     (if uid = G_MAXUINT then None
      else case map_of (rev roots) (uid, session) of
             None \<Rightarrow> pk_transaction_db_get_root uid session tdb | Some v \<Rightarrow> Some v)"
proof -
  have "(\<lambda>((u, t), http, https, ftp, socks, no_proxy, pac) tdb.
      snd (pk_transaction_db_set_proxy u t http https ftp socks no_proxy pac tdb)) =
    (\<lambda>((u, t), v) tdb. snd ((case v of (http, https, ftp, socks, no_proxy, pac) \<Rightarrow>
      pk_transaction_db_set_proxy u t http https ftp socks no_proxy pac) tdb))"
    by (intro ext) (auto split: prod.splits)
  then show ?thesis by (simp only: proxies.look_puts roots.look_puts)
qed

end
