(* ===== verification/PK_Engine.thy ===== *)
theory PK_Engine
  imports PK_Db_Laws PK_Daemon_Run
begin

text \<open>
  The object of the daemon on the bus (\<open>src/src/pk-engine.c\<close>): its methods and properties, the
  settings of sessions with the questions to PolicyKit, the delayed refresh after a change of the
  system, the signals, and the decision to exit (\<open>src/src/pk-main.c\<close>). The transactions it
  creates are those of \<open>PK_Daemon\<close>, its database that of \<open>PK_Transaction_Db\<close>.
\<close>

section \<open>State\<close>

datatype PkEngineError =
    PK_ENGINE_ERROR_DENIED | PK_ENGINE_ERROR_INVALID_STATE | PK_ENGINE_ERROR_REFUSED_BY_POLICY
  | PK_ENGINE_ERROR_CANNOT_SET_PROXY | PK_ENGINE_ERROR_CANNOT_SET_ROOT | PK_ENGINE_ERROR_NOT_SUPPORTED
  | PK_ENGINE_ERROR_CANNOT_ALLOCATE_TID | PK_ENGINE_ERROR_CANNOT_CHECK_AUTH | PK_ENGINE_ERROR_LAST

datatype engine_signal =
    ES_TransactionListChanged "string list"
  | ES_Changed
  | ES_PropertiesChanged string dbus_value
  | ES_RepoListChanged
  | ES_UpdatesChanged
  | ES_RestartSchedule

text \<open>An answer to a method call. The text of an error is \<open>None\<close> where it has the reason that the list gives.\<close>

datatype engine_reply =
    ER_none
  | ER_uint guint
  | ER_string string
  | ER_strings "string list"
  | ER_error PkEngineError "string option"

text \<open>What PolicyKit answers: an error, or whether the action is authorized and whether it could become so.\<close>

datatype polkit_result = POLKIT_ERROR string | POLKIT_RESULT bool bool

datatype engine_check = CHECK_proxy | CHECK_root

text \<open>A call is known by its number.\<close>

record PkEngineDbusState =
  es_check :: engine_check
  es_context :: nat
  es_sender :: string
  es_value1 :: "string option"
  es_value2 :: "string option"
  es_value3 :: "string option"
  es_value4 :: "string option"
  es_value5 :: "string option"
  es_value6 :: "string option"

datatype engine_source = SRC_state_changed

text \<open>
  \<open>en_timer\<close> is the time at which the timer was reset, in seconds. The pending questions, the
  answers, the signals and the request to quit are kept besides what the object has.
\<close>

record PkEngine =
  en_daemon :: daemon
  en_db :: PkTransactionDb
  en_timer :: nat
  en_notify_clients_of_upgrade :: bool
  en_shutdown_as_soon_as_possible :: bool
  en_using_hardcoded_proxy :: bool
  en_roles :: PkBitfield
  en_groups :: PkBitfield
  en_filters :: PkBitfield
  en_mime_types :: "string option"
  en_backend_name :: "string option"
  en_backend_description :: "string option"
  en_backend_author :: "string option"
  en_distro_id :: "string option"
  en_timeout_priority :: guint
  en_timeout_normal :: guint
  en_timeout_priority_id :: nat
  en_timeout_normal_id :: nat
  en_locked :: bool
  en_network_state :: PkNetworkEnum
  en_connection :: bool
  en_loop :: "engine_source main_loop"
  en_checks :: "PkEngineDbusState list"
  en_calls :: nat
  en_replies :: "(nat \<times> engine_reply) list"
  en_signals :: "engine_signal list"
  en_quit :: bool

text \<open>
  What the engine asks: the clock, the state of the network, PolicyKit without a user, random
  numbers, and for the database the time as a number and as a text.
\<close>

record engine_environment =
  ee_daemon :: environment
  ee_clock :: nat
  ee_network_state :: PkNetworkEnum
  ee_check_authorization :: "string \<Rightarrow> string \<Rightarrow> polkit_result"
  ee_rand :: "nat \<Rightarrow> nat"
  ee_parse :: "string \<Rightarrow> int option"
  ee_seconds :: int
  ee_present :: string
  ee_other :: "string \<Rightarrow> tables \<Rightarrow> tables"

section \<open>Signals\<close>

definition engine_emit :: "engine_signal \<Rightarrow> PkEngine \<Rightarrow> PkEngine" where
  "engine_emit s e = e\<lparr>en_signals := en_signals e @ [s]\<rparr>"

definition engine_reply :: "nat \<Rightarrow> engine_reply \<Rightarrow> PkEngine \<Rightarrow> PkEngine" where
  "engine_reply n r e = e\<lparr>en_replies := en_replies e @ [(n, r)]\<rparr>"

definition pk_engine_reset_timer :: "engine_environment \<Rightarrow> PkEngine \<Rightarrow> PkEngine" where
  "pk_engine_reset_timer env e = e\<lparr>en_timer := ee_clock env\<rparr>"

definition pk_engine_transaction_list_changed_cb :: "engine_environment \<Rightarrow> PkEngine \<Rightarrow> PkEngine" where
  "pk_engine_transaction_list_changed_cb env e =
     (let transaction_list = pk_transaction_list_get_array (en_daemon e);
          e = engine_emit (ES_TransactionListChanged transaction_list) e
      in pk_engine_reset_timer env e)"

definition pk_engine_emit_changed :: "PkEngine \<Rightarrow> PkEngine" where
  "pk_engine_emit_changed e = engine_emit ES_Changed e"

definition pk_engine_emit_property_changed :: "string \<Rightarrow> dbus_value \<Rightarrow> PkEngine \<Rightarrow> PkEngine" where
  "pk_engine_emit_property_changed property_name property_value e =
     (if \<not> en_connection e then e else engine_emit (ES_PropertiesChanged property_name property_value) e)"

definition pk_engine_notify_repo_list_changed_cb :: "PkEngine \<Rightarrow> PkEngine" where
  "pk_engine_notify_repo_list_changed_cb e = engine_emit ES_RepoListChanged e"

definition pk_engine_notify_updates_changed_cb :: "PkEngine \<Rightarrow> PkEngine" where
  "pk_engine_notify_updates_changed_cb e = engine_emit ES_UpdatesChanged e"

definition pk_engine_finished_cb :: "engine_environment \<Rightarrow> PkEngine \<Rightarrow> PkEngine" where
  "pk_engine_finished_cb env e = pk_engine_reset_timer env e"

definition pk_engine_emit_restart_schedule :: "PkEngine \<Rightarrow> PkEngine" where
  "pk_engine_emit_restart_schedule e = engine_emit ES_RestartSchedule e"

section \<open>Transactions\<close>

text \<open>
  What an operation of the daemon leaves for the engine: the signals of the list and of the
  notifier, and the writes to the database. They are handled when the operation has ended.
\<close>

fun engine_deliver :: "engine_environment \<Rightarrow> daemon_effect \<Rightarrow> PkEngine \<Rightarrow> PkEngine" where
  "engine_deliver env LIST_CHANGED e = pk_engine_transaction_list_changed_cb env e"
| "engine_deliver env NOTIFY_repo_list_changed e = pk_engine_notify_repo_list_changed_cb e"
| "engine_deliver env NOTIFY_updates_changed e = pk_engine_notify_updates_changed_cb e"
| "engine_deliver env w e =
     e\<lparr>en_db := db_write (ee_other env) (ee_parse env) (\<lambda>_. ee_seconds env) (ee_present env, w) (en_db e)\<rparr>"

definition engine_daemon :: "engine_environment \<Rightarrow> (daemon \<Rightarrow> daemon) \<Rightarrow> PkEngine \<Rightarrow> PkEngine" where
  "engine_daemon env f e =
     (let d = f (en_daemon e)
      in fold (engine_deliver env) (drop (length (d_effects (en_daemon e))) (d_effects d)) (e\<lparr>en_daemon := d\<rparr>))"

text \<open>The transactions look up their settings in the database of the engine.\<close>

definition engine_env :: "engine_environment \<Rightarrow> PkEngine \<Rightarrow> environment" where
  "engine_env env e = (ee_daemon env)
     \<lparr>db_get_proxy := (\<lambda>uid session. pk_transaction_db_get_proxy uid session (en_db e)),
      db_get_root := (\<lambda>uid session. map_option Some (pk_transaction_db_get_root uid session (en_db e)))\<rparr>"

section \<open>Refresh after a change\<close>

text \<open>The result is \<open>TRUE\<close> when the source stays.\<close>

definition pk_engine_state_changed_cb :: "engine_environment \<Rightarrow> PkEngine \<Rightarrow> bool \<times> PkEngine" where
  "pk_engine_state_changed_cb env e =
     (if ee_network_state env = PK_NETWORK_ENUM_OFFLINE then (True, e)
      else
        let e = e\<lparr>en_daemon := (en_daemon e)\<lparr>d_cache := pk_cache_invalidate (d_cache (en_daemon e))\<rparr>\<rparr>;
            e = pk_engine_notify_updates_changed_cb e;
            e = e\<lparr>en_timeout_priority_id := 0\<rparr>;
            e = e\<lparr>en_timeout_normal_id := 0\<rparr>;
            e = pk_engine_reset_timer env e
        in (False, e))"

definition pk_engine_get_seconds_idle :: "engine_environment \<Rightarrow> PkEngine \<Rightarrow> guint \<times> PkEngine" where
  "pk_engine_get_seconds_idle env e =
     (if pk_transaction_list_get_size (en_daemon e) \<noteq> 0 then (0, e)
      else if en_notify_clients_of_upgrade e then (G_MAXUINT, pk_engine_emit_restart_schedule e)
      else if en_shutdown_as_soon_as_possible e then (G_MAXUINT, e)
      else (of_nat (ee_clock env - en_timer e), e))"

text \<open>The main loop of the daemon polls this; the source stays unless it quits.\<close>

definition pk_main_timeout_check_cb :: "engine_environment \<Rightarrow> PkEngine \<Rightarrow> bool \<times> PkEngine" where
  "pk_main_timeout_check_cb env e =
     (let exit_idle_time = conf_guint (conf (ee_daemon env)) ''ShutdownTimeout'';
          (idle, e) = pk_engine_get_seconds_idle env e
      in if idle > exit_idle_time then (False, e\<lparr>en_quit := True\<rparr>) else (True, e))"

text \<open>An interrupt, and the timer of the options \<open>--timed-exit\<close> and \<open>--immediate-exit\<close>, end the loop at once.\<close>

definition pk_main_sigint_cb :: "PkEngine \<Rightarrow> bool \<times> PkEngine" where
  "pk_main_sigint_cb e = (False, e\<lparr>en_quit := True\<rparr>)"

definition timed_exit_cb :: "PkEngine \<Rightarrow> bool \<times> PkEngine" where
  "timed_exit_cb e = (False, e\<lparr>en_quit := True\<rparr>)"

section \<open>Proxies\<close>

definition engine_backend :: "(PkBackend \<Rightarrow> PkBackend) \<Rightarrow> PkEngine \<Rightarrow> PkEngine" where
  "engine_backend f e = e\<lparr>en_daemon := (en_daemon e)\<lparr>d_backend := f (d_backend (en_daemon e))\<rparr>\<rparr>"

text \<open>\<open>pk_backend_set_proxy\<close> and \<open>pk_backend_set_root\<close> never fail.\<close>

definition pk_engine_set_proxy_internal ::
  "engine_environment \<Rightarrow> string \<Rightarrow> string option \<Rightarrow> string option \<Rightarrow> string option \<Rightarrow> string option \<Rightarrow>
   string option \<Rightarrow> string option \<Rightarrow> PkEngine \<Rightarrow> bool \<times> PkEngine" where
  "pk_engine_set_proxy_internal env sender http https ftp socks no_proxy pac e =
     (let e = engine_backend (pk_backend_set_proxy http https ftp socks no_proxy pac) e;
          ret = True;
          uid = uid_of_sender (ee_daemon env) sender
      in if uid = G_MAXUINT then (ret, e)
         else (case session_of_sender (ee_daemon env) sender of
                 None \<Rightarrow> (ret, e)
               | Some session \<Rightarrow>
                   let (ret, db) = pk_transaction_db_set_proxy uid session http https ftp socks no_proxy pac (en_db e)
                   in (ret, e\<lparr>en_db := db\<rparr>)))"

definition pk_engine_action_obtain_proxy_authorization_finished_cb ::
  "engine_environment \<Rightarrow> polkit_result \<Rightarrow> PkEngineDbusState \<Rightarrow> PkEngine \<Rightarrow> PkEngine" where
  "pk_engine_action_obtain_proxy_authorization_finished_cb env result state e =
     (case result of
        POLKIT_ERROR message \<Rightarrow>
          engine_reply (es_context state) (ER_error PK_ENGINE_ERROR_CANNOT_SET_PROXY
            (Some (''setting the proxy failed, could not check for auth: '' @ message))) e
      | POLKIT_RESULT is_authorized is_challenge \<Rightarrow>
          if \<not> is_authorized then
            engine_reply (es_context state)
              (ER_error PK_ENGINE_ERROR_CANNOT_SET_PROXY (Some ''failed to obtain auth'')) e
          else if en_using_hardcoded_proxy e then engine_reply (es_context state) ER_none e
          else
            let (ret, e) = pk_engine_set_proxy_internal env (es_sender state) (es_value1 state) (es_value2 state)
                  (es_value3 state) (es_value4 state) (es_value5 state) (es_value6 state) e
            in if \<not> ret then
                 engine_reply (es_context state)
                   (ER_error PK_ENGINE_ERROR_CANNOT_SET_PROXY (Some ''setting the proxy failed'')) e
               else engine_reply (es_context state) ER_none e)"

definition pk_engine_is_proxy_unchanged ::
  "engine_environment \<Rightarrow> string \<Rightarrow> string option \<Rightarrow> string option \<Rightarrow> string option \<Rightarrow> string option \<Rightarrow>
   string option \<Rightarrow> string option \<Rightarrow> PkEngine \<Rightarrow> bool" where
  "pk_engine_is_proxy_unchanged env sender http https ftp socks no_proxy pac e =
     (let uid = uid_of_sender (ee_daemon env) sender
      in if uid = G_MAXUINT then False
         else (case session_of_sender (ee_daemon env) sender of
                 None \<Rightarrow> False
               | Some session \<Rightarrow>
                   (case pk_transaction_db_get_proxy uid session (en_db e) of
                      None \<Rightarrow> False
                    | Some (http_tmp, https_tmp, ftp_tmp, socks_tmp, no_proxy_tmp, pac_tmp) \<Rightarrow>
                        \<not> (http_tmp \<noteq> http \<or> https_tmp \<noteq> https \<or> ftp_tmp \<noteq> ftp \<or> socks_tmp \<noteq> socks \<or>
                           no_proxy_tmp \<noteq> no_proxy \<or> pac_tmp \<noteq> pac))))"

text \<open>\<open>n\<close> is the number of the call.\<close>

definition pk_engine_set_proxy ::
  "engine_environment \<Rightarrow> nat \<Rightarrow> string \<Rightarrow> string option \<Rightarrow> string option \<Rightarrow> string option \<Rightarrow> string option \<Rightarrow>
   string option \<Rightarrow> string option \<Rightarrow> PkEngine \<Rightarrow> PkEngine" where
  "pk_engine_set_proxy env n sender http https ftp socks no_proxy pac e =
     (let http = (if http = Some [] then None else http);
          ftp = (if ftp = Some [] then None else ftp)
      in if pk_strlen http 1024 = 1024 then
           engine_reply n (ER_error PK_ENGINE_ERROR_CANNOT_SET_PROXY (Some ''http proxy was too long'')) e
         else if pk_strlen ftp 1024 = 1024 then
           engine_reply n (ER_error PK_ENGINE_ERROR_CANNOT_SET_PROXY (Some ''ftp proxy was too long'')) e
         else if pk_engine_is_proxy_unchanged env sender http https ftp socks no_proxy pac e then
           engine_reply n ER_none e
         else
           let state = \<lparr>es_check = CHECK_proxy, es_context = n, es_sender = sender, es_value1 = http,
                 es_value2 = https, es_value3 = ftp, es_value4 = socks, es_value5 = no_proxy, es_value6 = pac\<rparr>;
               e = e\<lparr>en_checks := en_checks e @ [state]\<rparr>
           in pk_engine_reset_timer env e)"

section \<open>Roots\<close>

definition pk_engine_set_root_internal ::
  "engine_environment \<Rightarrow> string \<Rightarrow> string \<Rightarrow> PkEngine \<Rightarrow> bool \<times> PkEngine" where
  "pk_engine_set_root_internal env root sender e =
     (let e = engine_backend (pk_backend_set_root (Some root)) e;
          ret = True;
          uid = uid_of_sender (ee_daemon env) sender
      in if uid = G_MAXUINT then (ret, e)
         else (case session_of_sender (ee_daemon env) sender of
                 None \<Rightarrow> (ret, e)
               | Some session \<Rightarrow>
                   let (ret, db) = pk_transaction_db_set_root uid session root (en_db e)
                   in (ret, e\<lparr>en_db := db\<rparr>)))"

definition pk_engine_action_obtain_root_authorization_finished_cb ::
  "engine_environment \<Rightarrow> polkit_result \<Rightarrow> PkEngineDbusState \<Rightarrow> PkEngine \<Rightarrow> PkEngine" where
  "pk_engine_action_obtain_root_authorization_finished_cb env result state e =
     (case result of
        POLKIT_ERROR message \<Rightarrow>
          engine_reply (es_context state)
            (ER_error PK_ENGINE_ERROR_CANNOT_SET_ROOT (Some (''could not check for auth: '' @ message))) e
      | POLKIT_RESULT is_authorized is_challenge \<Rightarrow>
          if \<not> is_authorized then
            engine_reply (es_context state)
              (ER_error PK_ENGINE_ERROR_CANNOT_SET_ROOT (Some ''failed to obtain auth'')) e
          else
            let (ret, e) = pk_engine_set_root_internal env (or_empty (es_value1 state)) (es_sender state) e
            in if \<not> ret then
                 engine_reply (es_context state)
                   (ER_error PK_ENGINE_ERROR_CANNOT_SET_ROOT (Some ''setting the root failed'')) e
               else engine_reply (es_context state) ER_none e)"

definition pk_engine_is_root_unchanged :: "engine_environment \<Rightarrow> string \<Rightarrow> string \<Rightarrow> PkEngine \<Rightarrow> bool" where
  "pk_engine_is_root_unchanged env sender root e =
     (let uid = uid_of_sender (ee_daemon env) sender
      in if uid = G_MAXUINT then False
         else (case session_of_sender (ee_daemon env) sender of
                 None \<Rightarrow> False
               | Some session \<Rightarrow>
                   (case pk_transaction_db_get_root uid session (en_db e) of
                      None \<Rightarrow> False
                    | Some root_tmp \<Rightarrow> \<not> root_tmp \<noteq> root)))"

definition pk_engine_set_root :: "engine_environment \<Rightarrow> nat \<Rightarrow> string \<Rightarrow> string \<Rightarrow> PkEngine \<Rightarrow> PkEngine" where
  "pk_engine_set_root env n sender root e =
     (let root = (if root = [] then ''/'' else root)
      in if pk_strlen (Some root) 1024 = 1024 then
           engine_reply n (ER_error PK_ENGINE_ERROR_CANNOT_SET_ROOT (Some (''root was too long: '' @ root))) e
         else if hd root \<noteq> CHR ''/'' then
           engine_reply n (ER_error PK_ENGINE_ERROR_CANNOT_SET_ROOT (Some (''root is not absolute: '' @ root))) e
         else if pk_engine_is_root_unchanged env sender root e then engine_reply n ER_none e
         else if root = ''/'' then
           let (ret, e) = pk_engine_set_root_internal env root sender e
           in if ret then engine_reply n ER_none e
              else engine_reply n (ER_error PK_ENGINE_ERROR_CANNOT_SET_ROOT (Some ''setting the root failed'')) e
         else
           let state = \<lparr>es_check = CHECK_root, es_context = n, es_sender = sender, es_value1 = Some root,
                 es_value2 = None, es_value3 = None, es_value4 = None, es_value5 = None, es_value6 = None\<rparr>;
               e = e\<lparr>en_checks := en_checks e @ [state]\<rparr>
           in pk_engine_reset_timer env e)"

section \<open>Other questions\<close>

text \<open>The error of PolicyKit comes with the result \<open>unknown\<close>.\<close>

definition pk_engine_can_authorize_action_id ::
  "engine_environment \<Rightarrow> string \<Rightarrow> string \<Rightarrow> PkAuthorizeEnum \<times> string option" where
  "pk_engine_can_authorize_action_id env action_id sender =
     (case ee_check_authorization env sender action_id of
        POLKIT_ERROR message \<Rightarrow> (PK_AUTHORIZE_ENUM_UNKNOWN, Some message)
      | POLKIT_RESULT is_authorized is_challenge \<Rightarrow>
          (if is_authorized then PK_AUTHORIZE_ENUM_YES
           else if is_challenge then PK_AUTHORIZE_ENUM_INTERACTIVE
           else PK_AUTHORIZE_ENUM_NO, None))"

definition pk_engine_conf_file_changed_cb :: "PkEngine \<Rightarrow> PkEngine" where
  "pk_engine_conf_file_changed_cb e = e\<lparr>en_shutdown_as_soon_as_possible := True\<rparr>"

definition pk_engine_binary_file_changed_cb :: "PkEngine \<Rightarrow> PkEngine" where
  "pk_engine_binary_file_changed_cb e = e\<lparr>en_notify_clients_of_upgrade := True\<rparr>"

definition pk_engine_network_state_changed_cb :: "PkNetworkEnum \<Rightarrow> PkEngine \<Rightarrow> PkEngine" where
  "pk_engine_network_state_changed_cb network_state e =
     (if en_network_state e = network_state then e
      else
        let e = e\<lparr>en_network_state := network_state\<rparr>;
            e = pk_engine_emit_property_changed ''NetworkState'' (V_string (pk_network_enum_to_string network_state)) e
        in pk_engine_emit_changed e)"

section \<open>Properties\<close>

text \<open>The version is that of \<open>configure.ac\<close>. A name or list of types that is \<open>NULL\<close> gives no value.\<close>

definition pk_engine_daemon_get_property ::
  "engine_environment \<Rightarrow> string \<Rightarrow> PkEngine \<Rightarrow> dbus_value option \<times> PkEngine" where
  "pk_engine_daemon_get_property env property_name e =
     (let e = pk_engine_reset_timer env e
      in (if property_name = ''VersionMajor'' then Some (V_uint 0)
          else if property_name = ''VersionMinor'' then Some (V_uint 7)
          else if property_name = ''VersionMicro'' then Some (V_uint 4)
          else if property_name = ''BackendName'' then map_option V_string (en_backend_name e)
          else if property_name = ''BackendDescription'' then Some (V_string (or_empty (en_backend_description e)))
          else if property_name = ''BackendAuthor'' then Some (V_string (or_empty (en_backend_author e)))
          else if property_name = ''Roles'' then Some (V_string (pk_role_bitfield_to_string (en_roles e)))
          else if property_name = ''Groups'' then Some (V_string (pk_group_bitfield_to_string (en_groups e)))
          else if property_name = ''Filters'' then Some (V_string (pk_filter_bitfield_to_string (en_filters e)))
          else if property_name = ''MimeTypes'' then map_option V_string (en_mime_types e)
          else if property_name = ''Locked'' then Some (V_bool (en_locked e))
          else if property_name = ''NetworkState'' then Some (V_string (pk_network_enum_to_string (en_network_state e)))
          else if property_name = ''DistroId'' then Some (V_string (or_empty (en_distro_id e)))
          else None, e))"

section \<open>Methods\<close>

text \<open>The methods of the interface with their arguments.\<close>

datatype engine_method =
    EM_GetTimeSinceAction string
  | EM_GetDaemonState
  | EM_GetTid
  | EM_GetTransactionList
  | EM_SuggestDaemonQuit
  | EM_StateHasChanged string
  | EM_SetRoot string
  | EM_SetProxy string string string string string string
  | EM_CanAuthorize string

definition GetTid :: "engine_environment \<Rightarrow> nat \<Rightarrow> string \<Rightarrow> PkEngine \<Rightarrow> PkEngine" where
  "GetTid env n sender e =
     (let (data, db) = pk_transaction_db_generate_id (ee_rand env) (en_db e);
          e = e\<lparr>en_db := db\<rparr>;
          create = pk_transaction_list_create (engine_env env e) data (Some sender);
          ret = fst (create (en_daemon e));
          e = engine_daemon env (\<lambda>d. snd (create d)) e
      in if \<not> ret then engine_reply n (ER_error PK_ENGINE_ERROR_CANNOT_CHECK_AUTH None) e
         else engine_reply n (ER_string data) e)"

definition SuggestDaemonQuit :: "engine_environment \<Rightarrow> nat \<Rightarrow> PkEngine \<Rightarrow> PkEngine" where
  "SuggestDaemonQuit env n e =
     (let e = engine_daemon env (pk_transaction_list_cancel_background (engine_env env e)) e;
          size = pk_transaction_list_get_size (en_daemon e)
      in if size = 0 then engine_reply n ER_none (e\<lparr>en_quit := True\<rparr>)
         else engine_reply n ER_none (e\<lparr>en_shutdown_as_soon_as_possible := True\<rparr>))"

definition StateHasChanged :: "nat \<Rightarrow> string \<Rightarrow> PkEngine \<Rightarrow> PkEngine" where
  "StateHasChanged n reason e =
     (if en_timeout_priority_id e \<noteq> 0 then engine_reply n ER_none e
      else
        let is_priority = (reason \<noteq> ''resume'')
        in if \<not> is_priority \<and> en_timeout_normal_id e \<noteq> 0 then engine_reply n ER_none e
           else
             let e = (if is_priority \<and> en_timeout_normal_id e \<noteq> 0
                      then e\<lparr>en_loop := g_source_remove (en_timeout_normal_id e) (en_loop e), en_timeout_normal_id := 0\<rparr>
                      else e);
                 (i, m) = g_source_add SRC_state_changed (en_loop e);
                 e = e\<lparr>en_loop := m\<rparr>;
                 e = (if is_priority then e\<lparr>en_timeout_priority_id := i\<rparr> else e\<lparr>en_timeout_normal_id := i\<rparr>)
             in engine_reply n ER_none e)"

definition CanAuthorize :: "engine_environment \<Rightarrow> nat \<Rightarrow> string \<Rightarrow> string \<Rightarrow> PkEngine \<Rightarrow> PkEngine" where
  "CanAuthorize env n sender action_id e =
     (let (result_enum, error) = pk_engine_can_authorize_action_id env action_id sender
      in if result_enum = PK_AUTHORIZE_ENUM_UNKNOWN then
           engine_reply n (ER_error PK_ENGINE_ERROR_CANNOT_CHECK_AUTH
             (Some (''failed to check authorisation '' @ action_id @ '': '' @ or_empty error))) e
         else engine_reply n (ER_string (pk_authorize_type_enum_to_string result_enum)) e)"

definition pk_engine_daemon_method_call ::
  "engine_environment \<Rightarrow> nat \<Rightarrow> string \<Rightarrow> engine_method \<Rightarrow> PkEngine \<Rightarrow> PkEngine" where
  "pk_engine_daemon_method_call env n sender method e =
     (let e = pk_engine_reset_timer env e
      in case method of
           EM_GetTimeSinceAction role_text \<Rightarrow>
             engine_reply n (ER_uint (pk_transaction_db_action_time_since (ee_parse env) (ee_seconds env)
               (pk_role_enum_from_string (Some role_text)) (en_db e))) e
         | EM_GetDaemonState \<Rightarrow> engine_reply n (ER_string (pk_transaction_list_get_state (en_daemon e))) e
         | EM_GetTid \<Rightarrow> GetTid env n sender e
         | EM_GetTransactionList \<Rightarrow> engine_reply n (ER_strings (pk_transaction_list_get_array (en_daemon e))) e
         | EM_SuggestDaemonQuit \<Rightarrow> SuggestDaemonQuit env n e
         | EM_StateHasChanged reason \<Rightarrow> StateHasChanged n reason e
         | EM_SetRoot root \<Rightarrow> pk_engine_set_root env n sender root e
         | EM_SetProxy http https ftp socks no_proxy pac \<Rightarrow>
             pk_engine_set_proxy env n sender (Some http) (Some https) (Some ftp) (Some socks) (Some no_proxy) (Some pac) e
         | EM_CanAuthorize action_id \<Rightarrow> CanAuthorize env n sender action_id e)"

definition pk_engine_on_bus_acquired_cb :: "PkEngine \<Rightarrow> PkEngine" where
  "pk_engine_on_bus_acquired_cb e = e\<lparr>en_connection := True\<rparr>"

definition pk_engine_on_name_lost_cb :: "PkEngine \<Rightarrow> PkEngine" where
  "pk_engine_on_name_lost_cb e = e\<lparr>en_quit := True\<rparr>"

section \<open>Start and end\<close>

text \<open>
  The backend has been loaded and is locked here, which calls the plugin's \<open>init\<close>; \<open>name\<close>,
  \<open>description\<close> and \<open>author\<close> are what the plugin says of itself, and \<open>None\<close> is the end of the
  program by \<open>g_error\<close>. Files, plugins and the bus are outside.
\<close>

definition pk_engine_init ::
  "engine_environment \<Rightarrow> (PkBackend \<Rightarrow> PkBackend) \<Rightarrow> PkBackend \<Rightarrow> string option \<Rightarrow> string option \<Rightarrow> string option \<Rightarrow>
   string option \<Rightarrow> tables \<Rightarrow> string option \<Rightarrow> PkEngine option" where
  "pk_engine_init env init b name description author distro_id tb old_file =
     (let c = conf (ee_daemon env);
          (ret, b) = pk_backend_lock init b
      in if \<not> ret then None
         else
           let (roles, b) = pk_backend_get_roles b;
               http = pk_conf_get_string c ''ProxyHTTP'';
               https = pk_conf_get_string c ''ProxyHTTPS'';
               ftp = pk_conf_get_string c ''ProxyFTP'';
               socks = pk_conf_get_string c ''ProxySOCKS'';
               no_proxy = pk_conf_get_string c ''NoProxy'';
               pac = pk_conf_get_string c ''PAC'';
               b' = pk_backend_set_proxy http https ftp socks no_proxy pac b;
               b' = pk_backend_set_root (pk_conf_get_string c ''UseRoot'') b'
           in Some \<lparr>en_daemon = daemon_start b', en_db = pk_transaction_db_init tb old_file, en_timer = ee_clock env,
                    en_notify_clients_of_upgrade = False, en_shutdown_as_soon_as_possible = False,
                    en_using_hardcoded_proxy = (http \<noteq> None \<or> https \<noteq> None \<or> ftp \<noteq> None),
                    en_roles = roles, en_groups = pk_backend_get_groups b, en_filters = pk_backend_get_filters b,
                    en_mime_types = pk_backend_get_mime_types b, en_backend_name = name,
                    en_backend_description = description, en_backend_author = author, en_distro_id = distro_id,
                    en_timeout_priority = conf_guint c ''StateChangedTimeoutPriority'',
                    en_timeout_normal = conf_guint c ''StateChangedTimeoutNormal'',
                    en_timeout_priority_id = 0, en_timeout_normal_id = 0, en_locked = False,
                    en_network_state = ee_network_state env, en_connection = False, en_loop = main_loop_new,
                    en_checks = [], en_calls = 0, en_replies = [], en_signals = [], en_quit = False\<rparr>)"

definition pk_engine_finalize :: "(PkBackend \<Rightarrow> PkBackend) \<Rightarrow> PkEngine \<Rightarrow> PkEngine" where
  "pk_engine_finalize destroy e =
     (let e = engine_backend (\<lambda>b. snd (pk_backend_unlock destroy b)) e;
          e = (if en_timeout_priority_id e \<noteq> 0
               then e\<lparr>en_loop := g_source_remove (en_timeout_priority_id e) (en_loop e), en_timeout_priority_id := 0\<rparr> else e);
          e = (if en_timeout_normal_id e \<noteq> 0
               then e\<lparr>en_loop := g_source_remove (en_timeout_normal_id e) (en_loop e), en_timeout_normal_id := 0\<rparr> else e)
      in e\<lparr>en_db := (en_db e)\<lparr>td_tables := pk_transaction_db_finalize (en_db e), td_save_pending := False\<rparr>\<rparr>)"

section \<open>Histories\<close>

text \<open>
  What can happen to an engine: a call from the bus, PolicyKit's answer to the k-th open
  question, a timer, an event of the transactions, the write that the database has put off,
  the signals of the files, the network, the backend and the bus, the periodic check of the main
  loop, which is started if a timeout is configured, an interrupt, and the exit of the command
  line. A daemon that has been told to quit does nothing more.
\<close>

datatype engine_event =
    EE_method string engine_method
  | EE_get_property string
  | EE_answer nat polkit_result
  | EE_timer nat
  | EE_daemon daemon_event
  | EE_backend_finished
  | EE_db_idle
  | EE_network PkNetworkEnum
  | EE_conf_changed
  | EE_binary_changed
  | EE_bus_acquired
  | EE_name_lost
  | EE_check
  | EE_sigint
  | EE_timed_exit

definition engine_answer :: "engine_environment \<Rightarrow> polkit_result \<Rightarrow> PkEngineDbusState \<Rightarrow> PkEngine \<Rightarrow> PkEngine" where
  "engine_answer env result state e =
     (case es_check state of
        CHECK_proxy \<Rightarrow> pk_engine_action_obtain_proxy_authorization_finished_cb env result state e
      | CHECK_root \<Rightarrow> pk_engine_action_obtain_root_authorization_finished_cb env result state e)"

fun engine_step :: "engine_environment \<Rightarrow> engine_event \<Rightarrow> PkEngine \<Rightarrow> PkEngine option" where
  "engine_step env (EE_method sender method) e =
     Some (pk_engine_daemon_method_call env (en_calls e) sender method (e\<lparr>en_calls := Suc (en_calls e)\<rparr>))"
| "engine_step env (EE_get_property name) e = Some (snd (pk_engine_daemon_get_property env name e))"
| "engine_step env (EE_answer k result) e =
     (if k < length (en_checks e)
      then Some (engine_answer env result (en_checks e ! k) (e\<lparr>en_checks := take k (en_checks e) @ drop (Suc k) (en_checks e)\<rparr>))
      else None)"
| "engine_step env (EE_timer i) e =
     (if pending (en_loop e) i SRC_state_changed then
        let (keep, e) = pk_engine_state_changed_cb env e
        in Some (if keep then e else e\<lparr>en_loop := g_source_remove i (en_loop e)\<rparr>)
      else None)"
| "engine_step env (EE_daemon v) e =
     (case daemon_exec (engine_env env e) (en_daemon e) v of
        None \<Rightarrow> None
      | Some d \<Rightarrow> Some (engine_daemon env (\<lambda>_. d) e))"
| "engine_step env EE_backend_finished e = Some (pk_engine_finished_cb env e)"
| "engine_step env EE_db_idle e =
     (if td_save_pending (en_db e) then Some (e\<lparr>en_db := pk_transaction_db_defer_write_job_count_cb (en_db e)\<rparr>) else None)"
| "engine_step env (EE_network state) e = Some (pk_engine_network_state_changed_cb state e)"
| "engine_step env EE_conf_changed e = Some (pk_engine_conf_file_changed_cb e)"
| "engine_step env EE_binary_changed e = Some (pk_engine_binary_file_changed_cb e)"
| "engine_step env EE_bus_acquired e = Some (pk_engine_on_bus_acquired_cb e)"
| "engine_step env EE_name_lost e = Some (pk_engine_on_name_lost_cb e)"
| "engine_step env EE_check e =
     (if conf_guint (conf (ee_daemon env)) ''ShutdownTimeout'' \<noteq> 0
      then Some (snd (pk_main_timeout_check_cb env e)) else None)"
| "engine_step env EE_sigint e = Some (snd (pk_main_sigint_cb e))"
| "engine_step env EE_timed_exit e = Some (snd (timed_exit_cb e))"

fun engine_run :: "(engine_environment \<times> engine_event) list \<Rightarrow> PkEngine \<Rightarrow> PkEngine option" where
  "engine_run [] e = Some e"
| "engine_run ((env, v) # vs) e =
     (if en_quit e then None
      else case engine_step env v e of None \<Rightarrow> None | Some e \<Rightarrow> engine_run vs e)"

end
