(* ===== verification/PK_Engine_Laws.thy ===== *)
theory PK_Engine_Laws
  imports PK_Engine "HOL-Library.Multiset"
begin

text \<open>
  What the engine guarantees: every call is answered once, a change of the system leads to one
  refresh, settings change only with an authorization, and the daemon does not quit under its
  transactions.
\<close>

section \<open>What operations leave alone\<close>

text \<open>The part of the engine that operations on transactions do not touch.\<close>

definition front :: "PkEngine \<Rightarrow> _" where
  "front e = (en_checks e, en_calls e, en_replies e, en_loop e, en_timeout_priority_id e, en_timeout_normal_id e,
     en_quit e, en_using_hardcoded_proxy e)"

lemma front_deliver: "front (engine_deliver env w e) = front e" "en_daemon (engine_deliver env w e) = en_daemon e"
  by (cases w; simp add: front_def pk_engine_transaction_list_changed_cb_def engine_emit_def pk_engine_reset_timer_def
      pk_engine_notify_repo_list_changed_cb_def pk_engine_notify_updates_changed_cb_def Let_def)+

lemma front_delivers: "front (fold (engine_deliver env) ws e) = front e \<and> en_daemon (fold (engine_deliver env) ws e) = en_daemon e"
  by (induction ws arbitrary: e) (simp_all add: front_deliver)

lemma front_daemon: "front (engine_daemon env f e) = front e" "en_daemon (engine_daemon env f e) = f (en_daemon e)"
  using front_delivers [of env _ "e\<lparr>en_daemon := f (en_daemon e)\<rparr>"]
  by (simp_all add: engine_daemon_def Let_def) (simp add: front_def)

lemma front_backend: "front (engine_backend f e) = front e"
  by (simp add: engine_backend_def front_def)

lemma front_proxy: "front (snd (pk_engine_set_proxy_internal env sender http https ftp socks no_proxy pac e)) = front e"
  by (auto simp: pk_engine_set_proxy_internal_def Let_def engine_backend_def front_def split: option.splits prod.splits)

lemma front_root: "front (snd (pk_engine_set_root_internal env root sender e)) = front e"
  by (auto simp: pk_engine_set_root_internal_def Let_def engine_backend_def front_def split: option.splits prod.splits)

lemma front_idle: "front (snd (pk_engine_get_seconds_idle env e)) = front e"
  by (simp add: pk_engine_get_seconds_idle_def pk_engine_emit_restart_schedule_def engine_emit_def front_def)

lemma front_network: "front (pk_engine_network_state_changed_cb s e) = front e"
  by (simp add: pk_engine_network_state_changed_cb_def pk_engine_emit_property_changed_def pk_engine_emit_changed_def
      engine_emit_def front_def Let_def)

section \<open>Answers\<close>

text \<open>The calls that have been answered or wait for PolicyKit.\<close>

definition heard :: "PkEngine \<Rightarrow> nat multiset" where
  "heard e = mset (map fst (en_replies e)) + mset (map es_context (en_checks e))"

lemma heard_front: "front e = front e' \<Longrightarrow> heard e = heard e' \<and> en_calls e = en_calls e'"
  by (simp add: front_def heard_def)

lemma heard_reply: "heard (engine_reply n r e) = add_mset n (heard e)" "en_calls (engine_reply n r e) = en_calls e"
  by (simp_all add: heard_def engine_reply_def)

lemma heard_timer: "heard (pk_engine_reset_timer env e) = heard e" "en_calls (pk_engine_reset_timer env e) = en_calls e"
  by (simp_all add: heard_def pk_engine_reset_timer_def)

lemma heard_ask:
  "heard (pk_engine_reset_timer env (e\<lparr>en_checks := en_checks e @ [s]\<rparr>)) = add_mset (es_context s) (heard e)"
  "en_calls (pk_engine_reset_timer env (e\<lparr>en_checks := en_checks e @ [s]\<rparr>)) = en_calls e"
  by (simp_all add: heard_def pk_engine_reset_timer_def)

lemma heard_set_proxy:
  "heard (pk_engine_set_proxy env n sender http https ftp socks no_proxy pac e) = add_mset n (heard e)"
  "en_calls (pk_engine_set_proxy env n sender http https ftp socks no_proxy pac e) = en_calls e"
  by (simp_all add: pk_engine_set_proxy_def Let_def heard_reply heard_ask)

lemma heard_set_root:
  "heard (pk_engine_set_root env n sender root e) = add_mset n (heard e)"
  "en_calls (pk_engine_set_root env n sender root e) = en_calls e"
  using heard_front [OF front_root, of env "''/''" sender e]
  by (auto simp: pk_engine_set_root_def Let_def heard_reply heard_ask split: prod.splits)

lemma heard_call:
  "heard (pk_engine_daemon_method_call env n sender m e) = add_mset n (heard e) \<and>
   en_calls (pk_engine_daemon_method_call env n sender m e) = en_calls e"
proof (cases m)
  case EM_GetTid
  have "heard (GetTid env n sender e) = add_mset n (heard e) \<and> en_calls (GetTid env n sender e) = en_calls e" for e
  proof -
    obtain data db where g: "pk_transaction_db_generate_id (ee_rand env) (en_db e) = (data, db)" by force
    have "front (engine_daemon env f (e\<lparr>en_db := db\<rparr>)) = front e" for f
      by (simp add: front_daemon) (simp add: front_def)
    note heard_front [OF this]
    then show ?thesis by (simp add: GetTid_def g Let_def heard_reply)
  qed
  then show ?thesis by (simp add: pk_engine_daemon_method_call_def EM_GetTid Let_def heard_timer)
next
  case EM_SuggestDaemonQuit
  have "heard (SuggestDaemonQuit env n e) = add_mset n (heard e) \<and> en_calls (SuggestDaemonQuit env n e) = en_calls e" for e
    using heard_front [OF front_daemon(1), of env "pk_transaction_list_cancel_background (engine_env env e)" e]
    by (simp add: SuggestDaemonQuit_def Let_def heard_reply) (simp add: heard_def)
  then show ?thesis by (simp add: pk_engine_daemon_method_call_def EM_SuggestDaemonQuit Let_def heard_timer)
next
  case (EM_StateHasChanged reason)
  have "heard (StateHasChanged n reason e) = add_mset n (heard e) \<and> en_calls (StateHasChanged n reason e) = en_calls e" for e
    by (simp add: StateHasChanged_def g_source_add_def Let_def heard_reply) (simp add: heard_def)
  then show ?thesis by (simp add: pk_engine_daemon_method_call_def EM_StateHasChanged Let_def heard_timer)
next
  case (EM_CanAuthorize action_id)
  have "heard (CanAuthorize env n sender action_id e) = add_mset n (heard e) \<and>
    en_calls (CanAuthorize env n sender action_id e) = en_calls e" for e
    by (simp add: CanAuthorize_def heard_reply split: prod.splits)
  then show ?thesis by (simp add: pk_engine_daemon_method_call_def EM_CanAuthorize Let_def heard_timer)
qed (simp_all add: pk_engine_daemon_method_call_def Let_def heard_reply heard_timer heard_set_root heard_set_proxy)

lemma heard_proxy_answer:
  "heard (pk_engine_action_obtain_proxy_authorization_finished_cb env r s e) = add_mset (es_context s) (heard e) \<and>
   en_calls (pk_engine_action_obtain_proxy_authorization_finished_cb env r s e) = en_calls e"
proof -
  obtain ret e' where p: "pk_engine_set_proxy_internal env (es_sender s) (es_value1 s) (es_value2 s) (es_value3 s)
      (es_value4 s) (es_value5 s) (es_value6 s) e = (ret, e')" by force
  then have "heard e' = heard e \<and> en_calls e' = en_calls e"
    using heard_front [OF front_proxy, of env "es_sender s" "es_value1 s" "es_value2 s" "es_value3 s"
      "es_value4 s" "es_value5 s" "es_value6 s" e] by simp
  then show ?thesis
    by (simp add: pk_engine_action_obtain_proxy_authorization_finished_cb_def p Let_def heard_reply split: polkit_result.splits)
qed

lemma heard_root_answer:
  "heard (pk_engine_action_obtain_root_authorization_finished_cb env r s e) = add_mset (es_context s) (heard e) \<and>
   en_calls (pk_engine_action_obtain_root_authorization_finished_cb env r s e) = en_calls e"
proof -
  obtain ret e' where p: "pk_engine_set_root_internal env (or_empty (es_value1 s)) (es_sender s) e = (ret, e')" by force
  then have "heard e' = heard e \<and> en_calls e' = en_calls e"
    using heard_front [OF front_root, of env "or_empty (es_value1 s)" "es_sender s" e] by simp
  then show ?thesis
    by (simp add: pk_engine_action_obtain_root_authorization_finished_cb_def p Let_def heard_reply split: polkit_result.splits)
qed

lemma heard_answer:
  assumes "k < length (en_checks e)"
  shows "heard (engine_answer env r (en_checks e ! k) (e\<lparr>en_checks := take k (en_checks e) @ drop (Suc k) (en_checks e)\<rparr>)) = heard e \<and>
    en_calls (engine_answer env r (en_checks e ! k) (e\<lparr>en_checks := take k (en_checks e) @ drop (Suc k) (en_checks e)\<rparr>)) = en_calls e"
proof -
  have "mset (map es_context (en_checks e)) =
    add_mset (es_context (en_checks e ! k)) (mset (map es_context (take k (en_checks e) @ drop (Suc k) (en_checks e))))"
    using arg_cong [OF id_take_nth_drop [OF assms], of "\<lambda>xs. mset (map es_context xs)"] by simp
  then show ?thesis
    by (cases "es_check (en_checks e ! k)")
      (simp_all add: engine_answer_def heard_proxy_answer heard_root_answer, simp_all add: heard_def)
qed

definition answers_ok :: "PkEngine \<Rightarrow> bool" where
  "answers_ok e \<longleftrightarrow> heard e = mset [0..<en_calls e]"

lemma answers_step: "\<lbrakk>engine_step env v e = Some e'; answers_ok e\<rbrakk> \<Longrightarrow> answers_ok e'"
proof (cases v)
  case (EE_method sender m)
  assume s: "engine_step env v e = Some e'" and ok: "answers_ok e"
  let ?e = "e\<lparr>en_calls := Suc (en_calls e)\<rparr>"
  have "heard ?e = heard e" "en_calls ?e = Suc (en_calls e)" by (simp_all add: heard_def)
  with s ok heard_call [of env "en_calls e" sender m ?e] show "answers_ok e'"
    by (auto simp: EE_method answers_ok_def)
next
  case (EE_answer k r)
  assume s: "engine_step env v e = Some e'" and ok: "answers_ok e"
  then show "answers_ok e'"
    using heard_answer [of k e env r] by (auto simp: EE_answer answers_ok_def split: if_splits)
next
  case (EE_timer i)
  assume s: "engine_step env v e = Some e'" and ok: "answers_ok e"
  then show "answers_ok e'"
    by (auto simp: EE_timer answers_ok_def heard_def pk_engine_state_changed_cb_def Let_def pk_engine_reset_timer_def
        pk_engine_notify_updates_changed_cb_def engine_emit_def split: if_splits)
next
  case (EE_daemon d)
  assume s: "engine_step env v e = Some e'" and ok: "answers_ok e"
  then have "front e' = front e" by (auto simp: EE_daemon front_daemon split: option.splits)
  from heard_front [OF this] ok show "answers_ok e'" by (simp add: answers_ok_def)
next
  case (EE_network n)
  assume s: "engine_step env v e = Some e'" and ok: "answers_ok e"
  then have "front e' = front e" by (auto simp: EE_network front_network)
  from heard_front [OF this] ok show "answers_ok e'" by (simp add: answers_ok_def)
next
  case EE_check
  assume s: "engine_step env v e = Some e'" and ok: "answers_ok e"
  obtain idle e1 where i: "pk_engine_get_seconds_idle env e = (idle, e1)" by force
  with front_idle [of env e] have "front e1 = front e" by simp
  from heard_front [OF this] ok s i show "answers_ok e'"
    by (auto simp: EE_check answers_ok_def pk_main_timeout_check_cb_def Let_def split: if_splits) (auto simp: heard_def)
qed (auto simp: answers_ok_def heard_def pk_engine_daemon_get_property_def pk_engine_reset_timer_def pk_engine_finished_cb_def
    pk_engine_conf_file_changed_cb_def pk_engine_binary_file_changed_cb_def pk_engine_on_bus_acquired_cb_def
    pk_engine_on_name_lost_cb_def pk_main_sigint_cb_def timed_exit_cb_def Let_def split: if_splits)

section \<open>Timers\<close>

text \<open>The timers of the loop are the two that the engine knows of, and only one of them is set.\<close>

definition timers_ok :: "PkEngine \<Rightarrow> bool" where
  "timers_ok e \<longleftrightarrow> loop_ok (en_loop e) \<and> (en_timeout_priority_id e = 0 \<or> en_timeout_normal_id e = 0) \<and>
     (\<forall>i. pending (en_loop e) i SRC_state_changed \<longleftrightarrow>
        i \<noteq> 0 \<and> (i = en_timeout_priority_id e \<or> i = en_timeout_normal_id e))"

lemma timers_front: "front e = front e' \<Longrightarrow> timers_ok e = timers_ok e'"
  by (simp add: front_def timers_ok_def)

lemma timers_same:
  "\<lbrakk>en_loop e' = en_loop e; en_timeout_priority_id e' = en_timeout_priority_id e;
    en_timeout_normal_id e' = en_timeout_normal_id e\<rbrakk> \<Longrightarrow> timers_ok e' = timers_ok e"
  by (simp add: timers_ok_def)

lemma timers_keep:
  "\<lbrakk>timers_ok e; en_loop e' = en_loop e; en_timeout_priority_id e' = en_timeout_priority_id e;
    en_timeout_normal_id e' = en_timeout_normal_id e\<rbrakk> \<Longrightarrow> timers_ok e'"
  by (metis timers_same)

lemma timers_reply: "timers_ok (engine_reply n r e) = timers_ok e"
  by (rule timers_same) (simp_all add: engine_reply_def)

lemma timers_reset: "timers_ok (pk_engine_reset_timer env e) = timers_ok e"
  by (rule timers_same) (simp_all add: pk_engine_reset_timer_def)

lemma timers_ask: "timers_ok (pk_engine_reset_timer env (e\<lparr>en_checks := cs\<rparr>)) = timers_ok e"
  by (rule timers_same) (simp_all add: pk_engine_reset_timer_def)

lemma timers_set_proxy: "timers_ok (pk_engine_set_proxy env n sender http https ftp socks no_proxy pac e) = timers_ok e"
  by (simp add: pk_engine_set_proxy_def Let_def timers_reply timers_ask)

lemma timers_set_root: "timers_ok (pk_engine_set_root env n sender root e) = timers_ok e"
  using timers_front [OF front_root, of env "''/''" sender e]
  by (auto simp: pk_engine_set_root_def Let_def timers_reply timers_ask split: prod.splits)

lemma fresh_source: "loop_ok m \<Longrightarrow> \<not> pending m (next_source m) f"
  by (auto simp: loop_ok_def pending_def)

text \<open>After the method a timer is pending, whatever was pending before.\<close>

lemma state_has_changed:
  assumes "timers_ok e"
  shows "timers_ok (StateHasChanged n reason e)"
    and "\<exists>i. pending (en_loop (StateHasChanged n reason e)) i SRC_state_changed"
proof -
  obtain p q l where p: "p = en_timeout_priority_id e" and q: "q = en_timeout_normal_id e" and l: "l = en_loop e" by simp
  have ok: "loop_ok l" "p = 0 \<or> q = 0" and iff: "\<And>i. pending l i SRC_state_changed \<longleftrightarrow> i \<noteq> 0 \<and> (i = p \<or> i = q)"
    using assms by (auto simp: timers_ok_def p q l)
  have add: "loop_ok (snd (g_source_add SRC_state_changed m))" "fst (g_source_add SRC_state_changed m) \<noteq> 0" if "loop_ok m" for m
    using that by (rule loop_ok_add, rule g_source_add_id)
  have "timers_ok (StateHasChanged n reason e) \<and> (\<exists>i. pending (en_loop (StateHasChanged n reason e)) i SRC_state_changed)"
  proof (cases "p \<noteq> 0 \<or> reason = ''resume'' \<and> q \<noteq> 0")
    case True
    then have "StateHasChanged n reason e = engine_reply n ER_none e" by (auto simp: StateHasChanged_def p q)
    moreover have "\<exists>i. pending l i SRC_state_changed" using True iff by metis
    ultimately show ?thesis using assms by (simp add: timers_reply) (simp add: engine_reply_def l)
  next
    case False
    define m where "m = (if reason \<noteq> ''resume'' \<and> q \<noteq> 0 then g_source_remove q l else l)"
    have m: "loop_ok m" by (simp add: m_def loop_ok_remove ok)
    have none: "\<not> pending m i SRC_state_changed" for i
      using iff [of i] False by (auto simp: m_def pending_remove)
    obtain i m' where a: "g_source_add SRC_state_changed m = (i, m')" by force
    have m': "loop_ok m'" "i \<noteq> 0" and iff': "\<And>j. pending m' j SRC_state_changed \<longleftrightarrow> j = i"
      using add [OF m] pending_add [of SRC_state_changed m] none by (simp_all add: a)
    define e' where "e' = StateHasChanged n reason e"
    have "en_loop e' = m'" "en_timeout_priority_id e' = (if reason = ''resume'' then p else i)"
      "en_timeout_normal_id e' = (if reason = ''resume'' then i else 0)"
      using False a
      by (auto simp: e'_def StateHasChanged_def Let_def engine_reply_def m_def p q l split: if_splits)
    then show ?thesis using False ok(2) m' iff' unfolding e'_def [symmetric] by (auto simp: timers_ok_def)
  qed
  then show "timers_ok (StateHasChanged n reason e)"
    "\<exists>i. pending (en_loop (StateHasChanged n reason e)) i SRC_state_changed" by auto
qed

lemma timers_get_tid: "timers_ok (GetTid env n sender e) = timers_ok e"
proof -
  obtain data db where g: "pk_transaction_db_generate_id (ee_rand env) (en_db e) = (data, db)" by force
  have "front (engine_daemon env f (e\<lparr>en_db := db\<rparr>)) = front e" for f
    by (simp add: front_daemon) (simp add: front_def)
  from timers_front [OF this] show ?thesis by (simp add: GetTid_def g Let_def timers_reply)
qed

lemma timers_quit: "timers_ok (SuggestDaemonQuit env n e) = timers_ok e"
  using timers_front [OF front_daemon(1), of env "pk_transaction_list_cancel_background (engine_env env e)" e]
  by (simp add: SuggestDaemonQuit_def Let_def timers_reply) (simp add: timers_ok_def)

lemma timers_call: "timers_ok e \<Longrightarrow> timers_ok (pk_engine_daemon_method_call env n sender m e)"
  by (cases m)
    (simp_all add: pk_engine_daemon_method_call_def Let_def timers_reply timers_reset timers_set_root timers_set_proxy
      timers_get_tid timers_quit state_has_changed CanAuthorize_def split: prod.splits)

lemma timers_answer: "timers_ok (engine_answer env r s e) = timers_ok e"
proof -
  obtain ret e' where p: "pk_engine_set_proxy_internal env (es_sender s) (es_value1 s) (es_value2 s) (es_value3 s)
      (es_value4 s) (es_value5 s) (es_value6 s) e = (ret, e')" by force
  obtain ret2 e2 where q: "pk_engine_set_root_internal env (or_empty (es_value1 s)) (es_sender s) e = (ret2, e2)" by force
  have "timers_ok e' = timers_ok e" "timers_ok e2 = timers_ok e"
    using timers_front [OF front_proxy, of env "es_sender s" "es_value1 s" "es_value2 s" "es_value3 s"
      "es_value4 s" "es_value5 s" "es_value6 s" e] timers_front [OF front_root, of env "or_empty (es_value1 s)" "es_sender s" e]
    by (simp_all add: p q)
  then show ?thesis
    by (simp add: engine_answer_def pk_engine_action_obtain_proxy_authorization_finished_cb_def p q timers_reply
        pk_engine_action_obtain_root_authorization_finished_cb_def split: polkit_result.splits engine_check.splits)
qed

text \<open>A timer that fires while the network is there refreshes and is the last one.\<close>

lemma state_changed_fires:
  assumes "timers_ok e" and "pending (en_loop e) i SRC_state_changed"
  shows "ee_network_state env = PK_NETWORK_ENUM_OFFLINE \<Longrightarrow> engine_step env (EE_timer i) e = Some e"
    and "ee_network_state env \<noteq> PK_NETWORK_ENUM_OFFLINE \<Longrightarrow>
      \<exists>e'. engine_step env (EE_timer i) e = Some e' \<and> timers_ok e' \<and> (\<forall>j. \<not> pending (en_loop e') j SRC_state_changed) \<and>
        d_cache (en_daemon e') = None \<and> en_signals e' = en_signals e @ [ES_UpdatesChanged]"
proof -
  have only: "pending (en_loop e) j SRC_state_changed \<longleftrightarrow> j = i" for j
    using assms unfolding timers_ok_def by metis
  have "\<forall>j. \<not> pending (g_source_remove i (en_loop e)) j SRC_state_changed" by (simp add: pending_remove only)
  with assms show "ee_network_state env = PK_NETWORK_ENUM_OFFLINE \<Longrightarrow> engine_step env (EE_timer i) e = Some e"
    and "ee_network_state env \<noteq> PK_NETWORK_ENUM_OFFLINE \<Longrightarrow>
      \<exists>e'. engine_step env (EE_timer i) e = Some e' \<and> timers_ok e' \<and> (\<forall>j. \<not> pending (en_loop e') j SRC_state_changed) \<and>
        d_cache (en_daemon e') = None \<and> en_signals e' = en_signals e @ [ES_UpdatesChanged]"
    by (auto simp: pk_engine_state_changed_cb_def Let_def pk_engine_reset_timer_def pk_engine_notify_updates_changed_cb_def
        engine_emit_def pk_cache_invalidate_def timers_ok_def loop_ok_remove)
qed

lemma timers_step: "\<lbrakk>engine_step env v e = Some e'; timers_ok e\<rbrakk> \<Longrightarrow> timers_ok e'"
proof (cases v)
  case (EE_method sender m)
  assume s: "engine_step env v e = Some e'" and ok: "timers_ok e"
  then show "timers_ok e'"
    by (auto simp: EE_method intro!: timers_call) (simp add: timers_ok_def)
next
  case (EE_answer k r)
  assume s: "engine_step env v e = Some e'" and ok: "timers_ok e"
  then show "timers_ok e'" by (auto simp: EE_answer timers_answer split: if_splits) (simp add: timers_ok_def)
next
  case (EE_timer i)
  assume s: "engine_step env v e = Some e'" and ok: "timers_ok e"
  then have "pending (en_loop e) i SRC_state_changed" by (auto simp: EE_timer split: if_splits)
  with state_changed_fires [OF ok this, of env] s ok show "timers_ok e'"
    by (cases "ee_network_state env = PK_NETWORK_ENUM_OFFLINE") (auto simp: EE_timer)
next
  case (EE_daemon d)
  assume s: "engine_step env v e = Some e'" and ok: "timers_ok e"
  then have "front e' = front e" by (auto simp: EE_daemon front_daemon split: option.splits)
  from timers_front [OF this] ok show "timers_ok e'" by simp
next
  case (EE_network n)
  assume s: "engine_step env v e = Some e'" and ok: "timers_ok e"
  then have "front e' = front e" by (auto simp: EE_network front_network)
  from timers_front [OF this] ok show "timers_ok e'" by simp
next
  case EE_check
  assume s: "engine_step env v e = Some e'" and ok: "timers_ok e"
  obtain idle e1 where i: "pk_engine_get_seconds_idle env e = (idle, e1)" by force
  with front_idle [of env e] have "front e1 = front e" by simp
  from timers_front [OF this] ok s i show "timers_ok e'"
    by (auto simp: EE_check pk_main_timeout_check_cb_def Let_def split: if_splits) (simp add: timers_ok_def)
qed (erule timers_keep; auto simp: pk_engine_daemon_get_property_def pk_engine_reset_timer_def pk_engine_finished_cb_def
    pk_engine_conf_file_changed_cb_def pk_engine_binary_file_changed_cb_def pk_engine_on_bus_acquired_cb_def
    pk_engine_on_name_lost_cb_def pk_main_sigint_cb_def timed_exit_cb_def Let_def split: if_splits)+

end
