(* ===== verification/PK_Engine_Properties.thy ===== *)
theory PK_Engine_Properties
  imports PK_Engine_Laws
begin

text \<open>The theorems on the engine, over all its histories, and how its settings reach the transactions.\<close>

section \<open>Histories\<close>

lemma engine_run_keeps:
  assumes "\<And>env v e e'. \<lbrakk>engine_step env v e = Some e'; P e\<rbrakk> \<Longrightarrow> P e'" and "engine_run vs e = Some e'" and "P e"
  shows "P e'"
  using assms(2,3)
proof (induction vs arbitrary: e)
  case (Cons x vs)
  obtain env v where x: "x = (env, v)" by (cases x)
  with Cons.prems obtain e1 where "engine_step env v e = Some e1" "engine_run vs e1 = Some e'"
    by (auto split: if_splits option.splits)
  with Cons.IH [of e1] assms(1) Cons.prems(2) show ?case by blast
qed simp

lemma engine_run_append: "engine_run (vs @ ws) e = Option.bind (engine_run vs e) (engine_run ws)"
proof (induction vs arbitrary: e)
  case (Cons x vs)
  then show ?case by (cases x) (auto split: option.splits)
qed simp

lemma pending_new: "\<not> pending main_loop_new i f"
  by (simp add: pending_def main_loop_new_def)

lemma engine_starts_ok:
  "pk_engine_init env init b name description author distro_id tb old_file = Some e \<Longrightarrow> answers_ok e \<and> timers_ok e"
  by (auto simp: pk_engine_init_def Let_def answers_ok_def heard_def timers_ok_def loop_ok_new pending_new
      split: prod.splits if_splits)

text \<open>C5: In every history each method call on the engine is either waiting for PolicyKit or has been answered
  exactly once; no call is lost and none is answered twice.\<close>

theorem calls_answered_once:
  assumes "pk_engine_init env init b name description author distro_id tb old_file = Some e0"
    and "engine_run vs e0 = Some e"
  shows "mset (map fst (en_replies e)) + mset (map es_context (en_checks e)) = mset [0..<en_calls e]"
  using engine_run_keeps [of answers_ok, OF answers_step assms(2)] engine_starts_ok [OF assms(1)]
  by (simp add: answers_ok_def heard_def)

text \<open>C12: After the system is said to have changed exactly one timer is set; while there is no network it
  stays, and with a network it empties the cache of updates, tells the clients, and was the last one.\<close>

theorem change_refreshes_once:
  assumes "pk_engine_init env init b name description author distro_id tb old_file = Some e0"
    and "engine_run (vs @ [(now, EE_method sender (EM_StateHasChanged reason))]) e0 = Some e"
  shows "\<exists>i. (\<forall>j. pending (en_loop e) j SRC_state_changed \<longleftrightarrow> j = i) \<and>
    (\<forall>later. if ee_network_state later = PK_NETWORK_ENUM_OFFLINE then engine_step later (EE_timer i) e = Some e
      else \<exists>e'. engine_step later (EE_timer i) e = Some e' \<and> (\<forall>j. \<not> pending (en_loop e') j SRC_state_changed) \<and>
        d_cache (en_daemon e') = None \<and> en_signals e' = en_signals e @ [ES_UpdatesChanged])"
proof -
  obtain e1 where e1: "engine_run vs e0 = Some e1"
    and s: "engine_step now (EE_method sender (EM_StateHasChanged reason)) e1 = Some e"
    using assms(2) by (auto simp: engine_run_append Option.bind_eq_Some_conv split: if_splits option.splits)
  have ok: "timers_ok e1" using engine_run_keeps [of timers_ok, OF timers_step e1] engine_starts_ok [OF assms(1)] by simp
  let ?e = "pk_engine_reset_timer now (e1\<lparr>en_calls := Suc (en_calls e1)\<rparr>)"
  have "timers_ok ?e" by (rule timers_keep [OF ok]) (simp_all add: pk_engine_reset_timer_def)
  from state_has_changed [OF this, of "en_calls e1" reason] s obtain i
    where i: "pending (en_loop e) i SRC_state_changed" and oke: "timers_ok e"
    by (auto simp: pk_engine_daemon_method_call_def Let_def)
  then have "\<forall>j. pending (en_loop e) j SRC_state_changed \<longleftrightarrow> j = i" unfolding timers_ok_def by metis
  with state_changed_fires [OF oke i] show ?thesis by (intro exI [of _ i]) (simp, blast)
qed

section \<open>The end of the daemon\<close>

lemma quit_front: "front e = front e' \<Longrightarrow> en_quit e = en_quit e'"
  by (simp add: front_def)

lemma quit_parts:
  "en_quit (engine_reply n r e) = en_quit e" "en_daemon (engine_reply n r e) = en_daemon e"
  "en_quit (pk_engine_reset_timer env e) = en_quit e" "en_daemon (pk_engine_reset_timer env e) = en_daemon e"
  "en_quit (engine_daemon env f e) = en_quit e"
  using quit_front [OF front_daemon(1), of env f e]
  by (simp_all add: engine_reply_def pk_engine_reset_timer_def)

lemma quit_root: "en_quit (snd (pk_engine_set_root_internal env root sender e)) = en_quit e"
  by (rule quit_front [OF front_root])

lemma quit_call:
  "m \<noteq> EM_SuggestDaemonQuit \<Longrightarrow> en_quit (pk_engine_daemon_method_call env n sender m e) = en_quit e"
  using quit_root [of env "''/''" sender "pk_engine_reset_timer env e"]
  by (cases m) (auto simp: pk_engine_daemon_method_call_def Let_def quit_parts GetTid_def StateHasChanged_def CanAuthorize_def
      pk_engine_set_root_def pk_engine_set_proxy_def g_source_add_def split: prod.splits)

lemma quit_answer: "en_quit (engine_answer env r s e) = en_quit e"
proof -
  obtain ret e' where p: "pk_engine_set_proxy_internal env (es_sender s) (es_value1 s) (es_value2 s) (es_value3 s)
      (es_value4 s) (es_value5 s) (es_value6 s) e = (ret, e')" by force
  then have "en_quit e' = en_quit e"
    using quit_front [OF front_proxy, of env "es_sender s" "es_value1 s" "es_value2 s" "es_value3 s"
      "es_value4 s" "es_value5 s" "es_value6 s" e] by simp
  then show ?thesis
    using quit_root [of env "or_empty (es_value1 s)" "es_sender s" e]
    by (auto simp: engine_answer_def pk_engine_action_obtain_proxy_authorization_finished_cb_def p quit_parts
        pk_engine_action_obtain_root_authorization_finished_cb_def split: polkit_result.splits engine_check.splits prod.splits)
qed

lemma quit_suggest:
  assumes "\<not> en_quit e" and "en_quit (SuggestDaemonQuit env n e)"
  shows "d_items (en_daemon (SuggestDaemonQuit env n e)) = []"
proof -
  define e1 where "e1 = engine_daemon env (pk_transaction_list_cancel_background (engine_env env e)) e"
  have q: "\<not> en_quit e1" using assms(1) by (simp add: e1_def quit_parts)
  have s: "SuggestDaemonQuit env n e =
    (if d_items (en_daemon e1) = [] then engine_reply n ER_none (e1\<lparr>en_quit := True\<rparr>)
     else engine_reply n ER_none (e1\<lparr>en_shutdown_as_soon_as_possible := True\<rparr>))"
    by (simp add: SuggestDaemonQuit_def Let_def e1_def pk_transaction_list_get_size_def)
  show ?thesis using assms(2) q unfolding s by (cases "d_items (en_daemon e1) = []") (simp_all add: quit_parts)
qed

definition idle_limit :: "engine_environment \<Rightarrow> guint" where
  "idle_limit env = conf_guint (conf (ee_daemon env)) ''ShutdownTimeout''"

lemma check_quits:
  "\<not> en_quit e \<Longrightarrow> en_quit (snd (pk_main_timeout_check_cb env e)) \<longleftrightarrow> d_items (en_daemon e) = [] \<and>
     (if en_notify_clients_of_upgrade e \<or> en_shutdown_as_soon_as_possible e then idle_limit env < G_MAXUINT
      else idle_limit env < of_nat (ee_clock env - en_timer e))"
  "en_daemon (snd (pk_main_timeout_check_cb env e)) = en_daemon e"
  by (auto simp: pk_main_timeout_check_cb_def pk_engine_get_seconds_idle_def idle_limit_def Let_def
      pk_transaction_list_get_size_def pk_engine_emit_restart_schedule_def engine_emit_def)

text \<open>C17: The daemon quits only when it has no transaction, unless it loses its name on the bus, is
  interrupted, or was started to exit after a time: these three end it whatever it is doing. The periodic check,
  which runs if a timeout is configured, makes it quit exactly when it has no transaction and either a
  reload is due or it has been idle for longer than configured.\<close>

theorem quits_only_when_empty:
  assumes "engine_step env v e = Some e'" and "\<not> en_quit e"
  shows "(en_quit e' \<longrightarrow> d_items (en_daemon e') = [] \<or> v \<in> {EE_name_lost, EE_sigint, EE_timed_exit}) \<and>
    (v \<in> {EE_name_lost, EE_sigint, EE_timed_exit} \<longrightarrow> en_quit e') \<and>
    (v = EE_check \<longrightarrow> (en_quit e' \<longleftrightarrow> d_items (en_daemon e) = [] \<and>
      (if en_notify_clients_of_upgrade e \<or> en_shutdown_as_soon_as_possible e then idle_limit env < G_MAXUINT
       else idle_limit env < of_nat (ee_clock env - en_timer e))))"
proof (cases v)
  case (EE_method sender m)
  show ?thesis
  proof (cases "m = EM_SuggestDaemonQuit")
    case True
    define e1 where "e1 = pk_engine_reset_timer env (e\<lparr>en_calls := Suc (en_calls e)\<rparr>)"
    have "e' = SuggestDaemonQuit env (en_calls e) e1"
      using assms(1) True by (simp add: EE_method pk_engine_daemon_method_call_def e1_def)
    with quit_suggest [where e = e1] assms(2) EE_method show ?thesis by (simp add: e1_def quit_parts)
  next
    case False
    with assms quit_call [OF False, of env "en_calls e" sender "e\<lparr>en_calls := Suc (en_calls e)\<rparr>"]
    show ?thesis by (auto simp: EE_method)
  qed
next
  case EE_check
  with assms check_quits(1) [of e env] check_quits(2) [of env e] show ?thesis by (auto split: if_splits)
next
  case (EE_network n)
  with assms quit_front [OF front_network, of n e] show ?thesis by auto
qed (use assms in \<open>auto simp: quit_answer quit_parts pk_engine_daemon_get_property_def pk_engine_state_changed_cb_def
    pk_engine_finished_cb_def pk_engine_notify_updates_changed_cb_def engine_emit_def
    pk_engine_conf_file_changed_cb_def pk_engine_binary_file_changed_cb_def pk_engine_on_bus_acquired_cb_def
    pk_engine_on_name_lost_cb_def pk_main_sigint_cb_def timed_exit_cb_def Let_def split: if_splits option.splits\<close>)

section \<open>Settings\<close>

text \<open>The tables of settings.\<close>

definition settings :: "PkEngine \<Rightarrow> proxy_row list \<times> root_row list" where
  "settings e = (tb_proxy (td_tables (en_db e)), tb_root (td_tables (en_db e)))"

definition proxies_of :: "guint \<Rightarrow> string \<Rightarrow> PkEngine \<Rightarrow>
  (string option \<times> string option \<times> string option \<times> string option \<times> string option \<times> string option) option" where
  "proxies_of uid session e = pk_transaction_db_get_proxy uid session (en_db e)"

definition root_set :: "guint \<Rightarrow> string \<Rightarrow> PkEngine \<Rightarrow> string option" where
  "root_set uid session e = pk_transaction_db_get_root uid session (en_db e)"

lemma settings_determine:
  "settings e = settings e' \<Longrightarrow> proxies_of uid session e = proxies_of uid session e' \<and> root_set uid session e = root_set uid session e'"
  by (simp add: settings_def proxies_of_def root_set_def pk_transaction_db_get_proxy_def proxy_of_def
      pk_transaction_db_get_root_def root_of_def)

lemma settings_deliver: "plain_write (ee_present env, w) \<Longrightarrow> settings (engine_deliver env w e) = settings e"
  by (cases w)
    (simp_all add: settings_def pk_engine_transaction_list_changed_cb_def engine_emit_def pk_engine_reset_timer_def Let_def
      pk_engine_notify_repo_list_changed_cb_def pk_engine_notify_updates_changed_cb_def db_call_defs statement_done
      role_text_plain pk_transaction_db_action_time_reset_def)

lemma settings_daemon:
  assumes "list_all (\<lambda>w. plain_write (ee_present env, w)) (drop (length (d_effects (en_daemon e))) (d_effects (f (en_daemon e))))"
  shows "settings (engine_daemon env f e) = settings e"
proof -
  have "list_all (\<lambda>w. plain_write (ee_present env, w)) ws \<Longrightarrow> settings (fold (engine_deliver env) ws e) = settings e" for ws e
    by (induction ws arbitrary: e) (simp_all add: settings_deliver)
  from this [OF assms, of "e\<lparr>en_daemon := f (en_daemon e)\<rparr>"] show ?thesis
    by (simp add: engine_daemon_def Let_def) (simp add: settings_def)
qed

lemma settings_parts:
  "settings (engine_reply n r e) = settings e" "settings (pk_engine_reset_timer env e) = settings e"
  "settings (pk_engine_reset_timer env (e\<lparr>en_checks := cs\<rparr>)) = settings e"
  "settings (e\<lparr>en_checks := cs\<rparr>) = settings e" "settings (e\<lparr>en_calls := m\<rparr>) = settings e"
  by (simp_all add: settings_def engine_reply_def pk_engine_reset_timer_def)

definition speaks_for :: "engine_environment \<Rightarrow> string \<Rightarrow> guint \<Rightarrow> string \<Rightarrow> bool" where
  "speaks_for env sender uid session \<longleftrightarrow>
     uid_of_sender (ee_daemon env) sender = uid \<and> session_of_sender (ee_daemon env) sender = Some session"

text \<open>What a setting changes: the row of its session, which then has the values.\<close>

lemma set_proxy_changes:
  assumes e'_def: "e' = snd (pk_engine_set_proxy_internal env sender http https ftp socks no_proxy pac e)"
  shows "root_set uid session e' = root_set uid session e"
    and "proxies_of uid session e' \<noteq> proxies_of uid session e \<Longrightarrow>
      speaks_for env sender uid session \<and> proxies_of uid session e' = Some (http, https, ftp, socks, no_proxy, pac)"
proof -
  let ?uid = "uid_of_sender (ee_daemon env) sender"
  have "settings e' = settings e" if "?uid = G_MAXUINT \<or> session_of_sender (ee_daemon env) sender = None"
    using that by (auto simp: e'_def pk_engine_set_proxy_internal_def Let_def engine_backend_def settings_def)
  moreover have "en_db e' = snd (pk_transaction_db_set_proxy ?uid t http https ftp socks no_proxy pac (en_db e))"
    if "?uid \<noteq> G_MAXUINT" "session_of_sender (ee_daemon env) sender = Some t" for t
    using that by (auto simp: e'_def pk_engine_set_proxy_internal_def Let_def engine_backend_def split: prod.splits)
  moreover have "root_set uid session e' = root_set uid session e" if "en_db e' = snd (pk_transaction_db_set_proxy u t http https ftp socks no_proxy pac (en_db e))" for u t
    by (simp add: that root_set_def pk_transaction_db_set_proxy_def Let_def pk_transaction_db_get_root_def root_of_def)
  ultimately have cases: "settings e' = settings e \<or>
      (\<exists>t. ?uid \<noteq> G_MAXUINT \<and> session_of_sender (ee_daemon env) sender = Some t \<and>
         en_db e' = snd (pk_transaction_db_set_proxy ?uid t http https ftp socks no_proxy pac (en_db e)) \<and>
         root_set uid session e' = root_set uid session e)"
    by (cases "session_of_sender (ee_daemon env) sender") blast+
  then show "root_set uid session e' = root_set uid session e"
    using settings_determine [of e' e uid session] by blast
  assume ch: "proxies_of uid session e' \<noteq> proxies_of uid session e"
  then obtain t where t: "?uid \<noteq> G_MAXUINT" "session_of_sender (ee_daemon env) sender = Some t"
    "en_db e' = snd (pk_transaction_db_set_proxy ?uid t http https ftp socks no_proxy pac (en_db e))"
    using cases settings_determine [of e' e uid session] by blast
  have "(uid, session) = (?uid, t)"
    using ch proxies.look_other [of uid session ?uid t "(http, https, ftp, socks, no_proxy, pac)" "en_db e"] t(3)
    by (auto simp: proxies_of_def)
  then show "speaks_for env sender uid session \<and> proxies_of uid session e' = Some (http, https, ftp, socks, no_proxy, pac)"
    using proxies.look_put [OF t(1), of t "(http, https, ftp, socks, no_proxy, pac)" "en_db e"] t
    by (simp add: speaks_for_def proxies_of_def)
qed

lemma set_root_changes:
  assumes e'_def: "e' = snd (pk_engine_set_root_internal env root sender e)"
  shows "proxies_of uid session e' = proxies_of uid session e"
    and "root_set uid session e' \<noteq> root_set uid session e \<Longrightarrow>
      speaks_for env sender uid session \<and> root_set uid session e' = Some root"
proof -
  let ?uid = "uid_of_sender (ee_daemon env) sender"
  have "settings e' = settings e" if "?uid = G_MAXUINT \<or> session_of_sender (ee_daemon env) sender = None"
    using that by (auto simp: e'_def pk_engine_set_root_internal_def Let_def engine_backend_def settings_def)
  moreover have "en_db e' = snd (pk_transaction_db_set_root ?uid t root (en_db e))"
    if "?uid \<noteq> G_MAXUINT" "session_of_sender (ee_daemon env) sender = Some t" for t
    using that by (auto simp: e'_def pk_engine_set_root_internal_def Let_def engine_backend_def split: prod.splits)
  moreover have "proxies_of uid session e' = proxies_of uid session e"
    if "en_db e' = snd (pk_transaction_db_set_root u t root (en_db e))" for u t
    by (simp add: that proxies_of_def pk_transaction_db_set_root_def Let_def pk_transaction_db_get_proxy_def proxy_of_def)
  ultimately have cases: "settings e' = settings e \<or>
      (\<exists>t. ?uid \<noteq> G_MAXUINT \<and> session_of_sender (ee_daemon env) sender = Some t \<and>
         en_db e' = snd (pk_transaction_db_set_root ?uid t root (en_db e)) \<and>
         proxies_of uid session e' = proxies_of uid session e)"
    by (cases "session_of_sender (ee_daemon env) sender") blast+
  then show "proxies_of uid session e' = proxies_of uid session e"
    using settings_determine [of e' e uid session] by blast
  assume ch: "root_set uid session e' \<noteq> root_set uid session e"
  then obtain t where t: "?uid \<noteq> G_MAXUINT" "session_of_sender (ee_daemon env) sender = Some t"
    "en_db e' = snd (pk_transaction_db_set_root ?uid t root (en_db e))"
    using cases settings_determine [of e' e uid session] by blast
  have "(uid, session) = (?uid, t)"
    using ch roots.look_other [of uid session ?uid t root "en_db e"] t(3) by (auto simp: root_set_def)
  then show "speaks_for env sender uid session \<and> root_set uid session e' = Some root"
    using roots.look_put [OF t(1), of t root "en_db e"] t by (simp add: speaks_for_def root_set_def)
qed

text \<open>The writes that the transactions have made in a step, none of which has a quote in its texts.\<close>

definition plain_writes :: "engine_environment \<Rightarrow> PkEngine \<Rightarrow> PkEngine \<Rightarrow> bool" where
  "plain_writes env e e' \<longleftrightarrow>
     list_all (\<lambda>w. plain_write (ee_present env, w)) (drop (length (d_effects (en_daemon e))) (d_effects (en_daemon e')))"

lemma settings_get_tid: "plain_writes env e (GetTid env n sender e) \<Longrightarrow> settings (GetTid env n sender e) = settings e"
proof -
  assume plain: "plain_writes env e (GetTid env n sender e)"
  obtain data db where g: "pk_transaction_db_generate_id (ee_rand env) (en_db e) = (data, db)" by force
  let ?e = "e\<lparr>en_db := db\<rparr>"
  let ?create = "pk_transaction_list_create (engine_env env ?e) data (Some sender)"
  have e': "\<exists>r. GetTid env n sender e = engine_reply n r (engine_daemon env (\<lambda>d. snd (?create d)) ?e)"
    by (auto simp: GetTid_def g Let_def)
  then have "settings (GetTid env n sender e) = settings (engine_daemon env (\<lambda>d. snd (?create d)) ?e)"
    by (auto simp: settings_parts)
  also have "\<dots> = settings ?e"
    using plain e' by (intro settings_daemon) (auto simp: plain_writes_def quit_parts front_daemon)
  also have "\<dots> = settings e" using g by (auto simp: settings_def pk_transaction_db_generate_id_def Let_def)
  finally show ?thesis .
qed

lemma settings_suggest: "plain_writes env e (SuggestDaemonQuit env n e) \<Longrightarrow> settings (SuggestDaemonQuit env n e) = settings e"
proof -
  assume plain: "plain_writes env e (SuggestDaemonQuit env n e)"
  let ?e = "engine_daemon env (pk_transaction_list_cancel_background (engine_env env e)) e"
  have "settings (SuggestDaemonQuit env n e) = settings ?e"
    by (simp add: SuggestDaemonQuit_def Let_def settings_parts) (simp add: settings_def)
  moreover have "en_daemon (SuggestDaemonQuit env n e) = en_daemon ?e"
    by (simp add: SuggestDaemonQuit_def Let_def quit_parts)
  ultimately show ?thesis using plain settings_daemon [of env e] by (simp add: plain_writes_def front_daemon)
qed

lemma settings_set_proxy: "settings (pk_engine_set_proxy env n sender http https ftp socks no_proxy pac e) = settings e"
  by (simp add: pk_engine_set_proxy_def Let_def settings_parts)

lemma set_root_outcome:
  "settings (pk_engine_set_root env n sender root e) = settings e \<or>
   root \<in> {'''', ''/''} \<and>
     (\<exists>r. pk_engine_set_root env n sender root e = engine_reply n r (snd (pk_engine_set_root_internal env ''/'' sender e)))"
  by (auto simp: pk_engine_set_root_def Let_def settings_parts split: prod.splits)

lemma settings_call:
  assumes "plain_writes env e (pk_engine_daemon_method_call env n sender m e)"
  shows "settings (pk_engine_daemon_method_call env n sender m e) = settings e \<or>
    (\<exists>root. m = EM_SetRoot root \<and> root \<in> {'''', ''/''} \<and>
      (\<exists>r e1. settings e1 = settings e \<and>
        pk_engine_daemon_method_call env n sender m e = engine_reply n r (snd (pk_engine_set_root_internal env ''/'' sender e1))))"
proof -
  let ?e = "pk_engine_reset_timer env e"
  have e: "settings ?e = settings e" by (simp add: settings_parts)
  have d: "en_daemon ?e = en_daemon e" by (simp add: quit_parts)
  show ?thesis
  proof (cases m)
    case EM_GetTid
    with assms settings_get_tid [of env ?e n sender] show ?thesis
      by (simp add: pk_engine_daemon_method_call_def e plain_writes_def d)
  next
    case EM_SuggestDaemonQuit
    with assms settings_suggest [of env ?e n] show ?thesis
      by (simp add: pk_engine_daemon_method_call_def e plain_writes_def d)
  next
    case (EM_SetRoot root)
    with set_root_outcome [of env n sender root ?e] e show ?thesis
      by (simp add: pk_engine_daemon_method_call_def) blast
  next
    case (EM_StateHasChanged reason)
    have "settings (StateHasChanged n reason e) = settings e" for e
      by (simp add: StateHasChanged_def Let_def g_source_add_def settings_parts) (simp add: settings_def)
    then show ?thesis by (simp add: pk_engine_daemon_method_call_def EM_StateHasChanged e)
  next
    case (EM_CanAuthorize action_id)
    have "settings (CanAuthorize env n sender action_id e) = settings e" for e
      by (simp add: CanAuthorize_def settings_parts split: prod.splits)
    then show ?thesis by (simp add: pk_engine_daemon_method_call_def EM_CanAuthorize e)
  qed (simp_all add: pk_engine_daemon_method_call_def Let_def settings_parts settings_set_proxy)
qed

lemma settings_answer:
  "settings (engine_answer env r s e) = settings e \<or>
   (\<exists>c x. r = POLKIT_RESULT True c \<and>
     (es_check s = CHECK_proxy \<and> \<not> en_using_hardcoded_proxy e \<and>
        engine_answer env r s e = engine_reply (es_context s) x (snd (pk_engine_set_proxy_internal env (es_sender s)
          (es_value1 s) (es_value2 s) (es_value3 s) (es_value4 s) (es_value5 s) (es_value6 s) e)) \<or>
      es_check s = CHECK_root \<and>
        engine_answer env r s e = engine_reply (es_context s) x
          (snd (pk_engine_set_root_internal env (or_empty (es_value1 s)) (es_sender s) e))))"
  by (cases r; cases "es_check s")
    (auto simp: engine_answer_def pk_engine_action_obtain_proxy_authorization_finished_cb_def
      pk_engine_action_obtain_root_authorization_finished_cb_def settings_parts Let_def split: prod.splits)

lemma settings_timer: "engine_step env (EE_timer i) e = Some e' \<Longrightarrow> settings e' = settings e"
  by (auto simp: pk_engine_state_changed_cb_def Let_def pk_engine_reset_timer_def pk_engine_notify_updates_changed_cb_def
      engine_emit_def settings_def split: if_splits)

lemma settings_check: "settings (snd (pk_main_timeout_check_cb env e)) = settings e"
  by (auto simp: pk_main_timeout_check_cb_def pk_engine_get_seconds_idle_def Let_def pk_engine_emit_restart_schedule_def
      engine_emit_def settings_def)

lemma settings_network: "settings (pk_engine_network_state_changed_cb s e) = settings e"
  by (simp add: pk_engine_network_state_changed_cb_def pk_engine_emit_property_changed_def pk_engine_emit_changed_def
      engine_emit_def settings_def Let_def)

lemma settings_unmoved:
  assumes "engine_step env v e = Some e'" and "plain_writes env e e'"
    and "\<And>sender m. v \<noteq> EE_method sender m" and "\<And>k r. v \<noteq> EE_answer k r"
  shows "settings e' = settings e"
proof (cases v)
  case (EE_daemon d)
  with assms(1,2) show ?thesis
    by (auto simp: plain_writes_def front_daemon settings_daemon split: option.splits)
next
  case (EE_timer i)
  with assms(1) show ?thesis by (simp only: settings_timer)
next
  case EE_check
  with assms(1) show ?thesis by (auto simp: settings_check split: if_splits)
qed (use assms in \<open>auto simp: settings_check settings_network settings_parts pk_engine_daemon_get_property_def
    pk_engine_finished_cb_def Let_def\<close>,
  auto simp: settings_def pk_transaction_db_defer_write_job_count_cb_def pk_engine_conf_file_changed_cb_def
    pk_engine_binary_file_changed_cb_def pk_engine_on_bus_acquired_cb_def pk_engine_on_name_lost_cb_def
    pk_main_sigint_cb_def timed_exit_cb_def split: if_splits)

text \<open>A method changes the root of a session at most, and only to the default one.\<close>

lemma settings_by_method:
  assumes "engine_step env (EE_method sender m) e = Some e'" and "plain_writes env e e'"
  shows "proxies_of uid session e' = proxies_of uid session e"
    and "root_set uid session e' \<noteq> root_set uid session e \<Longrightarrow> \<exists>root. m = EM_SetRoot root \<and> root \<in> {'''', ''/''} \<and>
      speaks_for env sender uid session \<and> root_set uid session e' = Some ''/''"
proof -
  let ?e = "e\<lparr>en_calls := Suc (en_calls e)\<rparr>"
  let ?set = "\<lambda>e. snd (pk_engine_set_root_internal env ''/'' sender e)"
  have "plain_writes env ?e (pk_engine_daemon_method_call env (en_calls e) sender m ?e)"
    using assms by (simp add: plain_writes_def)
  from settings_call [OF this] consider (same) "settings e' = settings e"
    | (root) root r e1 where "m = EM_SetRoot root" "root \<in> {'''', ''/''}" "settings e1 = settings e"
      "e' = engine_reply (en_calls e) r (?set e1)"
    using assms(1) by (auto simp: settings_parts)
  then have "proxies_of uid session e' = proxies_of uid session e \<and>
    (root_set uid session e' \<noteq> root_set uid session e \<longrightarrow> (\<exists>root. m = EM_SetRoot root \<and> root \<in> {'''', ''/''} \<and>
      speaks_for env sender uid session \<and> root_set uid session e' = Some ''/''))"
  proof cases
    case same
    with settings_determine [of e' e uid session] show ?thesis by simp
  next
    case root
    note ch = set_root_changes [OF refl, of uid session env "''/''" sender e1]
    from ch(1) settings_determine [OF root(3), of uid session]
      settings_determine [OF settings_parts(1) [of "en_calls e" r "?set e1"], of uid session] root(4)
    have "proxies_of uid session e' = proxies_of uid session e" "root_set uid session e' = root_set uid session (?set e1)"
      "root_set uid session e1 = root_set uid session e" by simp_all
    with ch(2) root show ?thesis by auto
  qed
  then show "proxies_of uid session e' = proxies_of uid session e"
    and "root_set uid session e' \<noteq> root_set uid session e \<Longrightarrow> \<exists>root. m = EM_SetRoot root \<and> root \<in> {'''', ''/''} \<and>
      speaks_for env sender uid session \<and> root_set uid session e' = Some ''/''" by auto
qed

text \<open>The consent to a question does what was asked for.\<close>

definition asked_proxies :: "PkEngineDbusState \<Rightarrow>
  string option \<times> string option \<times> string option \<times> string option \<times> string option \<times> string option" where
  "asked_proxies s = (es_value1 s, es_value2 s, es_value3 s, es_value4 s, es_value5 s, es_value6 s)"

lemma settings_by_answer:
  fixes env r s e
  assumes "e' = engine_answer env r s e"
  shows "proxies_of uid session e' \<noteq> proxies_of uid session e \<Longrightarrow> (\<exists>c. r = POLKIT_RESULT True c) \<and> es_check s = CHECK_proxy \<and>
      \<not> en_using_hardcoded_proxy e \<and> speaks_for env (es_sender s) uid session \<and> proxies_of uid session e' = Some (asked_proxies s)"
    and "root_set uid session e' \<noteq> root_set uid session e \<Longrightarrow> (\<exists>c. r = POLKIT_RESULT True c) \<and> es_check s = CHECK_root \<and>
      speaks_for env (es_sender s) uid session \<and> root_set uid session e' = Some (or_empty (es_value1 s))"
  using settings_answer [of env r s e] settings_determine [of e' e uid session]
    settings_determine [OF settings_parts(1), of uid session "es_context s"]
    set_proxy_changes [OF refl, of uid session env "es_sender s" "es_value1 s" "es_value2 s" "es_value3 s"
      "es_value4 s" "es_value5 s" "es_value6 s" e]
    set_root_changes [OF refl, of uid session env "or_empty (es_value1 s)" "es_sender s" e]
  by (auto simp: assms asked_proxies_def)

text \<open>C2: A step changes the proxies of a session only when it is PolicyKit's consent to the question that was
  asked for a sender of that session, and only if the administrator has set no proxy; it changes the root
  only with such a consent, or when a sender of that session asks for the default root. The session then
  has the values that were asked for. The texts that transactions write have no quotes.\<close>

theorem settings_need_authorization:
  assumes "engine_step env v e = Some e'" and "plain_writes env e e'"
  shows "(proxies_of uid session e' \<noteq> proxies_of uid session e \<longrightarrow>
      (\<exists>k c. v = EE_answer k (POLKIT_RESULT True c) \<and> es_check (en_checks e ! k) = CHECK_proxy \<and>
         \<not> en_using_hardcoded_proxy e \<and> speaks_for env (es_sender (en_checks e ! k)) uid session \<and>
         proxies_of uid session e' = Some (asked_proxies (en_checks e ! k)))) \<and>
    (root_set uid session e' \<noteq> root_set uid session e \<longrightarrow>
      (\<exists>k c. v = EE_answer k (POLKIT_RESULT True c) \<and> es_check (en_checks e ! k) = CHECK_root \<and>
         speaks_for env (es_sender (en_checks e ! k)) uid session \<and>
         root_set uid session e' = Some (or_empty (es_value1 (en_checks e ! k)))) \<or>
      (\<exists>sender root. v = EE_method sender (EM_SetRoot root) \<and> root \<in> {'''', ''/''} \<and>
         speaks_for env sender uid session \<and> root_set uid session e' = Some ''/''))"
proof (cases v)
  case (EE_method sender m)
  with settings_by_method [of env sender m e e' uid session] assms show ?thesis by auto
next
  case (EE_answer k r)
  define e1 where "e1 = e\<lparr>en_checks := take k (en_checks e) @ drop (Suc k) (en_checks e)\<rparr>"
  have "e' = engine_answer env r (en_checks e ! k) e1" using assms(1) by (simp add: EE_answer e1_def split: if_splits)
  moreover have "proxies_of uid session e1 = proxies_of uid session e" "root_set uid session e1 = root_set uid session e"
    "en_using_hardcoded_proxy e1 = en_using_hardcoded_proxy e"
    by (simp_all add: e1_def proxies_of_def root_set_def)
  ultimately show ?thesis
    using settings_by_answer [of e' env r "en_checks e ! k" e1 uid session] by (auto simp: EE_answer)
qed (use settings_unmoved [OF assms] settings_determine [of e' e uid session] in auto)

section \<open>The settings that a transaction runs with\<close>

definition be_proxies :: "PkBackend \<Rightarrow>
  string option \<times> string option \<times> string option \<times> string option \<times> string option \<times> string option" where
  "be_proxies b = (be_proxy_http b, be_proxy_https b, be_proxy_ftp b, be_proxy_socks b, be_no_proxy b, be_pac b)"

lemma backend_do_silent: "emitted (f (d_backend d)) = emitted (d_backend d) \<Longrightarrow> backend_do env f d = d\<lparr>d_backend := f (d_backend d)\<rparr>"
  by (simp add: backend_do_def new_signals_def Let_def)

text \<open>C19: A transaction of a session that has saved proxies runs with them, also when the administrator has set
  others; one that has none runs with those that the backend was left with, whosever they were; and the
  root is that of the session only if the session has saved proxies as well.\<close>

theorem session_settings_used:
  assumes "session_of_sender (ee_daemon env) (or_empty (tr_sender t)) = Some session"
    and "d' = snd (pk_transaction_set_session_state (engine_env env e) t (en_daemon e))"
  shows "be_proxies (d_backend d') =
      (case proxies_of (tr_uid t) session e of None \<Rightarrow> be_proxies (d_backend (en_daemon e)) | Some proxies \<Rightarrow> proxies) \<and>
    be_root (d_backend d') =
      (case proxies_of (tr_uid t) session e of
         None \<Rightarrow> be_root (d_backend (en_daemon e))
       | Some _ \<Rightarrow> (case root_set (tr_uid t) session e of
                     None \<Rightarrow> be_root (d_backend (en_daemon e)) | Some root \<Rightarrow> Some root))"
proof -
  have "session_of_sender (engine_env env e) = session_of_sender (ee_daemon env)"
    "db_get_proxy (engine_env env e) u s = proxies_of u s e"
    "db_get_root (engine_env env e) u s = map_option Some (root_set u s e)" for u s
    by (simp_all add: engine_env_def proxies_of_def root_set_def)
  with assms show ?thesis
    by (simp add: pk_transaction_set_session_state_def backend_do_silent pk_backend_set_proxy_def pk_backend_set_root_def
        pk_backend_set_uid_def pk_backend_set_cmdline_def be_proxies_def Let_def split: option.split)
qed

section \<open>Types of properties\<close>

text \<open>The interfaces say of each property which type it has: the files \<open>org.freedesktop.PackageKit*.xml\<close>.\<close>

fun dbus_type :: "dbus_value \<Rightarrow> string" where
  "dbus_type (V_uint _) = ''u''"
| "dbus_type (V_string _) = ''s''"
| "dbus_type (V_bool _) = ''b''"

definition daemon_interface :: "(string \<times> string) list" where
  "daemon_interface =
     [(''VersionMajor'', ''u''), (''VersionMinor'', ''u''), (''VersionMicro'', ''u''), (''BackendName'', ''s''),
      (''BackendDescription'', ''s''), (''BackendAuthor'', ''s''), (''Roles'', ''s''), (''Groups'', ''s''),
      (''Filters'', ''s''), (''MimeTypes'', ''s''), (''Locked'', ''b''), (''NetworkState'', ''s''), (''DistroId'', ''s'')]"

definition transaction_interface :: "(string \<times> string) list" where
  "transaction_interface =
     [(''Role'', ''s''), (''Status'', ''s''), (''LastPackage'', ''s''), (''Uid'', ''u''), (''Percentage'', ''u''),
      (''Subpercentage'', ''u''), (''AllowCancel'', ''b''), (''CallerActive'', ''b''), (''ElapsedTime'', ''u''),
      (''RemainingTime'', ''u''), (''Speed'', ''u'')]"

text \<open>C21: Reading a property of the daemon or of a transaction gives a value of exactly the type that the
  description of the interface declares, and a property that is not declared has no value.\<close>

theorem properties_typed:
  assumes "en_backend_name e \<noteq> None" and "en_mime_types e \<noteq> None"
  shows "map_option dbus_type (fst (pk_engine_daemon_get_property env name e)) = map_of daemon_interface name \<and>
    map_option dbus_type (pk_transaction_get_property name t) = map_of transaction_interface name"
proof
  have "map_option dbus_type (map_option V_string x) = Some ''s''" if "x \<noteq> None" for x using that by auto
  note none = this [OF assms(1)] this [OF assms(2)]
  show "map_option dbus_type (fst (pk_engine_daemon_get_property env name e)) = map_of daemon_interface name"
    using none by (simp add: pk_engine_daemon_get_property_def pk_engine_reset_timer_def daemon_interface_def Let_def)
  show "map_option dbus_type (pk_transaction_get_property name t) = map_of transaction_interface name"
    by (simp add: pk_transaction_get_property_def transaction_interface_def)
qed

end
