(* ===== verification/PK_Engine_Examples.thy ===== *)
theory PK_Engine_Examples
  imports PK_Engine_Properties
begin

text \<open>The theorems on the engine at a concrete one, whose client asks for a proxy.\<close>

definition example_engine_env :: engine_environment where
  "example_engine_env =
     \<lparr>ee_daemon = example_env\<lparr>session_of_sender := Some\<rparr>, ee_clock = 0, ee_network_state = PK_NETWORK_ENUM_ONLINE,
      ee_check_authorization = (\<lambda>sender action_id. POLKIT_RESULT True False), ee_rand = example_rand,
      ee_parse = (\<lambda>text. None), ee_seconds = 0, ee_present = ''now'', ee_other = (\<lambda>text tb. tb)\<rparr>"

definition example_engine :: PkEngine where
  "example_engine =
     the (pk_engine_init example_engine_env id example_daemon_backend (Some ''example'') None None None empty_tables None)"

lemma example_engine_computed:
  "let e = example_engine in
     \<not> en_quit e \<and> \<not> en_notify_clients_of_upgrade e \<and> \<not> en_shutdown_as_soon_as_possible e \<and>
     \<not> idle_limit example_engine_env < of_nat (ee_clock example_engine_env - en_timer e) \<and>
     en_backend_name e \<noteq> None \<and> en_mime_types e \<noteq> None"
  by code_simp

lemmas example_engine_facts = example_engine_computed [unfolded Let_def]

lemma example_engine_starts:
  "pk_engine_init example_engine_env id example_daemon_backend (Some ''example'') None None None empty_tables None =
     Some example_engine"
proof -
  have "be_desc example_daemon_backend \<noteq> None" by code_simp
  then have "fst (pk_backend_lock id example_daemon_backend)" by (simp add: pk_backend_lock_def Let_def)
  then show ?thesis by (auto simp: example_engine_def pk_engine_init_def Let_def split: prod.splits)
qed

definition example_ask :: "(engine_environment \<times> engine_event) list" where
  "example_ask =
     [(example_engine_env, EE_method '':1.1'' (EM_SetProxy ''http://p'' '''' '''' '''' '''' '''')),
      (example_engine_env, EE_method '':1.2'' EM_GetDaemonState)]"

definition example_asked :: PkEngine where
  "example_asked = the (engine_run example_ask example_engine)"

lemma example_asks: "engine_run example_ask example_engine = Some example_asked"
proof -
  have "engine_run example_ask example_engine \<noteq> None"
    using example_engine_facts by (simp add: example_ask_def quit_call)
  then show ?thesis by (auto simp: example_asked_def)
qed

lemma calls_answered_once_witness:
  "mset (map fst (en_replies example_asked)) + mset (map es_context (en_checks example_asked)) = mset [0..<en_calls example_asked]"
  by (rule calls_answered_once [OF example_engine_starts example_asks])

definition example_changed :: PkEngine where
  "example_changed =
     the (engine_run (example_ask @ [(example_engine_env, EE_method '':1.1'' (EM_StateHasChanged ''resume''))]) example_engine)"

lemma example_changes:
  "engine_run (example_ask @ [(example_engine_env, EE_method '':1.1'' (EM_StateHasChanged ''resume''))]) example_engine =
     Some example_changed"
proof -
  have "engine_run (example_ask @ [(example_engine_env, EE_method '':1.1'' (EM_StateHasChanged ''resume''))]) example_engine \<noteq> None"
    using example_engine_facts by (simp add: example_ask_def quit_call)
  then show ?thesis by (auto simp: example_changed_def)
qed

lemma change_refreshes_once_witness:
  "\<exists>i. (\<forall>j. pending (en_loop example_changed) j SRC_state_changed \<longleftrightarrow> j = i) \<and>
    (\<exists>e'. engine_step example_engine_env (EE_timer i) example_changed = Some e' \<and>
       (\<forall>j. \<not> pending (en_loop e') j SRC_state_changed) \<and> d_cache (en_daemon e') = None \<and>
       en_signals e' = en_signals example_changed @ [ES_UpdatesChanged])"
proof -
  have "ee_network_state example_engine_env \<noteq> PK_NETWORK_ENUM_OFFLINE" by (simp add: example_engine_env_def)
  with change_refreshes_once [OF example_engine_starts example_changes] show ?thesis by (auto split: if_splits)
qed

lemma quits_only_when_empty_witness:
  "\<exists>e'. engine_step example_engine_env EE_check example_engine = Some e' \<and> \<not> en_quit e'"
proof -
  have "conf_guint (conf (ee_daemon example_engine_env)) ''ShutdownTimeout'' \<noteq> 0" by code_simp
  then obtain e' where s: "engine_step example_engine_env EE_check example_engine = Some e'" by simp
  have q: "\<not> en_quit example_engine" using example_engine_facts by (elim conjE)
  have "\<not> en_quit e'" using quits_only_when_empty [OF s q] example_engine_facts by simp
  with s show ?thesis by blast
qed

text \<open>The consent to the first question.\<close>

definition example_consent :: PkEngine where
  "example_consent = the (engine_step example_engine_env (EE_answer 0 (POLKIT_RESULT True False)) example_asked)"

lemma example_consent_computed:
  "let a = example_asked; c = the (engine_step example_engine_env (EE_answer 0 (POLKIT_RESULT True False)) a) in
     length (en_checks a) = 1 \<and> plain_writes example_engine_env a c \<and>
     proxies_of 500 '':1.1'' a = None \<and> proxies_of 500 '':1.1'' c \<noteq> None \<and> proxies_of 501 '':1.2'' c = None \<and>
     be_proxies (d_backend (en_daemon c)) = (Some ''http://p'', Some '''', None, Some '''', Some '''', Some '''')"
  by code_simp

lemmas example_consent_facts = example_consent_computed [unfolded Let_def, folded example_consent_def]

lemma example_consents:
  "engine_step example_engine_env (EE_answer 0 (POLKIT_RESULT True False)) example_asked = Some example_consent"
  using example_consent_facts by (simp add: example_consent_def)

lemma settings_need_authorization_witness:
  "proxies_of 500 '':1.1'' example_consent \<noteq> proxies_of 500 '':1.1'' example_asked \<and>
   es_check (en_checks example_asked ! 0) = CHECK_proxy \<and> \<not> en_using_hardcoded_proxy example_asked \<and>
   speaks_for example_engine_env (es_sender (en_checks example_asked ! 0)) 500 '':1.1''"
proof -
  have plain: "plain_writes example_engine_env example_asked example_consent"
    using example_consent_facts by (elim conjE)
  have ch: "proxies_of 500 '':1.1'' example_consent \<noteq> proxies_of 500 '':1.1'' example_asked"
    using example_consent_facts by (elim conjE) simp
  with settings_need_authorization [OF example_consents plain, of 500 "'':1.1''"] show ?thesis by auto
qed

text \<open>The next transaction is one of a session that has saved nothing: it runs with the proxy of the other.\<close>

definition example_stranger :: PkTransaction where
  "example_stranger = (pk_transaction_new None)\<lparr>tr_sender := Some '':1.2'', tr_uid := 501\<rparr>"

lemma session_settings_used_witness:
  "be_proxies (d_backend (snd (pk_transaction_set_session_state (engine_env example_engine_env example_consent) example_stranger
     (en_daemon example_consent)))) = (Some ''http://p'', Some '''', None, Some '''', Some '''', Some '''')"
proof -
  have s: "session_of_sender (ee_daemon example_engine_env) (or_empty (tr_sender example_stranger)) = Some '':1.2''"
    by (simp add: example_engine_env_def example_stranger_def or_empty_def)
  have "tr_uid example_stranger = 501" by (simp add: example_stranger_def)
  with example_consent_facts show ?thesis using session_settings_used [OF s refl, of example_consent] by simp
qed

lemma properties_typed_witness:
  "map_option dbus_type (fst (pk_engine_daemon_get_property example_engine_env ''Locked'' example_engine)) = Some ''b'' \<and>
   map_option dbus_type (pk_transaction_get_property ''Uid'' example_stranger) = Some ''u''"
proof -
  have "en_backend_name example_engine \<noteq> None" "en_mime_types example_engine \<noteq> None"
    using example_engine_facts by - (elim conjE, assumption)+
  from properties_typed [OF this, of example_engine_env "''Locked''" example_stranger]
    properties_typed [OF this, of example_engine_env "''Uid''" example_stranger]
  show ?thesis by (simp add: daemon_interface_def transaction_interface_def)
qed

end
