(* ===== verification/Spec2Isabelle.thy ===== *)
theory Spec2Isabelle
  imports PK_Daemon_Clients PK_Helper_Properties PK_Task_Bounds PK_Client_Properties PK_Engine_Examples
begin

text \<open>
  PackageKit is a D-Bus service between applications that want software and the package manager of
  the system. This library models the path of a request, from the application to the plugin that
  does the work and back. All of it is C; files are named from the root of the repository, and
  \<open>glib2\<close> is \<open>src/lib/packagekit-glib2\<close>.

  How the parts work together. An application calls the task (\<open>glib2/pk-task.c\<close>), which simulates
  an action, asks the user and repeats the action after questions; each of its calls is one of the
  client (\<open>glib2/pk-client.c\<close>). The client asks the engine of the daemon (\<open>src/src/pk-engine.c\<close>)
  for the identifier of a transaction, sends hints, calls one method of the transaction and turns
  its signals into results. In the daemon a transaction (\<open>src/src/pk-transaction.c\<close>) checks the
  client and its texts, asks PolicyKit, and is committed to the list of transactions
  (\<open>src/src/pk-transaction-list.c\<close>), which runs one after the other. A run is one call of the
  backend object (\<open>src/src/pk-backend.c\<close>), which guards the loaded plugin; many plugins let a helper
  process do the work (\<open>src/src/pk-backend-spawn.c\<close>, \<open>src/src/pk-spawn.c\<close>). What the plugin reports
  goes back the same way. The database (\<open>src/src/pk-transaction-db.c\<close>) keeps the history, the
  settings of sessions and the count from which identifiers are made.
\<close>

section \<open>Theories\<close>

text \<open>
  Foundations. \<open>PK_Prelude\<close>: strings of C and GLib, generic lemmas and collections of facts.
  \<open>PK_Shared\<close>: \<open>pk-shared.c\<close>. \<open>PK_Main_Loop\<close>: sources of the GLib main loop by their ids.
  \<open>PK_Enum\<close>, \<open>PK_Bitfield\<close>, \<open>PK_Package_Id\<close>, \<open>PK_Store\<close>, \<open>PK_Conf\<close>: enumerations and their
  tables, sets of them in 64 bits, package identifiers, the key/value store, the configuration.
  \<open>PK_Results\<close>: the objects that are reported and the collection of them; packages that the client
  shares are in a heap.

  Backend. \<open>PK_Backend\<close> and \<open>PK_Backend_Calls\<close> hold the backend object, \<open>PK_Backend_Laws\<close> what its
  guards achieve over any list of events. \<open>PK_Spawn\<close> and \<open>PK_Backend_Spawn\<close> hold the helper process
  and the parser of its lines, \<open>PK_Spawn_Laws\<close>, \<open>PK_Helper_Laws\<close> and \<open>PK_Helper_Properties\<close> the
  protocol, the timers and the environment.

  Transactions. \<open>PK_Transaction\<close>, \<open>PK_Transaction_Reports\<close> and \<open>PK_Transaction_Checks\<close> are the
  parts that one transaction does alone; \<open>PK_Daemon\<close> has the state that all share, and
  \<open>PK_Transaction_List\<close>, \<open>PK_Transaction_Run\<close>, \<open>PK_Transaction_Control\<close> and
  \<open>PK_Transaction_Methods\<close> the operations on it. \<open>PK_Daemon_Steps\<close> makes a step relation of them.
  \<open>PK_List_Laws\<close>, \<open>PK_Daemon_Laws\<close>, \<open>PK_Control_Laws\<close> and \<open>PK_Method_Laws\<close> lift laws about the
  primitive changes to whole operations, in the locales \<open>daemon_relation\<close> and \<open>method_contract\<close>;
  \<open>PK_Scheduler\<close> has the abstract queue that the list implements, \<open>PK_Security\<close> the invariant
  behind authorization, \<open>PK_Daemon_Run\<close> an executable form of the steps, and
  \<open>PK_Daemon_Properties\<close> and \<open>PK_Daemon_Clients\<close> the theorems.

  Engine and database. \<open>PK_Transaction_Db\<close>: the tables and the statements. \<open>PK_Db_Laws\<close>: the
  history that the statements implement, the locale \<open>session_store\<close> with its two interpretations for
  proxies and roots, and identifiers over restarts. \<open>PK_Engine\<close>: the engine around the transactions and the
  database, with \<open>engine_step\<close> for everything that can happen to it. \<open>PK_Engine_Laws\<close>,
  \<open>PK_Engine_Properties\<close>, \<open>PK_Engine_Examples\<close>: its invariants and theorems, and a concrete engine.

  Library. \<open>PK_Progress\<close>, \<open>PK_Client\<close>, \<open>PK_Client_Signals\<close> and \<open>PK_Client_Run\<close> are the client with
  its pending operations, \<open>PK_Wire\<close> what the daemon reads from the bus; \<open>PK_Client_Laws\<close>,
  \<open>PK_Client_Steps\<close>, \<open>PK_Wire_Laws\<close> and \<open>PK_Client_Properties\<close> follow calls, hints and reports from
  one side to the other. \<open>PK_Client_Calls\<close> is what the objects above the client see of it.
  \<open>PK_Package_Sack\<close> and \<open>PK_Sack_Laws\<close>: collections of packages. \<open>PK_Task\<close>, \<open>PK_Task_Laws\<close>,
  \<open>PK_Task_Properties\<close> and \<open>PK_Task_Bounds\<close>: the task, whose requests have one token each.
\<close>

section \<open>Conventions\<close>

text \<open>
  A definition has the name of the function that it models. A structure is a record with the fields
  of the C structure behind a short prefix (\<open>be_\<close>, \<open>tr_\<close>, \<open>it_\<close>, \<open>d_\<close>, \<open>en_\<close>, \<open>td_\<close>, \<open>sp_\<close>, \<open>cl_\<close>,
  \<open>cs_\<close>, \<open>ts_\<close>, \<open>tk_\<close>); state is passed and returned. A \<open>guint\<close> is a word of 32 bits, a string the
  list of its bytes, \<open>NULL\<close> is \<open>None\<close>, an early return or a \<open>GError\<close> is a branch with its value.
  Signals, replies and calls of others are appended to a list of the record, so that theorems can
  speak about what has been said. A callback that the main loop or another process makes is an event;
  a history is any order of events that their guards allow. What the code only asks - the clock,
  PolicyKit, the bus, the file system, a plugin, the kernel, SQLite for a text that is not the
  statement that was meant - is an argument: \<open>environment\<close>, \<open>engine_environment\<close>, \<open>client_env\<close>,
  and the arguments of the functions in \<open>PK_Spawn\<close> and \<open>PK_Task\<close>.
\<close>

section \<open>What is shown\<close>

text \<open>
  Safety of the daemon: no call of the backend that needs an authorization without it, as long as each
  transaction is used for one method, and how a second method gets around it; settings of
  sessions change only with a consent; nobody is ever asked about cancelling the work of another
  user, although the policy has an action for it; states never go back; the
  list keeps its items, timers and transactions in step; the list refines a scheduler, and the two
  ways in which it lets two transactions run or forgets one.

  Reports: after an error nothing more leaves the backend; the exit code and \<open>Finished\<close> are said
  once; errors always finish the work, and so does a helper that ends, unless the exit type
  of an earlier one is left behind; a running helper is watched, but for a restart that fails;
  lines of helpers arrive as the calls they stand for, in whatever pieces they are read; reports
  and hints survive the bus, except the signature request, whose fields shift; each call of the
  client reaches its handler with its arguments.

  Bookkeeping: the database implements the history; identifiers are distinct over restarts; each call
  of the engine is answered once; a change of the system leads to one refresh; the daemon quits only
  without transactions, unless it loses its name, is interrupted or was started to exit; requests of a
  task settle once, and their calls are bounded; sorting, removing and merging of
  sacks; round trips of identifiers, bitfields and enumerations; types of properties.
\<close>

section \<open>Bounds\<close>

text \<open>
  \<open>exit_loop\<close> in \<open>PK_Spawn\<close> is the loop of 500 polls that the code has itself. The request counter of
  the task is bounded by the assumption that it has not come to its last number, and identifiers
  are distinct below 2 to the power of 31, where the number that is printed becomes negative. Other
  loops are recursions on lists or strings and end by themselves. Source ids are never used again
  in the model; GLib uses them again after more than four thousand million.
\<close>

section \<open>Not modelled\<close>

text \<open>
  The package manager backends under \<open>src/backends\<close> call libraries that are not in the repository; the
  backend object takes what they do as an argument. The plugins of the daemon (\<open>src/src/plugins\<close>) work
  around transactions with files and other processes. In the model they are functions in the
  environment that may change the whole daemon, each phase in one step; the theorems say what they
  assume of them: \<open>plugins_keep keeps\<close>, that they leave the list of transactions in order, or
  \<open>plugins_keep quiet\<close>, that they also call no method of the backend that needs an
  authorization, ask for none and start no transaction. They may clear the backend and call its
  queries, as those of the repository do; \<open>example_query\<close> in \<open>PK_Daemon_Properties\<close> is one of that kind.
  The detection of the network, the lookup of D-Bus callers, the system log and the scanning of
  processes are system interfaces whose answers are arguments; the estimate of the remaining
  time computes with floating point numbers. \<open>glib2/pk-control.c\<close> only passes the methods
  of the engine on; the synchronous variants run a main loop around the asynchronous calls; the
  helper client copies bytes between a socket and a process. Catalogs, service packs, the desktop
  database, the console and the command line programs read files, archives and terminals. The
  registration of objects on the bus, the loading of modules, monitors of files, and the GObject
  properties, types and references of all objects are left out.
\<close>

end
